(* ===== verification/Mep_Prelude.thy ===== *)
theory Mep_Prelude
  imports Main "HOL-Library.Word" "HOL-Library.Multiset" "HOL-Library.Code_Target_Nat"
begin

text \<open>
  What every component of the development shares: the errors a Go function
  returns (an \<open>error\<close> value or a panic), the functions of the packages
  \<open>strings\<close> and \<open>strconv\<close> the sources call, association lists for
  the Go maps whose content matters, the two kinds of arbitrary reordering the
  sources contain (map iteration and \<open>rand.Shuffle\<close>) and the theorem
  collections the component proofs are driven by.  A Go string is a list of
  bytes, that is of \<^typ>\<open>char\<close>.
\<close>

named_theorems go_simps \<open>evaluation of the modelled library functions\<close>
named_theorems store_simps \<open>what reads of a store give after writes to it\<close>
named_theorems inv_intros \<open>preservation of the component invariants\<close>

section \<open>Results\<close>

text \<open>A Go call ends with a value, with a non-nil \<open>error\<close>, or by a panic
  that unwinds to the nearest \<open>recover\<close>, or it exits the process
  (\<open>log.Fatal\<close>).\<close>

datatype go_error = Err string | Panic string | Fatal string

type_synonym 'a go_result = "go_error + 'a"

text \<open>\<open>err.Error()\<close>.\<close>

fun err_msg :: "go_error \<Rightarrow> string" where
  "err_msg (Err m) = m"
| "err_msg (Panic m) = m"
| "err_msg (Fatal m) = m"

fun is_ok :: "'a go_result \<Rightarrow> bool" where
  "is_ok (Inr _) = True"
| "is_ok (Inl _) = False"

fun is_panic :: "'a go_result \<Rightarrow> bool" where
  "is_panic (Inl (Panic _)) = True"
| "is_panic _ = False"

definition bind_res :: "'a go_result \<Rightarrow> ('a \<Rightarrow> 'b go_result) \<Rightarrow> 'b go_result" where
  "bind_res r f = (case r of Inl e \<Rightarrow> Inl e | Inr x \<Rightarrow> f x)"

lemma bind_res_simps [simp, go_simps]:
  "bind_res (Inl e) f = Inl e"
  "bind_res (Inr x) f = f x"
  by (simp_all add: bind_res_def)

lemma bind_res_eq_Inr:
  "bind_res r f = Inr y \<longleftrightarrow> (\<exists>x. r = Inr x \<and> f x = Inr y)"
  by (cases r) auto

lemma guard_eq_Inr: "(if P then Inl e else r) = Inr y \<longleftrightarrow> \<not> P \<and> r = Inr y"
  by simp

lemma is_ok_iff: "is_ok r \<longleftrightarrow> (\<exists>x. r = Inr x)"
  by (cases r) auto

section \<open>Strings\<close>

abbreviation newline :: string where "newline \<equiv> [CHR 0x0A]"

text \<open>\<open>strings.HasPrefix\<close> and \<open>strings.HasSuffix\<close>.\<close>

definition has_prefix :: "string \<Rightarrow> string \<Rightarrow> bool" where
  "has_prefix s p \<longleftrightarrow> take (length p) s = p"

definition has_suffix :: "string \<Rightarrow> string \<Rightarrow> bool" where
  "has_suffix s p \<longleftrightarrow> length p \<le> length s \<and> drop (length s - length p) s = p"

lemma has_prefix_append [simp]: "has_prefix (p @ s) p"
  by (simp add: has_prefix_def)

lemma has_prefix_refl [simp]: "has_prefix s s"
  by (simp add: has_prefix_def)

lemma has_prefix_Nil [simp]: "has_prefix s []"
  by (simp add: has_prefix_def)

lemma has_prefix_iff: "has_prefix s p \<longleftrightarrow> (\<exists>t. s = p @ t)"
proof
  assume "has_prefix s p"
  then have "s = p @ drop (length p) s"
    unfolding has_prefix_def by (metis append_take_drop_id)
  then show "\<exists>t. s = p @ t" ..
qed auto

lemma has_prefix_append_cancel [simp]: "has_prefix (p @ s) (p @ t) \<longleftrightarrow> has_prefix s t"
  by (auto simp: has_prefix_iff)

lemma has_suffix_iff: "has_suffix s p \<longleftrightarrow> (\<exists>t. s = t @ p)"
proof
  assume "has_suffix s p"
  then have "s = take (length s - length p) s @ p"
    unfolding has_suffix_def by (metis append_take_drop_id)
  then show "\<exists>t. s = t @ p" ..
qed (auto simp: has_suffix_def)

text \<open>\<open>strings.ToLower\<close> on ASCII text; bytes outside \<open>A..Z\<close> are
  kept.\<close>

definition char_lower :: "char \<Rightarrow> char" where
  "char_lower c = (if 65 \<le> (of_char c :: nat) \<and> (of_char c :: nat) \<le> 90
                   then char_of (of_char c + (32 :: nat)) else c)"

definition to_lower :: "string \<Rightarrow> string" where
  "to_lower s = map char_lower s"

lemma char_lower_idem [simp]: "char_lower (char_lower c) = char_lower c"
  by (auto simp: char_lower_def)

lemma to_lower_idem [simp]: "to_lower (to_lower s) = to_lower s"
  by (simp add: to_lower_def comp_def)

lemma length_to_lower [simp]: "length (to_lower s) = length s"
  by (simp add: to_lower_def)

lemma to_lower_append [simp]: "to_lower (s @ t) = to_lower s @ to_lower t"
  by (simp add: to_lower_def)

text \<open>\<open>strings.ContainsAny\<close>, \<open>strings.Split\<close> with a one-byte separator,
  and \<open>strings.Join\<close>.\<close>

definition contains_any :: "string \<Rightarrow> string \<Rightarrow> bool" where
  "contains_any s chars \<longleftrightarrow> list_ex (\<lambda>c. c \<in> set chars) s"

fun split_on :: "char \<Rightarrow> string \<Rightarrow> string list" where
  "split_on sep [] = [[]]"
| "split_on sep (c # s) =
     (if c = sep then [] # split_on sep s
      else (case split_on sep s of [] \<Rightarrow> [[c]] | w # ws \<Rightarrow> (c # w) # ws))"

fun join :: "string \<Rightarrow> string list \<Rightarrow> string" where
  "join sep [] = []"
| "join sep [w] = w"
| "join sep (w # v # ws) = w @ sep @ join sep (v # ws)"

lemma split_on_not_Nil [simp]: "split_on sep s \<noteq> []"
  by (induction s) (auto split: list.splits)

lemma join_split_on [simp]: "join [sep] (split_on sep s) = s"
proof (induction s)
  case (Cons c s)
  obtain w ws where "split_on sep s = w # ws"
    by (cases "split_on sep s") auto
  with Cons show ?case by (cases ws) auto
qed simp

lemma split_on_free: "sep \<notin> set w \<Longrightarrow> split_on sep w = [w]"
  by (induction w) auto

lemma split_on_append_sep:
  "sep \<notin> set w \<Longrightarrow> split_on sep (w @ sep # s) = w # split_on sep s"
  by (induction w) auto

lemma split_on_join:
  "ws \<noteq> [] \<Longrightarrow> \<forall>w\<in>set ws. sep \<notin> set w \<Longrightarrow> split_on sep (join [sep] ws) = ws"
  by (induction "[sep]" ws rule: join.induct) (auto simp: split_on_free split_on_append_sep)

text \<open>\<open>strings.TrimSpace\<close> on ASCII text.\<close>

definition is_space :: "char \<Rightarrow> bool" where
  "is_space c \<longleftrightarrow> c \<in> {CHR 0x09, CHR 0x0A, CHR 0x0B, CHR 0x0C, CHR 0x0D, CHR 0x20}"

definition trim_space :: "string \<Rightarrow> string" where
  "trim_space s = rev (dropWhile is_space (rev (dropWhile is_space s)))"

section \<open>Decimal numbers\<close>

text \<open>\<open>strconv.Itoa\<close> and \<open>%d\<close> for non-negative numbers.\<close>

definition digit :: "nat \<Rightarrow> char" where
  "digit d = char_of (48 + d)"

fun itoa :: "nat \<Rightarrow> string" where
  "itoa n = (if n < 10 then [digit n] else itoa (n div 10) @ [digit (n mod 10)])"

declare itoa.simps [simp del]

definition is_digit :: "char \<Rightarrow> bool" where
  "is_digit c \<longleftrightarrow> 48 \<le> (of_char c :: nat) \<and> (of_char c :: nat) \<le> 57"

definition digit_val :: "char \<Rightarrow> nat" where
  "digit_val c = of_char c - 48"

lemma of_char_digit: "d < 10 \<Longrightarrow> of_char (digit d) = (48 + d :: nat)"
  by (simp add: digit_def)

lemma digit_val_digit [simp]: "d < 10 \<Longrightarrow> digit_val (digit d) = d"
  by (simp add: digit_val_def of_char_digit)

lemma is_digit_digit [simp]: "d < 10 \<Longrightarrow> is_digit (digit d)"
  by (simp add: is_digit_def of_char_digit)

definition dec_val :: "string \<Rightarrow> nat" where
  "dec_val s = foldl (\<lambda>n c. n * 10 + digit_val c) 0 s"

lemma itoa_not_Nil [simp]: "itoa n \<noteq> []"
  by (subst itoa.simps) simp

lemma itoa_digits: "c \<in> set (itoa n) \<Longrightarrow> is_digit c"
proof (induction n rule: itoa.induct)
  case (1 n)
  then show ?case
    by (subst (asm) (2) itoa.simps) (auto split: if_splits)
qed

lemma dec_val_itoa [simp]: "dec_val (itoa n) = n"
proof (induction n rule: itoa.induct)
  case (1 n)
  then show ?case
    by (subst itoa.simps) (auto simp: dec_val_def)
qed

lemma itoa_inject [simp]: "itoa m = itoa n \<longleftrightarrow> m = n"
  by (metis dec_val_itoa)

section \<open>Hexadecimal text\<close>

text \<open>\<open>encoding/hex\<close>.\<close>

definition hex_digit :: "nat \<Rightarrow> char" where
  "hex_digit n = (if n < 10 then char_of (48 + n) else char_of (87 + n))"

definition hex_encode :: "string \<Rightarrow> string" where
  "hex_encode s = concat (map (\<lambda>c. [hex_digit (of_char c div 16), hex_digit (of_char c mod 16)]) s)"

definition from_hex :: "char \<Rightarrow> nat option" where
  "from_hex c = (let n = of_char c in
     if 48 \<le> n \<and> n \<le> 57 then Some (n - 48)
     else if 97 \<le> n \<and> n \<le> 102 then Some (n - 87)
     else if 65 \<le> n \<and> n \<le> 70 then Some (n - 55) else None)"

fun hex_decode :: "string \<Rightarrow> string option" where
  "hex_decode [] = Some []"
| "hex_decode [c] = None"
| "hex_decode (a # b # s) =
     (case (from_hex a, from_hex b, hex_decode s) of
        (Some m, Some n, Some t) \<Rightarrow> Some (char_of (16 * m + n) # t)
      | _ \<Rightarrow> None)"

lemma hex_digit_from_hex: "n < 16 \<Longrightarrow> from_hex (hex_digit n) = Some n"
  by (auto simp: from_hex_def hex_digit_def Let_def)

lemma hex_decode_encode [simp]: "hex_decode (hex_encode s) = Some s"
proof (induction s)
  case (Cons c s)
  have "char_of (16 * (of_char c div 16) + of_char c mod (16 :: nat)) = c"
    by (simp only: mult_div_mod_eq char_of_char)
  with Cons show ?case
    by (simp add: hex_encode_def hex_digit_from_hex less_mult_imp_div_less)
qed (simp add: hex_encode_def)

lemma length_hex_encode [simp]: "length (hex_encode s) = 2 * length s"
  by (induction s) (simp_all add: hex_encode_def)

section \<open>Reordering\<close>

text \<open>The iteration order of a Go map and the result of \<open>rand.Shuffle\<close>
  are a reordering nobody controls: a function that returns its argument
  permuted.\<close>

definition reordering :: "('a list \<Rightarrow> 'a list) \<Rightarrow> bool" where
  "reordering p \<longleftrightarrow> (\<forall>xs. mset (p xs) = mset xs)"

lemma reordering_id [simp]: "reordering (\<lambda>xs. xs)"
  by (simp add: reordering_def)

lemma reordering_rev [simp]: "reordering rev"
  by (simp add: reordering_def)

lemma reordering_mset: "reordering p \<Longrightarrow> mset (p xs) = mset xs"
  by (simp add: reordering_def)

lemma reordering_set: "reordering p \<Longrightarrow> set (p xs) = set xs"
  by (metis mset_eq_setD reordering_def)

lemma reordering_length: "reordering p \<Longrightarrow> length (p xs) = length xs"
  by (metis mset_eq_length reordering_def)

lemma reordering_distinct: "reordering p \<Longrightarrow> distinct (p xs) = distinct xs"
  by (metis mset_eq_imp_distinct_iff reordering_def)

section \<open>Association lists\<close>

text \<open>A Go map in an executable state is an association list; a write
  replaces the entry in place or adds one at the end, a delete removes it.\<close>

fun al_put :: "'k \<Rightarrow> 'v \<Rightarrow> ('k \<times> 'v) list \<Rightarrow> ('k \<times> 'v) list" where
  "al_put k v [] = [(k, v)]"
| "al_put k v ((k', v') # al) = (if k' = k then (k, v) # al else (k', v') # al_put k v al)"

definition al_del :: "'k \<Rightarrow> ('k \<times> 'v) list \<Rightarrow> ('k \<times> 'v) list" where
  "al_del k al = filter (\<lambda>(k', _). k' \<noteq> k) al"

lemma map_of_al_put [simp, store_simps]: "map_of (al_put k v al) = (map_of al)(k \<mapsto> v)"
  by (induction k v al rule: al_put.induct) auto

lemma map_of_al_del [simp, store_simps]: "map_of (al_del k al) = (map_of al)(k := None)"
  by (induction al) (auto simp: al_del_def fun_eq_iff)

lemma map_of_filter_key:
  "map_of (filter (\<lambda>(k, _). P k) al) k = (if P k then map_of al k else None)"
  by (induction al) auto

lemma fst_al_put: "fst ` set (al_put k v al) = insert k (fst ` set al)"
  by (induction k v al rule: al_put.induct) auto

lemma distinct_al_put [simp]: "distinct (map fst al) \<Longrightarrow> distinct (map fst (al_put k v al))"
  by (induction k v al rule: al_put.induct) (auto simp: fst_al_put)

lemma distinct_al_del [simp]: "distinct (map fst al) \<Longrightarrow> distinct (map fst (al_del k al))"
  by (induction al) (auto simp: al_del_def)

lemma al_put_keep: "k' \<noteq> k \<Longrightarrow> map_of (al_put k v al) k' = map_of al k'"
  by simp

end
