(* ===== verification/Workspace.thy ===== *)
theory Workspace
  imports Mep_Prelude
begin

text \<open>
  The request pipeline of the MEP server (\<open>mepserver/common/arch/workspace\<close>,
  \<open>common/httprsp_builder.go\<close>): a plan is a list of step groups built by
  \<open>Try\<close>, \<open>Finally\<close> and the \<open>Run...\<close> functions; \<open>WkRun\<close>
  runs the groups in order, records the first failing step and jumps to the error
  step.  A task is its \<open>TaskBase\<close>, its own fields, its \<open>OnRequest\<close> and
  the two transfers of the data bus between the workspace \<open>'w\<close> and the fields.
  The plans of the repository only use the serial policy; steps of the two other
  policies run at the wait that joins them, in the order of a scheduler argument.
  The lemmas show that the run ends and that a \<open>Try\<close>/\<open>Finally\<close> plan is
  the sequential execution of its steps up to the first failing one, followed by one
  run of the final step.
\<close>

section \<open>Tasks\<close>

text \<open>Error and task codes.\<close>

definition TaskOK :: int where "TaskOK = 0"
definition TaskFail :: int where "TaskFail = 1"
definition TaskFinish :: int where "TaskFinish = 0"

record SerErrInfo =
  se_ErrCode :: int
  se_Message :: string
  se_GrpIdx :: nat
  se_TaskIdx :: nat

text \<open>\<open>serErr\<close> is a pointer to the plan's error record, or nil.\<close>

record TaskBase =
  tb_serErr :: bool
  tb_errMsg :: string
  tb_Name :: string
  tb_Param :: "string list"
  tb_resultCode :: int

definition WithName :: "string \<Rightarrow> TaskBase \<Rightarrow> TaskBase" where
  "WithName name t = t\<lparr>tb_Name := name\<rparr>"

definition Parse :: "string \<Rightarrow> TaskBase \<Rightarrow> TaskBase" where
  "Parse params t = t\<lparr>tb_Param := tb_Param t @ [params]\<rparr>"

definition SetFirstErrorCode :: "int \<Rightarrow> string \<Rightarrow> TaskBase \<Rightarrow> TaskBase" where
  "SetFirstErrorCode code msg t =
     (if TaskOK < tb_resultCode t then t else t\<lparr>tb_resultCode := code, tb_errMsg := msg\<rparr>)"

definition GetErrCode :: "TaskBase \<Rightarrow> int \<times> string" where
  "GetErrCode t = (tb_resultCode t, tb_errMsg t)"

definition SetSerErrInfo :: "bool \<Rightarrow> TaskBase \<Rightarrow> TaskBase" where
  "SetSerErrInfo serErr t = t\<lparr>tb_serErr := serErr\<rparr>"

text \<open>What the task sees through its pointer, when the plan's record holds
  \<open>serError\<close>.\<close>

definition GetSerErrInfo :: "SerErrInfo option \<Rightarrow> TaskBase \<Rightarrow> SerErrInfo option" where
  "GetSerErrInfo serError t = (if tb_serErr t then serError else None)"

record ('w, 't) task =
  tk_base :: TaskBase
  tk_fields :: 't
  tk_OnRequest :: "SerErrInfo option \<Rightarrow> 'w \<Rightarrow> TaskBase \<Rightarrow> 't \<Rightarrow> 'w \<times> TaskBase \<times> 't \<times> int"
  tk_load_in :: "'w \<Rightarrow> 't \<Rightarrow> 't"
  tk_load_out :: "'t \<Rightarrow> 'w \<Rightarrow> 'w"

text \<open>An entry of \<open>StepObjs\<close>: a task, another object, or nil.\<close>

datatype ('w, 't) step_obj = StepTask "('w, 't) task" | StepOther | StepNil

section \<open>Plans\<close>

datatype GoPolicy = GoParallel | GoBackground | GoSerial

record ('w, 't) SubGrp =
  sg_Policy :: GoPolicy
  sg_CurStepIdx :: nat
  sg_StepNames :: "string list"
  sg_StepObjs :: "('w, 't) step_obj list"

record ('w, 't) PlanBase =
  pb_SerError :: "SerErrInfo option"
  pb_PlanName :: string
  pb_SpaceName :: string
  pb_ErrStep :: string
  pb_PlanGrp :: "('w, 't) SubGrp list"
  pb_CurGrpIdx :: nat

definition FINALLY :: string where "FINALLY = ''finally''"

definition new_plan :: "('w, 't) PlanBase" where
  "new_plan = \<lparr>pb_SerError = None, pb_PlanName = [], pb_SpaceName = [], pb_ErrStep = [],
               pb_PlanGrp = [], pb_CurGrpIdx = 0\<rparr>"

definition Init :: "('w, 't) PlanBase \<Rightarrow> ('w, 't) PlanBase" where
  "Init s = s\<lparr>pb_SerError := Some \<lparr>se_ErrCode = 0, se_Message = [], se_GrpIdx = 0, se_TaskIdx = 0\<rparr>\<rparr>"

fun install :: "('w, 't) step_obj list \<Rightarrow> ('w, 't) SubGrp \<Rightarrow> ('w, 't) SubGrp" where
  "install [] s = s"
| "install (StepNil # task) s = s"
| "install (stepObj # task) s = install task (s\<lparr>sg_StepObjs := sg_StepObjs s @ [stepObj]\<rparr>)"

text \<open>\<open>loadData\<close> sets the error pointer of the tasks in place, up to the first
  nil.\<close>

fun loadData :: "bool \<Rightarrow> ('w, 't) step_obj list \<Rightarrow> ('w, 't) step_obj list" where
  "loadData serError [] = []"
| "loadData serError (StepNil # task) = StepNil # task"
| "loadData serError (StepTask t # task) =
     StepTask (t\<lparr>tk_base := SetSerErrInfo serError (tk_base t)\<rparr>) # loadData serError task"
| "loadData serError (StepOther # task) = StepOther # loadData serError task"

definition SetErrorStep :: "string \<Rightarrow> ('w, 't) PlanBase \<Rightarrow> ('w, 't) PlanBase" where
  "SetErrorStep stepName b = b\<lparr>pb_ErrStep := stepName\<rparr>"

definition UsingSpace :: "string \<Rightarrow> ('w, 't) PlanBase \<Rightarrow> ('w, 't) PlanBase" where
  "UsingSpace spaceName b = b\<lparr>pb_SpaceName := spaceName\<rparr>"

definition new_group :: "GoPolicy \<Rightarrow> string list \<Rightarrow> bool \<Rightarrow> ('w, 't) step_obj list \<Rightarrow> ('w, 't) SubGrp" where
  "new_group policy names serError task =
     install (loadData serError task)
       \<lparr>sg_Policy = policy, sg_CurStepIdx = 0, sg_StepNames = names, sg_StepObjs = []\<rparr>"

definition loadTask :: "GoPolicy \<Rightarrow> ('w, 't) step_obj list \<Rightarrow> ('w, 't) PlanBase \<Rightarrow> ('w, 't) PlanBase" where
  "loadTask policy task b =
     b\<lparr>pb_PlanGrp := pb_PlanGrp b @ [new_group policy [] (pb_SerError b \<noteq> None) task]\<rparr>"

definition RunBackground :: "('w, 't) step_obj list \<Rightarrow> ('w, 't) PlanBase \<Rightarrow> ('w, 't) PlanBase" where
  "RunBackground task b = loadTask GoBackground task b"

definition RunParallel :: "('w, 't) step_obj list \<Rightarrow> ('w, 't) PlanBase \<Rightarrow> ('w, 't) PlanBase" where
  "RunParallel task b = loadTask GoParallel task b"

definition RunSerial :: "('w, 't) step_obj list \<Rightarrow> ('w, 't) PlanBase \<Rightarrow> ('w, 't) PlanBase" where
  "RunSerial task b = loadTask GoSerial task b"

definition RunSerialName :: "('w, 't) step_obj \<Rightarrow> string \<Rightarrow> ('w, 't) PlanBase \<Rightarrow> ('w, 't) PlanBase" where
  "RunSerialName task name b =
     b\<lparr>pb_PlanGrp := pb_PlanGrp b @ [new_group GoSerial [name] (pb_SerError b \<noteq> None) [task]]\<rparr>"

definition Try :: "('w, 't) step_obj list \<Rightarrow> ('w, 't) PlanBase \<Rightarrow> ('w, 't) PlanBase" where
  "Try task b = loadTask GoSerial task (SetErrorStep FINALLY b)"

definition Finally :: "('w, 't) step_obj \<Rightarrow> ('w, 't) PlanBase \<Rightarrow> ('w, 't) PlanBase" where
  "Finally task b =
     b\<lparr>pb_PlanGrp := pb_PlanGrp b @ [new_group GoSerial [FINALLY] (pb_SerError b \<noteq> None) [task]]\<rparr>"

section \<open>Running a plan\<close>

text \<open>\<open>taskRunner\<close> repeats \<open>OnRequest\<close> while it asks for more;
  \<^const>\<open>None\<close> is a task that has not finished within the given number of
  calls.\<close>

fun taskRunner :: "nat \<Rightarrow> SerErrInfo option \<Rightarrow> 'w \<Rightarrow> ('w, 't) task \<Rightarrow> ('w \<times> ('w, 't) task) option" where
  "taskRunner 0 serError w stepIf = None"
| "taskRunner (Suc n) serError w stepIf =
     (let (w', b, f, retCode) = tk_OnRequest stepIf (GetSerErrInfo serError (tk_base stepIf)) w
            (tk_base stepIf) (tk_load_in stepIf w (tk_fields stepIf));
          stepIf' = stepIf\<lparr>tk_base := b, tk_fields := f\<rparr> in
      if retCode \<le> TaskFinish then Some (tk_load_out stepIf' f w', stepIf')
      else taskRunner n serError w' stepIf')"

text \<open>\<open>stepPolicy\<close>: a serial step runs at once and gives its error code, the
  others are handed to the scheduler (the last component) and give \<open>TaskOK\<close>.\<close>

definition stepPolicy ::
  "nat \<Rightarrow> SerErrInfo option \<Rightarrow> GoPolicy \<Rightarrow> 'w \<Rightarrow> ('w, 't) task \<Rightarrow> (int \<times> 'w \<times> ('w, 't) task \<times> bool) option" where
  "stepPolicy n serError policy w stepIf =
     (case policy of
        GoSerial \<Rightarrow> map_option (\<lambda>(w, t). (fst (GetErrCode (tk_base t)), w, t, False)) (taskRunner n serError w stepIf)
      | _ \<Rightarrow> Some (TaskOK, w, stepIf, True))"

text \<open>One step of a group; the result tells whether to go on, and which step was
  handed to the scheduler.\<close>

definition grpOneStep ::
  "nat \<Rightarrow> SerErrInfo option \<Rightarrow> 'w \<Rightarrow> ('w, 't) SubGrp \<Rightarrow> (bool \<times> 'w \<times> ('w, 't) SubGrp \<times> nat list) option" where
  "grpOneStep n serError w curSub =
     (let i = sg_CurStepIdx curSub in
      if length (sg_StepObjs curSub) \<le> i then Some (False, w, curSub, [])
      else (case sg_StepObjs curSub ! i of
              StepNil \<Rightarrow> Some (True, w, curSub\<lparr>sg_CurStepIdx := Suc i\<rparr>, [])
            | StepOther \<Rightarrow> Some (False, w, curSub, [])
            | StepTask stepIf \<Rightarrow>
                map_option (\<lambda>(taskRet, w, t, spawned).
                    (taskRet \<le> TaskOK, w,
                     curSub\<lparr>sg_StepObjs := (sg_StepObjs curSub)[i := StepTask t], sg_CurStepIdx := Suc i\<rparr>,
                     if spawned then [i] else []))
                  (stepPolicy n serError (sg_Policy curSub) w stepIf)))"

lemma grpOneStep_shape:
  assumes "grpOneStep n se w g = Some (go, w', g', sp)"
  shows "length (sg_StepObjs g') = length (sg_StepObjs g)"
    and "go \<Longrightarrow> sg_CurStepIdx g < length (sg_StepObjs g) \<and> sg_CurStepIdx g' = Suc (sg_CurStepIdx g)"
    and "sg_Policy g' = sg_Policy g" and "sg_StepNames g' = sg_StepNames g"
  using assms
  by (auto simp: grpOneStep_def Let_def split: if_splits step_obj.splits)

lemma grpOneStep_progress:
  "grpOneStep n se w g = Some (True, w', g', sp) \<Longrightarrow>
   length (sg_StepObjs g') - sg_CurStepIdx g' < length (sg_StepObjs g) - sg_CurStepIdx g"
  using grpOneStep_shape(1,2) by fastforce

function grp_loop ::
  "nat \<Rightarrow> SerErrInfo option \<Rightarrow> 'w \<Rightarrow> ('w, 't) SubGrp \<Rightarrow> nat list \<Rightarrow> ('w \<times> ('w, 't) SubGrp \<times> nat list) option" where
  "grp_loop n serError w curSub spawned =
     (case grpOneStep n serError w curSub of
        None \<Rightarrow> None
      | Some (nextStep, w', curSub', sp) \<Rightarrow>
          if nextStep then grp_loop n serError w' curSub' (spawned @ sp)
          else Some (w', curSub', spawned @ sp))"
  by pat_completeness auto

termination
  by (relation "measure (\<lambda>(n, se, w, g, sp). length (sg_StepObjs g) - sg_CurStepIdx g)")
    (auto dest: grpOneStep_progress)

declare grp_loop.simps [simp del]

text \<open>The goroutines that a wait joins.\<close>

fun run_spawned ::
  "nat \<Rightarrow> SerErrInfo option \<Rightarrow> 'w \<Rightarrow> ('w, 't) SubGrp \<Rightarrow> nat list \<Rightarrow> ('w \<times> ('w, 't) SubGrp) option" where
  "run_spawned n serError w g [] = Some (w, g)"
| "run_spawned n serError w g (i # is) =
     (case (if i < length (sg_StepObjs g) then sg_StepObjs g ! i else StepNil) of
        StepTask t \<Rightarrow>
          (case taskRunner n serError w t of
             None \<Rightarrow> None
           | Some (w', t') \<Rightarrow> run_spawned n serError w' (g\<lparr>sg_StepObjs := (sg_StepObjs g)[i := StepTask t']\<rparr>) is)
      | _ \<Rightarrow> run_spawned n serError w g is)"

fun obj_err :: "('w, 't) step_obj \<Rightarrow> (int \<times> string) option" where
  "obj_err (StepTask t) = Some (GetErrCode (tk_base t))"
| "obj_err _ = None"

text \<open>The first step with an error, with its index counted from \<open>idx\<close>; -1
  when there is none.\<close>

fun get_ret_code :: "('w, 't) step_obj list \<Rightarrow> nat \<Rightarrow> int \<times> int" where
  "get_ret_code [] idx = (TaskOK, -1)"
| "get_ret_code (curStep # objs) idx =
     (case obj_err curStep of
        None \<Rightarrow> get_ret_code objs (Suc idx)
      | Some (errCode, _) \<Rightarrow> if TaskOK < errCode then (errCode, int idx) else get_ret_code objs (Suc idx))"

definition grpGetRetCode :: "('w, 't) SubGrp \<Rightarrow> int \<times> int" where
  "grpGetRetCode curSub = get_ret_code (sg_StepObjs curSub) 0"

text \<open>\<open>grpRun\<close>, with the steps left to the background.\<close>

definition grpRun ::
  "nat \<Rightarrow> (nat list \<Rightarrow> nat list) \<Rightarrow> SerErrInfo option \<Rightarrow> 'w \<Rightarrow> ('w, 't) SubGrp
   \<Rightarrow> (int \<times> int \<times> 'w \<times> ('w, 't) SubGrp \<times> nat list) option" where
  "grpRun n sched serError w curSub =
     (case grp_loop n serError w curSub [] of
        None \<Rightarrow> None
      | Some (w, g, spawned) \<Rightarrow>
          (case (if sg_Policy g = GoParallel then run_spawned n serError w g (sched spawned) else Some (w, g)) of
             None \<Rightarrow> None
           | Some (w, g) \<Rightarrow>
               let (retCode, stepIdx) = grpGetRetCode g in
               Some (retCode, stepIdx, w, g, if sg_Policy g = GoBackground then spawned else [])))"

definition RecordErrInfo :: "('w, 't) PlanBase \<Rightarrow> int \<Rightarrow> ('w, 't) PlanBase go_result" where
  "RecordErrInfo curPlan stepIdx =
     (if length (pb_PlanGrp curPlan) \<le> pb_CurGrpIdx curPlan then Inr curPlan
      else let curGrp = pb_PlanGrp curPlan ! pb_CurGrpIdx curPlan in
        if stepIdx < 0 \<or> int (length (sg_StepObjs curGrp)) \<le> stepIdx then Inr curPlan
        else (case pb_SerError curPlan of
                None \<Rightarrow> Inl (Panic ''invalid memory address or nil pointer dereference'')
              | Some se \<Rightarrow>
                  let se = se\<lparr>se_GrpIdx := pb_CurGrpIdx curPlan, se_TaskIdx := nat stepIdx\<rparr> in
                  (case obj_err (sg_StepObjs curGrp ! nat stepIdx) of
                     None \<Rightarrow> Inr (curPlan\<lparr>pb_SerError := Some se\<rparr>)
                   | Some (errCode, msg) \<Rightarrow>
                       Inr (curPlan\<lparr>pb_SerError := Some (se\<lparr>se_ErrCode := errCode, se_Message := msg\<rparr>)\<rparr>))))"

text \<open>The index of the first name equal to \<open>s\<close>.\<close>

fun find_name :: "string \<Rightarrow> string list \<Rightarrow> nat option" where
  "find_name s [] = None"
| "find_name s (x # xs) = (if x = s then Some 0 else map_option Suc (find_name s xs))"

definition GotoErrorStep :: "('w, 't) PlanBase \<Rightarrow> nat \<Rightarrow> bool \<times> ('w, 't) PlanBase" where
  "GotoErrorStep curPlan grpNum =
     (if length (pb_PlanGrp curPlan) \<le> grpNum then (False, curPlan)
      else let g = pb_PlanGrp curPlan ! grpNum in
        (case find_name (pb_ErrStep curPlan) (sg_StepNames g) of
           None \<Rightarrow> (False, curPlan)
         | Some idx \<Rightarrow>
             if grpNum < pb_CurGrpIdx curPlan then (True, curPlan)
             else (True, curPlan\<lparr>pb_CurGrpIdx := grpNum,
                     pb_PlanGrp := (pb_PlanGrp curPlan)[grpNum :=
                       (if sg_CurStepIdx g < idx then g\<lparr>sg_CurStepIdx := idx\<rparr> else g)]\<rparr>)))"

fun goto_error_from :: "('w, 't) PlanBase \<Rightarrow> nat list \<Rightarrow> ('w, 't) PlanBase" where
  "goto_error_from curPlan [] = curPlan"
| "goto_error_from curPlan (grpNum # rest) =
     (let (found, p) = GotoErrorStep curPlan grpNum in if found then p else goto_error_from p rest)"

definition GotoErrorProc :: "('w, 't) PlanBase \<Rightarrow> ('w, 't) PlanBase" where
  "GotoErrorProc curPlan =
     (let p = curPlan\<lparr>pb_CurGrpIdx := Suc (pb_CurGrpIdx curPlan)\<rparr> in
      goto_error_from p [0..<length (pb_PlanGrp p)])"

text \<open>One round of \<open>WkRun\<close>: a group that succeeded, or one whose error is
  recorded before the jump.  The pairs are the steps left to the background.\<close>

definition wk_round ::
  "nat \<Rightarrow> (nat list \<Rightarrow> nat list) \<Rightarrow> 'w \<Rightarrow> ('w, 't) PlanBase \<Rightarrow> ('w \<times> ('w, 't) PlanBase \<times> (nat \<times> nat) list) go_result option" where
  "wk_round n sched w curPlan =
     (let gi = pb_CurGrpIdx curPlan in
      case grpRun n sched (pb_SerError curPlan) w (pb_PlanGrp curPlan ! gi) of
        None \<Rightarrow> None
      | Some (retCode, stepIdx, w, g, bg) \<Rightarrow>
          let p = curPlan\<lparr>pb_PlanGrp := (pb_PlanGrp curPlan)[gi := g]\<rparr>; left = map (Pair gi) bg in
          if retCode \<le> TaskOK then Some (Inr (w, p\<lparr>pb_CurGrpIdx := Suc gi\<rparr>, left))
          else Some (case RecordErrInfo p stepIdx of
                       Inl e \<Rightarrow> Inl e
                     | Inr p \<Rightarrow> Inr (w, GotoErrorProc p, left)))"

lemma RecordErrInfo_shape:
  assumes "RecordErrInfo p i = Inr p'"
  shows "pb_CurGrpIdx p' = pb_CurGrpIdx p" and "pb_PlanGrp p' = pb_PlanGrp p" and "pb_ErrStep p' = pb_ErrStep p"
  using assms by (auto simp: RecordErrInfo_def Let_def split: if_splits option.splits)

lemma GotoErrorStep_shape:
  assumes "GotoErrorStep p g = (d, p')"
  shows "pb_CurGrpIdx p \<le> pb_CurGrpIdx p'" and "length (pb_PlanGrp p') = length (pb_PlanGrp p)"
  using assms by (auto simp: GotoErrorStep_def Let_def split: if_splits option.splits)

lemma goto_error_from_shape:
  "pb_CurGrpIdx p \<le> pb_CurGrpIdx (goto_error_from p gs)
   \<and> length (pb_PlanGrp (goto_error_from p gs)) = length (pb_PlanGrp p)"
proof (induction p gs rule: goto_error_from.induct)
  case (2 p g gs)
  obtain d p' where s: "GotoErrorStep p g = (d, p')" by fastforce
  with GotoErrorStep_shape [OF s] 2 [OF s [symmetric] refl] show ?case by (cases d) auto
qed simp

lemma GotoErrorProc_shape:
  "pb_CurGrpIdx p < pb_CurGrpIdx (GotoErrorProc p)" "length (pb_PlanGrp (GotoErrorProc p)) = length (pb_PlanGrp p)"
  using goto_error_from_shape [of "p\<lparr>pb_CurGrpIdx := Suc (pb_CurGrpIdx p)\<rparr>" "[0..<length (pb_PlanGrp p)]"]
  by (auto simp: GotoErrorProc_def)

text \<open>Every round moves the group index forward, also when it jumps.\<close>

lemma wk_round_progress:
  assumes "wk_round n sched w p = Some (Inr (w', p', left))"
  shows "pb_CurGrpIdx p < pb_CurGrpIdx p'" and "length (pb_PlanGrp p') = length (pb_PlanGrp p)"
proof -
  let ?gi = "pb_CurGrpIdx p"
  obtain rc si w1 g bg where run: "grpRun n sched (pb_SerError p) w (pb_PlanGrp p ! ?gi) = Some (rc, si, w1, g, bg)"
    using assms by (cases "grpRun n sched (pb_SerError p) w (pb_PlanGrp p ! ?gi)") (auto simp: wk_round_def)
  let ?p = "p\<lparr>pb_PlanGrp := (pb_PlanGrp p)[?gi := g]\<rparr>"
  have "pb_CurGrpIdx p < pb_CurGrpIdx p' \<and> length (pb_PlanGrp p') = length (pb_PlanGrp p)"
  proof (cases "rc \<le> TaskOK")
    case True
    then show ?thesis using assms run by (auto simp: wk_round_def Let_def)
  next
    case False
    then obtain p1 where r: "RecordErrInfo ?p si = Inr p1" and p': "p' = GotoErrorProc p1"
      using assms run by (auto simp: wk_round_def Let_def split: sum.splits)
    show ?thesis
      unfolding p' using GotoErrorProc_shape [of p1] RecordErrInfo_shape(1,2) [OF r] by simp
  qed
  then show "pb_CurGrpIdx p < pb_CurGrpIdx p'" and "length (pb_PlanGrp p') = length (pb_PlanGrp p)" by auto
qed

lemma wk_round_measure:
  "\<not> length (pb_PlanGrp p) \<le> pb_CurGrpIdx p \<Longrightarrow> wk_round n sched w p = Some (Inr (w', p', left)) \<Longrightarrow>
   length (pb_PlanGrp p') - pb_CurGrpIdx p' < length (pb_PlanGrp p) - pb_CurGrpIdx p"
  using wk_round_progress [of n sched w p w' p' left] by auto

function wk_loop ::
  "nat \<Rightarrow> (nat list \<Rightarrow> nat list) \<Rightarrow> 'w \<Rightarrow> ('w, 't) PlanBase \<Rightarrow> (nat \<times> nat) list
   \<Rightarrow> ('w \<times> ('w, 't) PlanBase \<times> (nat \<times> nat) list) go_result option" where
  "wk_loop n sched w curPlan bg =
     (if length (pb_PlanGrp curPlan) \<le> pb_CurGrpIdx curPlan then Some (Inr (w, curPlan, bg))
      else (case wk_round n sched w curPlan of
              None \<Rightarrow> None
            | Some (Inl e) \<Rightarrow> Some (Inl e)
            | Some (Inr (w', p', left)) \<Rightarrow> wk_loop n sched w' p' (bg @ left)))"
  by pat_completeness auto

termination
  by (relation "measure (\<lambda>(n, sched, w, p, bg). length (pb_PlanGrp p) - pb_CurGrpIdx p)")
    (auto dest: wk_round_measure)

declare wk_loop.simps [simp del]

fun wait_background ::
  "nat \<Rightarrow> 'w \<Rightarrow> ('w, 't) PlanBase \<Rightarrow> (nat \<times> nat) list \<Rightarrow> ('w \<times> ('w, 't) PlanBase) option" where
  "wait_background n w p [] = Some (w, p)"
| "wait_background n w p ((gi, si) # rest) =
     (if length (pb_PlanGrp p) \<le> gi then wait_background n w p rest
      else (case run_spawned n (pb_SerError p) w (pb_PlanGrp p ! gi) [si] of
              None \<Rightarrow> None
            | Some (w, g) \<Rightarrow> wait_background n w (p\<lparr>pb_PlanGrp := (pb_PlanGrp p)[gi := g]\<rparr>) rest))"

definition WkRun ::
  "nat \<Rightarrow> (nat list \<Rightarrow> nat list) \<Rightarrow> ((nat \<times> nat) list \<Rightarrow> (nat \<times> nat) list) \<Rightarrow> 'w \<Rightarrow> ('w, 't) PlanBase
   \<Rightarrow> ('w \<times> ('w, 't) PlanBase) go_result option" where
  "WkRun n sched bgsched w plan =
     (case wk_loop n sched w plan [] of
        None \<Rightarrow> None
      | Some (Inl e) \<Rightarrow> Some (Inl e)
      | Some (Inr (w, p, bg)) \<Rightarrow> map_option Inr (wait_background n w p (bgsched bg)))"

section \<open>The response\<close>

text \<open>Error codes (\<open>common/util/const.go\<close>).\<close>

definition SerErrServiceNotFound :: int where "SerErrServiceNotFound = 2"
definition SerInstanceNotFound :: int where "SerInstanceNotFound = 3"
definition ParseInfoErr :: int where "ParseInfoErr = 4"
definition SubscriptionNotFound :: int where "SubscriptionNotFound = 5"
definition OperateDataWithEtcdErr :: int where "OperateDataWithEtcdErr = 6"
definition RemoteServerErr :: int where "RemoteServerErr = 9"
definition EtagMissMatchErr :: int where "EtagMissMatchErr = 10"
definition AuthorizationValidateErr :: int where "AuthorizationValidateErr = 11"
definition SerErrServiceRegFailed :: int where "SerErrServiceRegFailed = 12"
definition SerErrServiceInstanceFailed :: int where "SerErrServiceInstanceFailed = 13"
definition RequestParamErr :: int where "RequestParamErr = 14"
definition SubscriptionErr :: int where "SubscriptionErr = 15"
definition ResourceExists :: int where "ResourceExists = 16"
definition HeartbeatServiceNotFound :: int where "HeartbeatServiceNotFound = 17"
definition ServiceInactive :: int where "ServiceInactive = 18"
definition DuplicateOperation :: int where "DuplicateOperation = 19"
definition ForbiddenOperation :: int where "ForbiddenOperation = 20"

lemmas err_code_defs = SerErrServiceNotFound_def SerInstanceNotFound_def ParseInfoErr_def SubscriptionNotFound_def
  OperateDataWithEtcdErr_def RemoteServerErr_def EtagMissMatchErr_def AuthorizationValidateErr_def
  SerErrServiceRegFailed_def SerErrServiceInstanceFailed_def RequestParamErr_def SubscriptionErr_def
  ResourceExists_def HeartbeatServiceNotFound_def ServiceInactive_def DuplicateOperation_def ForbiddenOperation_def

record ProblemDetails =
  pd_Title :: string
  pd_Status :: "32 word"
  pd_Detail :: string

text \<open>What is written: a problem document, an error of the service center's
  \<open>controller.WriteError\<close> (with a response code, or with its internal
  code), a bare status, or a JSON object.\<close>

datatype 'o http_out = OutProblem int ProblemDetails | OutCenterError int string | OutInternalError string | OutStatus int | OutJSON int 'o

definition cvtHttpErrInfo :: "SerErrInfo \<Rightarrow> int \<times> ProblemDetails" where
  "cvtHttpErrInfo errInfo =
     (let c = se_ErrCode errInfo;
          body = (\<lambda>title. \<lparr>pd_Title = title, pd_Status = of_int c, pd_Detail = se_Message errInfo\<rparr>) in
      if c = SerErrServiceNotFound then (400, body ''Can not found resource'')
      else if c = SerInstanceNotFound \<or> c = HeartbeatServiceNotFound \<or> c = SubscriptionNotFound
      then (404, body ''Can not found resource'')
      else if c = EtagMissMatchErr then (412, body ''Precondition failed'')
      else if c = RemoteServerErr then (503, body ''Remote server error'')
      else if c = AuthorizationValidateErr then (401, body ''UnAuthorization'')
      else if c = SerErrServiceRegFailed then (400, body ''Service register failed'')
      else if c = SerErrServiceInstanceFailed then (400, body ''Service instance failed'')
      else if c = RequestParamErr then (400, body ''Request parameter error'')
      else if c = SubscriptionErr then (400, body ''App subscription error'')
      else if c = ServiceInactive then (409, body ''Service is in INACTIVE state'')
      else if c = ResourceExists then (422, body ''Resource already exists'')
      else if c = DuplicateOperation then (400, body ''Duplicate request error'')
      else if c = ForbiddenOperation then (403, body ''Operation Not Allowed'')
      else (400, body ''Bad Request''))"

text \<open>\<open>writeResponse\<close>: \<open>resp\<close> is the service center's response (code and
  message) or nil, \<open>obj\<close> the body or nil; \<open>marshal\<close> fails on what JSON
  cannot represent.\<close>

definition writeResponse ::
  "('o \<Rightarrow> go_error option) \<Rightarrow> int \<Rightarrow> (int \<times> string) option \<Rightarrow> 'o option \<Rightarrow> 'o http_out" where
  "writeResponse marshal statusCode resp obj =
     (if (case resp of None \<Rightarrow> False | Some (code, _) \<Rightarrow> code \<noteq> 0)
      then OutCenterError (fst (the resp)) (snd (the resp))
      else (case obj of
              None \<Rightarrow> OutStatus 417
            | Some ob \<Rightarrow>
                (case marshal ob of
                   Some e \<Rightarrow> OutInternalError (err_msg e)
                 | None \<Rightarrow> OutJSON (if statusCode = 0 then 200 else statusCode) ob)))"

definition SendHttpRsp_OnRequest ::
  "('o \<Rightarrow> go_error option) \<Rightarrow> 'o \<Rightarrow> SerErrInfo option \<Rightarrow> int \<Rightarrow> (int \<times> string) option \<Rightarrow> 'o option \<Rightarrow> 'o http_out" where
  "SendHttpRsp_OnRequest marshal no_services errInfo statusCode httpErrInf httpRsp =
     (case errInfo of
        None \<Rightarrow> OutProblem RemoteServerErr
          \<lparr>pd_Title = ''Internal Server Error'', pd_Status = of_int RemoteServerErr,
           pd_Detail = ''server internal function failed''\<rparr>
      | Some ei \<Rightarrow>
          if se_ErrCode ei = SerErrServiceNotFound
             \<and> to_lower (se_Message ei) = ''failed to find the instance''
          then writeResponse marshal statusCode httpErrInf (Some no_services)
          else if TaskFail \<le> se_ErrCode ei
          then (let (code, body) = cvtHttpErrInfo ei in OutProblem code body)
          else writeResponse marshal statusCode httpErrInf httpRsp)"

section \<open>Sequential execution\<close>

text \<open>The tasks of the repository all return \<open>TaskFinish\<close> from one
  \<open>OnRequest\<close>; running such a task, and such tasks up to the first error.\<close>

definition finishing :: "('w, 't) task \<Rightarrow> bool" where
  "finishing t \<longleftrightarrow> (\<forall>se w b f. snd (snd (snd (tk_OnRequest t se w b f))) \<le> TaskFinish)"

definition exec_task :: "SerErrInfo option \<Rightarrow> 'w \<Rightarrow> ('w, 't) task \<Rightarrow> 'w \<times> ('w, 't) task" where
  "exec_task se w t =
     (let (w', b, f, _) = tk_OnRequest t (GetSerErrInfo se (tk_base t)) w (tk_base t) (tk_load_in t w (tk_fields t))
      in (tk_load_out t f w', t\<lparr>tk_base := b, tk_fields := f\<rparr>))"

abbreviation failed :: "('w, 't) task \<Rightarrow> bool" where
  "failed t \<equiv> TaskOK < tb_resultCode (tk_base t)"

fun exec_steps :: "SerErrInfo option \<Rightarrow> 'w \<Rightarrow> ('w, 't) task list \<Rightarrow> 'w \<times> ('w, 't) task list" where
  "exec_steps se w [] = (w, [])"
| "exec_steps se w (t # ts) =
     (let (w', t') = exec_task se w t in
      if failed t' then (w', t' # ts)
      else let (w'', ts') = exec_steps se w' ts in (w'', t' # ts'))"

fun first_error :: "('w, 't) task list \<Rightarrow> (nat \<times> int \<times> string) option" where
  "first_error [] = None"
| "first_error (t # ts) =
     (if failed t then Some (0, tb_resultCode (tk_base t), tb_errMsg (tk_base t))
      else map_option (\<lambda>(i, c, m). (Suc i, c, m)) (first_error ts))"

lemma taskRunner_finishing:
  "finishing t \<Longrightarrow> taskRunner (Suc n) se w t = Some (exec_task se w t)"
  by (auto simp: finishing_def exec_task_def Let_def split: prod.splits) (metis snd_conv)

declare taskRunner.simps [simp del]

lemma grp_loop_serial:
  assumes "\<forall>t\<in>set ts. finishing t" and "sg_Policy g = GoSerial"
    and "sg_StepObjs g = pre @ map StepTask ts" and "sg_CurStepIdx g = length pre"
    and "exec_steps se w ts = (w', ts')"
  shows "\<exists>k. grp_loop (Suc n) se w g sp = Some (w', g\<lparr>sg_StepObjs := pre @ map StepTask ts', sg_CurStepIdx := k\<rparr>, sp)"
  using assms
proof (induction ts arbitrary: pre g w ts' sp)
  case Nil
  have "g = g\<lparr>sg_StepObjs := pre, sg_CurStepIdx := length pre\<rparr>" using Nil.prems by simp
  then show ?case
    using Nil.prems by (subst grp_loop.simps) (auto simp: grpOneStep_def intro!: exI [of _ "length pre"])
next
  case (Cons t ts)
  obtain w1 t1 where e: "exec_task se w t = (w1, t1)" by fastforce
  let ?g = "g\<lparr>sg_StepObjs := pre @ StepTask t1 # map StepTask ts, sg_CurStepIdx := Suc (length pre)\<rparr>"
  have run: "taskRunner (Suc n) se w t = Some (w1, t1)"
    using taskRunner_finishing [of t n se w] Cons.prems(1) e by simp
  have step: "grpOneStep (Suc n) se w g = Some (\<not> failed t1, w1, ?g, [])"
    using Cons.prems(2-4) run
    by (auto simp: grpOneStep_def stepPolicy_def Let_def GetErrCode_def nth_append list_update_append
        simp del: taskRunner.simps)
  show ?case
  proof (cases "failed t1")
    case True
    then show ?thesis using Cons.prems(5) step e by (subst grp_loop.simps) auto
  next
    case False
    obtain ts1 where rest: "exec_steps se w1 ts = (w', ts1)" and ts': "ts' = t1 # ts1"
      using Cons.prems(5) e False by (auto simp: Let_def split: prod.splits)
    have "\<exists>k. grp_loop (Suc n) se w1 ?g sp
            = Some (w', ?g\<lparr>sg_StepObjs := (pre @ [StepTask t1]) @ map StepTask ts1, sg_CurStepIdx := k\<rparr>, sp)"
      by (rule Cons.IH) (use Cons.prems rest in simp_all)
    then show ?thesis using step False ts' by (subst grp_loop.simps) simp
  qed
qed

lemma get_ret_code_tasks:
  "get_ret_code (map StepTask ts) k
   = (case first_error ts of None \<Rightarrow> (TaskOK, -1) | Some (i, c, m) \<Rightarrow> (c, int (k + i)))"
  by (induction ts arbitrary: k) (auto simp: GetErrCode_def split: option.splits)

lemma first_error_nth:
  "first_error ts = Some (i, c, m) \<Longrightarrow>
   i < length ts \<and> TaskOK < c \<and> tb_resultCode (tk_base (ts ! i)) = c \<and> tb_errMsg (tk_base (ts ! i)) = m"
  by (induction ts arbitrary: i) (auto split: if_splits)

lemma grpRun_serial:
  assumes "\<forall>t\<in>set ts. finishing t" and "sg_Policy g = GoSerial"
    and "sg_StepObjs g = map StepTask ts" and "sg_CurStepIdx g = 0"
    and "exec_steps se w ts = (w', ts')"
  shows "\<exists>k. grpRun (Suc n) sched se w g
    = (let (c, i) = (case first_error ts' of None \<Rightarrow> (TaskOK, -1) | Some (i, c, m) \<Rightarrow> (c, int i))
       in Some (c, i, w', g\<lparr>sg_StepObjs := map StepTask ts', sg_CurStepIdx := k\<rparr>, []))"
proof -
  from grp_loop_serial [OF assms(1,2) _ _ assms(5), of "[]" n "[]"] assms(3,4) obtain k where
    "grp_loop (Suc n) se w g [] = Some (w', g\<lparr>sg_StepObjs := map StepTask ts', sg_CurStepIdx := k\<rparr>, [])" by auto
  then show ?thesis
    using assms(2)
    by (auto simp: grpRun_def grpGetRetCode_def get_ret_code_tasks split: option.splits intro!: exI [of _ k])
qed

text \<open>The plan that every handler builds: \<open>Init\<close>, \<open>Try\<close> and
  \<open>Finally\<close>.\<close>

definition try_finally :: "('w, 't) task list \<Rightarrow> ('w, 't) task \<Rightarrow> ('w, 't) PlanBase" where
  "try_finally ts resp = Finally (StepTask resp) (Try (map StepTask ts) (Init new_plan))"

abbreviation linked :: "('w, 't) task \<Rightarrow> ('w, 't) task" where
  "linked t \<equiv> t\<lparr>tk_base := SetSerErrInfo True (tk_base t)\<rparr>"

definition no_error :: SerErrInfo where
  "no_error = \<lparr>se_ErrCode = 0, se_Message = [], se_GrpIdx = 0, se_TaskIdx = 0\<rparr>"

text \<open>The error record after the first group.\<close>

definition error_record :: "SerErrInfo \<Rightarrow> nat \<Rightarrow> ('w, 't) task list \<Rightarrow> SerErrInfo" where
  "error_record se g ts = (case first_error ts of None \<Rightarrow> se
     | Some (i, c, m) \<Rightarrow> \<lparr>se_ErrCode = c, se_Message = m, se_GrpIdx = g, se_TaskIdx = i\<rparr>)"

lemma loadData_tasks: "loadData True (map StepTask ts) = map (\<lambda>t. StepTask (linked t)) ts"
  by (induction ts) auto

lemma install_tasks:
  "install (map (\<lambda>t. StepTask (f t)) ts) g = g\<lparr>sg_StepObjs := sg_StepObjs g @ map (\<lambda>t. StepTask (f t)) ts\<rparr>"
  by (induction ts arbitrary: g) auto

lemma try_finally_groups:
  "try_finally ts resp = \<lparr>pb_SerError = Some no_error, pb_PlanName = [], pb_SpaceName = [], pb_ErrStep = FINALLY,
     pb_PlanGrp = [
       \<lparr>sg_Policy = GoSerial, sg_CurStepIdx = 0, sg_StepNames = [], sg_StepObjs = map StepTask (map linked ts)\<rparr>,
       \<lparr>sg_Policy = GoSerial, sg_CurStepIdx = 0, sg_StepNames = [FINALLY], sg_StepObjs = map StepTask [linked resp]\<rparr>],
     pb_CurGrpIdx = 0\<rparr>"
  using install_tasks [of linked ts "\<lparr>sg_Policy = GoSerial, sg_CurStepIdx = 0, sg_StepNames = [], sg_StepObjs = []\<rparr>"]
  by (simp add: try_finally_def Finally_def Try_def loadTask_def SetErrorStep_def Init_def new_plan_def new_group_def
      no_error_def loadData_tasks comp_def)

lemma wk_round_serial:
  assumes "pb_CurGrpIdx p < length (pb_PlanGrp p)" and "pb_PlanGrp p ! pb_CurGrpIdx p = g"
    and "sg_Policy g = GoSerial" and "sg_StepObjs g = map StepTask ts" and "sg_CurStepIdx g = 0"
    and "\<forall>t\<in>set ts. finishing t" and "pb_SerError p = Some se" and "exec_steps (Some se) w ts = (w', ts')"
  shows "\<exists>k. let p1 = p\<lparr>pb_PlanGrp := (pb_PlanGrp p)[pb_CurGrpIdx p := g\<lparr>sg_StepObjs := map StepTask ts', sg_CurStepIdx := k\<rparr>]\<rparr>
    in wk_round (Suc n) sched w p = Some (Inr (w',
         if first_error ts' = None then p1\<lparr>pb_CurGrpIdx := Suc (pb_CurGrpIdx p)\<rparr>
         else GotoErrorProc (p1\<lparr>pb_SerError := Some (error_record se (pb_CurGrpIdx p) ts')\<rparr>), []))"
proof -
  let ?gi = "pb_CurGrpIdx p"
  obtain k where run: "grpRun (Suc n) sched (Some se) w g
      = (let (c, i) = (case first_error ts' of None \<Rightarrow> (TaskOK, -1) | Some (i, c, m) \<Rightarrow> (c, int i))
         in Some (c, i, w', g\<lparr>sg_StepObjs := map StepTask ts', sg_CurStepIdx := k\<rparr>, []))"
    using grpRun_serial [OF assms(6,3,4,5,8)] by blast
  let ?p1 = "p\<lparr>pb_PlanGrp := (pb_PlanGrp p)[?gi := g\<lparr>sg_StepObjs := map StepTask ts', sg_CurStepIdx := k\<rparr>]\<rparr>"
  show ?thesis
  proof (cases "first_error ts'")
    case None
    then show ?thesis using run assms(2,7) by (auto simp: wk_round_def Let_def intro!: exI [of _ k])
  next
    case (Some e)
    obtain i c m where e: "e = (i, c, m)" by (metis prod_cases3)
    note nth = first_error_nth [OF Some [unfolded e]]
    have "RecordErrInfo ?p1 (int i) = Inr (?p1\<lparr>pb_SerError := Some (error_record se ?gi ts')\<rparr>)"
      using nth assms(1,7) Some e by (simp add: RecordErrInfo_def error_record_def GetErrCode_def)
    then show ?thesis
      using run assms(2,7) Some e nth by (auto simp: wk_round_def Let_def intro!: exI [of _ k])
  qed
qed

lemma exec_task_finishing: "finishing t \<Longrightarrow> exec_task se w t = (w', t') \<Longrightarrow> finishing t'"
  by (auto simp: finishing_def exec_task_def Let_def split: prod.splits)

lemma goto_finally:
  assumes "pb_ErrStep p = FINALLY" and "pb_PlanGrp p = [g0, g1]"
    and "sg_StepNames g0 = []" and "sg_StepNames g1 = [FINALLY]"
  shows "pb_CurGrpIdx p = 0 \<Longrightarrow> GotoErrorProc p = p\<lparr>pb_CurGrpIdx := 1\<rparr>"
    and "pb_CurGrpIdx p = 1 \<Longrightarrow> GotoErrorProc p = p\<lparr>pb_CurGrpIdx := 2\<rparr>"
  using assms by (simp_all add: GotoErrorProc_def GotoErrorStep_def upt_rec)

lemma WkRun_try_finally:
  assumes "\<forall>t\<in>set ts. finishing t" and "finishing resp" and "bgsched [] = []"
    and "exec_steps (Some no_error) w (map linked ts) = (w1, ts1)"
    and "exec_task (Some (error_record no_error 0 ts1)) w1 (linked resp) = (w2, resp2)"
  shows "\<exists>p. WkRun (Suc n) sched bgsched w (try_finally ts resp) = Some (Inr (w2, p))
    \<and> pb_SerError p = Some (error_record (error_record no_error 0 ts1) 1 [resp2])"
proof -
  let ?p0 = "try_finally ts resp" and ?se = "error_record no_error 0 ts1"
  let ?g0 = "\<lambda>k. \<lparr>sg_Policy = GoSerial, sg_CurStepIdx = k, sg_StepNames = [], sg_StepObjs = map StepTask ts1\<rparr>"
  let ?g1 = "\<lambda>k r. \<lparr>sg_Policy = GoSerial, sg_CurStepIdx = k, sg_StepNames = [FINALLY], sg_StepObjs = map StepTask [r]\<rparr>"
  let ?p1 = "\<lambda>k. \<lparr>pb_SerError = Some ?se, pb_PlanName = [], pb_SpaceName = [], pb_ErrStep = FINALLY,
     pb_PlanGrp = [?g0 k, ?g1 0 (linked resp)], pb_CurGrpIdx = 1\<rparr>"
  have fin: "\<forall>t\<in>set (map linked ts). finishing t" "\<forall>t\<in>set [linked resp]. finishing t"
    using assms(1,2) by (simp_all add: finishing_def)
  have ex2: "exec_steps (Some ?se) w1 [linked resp] = (w2, [resp2])" using assms(5) by simp
  have se: "first_error ts1 = None \<Longrightarrow> ?se = no_error" by (simp add: error_record_def)
  obtain k where r1: "wk_round (Suc n) sched w ?p0 = Some (Inr (w1, ?p1 k, []))"
    using wk_round_serial [of ?p0, OF _ refl _ _ _ fin(1) _ assms(4), of n sched]
    by (cases "first_error ts1 = None") (auto simp: try_finally_groups goto_finally se Let_def)
  obtain p2 where r2: "wk_round (Suc n) sched w1 (?p1 k) = Some (Inr (w2, p2, []))"
    and p2: "pb_CurGrpIdx p2 = 2" "length (pb_PlanGrp p2) = 2" "pb_SerError p2 = Some (error_record ?se 1 [resp2])"
    using wk_round_serial [of "?p1 k", OF _ refl _ _ _ fin(2) _ ex2, of n sched]
    by (auto simp: goto_finally error_record_def Let_def split: if_splits)
  have "wk_loop (Suc n) sched w ?p0 [] = Some (Inr (w2, p2, []))"
    using r1 r2 p2 by (simp add: wk_loop.simps try_finally_groups)
  then show ?thesis using assms(3) p2(3) by (simp add: WkRun_def)
qed

section \<open>Every plan of finishing tasks ends\<close>

definition grp_finishing :: "('w, 't) SubGrp \<Rightarrow> bool" where
  "grp_finishing g \<longleftrightarrow> (\<forall>t. StepTask t \<in> set (sg_StepObjs g) \<longrightarrow> finishing t)"

definition plan_finishing :: "('w, 't) PlanBase \<Rightarrow> bool" where
  "plan_finishing p \<longleftrightarrow> (\<forall>g\<in>set (pb_PlanGrp p). grp_finishing g)"

lemma grp_finishing_update:
  "grp_finishing g \<Longrightarrow> finishing t \<Longrightarrow> grp_finishing (g\<lparr>sg_StepObjs := (sg_StepObjs g)[i := StepTask t]\<rparr>)"
  by (auto simp: grp_finishing_def dest!: set_update_subset_insert [THEN subsetD])

lemma grp_finishing_idx [simp]: "grp_finishing (g\<lparr>sg_CurStepIdx := i\<rparr>) = grp_finishing g"
  by (simp add: grp_finishing_def)

lemma plan_finishing_update:
  "plan_finishing p \<Longrightarrow> grp_finishing g \<Longrightarrow> plan_finishing (p\<lparr>pb_PlanGrp := (pb_PlanGrp p)[i := g]\<rparr>)"
  by (auto simp: plan_finishing_def dest!: set_update_subset_insert [THEN subsetD])

lemma grpOneStep_ends:
  assumes "grp_finishing g"
  shows "\<exists>go w' g' sp. grpOneStep (Suc n) se w g = Some (go, w', g', sp) \<and> grp_finishing g'"
proof (cases "sg_CurStepIdx g < length (sg_StepObjs g)")
  case True
  show ?thesis
  proof (cases "sg_StepObjs g ! sg_CurStepIdx g")
    case (StepTask t)
    then have t: "finishing t" using assms True by (auto simp: grp_finishing_def dest: nth_mem)
    obtain w1 t1 where e: "exec_task se w t = (w1, t1)" by fastforce
    from exec_task_finishing [OF t e] have "finishing t1" .
    then show ?thesis
      using StepTask True assms t e taskRunner_finishing [OF t, of n se w]
        grp_finishing_update [OF assms, of t1 "sg_CurStepIdx g"] grp_finishing_update [OF assms t, of "sg_CurStepIdx g"]
      by (cases "sg_Policy g") (auto simp: grpOneStep_def stepPolicy_def Let_def grp_finishing_def)
  qed (use True assms in \<open>auto simp: grpOneStep_def Let_def\<close>)
next
  case False
  then show ?thesis using assms by (auto simp: grpOneStep_def)
qed

lemma grp_loop_ends:
  "grp_finishing g \<Longrightarrow> \<exists>w' g' sp'. grp_loop (Suc n) se w g sp = Some (w', g', sp') \<and> grp_finishing g'"
proof (induction "Suc n" se w g sp rule: grp_loop.induct)
  case (1 se w g sp)
  obtain go w' g' sp' where s: "grpOneStep (Suc n) se w g = Some (go, w', g', sp')" "grp_finishing g'"
    using grpOneStep_ends [OF "1.prems"] by blast
  show ?case
  proof (cases go)
    case True
    with "1.hyps" [OF s(1) refl refl refl _ s(2)] s show ?thesis by (subst grp_loop.simps) auto
  next
    case False
    with s show ?thesis by (subst grp_loop.simps) auto
  qed
qed

lemma run_spawned_ends:
  "grp_finishing g \<Longrightarrow> \<exists>w' g'. run_spawned (Suc n) se w g is = Some (w', g') \<and> grp_finishing g'"
proof (induction "is" arbitrary: w g)
  case (Cons i "is")
  show ?case
  proof (cases "if i < length (sg_StepObjs g) then sg_StepObjs g ! i else StepNil")
    case (StepTask t)
    then have t: "finishing t"
      using Cons.prems by (auto simp: grp_finishing_def dest: nth_mem split: if_splits)
    obtain w1 t1 where e: "exec_task se w t = (w1, t1)" by fastforce
    from exec_task_finishing [OF t e] have "finishing t1" .
    with Cons.IH [OF grp_finishing_update [OF Cons.prems]] show ?thesis
      using StepTask e taskRunner_finishing [OF t, of n se w] by simp
  qed (use Cons in auto)
qed simp

lemma grpRun_ends:
  assumes "grp_finishing g"
  shows "\<exists>c i w' g' bg. grpRun (Suc n) sched se w g = Some (c, i, w', g', bg) \<and> grp_finishing g'"
proof -
  obtain w1 g1 sp where l: "grp_loop (Suc n) se w g [] = Some (w1, g1, sp)" and g1: "grp_finishing g1"
    using grp_loop_ends [OF assms, of n se w "[]"] by blast
  obtain w2 g2 where r: "run_spawned (Suc n) se w1 g1 (sched sp) = Some (w2, g2)" "grp_finishing g2"
    using run_spawned_ends [OF g1] by blast
  obtain c i where "grpGetRetCode (if sg_Policy g1 = GoParallel then g2 else g1) = (c, i)" by fastforce
  with l g1 r show ?thesis by (auto simp: grpRun_def split: if_splits)
qed

lemma plan_finishing_goto: "plan_finishing p \<Longrightarrow> plan_finishing (goto_error_from p gs)"
proof (induction p gs rule: goto_error_from.induct)
  case (2 p g gs)
  obtain d p' where s: "GotoErrorStep p g = (d, p')" by fastforce
  then have "plan_finishing p'"
    using "2.prems"
    by (auto simp: GotoErrorStep_def Let_def plan_finishing_def split: if_splits option.splits
        dest!: set_update_subset_insert [THEN subsetD])
  with s "2.IH" [OF s [symmetric] refl] show ?case by auto
qed simp

lemma wk_round_ends:
  assumes "plan_finishing p" and "pb_CurGrpIdx p < length (pb_PlanGrp p)"
  shows "\<exists>r. wk_round (Suc n) sched w p = Some r \<and> (\<forall>w' p' l. r = Inr (w', p', l) \<longrightarrow> plan_finishing p')"
proof -
  let ?gi = "pb_CurGrpIdx p"
  have "grp_finishing (pb_PlanGrp p ! ?gi)" using assms by (simp add: plan_finishing_def)
  from grpRun_ends [OF this] obtain c i w' g' bg where
    run: "grpRun (Suc n) sched (pb_SerError p) w (pb_PlanGrp p ! ?gi) = Some (c, i, w', g', bg)" and g': "grp_finishing g'"
    by blast
  let ?p = "p\<lparr>pb_PlanGrp := (pb_PlanGrp p)[?gi := g']\<rparr>"
  have fin: "plan_finishing ?p" using plan_finishing_update [OF assms(1) g'] .
  have "plan_finishing (GotoErrorProc q)" if "RecordErrInfo ?p i = Inr q" for q
  proof -
    have "plan_finishing (q\<lparr>pb_CurGrpIdx := Suc (pb_CurGrpIdx q)\<rparr>)"
      using RecordErrInfo_shape(2) [OF that] fin by (simp add: plan_finishing_def)
    then show ?thesis by (simp add: GotoErrorProc_def Let_def plan_finishing_goto)
  qed
  with run fin show ?thesis
    by (auto simp: wk_round_def Let_def plan_finishing_def split: sum.splits)
qed

lemma wk_loop_ends:
  "plan_finishing p \<Longrightarrow>
   \<exists>r. wk_loop (Suc n) sched w p bg = Some r \<and> (\<forall>w' p' bg'. r = Inr (w', p', bg') \<longrightarrow> plan_finishing p')"
proof (induction "Suc n" sched w p bg rule: wk_loop.induct)
  case (1 sched w p bg)
  show ?case
  proof (cases "length (pb_PlanGrp p) \<le> pb_CurGrpIdx p")
    case False
    then obtain r where r: "wk_round (Suc n) sched w p = Some r"
      "\<forall>w' p' l. r = Inr (w', p', l) \<longrightarrow> plan_finishing p'"
      using wk_round_ends [OF "1.prems"] by force
    show ?thesis
    proof (cases r)
      case (Inr x)
      obtain w' p' l where x: "x = (w', p', l)" by (metis prod_cases3)
      have "\<exists>r. wk_loop (Suc n) sched w' p' (bg @ l) = Some r
              \<and> (\<forall>w'' p'' bg'. r = Inr (w'', p'', bg') \<longrightarrow> plan_finishing p'')"
        by (rule "1.hyps") (use r Inr x False in auto)
      with r Inr x False show ?thesis by (subst wk_loop.simps) auto
    qed (use r False in \<open>subst wk_loop.simps, auto\<close>)
  qed (use "1.prems" in \<open>subst wk_loop.simps, auto\<close>)
qed

lemma wait_background_ends:
  "plan_finishing p \<Longrightarrow> \<exists>r. wait_background (Suc n) w p bg = Some r"
proof (induction "Suc n" w p bg rule: wait_background.induct)
  case (2 w p gi si rest)
  show ?case
  proof (cases "length (pb_PlanGrp p) \<le> gi")
    case False
    then have "grp_finishing (pb_PlanGrp p ! gi)" using "2.prems" by (simp add: plan_finishing_def)
    from run_spawned_ends [OF this] obtain w' g' where
      r: "run_spawned (Suc n) (pb_SerError p) w (pb_PlanGrp p ! gi) [si] = Some (w', g')" "grp_finishing g'" by blast
    with "2.hyps"(2) [OF False r(1) refl] plan_finishing_update [OF "2.prems"] False show ?thesis by simp
  qed (use 2 in auto)
qed simp

section \<open>Properties\<close>

text \<open>A task that logs its name and reports a code, and the world it logs to.\<close>

definition log_task :: "string \<Rightarrow> int \<Rightarrow> (string list, unit) task" where
  "log_task name code = \<lparr>
     tk_base = \<lparr>tb_serErr = False, tb_errMsg = [], tb_Name = name, tb_Param = [], tb_resultCode = 0\<rparr>, tk_fields = (),
     tk_OnRequest = (\<lambda>se w b f. (w @ [name], if code = 0 then b else SetFirstErrorCode code (''error of '' @ name) b, f, TaskFinish)),
     tk_load_in = (\<lambda>w f. f), tk_load_out = (\<lambda>f w. w)\<rparr>"

definition report_task :: "(string list, unit) task" where
  "report_task = (log_task ''report'' 0)\<lparr>tk_OnRequest :=
     (\<lambda>se w b f. (w @ [case se of None \<Rightarrow> ''nil'' | Some e \<Rightarrow> se_Message e], b, f, TaskFinish))\<rparr>"

lemma log_task_finishing [simp]: "finishing (log_task name code)" "finishing report_task"
  by (simp_all add: finishing_def log_task_def report_task_def)

text \<open>(C34) The plan every request handler builds.  Running \<open>Try\<close> with some tasks
  and \<open>Finally\<close> with the response task always ends, and is the same as: run the
  tasks in order up to the first one that reports an error, store that error's code,
  message and position in the shared error record, then run the response task exactly
  once on that record.\<close>

theorem try_finally_semantics:
  assumes "\<forall>t\<in>set ts. finishing t" and "finishing resp" and "bgsched [] = []"
    and "exec_steps (Some no_error) w (map linked ts) = (w1, ts1)"
    and "exec_task (Some (error_record no_error 0 ts1)) w1 (linked resp) = (w2, resp2)"
  shows "\<exists>p. WkRun (Suc n) sched bgsched w (Finally (StepTask resp) (Try (map StepTask ts) (Init new_plan))) = Some (Inr (w2, p))
    \<and> pb_SerError p = Some (error_record (error_record no_error 0 ts1) 1 [resp2])"
  unfolding try_finally_def [symmetric] by (rule WkRun_try_finally) (fact assms)+

theorem try_finally_semantics_witness:
  "\<exists>p. WkRun 1 (\<lambda>x. x) (\<lambda>x. x) [] (Finally (StepTask report_task) (Try (map StepTask
          [log_task ''decode'' 0, log_task ''check'' 14, log_task ''store'' 0]) (Init new_plan)))
        = Some (Inr ([''decode'', ''check'', ''error of check''], p))
      \<and> pb_SerError p = Some \<lparr>se_ErrCode = 14, se_Message = ''error of check'', se_GrpIdx = 0, se_TaskIdx = 1\<rparr>"
proof -
  let ?ts = "[log_task ''decode'' 0, log_task ''check'' 14, log_task ''store'' 0]"
  let ?ts1 = "snd (exec_steps (Some no_error) [] (map linked ?ts))"
  let ?r = "snd (exec_task (Some (error_record no_error 0 ?ts1)) [''decode'', ''check''] (linked report_task))"
  have e1: "exec_steps (Some no_error) [] (map linked ?ts) = ([''decode'', ''check''], ?ts1)"
    and rec: "error_record no_error 0 ?ts1 = \<lparr>se_ErrCode = 14, se_Message = ''error of check'', se_GrpIdx = 0, se_TaskIdx = 1\<rparr>"
    by (simp_all add: exec_task_def log_task_def SetFirstErrorCode_def SetSerErrInfo_def TaskOK_def error_record_def)
  have e2: "exec_task (Some (error_record no_error 0 ?ts1)) [''decode'', ''check''] (linked report_task)
      = ([''decode'', ''check'', ''error of check''], ?r)"
    and ok: "error_record (error_record no_error 0 ?ts1) 1 [?r] = error_record no_error 0 ?ts1"
    unfolding rec
    by (simp_all add: exec_task_def report_task_def log_task_def GetSerErrInfo_def SetSerErrInfo_def error_record_def TaskOK_def)
  show ?thesis
    using try_finally_semantics [of ?ts report_task "\<lambda>x. x" "[]" _ _ _ _ 0 "\<lambda>x. x", OF _ _ _ e1 e2] rec ok by simp
qed

text \<open>(C40) Every plan terminates.  Whatever groups a plan has, with whichever policies,
  error step and starting position, \<open>WkRun\<close> ends when each task finishes its
  \<open>OnRequest\<close>: the jump to the error step never leads back to a group that was
  already run.\<close>

theorem WkRun_terminates:
  assumes "plan_finishing p"
  shows "\<exists>r. WkRun (Suc n) sched bgsched w p = Some r"
proof -
  obtain r where r: "wk_loop (Suc n) sched w p [] = Some r"
    "\<forall>w' p' bg'. r = Inr (w', p', bg') \<longrightarrow> plan_finishing p'"
    using wk_loop_ends [OF assms] by blast
  then show ?thesis
    using wait_background_ends by (cases r) (fastforce simp: WkRun_def)+
qed

theorem WkRun_terminates_witness:
  "\<exists>r. WkRun (Suc 0) rev rev [] (RunBackground [StepTask (log_task ''a'' 3)]
         (RunParallel [StepTask (log_task ''b'' 4), StepTask (log_task ''c'' 0)] new_plan)) = Some r"
  by (rule WkRun_terminates)
    (auto simp: plan_finishing_def grp_finishing_def RunBackground_def RunParallel_def loadTask_def new_group_def
      new_plan_def finishing_def log_task_def)

text \<open>A failed plan is reported as a failure.  When the error record holds an error
  code, the response is a problem document with a status of 400 or above that carries
  the code and the message of the failing task; the one exception is the search that
  found no instance, which is answered like a success with an empty list.\<close>

theorem error_is_reported:
  assumes "TaskFail \<le> se_ErrCode ei"
    and "\<not> (se_ErrCode ei = SerErrServiceNotFound \<and> to_lower (se_Message ei) = ''failed to find the instance'')"
  shows "\<exists>st pd. SendHttpRsp_OnRequest marshal none (Some ei) statusCode httpErrInf rsp = OutProblem st pd
    \<and> st \<in> {400, 401, 403, 404, 409, 412, 422, 503}
    \<and> pd_Status pd = of_int (se_ErrCode ei) \<and> pd_Detail pd = se_Message ei"
  using assms by (simp add: SendHttpRsp_OnRequest_def cvtHttpErrInfo_def Let_def)

theorem error_is_reported_witness:
  "\<exists>st pd. SendHttpRsp_OnRequest (\<lambda>x. None) ''none'' (Some (no_error\<lparr>se_ErrCode := 20, se_Message := ''busy''\<rparr>)) 0 None (Some ''body'')
     = OutProblem st pd \<and> pd_Detail pd = ''busy''"
  using error_is_reported [of "no_error\<lparr>se_ErrCode := 20, se_Message := ''busy''\<rparr>" "\<lambda>x. None" "''none''" 0 None "Some ''body''"]
  by (simp add: TaskFail_def SerErrServiceNotFound_def) blast

end
