(* ===== verification/Backend.thy ===== *)
theory Backend
  imports Workspace "HOL-Library.Char_ord" "HOL-Library.List_Lexorder"
begin

text \<open>
  The data model of the application configuration
  (\<open>mepserver/common/models/app_config.go\<close>,
  \<open>common/extif/dataplane/dataplane_if.go\<close>) and the access to the etcd
  registry (\<open>common/extif/backend/datastore.go\<close>).  The registry is a
  parameter, the record \<open>registry\<close> of its three transactions over a world
  \<open>'w\<close>, any of which may fail; the locale \<open>etcd\<close> states what they do
  to the key-value map, and is interpreted on an in-memory store whose failures are
  scripted.  A stored document is the value it encodes, or raw text.
\<close>

section \<open>Rules and configurations\<close>

record TunnelInfo =
  ti_TunnelType :: string
  ti_TunnelDstAddress :: string
  ti_TunnelSrcAddress :: string

record DstInterface =
  di_InterfaceType :: string
  di_TunnelInfo :: TunnelInfo
  di_SrcMacAddress :: string
  di_DstMacAddress :: string
  di_DstIPAddress :: string

record TrafficFilter =
  tf_SrcAddress :: "string list"
  tf_DstAddress :: "string list"
  tf_SrcPort :: "string list"
  tf_DstPort :: "string list"
  tf_Protocol :: "string list"
  tf_Tag :: "string list"
  tf_SrcTunnelAddress :: "string list"
  tf_TgtTunnelAddress :: "string list"
  tf_SrcTunnelPort :: "string list"
  tf_DstTunnelPort :: "string list"
  tf_QCI :: int
  tf_DSCP :: int
  tf_TC :: int

record TrafficRule =
  tr_TrafficRuleID :: string
  tr_FilterType :: string
  tr_Priority :: int
  tr_TrafficFilter :: "TrafficFilter list"
  tr_Action :: string
  tr_DstInterface :: "DstInterface list"
  tr_State :: string

record DNSRule =
  dr_DNSRuleID :: string
  dr_DomainName :: string
  dr_IPAddressType :: string
  dr_IPAddress :: string
  dr_TTL :: "32 word"
  dr_State :: string

record ApplicationInfo =
  ai_Id :: string
  ai_Name :: string

record AppDConfig =
  ac_AppTrafficRule :: "TrafficRule list"
  ac_AppDNSRule :: "DNSRule list"
  ac_AppSupportMp1 :: bool
  ac_AppName :: string
  ac_Operation :: string

text \<open>The states of a rule and the operation on it (\<open>common/util/const.go\<close>).\<close>

datatype OperType = OperCreate | OperModify | OperDelete

definition WaitMp2 :: nat where "WaitMp2 = 0"
definition WaitLocal :: nat where "WaitLocal = 1"
definition WaitConfigDBWrite :: nat where "WaitConfigDBWrite = 2"

lemmas wait_defs = WaitMp2_def WaitLocal_def WaitConfigDBWrite_def

record RuleStatus =
  rs_Id :: string
  rs_State :: nat
  rs_Method :: OperType

datatype AppTerminateStatus = NoTermination | TerminationInProgress | TerminationFinish | TerminationFailed

record TaskStatus =
  ts_Progress :: int
  ts_TrafficRuleStatusLst :: "RuleStatus list"
  ts_DNSRuleStatusLst :: "RuleStatus list"
  ts_Details :: string
  ts_TerminationStatus :: AppTerminateStatus

text \<open>The subscriptions of an application: to its own termination, and to the availability
  of services, with a filter (\<open>models/app_terminate_notify_subscribe.go\<close>,
  \<open>ser_avail_notify_subscribe.go\<close>, \<open>filtering_criteria.go\<close>).  The field
  \<open>Self\<close> is the path in the \<open>_links\<close> of the document.\<close>

record TerminationSubscription =
  sub_SubscriptionId :: string
  sub_SubscriptionType :: string
  sub_CallbackReference :: string
  sub_Self :: string
  sub_AppInstanceId :: string

record CategoryRef =
  cat_Href :: string
  cat_ID :: string
  cat_Name :: string
  cat_Version :: string

record FilteringCriteria =
  fc_SerInstanceIds :: "string list"
  fc_SerNames :: "string list"
  fc_SerCategories :: "CategoryRef list"
  fc_States :: "string list"
  fc_IsLocal :: bool

record SerAvailabilitySubscription =
  av_SubscriptionId :: string
  av_SubscriptionType :: string
  av_CallbackReference :: string
  av_Self :: string
  av_FilteringCriteria :: FilteringCriteria

record ConfirmTerminationRecord =
  ctr_OperationAction :: string
  ctr_TerminationStatus :: AppTerminateStatus

section \<open>Documents\<close>

datatype doc =
    DocAppD AppDConfig
  | DocStatus TaskStatus
  | DocSub TerminationSubscription
  | DocAvail SerAvailabilitySubscription
  | DocConfirm ConfirmTerminationRecord
  | DocRaw string

fun unmarshal_appd :: "doc \<Rightarrow> AppDConfig option" where
  "unmarshal_appd (DocAppD c) = Some c" | "unmarshal_appd _ = None"

fun unmarshal_status :: "doc \<Rightarrow> TaskStatus option" where
  "unmarshal_status (DocStatus s) = Some s" | "unmarshal_status _ = None"

fun unmarshal_sub :: "doc \<Rightarrow> TerminationSubscription option" where
  "unmarshal_sub (DocSub s) = Some s" | "unmarshal_sub _ = None"

fun unmarshal_avail :: "doc \<Rightarrow> SerAvailabilitySubscription option" where
  "unmarshal_avail (DocAvail s) = Some s" | "unmarshal_avail _ = None"

fun unmarshal_confirm :: "doc \<Rightarrow> ConfirmTerminationRecord option" where
  "unmarshal_confirm (DocConfirm c) = Some c" | "unmarshal_confirm _ = None"

definition DBRootPath :: string where "DBRootPath = ''/cse-sr/etsi/''"
definition EndAppSubKeyPath :: string where "EndAppSubKeyPath = DBRootPath @ ''app-end-subscribe/''"
definition AvailAppSubKeyPath :: string where "AvailAppSubKeyPath = DBRootPath @ ''subscribe/''"
definition AppDConfigKeyPath :: string where "AppDConfigKeyPath = DBRootPath @ ''appd/''"
definition AppDLCMJobsPath :: string where "AppDLCMJobsPath = DBRootPath @ ''mep/applcm/jobs/''"
definition AppDLCMTasksPath :: string where "AppDLCMTasksPath = DBRootPath @ ''mep/applcm/tasks/''"
definition AppDLCMTaskStatusPath :: string where "AppDLCMTaskStatusPath = DBRootPath @ ''mep/applcm/taskstatus/''"
definition AppConfirmTerminationPath :: string where "AppConfirmTerminationPath = DBRootPath @ ''app-confirm-termination/''"

lemmas path_defs = DBRootPath_def EndAppSubKeyPath_def AvailAppSubKeyPath_def AppDConfigKeyPath_def AppDLCMJobsPath_def
  AppDLCMTasksPath_def AppDLCMTaskStatusPath_def AppConfirmTerminationPath_def

section \<open>The registry\<close>

text \<open>One transaction each: read all entries under a prefix, write one entry,
  delete all entries under a prefix.\<close>

record 'w registry =
  reg_get :: "string \<Rightarrow> 'w \<Rightarrow> (string \<times> doc) list go_result \<times> 'w"
  reg_put :: "string \<Rightarrow> doc \<Rightarrow> 'w \<Rightarrow> go_error option \<times> 'w"
  reg_del :: "string \<Rightarrow> 'w \<Rightarrow> go_error option \<times> 'w"

text \<open>\<open>filepath.Base\<close>.\<close>

definition file_base :: "string \<Rightarrow> string" where
  "file_base p =
     (if p = [] then ''.''
      else let t = rev (dropWhile (\<lambda>c. c = CHR ''/'') (rev p)) in
        if t = [] then ''/'' else last (split_on (CHR ''/'') t))"

definition GetRecord :: "'w registry \<Rightarrow> string \<Rightarrow> 'w \<Rightarrow> (int + doc) \<times> 'w" where
  "GetRecord R path w =
     (case reg_get R path w of
        (Inl err, w) \<Rightarrow> (Inl OperateDataWithEtcdErr, w)
      | (Inr kvs, w) \<Rightarrow> if kvs = [] then (Inl SubscriptionNotFound, w) else (Inr (snd (hd kvs)), w))"

definition GetRecords :: "'w registry \<Rightarrow> string \<Rightarrow> 'w \<Rightarrow> (int + (string \<times> doc) list) \<times> 'w" where
  "GetRecords R path w =
     (case reg_get R path w of
        (Inl err, w) \<Rightarrow> (Inl OperateDataWithEtcdErr, w)
      | (Inr kvs, w) \<Rightarrow> (Inr (fold (\<lambda>(k, v). al_put (file_base k) v) kvs []), w))"

definition GetRecordsWithCompleteKeyPath :: "'w registry \<Rightarrow> string \<Rightarrow> 'w \<Rightarrow> (int + (string \<times> doc) list) \<times> 'w" where
  "GetRecordsWithCompleteKeyPath R path w =
     (case reg_get R path w of
        (Inl err, w) \<Rightarrow> (Inl OperateDataWithEtcdErr, w)
      | (Inr kvs, w) \<Rightarrow> (Inr (fold (\<lambda>(k, v). al_put k v) kvs []), w))"

definition PutRecord :: "'w registry \<Rightarrow> string \<Rightarrow> doc \<Rightarrow> 'w \<Rightarrow> int \<times> 'w" where
  "PutRecord R path v w =
     (case reg_put R path v w of (Some err, w) \<Rightarrow> (OperateDataWithEtcdErr, w) | (None, w) \<Rightarrow> (0, w))"

definition DeleteRecord :: "'w registry \<Rightarrow> string \<Rightarrow> 'w \<Rightarrow> int \<times> 'w" where
  "DeleteRecord R path w =
     (case reg_del R path w of (Some err, w) \<Rightarrow> (OperateDataWithEtcdErr, w) | (None, w) \<Rightarrow> (0, w))"

fun DeletePaths :: "'w registry \<Rightarrow> string list \<Rightarrow> bool \<Rightarrow> 'w \<Rightarrow> int \<times> 'w" where
  "DeletePaths R [] continueOnFailure w = (0, w)"
| "DeletePaths R (pathEntry # paths) continueOnFailure w =
     (let (errCode, w) = DeleteRecord R pathEntry w in
      if errCode \<noteq> 0 then
        (if continueOnFailure then DeletePaths R paths continueOnFailure w else (errCode, w))
      else DeletePaths R paths continueOnFailure w)"

section \<open>The contract of the registry\<close>

text \<open>A transaction that succeeds reads or changes the key-value map as asked; one
  that fails leaves it alone.  Reads come back in byte order of the keys.\<close>

locale etcd =
  fixes R :: "'w registry" and kv :: "'w \<Rightarrow> string \<Rightarrow> doc option"
  assumes get_ok: "reg_get R p w = (Inr kvs, w') \<Longrightarrow>
      kv w' = kv w \<and> set kvs = {(k, v). has_prefix k p \<and> kv w k = Some v}
      \<and> distinct (map fst kvs) \<and> sorted (map fst kvs)"
    and get_err: "reg_get R p w = (Inl e, w') \<Longrightarrow> kv w' = kv w"
    and put_ok: "reg_put R p v w = (None, w') \<Longrightarrow> kv w' = (kv w)(p \<mapsto> v)"
    and put_err: "reg_put R p v w = (Some e, w') \<Longrightarrow> kv w' = kv w"
    and del_ok: "reg_del R p w = (None, w') \<Longrightarrow> kv w' = (\<lambda>k. if has_prefix k p then None else kv w k)"
    and del_err: "reg_del R p w = (Some e, w') \<Longrightarrow> kv w' = kv w"
begin

lemma GetRecord_kv: "GetRecord R p w = (r, w') \<Longrightarrow> kv w' = kv w"
  using get_ok [of p w] get_err [of p w]
  by (auto simp: GetRecord_def split: prod.splits sum.splits if_splits)

lemma GetRecords_kv: "GetRecords R p w = (r, w') \<Longrightarrow> kv w' = kv w"
  using get_ok [of p w] get_err [of p w]
  by (auto simp: GetRecords_def split: prod.splits sum.splits if_splits)

lemma PutRecord_ok: "PutRecord R p v w = (0, w') \<Longrightarrow> kv w' = (kv w)(p \<mapsto> v)"
  using put_ok [of p v w] put_err [of p v w]
  by (auto simp: PutRecord_def OperateDataWithEtcdErr_def split: prod.splits option.splits)

lemma PutRecord_err: "PutRecord R p v w = (c, w') \<Longrightarrow> c \<noteq> 0 \<Longrightarrow> kv w' = kv w"
  using put_ok [of p v w] put_err [of p v w]
  by (auto simp: PutRecord_def split: prod.splits option.splits)

lemma DeleteRecord_ok: "DeleteRecord R p w = (0, w') \<Longrightarrow> kv w' = (\<lambda>k. if has_prefix k p then None else kv w k)"
  using del_ok [of p w] del_err [of p w]
  by (auto simp: DeleteRecord_def OperateDataWithEtcdErr_def split: prod.splits option.splits)

lemma DeleteRecord_err: "DeleteRecord R p w = (c, w') \<Longrightarrow> c \<noteq> 0 \<Longrightarrow> kv w' = kv w"
  using del_ok [of p w] del_err [of p w]
  by (auto simp: DeleteRecord_def split: prod.splits option.splits)

lemma append_le: "(p :: string) \<le> p @ t"
  by (induction p) auto

lemma prefix_le: "has_prefix k p \<Longrightarrow> p \<le> k"
  by (auto simp: has_prefix_iff append_le)

text \<open>The exact key is the first of its prefix.\<close>

lemma GetRecord_exact:
  assumes "GetRecord R p w = (Inr d, w')" and "kv w p = Some v"
  shows "d = v"
proof -
  obtain kvs where g: "reg_get R p w = (Inr kvs, w')" and d: "d = snd (hd kvs)" and ne: "kvs \<noteq> []"
    using assms(1) by (auto simp: GetRecord_def split: prod.splits sum.splits if_splits)
  from get_ok [OF g] have s: "set kvs = {(k, v). has_prefix k p \<and> kv w k = Some v}"
    and sd: "sorted (map fst kvs)" by auto
  have mem: "(p, v) \<in> set kvs" using s assms(2) by simp
  have hd: "hd kvs \<in> set kvs" using ne by simp
  then have "has_prefix (fst (hd kvs)) p" "kv w (fst (hd kvs)) = Some (snd (hd kvs))" using s by auto
  moreover have "fst (hd kvs) \<le> p"
    using sd mem ne by (cases kvs) auto
  ultimately show ?thesis using prefix_le [of "fst (hd kvs)" p] assms(2) d by simp
qed

lemma GetRecord_some:
  assumes "GetRecord R p w = (Inr d, w')"
  shows "\<exists>k. has_prefix k p \<and> kv w k = Some d"
proof -
  obtain kvs where g: "reg_get R p w = (Inr kvs, w')" and d: "d = snd (hd kvs)" and ne: "kvs \<noteq> []"
    using assms(1) by (auto simp: GetRecord_def split: prod.splits sum.splits if_splits)
  have "(fst (hd kvs), snd (hd kvs)) \<in> set kvs" using ne by simp
  with get_ok [OF g] d show ?thesis by blast
qed

lemma GetRecord_none:
  assumes "GetRecord R p w = (Inl c, w')" and "c \<noteq> OperateDataWithEtcdErr" and "has_prefix k p"
  shows "kv w k = None"
proof -
  have g: "reg_get R p w = (Inr [], w')"
    using assms(1,2) by (auto simp: GetRecord_def split: prod.splits sum.splits if_splits)
  from get_ok [OF g] assms(3) show ?thesis by (cases "kv w k") auto
qed

lemma GetRecords_nonempty:
  assumes "GetRecords R p w = (Inr rs, w')"
  shows "rs \<noteq> [] \<longleftrightarrow> (\<exists>k. has_prefix k p \<and> kv w k \<noteq> None)"
proof -
  obtain kvs where g: "reg_get R p w = (Inr kvs, w')" and rs: "rs = fold (\<lambda>(k, v). al_put (file_base k) v) kvs []"
    using assms by (auto simp: GetRecords_def split: prod.splits sum.splits)
  have ne: "al_put k v al \<noteq> []" for k v and al :: "(string \<times> doc) list"
    by (cases "(k, v, al)" rule: al_put.cases) auto
  have "fold (\<lambda>(k, v). al_put (file_base k) v) kvs al \<noteq> [] \<longleftrightarrow> kvs \<noteq> [] \<or> al \<noteq> []" for al
  proof (induction kvs arbitrary: al)
    case (Cons x kvs)
    show ?case by (cases x) (simp add: Cons ne)
  qed simp
  then have "rs \<noteq> [] \<longleftrightarrow> kvs \<noteq> []" by (simp add: rs)
  also have "\<dots> \<longleftrightarrow> (\<exists>k. has_prefix k p \<and> kv w k \<noteq> None)"
  proof -
    have "kvs \<noteq> [] \<longleftrightarrow> (\<exists>x. x \<in> set kvs)" by (cases kvs) auto
    also have "\<dots> \<longleftrightarrow> (\<exists>k v. has_prefix k p \<and> kv w k = Some v)"
      using conjunct1 [OF conjunct2 [OF get_ok [OF g]]] by simp
    finally show ?thesis by simp
  qed
  finally show ?thesis .
qed

lemma DeletePaths_kv:
  assumes "DeletePaths R ps b w = (c, w')"
  shows "kv w' k = kv w k \<or> kv w' k = None \<and> (\<exists>p\<in>set ps. has_prefix k p)"
  using assms
proof (induction ps arbitrary: w)
  case (Cons p ps)
  obtain c1 w1 where d: "DeleteRecord R p w = (c1, w1)" by fastforce
  have step: "kv w1 k = kv w k \<or> kv w1 k = None \<and> has_prefix k p"
    using DeleteRecord_ok [of p w w1] DeleteRecord_err [OF d] d by (cases "c1 = 0") auto
  show ?case
  proof (cases "c1 \<noteq> 0 \<and> \<not> b")
    case True
    with Cons.prems d have "w' = w1" by (simp split: if_splits)
    with step show ?thesis by auto
  next
    case False
    with Cons.prems d have "DeletePaths R ps b w1 = (c, w')" by (auto split: if_splits)
    from Cons.IH [OF this] step show ?thesis by auto
  qed
qed simp

end

text \<open>A registry whose deletions do not fail.\<close>

locale etcd_calm = etcd R kv for R :: "'w registry" and kv :: "'w \<Rightarrow> string \<Rightarrow> doc option" +
  assumes del_calm: "fst (reg_del R p w) = None"
begin

lemma DeleteRecord_calm:
  "DeleteRecord R p w = (c, w') \<Longrightarrow> c = 0 \<and> kv w' = (\<lambda>k. if has_prefix k p then None else kv w k)"
  using del_calm [of p w] del_ok [of p w] by (auto simp: DeleteRecord_def split: prod.splits)

lemma DeletePaths_calm:
  "DeletePaths R ps b w = (c, w') \<Longrightarrow>
   c = 0 \<and> kv w' = (\<lambda>k. if \<exists>p\<in>set ps. has_prefix k p then None else kv w k)"
proof (induction ps arbitrary: w)
  case (Cons p ps)
  obtain c1 w1 where d: "DeleteRecord R p w = (c1, w1)" by fastforce
  from DeleteRecord_calm [OF d] Cons.IH [of w1] Cons.prems d show ?case by (auto simp: fun_eq_iff)
qed simp

end

section \<open>An in-memory registry\<close>

text \<open>The entries, and the script of failures: one flag per coming transaction, true
  for a failing one.  In the calm variant deletions never fail.\<close>

record mem_world =
  mw_kv :: "(string \<times> doc) list"
  mw_faults :: "bool list"

definition mem_fault :: "'a mem_world_scheme \<Rightarrow> bool \<times> 'a mem_world_scheme" where
  "mem_fault w = (case mw_faults w of [] \<Rightarrow> (False, w) | b # bs \<Rightarrow> (b, w\<lparr>mw_faults := bs\<rparr>))"

definition mem_registry :: "bool \<Rightarrow> 'a mem_world_scheme registry" where
  "mem_registry calm = \<lparr>
     reg_get = (\<lambda>p w. case mem_fault w of
        (True, w) \<Rightarrow> (Inl (Err ''etcdserver: request timed out''), w)
      | (False, w) \<Rightarrow> (Inr (map (\<lambda>k. (k, the (map_of (mw_kv w) k)))
                              (filter (\<lambda>k. has_prefix k p) (sort (remdups (map fst (mw_kv w)))))), w)),
     reg_put = (\<lambda>p v w. case mem_fault w of
        (True, w) \<Rightarrow> (Some (Err ''etcdserver: request timed out''), w)
      | (False, w) \<Rightarrow> (None, w\<lparr>mw_kv := al_put p v (mw_kv w)\<rparr>)),
     reg_del = (\<lambda>p w. case (if calm then (False, w) else mem_fault w) of
        (True, w) \<Rightarrow> (Some (Err ''etcdserver: request timed out''), w)
      | (False, w) \<Rightarrow> (None, w\<lparr>mw_kv := filter (\<lambda>(k, _). \<not> has_prefix k p) (mw_kv w)\<rparr>))\<rparr>"

lemma mem_fault_kv: "mem_fault w = (b, w') \<Longrightarrow> mw_kv w' = mw_kv w"
  by (auto simp: mem_fault_def split: list.splits)

interpretation mem_etcd: etcd "mem_registry calm" "\<lambda>w. map_of (mw_kv w)"
proof
  fix p :: string and w w' :: "'a mem_world_scheme" and kvs
  assume "reg_get (mem_registry calm) p w = (Inr kvs, w')"
  then have kvs: "kvs = map (\<lambda>k. (k, the (map_of (mw_kv w) k)))
      (filter (\<lambda>k. has_prefix k p) (sort (remdups (map fst (mw_kv w)))))" and kv: "mw_kv w' = mw_kv w"
    by (auto simp: mem_registry_def split: prod.splits bool.splits dest: mem_fault_kv)
  have "set kvs = {(k, v). has_prefix k p \<and> map_of (mw_kv w) k = Some v}"
  proof -
    have "set kvs = (\<lambda>k. (k, the (map_of (mw_kv w) k))) ` {k \<in> dom (map_of (mw_kv w)). has_prefix k p}"
      by (simp add: kvs dom_map_of_conv_image_fst)
    then show ?thesis by (auto simp: image_iff)
  qed
  moreover have "distinct (map fst kvs)" "sorted (map fst kvs)"
    by (simp_all add: kvs comp_def sorted_wrt_filter)
  ultimately show "map_of (mw_kv w') = map_of (mw_kv w)
      \<and> set kvs = {(k, v). has_prefix k p \<and> map_of (mw_kv w) k = Some v}
      \<and> distinct (map fst kvs) \<and> sorted (map fst kvs)"
    using kv by simp
qed (auto simp: mem_registry_def map_of_filter_key fun_eq_iff split: prod.splits bool.splits if_splits dest: mem_fault_kv)

interpretation mem_etcd_calm: etcd_calm "mem_registry True" "\<lambda>w. map_of (mw_kv w)"
  by unfold_locales (simp add: mem_registry_def)

end
