(* ===== verification/Appd.thy ===== *)
theory Appd
  imports Backend
begin

text \<open>
  The staging of application configuration tasks
  (\<open>mepserver/common/appd/appd.go\<close>): the checks for existing instances, names
  and operations, the rule status of a new task, the check for duplicate domain names,
  and \<open>StageNewTask\<close>, which writes the job, the task and the status records.
  \<open>iter\<close> is the iteration order of the Go maps.
\<close>

section \<open>Checks\<close>

definition AppTerminationNotificationSubscription :: string where
  "AppTerminationNotificationSubscription = ''AppTerminationNotificationSubscription''"

definition SerAvailabilityNotificationSubscription :: string where
  "SerAvailabilityNotificationSubscription = ''SerAvailabilityNotificationSubscription''"

definition GetSubscribeKeyPath :: "string \<Rightarrow> string" where
  "GetSubscribeKeyPath subscribeType =
     (if subscribeType = SerAvailabilityNotificationSubscription then AvailAppSubKeyPath else EndAppSubKeyPath)"

abbreviation MethodPost :: string where "MethodPost \<equiv> ''POST''"
abbreviation MethodPut :: string where "MethodPut \<equiv> ''PUT''"
abbreviation MethodDelete :: string where "MethodDelete \<equiv> ''DELETE''"

definition IsAppInstanceAlreadyCreated :: "'w registry \<Rightarrow> string \<Rightarrow> 'w \<Rightarrow> bool \<times> 'w" where
  "IsAppInstanceAlreadyCreated R appInstanceId w =
     (case GetRecord R (AppDConfigKeyPath @ appInstanceId) w of
        (Inl errCode, w) \<Rightarrow> (False, w)
      | (Inr record', w) \<Rightarrow> (True, w))"

definition IsDuplicateAppNameExists :: "'w registry \<Rightarrow> string \<Rightarrow> 'w \<Rightarrow> bool \<times> 'w" where
  "IsDuplicateAppNameExists R appName w =
     (case GetRecords R AppDConfigKeyPath w of
        (Inl errCode, w) \<Rightarrow> (False, w)
      | (Inr records, w) \<Rightarrow>
          (list_ex (\<lambda>(_, d). case unmarshal_appd d of None \<Rightarrow> False | Some c \<Rightarrow> ac_AppName c = appName) records, w))"

definition IsAnyOngoingOperationExist :: "'w registry \<Rightarrow> string \<Rightarrow> 'w \<Rightarrow> bool \<times> 'w" where
  "IsAnyOngoingOperationExist R appInstanceId w =
     (case GetRecords R (AppDLCMJobsPath @ appInstanceId) w of
        (Inl errCode, w) \<Rightarrow> (False, w)
      | (Inr records, w) \<Rightarrow> (0 < length records, w))"

record TaskProgress =
  tp_TaskId :: string
  tp_AppInstanceId :: string
  tp_ConfigResult :: string
  tp_ConfigPhase :: string
  tp_Details :: string

definition GenerateTaskResponse :: "string \<Rightarrow> string \<Rightarrow> string \<Rightarrow> string \<Rightarrow> string \<Rightarrow> TaskProgress" where
  "GenerateTaskResponse taskId appInstanceId result percent details =
     \<lparr>tp_TaskId = taskId, tp_AppInstanceId = appInstanceId, tp_ConfigResult = result,
      tp_ConfigPhase = percent, tp_Details = details\<rparr>"

fun find_subscription :: "(string \<times> doc) list \<Rightarrow> bool \<times> TerminationSubscription option" where
  "find_subscription [] = (False, None)"
| "find_subscription ((subId, d) # records) =
     (case unmarshal_sub d of
        None \<Rightarrow> (False, None)
      | Some subscription \<Rightarrow>
          let subscription = subscription\<lparr>sub_SubscriptionId := subId\<rparr> in
          if sub_SubscriptionType subscription = AppTerminationNotificationSubscription
          then (True, Some subscription)
          else find_subscription records)"

definition AppTerminationIsSubscribed ::
  "'w registry \<Rightarrow> ((string \<times> doc) list \<Rightarrow> (string \<times> doc) list) \<Rightarrow> string \<Rightarrow> 'w
   \<Rightarrow> (bool \<times> TerminationSubscription option) \<times> 'w" where
  "AppTerminationIsSubscribed R iter appInstanceId w =
     (case GetRecords R (GetSubscribeKeyPath AppTerminationNotificationSubscription @ appInstanceId) w of
        (Inl errCode, w) \<Rightarrow> ((False, None), w)
      | (Inr records, w) \<Rightarrow>
          if length records = 0 then ((False, None), w) else (find_subscription (iter records), w))"

section \<open>The status of a new task\<close>

definition handleRuleCreateOrDelete :: "OperType \<Rightarrow> AppDConfig \<Rightarrow> TaskStatus \<Rightarrow> TaskStatus" where
  "handleRuleCreateOrDelete meth appDConfig taskStatus =
     taskStatus\<lparr>
       ts_DNSRuleStatusLst := ts_DNSRuleStatusLst taskStatus
         @ map (\<lambda>r. \<lparr>rs_Id = dr_DNSRuleID r, rs_State = WaitMp2, rs_Method = meth\<rparr>) (ac_AppDNSRule appDConfig),
       ts_TrafficRuleStatusLst := ts_TrafficRuleStatusLst taskStatus
         @ map (\<lambda>r. \<lparr>rs_Id = tr_TrafficRuleID r, rs_State = WaitMp2, rs_Method = meth\<rparr>) (ac_AppTrafficRule appDConfig)\<rparr>"

text \<open>The maps of \<open>handleRuleUpdate\<close> from the rule id to the rule and the flag
  \<open>isExistingRule\<close>; a later rule with the same id replaces an earlier one.\<close>

type_synonym 'r ruleData = "bool \<times> 'r"

definition id_map :: "('r \<Rightarrow> string) \<Rightarrow> 'r list \<Rightarrow> (string \<times> 'r) list" where
  "id_map rid rules = fold (\<lambda>r. al_put (rid r) r) rules []"

definition flag_existing :: "(string \<times> 'r) list \<Rightarrow> (string \<times> 's) list \<Rightarrow> (string \<times> 'r ruleData) list" where
  "flag_existing m other = map (\<lambda>(i, r). (i, (map_of other i \<noteq> None, r))) m"

definition processRulesFromIDMap ::
  "(string list \<Rightarrow> string list) \<Rightarrow> (string \<times> 'r ruleData) list \<Rightarrow> (string \<times> 'r ruleData) list \<Rightarrow> RuleStatus list" where
  "processRulesFromIDMap iter idInputMap idStoreMap =
     concat (map (\<lambda>i. case map_of idInputMap i of
          None \<Rightarrow> []
        | Some (isExistingRule, rule) \<Rightarrow>
            if isExistingRule then
              (if map_option snd (map_of idStoreMap i) = Some rule then []
               else [\<lparr>rs_Id = i, rs_State = WaitMp2, rs_Method = OperModify\<rparr>])
            else [\<lparr>rs_Id = i, rs_State = WaitMp2, rs_Method = OperCreate\<rparr>])
        (iter (map fst idInputMap)))
     @ concat (map (\<lambda>i. case map_of idStoreMap i of
          None \<Rightarrow> []
        | Some (isExistingRule, rule) \<Rightarrow>
            if isExistingRule then []
            else [\<lparr>rs_Id = i, rs_State = WaitMp2, rs_Method = OperDelete\<rparr>])
        (iter (map fst idStoreMap)))"

definition rule_update :: "(string list \<Rightarrow> string list) \<Rightarrow> ('r \<Rightarrow> string) \<Rightarrow> 'r list \<Rightarrow> 'r list \<Rightarrow> RuleStatus list" where
  "rule_update iter rid input store =
     (let inputMap = id_map rid input; storeMap = id_map rid store in
      processRulesFromIDMap iter (flag_existing inputMap storeMap) (flag_existing storeMap inputMap))"

definition handleRuleUpdate ::
  "(string list \<Rightarrow> string list) \<Rightarrow> AppDConfig \<Rightarrow> AppDConfig \<Rightarrow> TaskStatus \<Rightarrow> TaskStatus" where
  "handleRuleUpdate iter appDConfigInput appDConfigOnStore taskStatus =
     taskStatus\<lparr>
       ts_DNSRuleStatusLst := rule_update iter dr_DNSRuleID (ac_AppDNSRule appDConfigInput) (ac_AppDNSRule appDConfigOnStore),
       ts_TrafficRuleStatusLst :=
         rule_update iter tr_TrafficRuleID (ac_AppTrafficRule appDConfigInput) (ac_AppTrafficRule appDConfigOnStore)\<rparr>"

definition new_TaskStatus :: TaskStatus where
  "new_TaskStatus = \<lparr>ts_Progress = 0, ts_TrafficRuleStatusLst = [], ts_DNSRuleStatusLst = [], ts_Details = [],
     ts_TerminationStatus = NoTermination\<rparr>"

definition buildTaskStatus ::
  "(string list \<Rightarrow> string list) \<Rightarrow> AppDConfig \<Rightarrow> AppDConfig \<Rightarrow> bool \<Rightarrow> TaskStatus" where
  "buildTaskStatus iter appDConfigInput appDInStore terminateStarted =
     (if ac_Operation appDConfigInput = MethodPost
      then handleRuleCreateOrDelete OperCreate appDConfigInput new_TaskStatus
      else if ac_Operation appDConfigInput = MethodDelete
      then (let s = handleRuleCreateOrDelete OperDelete appDInStore new_TaskStatus in
            if terminateStarted then s\<lparr>ts_TerminationStatus := TerminationInProgress\<rparr> else s)
      else if ac_Operation appDConfigInput = MethodPut
      then handleRuleUpdate iter appDConfigInput appDInStore new_TaskStatus
      else new_TaskStatus)"

section \<open>Duplicate domain names\<close>

definition fillDnsDomainNameMap :: "'w registry \<Rightarrow> string \<Rightarrow> string \<Rightarrow> string list \<Rightarrow> 'w \<Rightarrow> string list \<times> 'w" where
  "fillDnsDomainNameMap R appInstanceId path dnsRuleMap w =
     (case GetRecords R path w of
        (Inl errCode, w) \<Rightarrow> (dnsRuleMap, w)
      | (Inr records, w) \<Rightarrow>
          (dnsRuleMap @ concat (map (\<lambda>(appId, d).
              if appId = appInstanceId then []
              else (case unmarshal_appd d of None \<Rightarrow> [] | Some c \<Rightarrow> map dr_DomainName (ac_AppDNSRule c))) records), w))"

definition isDNSDomainNameExists ::
  "'w registry \<Rightarrow> string \<Rightarrow> AppDConfig \<Rightarrow> TaskStatus \<Rightarrow> 'w \<Rightarrow> bool go_result \<times> 'w" where
  "isDNSDomainNameExists R appInstanceId appDConfigInput taskStatus w =
     (let (inStore, w) = fillDnsDomainNameMap R appInstanceId AppDConfigKeyPath [] w;
          (inStore, w) = fillDnsDomainNameMap R appInstanceId AppDLCMJobsPath inStore w;
          dnsInputRuleMap = id_map dr_DNSRuleID (ac_AppDNSRule appDConfigInput) in
      if \<not> distinct (map dr_DomainName (ac_AppDNSRule appDConfigInput)) then (Inr True, w)
      else
        (foldr (\<lambda>ruleStatus r.
             if rs_Method ruleStatus = OperCreate then
               (case map_of dnsInputRuleMap (rs_Id ruleStatus) of
                  None \<Rightarrow> Inl (Panic ''invalid memory address or nil pointer dereference'')
                | Some rule \<Rightarrow> if dr_DomainName rule \<in> set inStore then Inr True else r)
             else r) (ts_DNSRuleStatusLst taskStatus) (Inr False), w))"

section \<open>Staging\<close>

definition DBFailure :: string where "DBFailure = ''put app config rule to data-store failed''"

definition writeStatusToStore :: "'w registry \<Rightarrow> TaskStatus \<Rightarrow> string \<Rightarrow> string \<Rightarrow> 'w \<Rightarrow> (int \<times> string) \<times> 'w" where
  "writeStatusToStore R taskStatus appInstanceId taskId w =
     (let (errCode, w) = PutRecord R (AppDLCMTaskStatusPath @ appInstanceId @ ''/'' @ taskId) (DocStatus taskStatus) w in
      if errCode \<noteq> 0 then
        (let (_, w) = DeletePaths R [AppDLCMJobsPath @ appInstanceId, AppDLCMTasksPath @ taskId] True w
         in ((errCode, DBFailure), w))
      else ((0, []), w))"

definition stageAppTerminationProgress ::
  "'w registry \<Rightarrow> ((string \<times> doc) list \<Rightarrow> (string \<times> doc) list) \<Rightarrow> string \<Rightarrow> string \<Rightarrow> bool \<Rightarrow> 'w \<Rightarrow> (bool \<times> bool) \<times> 'w" where
  "stageAppTerminationProgress R iter appInstanceId taskId isTerminate w =
     (let ((subscribed, _), w) =
            (if isTerminate then AppTerminationIsSubscribed R iter appInstanceId w else ((False, None), w));
          (created, w) = IsAppInstanceAlreadyCreated R appInstanceId w in
      if \<not> created \<and> isTerminate then
        (if subscribed then
           (let (_, w) = writeStatusToStore R (new_TaskStatus\<lparr>ts_TerminationStatus := TerminationInProgress\<rparr>)
                  appInstanceId taskId w in ((subscribed, True), w))
         else ((subscribed, True), w))
      else ((subscribed, False), w))"

definition addJobsToDb :: "'w registry \<Rightarrow> string \<Rightarrow> string \<Rightarrow> doc \<Rightarrow> 'w \<Rightarrow> int \<times> 'w" where
  "addJobsToDb R appInstanceId taskId appDConfigBytes w =
     (let (errCode, w) = PutRecord R (AppDLCMJobsPath @ appInstanceId) appDConfigBytes w in
      if errCode \<noteq> 0 then (errCode, w)
      else let (errCode, w) = PutRecord R (AppDLCMTasksPath @ taskId) (DocRaw appInstanceId) w in
        if errCode \<noteq> 0 then
          (let (_, w) = DeletePaths R [AppDLCMJobsPath @ appInstanceId] True w in (errCode, w))
        else (0, w))"

definition empty_AppDConfig :: AppDConfig where
  "empty_AppDConfig = \<lparr>ac_AppTrafficRule = [], ac_AppDNSRule = [], ac_AppSupportMp1 = False, ac_AppName = [], ac_Operation = []\<rparr>"

text \<open>What is left of \<open>StageNewTask\<close> once the stored configuration is read: the
  result code and message, and the input, whose name is filled in for a delete.\<close>

definition stage_task ::
  "'w registry \<Rightarrow> (string list \<Rightarrow> string list) \<Rightarrow> string \<Rightarrow> string \<Rightarrow> bool \<Rightarrow> AppDConfig \<Rightarrow> AppDConfig \<Rightarrow> 'w
   \<Rightarrow> ((int \<times> string) go_result \<times> AppDConfig) \<times> 'w" where
  "stage_task R iter appInstanceId taskId subscribed input appDInStore w =
     (if ac_Operation input = MethodPut \<and> ac_AppName input \<noteq> ac_AppName appDInStore
      then ((Inr (OperateDataWithEtcdErr, ''app-name doesn't match''), input), w)
      else
        let isDel = (ac_Operation input = MethodDelete);
            appDInStore = (if isDel then appDInStore\<lparr>ac_Operation := ac_Operation input\<rparr> else appDInStore);
            input = (if isDel then input\<lparr>ac_AppName := ac_AppName appDInStore\<rparr> else input);
            (errCode, w) = addJobsToDb R appInstanceId taskId (DocAppD (if isDel then appDInStore else input)) w in
        if errCode \<noteq> 0 then ((Inr (errCode, DBFailure), input), w)
        else let taskStatus = buildTaskStatus iter input appDInStore subscribed;
                 clean = DeletePaths R [AppDLCMJobsPath @ appInstanceId, AppDLCMTasksPath @ taskId] True in
          if ts_TrafficRuleStatusLst taskStatus = [] \<and> ts_DNSRuleStatusLst taskStatus = []
          then ((Inr (SubscriptionNotFound, ''no modification data found in the input''), input), snd (clean w))
          else (case isDNSDomainNameExists R appInstanceId input taskStatus w of
                  (Inl e, w) \<Rightarrow> ((Inl e, input), w)
                | (Inr dup, w) \<Rightarrow>
                    if dup then ((Inr (DuplicateOperation, ''duplicate dns entry''), input), snd (clean w))
                    else let (r, w) = writeStatusToStore R taskStatus appInstanceId taskId w in ((Inr r, input), w)))"

definition StageNewTask ::
  "'w registry \<Rightarrow> (string list \<Rightarrow> string list) \<Rightarrow> ((string \<times> doc) list \<Rightarrow> (string \<times> doc) list)
   \<Rightarrow> string \<Rightarrow> string \<Rightarrow> AppDConfig \<Rightarrow> bool \<Rightarrow> 'w \<Rightarrow> ((int \<times> string) go_result \<times> AppDConfig) \<times> 'w" where
  "StageNewTask R iter riter appInstanceId taskId appDConfigInput isTerminate w =
     (let ((subscribed, isNoConfig), w) = stageAppTerminationProgress R riter appInstanceId taskId isTerminate w in
      if isNoConfig then ((Inr (0, []), appDConfigInput), w)
      else if ac_Operation appDConfigInput \<noteq> MethodPost then
        (case GetRecord R (AppDConfigKeyPath @ appInstanceId) w of
           (Inl errCode, w) \<Rightarrow> ((Inr (errCode, ''get app config rule from data-store failed''), appDConfigInput), w)
         | (Inr appDConfigEntry, w) \<Rightarrow>
             (case unmarshal_appd appDConfigEntry of
                None \<Rightarrow> ((Inr (OperateDataWithEtcdErr, ''parsing app config rule from data-store failed''), appDConfigInput), w)
              | Some appDInStore \<Rightarrow> stage_task R iter appInstanceId taskId subscribed appDConfigInput appDInStore w))
      else stage_task R iter appInstanceId taskId subscribed appDConfigInput empty_AppDConfig w)"

section \<open>Which rules an update touches\<close>

lemma id_map_keys: "fst ` set (id_map rid rules) = rid ` set rules" "distinct (map fst (id_map rid rules))"
proof -
  have "fst ` set (fold (\<lambda>r. al_put (rid r) r) rules al) = rid ` set rules \<union> fst ` set al
      \<and> (distinct (map fst al) \<longrightarrow> distinct (map fst (fold (\<lambda>r. al_put (rid r) r) rules al)))" for al
    by (induction rules arbitrary: al) (auto simp: fst_al_put)
  then show "fst ` set (id_map rid rules) = rid ` set rules" "distinct (map fst (id_map rid rules))"
    unfolding id_map_def by (metis empty_set image_empty sup_bot.right_neutral, metis distinct.simps(1) list.simps(8))
qed

lemma id_map_Some: "map_of (id_map rid rules) i = Some r \<Longrightarrow> r \<in> set rules \<and> rid r = i"
proof -
  have "map_of (fold (\<lambda>r. al_put (rid r) r) rules al) i = Some r \<Longrightarrow>
      r \<in> set rules \<and> rid r = i \<or> map_of al i = Some r" for al
  proof (induction rules arbitrary: al)
    case (Cons x rules)
    from Cons.IH [of "al_put (rid x) x al"] Cons.prems show ?case by (auto split: if_splits)
  qed simp
  then show "map_of (id_map rid rules) i = Some r \<Longrightarrow> r \<in> set rules \<and> rid r = i"
    unfolding id_map_def by fastforce
qed

lemma id_map_None: "map_of (id_map rid rules) i = None \<longleftrightarrow> i \<notin> rid ` set rules"
  using id_map_keys(1) [of rid rules] by (simp add: map_of_eq_None_iff)

lemma map_of_flag_existing:
  "map_of (flag_existing m other) i = map_option (Pair (map_of other i \<noteq> None)) (map_of m i)"
  unfolding flag_existing_def by (induction m) auto

lemma fst_flag_existing [simp]: "map fst (flag_existing m other) = map fst m"
  by (simp add: flag_existing_def comp_def case_prod_beta)

text \<open>The operation an update makes of an id.\<close>

definition update_method :: "'r option \<Rightarrow> 'r option \<Rightarrow> OperType option" where
  "update_method new old = (case (new, old) of
      (None, None) \<Rightarrow> None
    | (Some r, None) \<Rightarrow> Some OperCreate
    | (Some r, Some r') \<Rightarrow> if r = r' then None else Some OperModify
    | (None, Some r') \<Rightarrow> Some OperDelete)"

definition update_status :: "('r \<Rightarrow> string) \<Rightarrow> 'r list \<Rightarrow> 'r list \<Rightarrow> string \<Rightarrow> RuleStatus list" where
  "update_status rid input store i =
     (case update_method (map_of (id_map rid input) i) (map_of (id_map rid store) i) of
        None \<Rightarrow> [] | Some m \<Rightarrow> [\<lparr>rs_Id = i, rs_State = WaitMp2, rs_Method = m\<rparr>])"

lemma rule_update_eq:
  assumes "reordering iter"
  shows "rule_update iter rid input store
    = concat (map (update_status rid input store) (iter (map fst (id_map rid input))))
    @ concat (map (update_status rid input store)
        (filter (\<lambda>i. i \<notin> rid ` set input) (iter (map fst (id_map rid store)))))"
proof -
  let ?im = "id_map rid input" and ?sm = "id_map rid store"
  have in1: "map_of ?im i \<noteq> None" if "i \<in> set (iter (map fst ?im))" for i
    using that reordering_set [OF assms, of "map fst ?im"] id_map_keys(1) [of rid input] by (simp add: id_map_None)
  have in2: "map_of ?sm i \<noteq> None" if "i \<in> set (iter (map fst ?sm))" for i
    using that reordering_set [OF assms, of "map fst ?sm"] id_map_keys(1) [of rid store] by (simp add: id_map_None)
  have old: "(case map_of (flag_existing ?sm ?im) i of
          None \<Rightarrow> []
        | Some (e, rule) \<Rightarrow> if e then [] else [\<lparr>rs_Id = i, rs_State = WaitMp2, rs_Method = OperDelete\<rparr>])
      = (if i \<notin> rid ` set input then update_status rid input store i else [])"
    if "map_of ?sm i \<noteq> None" for i
  proof (cases "map_of ?im i")
    case None
    with that show ?thesis
      using id_map_None [of rid input i] by (auto simp: map_of_flag_existing update_status_def update_method_def)
  next
    case (Some r)
    then have "i \<in> rid ` set input" using id_map_None [of rid input i] by auto
    with that Some show ?thesis by (auto simp: map_of_flag_existing)
  qed
  have "concat (map (\<lambda>i. if P i then f i else []) is) = concat (map f (filter P is))" for P f and "is" :: "string list"
    by (induction "is") auto
  moreover have "(case map_of (flag_existing ?im ?sm) i of
          None \<Rightarrow> []
        | Some (e, rule) \<Rightarrow>
            if e then (if map_option snd (map_of (flag_existing ?sm ?im) i) = Some rule then []
                       else [\<lparr>rs_Id = i, rs_State = WaitMp2, rs_Method = OperModify\<rparr>])
            else [\<lparr>rs_Id = i, rs_State = WaitMp2, rs_Method = OperCreate\<rparr>]) = update_status rid input store i"
    if "map_of ?im i \<noteq> None" for i
    using that by (auto simp: map_of_flag_existing update_status_def update_method_def split: option.splits)
  ultimately show ?thesis
    using in1 in2 by (simp add: rule_update_def Let_def processRulesFromIDMap_def old cong: map_cong)
qed

lemma update_status_ids: "x \<in> set (update_status rid input store i) \<Longrightarrow> rs_Id x = i \<and> rs_State x = WaitMp2"
  by (auto simp: update_status_def split: option.splits)

lemma distinct_concat_status:
  "distinct is \<Longrightarrow> distinct (map rs_Id (concat (map (update_status rid input store) is)))"
  by (induction "is") (auto simp: update_status_def split: option.splits)

lemma rule_update_distinct:
  assumes "reordering iter"
  shows "distinct (map rs_Id (rule_update iter rid input store))"
proof -
  let ?a = "iter (map fst (id_map rid input))"
    and ?b = "filter (\<lambda>i. i \<notin> rid ` set input) (iter (map fst (id_map rid store)))"
  have "distinct (?a @ ?b)"
    using reordering_distinct [OF assms] reordering_set [OF assms] id_map_keys [of rid] by (auto simp: distinct_filter)
  then show ?thesis
    using distinct_concat_status [of "?a @ ?b" rid input store] by (simp add: rule_update_eq [OF assms])
qed

lemma rule_update_iff:
  assumes "reordering iter"
  shows "\<lparr>rs_Id = i, rs_State = WaitMp2, rs_Method = m\<rparr> \<in> set (rule_update iter rid input store)
    \<longleftrightarrow> update_method (map_of (id_map rid input) i) (map_of (id_map rid store) i) = Some m"
proof -
  have sets: "set (iter (map fst (id_map rid rs))) = rid ` set rs" for rs
    using reordering_set [OF assms] id_map_keys(1) [of rid rs] by simp
  have upd: "\<lparr>rs_Id = i, rs_State = WaitMp2, rs_Method = m\<rparr> \<in> set (update_status rid input store j)
     \<longleftrightarrow> j = i \<and> update_method (map_of (id_map rid input) i) (map_of (id_map rid store) i) = Some m" for j
    by (auto simp: update_status_def split: option.splits)
  have dom: "i \<in> rid ` set input \<or> i \<in> rid ` set store"
    if "update_method (map_of (id_map rid input) i) (map_of (id_map rid store) i) = Some m"
    using that id_map_None [of rid input i] id_map_None [of rid store i]
    by (cases "map_of (id_map rid input) i"; cases "map_of (id_map rid store) i") (auto simp: update_method_def)
  show ?thesis
    using dom by (auto simp: rule_update_eq [OF assms] sets upd)
qed

section \<open>The duplicate check never panics\<close>

lemma dup_fold_ok:
  assumes "\<forall>s\<in>set sts. rs_Method s = OperCreate \<longrightarrow> map_of m (rs_Id s) \<noteq> None"
  shows "\<exists>b. foldr (\<lambda>s r. if rs_Method s = OperCreate then
               (case map_of m (rs_Id s) of None \<Rightarrow> Inl e
                | Some rule \<Rightarrow> if dr_DomainName rule \<in> set names then Inr True else r) else r) sts (Inr False) = Inr b
     \<and> (\<not> b \<longrightarrow> (\<forall>s\<in>set sts. rs_Method s = OperCreate \<longrightarrow> dr_DomainName (the (map_of m (rs_Id s))) \<notin> set names))"
  using assms by (induction sts) auto

lemma buildTaskStatus_create_ids:
  assumes "reordering iter" and "s \<in> set (ts_DNSRuleStatusLst (buildTaskStatus iter input store term))"
    and "rs_Method s = OperCreate"
  shows "map_of (id_map dr_DNSRuleID (ac_AppDNSRule input)) (rs_Id s) \<noteq> None"
proof (cases "ac_Operation input = MethodPut")
  case True
  have "s \<in> set (rule_update iter dr_DNSRuleID (ac_AppDNSRule input) (ac_AppDNSRule store))"
    using assms(2) True by (simp add: buildTaskStatus_def handleRuleUpdate_def)
  moreover have "rs_State s = WaitMp2"
    using calculation update_status_ids by (fastforce simp: rule_update_eq [OF assms(1)])
  ultimately have "update_method (map_of (id_map dr_DNSRuleID (ac_AppDNSRule input)) (rs_Id s))
      (map_of (id_map dr_DNSRuleID (ac_AppDNSRule store)) (rs_Id s)) = Some OperCreate"
    using rule_update_iff [OF assms(1), of "rs_Id s" OperCreate] assms(3) by (metis RuleStatus.surjective old.unit.exhaust)
  then show ?thesis
    by (cases "map_of (id_map dr_DNSRuleID (ac_AppDNSRule input)) (rs_Id s)") (auto simp: update_method_def split: option.splits)
next
  case False
  then have "rs_Id s \<in> dr_DNSRuleID ` set (ac_AppDNSRule input)"
    using assms(2,3)
    by (auto simp: buildTaskStatus_def handleRuleCreateOrDelete_def new_TaskStatus_def Let_def split: if_splits)
  then show ?thesis by (simp only: id_map_None not_not simp_thms)
qed

section \<open>Staging against the registry\<close>

abbreviation job_key :: "string \<Rightarrow> string" where "job_key app \<equiv> AppDLCMJobsPath @ app"
abbreviation task_key :: "string \<Rightarrow> string" where "task_key task \<equiv> AppDLCMTasksPath @ task"
abbreviation status_key :: "string \<Rightarrow> string \<Rightarrow> string" where
  "status_key app task \<equiv> AppDLCMTaskStatusPath @ app @ ''/'' @ task"

text \<open>No job of the application and no entry of the new task id is stored.\<close>

definition not_staged :: "(string \<Rightarrow> doc option) \<Rightarrow> string \<Rightarrow> string \<Rightarrow> bool" where
  "not_staged m app task \<longleftrightarrow> (\<forall>k. has_prefix k (job_key app) \<or> has_prefix k (task_key task) \<longrightarrow> m k = None)"

context etcd
begin

lemma fillDns_kv: "fillDnsDomainNameMap R app path names w = (r, w') \<Longrightarrow> kv w' = kv w"
  by (auto simp: fillDnsDomainNameMap_def split: prod.splits sum.splits dest: GetRecords_kv)

lemma isDNS_kv: "isDNSDomainNameExists R app input st w = (r, w') \<Longrightarrow> kv w' = kv w"
  by (auto simp: isDNSDomainNameExists_def Let_def split: prod.splits if_splits dest!: fillDns_kv)

lemma isDNS_no_panic:
  assumes "reordering iter" and "isDNSDomainNameExists R app input (buildTaskStatus iter input store term) w = (r, w')"
  shows "\<exists>b. r = Inr b"
proof -
  obtain n1 w1 n2 w2 where f: "fillDnsDomainNameMap R app AppDConfigKeyPath [] w = (n1, w1)"
    "fillDnsDomainNameMap R app AppDLCMJobsPath n1 w1 = (n2, w2)" by fastforce
  show ?thesis
    using assms(2) f buildTaskStatus_create_ids [OF assms(1)]
      dup_fold_ok [of "ts_DNSRuleStatusLst (buildTaskStatus iter input store term)"
        "id_map dr_DNSRuleID (ac_AppDNSRule input)"]
    by (fastforce simp: isDNSDomainNameExists_def split: if_splits)
qed

lemma addJobs_ok:
  "addJobsToDb R app task d w = (0, w') \<Longrightarrow> kv w' = (kv w)(job_key app \<mapsto> d, task_key task \<mapsto> DocRaw app)"
  by (auto simp: addJobsToDb_def Let_def split: prod.splits if_splits dest!: PutRecord_ok)

lemma writeStatus_ok:
  "writeStatusToStore R st app task w = ((0, m), w') \<Longrightarrow> kv w' = (kv w)(status_key app task \<mapsto> DocStatus st)"
  by (auto simp: writeStatusToStore_def Let_def split: prod.splits if_splits dest!: PutRecord_ok)

lemma stage_task_ok:
  assumes "stage_task R iter app task subscribed input store w = ((Inr (0, m), input'), w')"
  shows "\<exists>job st. kv w' = (kv w)(job_key app \<mapsto> DocAppD job, task_key task \<mapsto> DocRaw app, status_key app task \<mapsto> DocStatus st)
    \<and> st = buildTaskStatus iter input' (if ac_Operation input = MethodDelete then store\<lparr>ac_Operation := MethodDelete\<rparr> else store) subscribed
    \<and> job = (if ac_Operation input = MethodDelete then store\<lparr>ac_Operation := MethodDelete\<rparr> else input)
    \<and> (ts_TrafficRuleStatusLst st \<noteq> [] \<or> ts_DNSRuleStatusLst st \<noteq> [])
    \<and> (\<exists>w1 w2. isDNSDomainNameExists R app input' st w1 = (Inr False, w2)
          \<and> kv w1 = (kv w)(job_key app \<mapsto> DocAppD job, task_key task \<mapsto> DocRaw app))"
proof -
  let ?store = "if ac_Operation input = MethodDelete then store\<lparr>ac_Operation := MethodDelete\<rparr> else store"
  let ?input = "if ac_Operation input = MethodDelete then input\<lparr>ac_AppName := ac_AppName store\<rparr> else input"
  let ?job = "if ac_Operation input = MethodDelete then ?store else ?input"
  let ?st = "buildTaskStatus iter ?input ?store subscribed"
  have codes: "OperateDataWithEtcdErr \<noteq> 0" "SubscriptionNotFound \<noteq> 0" "DuplicateOperation \<noteq> 0"
    by (simp_all add: err_code_defs)
  obtain w1 w2 where a: "addJobsToDb R app task (DocAppD ?job) w = (0, w1)"
    and ne: "\<not> (ts_TrafficRuleStatusLst ?st = [] \<and> ts_DNSRuleStatusLst ?st = [])"
    and i: "isDNSDomainNameExists R app ?input ?st w1 = (Inr False, w2)"
    and s: "writeStatusToStore R ?st app task w2 = ((0, m), w')" and input': "input' = ?input"
    using assms codes unfolding stage_task_def Let_def
    by (auto split: prod.splits if_splits sum.splits bool.splits)
  have "kv w' = (kv w)(job_key app \<mapsto> DocAppD ?job, task_key task \<mapsto> DocRaw app, status_key app task \<mapsto> DocStatus ?st)"
    using addJobs_ok [OF a] writeStatus_ok [OF s] isDNS_kv [OF i] by simp
  then show ?thesis
    using addJobs_ok [OF a] ne i input'
    by (intro exI [of _ ?job] exI [of _ ?st] conjI exI [of _ w1] exI [of _ w2]) auto
qed

lemma stageApp_kv:
  assumes "stageAppTerminationProgress R riter app task isT w = ((sub, False), w')"
  shows "kv w' = kv w"
proof -
  have sub_kv: "kv w2 = kv w1" if "AppTerminationIsSubscribed R riter app w1 = (r, w2)" for r w1 w2
    using that by (auto simp: AppTerminationIsSubscribed_def split: prod.splits sum.splits if_splits dest: GetRecords_kv)
  have cr_kv: "kv w2 = kv w1" if "IsAppInstanceAlreadyCreated R app w1 = (r, w2)" for r w1 w2
    using that by (auto simp: IsAppInstanceAlreadyCreated_def split: prod.splits sum.splits dest: GetRecord_kv)
  show ?thesis
    using assms by (auto simp: stageAppTerminationProgress_def Let_def split: prod.splits if_splits dest!: sub_kv cr_kv)
qed

text \<open>A result other than the one for a termination without configuration comes from
  \<open>stage_task\<close> on the same key-value map, or is an early error.\<close>

lemma StageNewTask_cases:
  assumes "StageNewTask R iter riter app task input isT w = ((r, input'), w')"
  obtains (no_config) "isT" and "r = Inr (0, [])"
  | (early) c m where "r = Inr (c, m)" and "c \<noteq> 0" and "kv w' = kv w"
  | (staged) sub store w1 where "stage_task R iter app task sub input store w1 = ((r, input'), w')" and "kv w1 = kv w"
      and "ac_Operation input = MethodPost \<Longrightarrow> store = empty_AppDConfig"
      and "ac_Operation input \<noteq> MethodPost \<Longrightarrow> \<exists>k. has_prefix k (AppDConfigKeyPath @ app) \<and> kv w k = Some (DocAppD store)"
      and "ac_Operation input \<noteq> MethodPost \<Longrightarrow> \<forall>d. kv w (AppDConfigKeyPath @ app) = Some d \<longrightarrow> d = DocAppD store"
      and "sub \<Longrightarrow> isT"
proof -
  obtain sub nc w1 where s: "stageAppTerminationProgress R riter app task isT w = ((sub, nc), w1)" by (metis prod.exhaust)
  show ?thesis
  proof (cases nc)
    case True
    then have "isT" using s by (auto simp: stageAppTerminationProgress_def Let_def split: prod.splits if_splits)
    with True s assms no_config show ?thesis by (auto simp: StageNewTask_def)
  next
    case nc: False
    have kv1: "kv w1 = kv w" using stageApp_kv [of riter app task isT w sub w1] s nc by simp
    have sub: "sub \<Longrightarrow> isT"
      using s by (auto simp: stageAppTerminationProgress_def Let_def split: prod.splits if_splits)
    show ?thesis
    proof (cases "ac_Operation input = MethodPost")
      case True
      with nc s assms staged kv1 sub show ?thesis by (auto simp: StageNewTask_def)
    next
      case False
      obtain g w2 where g: "GetRecord R (AppDConfigKeyPath @ app) w1 = (g, w2)" by fastforce
      note kv2 = GetRecord_kv [OF g]
      have nz: "c \<noteq> 0" if "g = Inl c" for c
        using g that by (auto simp: GetRecord_def err_code_defs split: prod.splits sum.splits if_splits)
      show ?thesis
      proof (cases g)
        case (Inl c)
        with False nc s assms g early [of c] nz kv1 kv2 show ?thesis by (auto simp: StageNewTask_def)
      next
        case (Inr d)
        show ?thesis
        proof (cases "unmarshal_appd d")
          case None
          with Inr False nc s assms g early kv1 kv2 show ?thesis by (auto simp: StageNewTask_def err_code_defs)
        next
          case (Some store)
          then have d: "d = DocAppD store" by (cases d) auto
          with Some Inr False nc s assms g have "stage_task R iter app task sub input store w2 = ((r, input'), w')"
            by (simp add: StageNewTask_def)
          then show ?thesis
            using staged sub kv1 kv2 GetRecord_some [OF g [unfolded Inr]] GetRecord_exact [OF g [unfolded Inr]] d False by auto
        qed
      qed
    qed
  qed
qed

end

text \<open>What a clean-up leaves: no record is new or different, and none is gone but those whose
  key begins with the job key or with the key of the task.\<close>

definition cleaned :: "string \<Rightarrow> string \<Rightarrow> (string \<Rightarrow> doc option) \<Rightarrow> (string \<Rightarrow> doc option) \<Rightarrow> bool" where
  "cleaned app task m m' \<longleftrightarrow>
     (\<forall>k. m' k = m k \<or> m' k = None \<and> (has_prefix k (job_key app) \<or> has_prefix k (task_key task)))"

context etcd_calm
begin

lemma restore_staged:
  assumes "kv w1 = (kv w)(job_key app \<mapsto> d, task_key task \<mapsto> d')"
    and "DeletePaths R [job_key app, task_key task] True w1 = (c, w2)"
  shows "cleaned app task (kv w) (kv w2)"
  unfolding cleaned_def
proof
  fix k
  have "kv w2 k = (if has_prefix k (job_key app) \<or> has_prefix k (task_key task) then None else kv w1 k)"
    using DeletePaths_calm [OF assms(2)] by simp
  then show "kv w2 k = kv w k \<or> kv w2 k = None \<and> (has_prefix k (job_key app) \<or> has_prefix k (task_key task))"
    using assms(1) by auto
qed

lemma addJobs_err:
  assumes "addJobsToDb R app task d w = (c, w')" and "c \<noteq> 0"
  shows "cleaned app task (kv w) (kv w')"
proof -
  obtain c1 w1 where p1: "PutRecord R (job_key app) d w = (c1, w1)" by fastforce
  show ?thesis
  proof (cases "c1 = 0")
    case False
    with p1 assms PutRecord_err [OF p1] show ?thesis by (auto simp: addJobsToDb_def cleaned_def)
  next
    case True
    obtain c2 w2 where p2: "PutRecord R (task_key task) (DocRaw app) w1 = (c2, w2)" by fastforce
    with True p1 assms have "c2 \<noteq> 0" by (auto simp: addJobsToDb_def)
    obtain c3 w3 where d: "DeletePaths R [job_key app] True w2 = (c3, w3)" by fastforce
    have "w' = w3" using True p1 p2 \<open>c2 \<noteq> 0\<close> d assms(1) by (auto simp: addJobsToDb_def)
    moreover have "kv w2 = (kv w)(job_key app \<mapsto> d)"
      using PutRecord_err [OF p2 \<open>c2 \<noteq> 0\<close>] PutRecord_ok p1 True by simp
    moreover have "kv w3 k = (if has_prefix k (job_key app) then None else kv w2 k)" for k
      using DeletePaths_calm [OF d] by simp
    ultimately show ?thesis by (auto simp: cleaned_def)
  qed
qed

lemma stage_task_err:
  assumes "stage_task R iter app task sub input store w = ((Inr (c, m), input'), w')" and "c \<noteq> 0"
  shows "cleaned app task (kv w) (kv w')"
proof -
  let ?del = "ac_Operation input = MethodDelete"
  let ?store = "if ?del then store\<lparr>ac_Operation := ac_Operation input\<rparr> else store"
  let ?input = "if ?del then input\<lparr>ac_AppName := ac_AppName ?store\<rparr> else input"
  let ?job = "DocAppD (if ?del then ?store else ?input)"
  let ?st = "buildTaskStatus iter ?input ?store sub"
  obtain c1 w1 where a: "addJobsToDb R app task ?job w = (c1, w1)" by fastforce
  obtain c2 w2 where cl: "DeletePaths R [job_key app, task_key task] True w1 = (c2, w2)" by fastforce
  obtain r3 w3 where i: "isDNSDomainNameExists R app ?input ?st w1 = (r3, w3)" by fastforce
  obtain c4 w4 where cl3: "DeletePaths R [job_key app, task_key task] True w3 = (c4, w4)" by fastforce
  consider (name) "w' = w" | (jobs) "c1 \<noteq> 0" "w' = w1" | (nothing) "c1 = 0" "w' = w2" | (dup) "c1 = 0" "w' = w4"
    | (status) "c1 = 0" "writeStatusToStore R ?st app task w3 = ((c, m), w')"
    using assms(1) a cl i cl3 unfolding stage_task_def Let_def
    by (auto split: if_splits prod.splits sum.splits)
  then show ?thesis
  proof cases
    case jobs
    then show ?thesis using addJobs_err [OF a] by simp
  next
    case nothing
    then show ?thesis using restore_staged [OF addJobs_ok cl] a by simp
  next
    case dup
    then show ?thesis using restore_staged [OF _ cl3] addJobs_ok a isDNS_kv [OF i] by simp
  next
    case status
    obtain c5 w5 where p: "PutRecord R (status_key app task) (DocStatus ?st) w3 = (c5, w5)" by fastforce
    obtain c6 w6 where d: "DeletePaths R [job_key app, task_key task] True w5 = (c6, w6)" by fastforce
    have "c5 \<noteq> 0" "w' = w6" using status(2) p d assms(2) by (auto simp: writeStatusToStore_def split: if_splits)
    moreover have "kv w5 = (kv w)(job_key app \<mapsto> ?job, task_key task \<mapsto> DocRaw app)"
      using PutRecord_err [OF p \<open>c5 \<noteq> 0\<close>] addJobs_ok a isDNS_kv [OF i] status(1) by simp
    ultimately show ?thesis using restore_staged [OF _ d] by simp
  qed (simp add: cleaned_def)
qed

end

section \<open>Properties\<close>

text \<open>An application with one rule of each kind, and an application that already uses
  the domain name.\<close>

definition dns_rule :: "string \<Rightarrow> string \<Rightarrow> DNSRule" where
  "dns_rule i name = \<lparr>dr_DNSRuleID = i, dr_DomainName = name, dr_IPAddressType = ''IP_V4'', dr_IPAddress = ''10.0.0.7'',
     dr_TTL = 30, dr_State = ''ACTIVE''\<rparr>"

definition traffic_rule :: "string \<Rightarrow> TrafficRule" where
  "traffic_rule i = \<lparr>tr_TrafficRuleID = i, tr_FilterType = ''FLOW'', tr_Priority = 5, tr_TrafficFilter = [],
     tr_Action = ''DROP'', tr_DstInterface = [], tr_State = ''ACTIVE''\<rparr>"

definition sample_config :: AppDConfig where
  "sample_config = \<lparr>ac_AppTrafficRule = [traffic_rule ''t1''], ac_AppDNSRule = [dns_rule ''d1'' ''www.example.com''],
     ac_AppSupportMp1 = True, ac_AppName = ''app'', ac_Operation = ''POST''\<rparr>"

definition busy_world :: mem_world where
  "busy_world = \<lparr>mw_kv = [(AppDConfigKeyPath @ ''app-0'', DocAppD (sample_config\<lparr>ac_AppName := ''other'', ac_Operation := []\<rparr>))],
     mw_faults = []\<rparr>"

definition empty_world :: mem_world where
  "empty_world = \<lparr>mw_kv = [], mw_faults = []\<rparr>"

text \<open>An update is split exactly.  The status list of an update has one entry per
  rule id that changes and no other: a create for an id only in the request, a delete
  for an id only in the stored configuration, a modify for an id in both whose rules
  differ; all of them start in the first state, whatever order the maps are iterated
  in.\<close>

theorem update_partition:
  assumes "reordering iter"
  shows "distinct (map rs_Id (ts_DNSRuleStatusLst (handleRuleUpdate iter new old st)))
    \<and> distinct (map rs_Id (ts_TrafficRuleStatusLst (handleRuleUpdate iter new old st)))
    \<and> (\<forall>i m. \<lparr>rs_Id = i, rs_State = WaitMp2, rs_Method = m\<rparr> \<in> set (ts_DNSRuleStatusLst (handleRuleUpdate iter new old st))
         \<longleftrightarrow> update_method (map_of (id_map dr_DNSRuleID (ac_AppDNSRule new)) i)
               (map_of (id_map dr_DNSRuleID (ac_AppDNSRule old)) i) = Some m)
    \<and> (\<forall>i m. \<lparr>rs_Id = i, rs_State = WaitMp2, rs_Method = m\<rparr> \<in> set (ts_TrafficRuleStatusLst (handleRuleUpdate iter new old st))
         \<longleftrightarrow> update_method (map_of (id_map tr_TrafficRuleID (ac_AppTrafficRule new)) i)
               (map_of (id_map tr_TrafficRuleID (ac_AppTrafficRule old)) i) = Some m)"
  by (simp add: handleRuleUpdate_def rule_update_distinct [OF assms] rule_update_iff [OF assms])

theorem update_partition_witness:
  "\<lparr>rs_Id = ''d2'', rs_State = WaitMp2, rs_Method = OperCreate\<rparr>
     \<in> set (ts_DNSRuleStatusLst (handleRuleUpdate rev (sample_config\<lparr>ac_AppDNSRule := [dns_rule ''d2'' ''a.b'']\<rparr>) sample_config new_TaskStatus))"
proof -
  have "update_method (map_of (id_map dr_DNSRuleID [dns_rule ''d2'' ''a.b'']) ''d2'')
      (map_of (id_map dr_DNSRuleID (ac_AppDNSRule sample_config)) ''d2'') = Some OperCreate"
    by (simp add: id_map_def dns_rule_def sample_config_def update_method_def)
  then show ?thesis
    using update_partition [OF reordering_rev, of "sample_config\<lparr>ac_AppDNSRule := [dns_rule ''d2'' ''a.b'']\<rparr>" sample_config new_TaskStatus]
    by simp
qed

text \<open>A staged task is complete.  When \<open>StageNewTask\<close> succeeds outside a
  termination, exactly three records were written: the job, the owner of the task id
  and a status with at least one rule to process, so that the progress computed from
  its lists is always defined.\<close>

theorem stage_success:
  assumes "etcd R kv" and "StageNewTask R iter riter app task input False w = ((Inr (0, m), input'), w')"
  shows "\<exists>job st. kv w' = (kv w)(job_key app \<mapsto> DocAppD job, task_key task \<mapsto> DocRaw app, status_key app task \<mapsto> DocStatus st)
    \<and> 0 < length (ts_TrafficRuleStatusLst st) + length (ts_DNSRuleStatusLst st)
    \<and> ac_Operation job = ac_Operation input \<and> ts_Progress st = 0"
  using assms(2)
proof (cases rule: etcd.StageNewTask_cases [OF assms(1), consumes 1, case_names no_config early staged])
  case (staged sub store w1)
  have "ts_Progress (buildTaskStatus iter a b c) = 0" for a b c
    by (simp add: buildTaskStatus_def handleRuleCreateOrDelete_def handleRuleUpdate_def new_TaskStatus_def Let_def)
  moreover obtain job st where
    "kv w' = (kv w)(job_key app \<mapsto> DocAppD job, task_key task \<mapsto> DocRaw app, status_key app task \<mapsto> DocStatus st)"
    and "\<exists>a b c. st = buildTaskStatus iter a b c"
    and "job = (if ac_Operation input = MethodDelete then store\<lparr>ac_Operation := MethodDelete\<rparr> else input)"
    and "ts_TrafficRuleStatusLst st \<noteq> [] \<or> ts_DNSRuleStatusLst st \<noteq> []"
    using etcd.stage_task_ok [OF assms(1) staged(1)] unfolding staged(2) by blast
  ultimately show ?thesis by (intro exI [of _ job] exI [of _ st]) auto
qed auto

theorem stage_success_witness:
  "\<exists>w' job st. StageNewTask (mem_registry False) rev rev ''app-1'' ''task-1'' sample_config False empty_world = ((Inr (0, []), sample_config), w')
    \<and> map_of (mw_kv w') = (map_of (mw_kv empty_world))(job_key ''app-1'' \<mapsto> DocAppD job, task_key ''task-1'' \<mapsto> DocRaw ''app-1'',
        status_key ''app-1'' ''task-1'' \<mapsto> DocStatus st)"
proof -
  have "fst (StageNewTask (mem_registry False) rev rev ''app-1'' ''task-1'' sample_config False empty_world) = (Inr (0, []), sample_config)"
    by code_simp
  then obtain w' where w': "StageNewTask (mem_registry False) rev rev ''app-1'' ''task-1'' sample_config False empty_world
      = ((Inr (0, []), sample_config), w')" by (metis prod.collapse)
  from stage_success [OF mem_etcd.etcd_axioms this] w' show ?thesis by blast
qed

text \<open>(C35) A refused task leaves no trace.  When staging fails, for a duplicate domain,
  an empty change, a wrong name or a failed write of any of the three records, and the
  clean-up deletions work, no record is new or different afterwards.  The clean-up deletes by
  prefix, so a record whose key begins with the job key of the application or with the key of
  the task can be gone; when no such record was stored, the registry is exactly as before.\<close>

theorem stage_failure_clean:
  assumes "etcd_calm R kv"
    and "StageNewTask R iter riter app task input isTerminate w = ((Inr (c, m), input'), w')" and "c \<noteq> 0"
  shows "(\<forall>k. kv w' k = kv w k \<or> kv w' k = None \<and> (has_prefix k (job_key app) \<or> has_prefix k (task_key task)))
    \<and> (not_staged (kv w) app task \<longrightarrow> kv w' = kv w)"
proof -
  have c: "cleaned app task (kv w) (kv w')"
    using assms(2)
  proof (cases rule: etcd.StageNewTask_cases [OF etcd_calm.axioms(1) [OF assms(1)], consumes 1, case_names no_config early staged])
    case (staged sub store w1)
    then show ?thesis using etcd_calm.stage_task_err [OF assms(1) staged(1) assms(3)] by simp
  qed (use assms(3) in \<open>auto simp: cleaned_def\<close>)
  moreover have "kv w' = kv w" if "not_staged (kv w) app task"
    using c that unfolding cleaned_def not_staged_def by (metis ext)
  ultimately show ?thesis unfolding cleaned_def by blast
qed

theorem stage_failure_clean_witness:
  "\<exists>w'. StageNewTask (mem_registry True) rev rev ''app-1'' ''task-1'' sample_config False busy_world
      = ((Inr (DuplicateOperation, ''duplicate dns entry''), sample_config), w')
    \<and> map_of (mw_kv w') = map_of (mw_kv busy_world)"
proof -
  have "fst (StageNewTask (mem_registry True) rev rev ''app-1'' ''task-1'' sample_config False busy_world)
      = (Inr (DuplicateOperation, ''duplicate dns entry''), sample_config)"
    by code_simp
  then obtain w' where w': "StageNewTask (mem_registry True) rev rev ''app-1'' ''task-1'' sample_config False busy_world
      = ((Inr (DuplicateOperation, ''duplicate dns entry''), sample_config), w')" by (metis prod.collapse)
  have "not_staged (map_of (mw_kv busy_world)) ''app-1'' ''task-1''"
    by (auto simp: not_staged_def busy_world_def has_prefix_def path_defs)
  with stage_failure_clean [OF mem_etcd_calm.etcd_calm_axioms w'] w' show ?thesis
    by (auto simp: DuplicateOperation_def)
qed

text \<open>Staging never panics: the lookup of a new rule in the request by its status
  id always finds it, whatever the stored records are and whichever transactions fail.\<close>

theorem stage_no_panic:
  assumes "etcd R kv" and "reordering iter"
  shows "\<not> is_panic (fst (fst (StageNewTask R iter riter app task input isTerminate w)))"
proof -
  obtain r input' w' where s: "StageNewTask R iter riter app task input isTerminate w = ((r, input'), w')" by (metis prod.exhaust)
  then show ?thesis
  proof (cases rule: etcd.StageNewTask_cases [OF assms(1), consumes 1, case_names no_config early staged])
    case (staged sub store w1)
    have "isDNSDomainNameExists R app i (buildTaskStatus iter i st t) v \<noteq> (Inl e, v')" for i st t v e v'
      using etcd.isDNS_no_panic [OF assms(1,2), of app i st t v "Inl e" v'] by auto
    then show ?thesis
      using s staged(1) unfolding stage_task_def Let_def
      by (auto split: if_splits prod.splits sum.splits)
  qed (use s in auto)
qed

theorem stage_no_panic_witness:
  "\<not> is_panic (fst (fst (StageNewTask (mem_registry False) rev rev ''app-1'' ''task-1'' sample_config True (busy_world\<lparr>mw_faults := [False, True]\<rparr>))))"
  by (rule stage_no_panic [OF mem_etcd.etcd_axioms reordering_rev])

end
