(* ===== verification/Go_Net.thy ===== *)
theory Go_Net
  imports Mep_Prelude
begin

text \<open>
  The part of Go's package \<open>net\<close> that the repository calls on the
  addresses it is given: \<open>ParseIP\<close> (dotted IPv4, IPv6 with an ellipsis and
  with a trailing IPv4 part), \<open>To4\<close>, \<open>IsMulticast\<close>, \<open>Equal\<close>
  and \<open>String\<close>.  An address is its list of bytes; \<open>ParseIP\<close> gives
  the 16-byte form for both families, and the nil address is \<^const>\<open>None\<close>.
  The lemmas show that a parsed address always has 16 bytes and that printing an
  IPv4 address and parsing it again gives the address back.
\<close>

unbundle bit_operations_syntax

type_synonym ip = "8 word list"

section \<open>Numbers inside an address\<close>

text \<open>\<open>dtoi\<close> and \<open>xtoi\<close>: the number at the front of a string and the
  count of bytes it takes; they fail without a digit and at \<open>big\<close>.\<close>

definition big :: nat where
  "big = 0xFFFFFF"

definition is_hex :: "char \<Rightarrow> bool" where
  "is_hex c \<longleftrightarrow> is_digit c \<or> (97 \<le> (of_char c :: nat) \<and> (of_char c :: nat) \<le> 102)
                \<or> (65 \<le> (of_char c :: nat) \<and> (of_char c :: nat) \<le> 70)"

definition hex_val :: "char \<Rightarrow> nat" where
  "hex_val c = (if is_digit c then digit_val c
                else if 97 \<le> (of_char c :: nat) then of_char c - 97 + 10 else of_char c - 65 + 10)"

fun num_loop :: "nat \<Rightarrow> (char \<Rightarrow> bool) \<Rightarrow> (char \<Rightarrow> nat) \<Rightarrow> nat \<Rightarrow> nat \<Rightarrow> string \<Rightarrow> (nat \<times> nat) option" where
  "num_loop b isd dv n i [] = Some (n, i)"
| "num_loop b isd dv n i (c # s) =
     (if isd c then
        (if big \<le> n * b + dv c then None else num_loop b isd dv (n * b + dv c) (Suc i) s)
      else Some (n, i))"

definition dtoi :: "string \<Rightarrow> (nat \<times> nat) option" where
  "dtoi s = (case num_loop 10 is_digit digit_val 0 0 s of
               None \<Rightarrow> None | Some (n, i) \<Rightarrow> if i = 0 then None else Some (n, i))"

definition xtoi :: "string \<Rightarrow> (nat \<times> nat) option" where
  "xtoi s = (case num_loop 16 is_hex hex_val 0 0 s of
               None \<Rightarrow> None | Some (n, i) \<Rightarrow> if i = 0 then None else Some (n, i))"

section \<open>Parsing\<close>

definition ipv4 :: "8 word list \<Rightarrow> ip" where
  "ipv4 p = replicate 10 0 @ [0xff, 0xff] @ p"

text \<open>The loop of \<open>parseIPv4\<close>: \<open>i\<close> bytes are read.\<close>

fun parse_ipv4_loop :: "nat \<Rightarrow> nat \<Rightarrow> string \<Rightarrow> 8 word list \<Rightarrow> (string \<times> 8 word list) option" where
  "parse_ipv4_loop 0 i s p = Some (s, p)"
| "parse_ipv4_loop (Suc k) i s p =
     (if s = [] then None
      else if 0 < i \<and> hd s \<noteq> CHR ''.'' then None
      else let s = (if 0 < i then tl s else s) in
        (case dtoi s of
           None \<Rightarrow> None
         | Some (n, c) \<Rightarrow>
             if 0xFF < n then None
             else parse_ipv4_loop k (Suc i) (drop c s) (p @ [of_nat n])))"

definition parse_ipv4 :: "string \<Rightarrow> ip option" where
  "parse_ipv4 s = (case parse_ipv4_loop 4 0 s [] of
                     None \<Rightarrow> None
                   | Some (s, p) \<Rightarrow> if s \<noteq> [] then None else Some (ipv4 p))"

text \<open>The loop of \<open>parseIPv6\<close>: \<open>p\<close> holds the bytes read so far, so the
  source's \<open>i\<close> is its length, and \<open>e\<close> is the position of the
  ellipsis.  Eight rounds are enough: each reads at least two bytes.\<close>

definition parse_ipv6_round ::
  "string \<Rightarrow> 8 word list \<Rightarrow> nat option \<Rightarrow> (bool \<times> string \<times> 8 word list \<times> nat option) option" where
  "parse_ipv6_round s p e =
     (case xtoi s of
        None \<Rightarrow> None
      | Some (n, c) \<Rightarrow>
          if 0xFFFF < n then None
          else if c < length s \<and> s ! c = CHR ''.'' then
            (if e = None \<and> length p \<noteq> 12 then None
             else if 16 < length p + 4 then None
             else (case parse_ipv4 s of
                     None \<Rightarrow> None
                   | Some ip4 \<Rightarrow> Some (False, [], p @ drop 12 ip4, e)))
          else
            (let p = p @ [of_nat (n div 256), of_nat (n mod 256)]; s = drop c s in
              if s = [] then Some (False, s, p, e)
              else if hd s \<noteq> CHR '':'' \<or> length s = 1 then None
              else let s = tl s in
                if hd s = CHR '':'' then
                  (if e \<noteq> None then None
                   else let s = tl s in Some (s \<noteq> [], s, p, Some (length p)))
                else Some (True, s, p, e)))"

fun parse_ipv6_loop ::
  "nat \<Rightarrow> string \<Rightarrow> 8 word list \<Rightarrow> nat option \<Rightarrow> (string \<times> 8 word list \<times> nat option) option" where
  "parse_ipv6_loop 0 s p e = Some (s, p, e)"
| "parse_ipv6_loop (Suc k) s p e =
     (case parse_ipv6_round s p e of
        None \<Rightarrow> None
      | Some (continue, s, p, e) \<Rightarrow>
          if continue then parse_ipv6_loop k s p e else Some (s, p, e))"

definition expand_ellipsis :: "8 word list \<Rightarrow> nat option \<Rightarrow> ip option" where
  "expand_ellipsis p e =
     (if length p < 16 then
        (case e of None \<Rightarrow> None
         | Some j \<Rightarrow> Some (take j p @ replicate (16 - length p) 0 @ drop j p))
      else if e \<noteq> None then None else Some p)"

definition parse_ipv6 :: "string \<Rightarrow> ip option" where
  "parse_ipv6 s =
     (let lead = has_prefix s ''::''; s' = (if lead then drop 2 s else s) in
      if lead \<and> s' = [] then Some (replicate 16 0)
      else (case parse_ipv6_loop 8 s' [] (if lead then Some 0 else None) of
              None \<Rightarrow> None
            | Some (s, p, e) \<Rightarrow> if s \<noteq> [] then None else expand_ellipsis p e))"

text \<open>\<open>ParseIP\<close>: the first dot or colon decides the family.\<close>

fun parse_ip_scan :: "string \<Rightarrow> string \<Rightarrow> ip option" where
  "parse_ip_scan s [] = None"
| "parse_ip_scan s (c # cs) =
     (if c = CHR ''.'' then parse_ipv4 s
      else if c = CHR '':'' then parse_ipv6 s
      else parse_ip_scan s cs)"

definition ParseIP :: "string \<Rightarrow> ip option" where
  "ParseIP s = parse_ip_scan s s"

section \<open>Properties of an address\<close>

definition To4 :: "ip \<Rightarrow> ip option" where
  "To4 p = (if length p = 4 then Some p
            else if length p = 16 \<and> take 10 p = replicate 10 0 \<and> p ! 10 = 0xff \<and> p ! 11 = 0xff
            then Some (drop 12 p) else None)"

definition IPv4bcast :: ip where
  "IPv4bcast = ipv4 [255, 255, 255, 255]"

definition IsMulticast :: "ip \<Rightarrow> bool" where
  "IsMulticast p = (case To4 p of
                      Some q \<Rightarrow> (q ! 0) AND 0xf0 = 0xe0
                    | None \<Rightarrow> length p = 16 \<and> p ! 0 = 0xff)"

definition ip_equal :: "ip \<Rightarrow> ip \<Rightarrow> bool" where
  "ip_equal p q =
     (if length p = length q then p = q
      else if length p = 4 \<and> length q = 16 then q = ipv4 p
      else if length p = 16 \<and> length q = 4 then p = ipv4 q
      else False)"

section \<open>Printing\<close>

definition hex_digit :: "nat \<Rightarrow> char" where
  "hex_digit d = (if d < 10 then char_of (48 + d) else char_of (87 + d))"

fun hex_str :: "nat \<Rightarrow> string" where
  "hex_str n = (if n < 16 then [hex_digit n] else hex_str (n div 16) @ [hex_digit (n mod 16)])"

declare hex_str.simps [simp del]

definition dotted :: "8 word list \<Rightarrow> string" where
  "dotted p = join ''.'' (map (\<lambda>b. itoa (unat b)) p)"

fun groups :: "8 word list \<Rightarrow> nat list" where
  "groups (a # b # p) = (unat a * 256 + unat b) # groups p"
| "groups _ = []"

definition zero_run :: "nat list \<Rightarrow> nat \<Rightarrow> nat" where
  "zero_run gs i = length (takeWhile (\<lambda>g. g = 0) (drop i gs))"

text \<open>The first of the longest runs of at least two zero groups, by start and
  length.\<close>

definition longest_run :: "nat list \<Rightarrow> (nat \<times> nat) option" where
  "longest_run gs = foldl (\<lambda>best i.
       let r = zero_run gs i; b = (case best of None \<Rightarrow> 1 | Some (_, l) \<Rightarrow> l) in
       if b < r then Some (i, r) else best) None [0..<length gs]"

definition ip_string :: "ip option \<Rightarrow> string" where
  "ip_string x = (case x of None \<Rightarrow> ''<nil>'' | Some p \<Rightarrow>
     (case To4 p of
        Some q \<Rightarrow> dotted q
      | None \<Rightarrow>
          if length p \<noteq> 16 then ''?'' @ concat (map (\<lambda>b. [hex_digit (unat b div 16), hex_digit (unat b mod 16)]) p)
          else let gs = groups p; colon = (\<lambda>g. join '':'' (map hex_str g)) in
            (case longest_run gs of
               None \<Rightarrow> colon gs
             | Some (i, l) \<Rightarrow> colon (take i gs) @ ''::'' @ colon (drop (i + l) gs))))"

section \<open>Every parsed address has 16 bytes\<close>

lemma length_ipv4 [simp]: "length (ipv4 p) = 12 + length p"
  by (simp add: ipv4_def)

lemma parse_ipv4_loop_length:
  "parse_ipv4_loop k i s p = Some (t, q) \<Longrightarrow> length q = length p + k"
  by (induction k i s p rule: parse_ipv4_loop.induct)
     (auto simp: Let_def split: if_splits option.splits)

lemma parse_ipv4_length: "parse_ipv4 s = Some p \<Longrightarrow> length p = 16"
  by (auto simp: parse_ipv4_def dest!: parse_ipv4_loop_length split: option.splits if_splits)

lemma parse_ipv6_round_length:
  assumes "parse_ipv6_round s p e = Some (cont, t, q, e')" and "length p \<le> 14"
  shows "length q \<le> 16" and "cont \<Longrightarrow> length q = length p + 2"
    and "\<forall>j. e = Some j \<longrightarrow> j \<le> length p \<Longrightarrow> e' = Some j \<Longrightarrow> j \<le> length q"
  using assms
  by (auto simp: parse_ipv6_round_def Let_def parse_ipv4_length split: option.splits if_splits)

lemma parse_ipv6_loop_length:
  assumes "parse_ipv6_loop k s p e = Some (t, q, e')" and "length p + 2 * k = 16"
    and "\<forall>j. e = Some j \<longrightarrow> j \<le> length p"
  shows "length q \<le> 16 \<and> (\<forall>j. e' = Some j \<longrightarrow> j \<le> length q)"
  using assms
proof (induction k s p e rule: parse_ipv6_loop.induct)
  case (2 k s p e)
  obtain cont s1 p1 e1 where r: "parse_ipv6_round s p e = Some (cont, s1, p1, e1)"
    using "2.prems"(1) by (auto split: option.splits)
  have len: "length p \<le> 14" using "2.prems"(2) by simp
  note step = parse_ipv6_round_length [OF r len]
  show ?case
  proof (cases cont)
    case True
    then show ?thesis
      using "2.IH" [OF r refl refl refl True] "2.prems" r step by auto
  next
    case False
    then show ?thesis using "2.prems" r step by auto
  qed
qed auto

lemma expand_ellipsis_length:
  "expand_ellipsis p e = Some q \<Longrightarrow> length p \<le> 16 \<Longrightarrow>
   (case e of Some j \<Rightarrow> j \<le> length p | None \<Rightarrow> True) \<Longrightarrow> length q = 16"
  by (auto simp: expand_ellipsis_def split: if_splits option.splits)

lemma parse_ipv6_length:
  assumes "parse_ipv6 s = Some p"
  shows "length p = 16"
proof (cases "has_prefix s ''::'' \<and> drop 2 s = []")
  case True
  then show ?thesis using assms by (auto simp: parse_ipv6_def)
next
  case False
  then obtain s' e0 q e where
    loop: "parse_ipv6_loop 8 s' [] e0 = Some ([], q, e)" and e0: "e0 = None \<or> e0 = Some 0"
    and p: "expand_ellipsis q e = Some p"
    using assms unfolding parse_ipv6_def Let_def
    by (auto split: if_splits option.splits)
  have "length q \<le> 16 \<and> (\<forall>j. e = Some j \<longrightarrow> j \<le> length q)"
    using parse_ipv6_loop_length [OF loop] e0 by auto
  with p show ?thesis
    by (intro expand_ellipsis_length [OF p]) (auto split: option.splits)
qed

lemma parse_ip_scan_length: "parse_ip_scan s cs = Some p \<Longrightarrow> length p = 16"
  by (induction s cs rule: parse_ip_scan.induct)
     (auto simp: parse_ipv4_length parse_ipv6_length split: if_splits)

lemma ParseIP_length: "ParseIP s = Some p \<Longrightarrow> length p = 16"
  by (simp add: ParseIP_def parse_ip_scan_length)

section \<open>Printing and parsing IPv4\<close>

lemma num_loop_digits:
  assumes "\<forall>c\<in>set w. is_digit c" and "foldl (\<lambda>n c. n * 10 + digit_val c) n w < big"
    and "s = [] \<or> \<not> is_digit (hd s)"
  shows "num_loop 10 is_digit digit_val n i (w @ s)
         = Some (foldl (\<lambda>n c. n * 10 + digit_val c) n w, i + length w)"
  using assms
proof (induction w arbitrary: n i)
  case Nil
  then show ?case by (cases s) auto
next
  case (Cons c w)
  have "m \<le> foldl (\<lambda>n c. n * 10 + digit_val c) m w" for m
  proof (induction w arbitrary: m)
    case (Cons a w)
    have "m \<le> m * 10 + digit_val a" by simp
    also have "\<dots> \<le> foldl (\<lambda>n c. n * 10 + digit_val c) (m * 10 + digit_val a) w"
      by (rule Cons)
    finally show ?case by simp
  qed simp
  from this [of "n * 10 + digit_val c"] have "n * 10 + digit_val c < big"
    using Cons.prems(2) by simp
  then show ?case using Cons by simp
qed

lemma dtoi_itoa:
  assumes "n < big" and "s = [] \<or> \<not> is_digit (hd s)"
  shows "dtoi (itoa n @ s) = Some (n, length (itoa n))"
proof -
  have "foldl (\<lambda>n c. n * 10 + digit_val c) 0 (itoa n) = n"
    using dec_val_itoa [of n] by (simp add: dec_val_def)
  then have "num_loop 10 is_digit digit_val 0 0 (itoa n @ s) = Some (n, length (itoa n))"
    using num_loop_digits [of "itoa n" 0 s 0] assms itoa_digits by simp
  then show ?thesis by (simp add: dtoi_def)
qed

lemma not_digit_dot [simp]: "\<not> is_digit CHR ''.''"
  by (simp add: is_digit_def)

lemma unat_byte: "unat (b :: 8 word) < 256"
  using unsigned_less [of b, where 'a = nat] by simp

lemma dtoi_byte:
  "s = [] \<or> \<not> is_digit (hd s) \<Longrightarrow> dtoi (itoa (unat (b :: 8 word)) @ s) = Some (unat b, length (itoa (unat b)))"
  by (rule dtoi_itoa) (use unat_byte [of b] in \<open>simp_all add: big_def\<close>)

lemma not_less_byte [simp]: "\<not> 255 < unat (b :: 8 word)"
  using unat_byte [of b] by simp

lemma parse_ipv4_loop_first:
  "t = [] \<or> \<not> is_digit (hd t) \<Longrightarrow>
   parse_ipv4_loop (Suc k) 0 (itoa (unat b) @ t) p = parse_ipv4_loop k 1 t (p @ [b])"
  by (simp add: dtoi_byte)

lemma parse_ipv4_loop_next:
  "t = [] \<or> \<not> is_digit (hd t) \<Longrightarrow> 0 < i \<Longrightarrow>
   parse_ipv4_loop (Suc k) i (CHR ''.'' # itoa (unat b) @ t) p = parse_ipv4_loop k (Suc i) t (p @ [b])"
  by (simp add: dtoi_byte)

lemma parse_ipv4_dotted: "parse_ipv4 (dotted [a, b, c, d]) = Some (ipv4 [a, b, c, d])"
proof -
  have "parse_ipv4_loop (Suc (Suc (Suc (Suc 0)))) 0 (dotted [a, b, c, d]) [] = Some ([], [a, b, c, d])"
    using parse_ipv4_loop_next [of "[]" 3 0 d "[a, b, c]"]
    by (simp del: parse_ipv4_loop.simps(2) add: dotted_def parse_ipv4_loop_first parse_ipv4_loop_next
        eval_nat_numeral)
  then show ?thesis by (simp add: parse_ipv4_def eval_nat_numeral del: parse_ipv4_loop.simps)
qed

lemma parse_ip_scan_digits:
  "\<forall>c\<in>set w. is_digit c \<Longrightarrow> parse_ip_scan s (w @ CHR ''.'' # t) = parse_ipv4 s"
  by (induction w) (auto simp: is_digit_def)

lemma To4_ipv4 [simp]: "length p = 4 \<Longrightarrow> To4 (ipv4 p) = Some p"
  by (simp add: To4_def ipv4_def nth_append)

lemma ParseIP_dotted: "ParseIP (dotted [a, b, c, d]) = Some (ipv4 [a, b, c, d])"
proof -
  have "dotted [a, b, c, d] = itoa (unat a) @ CHR ''.'' # join ''.'' (map (\<lambda>b. itoa (unat b)) [b, c, d])"
    by (simp add: dotted_def)
  then have "ParseIP (dotted [a, b, c, d]) = parse_ipv4 (dotted [a, b, c, d])"
    using parse_ip_scan_digits [of "itoa (unat a)"] itoa_digits
    unfolding ParseIP_def by metis
  then show ?thesis by (simp add: parse_ipv4_dotted)
qed

lemma ip_string_ipv4 [simp]: "length p = 4 \<Longrightarrow> ip_string (Some (ipv4 p)) = dotted p"
  by (simp add: ip_string_def)

end
