(* ===== verification/Dns_Store.thy ===== *)
theory Dns_Store
  imports Mep_Prelude Go_Net "HOL-Library.Char_ord" "HOL-Library.List_Lexorder"
begin

text \<open>
  The data store of the DNS server (\<open>dns-server/datastore/boltdb.go\<close>,
  \<open>storeif.go\<close>): resource records kept in one bucket per zone of a bbolt
  database.  bbolt itself is a parameter, the record \<open>bolt_ops\<close> of the
  operations the code calls; what the code relies on of it is the locale
  \<open>bolt_store\<close>, interpreted on an in-memory database.  JSON documents are
  the values they encode, or \<open>Garbled\<close> text that does not parse.
\<close>

section \<open>Data\<close>

record ResourceRecord =
  rr_Name :: string
  rr_Type :: string
  rr_Class :: string
  rr_TTL :: "32 word"
  rr_RData :: "string list"

record DNSConfigRRKey =
  key_Host :: string
  key_RRType :: "16 word"

record DNSConfigRRValue =
  val_RRClass :: "16 word"
  val_PointTo :: "string list"
  val_TTL :: "32 word"

text \<open>The bytes stored under a key.\<close>

datatype conf_bytes = Enc DNSConfigRRValue | Garbled string

fun conf_empty :: "conf_bytes \<Rightarrow> bool" where
  "conf_empty (Garbled s) = (s = [])"
| "conf_empty (Enc _) = False"

fun unmarshal_conf :: "conf_bytes \<Rightarrow> DNSConfigRRValue option" where
  "unmarshal_conf (Enc v) = Some v"
| "unmarshal_conf (Garbled _) = None"

definition ZoneConfig :: string where "ZoneConfig = ''zone''"
definition DefaultZone :: string where "DefaultZone = ''.''"
definition MaxDNSFQDNLength :: nat where "MaxDNSFQDNLength = 253"

definition TypeA :: "16 word" where "TypeA = 1"
definition TypeAAAA :: "16 word" where "TypeAAAA = 28"
definition ClassINET :: "16 word" where "ClassINET = 1"
definition ClassANY :: "16 word" where "ClassANY = 255"

definition rrTypeMap :: "string \<Rightarrow> 16 word option" where
  "rrTypeMap t = map_of [(''A'', TypeA), (''AAAA'', TypeAAAA)] t"

definition rrClassMap :: "string \<Rightarrow> 16 word option" where
  "rrClassMap c = map_of [(''IN'', ClassINET), (''CS'', 2), (''CH'', 3), (''HS'', 4), (''*'', ClassANY)] c"

text \<open>The parts of the package \<open>dns\<close> that the store builds and reads: a
  question and the answer records.\<close>

record Question =
  q_Name :: string
  q_Qtype :: "16 word"
  q_Qclass :: "16 word"

record RR_Header =
  hdr_Name :: string
  hdr_Rrtype :: "16 word"
  hdr_Class :: "16 word"
  hdr_Ttl :: "32 word"

datatype RR = RR_A RR_Header "ip option" | RR_AAAA RR_Header "ip option"

section \<open>The database\<close>

text \<open>The bbolt operations the store uses, on a database state \<open>'s\<close>: starting
  (writable or not) and committing a transaction, which may fail, the zone bucket and its nested
  buckets.\<close>

record 's bolt_ops =
  bolt_begin :: "bool \<Rightarrow> 's \<Rightarrow> go_error option"
  bolt_commit :: "'s \<Rightarrow> go_error option"
  bolt_has_root :: "'s \<Rightarrow> bool"
  bolt_create_root :: "'s \<Rightarrow> 's go_result"
  bolt_has_zone :: "string \<Rightarrow> 's \<Rightarrow> bool"
  bolt_create_zone :: "string \<Rightarrow> 's \<Rightarrow> 's go_result"
  bolt_zone_names :: "'s \<Rightarrow> string list"
  bolt_get :: "string \<Rightarrow> DNSConfigRRKey \<Rightarrow> 's \<Rightarrow> conf_bytes option"
  bolt_put :: "string \<Rightarrow> DNSConfigRRKey \<Rightarrow> conf_bytes \<Rightarrow> 's \<Rightarrow> 's go_result"
  bolt_delete :: "string \<Rightarrow> DNSConfigRRKey \<Rightarrow> 's \<Rightarrow> 's go_result"

text \<open>\<open>db.Update\<close> commits when the function returns nil and rolls back
  otherwise; \<open>db.View\<close> never changes the database.\<close>

definition db_update :: "'s bolt_ops \<Rightarrow> ('s \<Rightarrow> ('a \<times> 's) go_result) \<Rightarrow> 's \<Rightarrow> 'a go_result \<times> 's" where
  "db_update B f s =
     (case bolt_begin B True s of
        Some e \<Rightarrow> (Inl e, s)
      | None \<Rightarrow>
          (case f s of
             Inl e \<Rightarrow> (Inl e, s)
           | Inr (x, s') \<Rightarrow>
               (case bolt_commit B s' of Some e \<Rightarrow> (Inl e, s) | None \<Rightarrow> (Inr x, s'))))"

definition db_view :: "'s bolt_ops \<Rightarrow> ('s \<Rightarrow> 'a go_result) \<Rightarrow> 's \<Rightarrow> 'a go_result" where
  "db_view B f s = (case bolt_begin B False s of Some e \<Rightarrow> Inl e | None \<Rightarrow> f s)"

definition nil_root :: go_error where
  "nil_root = Panic ''invalid memory address or nil pointer dereference''"

section \<open>Operations of the store\<close>

record 's BoltDB =
  FileName :: string
  BoltDB_TTL :: "32 word"
  BoltDB_db :: "'s option"

text \<open>\<open>Open\<close>: the data directory is made when it is missing, the file is
  opened, and the default zone is created.  The directory test, \<open>os.Mkdir\<close>
  and \<open>bolt.Open\<close> are the arguments.\<close>

definition Open ::
  "'s bolt_ops \<Rightarrow> bool \<Rightarrow> go_error option \<Rightarrow> (string \<Rightarrow> 's go_result) \<Rightarrow> 's BoltDB \<Rightarrow> unit go_result \<times> 's BoltDB" where
  "Open B data_exists mkdir bolt_open b =
     (if \<not> data_exists \<and> mkdir \<noteq> None
      then (Inl (Fatal ''Data path does not exists and could not create a new one''), b)
      else (case bolt_open (''data/'' @ FileName b) of
              Inl e \<Rightarrow> (Inl e, b\<lparr>BoltDB_db := None\<rparr>)
            | Inr s \<Rightarrow>
                (let (r, s') = db_update B (\<lambda>tx.
                   (case bolt_create_root B tx of
                      Inl e \<Rightarrow> Inl (Err (''error creating zone bucket: '' @ err_msg e))
                    | Inr tx \<Rightarrow>
                        (case bolt_create_zone B DefaultZone tx of
                           Inl e \<Rightarrow> Inl (Err (''error creating default zone(.) bucket: '' @ err_msg e))
                         | Inr tx \<Rightarrow> Inr ((), tx)))) s
                 in (r, b\<lparr>BoltDB_db := Some s'\<rparr>))))"

definition setOrCreateDBEntryGeneration :: "conf_bytes option \<Rightarrow> ResourceRecord \<Rightarrow> conf_bytes go_result" where
  "setOrCreateDBEntryGeneration confValueBytes rr =
     (let created =
            (if rr_Name rr = [] \<or> rr_Type rr = [] \<or> MaxDNSFQDNLength \<le> length (rr_Type rr)
                \<or> rr_Class rr = [] \<or> MaxDNSFQDNLength \<le> length (rr_Class rr) \<or> rr_RData rr = []
             then Inl (Err ''input data error for create dns entry'')
             else Inr \<lparr>val_RRClass = 0, val_PointTo = [], val_TTL = 0\<rparr>);
          r = (case confValueBytes of
                 None \<Rightarrow> created
               | Some bs \<Rightarrow>
                   if conf_empty bs then created
                   else (case unmarshal_conf bs of
                           None \<Rightarrow> Inl (Err ''parsing failed on data retrieval'')
                         | Some v \<Rightarrow> Inr v))
      in bind_res r (\<lambda>v.
         bind_res
           (if rr_Class rr \<noteq> [] then
              (case rrClassMap (rr_Class rr) of
                 None \<Rightarrow> Inl (Err (''unsupported rrclass('' @ rr_Class rr @ '') entry''))
               | Some c \<Rightarrow>
                   if c = ClassANY then Inl (Err (''unsupported rrclass('' @ rr_Class rr @ '') entry''))
                   else Inr (v\<lparr>val_RRClass := c\<rparr>))
            else Inr v)
           (\<lambda>v. let v = v\<lparr>val_TTL := rr_TTL rr\<rparr>;
                    v = (if rr_RData rr \<noteq> [] then v\<lparr>val_PointTo := rr_RData rr\<rparr> else v)
                in Inr (Enc v))))"

definition SetResourceRecord :: "'s bolt_ops \<Rightarrow> string \<Rightarrow> ResourceRecord \<Rightarrow> 's \<Rightarrow> unit go_result \<times> 's" where
  "SetResourceRecord B zone rr s =
     (case rrTypeMap (rr_Type rr) of
        None \<Rightarrow> (Inl (Err (''unsupported rrtype('' @ rr_Type rr @ '') entry'')), s)
      | Some rrType \<Rightarrow>
          if rr_TTL rr = 0 then (Inl (Err ''unsupported/missing ttl value''), s)
          else let dnsCfgKey = \<lparr>key_Host = to_lower (rr_Name rr), key_RRType = rrType\<rparr> in
            db_update B (\<lambda>tx.
              if \<not> bolt_has_root B tx then Inl nil_root
              else (case bolt_create_zone B zone tx of
                      Inl e \<Rightarrow> Inl (Err (''zone('' @ zone @ '') retrieval failed''))
                    | Inr tx \<Rightarrow>
                        bind_res (setOrCreateDBEntryGeneration (bolt_get B zone dnsCfgKey tx) rr)
                          (\<lambda>bs. case bolt_put B zone dnsCfgKey bs tx of
                                   Inl e \<Rightarrow> Inl (Err ''saving dns entry to data store failed'')
                                 | Inr tx \<Rightarrow> Inr ((), tx)))) s)"

text \<open>The two arms of \<open>getRRFromZoneBucket\<close> differ in the record they
  build; another question type builds none.\<close>

definition pointToRR :: "Question \<Rightarrow> DNSConfigRRValue \<Rightarrow> string \<Rightarrow> RR list" where
  "pointToRR question v pointToIP =
     (let h = \<lparr>hdr_Name = q_Name question, hdr_Rrtype = q_Qtype question,
               hdr_Class = ClassINET, hdr_Ttl = val_TTL v\<rparr> in
      if q_Qtype question = TypeA then [RR_A h (ParseIP pointToIP)]
      else if q_Qtype question = TypeAAAA then [RR_AAAA h (ParseIP pointToIP)]
      else [])"

definition getRRFromZoneBucket ::
  "'s bolt_ops \<Rightarrow> 's \<Rightarrow> string \<Rightarrow> DNSConfigRRKey \<Rightarrow> Question \<Rightarrow> RR list" where
  "getRRFromZoneBucket B s zone dnsCfgKey question =
     (case bolt_get B zone dnsCfgKey s of
        None \<Rightarrow> []
      | Some bs \<Rightarrow>
          (case unmarshal_conf bs of
             None \<Rightarrow> []
           | Some dnsCfg \<Rightarrow>
               if val_RRClass dnsCfg \<noteq> q_Qclass question then []
               else concat (map (pointToRR question dnsCfg) (val_PointTo dnsCfg))))"

text \<open>The loop over the labels of the name, with \<open>dns.NextLabel\<close> as an
  argument.  \<^const>\<open>None\<close> is a loop that has not ended within the given
  number of rounds.\<close>

fun zone_loop :: "(string \<Rightarrow> nat \<Rightarrow> nat \<times> bool) \<Rightarrow> nat \<Rightarrow> string \<Rightarrow> nat \<Rightarrow> string list option" where
  "zone_loop nextLabel 0 q off = None"
| "zone_loop nextLabel (Suc n) q off =
     (let (off', end_reached) = nextLabel q off in
      if end_reached then Some [drop off q]
      else map_option (\<lambda>zs. drop off q # zs) (zone_loop nextLabel n q off'))"

definition question_zones :: "(string \<Rightarrow> nat \<Rightarrow> nat \<times> bool) \<Rightarrow> string \<Rightarrow> string list option" where
  "question_zones nextLabel q =
     map_option (\<lambda>zs. remdups (zs @ [''.''])) (zone_loop nextLabel (Suc (length q)) q 0)"

text \<open>The loop of \<open>GetResourceRecord\<close> over the zones, in the order the map
  iteration gives them.\<close>

fun zone_search ::
  "'s bolt_ops \<Rightarrow> 's \<Rightarrow> DNSConfigRRKey \<Rightarrow> Question \<Rightarrow> string list \<Rightarrow> RR list \<Rightarrow> RR list" where
  "zone_search B s k question [] records = records"
| "zone_search B s k question (zone # zones) records =
     (if \<not> bolt_has_zone B zone s then zone_search B s k question zones records
      else let records = getRRFromZoneBucket B s zone k question in
        if records \<noteq> [] then records else zone_search B s k question zones records)"

definition GetResourceRecord ::
  "'s bolt_ops \<Rightarrow> (string \<Rightarrow> nat \<Rightarrow> nat \<times> bool) \<Rightarrow> (string list \<Rightarrow> string list) \<Rightarrow> Question \<Rightarrow> 's
   \<Rightarrow> RR list go_result option" where
  "GetResourceRecord B nextLabel iter question s =
     (let q = to_lower (q_Name question);
          dnsCfgKey = \<lparr>key_Host = q, key_RRType = q_Qtype question\<rparr> in
      map_option (\<lambda>zones.
        (case db_view B (\<lambda>tx.
           if \<not> bolt_has_root B tx then Inl nil_root
           else Inr (zone_search B tx dnsCfgKey question (iter zones) [])) s of
           Inl (Panic p) \<Rightarrow> Inl (Panic p)
         | Inl e \<Rightarrow> Inl (Err ''reading dns entry from data store failed'')
         | Inr records \<Rightarrow>
             if records = [] then Inl (Err ''could not process/retrieve the query'')
             else Inr records))
        (question_zones nextLabel q))"

text \<open>The \<open>ForEach\<close> closures of \<open>DelResourceRecord\<close> and
  \<open>IsResourceRecordExists\<close>, with the captured flag \<open>found\<close>.\<close>

fun del_foreach ::
  "'s bolt_ops \<Rightarrow> DNSConfigRRKey \<Rightarrow> string list \<Rightarrow> bool \<Rightarrow> 's \<Rightarrow> (bool \<times> 's) go_result" where
  "del_foreach B k [] found tx = Inr (found, tx)"
| "del_foreach B k (zone # zones) found tx =
     (if found then del_foreach B k zones found tx
      else if \<not> bolt_has_zone B zone tx then Inl (Err ''failed to read the zone entry'')
      else if bolt_get B zone k tx \<noteq> None then
        (case bolt_delete B zone k tx of
           Inl e \<Rightarrow> Inl e
         | Inr tx \<Rightarrow> del_foreach B k zones True tx)
      else del_foreach B k zones found tx)"

definition DelResourceRecord :: "'s bolt_ops \<Rightarrow> string \<Rightarrow> string \<Rightarrow> string \<Rightarrow> 's \<Rightarrow> unit go_result \<times> 's" where
  "DelResourceRecord B zone host rrtypestr s =
     (case rrTypeMap rrtypestr of
        None \<Rightarrow> (Inl (Err (''unsupported rrtype('' @ rrtypestr @ '') entry'')), s)
      | Some rrType \<Rightarrow>
          let dnsCfgKey = \<lparr>key_Host = to_lower host, key_RRType = rrType\<rparr>;
              (r, s') = db_update B (\<lambda>tx.
                 if \<not> bolt_has_root B tx then Inl nil_root
                 else del_foreach B dnsCfgKey (bolt_zone_names B tx) False tx) s
          in (case r of
                Inl (Panic p) \<Rightarrow> (Inl (Panic p), s')
              | Inl e \<Rightarrow> (Inl (Err ''failed to delete dns entry''), s')
              | Inr found \<Rightarrow>
                  (if \<not> found then Inl (Err (''not found for the zone '' @ zone)) else Inr (), s')))"

fun exists_foreach :: "'s bolt_ops \<Rightarrow> DNSConfigRRKey \<Rightarrow> string list \<Rightarrow> bool \<Rightarrow> 's \<Rightarrow> bool go_result" where
  "exists_foreach B k [] found tx = Inr found"
| "exists_foreach B k (zone # zones) found tx =
     (if found then exists_foreach B k zones found tx
      else if \<not> bolt_has_zone B zone tx then Inl (Err ''failed to read the zone entry'')
      else exists_foreach B k zones (bolt_get B zone k tx \<noteq> None) tx)"

definition IsResourceRecordExists :: "'s bolt_ops \<Rightarrow> string \<Rightarrow> ResourceRecord \<Rightarrow> 's \<Rightarrow> bool go_result" where
  "IsResourceRecordExists B zone rr s =
     (case rrTypeMap (rr_Type rr) of
        None \<Rightarrow> Inr False
      | Some rrType \<Rightarrow>
          if rr_TTL rr = 0 then Inr False
          else let confKey = \<lparr>key_Host = to_lower (rr_Name rr), key_RRType = rrType\<rparr> in
            (case db_view B (\<lambda>tx.
               if \<not> bolt_has_root B tx then Inl nil_root
               else exists_foreach B confKey (bolt_zone_names B tx) False tx) s of
               Inl (Panic p) \<Rightarrow> Inl (Panic p)
             | Inl e \<Rightarrow> Inr False
             | Inr found \<Rightarrow> Inr found))"

section \<open>What an entry becomes\<close>

lemma setOrCreate_ok:
  assumes "setOrCreateDBEntryGeneration c rr = Inr bs"
  shows "\<exists>v. bs = Enc v \<and> val_TTL v = rr_TTL rr
             \<and> (rr_RData rr \<noteq> [] \<longrightarrow> val_PointTo v = rr_RData rr)
             \<and> (rr_Class rr \<noteq> [] \<longrightarrow> rrClassMap (rr_Class rr) = Some (val_RRClass v) \<and> val_RRClass v \<noteq> ClassANY)"
  using assms
  by (auto simp: setOrCreateDBEntryGeneration_def Let_def bind_res_eq_Inr split: if_splits option.splits)

lemma setOrCreate_fresh:
  assumes "rr_Name rr \<noteq> []" and "rr_Type rr \<noteq> []" and "length (rr_Type rr) < MaxDNSFQDNLength"
    and "rr_Class rr \<noteq> []" and "length (rr_Class rr) < MaxDNSFQDNLength" and "rr_RData rr \<noteq> []"
    and "rrClassMap (rr_Class rr) = Some c" and "c \<noteq> ClassANY"
  shows "setOrCreateDBEntryGeneration None rr
         = Inr (Enc \<lparr>val_RRClass = c, val_PointTo = rr_RData rr, val_TTL = rr_TTL rr\<rparr>)"
  using assms by (simp add: setOrCreateDBEntryGeneration_def)

lemma setOrCreate_update:
  assumes "rr_RData rr \<noteq> []" and "rr_Class rr \<noteq> []"
    and "rrClassMap (rr_Class rr) = Some c" and "c \<noteq> ClassANY"
  shows "setOrCreateDBEntryGeneration (Some (Enc v)) rr
         = Inr (Enc \<lparr>val_RRClass = c, val_PointTo = rr_RData rr, val_TTL = rr_TTL rr\<rparr>)"
  using assms by (simp add: setOrCreateDBEntryGeneration_def)

lemma rrTypeMap_Some: "rrTypeMap t = Some w \<longleftrightarrow> t = ''A'' \<and> w = TypeA \<or> t = ''AAAA'' \<and> w = TypeAAAA"
  by (auto simp: rrTypeMap_def)

section \<open>Failed operations\<close>

text \<open>Whatever makes an operation fail, the transaction is rolled back.\<close>

lemma db_update_error: "db_update B f s = (Inl e, s') \<Longrightarrow> s' = s"
  by (auto simp: db_update_def split: option.splits sum.splits)

lemma db_update_ok:
  "db_update B f s = (Inr x, s') \<Longrightarrow> f s = Inr (x, s')"
  by (auto simp: db_update_def split: option.splits sum.splits)

lemma SetResourceRecord_error: "SetResourceRecord B zone rr s = (Inl e, s') \<Longrightarrow> s' = s"
  by (auto simp: SetResourceRecord_def Let_def dest: db_update_error split: option.splits if_splits)

section \<open>The label loop\<close>

text \<open>What \<open>dns.NextLabel\<close> promises: unless the end is reached, the offset
  grows and stays inside the name.\<close>

definition next_label_ok :: "(string \<Rightarrow> nat \<Rightarrow> nat \<times> bool) \<Rightarrow> bool" where
  "next_label_ok nl \<longleftrightarrow> (\<forall>q off off'. nl q off = (off', False) \<longrightarrow> off < off' \<and> off' \<le> length q)"

lemma zone_loop_ends:
  assumes "next_label_ok nl" and "off \<le> length q" and "length q - off < n"
  shows "\<exists>zs. zone_loop nl n q off = Some (drop off q # zs)"
  using assms(2,3)
proof (induction n arbitrary: off)
  case (Suc n)
  show ?case
  proof (cases "nl q off")
    case (Pair off' end_reached)
    then show ?thesis
    proof (cases end_reached)
      case False
      then have "off < off' \<and> off' \<le> length q"
        using assms(1) Pair by (simp add: next_label_ok_def)
      then have "\<exists>zs. zone_loop nl n q off' = Some (drop off' q # zs)"
        using Suc by (intro Suc.IH) auto
      then show ?thesis using Pair False by auto
    qed (simp add: Pair)
  qed
qed simp

lemma question_zones_ends:
  assumes "next_label_ok nl"
  shows "\<exists>zs. question_zones nl q = Some zs \<and> ''.'' \<in> set zs \<and> q \<in> set zs \<and> distinct zs"
  using zone_loop_ends [OF assms, of 0 q "Suc (length q)"]
  by (auto simp: question_zones_def simp del: zone_loop.simps)

section \<open>The bolt interface\<close>

text \<open>The laws the store relies on: what the reads of a transaction see after
  each of its writes.\<close>

locale bolt_store =
  fixes B :: "'s bolt_ops"
  assumes get_has_zone: "bolt_get B z k s = Some bs \<Longrightarrow> bolt_has_zone B z s"
    and zone_names: "set (bolt_zone_names B s) = {z. bolt_has_zone B z s}"
    and zone_names_distinct: "distinct (bolt_zone_names B s)"
    and create_root: "bolt_create_root B s = Inr s' \<Longrightarrow>
      bolt_has_root B s' \<and> bolt_has_zone B z s' = bolt_has_zone B z s \<and> bolt_get B z k s' = bolt_get B z k s"
    and create_zone: "bolt_create_zone B z s = Inr s' \<Longrightarrow>
      bolt_has_root B s' = bolt_has_root B s
      \<and> bolt_has_zone B z' s' = (z' = z \<or> bolt_has_zone B z' s) \<and> bolt_get B z' k s' = bolt_get B z' k s"
    and put: "bolt_has_zone B z s \<Longrightarrow> bolt_put B z k bs s = Inr s' \<Longrightarrow>
      bolt_has_root B s' = bolt_has_root B s \<and> bolt_has_zone B z' s' = bolt_has_zone B z' s
      \<and> bolt_get B z' k' s' = (if z' = z \<and> k' = k then Some bs else bolt_get B z' k' s)"
    and delete: "bolt_has_zone B z s \<Longrightarrow> bolt_delete B z k s = Inr s' \<Longrightarrow>
      bolt_has_root B s' = bolt_has_root B s \<and> bolt_has_zone B z' s' = bolt_has_zone B z' s
      \<and> bolt_get B z' k' s' = (if z' = z \<and> k' = k then None else bolt_get B z' k' s)"
begin

lemma Open_ok:
  assumes "Open B data_exists mkdir bolt_open b = (Inr (), b')"
  shows "\<exists>s s'. bolt_open (''data/'' @ FileName b) = Inr s \<and> BoltDB_db b' = Some s'
    \<and> bolt_has_root B s' \<and> bolt_has_zone B DefaultZone s'
    \<and> (\<forall>z k. bolt_get B z k s' = bolt_get B z k s)"
proof -
  obtain s s' where o: "bolt_open (''data/'' @ FileName b) = Inr s"
    and b': "b' = b\<lparr>BoltDB_db := Some s'\<rparr>"
    and u: "db_update B (\<lambda>tx. case bolt_create_root B tx of
                      Inl e \<Rightarrow> Inl (Err (''error creating zone bucket: '' @ err_msg e))
                    | Inr tx \<Rightarrow> (case bolt_create_zone B DefaultZone tx of
                           Inl e \<Rightarrow> Inl (Err (''error creating default zone(.) bucket: '' @ err_msg e))
                         | Inr tx \<Rightarrow> Inr ((), tx))) s = (Inr (), s')"
    using assms by (auto simp: Open_def split: if_splits sum.splits prod.splits)
  from db_update_ok [OF u] obtain s1 where
    "bolt_create_root B s = Inr s1" and "bolt_create_zone B DefaultZone s1 = Inr s'"
    by (auto split: sum.splits)
  with o b' show ?thesis using create_root create_zone by auto
qed

lemma SetResourceRecord_ok:
  assumes "SetResourceRecord B zone rr s = (Inr (), s')"
  shows "\<exists>t bs. rrTypeMap (rr_Type rr) = Some t \<and> rr_TTL rr \<noteq> 0
    \<and> (let k = \<lparr>key_Host = to_lower (rr_Name rr), key_RRType = t\<rparr> in
       setOrCreateDBEntryGeneration (bolt_get B zone k s) rr = Inr bs
       \<and> bolt_has_root B s' \<and> bolt_has_root B s
       \<and> (\<forall>z. bolt_has_zone B z s' = (z = zone \<or> bolt_has_zone B z s))
       \<and> (\<forall>z k'. bolt_get B z k' s' = (if z = zone \<and> k' = k then Some bs else bolt_get B z k' s)))"
proof -
  obtain t where t: "rrTypeMap (rr_Type rr) = Some t" and ttl: "rr_TTL rr \<noteq> 0"
    using assms by (auto simp: SetResourceRecord_def split: option.splits if_splits)
  let ?k = "\<lparr>key_Host = to_lower (rr_Name rr), key_RRType = t\<rparr>"
  obtain s1 bs where root: "bolt_has_root B s" and c: "bolt_create_zone B zone s = Inr s1"
    and v: "setOrCreateDBEntryGeneration (bolt_get B zone ?k s1) rr = Inr bs"
    and p: "bolt_put B zone ?k bs s1 = Inr s'"
    using assms t ttl
    by (auto simp: SetResourceRecord_def Let_def bind_res_def dest!: db_update_ok
        split: if_splits sum.splits)
  note c' = create_zone [OF c]
  have "bolt_has_zone B zone s1" using c' by simp
  note p' = put [OF this p]
  show ?thesis using t ttl v root c' p' by (intro exI [of _ t] exI [of _ bs]) auto
qed

lemma exists_foreach_eq:
  assumes "\<forall>z\<in>set zs. bolt_has_zone B z s"
  shows "exists_foreach B k zs found s = Inr (found \<or> (\<exists>z\<in>set zs. bolt_get B z k s \<noteq> None))"
  using assms by (induction zs arbitrary: found) auto

lemma IsResourceRecordExists_iff:
  assumes "bolt_has_root B s" and "bolt_begin B False s = None"
    and "rrTypeMap (rr_Type rr) = Some t" and "rr_TTL rr \<noteq> 0"
  shows "IsResourceRecordExists B zone rr s
         = Inr (\<exists>z. bolt_get B z \<lparr>key_Host = to_lower (rr_Name rr), key_RRType = t\<rparr> s \<noteq> None)"
proof -
  have "\<forall>z\<in>set (bolt_zone_names B s). bolt_has_zone B z s" by (simp add: zone_names)
  from exists_foreach_eq [OF this] show ?thesis
    using assms get_has_zone
    by (fastforce simp: IsResourceRecordExists_def db_view_def Let_def zone_names)
qed

lemma del_foreach_found: "del_foreach B k zs True s = Inr (True, s)"
  by (induction zs) auto

lemma del_foreach_ok:
  assumes "del_foreach B k zs False s = Inr (found, s')" and "\<forall>z\<in>set zs. bolt_has_zone B z s"
  shows "if found
         then \<exists>z\<in>set zs. bolt_get B z k s \<noteq> None \<and> bolt_delete B z k s = Inr s'
         else s' = s \<and> (\<forall>z\<in>set zs. bolt_get B z k s = None)"
  using assms
proof (induction zs)
  case (Cons z zs)
  show ?case
  proof (cases "bolt_get B z k s")
    case None
    then show ?thesis using Cons by (auto split: if_splits)
  next
    case (Some bs)
    then show ?thesis
      using Cons.prems by (auto simp: del_foreach_found split: sum.splits)
  qed
qed simp

lemma DelResourceRecord_ok:
  assumes "DelResourceRecord B zone host rrtypestr s = (Inr (), s')"
  shows "\<exists>t z. rrTypeMap rrtypestr = Some t
    \<and> (let k = \<lparr>key_Host = to_lower host, key_RRType = t\<rparr> in
       bolt_get B z k s \<noteq> None \<and> bolt_has_root B s' = bolt_has_root B s
       \<and> (\<forall>z'. bolt_has_zone B z' s' = bolt_has_zone B z' s)
       \<and> (\<forall>z' k'. bolt_get B z' k' s' = (if z' = z \<and> k' = k then None else bolt_get B z' k' s)))"
proof -
  obtain t where t: "rrTypeMap rrtypestr = Some t"
    using assms by (auto simp: DelResourceRecord_def split: option.splits)
  let ?k = "\<lparr>key_Host = to_lower host, key_RRType = t\<rparr>"
  have "del_foreach B ?k (bolt_zone_names B s) False s = Inr (True, s')"
    using assms t
    by (auto simp: DelResourceRecord_def Let_def dest!: db_update_ok
        split: prod.splits sum.splits go_error.splits if_splits)
  from del_foreach_ok [OF this] obtain z where
    z: "bolt_get B z ?k s \<noteq> None" and d: "bolt_delete B z ?k s = Inr s'"
    by (auto simp: zone_names)
  have "bolt_has_zone B z s" using z get_has_zone by auto
  note d' = delete [OF this d]
  show ?thesis using t z d' by (intro exI [of _ t] exI [of _ z]) auto
qed

lemma DelResourceRecord_error:
  assumes "DelResourceRecord B zone host rrtypestr s = (Inl e, s')"
  shows "s' = s"
proof (cases "rrTypeMap rrtypestr")
  case None
  then show ?thesis using assms by (simp add: DelResourceRecord_def)
next
  case (Some t)
  let ?k = "\<lparr>key_Host = to_lower host, key_RRType = t\<rparr>"
  let ?f = "\<lambda>tx. if \<not> bolt_has_root B tx then Inl nil_root
                else del_foreach B ?k (bolt_zone_names B tx) False tx"
  obtain r where r: "db_update B ?f s = (r, s')" and nf: "r = Inr False \<or> (\<exists>e'. r = Inl e')"
    using assms Some
    by (auto simp: DelResourceRecord_def Let_def split: prod.splits sum.splits go_error.splits if_splits)
  from nf show ?thesis
  proof
    assume "r = Inr False"
    with r have "?f s = Inr (False, s')" by (intro db_update_ok) simp
    then have "del_foreach B ?k (bolt_zone_names B s) False s = Inr (False, s')"
      by (auto split: if_splits)
    from del_foreach_ok [OF this] show ?thesis by (simp add: zone_names)
  next
    assume "\<exists>e'. r = Inl e'"
    with r show ?thesis by (auto dest: db_update_error)
  qed
qed

lemma getRR_zone: "getRRFromZoneBucket B s z k q \<noteq> [] \<Longrightarrow> bolt_get B z k s \<noteq> None \<and> bolt_has_zone B z s"
  by (auto simp: getRRFromZoneBucket_def get_has_zone split: option.splits)

lemma zone_search_from:
  "zone_search B s k q zs [] \<noteq> [] \<Longrightarrow>
   \<exists>z\<in>set zs. zone_search B s k q zs [] = getRRFromZoneBucket B s z k q"
  by (induction zs) (auto simp: Let_def split: if_splits)

lemma zone_search_nonempty:
  "z \<in> set zs \<Longrightarrow> getRRFromZoneBucket B s z k q \<noteq> [] \<Longrightarrow> zone_search B s k q zs [] \<noteq> []"
  by (induction zs) (auto simp: Let_def dest: getRR_zone)

lemma zone_search_unique:
  assumes "z \<in> set zs" and "getRRFromZoneBucket B s z k q \<noteq> []"
    and "\<forall>z'. bolt_get B z' k s \<noteq> None \<longrightarrow> z' = z"
  shows "zone_search B s k q zs [] = getRRFromZoneBucket B s z k q"
proof -
  note ne = zone_search_nonempty [OF assms(1,2)]
  from zone_search_from [OF ne] obtain z' where
    z': "zone_search B s k q zs [] = getRRFromZoneBucket B s z' k q" by blast
  with ne have "bolt_get B z' k s \<noteq> None" using getRR_zone by metis
  with assms(3) z' show ?thesis by auto
qed

lemma GetResourceRecord_eq:
  assumes "next_label_ok nl" and "bolt_has_root B s" and "bolt_begin B False s = None"
  shows "\<exists>zs. question_zones nl (to_lower (q_Name q)) = Some zs
    \<and> GetResourceRecord B nl iter q s
      = Some (let r = zone_search B s \<lparr>key_Host = to_lower (q_Name q), key_RRType = q_Qtype q\<rparr> q (iter zs) []
              in if r = [] then Inl (Err ''could not process/retrieve the query'') else Inr r)"
  using question_zones_ends [OF assms(1), of "to_lower (q_Name q)"] assms(2,3)
  by (auto simp: GetResourceRecord_def db_view_def Let_def)

lemma GetResourceRecord_unique:
  assumes "next_label_ok nl" and "reordering iter" and "bolt_has_root B s" and "bolt_begin B False s = None"
    and "question_zones nl (to_lower (q_Name q)) = Some zs" and "z \<in> set zs"
    and "k = \<lparr>key_Host = to_lower (q_Name q), key_RRType = q_Qtype q\<rparr>"
    and "getRRFromZoneBucket B s z k q \<noteq> []"
    and "\<forall>z'. bolt_get B z' k s \<noteq> None \<longrightarrow> z' = z"
  shows "GetResourceRecord B nl iter q s = Some (Inr (getRRFromZoneBucket B s z k q))"
proof -
  have "zone_search B s k q (iter zs) [] = getRRFromZoneBucket B s z k q"
    by (rule zone_search_unique) (use assms in \<open>simp_all add: reordering_set\<close>)
  then show ?thesis
    using GetResourceRecord_eq [OF assms(1,3,4), of q iter] assms(5,7,8) by auto
qed

lemma GetResourceRecord_absent:
  assumes "next_label_ok nl" and "bolt_has_root B s" and "bolt_begin B False s = None"
    and "\<forall>z. bolt_get B z \<lparr>key_Host = to_lower (q_Name q), key_RRType = q_Qtype q\<rparr> s = None"
  shows "GetResourceRecord B nl iter q s = Some (Inl (Err ''could not process/retrieve the query''))"
proof -
  let ?k = "\<lparr>key_Host = to_lower (q_Name q), key_RRType = q_Qtype q\<rparr>"
  have "zone_search B s ?k q zs [] = []" for zs
    using zone_search_from [of s ?k q zs] getRR_zone [of s _ ?k q] assms(4) by metis
  then show ?thesis
    using GetResourceRecord_eq [OF assms(1,2,3), of q iter] by (auto simp: Let_def)
qed

end

text \<open>A database on which no operation fails.\<close>

locale bolt_reliable = bolt_store B for B :: "'s bolt_ops" +
  assumes begin_ok: "bolt_begin B w s = None"
    and commit_ok: "bolt_commit B s = None"
    and create_zone_ok: "z \<noteq> [] \<Longrightarrow> \<exists>s'. bolt_create_zone B z s = Inr s'"
    and put_ok: "bolt_has_zone B z s \<Longrightarrow> \<exists>s'. bolt_put B z k bs s = Inr s'"
    and delete_ok: "bolt_has_zone B z s \<Longrightarrow> \<exists>s'. bolt_delete B z k s = Inr s'"
begin

lemma db_update_eq: "db_update B f s = (case f s of Inl e \<Rightarrow> (Inl e, s) | Inr (x, s') \<Rightarrow> (Inr x, s'))"
  by (auto simp: db_update_def begin_ok commit_ok split: sum.splits)

lemma SetResourceRecord_succeeds:
  assumes "bolt_has_root B s" and "zone \<noteq> []" and "rrTypeMap (rr_Type rr) = Some t" and "rr_TTL rr \<noteq> 0"
    and "setOrCreateDBEntryGeneration (bolt_get B zone \<lparr>key_Host = to_lower (rr_Name rr), key_RRType = t\<rparr> s) rr
         = Inr bs"
  shows "\<exists>s'. SetResourceRecord B zone rr s = (Inr (), s')"
proof -
  let ?k = "\<lparr>key_Host = to_lower (rr_Name rr), key_RRType = t\<rparr>"
  obtain s1 where s1: "bolt_create_zone B zone s = Inr s1" using create_zone_ok assms(2) by blast
  note z = create_zone [OF s1]
  then obtain s2 where "bolt_put B zone ?k bs s1 = Inr s2" using put_ok by blast
  then show ?thesis using assms s1 z by (simp add: SetResourceRecord_def db_update_eq)
qed

lemma DelResourceRecord_succeeds:
  assumes "bolt_has_root B s" and "rrTypeMap rrtypestr = Some t"
    and "bolt_get B z \<lparr>key_Host = to_lower host, key_RRType = t\<rparr> s \<noteq> None"
  shows "\<exists>s'. DelResourceRecord B zone host rrtypestr s = (Inr (), s')"
proof -
  let ?k = "\<lparr>key_Host = to_lower host, key_RRType = t\<rparr>"
  have del: "\<exists>s'. del_foreach B ?k zs False s = Inr (True, s')"
    if "z \<in> set zs" and "\<forall>z\<in>set zs. bolt_has_zone B z s" for zs
    using that
  proof (induction zs)
    case (Cons a zs)
    show ?case
    proof (cases "bolt_get B a ?k s")
      case None
      then show ?thesis using Cons assms(3) by auto
    next
      case (Some bs)
      then obtain s' where "bolt_delete B a ?k s = Inr s'" using delete_ok get_has_zone by blast
      then show ?thesis using Some get_has_zone by (auto simp: del_foreach_found)
    qed
  qed simp
  have "z \<in> set (bolt_zone_names B s)" using assms(3) get_has_zone by (auto simp: zone_names)
  from del [OF this] obtain s' where "del_foreach B ?k (bolt_zone_names B s) False s = Inr (True, s')"
    by (auto simp: zone_names)
  then show ?thesis using assms by (simp add: DelResourceRecord_def db_update_eq)
qed

end

section \<open>An in-memory database\<close>

text \<open>The buckets as association lists, listed in the byte order in which bbolt
  iterates them.  A full disk makes every commit fail.\<close>

record mem_bolt =
  mb_root :: bool
  mb_zones :: "(string \<times> (DNSConfigRRKey \<times> conf_bytes) list) list"

definition mem_bolt_ops :: "bool \<Rightarrow> mem_bolt bolt_ops" where
  "mem_bolt_ops full = \<lparr>
     bolt_begin = (\<lambda>w s. None),
     bolt_commit = (\<lambda>s. if full then Some (Err ''no space left on device'') else None),
     bolt_has_root = mb_root,
     bolt_create_root = (\<lambda>s. Inr (s\<lparr>mb_root := True\<rparr>)),
     bolt_has_zone = (\<lambda>z s. map_of (mb_zones s) z \<noteq> None),
     bolt_create_zone = (\<lambda>z s.
       if z = [] then Inl (Err ''bucket name required'')
       else case map_of (mb_zones s) z of
              None \<Rightarrow> Inr (s\<lparr>mb_zones := (z, []) # mb_zones s\<rparr>)
            | Some _ \<Rightarrow> Inr s),
     bolt_zone_names = (\<lambda>s. sort (remdups (map fst (mb_zones s)))),
     bolt_get = (\<lambda>z k s. case map_of (mb_zones s) z of None \<Rightarrow> None | Some m \<Rightarrow> map_of m k),
     bolt_put = (\<lambda>z k bs s. case map_of (mb_zones s) z of
        None \<Rightarrow> Inl (Err ''bucket not found'')
      | Some m \<Rightarrow> Inr (s\<lparr>mb_zones := al_put z (al_put k bs m) (mb_zones s)\<rparr>)),
     bolt_delete = (\<lambda>z k s. case map_of (mb_zones s) z of
        None \<Rightarrow> Inl (Err ''bucket not found'')
      | Some m \<Rightarrow> Inr (s\<lparr>mb_zones := al_put z (al_del k m) (mb_zones s)\<rparr>))\<rparr>"

lemma mem_bolt_begin [simp]: "bolt_begin (mem_bolt_ops full) w s = None"
  by (simp add: mem_bolt_ops_def)

interpretation mem_bolt: bolt_store "mem_bolt_ops full"
proof
  fix s :: mem_bolt
  show "set (bolt_zone_names (mem_bolt_ops full) s) = {z. bolt_has_zone (mem_bolt_ops full) z s}"
    using dom_map_of_conv_image_fst [of "mb_zones s"] by (simp add: mem_bolt_ops_def dom_def)
qed (auto simp: mem_bolt_ops_def split: option.splits if_splits)

interpretation mem_reliable: bolt_reliable "mem_bolt_ops False"
  by unfold_locales (auto simp: mem_bolt_ops_def split: option.splits)

text \<open>\<open>dns.NextLabel\<close> for names without escaped dots.\<close>

definition plain_next_label :: "string \<Rightarrow> nat \<Rightarrow> nat \<times> bool" where
  "plain_next_label s off =
     (if s = [] then (0, True)
      else let i = off + length (takeWhile (\<lambda>c. c \<noteq> CHR ''.'') (drop off s)) in
        if i + 1 < length s then (i + 1, False) else (length s, True))"

lemma plain_next_label_ok: "next_label_ok plain_next_label"
  by (auto simp: next_label_ok_def plain_next_label_def Let_def split: if_splits)

end
