(* ===== verification/Dns_Mgmt.thy ===== *)
theory Dns_Mgmt
  imports Dns_Store
begin

text \<open>
  The management interface of the DNS server (\<open>dns-server/mgmt/controller.go\<close>):
  the handlers that add, change and delete resource records, on the store of
  \<open>Dns_Store\<close>.  A request carries the query and path parameters and what
  \<open>c.Bind\<close> made of the body; an answer is a status code and a text.  The
  lemmas show the invariants of the stored data that the handlers keep and, for
  requests to the default zone, that the handlers implement a plain table from
  keys to values.
\<close>

section \<open>Handlers\<close>

type_synonym http_answer = "nat \<times> string"

definition MaxIPLength :: nat where "MaxIPLength = 45"
definition invalidInputErr :: string where "invalidInputErr = ''invalid input!''"

abbreviation StatusOK :: nat where "StatusOK \<equiv> 200"
abbreviation StatusBadRequest :: nat where "StatusBadRequest \<equiv> 400"
abbreviation StatusInternalServerError :: nat where "StatusInternalServerError \<equiv> 500"

definition valid_rdata :: "string \<Rightarrow> bool" where
  "valid_rdata rData =
     (case ParseIP rData of
        None \<Rightarrow> False
      | Some mgmtIP \<Rightarrow>
          \<not> (length rData = 0 \<or> MaxIPLength < length rData \<or> IsMulticast mgmtIP \<or> ip_equal mgmtIP IPv4bcast))"

definition validateResourceRecords :: "ResourceRecord \<Rightarrow> unit go_result" where
  "validateResourceRecords rr =
     (if rr_TTL rr = 0
        \<or> length (rr_Name rr) = 0 \<or> MaxDNSFQDNLength < length (rr_Name rr) \<or> length (rr_RData rr) = 0
        \<or> length (rr_Type rr) = 0 \<or> MaxDNSFQDNLength < length (rr_Type rr)
        \<or> length (rr_Class rr) = 0 \<or> MaxDNSFQDNLength < length (rr_Class rr)
      then Inl (Err ''invalid resource record value'')
      else if list_all valid_rdata (rr_RData rr) then Inr ()
      else Inl (Err ''invalid resource record value''))"

definition validateSetRecordInput :: "string \<Rightarrow> ResourceRecord \<Rightarrow> unit go_result" where
  "validateSetRecordInput zone rr =
     (if MaxDNSFQDNLength \<le> length zone then Inl (Err ''invalid zone value'')
      else validateResourceRecords rr)"

definition default_zone :: "string \<Rightarrow> string" where
  "default_zone zone = (if length zone = 0 then ''.'' else zone)"

definition handleAddResourceRecords ::
  "'s bolt_ops \<Rightarrow> string \<Rightarrow> ResourceRecord option \<Rightarrow> 's \<Rightarrow> http_answer go_result \<times> 's" where
  "handleAddResourceRecords B zone body s =
     (case body of
        None \<Rightarrow> (Inr (StatusBadRequest, invalidInputErr), s)
      | Some rr \<Rightarrow>
          let zone = default_zone zone in
          (case validateSetRecordInput zone rr of
             Inl e \<Rightarrow> (Inr (StatusBadRequest, invalidInputErr), s)
           | Inr _ \<Rightarrow>
               (case IsResourceRecordExists B zone rr s of
                  Inl e \<Rightarrow> (Inl e, s)
                | Inr exists \<Rightarrow>
                    if exists then (Inr (StatusBadRequest, ''record already exists!''), s)
                    else (case SetResourceRecord B zone rr s of
                            (Inl (Panic p), s) \<Rightarrow> (Inl (Panic p), s)
                          | (Inl e, s) \<Rightarrow> (Inr (StatusInternalServerError, err_msg e), s)
                          | (Inr _, s) \<Rightarrow> (Inr (StatusOK, ''success in adding rr entry.''), s)))))"

definition handleSetResourceRecords ::
  "'s bolt_ops \<Rightarrow> string \<Rightarrow> string \<Rightarrow> string \<Rightarrow> ResourceRecord option \<Rightarrow> 's \<Rightarrow> http_answer go_result \<times> 's" where
  "handleSetResourceRecords B zone fqdn rrtype body s =
     (case body of
        None \<Rightarrow> (Inr (StatusBadRequest, invalidInputErr), s)
      | Some rr \<Rightarrow>
          if length fqdn = 0 \<or> length rrtype = 0
          then (Inr (StatusBadRequest, ''invalid input parameters!''), s)
          else if fqdn \<noteq> rr_Name rr \<or> rrtype \<noteq> rr_Type rr
          then (Inr (StatusBadRequest, ''input not match with rr resource''), s)
          else let zone = default_zone zone in
            (case validateSetRecordInput zone rr of
               Inl e \<Rightarrow> (Inr (StatusBadRequest, invalidInputErr), s)
             | Inr _ \<Rightarrow>
                 (case IsResourceRecordExists B zone rr s of
                    Inl e \<Rightarrow> (Inl e, s)
                  | Inr exists \<Rightarrow>
                      if \<not> exists then (Inr (StatusBadRequest, ''record not exist, cannot update!''), s)
                      else (case SetResourceRecord B zone rr s of
                              (Inl (Panic p), s) \<Rightarrow> (Inl (Panic p), s)
                            | (Inl e, s) \<Rightarrow> (Inr (StatusInternalServerError, err_msg e), s)
                            | (Inr _, s) \<Rightarrow> (Inr (StatusOK, ''success in updating rr entry.''), s)))))"

definition handleDeleteResourceRecord ::
  "'s bolt_ops \<Rightarrow> string \<Rightarrow> string \<Rightarrow> string \<Rightarrow> 's \<Rightarrow> http_answer go_result \<times> 's" where
  "handleDeleteResourceRecord B zone fqdn rrtype s =
     (if length fqdn = 0 \<or> length rrtype = 0 \<or> MaxDNSFQDNLength \<le> length zone
      then (Inr (StatusBadRequest, ''invalid input parameters!''), s)
      else let zone = default_zone zone in
        (case DelResourceRecord B zone fqdn rrtype s of
           (Inl (Panic p), s) \<Rightarrow> (Inl (Panic p), s)
         | (Inl e, s) \<Rightarrow> (Inr (StatusInternalServerError, ''Error in retrieving the data.''), s)
         | (Inr _, s) \<Rightarrow> (Inr (StatusOK, ''Success''), s)))"

definition handleHealthResult :: "'s \<Rightarrow> http_answer go_result \<times> 's" where
  "handleHealthResult s = (Inr (StatusOK, ''OK''), s)"

text \<open>The routes of \<open>StartController\<close>.\<close>

datatype mgmt_request =
    PostRR string "ResourceRecord option"
  | PutRR string string string "ResourceRecord option"
  | DeleteRR string string string
  | GetHealth

fun mgmt_handle :: "'s bolt_ops \<Rightarrow> mgmt_request \<Rightarrow> 's \<Rightarrow> http_answer go_result \<times> 's" where
  "mgmt_handle B (PostRR zone body) s = handleAddResourceRecords B zone body s"
| "mgmt_handle B (PutRR zone fqdn rrtype body) s = handleSetResourceRecords B zone fqdn rrtype body s"
| "mgmt_handle B (DeleteRR zone fqdn rrtype) s = handleDeleteResourceRecord B zone fqdn rrtype s"
| "mgmt_handle B GetHealth s = handleHealthResult s"

definition mgmt_run :: "'s bolt_ops \<Rightarrow> mgmt_request list \<Rightarrow> 's \<Rightarrow> 's" where
  "mgmt_run B reqs s = fold (\<lambda>r s. snd (mgmt_handle B r s)) reqs s"

section \<open>What a request can do to the store\<close>

text \<open>A handler either leaves the database as it is, or its answer is 200 and it
  did exactly one successful store operation on validated input.\<close>

lemma validateSetRecordInput_ok:
  assumes "validateSetRecordInput zone rr = Inr ()"
  shows "length zone < MaxDNSFQDNLength" and "rr_TTL rr \<noteq> 0" and "rr_Name rr \<noteq> []"
    and "length (rr_Name rr) \<le> MaxDNSFQDNLength"
    and "rr_RData rr \<noteq> []" and "list_all valid_rdata (rr_RData rr)" and "rr_Type rr \<noteq> []" and "rr_Class rr \<noteq> []"
  using assms by (auto simp: validateSetRecordInput_def validateResourceRecords_def split: if_splits)

lemma handleAdd_cases:
  assumes "handleAddResourceRecords B zone body s = (ans, s')"
  obtains "s' = s" and "\<forall>m. ans \<noteq> Inr (StatusOK, m)"
  | rr where "body = Some rr" and "validateSetRecordInput (default_zone zone) rr = Inr ()"
      and "IsResourceRecordExists B (default_zone zone) rr s = Inr False"
      and "SetResourceRecord B (default_zone zone) rr s = (Inr (), s')"
      and "ans = Inr (StatusOK, ''success in adding rr entry.'')"
  using assms
  by (auto simp: handleAddResourceRecords_def Let_def dest: SetResourceRecord_error
      split: option.splits sum.splits if_splits prod.splits go_error.splits)

lemma handleSet_cases:
  assumes "handleSetResourceRecords B zone fqdn rrtype body s = (ans, s')"
  obtains "s' = s" and "\<forall>m. ans \<noteq> Inr (StatusOK, m)"
  | rr where "body = Some rr" and "rr_Name rr = fqdn" and "rr_Type rr = rrtype"
      and "validateSetRecordInput (default_zone zone) rr = Inr ()"
      and "IsResourceRecordExists B (default_zone zone) rr s = Inr True"
      and "SetResourceRecord B (default_zone zone) rr s = (Inr (), s')"
      and "ans = Inr (StatusOK, ''success in updating rr entry.'')"
  using assms
  by (auto simp: handleSetResourceRecords_def Let_def dest: SetResourceRecord_error
      split: option.splits sum.splits if_splits prod.splits go_error.splits)

section \<open>Invariants of the stored data\<close>

text \<open>An entry the handlers may store: a lower-case host with a supported type,
  and a decodable value with a positive time to live, a supported class and
  addresses that parse to unicast addresses.\<close>

definition entry_ok :: "DNSConfigRRKey \<Rightarrow> conf_bytes \<Rightarrow> bool" where
  "entry_ok k bs \<longleftrightarrow>
     to_lower (key_Host k) = key_Host k \<and> (key_RRType k = TypeA \<or> key_RRType k = TypeAAAA)
     \<and> (case unmarshal_conf bs of
          None \<Rightarrow> False
        | Some v \<Rightarrow> val_TTL v \<noteq> 0 \<and> val_RRClass v \<noteq> ClassANY \<and> val_PointTo v \<noteq> []
            \<and> list_all valid_rdata (val_PointTo v))"

definition store_ok :: "'s bolt_ops \<Rightarrow> 's \<Rightarrow> bool" where
  "store_ok B s \<longleftrightarrow> bolt_has_root B s \<and> (\<forall>z k bs. bolt_get B z k s = Some bs \<longrightarrow> entry_ok k bs)"

text \<open>Each key is stored in at most one zone.\<close>

definition unique_keys :: "'s bolt_ops \<Rightarrow> 's \<Rightarrow> bool" where
  "unique_keys B s \<longleftrightarrow> (\<forall>z z' k. bolt_get B z k s \<noteq> None \<longrightarrow> bolt_get B z' k s \<noteq> None \<longrightarrow> z = z')"

lemma entry_ok_set:
  assumes "setOrCreateDBEntryGeneration c rr = Inr bs" and "validateSetRecordInput zone rr = Inr ()"
    and "rrTypeMap (rr_Type rr) = Some t"
  shows "entry_ok \<lparr>key_Host = to_lower (rr_Name rr), key_RRType = t\<rparr> bs"
  using setOrCreate_ok [OF assms(1)] validateSetRecordInput_ok [OF assms(2)] assms(3)
  by (auto simp: entry_ok_def rrTypeMap_Some)

context bolt_store
begin

lemma handleDelete_cases:
  assumes "handleDeleteResourceRecord B zone fqdn rrtype s = (ans, s')"
  obtains "s' = s" and "\<forall>m. ans \<noteq> Inr (StatusOK, m)"
  | "DelResourceRecord B (default_zone zone) fqdn rrtype s = (Inr (), s')" and "ans = Inr (StatusOK, ''Success'')"
  using assms
  by (auto simp: handleDeleteResourceRecord_def Let_def dest: DelResourceRecord_error
      split: if_splits prod.splits go_error.splits sum.splits)

lemma set_keeps_store_ok:
  assumes "store_ok B s" and "SetResourceRecord B zone rr s = (Inr (), s')"
    and "validateSetRecordInput zone rr = Inr ()"
  shows "store_ok B s'"
  using SetResourceRecord_ok [OF assms(2)] entry_ok_set [OF _ assms(3)] assms(1)
  unfolding store_ok_def Let_def by (metis option.inject)

lemma del_keeps_store_ok:
  "store_ok B s \<Longrightarrow> DelResourceRecord B zone host rrtype s = (Inr (), s') \<Longrightarrow> store_ok B s'"
  unfolding store_ok_def Let_def
  by (drule DelResourceRecord_ok) (metis option.distinct(1))

lemma mgmt_keeps_store_ok:
  assumes "store_ok B s"
  shows "store_ok B (snd (mgmt_handle B r s))"
proof (cases r)
  case (PostRR zone body)
  obtain ans s' where h: "handleAddResourceRecords B zone body s = (ans, s')" by fastforce
  with PostRR assms show ?thesis
    by (auto elim!: handleAdd_cases intro: set_keeps_store_ok)
next
  case (PutRR zone fqdn rrtype body)
  obtain ans s' where h: "handleSetResourceRecords B zone fqdn rrtype body s = (ans, s')" by fastforce
  with PutRR assms show ?thesis
    by (auto elim!: handleSet_cases intro: set_keeps_store_ok)
next
  case (DeleteRR zone fqdn rrtype)
  obtain ans s' where h: "handleDeleteResourceRecord B zone fqdn rrtype s = (ans, s')" by fastforce
  with DeleteRR assms show ?thesis
    by (auto elim!: handleDelete_cases intro: del_keeps_store_ok)
next
  case GetHealth
  with assms show ?thesis by (simp add: handleHealthResult_def)
qed

lemma mgmt_run_store_ok: "store_ok B s \<Longrightarrow> store_ok B (mgmt_run B reqs s)"
  unfolding mgmt_run_def by (induction reqs arbitrary: s) (auto intro: mgmt_keeps_store_ok)

lemma exists_iff:
  assumes "store_ok B s" and "bolt_begin B False s = None" and "rrTypeMap (rr_Type rr) = Some t"
    and "validateSetRecordInput zone' rr = Inr ()"
  shows "IsResourceRecordExists B zone rr s
         = Inr (\<exists>z. bolt_get B z \<lparr>key_Host = to_lower (rr_Name rr), key_RRType = t\<rparr> s \<noteq> None)"
  using assms IsResourceRecordExists_iff validateSetRecordInput_ok(2) by (simp add: store_ok_def)

lemma add_keeps_unique:
  assumes "store_ok B s" and "unique_keys B s" and "bolt_begin B False s = None"
    and "handleAddResourceRecords B zone body s = (ans, s')"
  shows "unique_keys B s'"
  using assms(4)
proof (cases rule: handleAdd_cases)
  case (2 rr)
  from SetResourceRecord_ok [OF 2(4)] obtain t bs where t: "rrTypeMap (rr_Type rr) = Some t"
    and g: "\<forall>z k'. bolt_get B z k' s' = (if z = default_zone zone \<and> k' = \<lparr>key_Host = to_lower (rr_Name rr), key_RRType = t\<rparr>
                    then Some bs else bolt_get B z k' s)"
    by (auto simp: Let_def)
  have "bolt_get B z \<lparr>key_Host = to_lower (rr_Name rr), key_RRType = t\<rparr> s = None" for z
    using exists_iff [OF assms(1,3) t 2(2), of "default_zone zone"] 2(3) by auto
  with g assms(2) show ?thesis unfolding unique_keys_def by (metis option.distinct(1))
qed (simp add: assms(2))

lemma put_keeps_unique:
  assumes "unique_keys B s" and "handleSetResourceRecords B zone fqdn rrtype body s = (ans, s')"
    and "rrTypeMap rrtype = Some t"
    and "bolt_get B (default_zone zone) \<lparr>key_Host = to_lower fqdn, key_RRType = t\<rparr> s \<noteq> None"
  shows "unique_keys B s'"
  using assms(2)
proof (cases rule: handleSet_cases)
  case (2 rr)
  from SetResourceRecord_ok [OF 2(6)] 2(2,3) assms(3) obtain bs where
    g: "\<forall>z k'. bolt_get B z k' s' = (if z = default_zone zone \<and> k' = \<lparr>key_Host = to_lower fqdn, key_RRType = t\<rparr>
                    then Some bs else bolt_get B z k' s)"
    by (auto simp: Let_def)
  with assms(1,4) show ?thesis unfolding unique_keys_def by metis
qed (simp add: assms(1))

lemma delete_keeps_unique:
  assumes "unique_keys B s" and "handleDeleteResourceRecord B zone fqdn rrtype s = (ans, s')"
  shows "unique_keys B s'"
  using assms(2)
proof (cases rule: handleDelete_cases)
  case 2
  from DelResourceRecord_ok [OF 2(1)] assms(1) show ?thesis
    unfolding unique_keys_def Let_def by metis
qed (simp add: assms(1))

end

section \<open>The table of the default zone\<close>

text \<open>The specification of the management interface for clients that never name
  a zone: a table from keys to values.\<close>

definition zone_request :: "mgmt_request \<Rightarrow> bool" where
  "zone_request r = (case r of PostRR zone _ \<Rightarrow> zone = [] \<or> zone = ''.''
                     | PutRR zone _ _ _ \<Rightarrow> zone = [] \<or> zone = ''.'' | _ \<Rightarrow> True)"

definition default_only :: "'s bolt_ops \<Rightarrow> 's \<Rightarrow> bool" where
  "default_only B s \<longleftrightarrow> (\<forall>z k. bolt_get B z k s \<noteq> None \<longrightarrow> z = ''.'')"

type_synonym dns_table = "DNSConfigRRKey \<Rightarrow> DNSConfigRRValue option"

definition table_of :: "'s bolt_ops \<Rightarrow> 's \<Rightarrow> dns_table" where
  "table_of B s k = Option.bind (bolt_get B ''.'' k s) unmarshal_conf"

definition rr_key :: "ResourceRecord \<Rightarrow> DNSConfigRRKey" where
  "rr_key rr = \<lparr>key_Host = to_lower (rr_Name rr), key_RRType = the (rrTypeMap (rr_Type rr))\<rparr>"

definition rr_value :: "ResourceRecord \<Rightarrow> DNSConfigRRValue" where
  "rr_value rr = \<lparr>val_RRClass = the (rrClassMap (rr_Class rr)), val_PointTo = rr_RData rr, val_TTL = rr_TTL rr\<rparr>"

text \<open>When a request may be answered 200, and what the table is then.\<close>

fun table_allows :: "mgmt_request \<Rightarrow> dns_table \<Rightarrow> bool" where
  "table_allows (PostRR _ (Some rr)) m = (m (rr_key rr) = None)"
| "table_allows (PutRR _ fqdn rrtype (Some rr)) m =
     (fqdn = rr_Name rr \<and> rrtype = rr_Type rr \<and> m (rr_key rr) \<noteq> None)"
| "table_allows (DeleteRR _ fqdn rrtype) m =
     (\<exists>t. rrTypeMap rrtype = Some t \<and> m \<lparr>key_Host = to_lower fqdn, key_RRType = t\<rparr> \<noteq> None)"
| "table_allows GetHealth m = True"
| "table_allows _ m = False"

fun table_step :: "mgmt_request \<Rightarrow> dns_table \<Rightarrow> dns_table" where
  "table_step (PostRR _ (Some rr)) m = m(rr_key rr \<mapsto> rr_value rr)"
| "table_step (PutRR _ _ _ (Some rr)) m = m(rr_key rr \<mapsto> rr_value rr)"
| "table_step (DeleteRR _ fqdn rrtype) m = m(\<lparr>key_Host = to_lower fqdn, key_RRType = the (rrTypeMap rrtype)\<rparr> := None)"
| "table_step _ m = m"

lemma table_of_None_iff:
  "store_ok B s \<Longrightarrow> table_of B s k = None \<longleftrightarrow> bolt_get B ''.'' k s = None"
  by (cases "bolt_get B ''.'' k s") (auto simp: table_of_def store_ok_def entry_ok_def split: option.splits)

context bolt_store
begin

lemma set_table:
  assumes "validateSetRecordInput ''.'' rr = Inr ()" and "SetResourceRecord B ''.'' rr s = (Inr (), s')"
  shows "table_of B s' = (table_of B s)(rr_key rr \<mapsto> rr_value rr)"
    and "default_only B s \<Longrightarrow> default_only B s'"
proof -
  from SetResourceRecord_ok [OF assms(2)] obtain t bs where t: "rrTypeMap (rr_Type rr) = Some t"
    and v: "setOrCreateDBEntryGeneration (bolt_get B ''.'' (rr_key rr) s) rr = Inr bs"
    and g: "\<forall>z k'. bolt_get B z k' s' = (if z = ''.'' \<and> k' = rr_key rr then Some bs else bolt_get B z k' s)"
    by (auto simp: Let_def rr_key_def)
  from setOrCreate_ok [OF v] validateSetRecordInput_ok [OF assms(1)] have "bs = Enc (rr_value rr)"
    by (auto simp: rr_value_def)
  with g show "table_of B s' = (table_of B s)(rr_key rr \<mapsto> rr_value rr)"
    by (auto simp: table_of_def fun_eq_iff)
  show "default_only B s'" if "default_only B s"
    using that g by (auto simp: default_only_def)
qed

lemma default_zone_request: "zone = [] \<or> zone = ''.'' \<Longrightarrow> default_zone zone = ''.''"
  by (auto simp: default_zone_def)

lemma refine_post:
  assumes "store_ok B s" and "default_only B s" and "bolt_begin B False s = None"
    and "zone = [] \<or> zone = ''.''" and "handleAddResourceRecords B zone body s = (Inr (StatusOK, m), s')"
  shows "table_allows (PostRR zone body) (table_of B s)
         \<and> table_of B s' = table_step (PostRR zone body) (table_of B s) \<and> default_only B s'"
  using assms(5)
proof (cases rule: handleAdd_cases)
  case (2 rr)
  note 2 = 2 [unfolded default_zone_request [OF assms(4)]]
  obtain t where t: "rrTypeMap (rr_Type rr) = Some t" using SetResourceRecord_ok [OF 2(4)] by auto
  have "bolt_get B ''.'' (rr_key rr) s = None"
    using exists_iff [OF assms(1,3) t 2(2), of "''.''"] 2(3) t by (auto simp: rr_key_def)
  then show ?thesis
    using set_table [OF 2(2,4)] assms(2) 2(1) by (simp add: table_of_def)
qed simp

lemma refine_put:
  assumes "store_ok B s" and "default_only B s" and "bolt_begin B False s = None"
    and "zone = [] \<or> zone = ''.''" and "handleSetResourceRecords B zone fqdn rrtype body s = (Inr (StatusOK, m), s')"
  shows "table_allows (PutRR zone fqdn rrtype body) (table_of B s)
         \<and> table_of B s' = table_step (PutRR zone fqdn rrtype body) (table_of B s) \<and> default_only B s'"
  using assms(5)
proof (cases rule: handleSet_cases)
  case (2 rr)
  note 2 = 2 [unfolded default_zone_request [OF assms(4)]]
  obtain t where t: "rrTypeMap (rr_Type rr) = Some t" using SetResourceRecord_ok [OF 2(6)] by auto
  have "bolt_get B ''.'' (rr_key rr) s \<noteq> None"
    using exists_iff [OF assms(1,3) t 2(4), of "''.''"] 2(5) t assms(2)
    by (auto simp: rr_key_def default_only_def)
  then have "table_of B s (rr_key rr) \<noteq> None" by (simp only: table_of_None_iff [OF assms(1)] not_False_eq_True)
  then show ?thesis
    using set_table [OF 2(4,6)] assms(2) 2(1,2,3) by simp
qed simp

lemma refine_delete:
  assumes "store_ok B s" and "default_only B s"
    and "handleDeleteResourceRecord B zone fqdn rrtype s = (Inr (StatusOK, m), s')"
  shows "table_allows (DeleteRR zone fqdn rrtype) (table_of B s)
         \<and> table_of B s' = table_step (DeleteRR zone fqdn rrtype) (table_of B s) \<and> default_only B s'"
  using assms(3)
proof (cases rule: handleDelete_cases)
  case 2
  let ?k = "\<lambda>t. \<lparr>key_Host = to_lower fqdn, key_RRType = t\<rparr>"
  from DelResourceRecord_ok [OF 2(1)] obtain t z where t: "rrTypeMap rrtype = Some t"
    and z: "bolt_get B z (?k t) s \<noteq> None"
    and g: "\<forall>z' k'. bolt_get B z' k' s' = (if z' = z \<and> k' = ?k t then None else bolt_get B z' k' s)"
    by (auto simp: Let_def)
  have "z = ''.''" using z assms(2) by (auto simp: default_only_def)
  moreover have "default_only B s'"
    unfolding default_only_def using g assms(2) [unfolded default_only_def] by metis
  moreover have "table_of B s (?k t) \<noteq> None"
    using z \<open>z = ''.''\<close> table_of_None_iff [OF assms(1)] by simp
  ultimately show ?thesis
    using t g by (simp add: table_of_def fun_eq_iff)
qed simp

lemma refine_failed:
  assumes "mgmt_handle B r s = (ans, s')" and "\<forall>m. ans \<noteq> Inr (StatusOK, m)"
  shows "s' = s"
  using assms by (cases r) (auto elim!: handleAdd_cases handleSet_cases handleDelete_cases simp: handleHealthResult_def)

lemma mgmt_refines_table:
  assumes "store_ok B s" and "default_only B s" and "bolt_begin B False s = None" and "zone_request r"
    and "mgmt_handle B r s = (ans, s')"
  shows "(if \<exists>m. ans = Inr (StatusOK, m)
          then table_allows r (table_of B s) \<and> table_of B s' = table_step r (table_of B s)
          else s' = s) \<and> default_only B s'"
proof (cases "\<exists>m. ans = Inr (StatusOK, m)")
  case True
  then obtain m where m: "mgmt_handle B r s = (Inr (StatusOK, m), s')" using assms(5) by auto
  show ?thesis
  proof (cases r)
    case (PostRR zone body)
    with refine_post [OF assms(1-3)] m assms(4) True show ?thesis by (simp add: zone_request_def)
  next
    case (PutRR zone fqdn rrtype body)
    with refine_put [OF assms(1-3)] m assms(4) True show ?thesis by (simp add: zone_request_def)
  next
    case (DeleteRR zone fqdn rrtype)
    with refine_delete [OF assms(1,2)] m True show ?thesis by simp
  next
    case GetHealth
    with m assms(2) True show ?thesis by (simp add: handleHealthResult_def)
  qed
next
  case False
  with refine_failed [OF assms(5)] assms(2) show ?thesis by auto
qed

end

section \<open>Accepted requests\<close>

lemma rrClassMap_length: "rrClassMap c = Some w \<Longrightarrow> length c < MaxDNSFQDNLength"
  by (auto simp: rrClassMap_def MaxDNSFQDNLength_def split: if_splits)

lemma rrTypeMap_length: "rrTypeMap c = Some w \<Longrightarrow> length c < MaxDNSFQDNLength"
  by (auto simp: rrTypeMap_Some MaxDNSFQDNLength_def)

context bolt_reliable
begin

lemma post_accepted:
  assumes "store_ok B s" and v: "validateSetRecordInput (default_zone zone) rr = Inr ()"
    and t: "rrTypeMap (rr_Type rr) = Some t" and c: "rrClassMap (rr_Class rr) = Some c" "c \<noteq> ClassANY"
    and n: "\<forall>z. bolt_get B z (rr_key rr) s = None"
  shows "\<exists>s'. handleAddResourceRecords B zone (Some rr) s = (Inr (StatusOK, ''success in adding rr entry.''), s')"
proof -
  have key: "rr_key rr = \<lparr>key_Host = to_lower (rr_Name rr), key_RRType = t\<rparr>"
    by (simp add: rr_key_def t)
  have "default_zone zone \<noteq> []" by (simp add: default_zone_def)
  moreover have "\<exists>bs. setOrCreateDBEntryGeneration (bolt_get B (default_zone zone) (rr_key rr) s) rr = Inr bs"
    using n setOrCreate_fresh [OF _ _ _ _ _ _ c] validateSetRecordInput_ok [OF v]
      rrTypeMap_length [OF t] rrClassMap_length [OF c(1)] by simp
  ultimately obtain s' where "SetResourceRecord B (default_zone zone) rr s = (Inr (), s')"
    using SetResourceRecord_succeeds [of s "default_zone zone" rr t] validateSetRecordInput_ok(2) [OF v] t assms(1)
    by (auto simp: key store_ok_def)
  moreover have "IsResourceRecordExists B (default_zone zone) rr s = Inr False"
    using exists_iff [OF assms(1) begin_ok t v] n by (simp add: key)
  ultimately show ?thesis using v by (simp add: handleAddResourceRecords_def)
qed

lemma post_accepted_iff:
  assumes "store_ok B s"
  shows "(\<exists>m s'. handleAddResourceRecords B zone (Some rr) s = (Inr (StatusOK, m), s'))
    \<longleftrightarrow> validateSetRecordInput (default_zone zone) rr = Inr () \<and> rrTypeMap (rr_Type rr) \<noteq> None
      \<and> (\<exists>c. rrClassMap (rr_Class rr) = Some c \<and> c \<noteq> ClassANY) \<and> (\<forall>z. bolt_get B z (rr_key rr) s = None)"
    (is "?L \<longleftrightarrow> ?R")
proof
  assume ?L
  then obtain m s' where "handleAddResourceRecords B zone (Some rr) s = (Inr (StatusOK, m), s')" by blast
  then show ?R
  proof (cases rule: handleAdd_cases)
    case (2 rr')
    then have rr: "rr' = rr" by simp
    from SetResourceRecord_ok [OF 2(4)] rr obtain t bs where t: "rrTypeMap (rr_Type rr) = Some t"
      and e: "setOrCreateDBEntryGeneration (bolt_get B (default_zone zone) (rr_key rr) s) rr = Inr bs"
      by (auto simp: Let_def rr_key_def)
    have "\<forall>z. bolt_get B z (rr_key rr) s = None"
      using exists_iff [OF assms begin_ok t] 2(2,3) t rr by (auto simp: rr_key_def)
    moreover have "\<exists>c. rrClassMap (rr_Class rr) = Some c \<and> c \<noteq> ClassANY"
      using setOrCreate_ok [OF e] validateSetRecordInput_ok(8) [OF 2(2)] rr by auto
    ultimately show ?thesis using 2(2) t rr by simp
  qed simp
next
  assume ?R
  then show ?L using post_accepted [OF assms] by blast
qed

end

section \<open>Properties\<close>

text \<open>A database holding nothing but the default zone, and a record.\<close>

definition empty_db :: mem_bolt where
  "empty_db = \<lparr>mb_root = True, mb_zones = [(''.'', [])]\<rparr>"

definition www_rr :: ResourceRecord where
  "www_rr = \<lparr>rr_Name = ''www.example.com.'', rr_Type = ''A'', rr_Class = ''IN'', rr_TTL = 30,
             rr_RData = [''172.168.15.101'', ''10.0.0.7'']\<rparr>"

lemma empty_db_ok [simp]: "store_ok (mem_bolt_ops full) empty_db" "unique_keys (mem_bolt_ops full) empty_db"
    "default_only (mem_bolt_ops full) empty_db"
  by (auto simp: store_ok_def unique_keys_def default_only_def mem_bolt_ops_def empty_db_def split: if_splits option.splits)

text \<open>The data invariant.  Whatever sequence of management requests is served,
  with database failures at any point, every stored entry has a lower-case host of
  type A or AAAA and decodes to a value with a positive time to live, a supported
  class and a non-empty list of valid unicast addresses.\<close>

theorem mgmt_store_invariant:
  assumes "bolt_store B" and "store_ok B s"
  shows "store_ok B (mgmt_run B reqs s)"
  using bolt_store.mgmt_run_store_ok [OF assms] .

theorem mgmt_store_invariant_witness:
  "store_ok (mem_bolt_ops False)
     (mgmt_run (mem_bolt_ops False) [PostRR [] (Some www_rr), DeleteRR [] ''WWW.example.com.'' ''A''] empty_db)"
  by (rule mgmt_store_invariant [OF mem_bolt.bolt_store_axioms]) simp

text \<open>(C13) The management interface refines a table.  For clients that name no zone
  or the default zone, a request answered 200 was allowed by the table (an add of an
  absent key, a change or a delete of a present one) and changes it as the table
  operation says; any other answer leaves the database untouched.\<close>

theorem mgmt_table_refinement:
  assumes "bolt_store B" and "store_ok B s" and "default_only B s" and "bolt_begin B False s = None"
    and "zone_request r" and "mgmt_handle B r s = (ans, s')"
  shows "(if \<exists>m. ans = Inr (StatusOK, m)
          then table_allows r (table_of B s) \<and> table_of B s' = table_step r (table_of B s)
          else s' = s) \<and> default_only B s'"
  using bolt_store.mgmt_refines_table [OF assms] .

definition www_key :: DNSConfigRRKey where
  "www_key = \<lparr>key_Host = ''www.example.com.'', key_RRType = TypeA\<rparr>"

definition www_db :: mem_bolt where
  "www_db = \<lparr>mb_root = True, mb_zones = [(''.'', [(www_key, Enc (rr_value www_rr))])]\<rparr>"

lemma post_www:
  "mgmt_handle (mem_bolt_ops False) (PostRR [] (Some www_rr)) empty_db
   = (Inr (StatusOK, ''success in adding rr entry.''), www_db)"
  by code_simp

theorem mgmt_table_refinement_witness:
  "table_of (mem_bolt_ops False) www_db = (table_of (mem_bolt_ops False) empty_db)(www_key \<mapsto> rr_value www_rr)"
proof -
  have "rr_key www_rr = www_key" by code_simp
  then show ?thesis
    using mgmt_table_refinement [OF mem_bolt.bolt_store_axioms empty_db_ok(1,3) _ _ post_www]
    by (simp add: zone_request_def mem_bolt_ops_def)
qed

text \<open>Uniqueness.  While a key is stored in at most one zone, it stays so under
  every POST to any zone, under every DELETE, and under a PUT that names the zone the
  record is in.\<close>

theorem mgmt_unique_keys:
  assumes "bolt_store B" and "store_ok B s" and "unique_keys B s" and "bolt_begin B False s = None"
    and "\<And>zone fqdn rrtype body. r = PutRR zone fqdn rrtype body \<Longrightarrow>
           \<exists>t. rrTypeMap rrtype = Some t
             \<and> bolt_get B (default_zone zone) \<lparr>key_Host = to_lower fqdn, key_RRType = t\<rparr> s \<noteq> None"
  shows "unique_keys B (snd (mgmt_handle B r s))"
proof (cases r)
  case (PostRR zone body)
  with bolt_store.add_keeps_unique [OF assms(1-4) prod.collapse [symmetric]] show ?thesis by simp
next
  case (PutRR zone fqdn rrtype body)
  with assms(5) bolt_store.put_keeps_unique [OF assms(1,3) prod.collapse [symmetric]] show ?thesis by force
next
  case (DeleteRR zone fqdn rrtype)
  with bolt_store.delete_keeps_unique [OF assms(1,3) prod.collapse [symmetric]] show ?thesis by simp
next
  case GetHealth
  with assms(3) show ?thesis by (simp add: handleHealthResult_def)
qed

theorem mgmt_unique_keys_witness:
  "unique_keys (mem_bolt_ops False) (snd (mgmt_handle (mem_bolt_ops False) (PostRR ''com.'' (Some www_rr)) empty_db))"
  by (rule mgmt_unique_keys [OF mem_bolt.bolt_store_axioms]) simp_all

text \<open>A PUT that names another zone is not in place: the existence check looks at
  every zone but the write goes to the named one, so the update of a record of the
  default zone through the zone \<open>com.\<close> is answered 200 and leaves two different
  entries under one key.\<close>

theorem put_other_zone_duplicates:
  "let rr = www_rr\<lparr>rr_RData := [''10.1.1.1'']\<rparr>;
       (ans, s') = mgmt_handle (mem_bolt_ops False) (PutRR ''com.'' ''www.example.com.'' ''A'' (Some rr)) www_db
   in ans = Inr (StatusOK, ''success in updating rr entry.'')
      \<and> bolt_get (mem_bolt_ops False) ''.'' www_key s' = Some (Enc (rr_value www_rr))
      \<and> bolt_get (mem_bolt_ops False) ''com.'' www_key s' = Some (Enc (rr_value rr))"
  by code_simp

text \<open>Exactly which additions succeed.  On a database that does not fail, a POST
  is answered 200 if and only if the input is valid, the type is A or AAAA, the class
  is a known one other than ANY, and no zone holds the key yet.\<close>

theorem post_accepted_exactly:
  assumes "bolt_reliable B" and "store_ok B s"
  shows "(\<exists>m s'. handleAddResourceRecords B zone (Some rr) s = (Inr (StatusOK, m), s'))
    \<longleftrightarrow> validateSetRecordInput (default_zone zone) rr = Inr () \<and> rrTypeMap (rr_Type rr) \<noteq> None
      \<and> (\<exists>c. rrClassMap (rr_Class rr) = Some c \<and> c \<noteq> ClassANY) \<and> (\<forall>z. bolt_get B z (rr_key rr) s = None)"
  using bolt_reliable.post_accepted_iff [OF assms] .

theorem post_accepted_exactly_witness:
  "\<forall>m s'. handleAddResourceRecords (mem_bolt_ops False) [] (Some (www_rr\<lparr>rr_Class := ''*''\<rparr>)) empty_db
          \<noteq> (Inr (StatusOK, m), s')"
proof -
  have "\<not> (\<exists>c. rrClassMap (rr_Class (www_rr\<lparr>rr_Class := ''*''\<rparr>)) = Some c \<and> c \<noteq> ClassANY)"
    by (simp add: rrClassMap_def)
  with post_accepted_exactly [OF mem_reliable.bolt_reliable_axioms empty_db_ok(1), of "[]" "www_rr\<lparr>rr_Class := ''*''\<rparr>"]
  show ?thesis by blast
qed

end
