(* ===== verification/Dataplane.thy ===== *)
theory Dataplane
  imports Backend Dns_Mgmt
begin

text \<open>
  The two interfaces the rule synchronisation configures
  (\<open>mepserver/common/extif/dataplane\<close>, \<open>common/extif/dns\<close>): the data
  plane and the DNS agent, as records of functions over the world, with the
  implementations of the repository, \<open>NoneDataPlane\<close> and
  \<open>RestDNSAgent\<close>.  The agent's HTTP client is a parameter; the resource record it
  sends has the same JSON form as that of the DNS server, and is the same type here.
\<close>

section \<open>Interfaces\<close>

record 'w DataPlane =
  dp_AddTrafficRule :: "ApplicationInfo \<Rightarrow> string \<Rightarrow> string \<Rightarrow> string \<Rightarrow> int \<Rightarrow> TrafficFilter list \<Rightarrow> 'w \<Rightarrow> go_error option \<times> 'w"
  dp_SetTrafficRule :: "ApplicationInfo \<Rightarrow> string \<Rightarrow> string \<Rightarrow> string \<Rightarrow> int \<Rightarrow> TrafficFilter list \<Rightarrow> 'w \<Rightarrow> go_error option \<times> 'w"
  dp_DeleteTrafficRule :: "ApplicationInfo \<Rightarrow> string \<Rightarrow> 'w \<Rightarrow> go_error option \<times> 'w"
  dp_AddDNSRule :: "ApplicationInfo \<Rightarrow> string \<Rightarrow> string \<Rightarrow> string \<Rightarrow> string \<Rightarrow> 32 word \<Rightarrow> 'w \<Rightarrow> go_error option \<times> 'w"
  dp_SetDNSRule :: "ApplicationInfo \<Rightarrow> string \<Rightarrow> string \<Rightarrow> string \<Rightarrow> string \<Rightarrow> 32 word \<Rightarrow> 'w \<Rightarrow> go_error option \<times> 'w"
  dp_DeleteDNSRule :: "ApplicationInfo \<Rightarrow> string \<Rightarrow> 'w \<Rightarrow> go_error option \<times> 'w"

record 'w DNSAgent =
  da_AddResourceRecord :: "string \<Rightarrow> string \<Rightarrow> string \<Rightarrow> string list \<Rightarrow> 32 word \<Rightarrow> 'w \<Rightarrow> go_error option \<times> 'w"
  da_SetResourceRecord :: "string \<Rightarrow> string \<Rightarrow> string \<Rightarrow> string list \<Rightarrow> 32 word \<Rightarrow> 'w \<Rightarrow> go_error option \<times> 'w"
  da_DeleteResourceRecord :: "string \<Rightarrow> string \<Rightarrow> 'w \<Rightarrow> go_error option \<times> 'w"

text \<open>The sample data plane accepts everything and does nothing.\<close>

definition NoneDataPlane :: "'w DataPlane" where
  "NoneDataPlane = \<lparr>
     dp_AddTrafficRule = (\<lambda>appInfo trafficRuleId filterType action priority fil w. (None, w)),
     dp_SetTrafficRule = (\<lambda>appInfo trafficRuleId filterType action priority fil w. (None, w)),
     dp_DeleteTrafficRule = (\<lambda>appInfo trafficRuleId w. (None, w)),
     dp_AddDNSRule = (\<lambda>appInfo dnsRuleId domainName ipAddressType ipAddress ttl w. (None, w)),
     dp_SetDNSRule = (\<lambda>appInfo dnsRuleId domainName ipAddressType ipAddress ttl w. (None, w)),
     dp_DeleteDNSRule = (\<lambda>appInfo dnsRuleId w. (None, w))\<rparr>"

section \<open>URLs\<close>

text \<open>\<open>path.Clean\<close> on the segments of a path, \<open>st\<close> the cleaned ones in
  reverse.\<close>

fun clean_segments :: "bool \<Rightarrow> string list \<Rightarrow> string list \<Rightarrow> string list" where
  "clean_segments rooted st [] = rev st"
| "clean_segments rooted st (s # ss) =
     (if s = [] \<or> s = ''.'' then clean_segments rooted st ss
      else if s = ''..'' then
        (case st of
           [] \<Rightarrow> clean_segments rooted (if rooted then [] else [''..'']) ss
         | t # st' \<Rightarrow> clean_segments rooted (if t = ''..'' then ''..'' # st else st') ss)
      else clean_segments rooted (s # st) ss)"

definition path_clean :: "string \<Rightarrow> string" where
  "path_clean p =
     (if p = [] then ''.''
      else let rooted = (hd p = CHR ''/''); c = join ''/'' (clean_segments rooted [] (split_on (CHR ''/'') p)) in
        if rooted then ''/'' @ c else if c = [] then ''.'' else c)"

definition path_join :: "string list \<Rightarrow> string" where
  "path_join elems =
     (let es = filter (\<lambda>e. e \<noteq> []) elems in if es = [] then [] else path_clean (join ''/'' es))"

definition trim_right :: "char \<Rightarrow> string \<Rightarrow> string" where
  "trim_right c s = rev (dropWhile (\<lambda>x. x = c) (rev s))"

definition trim_left :: "char \<Rightarrow> string \<Rightarrow> string" where
  "trim_left c s = dropWhile (\<lambda>x. x = c) s"

definition JoinURL :: "string \<Rightarrow> string list \<Rightarrow> string" where
  "JoinURL base paths = trim_right (CHR ''/'') base @ ''/'' @ trim_left (CHR ''/'') (path_join paths)"

definition IsHttpStatusOK :: "nat \<Rightarrow> bool" where
  "IsHttpStatusOK statusCode \<longleftrightarrow> 200 \<le> statusCode \<and> statusCode < 300"

section \<open>The REST agent\<close>

datatype rest_body = BodyRR ResourceRecord | BodyEmpty

record rest_request =
  rq_Method :: string
  rq_URL :: string
  rq_Body :: rest_body

text \<open>\<open>client.Do\<close>: the status code of the response, or an error.\<close>

type_synonym 'w http_client = "rest_request \<Rightarrow> 'w \<Rightarrow> nat go_result \<times> 'w"

definition zone_query :: string where "zone_query = ''?zone=.''"

definition ServerURL :: "string \<Rightarrow> nat \<Rightarrow> string" where
  "ServerURL host port = ''http://'' @ host @ '':'' @ itoa port @ ''/mep/dns_server_mgmt/v1/''"

definition DefaultDnsHost :: string where "DefaultDnsHost = ''localhost''"
definition DefaultDnsManagementPort :: nat where "DefaultDnsManagementPort = 8080"
definition MaxPortLength :: nat where "MaxPortLength = 5"

text \<open>\<open>initDnsAgent\<close>: the end point from the two environment variables;
  \<open>atoi\<close> is \<open>strconv.Atoi\<close> and \<open>url_ok\<close> whether
  \<open>url.Parse\<close> accepts the address.\<close>

definition initDnsAgent :: "(string \<Rightarrow> int option) \<Rightarrow> (string \<Rightarrow> bool) \<Rightarrow> string \<Rightarrow> string \<Rightarrow> string option" where
  "initDnsAgent atoi url_ok host port =
     (let remoteServerHost = (if MaxDNSFQDNLength < length host then DefaultDnsHost else host);
          remoteServerPort =
            (if MaxPortLength < length port then DefaultDnsManagementPort
             else (case atoi port of
                     None \<Rightarrow> DefaultDnsManagementPort
                   | Some num \<Rightarrow> if num \<le> 0 \<or> 65535 < num then DefaultDnsManagementPort else nat num));
          u = ServerURL remoteServerHost remoteServerPort in
      if url_ok u then Some u else None)"

definition BuildDNSEndpoint :: "string \<Rightarrow> string list \<Rightarrow> string" where
  "BuildDNSEndpoint serverEndPoint paths = JoinURL serverEndPoint paths"

definition agent_host :: "string \<Rightarrow> string" where
  "agent_host host = (if has_suffix host ''.'' then host else host @ ''.'')"

definition agent_do :: "'w http_client \<Rightarrow> rest_request \<Rightarrow> string \<Rightarrow> 'w \<Rightarrow> go_error option \<times> 'w" where
  "agent_do client httpReq msg w =
     (case client httpReq w of
        (Inl err, w) \<Rightarrow> (Some err, w)
      | (Inr statusCode, w) \<Rightarrow> if \<not> IsHttpStatusOK statusCode then (Some (Err msg), w) else (None, w))"

definition AddResourceRecord ::
  "'w http_client \<Rightarrow> string option \<Rightarrow> string \<Rightarrow> string \<Rightarrow> string \<Rightarrow> string list \<Rightarrow> 32 word \<Rightarrow> 'w \<Rightarrow> go_error option \<times> 'w" where
  "AddResourceRecord client endPoint host rrType rrclass pointTo ttl w =
     (case endPoint of
        None \<Rightarrow> (Some (Err ''invalid dns server endpoint in add''), w)
      | Some u \<Rightarrow>
          let hostName = agent_host host;
              rr = \<lparr>rr_Name = hostName, rr_Type = rrType, rr_Class = rrclass, rr_TTL = ttl, rr_RData = pointTo\<rparr> in
          agent_do client \<lparr>rq_Method = ''POST'', rq_URL = BuildDNSEndpoint u [''rrecord''] @ zone_query, rq_Body = BodyRR rr\<rparr>
            ''add request to dns server failed'' w)"

definition SetResourceRecord_agent ::
  "'w http_client \<Rightarrow> string option \<Rightarrow> string \<Rightarrow> string \<Rightarrow> string \<Rightarrow> string list \<Rightarrow> 32 word \<Rightarrow> 'w \<Rightarrow> go_error option \<times> 'w" where
  "SetResourceRecord_agent client endPoint host rrType rrclass pointTo ttl w =
     (case endPoint of
        None \<Rightarrow> (Some (Err ''invalid dns server endpoint in modify''), w)
      | Some u \<Rightarrow>
          let hostName = agent_host host;
              rr = \<lparr>rr_Name = hostName, rr_Type = rrType, rr_Class = rrclass, rr_TTL = ttl, rr_RData = pointTo\<rparr> in
          agent_do client \<lparr>rq_Method = ''PUT'', rq_URL = BuildDNSEndpoint u [''rrecord'', hostName, rrType] @ zone_query,
              rq_Body = BodyRR rr\<rparr>
            ''update request to dns server failed'' w)"

definition DeleteResourceRecord ::
  "'w http_client \<Rightarrow> string option \<Rightarrow> string \<Rightarrow> string \<Rightarrow> 'w \<Rightarrow> go_error option \<times> 'w" where
  "DeleteResourceRecord client endPoint host rrtype w =
     (case endPoint of
        None \<Rightarrow> (Some (Err ''invalid dns server endpoint in delete''), w)
      | Some u \<Rightarrow>
          let hostName = agent_host host in
          agent_do client \<lparr>rq_Method = ''DELETE'', rq_URL = BuildDNSEndpoint u [''rrecord'', hostName, rrtype] @ zone_query,
              rq_Body = BodyEmpty\<rparr>
            ''delete request to dns server failed'' w)"

definition RestDNSAgent :: "'w http_client \<Rightarrow> string option \<Rightarrow> 'w DNSAgent" where
  "RestDNSAgent client endPoint = \<lparr>
     da_AddResourceRecord = AddResourceRecord client endPoint,
     da_SetResourceRecord = SetResourceRecord_agent client endPoint,
     da_DeleteResourceRecord = DeleteResourceRecord client endPoint\<rparr>"

section \<open>The agent and the DNS server\<close>

text \<open>Names that appear in a URL path as they are.\<close>

definition plain_char :: "char \<Rightarrow> bool" where
  "plain_char c \<longleftrightarrow> is_digit c \<or> c \<in> {CHR ''-'', CHR ''.'', CHR ''_''}
     \<or> 65 \<le> (of_char c :: nat) \<and> (of_char c :: nat) \<le> 90 \<or> 97 \<le> (of_char c :: nat) \<and> (of_char c :: nat) \<le> 122"

definition plain_segment :: "string \<Rightarrow> bool" where
  "plain_segment s \<longleftrightarrow> s \<noteq> [] \<and> s \<noteq> ''.'' \<and> s \<noteq> ''..'' \<and> list_all plain_char s"

text \<open>The DNS server behind the client, as its router sees the requests of the agent:
  the world holds the server's database, read by \<open>db_of\<close>.  A client that reaches
  the server at \<open>base\<close> hands the three requests to its handlers; a request with a body
  may be refused before, because the server limits a body to 4 KB
  (\<open>dns-server/mgmt/controller.go\<close>).\<close>

definition RequestEntityTooLarge :: nat where "RequestEntityTooLarge = 413"

locale dns_service =
  fixes client :: "'w http_client" and base :: string and B :: "'s bolt_ops" and db_of :: "'w \<Rightarrow> 's"
  assumes client_post: "client \<lparr>rq_Method = ''POST'', rq_URL = BuildDNSEndpoint base [''rrecord''] @ zone_query, rq_Body = BodyRR rr\<rparr> w
      = (Inr code, w') \<Longrightarrow> code = RequestEntityTooLarge \<and> db_of w' = db_of w \<or>
        (\<exists>m. mgmt_handle B (PostRR ''.'' (Some rr)) (db_of w) = (Inr (code, m), db_of w'))"
    and client_put: "plain_segment (rr_Name rr) \<Longrightarrow> plain_segment (rr_Type rr) \<Longrightarrow>
      client \<lparr>rq_Method = ''PUT'', rq_URL = BuildDNSEndpoint base [''rrecord'', rr_Name rr, rr_Type rr] @ zone_query,
        rq_Body = BodyRR rr\<rparr> w = (Inr code, w') \<Longrightarrow>
      code = RequestEntityTooLarge \<and> db_of w' = db_of w \<or>
      (\<exists>m. mgmt_handle B (PutRR ''.'' (rr_Name rr) (rr_Type rr) (Some rr)) (db_of w) = (Inr (code, m), db_of w'))"
    and client_delete: "plain_segment host \<Longrightarrow> plain_segment rrtype \<Longrightarrow>
      client \<lparr>rq_Method = ''DELETE'', rq_URL = BuildDNSEndpoint base [''rrecord'', host, rrtype] @ zone_query,
        rq_Body = BodyEmpty\<rparr> w = (Inr code, w') \<Longrightarrow>
      \<exists>m. mgmt_handle B (DeleteRR ''.'' host rrtype) (db_of w) = (Inr (code, m), db_of w')"
begin

lemma agent_do_ok: "agent_do client rq msg w = (None, w') \<Longrightarrow> \<exists>code. client rq w = (Inr code, w') \<and> IsHttpStatusOK code"
  by (auto simp: agent_do_def split: prod.splits sum.splits if_splits)

text \<open>The only success code of the handlers is 200, and a body that is too large is none.\<close>

lemma too_large: "\<not> IsHttpStatusOK RequestEntityTooLarge"
  by (simp add: IsHttpStatusOK_def RequestEntityTooLarge_def)

lemma handle_ok_200:
  "mgmt_handle B r s = (Inr (code, m), s') \<Longrightarrow> IsHttpStatusOK code \<Longrightarrow> code = StatusOK"
  by (cases r)
    (auto simp: handleAddResourceRecords_def handleSetResourceRecords_def handleDeleteResourceRecord_def
      handleHealthResult_def IsHttpStatusOK_def Let_def
      split: option.splits sum.splits if_splits prod.splits go_error.splits)

lemma agent_add_ok:
  assumes "AddResourceRecord client (Some base) host rrType c pointTo ttl w = (None, w')"
  shows "\<exists>m. handleAddResourceRecords B ''.''
      (Some \<lparr>rr_Name = agent_host host, rr_Type = rrType, rr_Class = c, rr_TTL = ttl, rr_RData = pointTo\<rparr>) (db_of w)
    = (Inr (StatusOK, m), db_of w')"
proof -
  from assms agent_do_ok obtain code where
    c: "client \<lparr>rq_Method = ''POST'', rq_URL = BuildDNSEndpoint base [''rrecord''] @ zone_query, rq_Body = BodyRR
      \<lparr>rr_Name = agent_host host, rr_Type = rrType, rr_Class = c, rr_TTL = ttl, rr_RData = pointTo\<rparr>\<rparr> w = (Inr code, w')"
    and ok: "IsHttpStatusOK code"
    by (fastforce simp: AddResourceRecord_def Let_def)
  have "code \<noteq> RequestEntityTooLarge" using ok too_large by blast
  with client_post [OF c] handle_ok_200 [OF _ ok] show ?thesis by fastforce
qed

lemma agent_delete_ok:
  assumes "DeleteResourceRecord client (Some base) host rrtype w = (None, w')"
    and "plain_segment (agent_host host)" and "plain_segment rrtype"
  shows "\<exists>m. handleDeleteResourceRecord B ''.'' (agent_host host) rrtype (db_of w) = (Inr (StatusOK, m), db_of w')"
proof -
  from assms(1) agent_do_ok obtain code where
    c: "client \<lparr>rq_Method = ''DELETE'', rq_URL = BuildDNSEndpoint base [''rrecord'', agent_host host, rrtype] @ zone_query,
      rq_Body = BodyEmpty\<rparr> w = (Inr code, w')" and ok: "IsHttpStatusOK code"
    by (fastforce simp: DeleteResourceRecord_def Let_def)
  from client_delete [OF assms(2,3) c] handle_ok_200 [OF _ ok] show ?thesis by fastforce
qed

lemma agent_set_ok:
  assumes "SetResourceRecord_agent client (Some base) host rrType c pointTo ttl w = (None, w')"
    and "plain_segment (agent_host host)" and "plain_segment rrType"
  shows "\<exists>m. handleSetResourceRecords B ''.'' (agent_host host) rrType
      (Some \<lparr>rr_Name = agent_host host, rr_Type = rrType, rr_Class = c, rr_TTL = ttl, rr_RData = pointTo\<rparr>) (db_of w)
    = (Inr (StatusOK, m), db_of w')"
proof -
  let ?rr = "\<lparr>rr_Name = agent_host host, rr_Type = rrType, rr_Class = c, rr_TTL = ttl, rr_RData = pointTo\<rparr>"
  from assms(1) agent_do_ok obtain code where
    "client \<lparr>rq_Method = ''PUT'', rq_URL = BuildDNSEndpoint base [''rrecord'', agent_host host, rrType] @ zone_query,
      rq_Body = BodyRR ?rr\<rparr> w = (Inr code, w')" and ok: "IsHttpStatusOK code"
    by (fastforce simp: SetResourceRecord_agent_def Let_def)
  moreover have "code \<noteq> RequestEntityTooLarge" using ok too_large by blast
  ultimately obtain m where
    "mgmt_handle B (PutRR ''.'' (agent_host host) rrType (Some ?rr)) (db_of w) = (Inr (code, m), db_of w')"
    using client_put [of ?rr w code w'] assms(2,3) by auto
  with handle_ok_200 [OF this ok] show ?thesis by auto
qed

end

section \<open>A client wired to the server\<close>

lemma plain_no_slash: "plain_segment s \<Longrightarrow> CHR ''/'' \<notin> set s \<and> CHR ''?'' \<notin> set s"
  by (auto simp: plain_segment_def list_all_iff plain_char_def is_digit_def)

lemma path_join_plain:
  assumes "plain_segment h" and "plain_segment t"
  shows "path_join [''rrecord'', h, t] = ''rrecord/'' @ h @ ''/'' @ t"
proof -
  have ne: "h \<noteq> []" "t \<noteq> []" using assms by (auto simp: plain_segment_def)
  have "split_on (CHR ''/'') (join ''/'' [''rrecord'', h, t]) = [''rrecord'', h, t]"
    by (rule split_on_join) (use plain_no_slash assms in auto)
  then show ?thesis
    using ne assms by (simp add: path_join_def path_clean_def plain_segment_def)
qed

text \<open>The router: the two path parameters of a record's URL.\<close>

definition url_params :: "string \<Rightarrow> string \<Rightarrow> (string \<times> string) option" where
  "url_params base url =
     (let pre = trim_right (CHR ''/'') base @ ''/rrecord/'' in
      if has_prefix url pre then
        (case split_on (CHR ''/'') (takeWhile (\<lambda>c. c \<noteq> CHR ''?'') (drop (length pre) url)) of
           [h, t] \<Rightarrow> Some (h, t) | _ \<Rightarrow> None)
      else None)"

lemma url_params_plain:
  assumes "plain_segment h" and "plain_segment t"
  shows "url_params base (BuildDNSEndpoint base [''rrecord'', h, t] @ zone_query) = Some (h, t)"
proof -
  define pre where "pre = trim_right (CHR ''/'') base @ ''/rrecord/''"
  have url: "BuildDNSEndpoint base [''rrecord'', h, t] @ zone_query = pre @ h @ ''/'' @ t @ zone_query"
    by (simp add: pre_def BuildDNSEndpoint_def JoinURL_def path_join_plain [OF assms] trim_left_def)
  have "takeWhile (\<lambda>c. c \<noteq> CHR ''?'') (h @ ''/'' @ t @ zone_query) = h @ ''/'' @ t"
    using plain_no_slash [OF assms(1)] plain_no_slash [OF assms(2)]
    by (subst append_assoc [symmetric], subst append_assoc [symmetric], subst takeWhile_append2)
      (auto simp: zone_query_def)
  moreover have "split_on (CHR ''/'') (h @ ''/'' @ t) = [h, t]"
    using plain_no_slash [OF assms(1)] plain_no_slash [OF assms(2)] by (simp add: split_on_append_sep split_on_free)
  ultimately show ?thesis unfolding url_params_def url Let_def pre_def [symmetric] by simp
qed

record dns_world = mem_world +
  dw_dns :: mem_bolt

definition serve_local :: "mgmt_request \<Rightarrow> dns_world \<Rightarrow> nat go_result \<times> dns_world" where
  "serve_local r w =
     (let (ans, s) = mgmt_handle (mem_bolt_ops False) r (dw_dns w) in
      (case ans of Inl e \<Rightarrow> Inl e | Inr (code, m) \<Rightarrow> Inr code, w\<lparr>dw_dns := s\<rparr>))"

definition local_client :: "string \<Rightarrow> dns_world http_client" where
  "local_client base rq w =
     (if rq_Method rq = ''POST'' then
        (case rq_Body rq of BodyRR rr \<Rightarrow> serve_local (PostRR ''.'' (Some rr)) w | _ \<Rightarrow> (Inl (Err ''no route''), w))
      else (case url_params base (rq_URL rq) of
              None \<Rightarrow> (Inl (Err ''no route''), w)
            | Some (h, t) \<Rightarrow>
                if rq_Method rq = ''PUT'' then
                  (case rq_Body rq of BodyRR rr \<Rightarrow> serve_local (PutRR ''.'' h t (Some rr)) w | _ \<Rightarrow> (Inl (Err ''no route''), w))
                else if rq_Method rq = ''DELETE'' then serve_local (DeleteRR ''.'' h t) w
                else (Inl (Err ''no route''), w)))"

lemma serve_local_ok:
  "serve_local r w = (Inr code, w') \<Longrightarrow> \<exists>m. mgmt_handle (mem_bolt_ops False) r (dw_dns w) = (Inr (code, m), dw_dns w')"
  by (auto simp: serve_local_def split: prod.splits sum.splits)

interpretation local_dns: dns_service "local_client base" base "mem_bolt_ops False" dw_dns
  by unfold_locales (auto simp: local_client_def url_params_plain dest: serve_local_ok)

end
