(* ===== verification/Appd_Sync.thy ===== *)
theory Appd_Sync
  imports Appd Dataplane
begin

text \<open>
  The asynchronous synchronisation of an application configuration with the data
  plane and the DNS server (\<open>mepserver/mm5/task\<close>): \<open>sync.go\<close> with the
  task, its two rule state machines, apply and revert, the final write of the
  configuration and the graceful termination; \<open>job_db.go\<close>,
  \<open>appd_config_db.go\<close> and \<open>taskstatus_db.go\<close>.  The task keeps the job,
  the stored configuration and the status in memory; a pointer to a rule is a
  reference into the job's or the configuration's list, since applying a rule with an
  empty state sets it to ACTIVE in place.  The data plane, the DNS agent, the registry,
  the notification request and what other processes do while the worker sleeps are the
  fields of \<open>sync_env\<close>.
\<close>

section \<open>The environment and the task\<close>

record 'w sync_env =
  se_R :: "'w registry"
  se_dataPlane :: "'w DataPlane"
  se_dnsAgent :: "'w DNSAgent"
  se_dnsType :: string
  se_iter :: "(string \<times> doc) list \<Rightarrow> (string \<times> doc) list"
  se_notify :: "string \<Rightarrow> string \<Rightarrow> string \<Rightarrow> 'w \<Rightarrow> go_error option \<times> 'w"
  se_sleep :: "'w \<Rightarrow> 'w"

record sync_task =
  sj_appName :: string
  sj_appInstanceId :: string
  sj_taskId :: string
  sj_job :: AppDConfig
  sj_config :: "AppDConfig option"
  sj_status :: TaskStatus

definition ActiveState :: string where "ActiveState = ''ACTIVE''"
definition InactiveState :: string where "InactiveState = ''INACTIVE''"
definition DnsAgentTypeLocal :: string where "DnsAgentTypeLocal = ''local''"
definition DnsAgentTypeDataPlane :: string where "DnsAgentTypeDataPlane = ''dataplane''"
definition IPv6Type :: string where "IPv6Type = ''IP_V6''"
definition TaskProgressFailure :: int where "TaskProgressFailure = -1"

definition nil_deref :: go_error where
  "nil_deref = Panic ''invalid memory address or nil pointer dereference''"

type_synonym 'w sync_op = "sync_task \<Rightarrow> 'w \<Rightarrow> go_error option \<times> sync_task \<times> 'w"

section \<open>The three records in the registry\<close>

definition newAppDJobDB :: "'w registry \<Rightarrow> string \<Rightarrow> 'w \<Rightarrow> AppDConfig option \<times> 'w" where
  "newAppDJobDB R appInstanceId w =
     (case GetRecord R (AppDLCMJobsPath @ appInstanceId) w of
        (Inl errCode, w) \<Rightarrow> (None, w)
      | (Inr jobsEntry, w) \<Rightarrow> (unmarshal_appd jobsEntry, w))"

definition job_deleteEntry :: "'w registry \<Rightarrow> string \<Rightarrow> 'w \<Rightarrow> go_error option \<times> 'w" where
  "job_deleteEntry R appInstanceId w =
     (let (errCode, w) = DeleteRecord R (AppDLCMJobsPath @ appInstanceId) w in
      if errCode \<noteq> 0 then (Some (Err ''error: delete entry failed''), w) else (None, w))"

definition newAppDConfigDB :: "'w registry \<Rightarrow> string \<Rightarrow> 'w \<Rightarrow> AppDConfig option \<times> 'w" where
  "newAppDConfigDB R appInstanceId w =
     (case GetRecord R (AppDConfigKeyPath @ appInstanceId) w of
        (Inl errCode, w) \<Rightarrow> (None, w)
      | (Inr appDConfigEntry, w) \<Rightarrow> (unmarshal_appd appDConfigEntry, w))"

definition GetDnsRule :: "AppDConfig \<Rightarrow> string \<Rightarrow> DNSRule option" where
  "GetDnsRule appDConfig ruleId = find (\<lambda>rule. ruleId = dr_DNSRuleID rule) (ac_AppDNSRule appDConfig)"

definition GetTrafficRule :: "AppDConfig \<Rightarrow> string \<Rightarrow> TrafficRule option" where
  "GetTrafficRule appDConfig ruleId = find (\<lambda>rule. ruleId = tr_TrafficRuleID rule) (ac_AppTrafficRule appDConfig)"

definition newStatusDB :: "'w registry \<Rightarrow> string \<Rightarrow> string \<Rightarrow> 'w \<Rightarrow> TaskStatus option \<times> 'w" where
  "newStatusDB R appInstanceId taskId w =
     (case GetRecord R (AppDLCMTaskStatusPath @ appInstanceId @ ''/'' @ taskId) w of
        (Inl errCode, w) \<Rightarrow> (None, w)
      | (Inr statusEntry, w) \<Rightarrow> (unmarshal_status statusEntry, w))"

fun searchRule :: "RuleStatus list \<Rightarrow> string \<Rightarrow> nat option" where
  "searchRule [] ruleId = None"
| "searchRule (rule # ruleList) ruleId =
     (if rs_Id rule = ruleId then Some 0 else map_option Suc (searchRule ruleList ruleId))"

definition pushDB :: "'w registry \<Rightarrow> 'w sync_op" where
  "pushDB R t w =
     (let (errCode, w) = PutRecord R (AppDLCMTaskStatusPath @ sj_appInstanceId t @ ''/'' @ sj_taskId t)
            (DocStatus (sj_status t)) w in
      if errCode \<noteq> 0 then (Some (Err ''error: update task statusDb on cache failed''), t, w) else (None, t, w))"

text \<open>Which of the two status lists is meant.\<close>

datatype AppDRuleType = RuleTypeDns | RuleTypeTraffic

fun status_list :: "AppDRuleType \<Rightarrow> TaskStatus \<Rightarrow> RuleStatus list" where
  "status_list RuleTypeDns s = ts_DNSRuleStatusLst s"
| "status_list RuleTypeTraffic s = ts_TrafficRuleStatusLst s"

fun set_status_list :: "AppDRuleType \<Rightarrow> RuleStatus list \<Rightarrow> TaskStatus \<Rightarrow> TaskStatus" where
  "set_status_list RuleTypeDns l s = s\<lparr>ts_DNSRuleStatusLst := l\<rparr>"
| "set_status_list RuleTypeTraffic l s = s\<lparr>ts_TrafficRuleStatusLst := l\<rparr>"

definition set_rule_state :: "AppDRuleType \<Rightarrow> nat \<Rightarrow> nat \<Rightarrow> TaskStatus \<Rightarrow> TaskStatus" where
  "set_rule_state ruleType i state s =
     set_status_list ruleType ((status_list ruleType s)[i := (status_list ruleType s ! i)\<lparr>rs_State := state\<rparr>]) s"

definition setStateAndProgress :: "'w registry \<Rightarrow> AppDRuleType \<Rightarrow> string \<Rightarrow> nat \<Rightarrow> 'w sync_op" where
  "setStateAndProgress R ruleType ruleId state t w =
     (case searchRule (status_list ruleType (sj_status t)) ruleId of
        None \<Rightarrow> (Some (Err (case ruleType of
                    RuleTypeDns \<Rightarrow> ''error: could not find the dns rule specified''
                  | RuleTypeTraffic \<Rightarrow> ''error: could not find the traffic rule specified'')), t, w)
      | Some ruleIndex \<Rightarrow>
          let s0 = sj_status t;
              s1 = set_rule_state ruleType ruleIndex state s0;
              s2 = (if state = WaitConfigDBWrite then s1\<lparr>ts_Progress := ts_Progress s1 + 1\<rparr> else s1);
              (err, t, w) = pushDB R (t\<lparr>sj_status := s2\<rparr>) w in
          if err \<noteq> None then (err, t\<lparr>sj_status := s0\<rparr>, w) else (None, t, w))"

definition setFailureReason :: "string \<Rightarrow> sync_task \<Rightarrow> sync_task" where
  "setFailureReason reason t =
     (if length (ts_Details (sj_status t)) = 0 then t\<lparr>sj_status := (sj_status t)\<lparr>ts_Details := reason\<rparr>\<rparr> else t)"

section \<open>Rule maps\<close>

text \<open>A pointer to a rule: in the job's list (true) or the configuration's, by
  position.\<close>

type_synonym rule_ref = "bool \<times> nat"

definition generateRuleMap ::
  "('r \<Rightarrow> string) \<Rightarrow> bool \<Rightarrow> 'r list \<Rightarrow> 'r list \<Rightarrow> (string \<times> rule_ref) list \<times> (string \<times> rule_ref) list" where
  "generateRuleMap rid primaryIsJob primaryRuleList secondaryRuleList =
     (let newMap = fold (\<lambda>(i, r). al_put (rid r) (primaryIsJob, i)) (enumerate 0 primaryRuleList) [];
          newMap = fold (\<lambda>(i, r) m. if map_of m (rid r) = None then al_put (rid r) (\<not> primaryIsJob, i) m else m)
            (enumerate 0 secondaryRuleList) newMap;
          oldMap = fold (\<lambda>(i, r). al_put (rid r) (\<not> primaryIsJob, i)) (enumerate 0 secondaryRuleList) []
      in (newMap, oldMap))"

datatype FuncType = ApplyFunc | RevertFunc

definition config_dns :: "sync_task \<Rightarrow> DNSRule list" where
  "config_dns t = (case sj_config t of None \<Rightarrow> [] | Some c \<Rightarrow> ac_AppDNSRule c)"

definition config_traffic :: "sync_task \<Rightarrow> TrafficRule list" where
  "config_traffic t = (case sj_config t of None \<Rightarrow> [] | Some c \<Rightarrow> ac_AppTrafficRule c)"

definition generateDnsRuleMap :: "FuncType \<Rightarrow> sync_task \<Rightarrow> (string \<times> rule_ref) list \<times> (string \<times> rule_ref) list" where
  "generateDnsRuleMap funcType t =
     (if funcType = ApplyFunc then generateRuleMap dr_DNSRuleID True (ac_AppDNSRule (sj_job t)) (config_dns t)
      else generateRuleMap dr_DNSRuleID False (config_dns t) (ac_AppDNSRule (sj_job t)))"

definition generateTrafficRuleMap :: "FuncType \<Rightarrow> sync_task \<Rightarrow> (string \<times> rule_ref) list \<times> (string \<times> rule_ref) list" where
  "generateTrafficRuleMap funcType t =
     (if funcType = ApplyFunc
      then generateRuleMap tr_TrafficRuleID True (ac_AppTrafficRule (sj_job t)) (config_traffic t)
      else generateRuleMap tr_TrafficRuleID False (config_traffic t) (ac_AppTrafficRule (sj_job t)))"

text \<open>Reading through a pointer, and the default state ACTIVE set through it.\<close>

definition dns_at :: "sync_task \<Rightarrow> rule_ref \<Rightarrow> DNSRule" where
  "dns_at t r = (if fst r then ac_AppDNSRule (sj_job t) else config_dns t) ! snd r"

definition activate_dns :: "rule_ref \<Rightarrow> sync_task \<Rightarrow> sync_task" where
  "activate_dns r t =
     (if dr_State (dns_at t r) \<noteq> [] then t
      else let upd = (\<lambda>c. c\<lparr>ac_AppDNSRule := (ac_AppDNSRule c)[snd r := (dns_at t r)\<lparr>dr_State := ActiveState\<rparr>]\<rparr>) in
        if fst r then t\<lparr>sj_job := upd (sj_job t)\<rparr> else t\<lparr>sj_config := map_option upd (sj_config t)\<rparr>)"

definition traffic_at :: "sync_task \<Rightarrow> rule_ref \<Rightarrow> TrafficRule" where
  "traffic_at t r = (if fst r then ac_AppTrafficRule (sj_job t) else config_traffic t) ! snd r"

definition activate_traffic :: "rule_ref \<Rightarrow> sync_task \<Rightarrow> sync_task" where
  "activate_traffic r t =
     (if tr_State (traffic_at t r) \<noteq> [] then t
      else let upd = (\<lambda>c. c\<lparr>ac_AppTrafficRule := (ac_AppTrafficRule c)[snd r := (traffic_at t r)\<lparr>tr_State := ActiveState\<rparr>]\<rparr>) in
        if fst r then t\<lparr>sj_job := upd (sj_job t)\<rparr> else t\<lparr>sj_config := map_option upd (sj_config t)\<rparr>)"

section \<open>Operations on one rule\<close>

text \<open>Each takes the rule id and the pointers to the new and the existing rule, which
  may be nil.  The nil test of the source on the existing rule is on an interface that
  holds a typed pointer, so it never holds, and a nil pointer is dereferenced.\<close>

type_synonym 'w rule_fun = "string \<Rightarrow> rule_ref option \<Rightarrow> rule_ref option \<Rightarrow> 'w sync_op"

definition app_info :: "sync_task \<Rightarrow> ApplicationInfo" where
  "app_info t = \<lparr>ai_Id = sj_appInstanceId t, ai_Name = sj_appName t\<rparr>"

definition lift_op :: "sync_task \<Rightarrow> go_error option \<times> 'w \<Rightarrow> go_error option \<times> sync_task \<times> 'w" where
  "lift_op t r = (fst r, t, snd r)"

definition addDNSOnMp2 :: "'w sync_env \<Rightarrow> 'w rule_fun" where
  "addDNSOnMp2 E ruleId newRule existingRule t w =
     (case newRule of
        None \<Rightarrow> (Some nil_deref, t, w)
      | Some n \<Rightarrow>
          let t = activate_dns n t; dnsRule = dns_at t n in
          if dr_State dnsRule \<noteq> ActiveState then (None, t, w)
          else lift_op t (dp_AddDNSRule (se_dataPlane E) (app_info t) ruleId (dr_DomainName dnsRule)
                 (dr_IPAddressType dnsRule) (dr_IPAddress dnsRule) (dr_TTL dnsRule) w))"

definition setDNSOnMp2 :: "'w sync_env \<Rightarrow> 'w rule_fun" where
  "setDNSOnMp2 E ruleId newRule existingRule t w =
     (case (newRule, existingRule) of
        (Some n, Some x) \<Rightarrow>
          let t = activate_dns x (activate_dns n t); dnsRule = dns_at t n; dnsExistingRule = dns_at t x in
          if dr_State dnsExistingRule = InactiveState \<and> dr_State dnsRule = ActiveState
          then lift_op t (dp_AddDNSRule (se_dataPlane E) (app_info t) ruleId (dr_DomainName dnsRule)
                 (dr_IPAddressType dnsRule) (dr_IPAddress dnsRule) (dr_TTL dnsRule) w)
          else if dr_State dnsExistingRule = ActiveState \<and> dr_State dnsRule = InactiveState
          then lift_op t (dp_DeleteDNSRule (se_dataPlane E) (app_info t) ruleId w)
          else lift_op t (dp_SetDNSRule (se_dataPlane E) (app_info t) ruleId (dr_DomainName dnsRule)
                 (dr_IPAddressType dnsRule) (dr_IPAddress dnsRule) (dr_TTL dnsRule) w)
      | (Some n, None) \<Rightarrow> (Some nil_deref, activate_dns n t, w)
      | (None, _) \<Rightarrow> (Some nil_deref, t, w))"

definition deleteDNSOnMp2 :: "'w sync_env \<Rightarrow> 'w rule_fun" where
  "deleteDNSOnMp2 E ruleId newRule existingRule t w =
     (case existingRule of
        None \<Rightarrow> (Some nil_deref, t, w)
      | Some x \<Rightarrow>
          let t = activate_dns x t in
          if dr_State (dns_at t x) = InactiveState then (None, t, w)
          else lift_op t (dp_DeleteDNSRule (se_dataPlane E) (app_info t) ruleId w))"

definition rr_type_of :: "DNSRule \<Rightarrow> string" where
  "rr_type_of dnsRule = (if dr_IPAddressType dnsRule = IPv6Type then ''AAAA'' else ''A'')"

definition addDNSOnLocalDns :: "'w sync_env \<Rightarrow> 'w rule_fun" where
  "addDNSOnLocalDns E ruleId newRule existingRule t w =
     (case newRule of
        None \<Rightarrow> (Some nil_deref, t, w)
      | Some n \<Rightarrow>
          let t = activate_dns n t; dnsRule = dns_at t n in
          if dr_State dnsRule \<noteq> ActiveState then (None, t, w)
          else lift_op t (da_AddResourceRecord (se_dnsAgent E) (dr_DomainName dnsRule) (rr_type_of dnsRule) ''IN''
                 [dr_IPAddress dnsRule] (dr_TTL dnsRule) w))"

definition setDNSOnLocalDns :: "'w sync_env \<Rightarrow> 'w rule_fun" where
  "setDNSOnLocalDns E ruleId newRule existingRule t w =
     (case (newRule, existingRule) of
        (Some n, Some x) \<Rightarrow>
          let t = activate_dns x (activate_dns n t); dnsRule = dns_at t n; dnsExistingRule = dns_at t x in
          if dr_State dnsExistingRule = InactiveState \<and> dr_State dnsRule = ActiveState
          then lift_op t (da_AddResourceRecord (se_dnsAgent E) (dr_DomainName dnsRule) (rr_type_of dnsRule) ''IN''
                 [dr_IPAddress dnsRule] (dr_TTL dnsRule) w)
          else if dr_State dnsExistingRule = ActiveState \<and> dr_State dnsRule = InactiveState
          then lift_op t (da_DeleteResourceRecord (se_dnsAgent E) (dr_DomainName dnsRule) (rr_type_of dnsRule) w)
          else lift_op t (da_SetResourceRecord (se_dnsAgent E) (dr_DomainName dnsRule) (rr_type_of dnsRule) ''IN''
                 [dr_IPAddress dnsRule] (dr_TTL dnsRule) w)
      | (Some n, None) \<Rightarrow> (Some nil_deref, activate_dns n t, w)
      | (None, _) \<Rightarrow> (Some nil_deref, t, w))"

definition deleteDNSOnLocalDns :: "'w sync_env \<Rightarrow> 'w rule_fun" where
  "deleteDNSOnLocalDns E ruleId newRule existingRule t w =
     (case existingRule of
        None \<Rightarrow> (Some nil_deref, t, w)
      | Some x \<Rightarrow>
          let t = activate_dns x t in
          if dr_State (dns_at t x) = InactiveState then (None, t, w)
          else (case newRule of
                  None \<Rightarrow> (Some nil_deref, t, w)
                | Some n \<Rightarrow>
                    let dnsRule = dns_at t n in
                    lift_op t (da_DeleteResourceRecord (se_dnsAgent E) (dr_DomainName dnsRule) (rr_type_of dnsRule) w)))"

definition addTrafficOnMp2 :: "'w sync_env \<Rightarrow> 'w rule_fun" where
  "addTrafficOnMp2 E ruleId newRule existingRule t w =
     (case newRule of
        None \<Rightarrow> (Some nil_deref, t, w)
      | Some n \<Rightarrow>
          let t = activate_traffic n t; trRule = traffic_at t n in
          if tr_State trRule \<noteq> ActiveState then (None, t, w)
          else lift_op t (dp_AddTrafficRule (se_dataPlane E) (app_info t) ruleId (tr_FilterType trRule) (tr_Action trRule)
                 (tr_Priority trRule) (tr_TrafficFilter trRule) w))"

definition setTrafficOnMp2 :: "'w sync_env \<Rightarrow> 'w rule_fun" where
  "setTrafficOnMp2 E ruleId newRule existingRule t w =
     (case (newRule, existingRule) of
        (Some n, Some x) \<Rightarrow>
          let t = activate_traffic x (activate_traffic n t); trRule = traffic_at t n; trExistingRule = traffic_at t x in
          if tr_State trExistingRule = InactiveState \<and> tr_State trRule = ActiveState
          then lift_op t (dp_AddTrafficRule (se_dataPlane E) (app_info t) ruleId (tr_FilterType trRule) (tr_Action trRule)
                 (tr_Priority trRule) (tr_TrafficFilter trRule) w)
          else if tr_State trExistingRule = ActiveState \<and> tr_State trRule = InactiveState
          then lift_op t (dp_DeleteTrafficRule (se_dataPlane E) (app_info t) ruleId w)
          else lift_op t (dp_SetTrafficRule (se_dataPlane E) (app_info t) ruleId (tr_FilterType trRule) (tr_Action trRule)
                 (tr_Priority trRule) (tr_TrafficFilter trRule) w)
      | (Some n, None) \<Rightarrow> (Some nil_deref, activate_traffic n t, w)
      | (None, _) \<Rightarrow> (Some nil_deref, t, w))"

definition deleteTrafficOnMp2 :: "'w sync_env \<Rightarrow> 'w rule_fun" where
  "deleteTrafficOnMp2 E ruleId newRule existingRule t w =
     (case existingRule of
        None \<Rightarrow> (Some nil_deref, t, w)
      | Some x \<Rightarrow>
          let t = activate_traffic x t in
          if tr_State (traffic_at t x) = InactiveState then (None, t, w)
          else lift_op t (dp_DeleteTrafficRule (se_dataPlane E) (app_info t) ruleId w))"

section \<open>The rule state machines\<close>

text \<open>The apply and the revert function of an operation in a state; an entry that
  the configured kind of DNS agent clears, or that the traffic table does not have, is
  nil.\<close>

definition dnsStateMachine :: "'w sync_env \<Rightarrow> OperType \<Rightarrow> nat \<Rightarrow> ('w rule_fun \<times> 'w rule_fun) option" where
  "dnsStateMachine E meth state =
     (if state = WaitMp2 then
        (if se_dnsType E = DnsAgentTypeLocal then None
         else Some (case meth of
            OperCreate \<Rightarrow> (addDNSOnMp2 E, deleteDNSOnMp2 E)
          | OperModify \<Rightarrow> (setDNSOnMp2 E, setDNSOnMp2 E)
          | OperDelete \<Rightarrow> (deleteDNSOnMp2 E, addDNSOnMp2 E)))
      else if state = WaitLocal then
        (if se_dnsType E = DnsAgentTypeDataPlane then None
         else Some (case meth of
            OperCreate \<Rightarrow> (addDNSOnLocalDns E, deleteDNSOnLocalDns E)
          | OperModify \<Rightarrow> (setDNSOnLocalDns E, setDNSOnLocalDns E)
          | OperDelete \<Rightarrow> (deleteDNSOnLocalDns E, addDNSOnLocalDns E)))
      else None)"

definition trfStateMachine :: "'w sync_env \<Rightarrow> OperType \<Rightarrow> nat \<Rightarrow> ('w rule_fun \<times> 'w rule_fun) option" where
  "trfStateMachine E meth state =
     (if state = WaitMp2 then
        Some (case meth of
            OperCreate \<Rightarrow> (addTrafficOnMp2 E, deleteTrafficOnMp2 E)
          | OperModify \<Rightarrow> (setTrafficOnMp2 E, setTrafficOnMp2 E)
          | OperDelete \<Rightarrow> (deleteTrafficOnMp2 E, addTrafficOnMp2 E))
      else None)"

fun state_machine :: "'w sync_env \<Rightarrow> AppDRuleType \<Rightarrow> OperType \<Rightarrow> nat \<Rightarrow> ('w rule_fun \<times> 'w rule_fun) option" where
  "state_machine E RuleTypeDns = dnsStateMachine E"
| "state_machine E RuleTypeTraffic = trfStateMachine E"

text \<open>The messages of the two copies of the loops.\<close>

fun fail_message :: "AppDRuleType \<Rightarrow> FuncType \<Rightarrow> bool \<Rightarrow> string" where
  "fail_message RuleTypeDns ApplyFunc False = ''Failed in configuring dns rule on remote dns-server/data-plane.''"
| "fail_message RuleTypeDns ApplyFunc True = ''Failed in setting status for dns rule.''"
| "fail_message RuleTypeDns RevertFunc False = ''Failed in reverting dns rule on remote dns-server/data-plane.''"
| "fail_message RuleTypeDns RevertFunc True = ''Failed in setting status for dns rule revert.''"
| "fail_message RuleTypeTraffic ApplyFunc False = ''Failed in configuring traffic rule on remote data-plane.''"
| "fail_message RuleTypeTraffic ApplyFunc True = ''Failed in setting status for traffic rule.''"
| "fail_message RuleTypeTraffic RevertFunc False = ''Failed in reverting traffic rule on remote data-plane.''"
| "fail_message RuleTypeTraffic RevertFunc True = ''Failed in setting status for traffic rule revert.''"

text \<open>An error is noted in the status; a panic unwinds without that.\<close>

definition note_error :: "string \<Rightarrow> go_error \<Rightarrow> sync_task \<Rightarrow> 'w \<Rightarrow> go_error option \<times> sync_task \<times> 'w" where
  "note_error msg e t w = (case e of Panic p \<Rightarrow> (Some e, t, w) | _ \<Rightarrow> (Some e, setFailureReason msg t, w))"

text \<open>The loop of \<open>processDNSEntryApply\<close> and \<open>processTrfEntryApply\<close>
  over the states it is given.\<close>

fun apply_states ::
  "'w sync_env \<Rightarrow> AppDRuleType \<Rightarrow> RuleStatus \<Rightarrow> rule_ref option \<Rightarrow> rule_ref option \<Rightarrow> nat list \<Rightarrow> 'w sync_op" where
  "apply_states E ruleType rs new old [] t w = (None, t, w)"
| "apply_states E ruleType rs new old (state # states) t w =
     (if state < rs_State rs then apply_states E ruleType rs new old states t w
      else
        let (err, t, w) = (case state_machine E ruleType (rs_Method rs) state of
              None \<Rightarrow> (None, t, w)
            | Some (apply_fun, revert_fun) \<Rightarrow> apply_fun (rs_Id rs) new old t w) in
        (case err of
           Some e \<Rightarrow> note_error (fail_message ruleType ApplyFunc False) e t w
         | None \<Rightarrow>
             let (err, t, w) = setStateAndProgress (se_R E) ruleType (rs_Id rs) (state + 1) t w in
             (case err of
                Some e \<Rightarrow> note_error (fail_message ruleType ApplyFunc True) e t w
              | None \<Rightarrow> apply_states E ruleType rs new old states t w)))"

definition processEntryApply ::
  "'w sync_env \<Rightarrow> AppDRuleType \<Rightarrow> rule_ref option \<Rightarrow> rule_ref option \<Rightarrow> RuleStatus \<Rightarrow> 'w sync_op" where
  "processEntryApply E ruleType new old ruleStatus =
     apply_states E ruleType ruleStatus new old [WaitMp2..<WaitConfigDBWrite]"

text \<open>The loop of \<open>processDNSEntryRevert\<close> and \<open>processTrfEntryRevert\<close>:
  downwards, from the state before the one that failed.\<close>

fun revert_states ::
  "'w sync_env \<Rightarrow> AppDRuleType \<Rightarrow> RuleStatus \<Rightarrow> rule_ref option \<Rightarrow> rule_ref option \<Rightarrow> nat list \<Rightarrow> 'w sync_op" where
  "revert_states E ruleType rs new old [] t w = (None, t, w)"
| "revert_states E ruleType rs new old (state # states) t w =
     (if rs_State rs \<le> state then revert_states E ruleType rs new old states t w
      else
        let (err, t, w) = (case state_machine E ruleType (rs_Method rs) state of
              None \<Rightarrow> (None, t, w)
            | Some (apply_fun, revert_fun) \<Rightarrow> revert_fun (rs_Id rs) new old t w) in
        (case err of
           Some e \<Rightarrow> note_error (fail_message ruleType RevertFunc False) e t w
         | None \<Rightarrow>
             if state = WaitMp2 then (None, t, w)
             else
               let (err, t, w) = setStateAndProgress (se_R E) ruleType (rs_Id rs) (state - 1) t w in
               (case err of
                  Some e \<Rightarrow> note_error (fail_message ruleType RevertFunc True) e t w
                | None \<Rightarrow> revert_states E ruleType rs new old states t w)))"

definition processEntryRevert ::
  "'w sync_env \<Rightarrow> AppDRuleType \<Rightarrow> rule_ref option \<Rightarrow> rule_ref option \<Rightarrow> RuleStatus \<Rightarrow> 'w sync_op" where
  "processEntryRevert E ruleType new old ruleStatus =
     revert_states E ruleType ruleStatus new old (rev [WaitMp2..<WaitConfigDBWrite])"

text \<open>\<open>handleDNSRules\<close> and \<open>handleTrafficRules\<close>: the entries of the
  status list in order, each read when its turn comes.\<close>

fun rules_loop ::
  "'w sync_env \<Rightarrow> AppDRuleType \<Rightarrow> FuncType \<Rightarrow> (string \<times> rule_ref) list \<Rightarrow> (string \<times> rule_ref) list \<Rightarrow> nat list \<Rightarrow> 'w sync_op" where
  "rules_loop E ruleType funcType newMap oldMap [] t w = (None, t, w)"
| "rules_loop E ruleType funcType newMap oldMap (i # is) t w =
     (let rs = status_list ruleType (sj_status t) ! i;
          new = map_of newMap (rs_Id rs); old = map_of oldMap (rs_Id rs);
          (err, t, w) = (if funcType = RevertFunc then processEntryRevert E ruleType new old rs t w
                         else processEntryApply E ruleType new old rs t w) in
      (case err of
         Some e \<Rightarrow> note_error ''Internal error(invalid function type).'' e t w
       | None \<Rightarrow> rules_loop E ruleType funcType newMap oldMap is t w))"

definition handleDNSRules :: "'w sync_env \<Rightarrow> FuncType \<Rightarrow> 'w sync_op" where
  "handleDNSRules E funcType t w =
     (let (newMap, oldMap) = generateDnsRuleMap funcType t in
      rules_loop E RuleTypeDns funcType newMap oldMap [0..<length (ts_DNSRuleStatusLst (sj_status t))] t w)"

definition handleTrafficRules :: "'w sync_env \<Rightarrow> FuncType \<Rightarrow> 'w sync_op" where
  "handleTrafficRules E funcType t w =
     (let (newMap, oldMap) = generateTrafficRuleMap funcType t in
      rules_loop E RuleTypeTraffic funcType newMap oldMap [0..<length (ts_TrafficRuleStatusLst (sj_status t))] t w)"

section \<open>Completion\<close>

text \<open>\<open>handleConfigDBWriteOnSuccess\<close>.  When the registry write fails the source
  returns the variable \<open>err\<close>, which is nil at that point.\<close>

definition handleConfigDBWriteOnSuccess :: "'w sync_env \<Rightarrow> 'w sync_op" where
  "handleConfigDBWriteOnSuccess E t w =
     (case find (\<lambda>rs. rs_State rs \<noteq> WaitConfigDBWrite) (ts_DNSRuleStatusLst (sj_status t)) of
        Some rs \<Rightarrow> (Some (Err (''invalid state for dns rule('' @ rs_Id rs @ '')'')),
                     setFailureReason ''Internal error(invalid dns rule state).'' t, w)
      | None \<Rightarrow>
          (case find (\<lambda>rs. rs_State rs \<noteq> WaitConfigDBWrite) (ts_TrafficRuleStatusLst (sj_status t)) of
             Some rs \<Rightarrow> (Some (Err (''invalid state for traffic rule('' @ rs_Id rs @ '')'')),
                          setFailureReason ''Internal error(invalid traffic rule state).'' t, w)
           | None \<Rightarrow>
               let operation = ac_Operation (sj_job t);
                   t = t\<lparr>sj_job := (sj_job t)\<lparr>ac_Operation := []\<rparr>\<rparr>;
                   path = AppDConfigKeyPath @ sj_appInstanceId t;
                   (errCode, w) =
                     (if operation = MethodPost \<or> operation = MethodPut then PutRecord (se_R E) path (DocAppD (sj_job t)) w
                      else if operation = MethodDelete then DeleteRecord (se_R E) path w
                      else (0, w)) in
               if errCode \<noteq> 0
               then (None, setFailureReason ''Internal error(failed to write appdconfig db).'' t, w)
               else (None, t, w)))"

definition cleanProcessingCache :: "'w sync_env \<Rightarrow> string \<Rightarrow> 'w \<Rightarrow> go_error option \<times> 'w" where
  "cleanProcessingCache E appInstanceId w =
     (let (errCode, w) = DeletePaths (se_R E) [AppDLCMJobsPath @ appInstanceId] False w in
      if errCode \<noteq> 0 then (Some (Err ''delete paths returned error''), w) else (None, w))"

definition handleErrorOnProcessing :: "'w sync_env \<Rightarrow> 'w sync_op" where
  "handleErrorOnProcessing E t w =
     (case handleDNSRules E RevertFunc t w of
        (Some e, t, w) \<Rightarrow> (Some e, t, w)
      | (None, t, w) \<Rightarrow>
          (case handleTrafficRules E RevertFunc t w of
             (Some e, t, w) \<Rightarrow> (Some e, t, w)
           | (None, t, w) \<Rightarrow>
               (case pushDB (se_R E) (t\<lparr>sj_status := (sj_status t)\<lparr>ts_Progress := TaskProgressFailure\<rparr>\<rparr>) w of
                  (Some e, t, w) \<Rightarrow> (Some e, t, w)
                | (None, t, w) \<Rightarrow> lift_op t (cleanProcessingCache E (sj_appInstanceId t) w))))"

section \<open>Graceful termination\<close>

definition AppTerminationTimeout :: nat where "AppTerminationTimeout = 50"

definition writeConfirmTerminateToDb :: "'w sync_env \<Rightarrow> string \<Rightarrow> 'w \<Rightarrow> 'w" where
  "writeConfirmTerminateToDb E appInstanceId w =
     snd (PutRecord (se_R E) (AppConfirmTerminationPath @ appInstanceId @ ''/'')
       (DocConfirm \<lparr>ctr_OperationAction = ''TERMINATING'', ctr_TerminationStatus = TerminationInProgress\<rparr>) w)"

text \<open>The wait for the application's confirmation: \<open>n\<close> more polls, with a sleep
  after each.\<close>

fun handleResponseFromAppInstance :: "'w sync_env \<Rightarrow> string \<Rightarrow> nat \<Rightarrow> 'w \<Rightarrow> go_error option \<times> 'w" where
  "handleResponseFromAppInstance E appInstanceId 0 w = (None, w)"
| "handleResponseFromAppInstance E appInstanceId (Suc n) w =
     (case GetRecord (se_R E) (AppConfirmTerminationPath @ appInstanceId @ ''/'') w of
        (Inl errCode, w) \<Rightarrow> (Some (Err ''get confirm termination from etcd failed''), w)
      | (Inr resp, w) \<Rightarrow>
          (case unmarshal_confirm resp of
             None \<Rightarrow> (Some (Err ''confirm unmarshal parsed failed''), w)
           | Some confirm \<Rightarrow>
               if ctr_TerminationStatus confirm = TerminationFinish then (None, w)
               else handleResponseFromAppInstance E appInstanceId n (se_sleep E w)))"

definition handleTerminationNotification :: "'w sync_env \<Rightarrow> string \<Rightarrow> 'w \<Rightarrow> go_error option \<times> 'w" where
  "handleTerminationNotification E appInstanceId w =
     (let ((_, sub), w) = AppTerminationIsSubscribed (se_R E) (se_iter E) appInstanceId w in
      case sub of
        None \<Rightarrow> (Some nil_deref, w)
      | Some s \<Rightarrow>
          (case se_notify E (sub_CallbackReference s) (sub_SubscriptionId s) appInstanceId w of
             (Some err, w) \<Rightarrow> (None, w)
           | (None, w) \<Rightarrow>
               let w = writeConfirmTerminateToDb E appInstanceId w;
                   (_, w) = handleResponseFromAppInstance E appInstanceId AppTerminationTimeout w;
                   (errCode, w) = DeleteRecord (se_R E) (AppConfirmTerminationPath @ appInstanceId @ ''/'') w in
               if errCode \<noteq> 0 then (Some (Err ''delete confirm termination from etcd failed''), w)
               else let (errCode, w) = DeleteRecord (se_R E)
                          (GetSubscribeKeyPath AppTerminationNotificationSubscription @ appInstanceId @ ''/'') w in
                 if errCode \<noteq> 0 then (Some (Err ''delete termination notification subscription from etcd failed''), w)
                 else let (errCode, w) = DeleteRecord (se_R E)
                            (GetSubscribeKeyPath SerAvailabilityNotificationSubscription @ appInstanceId @ ''/'') w in
                   if errCode \<noteq> 0 then (Some (Err ''availability subscription  from etcd failed''), w)
                   else (None, w)))"

text \<open>\<open>handleAppTermination\<close>: whether there is no configuration, or a panic.\<close>

definition handleAppTermination :: "'w sync_env \<Rightarrow> string \<Rightarrow> string \<Rightarrow> 'w \<Rightarrow> bool go_result \<times> 'w" where
  "handleAppTermination E appInstanceId taskId w =
     (let (taskStatus, w) = newStatusDB (se_R E) appInstanceId taskId w;
          isTerminate = (case taskStatus of None \<Rightarrow> False | Some s \<Rightarrow> ts_TerminationStatus s = TerminationInProgress);
          (err, w) = (if isTerminate then handleTerminationNotification E appInstanceId w else (None, w)) in
      case err of
        Some (Panic p) \<Rightarrow> (Inl (Panic p), w)
      | _ \<Rightarrow>
          let (created, w) = IsAppInstanceAlreadyCreated (se_R E) appInstanceId w in
          if \<not> created \<and> isTerminate then (Inr True, snd (cleanProcessingCache E [] w))
          else (Inr False, w))"

section \<open>The worker\<close>

definition newTask :: "'w sync_env \<Rightarrow> string \<Rightarrow> string \<Rightarrow> string \<Rightarrow> 'w \<Rightarrow> sync_task option \<times> 'w" where
  "newTask E appName appInstanceId taskId w =
     (case newAppDJobDB (se_R E) appInstanceId w of
        (None, w) \<Rightarrow> (None, w)
      | (Some jobConfig, w) \<Rightarrow>
          let (appDConfig, w) = newAppDConfigDB (se_R E) appInstanceId w in
          (case newStatusDB (se_R E) appInstanceId taskId w of
             (None, w) \<Rightarrow> (None, snd (job_deleteEntry (se_R E) appInstanceId w))
           | (Some taskStatus, w) \<Rightarrow>
               (Some \<lparr>sj_appName = appName, sj_appInstanceId = appInstanceId, sj_taskId = taskId,
                      sj_job = jobConfig, sj_config = appDConfig, sj_status = taskStatus\<rparr>, w)))"

text \<open>The three stages and the handling of an error of one of them: the reason is
  noted, and the rules are reverted.\<close>

definition sync_stages :: "'w sync_env \<Rightarrow> 'w sync_op" where
  "sync_stages E t w =
     (case handleDNSRules E ApplyFunc t w of
        (Some e, t, w) \<Rightarrow> note_error ''Internal error(failed to configure dns rules).'' e t w
      | (None, t, w) \<Rightarrow>
          (case handleTrafficRules E ApplyFunc t w of
             (Some e, t, w) \<Rightarrow> note_error ''Internal error(failed to configure traffic rules).'' e t w
           | (None, t, w) \<Rightarrow>
               (case handleConfigDBWriteOnSuccess E t w of
                  (Some e, t, w) \<Rightarrow> note_error ''Internal error(failed to write appdconfig db).'' e t w
                | (None, t, w) \<Rightarrow> (None, t, w))))"

definition run_sync :: "'w sync_env \<Rightarrow> 'w sync_op" where
  "run_sync E t w =
     (case sync_stages E t w of
        (None, t, w) \<Rightarrow> (None, t, snd (cleanProcessingCache E (sj_appInstanceId t) w))
      | (Some (Panic p), t, w) \<Rightarrow> (Some (Panic p), t, w)
      | (Some e, t, w) \<Rightarrow> handleErrorOnProcessing E t w)"

text \<open>\<open>ProcessDataPlaneSync\<close>, with a panic as its result.\<close>

definition ProcessDataPlaneSync :: "'w sync_env \<Rightarrow> string \<Rightarrow> string \<Rightarrow> string \<Rightarrow> 'w \<Rightarrow> unit go_result \<times> 'w" where
  "ProcessDataPlaneSync E appName appInstanceId taskId w =
     (case handleAppTermination E appInstanceId taskId w of
        (Inl e, w) \<Rightarrow> (Inl e, w)
      | (Inr True, w) \<Rightarrow> (Inr (), w)
      | (Inr False, w) \<Rightarrow>
          (case newTask E appName appInstanceId taskId w of
             (None, w) \<Rightarrow>
               let (_, w) = DeletePaths (se_R E) [AppDLCMJobsPath @ appInstanceId] True w;
                   (taskStatus, w) = newStatusDB (se_R E) appInstanceId taskId w in
               (case taskStatus of
                  None \<Rightarrow> (Inr (), w)
                | Some s \<Rightarrow>
                    let t = setFailureReason ''Unexpected error in processing.''
                          \<lparr>sj_appName = [], sj_appInstanceId = appInstanceId, sj_taskId = taskId,
                           sj_job = empty_AppDConfig, sj_config = None,
                           sj_status = s\<lparr>ts_Progress := TaskProgressFailure\<rparr>\<rparr>
                    in (Inr (), snd (snd (pushDB (se_R E) t w))))
           | (Some t, w) \<Rightarrow>
               (case run_sync E t w of
                  (Some (Panic p), t, w) \<Rightarrow> (Inl (Panic p), w)
                | (_, t, w) \<Rightarrow> (Inr (), w))))"

text \<open>\<open>ProcessAppDConfigSync\<close> recovers from a panic: only the world is left.\<close>

definition ProcessAppDConfigSync :: "'w sync_env \<Rightarrow> string \<Rightarrow> string \<Rightarrow> string \<Rightarrow> 'w \<Rightarrow> 'w" where
  "ProcessAppDConfigSync E appName appInstanceId taskId w = snd (ProcessDataPlaneSync E appName appInstanceId taskId w)"

end
