(* ===== verification/Sync_Correct.thy ===== *)
theory Sync_Correct
  imports Appd_Sync
begin

text \<open>
  Correctness of the rule synchronisation of \<open>Appd_Sync\<close>.  The locale
  \<open>sync_ports\<close> states that the data plane and the DNS agent do not touch the
  registry; under it every operation of the worker is framed: it changes the status
  record of its own task, its job, and, only after every rule has been configured, the
  configuration of its own application.  \<open>sync_reliable\<close> adds that the calls
  succeed, and gives completion.
\<close>

section \<open>What an operation may do to the task\<close>

text \<open>Filling in the default state.\<close>

definition dns_act :: "DNSRule \<Rightarrow> DNSRule \<Rightarrow> bool" where
  "dns_act r r' \<longleftrightarrow> r' = r \<or> dr_State r = [] \<and> r' = r\<lparr>dr_State := ActiveState\<rparr>"

definition traffic_act :: "TrafficRule \<Rightarrow> TrafficRule \<Rightarrow> bool" where
  "traffic_act r r' \<longleftrightarrow> r' = r \<or> tr_State r = [] \<and> r' = r\<lparr>tr_State := ActiveState\<rparr>"

definition config_act :: "AppDConfig \<Rightarrow> AppDConfig \<Rightarrow> bool" where
  "config_act c c' \<longleftrightarrow>
     list_all2 dns_act (ac_AppDNSRule c) (ac_AppDNSRule c')
     \<and> list_all2 traffic_act (ac_AppTrafficRule c) (ac_AppTrafficRule c')
     \<and> ac_AppSupportMp1 c' = ac_AppSupportMp1 c \<and> ac_AppName c' = ac_AppName c \<and> ac_Operation c' = ac_Operation c"

definition same_task :: "sync_task \<Rightarrow> sync_task \<Rightarrow> bool" where
  "same_task t t' \<longleftrightarrow>
     sj_appName t' = sj_appName t \<and> sj_appInstanceId t' = sj_appInstanceId t \<and> sj_taskId t' = sj_taskId t
     \<and> config_act (sj_job t) (sj_job t') \<and> rel_option config_act (sj_config t) (sj_config t')"

lemma ActiveState_not_Nil [simp]: "ActiveState \<noteq> []"
  by (simp add: ActiveState_def)

lemma dns_act_refl [simp]: "dns_act r r" by (simp add: dns_act_def)

lemma traffic_act_refl [simp]: "traffic_act r r" by (simp add: traffic_act_def)

lemma dns_act_trans: "dns_act a b \<Longrightarrow> dns_act b c \<Longrightarrow> dns_act a c"
  by (auto simp: dns_act_def)

lemma traffic_act_trans: "traffic_act a b \<Longrightarrow> traffic_act b c \<Longrightarrow> traffic_act a c"
  by (auto simp: traffic_act_def)

lemma config_act_refl [simp]: "config_act c c"
  by (simp add: config_act_def list.rel_refl)

lemma config_act_trans: "config_act a b \<Longrightarrow> config_act b c \<Longrightarrow> config_act a c"
  unfolding config_act_def
  by (auto elim: list_all2_trans [rotated] intro: dns_act_trans traffic_act_trans)

lemma same_task_refl [simp]: "same_task t t"
  by (simp add: same_task_def option.rel_refl)

lemma same_task_trans: "same_task a b \<Longrightarrow> same_task b c \<Longrightarrow> same_task a c"
  unfolding same_task_def
  by (cases "sj_config a"; cases "sj_config b"; cases "sj_config c") (auto intro: config_act_trans)

lemma same_task_ids: "same_task t t' \<Longrightarrow> sj_appInstanceId t' = sj_appInstanceId t \<and> sj_taskId t' = sj_taskId t"
  by (simp add: same_task_def)

lemma same_task_status [simp]: "same_task t (t'\<lparr>sj_status := s\<rparr>) = same_task t t'" "same_task (t\<lparr>sj_status := s\<rparr>) t' = same_task t t'"
  by (simp_all add: same_task_def)

lemma dns_act_update: "dr_State (l ! i) = [] \<Longrightarrow> list_all2 dns_act l (l[i := (l ! i)\<lparr>dr_State := ActiveState\<rparr>])"
  by (cases "i < length l") (auto simp: list_all2_conv_all_nth nth_list_update dns_act_def)

lemma traffic_act_update: "tr_State (l ! i) = [] \<Longrightarrow> list_all2 traffic_act l (l[i := (l ! i)\<lparr>tr_State := ActiveState\<rparr>])"
  by (cases "i < length l") (auto simp: list_all2_conv_all_nth nth_list_update traffic_act_def)

lemma activate_dns_same [simp]: "same_task t (activate_dns r t)" "sj_status (activate_dns r t) = sj_status t"
  by (cases "sj_config t")
    (auto simp: activate_dns_def dns_at_def config_dns_def same_task_def config_act_def dns_act_update list.rel_refl Let_def
      simp del: list_update_beyond)

lemma activate_traffic_same [simp]: "same_task t (activate_traffic r t)" "sj_status (activate_traffic r t) = sj_status t"
  by (cases "sj_config t")
    (auto simp: activate_traffic_def traffic_at_def config_traffic_def same_task_def config_act_def traffic_act_update list.rel_refl Let_def
      simp del: list_update_beyond)

lemma same_task_activate [intro]:
  "same_task t (activate_dns x (activate_dns n t))" "same_task t (activate_traffic x (activate_traffic n t))"
  by (rule same_task_trans [OF activate_dns_same(1) activate_dns_same(1)],
      rule same_task_trans [OF activate_traffic_same(1) activate_traffic_same(1)])

text \<open>What no operation changes in the status: which rules it lists, and what is to be
  done for each.\<close>

definition status_shape :: "TaskStatus \<Rightarrow> (string \<times> OperType) list \<times> (string \<times> OperType) list" where
  "status_shape s = (map (\<lambda>r. (rs_Id r, rs_Method r)) (ts_DNSRuleStatusLst s),
     map (\<lambda>r. (rs_Id r, rs_Method r)) (ts_TrafficRuleStatusLst s))"

lemma map_update_same: "f x = f (xs ! i) \<Longrightarrow> map f (xs[i := x]) = map f xs"
  by (cases "i < length xs") (simp_all add: map_update list_update_same_conv list_update_beyond)

lemma set_rule_state_shape [simp]: "status_shape (set_rule_state ruleType i n s) = status_shape s"
  by (cases ruleType) (simp_all add: set_rule_state_def status_shape_def map_update_same)

lemma set_rule_state_details [simp]: "ts_Details (set_rule_state ruleType i n s) = ts_Details s"
  by (cases ruleType) (simp_all add: set_rule_state_def)

lemma status_shape_update [simp]:
  "status_shape (s\<lparr>ts_Progress := p\<rparr>) = status_shape s" "status_shape (s\<lparr>ts_Details := d\<rparr>) = status_shape s"
  by (simp_all add: status_shape_def)

definition all_done :: "TaskStatus \<Rightarrow> bool" where
  "all_done s \<longleftrightarrow> list_all (\<lambda>r. rs_State r = WaitConfigDBWrite) (ts_DNSRuleStatusLst s)
     \<and> list_all (\<lambda>r. rs_State r = WaitConfigDBWrite) (ts_TrafficRuleStatusLst s)"

abbreviation config_key :: "string \<Rightarrow> string" where "config_key app \<equiv> AppDConfigKeyPath @ app"

text \<open>The registry after the configuration of an application was written.\<close>

definition config_outcome :: "AppDConfig \<Rightarrow> string \<Rightarrow> (string \<Rightarrow> doc option) \<Rightarrow> string \<Rightarrow> doc option" where
  "config_outcome job app m =
     (if ac_Operation job = MethodPost \<or> ac_Operation job = MethodPut
      then m(config_key app \<mapsto> DocAppD (job\<lparr>ac_Operation := []\<rparr>))
      else if ac_Operation job = MethodDelete then (\<lambda>k. if has_prefix k (config_key app) then None else m k)
      else m)"

text \<open>The keys of the worker: those that begin with the key of its application's
  configuration or job, and its status; the three families do not overlap.  The id of another
  application that begins with this one's makes keys of the first two families.\<close>

definition foreign :: "string \<Rightarrow> string \<Rightarrow> string \<Rightarrow> bool" where
  "foreign app task k \<longleftrightarrow> \<not> has_prefix k (config_key app) \<and> \<not> has_prefix k (job_key app) \<and> k \<noteq> status_key app task"

text \<open>The keys that only a graceful termination touches: the confirmations, which any
  application may send while the worker waits, the subscriptions of the application, and, when it
  has no configuration, the jobs of all applications (\<open>cleanProcessingCache\<close> runs on a
  task without an id).\<close>

definition termination_key :: "string \<Rightarrow> string \<Rightarrow> bool" where
  "termination_key app k \<longleftrightarrow>
     has_prefix k AppConfirmTerminationPath
     \<or> has_prefix k (GetSubscribeKeyPath AppTerminationNotificationSubscription @ app @ ''/'')
     \<or> has_prefix k (GetSubscribeKeyPath SerAvailabilityNotificationSubscription @ app @ ''/'')"

definition out_of_reach :: "bool \<Rightarrow> string \<Rightarrow> string \<Rightarrow> string \<Rightarrow> bool" where
  "out_of_reach terminating app task k \<longleftrightarrow>
     foreign app task k \<and> (terminating \<longrightarrow> \<not> termination_key app k \<and> \<not> has_prefix k AppDLCMJobsPath)"

lemma keys_disjoint [simp]:
  "\<not> has_prefix (AppDLCMTaskStatusPath @ x) (AppDConfigKeyPath @ y)" "\<not> has_prefix (AppDLCMTaskStatusPath @ x) (AppDLCMJobsPath @ y)"
  "\<not> has_prefix (AppDConfigKeyPath @ x) (AppDLCMJobsPath @ y)" "\<not> has_prefix (AppDLCMJobsPath @ x) (AppDConfigKeyPath @ y)"
  by (simp_all add: has_prefix_def path_defs)

lemma config_not_status: "has_prefix k (config_key app) \<Longrightarrow> k \<noteq> status_key app' task"
  by auto

lemma config_not_job: "has_prefix k (config_key app) \<Longrightarrow> \<not> has_prefix k (job_key app')"
  by (auto simp: has_prefix_iff path_defs)

lemma config_outcome_other: "\<not> has_prefix k (config_key app) \<Longrightarrow> config_outcome job app m k = m k"
  by (auto simp: config_outcome_def)

lemma config_outcome_cong:
  "(\<And>k. has_prefix k (config_key app) \<Longrightarrow> m k = m' k) \<Longrightarrow> has_prefix k (config_key app)
   \<Longrightarrow> config_outcome job app m k = config_outcome job app m' k"
  by (simp add: config_outcome_def)

section \<open>The ports leave the registry alone\<close>

locale sync_ports = etcd "se_R E" kv for E :: "'w sync_env" and kv :: "'w \<Rightarrow> string \<Rightarrow> doc option" +
  assumes add_traffic_kv: "kv (snd (dp_AddTrafficRule (se_dataPlane E) a i f ac p fl w)) = kv w"
    and set_traffic_kv: "kv (snd (dp_SetTrafficRule (se_dataPlane E) a i f ac p fl w)) = kv w"
    and delete_traffic_kv: "kv (snd (dp_DeleteTrafficRule (se_dataPlane E) a i w)) = kv w"
    and add_dns_kv: "kv (snd (dp_AddDNSRule (se_dataPlane E) a i d ty ip ttl w)) = kv w"
    and set_dns_kv: "kv (snd (dp_SetDNSRule (se_dataPlane E) a i d ty ip ttl w)) = kv w"
    and delete_dns_kv: "kv (snd (dp_DeleteDNSRule (se_dataPlane E) a i w)) = kv w"
    and add_rr_kv: "kv (snd (da_AddResourceRecord (se_dnsAgent E) h ty c rd ttl w)) = kv w"
    and set_rr_kv: "kv (snd (da_SetResourceRecord (se_dnsAgent E) h ty c rd ttl w)) = kv w"
    and delete_rr_kv: "kv (snd (da_DeleteResourceRecord (se_dnsAgent E) h ty w)) = kv w"
begin

lemmas ports_kv = add_traffic_kv set_traffic_kv delete_traffic_kv add_dns_kv set_dns_kv delete_dns_kv
  add_rr_kv set_rr_kv delete_rr_kv

text \<open>A result that keeps the task, its status and the registry.\<close>

definition kept :: "sync_task \<Rightarrow> 'w \<Rightarrow> go_error option \<times> sync_task \<times> 'w \<Rightarrow> bool" where
  "kept t w r \<longleftrightarrow> same_task t (fst (snd r)) \<and> sj_status (fst (snd r)) = sj_status t \<and> kv (snd (snd r)) = kv w"

definition framed :: "'w rule_fun \<Rightarrow> bool" where
  "framed f \<longleftrightarrow> (\<forall>i n x t w. kept t w (f i n x t w))"

lemma kept_simps [simp]:
  "kept t w (e, t', w') \<longleftrightarrow> same_task t t' \<and> sj_status t' = sj_status t \<and> kv w' = kv w"
  "kept t w (lift_op t' r) \<longleftrightarrow> same_task t t' \<and> sj_status t' = sj_status t \<and> kv (snd r) = kv w"
  by (simp_all add: kept_def lift_op_def)

lemma framed_dns_mp2: "framed (addDNSOnMp2 E)" "framed (setDNSOnMp2 E)" "framed (deleteDNSOnMp2 E)"
  unfolding framed_def addDNSOnMp2_def setDNSOnMp2_def deleteDNSOnMp2_def Let_def
  by (simp_all add: ports_kv same_task_activate split: option.split)

lemma framed_dns_local: "framed (addDNSOnLocalDns E)" "framed (setDNSOnLocalDns E)" "framed (deleteDNSOnLocalDns E)"
  unfolding framed_def addDNSOnLocalDns_def setDNSOnLocalDns_def deleteDNSOnLocalDns_def Let_def
  by (simp_all add: ports_kv same_task_activate split: option.split)

lemma framed_traffic: "framed (addTrafficOnMp2 E)" "framed (setTrafficOnMp2 E)" "framed (deleteTrafficOnMp2 E)"
  unfolding framed_def addTrafficOnMp2_def setTrafficOnMp2_def deleteTrafficOnMp2_def Let_def
  by (simp_all add: ports_kv same_task_activate split: option.split)

lemma framed_machine: "state_machine E ruleType m s = Some (f, g) \<Longrightarrow> framed f \<and> framed g"
  by (cases ruleType; cases m)
    (auto simp: dnsStateMachine_def trfStateMachine_def framed_dns_mp2 framed_dns_local framed_traffic split: if_splits)

text \<open>A step of the worker on its task: it only writes the status record.\<close>

definition advanced :: "sync_task \<Rightarrow> 'w \<Rightarrow> sync_task \<Rightarrow> 'w \<Rightarrow> bool" where
  "advanced t w t' w' \<longleftrightarrow> same_task t t' \<and> status_shape (sj_status t') = status_shape (sj_status t)
     \<and> (ts_Details (sj_status t) \<noteq> [] \<longrightarrow> ts_Details (sj_status t') = ts_Details (sj_status t))
     \<and> (\<forall>k. k \<noteq> status_key (sj_appInstanceId t) (sj_taskId t) \<longrightarrow> kv w' k = kv w k)"

definition synced :: "sync_task \<Rightarrow> 'w \<Rightarrow> bool" where
  "synced t w \<longleftrightarrow> kv w (status_key (sj_appInstanceId t) (sj_taskId t)) = Some (DocStatus (sj_status t))"

lemma advanced_refl [simp]: "advanced t w t w"
  by (simp add: advanced_def)

lemma advanced_trans: "advanced t w t' w' \<Longrightarrow> advanced t' w' t'' w'' \<Longrightarrow> advanced t w t'' w''"
  unfolding advanced_def using same_task_trans [of t t' t''] same_task_ids [of t t'] by auto

lemma advanced_reason: "advanced t w t' w' \<Longrightarrow> advanced t w (setFailureReason m t') w'"
  by (auto simp: advanced_def setFailureReason_def)

lemma note_error_advanced:
  "note_error m e t1 w1 = (e', t', w') \<Longrightarrow> advanced t w t1 w1 \<Longrightarrow> e' \<noteq> None \<and> advanced t w t' w'"
  by (cases e) (auto simp: note_error_def advanced_reason)

lemma note_error_reason:
  "note_error m e t w = (e', t', w') \<Longrightarrow> m \<noteq> [] \<Longrightarrow> e' = Some e \<and> ((\<forall>p. e \<noteq> Panic p) \<longrightarrow> ts_Details (sj_status t') \<noteq> [])"
  by (cases e) (auto simp: note_error_def setFailureReason_def split: if_splits)

lemma kept_advanced: "kept t w (e, t', w') \<Longrightarrow> advanced t w t' w' \<and> (synced t w \<longrightarrow> synced t' w')"
  by (auto simp: advanced_def synced_def dest: same_task_ids)

lemma pushDB_cases:
  assumes "pushDB (se_R E) t w = (e, t', w')"
  shows "t' = t \<and> (if e = None then kv w' = (kv w)(status_key (sj_appInstanceId t) (sj_taskId t) \<mapsto> DocStatus (sj_status t))
    else kv w' = kv w)"
proof -
  obtain c w1 where p: "PutRecord (se_R E) (status_key (sj_appInstanceId t) (sj_taskId t)) (DocStatus (sj_status t)) w = (c, w1)"
    by fastforce
  from p assms PutRecord_ok PutRecord_err show ?thesis
    by (cases "c = 0") (auto simp: pushDB_def)
qed

lemma pushDB_advanced:
  "pushDB (se_R E) t w = (e, t', w') \<Longrightarrow> t' = t \<and> advanced t w t' w' \<and> (e = None \<longrightarrow> synced t' w')"
  using pushDB_cases [of t w e t' w'] by (auto simp: advanced_def synced_def split: if_splits)

lemma setState_advanced:
  assumes "setStateAndProgress (se_R E) ruleType i n t w = (e, t', w')"
  shows "advanced t w t' w' \<and> (e = None \<longrightarrow> synced t' w')"
proof (cases "searchRule (status_list ruleType (sj_status t)) i")
  case (Some j)
  define s where "s = (if n = WaitConfigDBWrite
    then (set_rule_state ruleType j n (sj_status t))\<lparr>ts_Progress := ts_Progress (set_rule_state ruleType j n (sj_status t)) + 1\<rparr>
    else set_rule_state ruleType j n (sj_status t))"
  obtain e1 t1 w1 where p: "pushDB (se_R E) (t\<lparr>sj_status := s\<rparr>) w = (e1, t1, w1)" by (metis prod.exhaust)
  have shape: "status_shape s = status_shape (sj_status t)" "ts_Details s = ts_Details (sj_status t)" by (simp_all add: s_def)
  from Some p assms have r: "(e, t', w') = (if e1 \<noteq> None then (e1, t1\<lparr>sj_status := sj_status t\<rparr>, w1) else (None, t1, w1))"
    by (simp add: setStateAndProgress_def s_def Let_def split: if_splits)
  from pushDB_advanced [OF p] shape r show ?thesis
    by (auto simp: advanced_def split: if_splits)
next
  case None
  with assms show ?thesis by (auto simp: setStateAndProgress_def)
qed

lemma machine_step:
  "(case state_machine E ruleType m s of None \<Rightarrow> (None, t, w) | Some (f, g) \<Rightarrow> f i n x t w) = (e, t', w')
    \<Longrightarrow> kept t w (e, t', w')"
  "(case state_machine E ruleType m s of None \<Rightarrow> (None, t, w) | Some (f, g) \<Rightarrow> g i n x t w) = (e, t', w')
    \<Longrightarrow> kept t w (e, t', w')"
  using framed_machine [of ruleType m s] unfolding framed_def
  by (auto simp del: kept_simps(1) split: option.splits prod.splits) (simp, metis, simp, metis)

lemma apply_states_advanced:
  "apply_states E ruleType rs new old states t w = (e, t', w') \<Longrightarrow> advanced t w t' w' \<and> (e = None \<and> synced t w \<longrightarrow> synced t' w')"
proof (induction states arbitrary: t w)
  case (Cons s states)
  show ?case
  proof (cases "s < rs_State rs")
    case False
    obtain e1 t1 w1 where m: "(case state_machine E ruleType (rs_Method rs) s of None \<Rightarrow> (None, t, w)
        | Some (f, g) \<Rightarrow> f (rs_Id rs) new old t w) = (e1, t1, w1)" by (metis prod.exhaust)
    note a1 = kept_advanced [OF machine_step(1) [OF m]]
    obtain e2 t2 w2 where p: "setStateAndProgress (se_R E) ruleType (rs_Id rs) (s + 1) t1 w1 = (e2, t2, w2)" by (metis prod.exhaust)
    note a2 = setState_advanced [OF p]
    from a1 a2 have a12: "advanced t w t2 w2" using advanced_trans by blast
    show ?thesis
    proof (cases e1)
      case (Some x)
      with False Cons.prems m have "note_error (fail_message ruleType ApplyFunc False) x t1 w1 = (e, t', w')" by simp
      from note_error_advanced [OF this] a1 show ?thesis by auto
    next
      case e1: None
      show ?thesis
      proof (cases e2)
        case (Some x)
        with False Cons.prems m p e1 have "note_error (fail_message ruleType ApplyFunc True) x t2 w2 = (e, t', w')" by simp
        from note_error_advanced [OF this a12] show ?thesis by auto
      next
        case None
        with False Cons.prems m p e1 have "apply_states E ruleType rs new old states t2 w2 = (e, t', w')" by simp
        from Cons.IH [OF this] a12 a2 None show ?thesis using advanced_trans by blast
      qed
    qed
  qed (use Cons in auto)
qed simp

lemma revert_states_advanced:
  "revert_states E ruleType rs new old states t w = (e, t', w') \<Longrightarrow> advanced t w t' w'"
proof (induction states arbitrary: t w)
  case (Cons s states)
  show ?case
  proof (cases "rs_State rs \<le> s")
    case False
    obtain e1 t1 w1 where m: "(case state_machine E ruleType (rs_Method rs) s of None \<Rightarrow> (None, t, w)
        | Some (f, g) \<Rightarrow> g (rs_Id rs) new old t w) = (e1, t1, w1)" by (metis prod.exhaust)
    note a1 = kept_advanced [OF machine_step(2) [OF m]]
    obtain e2 t2 w2 where p: "setStateAndProgress (se_R E) ruleType (rs_Id rs) (s - 1) t1 w1 = (e2, t2, w2)" by (metis prod.exhaust)
    have a12: "advanced t w t2 w2" using a1 setState_advanced [OF p] advanced_trans by blast
    consider (op) x where "note_error (fail_message ruleType RevertFunc False) x t1 w1 = (e, t', w')"
      | (first) "(t', w') = (t1, w1)"
      | (state) x where "note_error (fail_message ruleType RevertFunc True) x t2 w2 = (e, t', w')"
      | (next_state) "revert_states E ruleType rs new old states t2 w2 = (e, t', w')"
      using False Cons.prems m p by (auto split: option.splits if_splits)
    then show ?thesis
    proof cases
      case op
      from note_error_advanced [OF op] a1 show ?thesis by simp
    next
      case state
      from note_error_advanced [OF state a12] show ?thesis by simp
    next
      case next_state
      from Cons.IH [OF this] a12 advanced_trans show ?thesis by blast
    qed (use a1 in simp)
  qed (use Cons in auto)
qed simp

lemma rules_loop_advanced:
  "rules_loop E ruleType ft nm om is t w = (e, t', w') \<Longrightarrow>
   advanced t w t' w' \<and> (e = None \<and> ft = ApplyFunc \<and> synced t w \<longrightarrow> synced t' w')"
proof (induction "is" arbitrary: t w)
  case (Cons i "is")
  define rs where "rs = status_list ruleType (sj_status t) ! i"
  obtain e1 t1 w1 where p: "(if ft = RevertFunc then processEntryRevert E ruleType (map_of nm (rs_Id rs)) (map_of om (rs_Id rs)) rs t w
      else processEntryApply E ruleType (map_of nm (rs_Id rs)) (map_of om (rs_Id rs)) rs t w) = (e1, t1, w1)" by (metis prod.exhaust)
  have a: "advanced t w t1 w1 \<and> (e1 = None \<and> ft = ApplyFunc \<and> synced t w \<longrightarrow> synced t1 w1)"
    using p revert_states_advanced apply_states_advanced
    by (auto simp: processEntryRevert_def processEntryApply_def split: if_splits)
  show ?case
  proof (cases e1)
    case None
    with Cons.prems p have "rules_loop E ruleType ft nm om is t1 w1 = (e, t', w')" by (simp add: rs_def Let_def cong: if_cong)
    from Cons.IH [OF this] a None show ?thesis using advanced_trans by blast
  next
    case (Some x)
    with Cons.prems p have "note_error ''Internal error(invalid function type).'' x t1 w1 = (e, t', w')" by (simp add: rs_def Let_def cong: if_cong)
    from note_error_advanced [OF this] a show ?thesis by blast
  qed
qed simp

lemma handleRules_advanced:
  "handleDNSRules E ft t w = (e, t', w') \<Longrightarrow> advanced t w t' w' \<and> (e = None \<and> ft = ApplyFunc \<and> synced t w \<longrightarrow> synced t' w')"
  "handleTrafficRules E ft t w = (e, t', w') \<Longrightarrow> advanced t w t' w' \<and> (e = None \<and> ft = ApplyFunc \<and> synced t w \<longrightarrow> synced t' w')"
  by (auto simp: handleDNSRules_def handleTrafficRules_def split: prod.splits dest: rules_loop_advanced)

lemma find_all_done:
  "find (\<lambda>rs. rs_State rs \<noteq> WaitConfigDBWrite) l = None \<longleftrightarrow> list_all (\<lambda>r. rs_State r = WaitConfigDBWrite) l"
  by (auto simp: find_None_iff list_all_iff)

lemma config_write_cases:
  assumes "handleConfigDBWriteOnSuccess E t w = (e, t', w')"
  obtains (refused) "e \<noteq> None" and "kv w' = kv w" and "advanced t w t' w'"
  | (lost) "e = None" and "all_done (sj_status t)" and "kv w' = kv w" and "sj_appInstanceId t' = sj_appInstanceId t"
  | (written) "e = None" and "all_done (sj_status t)" and "kv w' = config_outcome (sj_job t) (sj_appInstanceId t) (kv w)"
      and "sj_appInstanceId t' = sj_appInstanceId t"
proof (cases "all_done (sj_status t)")
  case False
  then have "e \<noteq> None \<and> w' = w \<and> (\<exists>m. t' = setFailureReason m t)"
    using assms
    by (auto simp: handleConfigDBWriteOnSuccess_def all_done_def find_all_done [symmetric] split: option.splits)
  then show ?thesis using refused by (auto simp: advanced_reason)
next
  case True
  define op where "op = ac_Operation (sj_job t)"
  define t1 where "t1 = t\<lparr>sj_job := (sj_job t)\<lparr>ac_Operation := []\<rparr>\<rparr>"
  obtain c w1 where p: "(if op = MethodPost \<or> op = MethodPut then PutRecord (se_R E) (config_key (sj_appInstanceId t)) (DocAppD (sj_job t1)) w
      else if op = MethodDelete then DeleteRecord (se_R E) (config_key (sj_appInstanceId t)) w else (0, w)) = (c, w1)" by fastforce
  from True assms p have r: "(e, t', w') = (if c \<noteq> 0 then (None, setFailureReason ''Internal error(failed to write appdconfig db).'' t1, w1)
      else (None, t1, w1))"
    by (simp add: handleConfigDBWriteOnSuccess_def all_done_def find_all_done [symmetric] op_def t1_def Let_def split: if_splits)
  have id: "sj_appInstanceId t' = sj_appInstanceId t" using r by (auto simp: t1_def setFailureReason_def split: if_splits)
  show ?thesis
  proof (cases "c = 0")
    case c: True
    have "kv w' = config_outcome (sj_job t) (sj_appInstanceId t) (kv w)"
      using p c r PutRecord_ok DeleteRecord_ok
      by (auto simp: config_outcome_def op_def [symmetric] t1_def split: if_splits)
    then show ?thesis using written True r c id by auto
  next
    case False
    have "kv w' = kv w" using p False r PutRecord_err DeleteRecord_err by (auto split: if_splits)
    then show ?thesis using lost True r False id by auto
  qed
qed

lemma clean_cases:
  "cleanProcessingCache E app w = (e, w') \<Longrightarrow>
   (if e = None then kv w' = (\<lambda>k. if has_prefix k (job_key app) then None else kv w k) else kv w' = kv w)"
  using DeleteRecord_ok [of "job_key app" w] DeleteRecord_err [of "job_key app" w]
  by (auto simp: cleanProcessingCache_def split: prod.splits if_splits)

lemma revert_cases:
  assumes "handleErrorOnProcessing E t w = (e, t', w')"
  shows "sj_appInstanceId t' = sj_appInstanceId t \<and> sj_taskId t' = sj_taskId t
    \<and> (\<forall>k. \<not> has_prefix k (job_key (sj_appInstanceId t)) \<longrightarrow> k \<noteq> status_key (sj_appInstanceId t) (sj_taskId t) \<longrightarrow> kv w' k = kv w k)
    \<and> (ts_Details (sj_status t) \<noteq> [] \<longrightarrow> ts_Details (sj_status t') = ts_Details (sj_status t))
    \<and> (e = None \<longrightarrow> synced t' w' \<and> ts_Progress (sj_status t') = TaskProgressFailure
        \<and> (\<forall>k. has_prefix k (job_key (sj_appInstanceId t)) \<longrightarrow> kv w' k = None))"
proof -
  obtain e1 t1 w1 where d: "handleDNSRules E RevertFunc t w = (e1, t1, w1)" by (metis prod.exhaust)
  obtain e2 t2 w2 where f: "handleTrafficRules E RevertFunc t1 w1 = (e2, t2, w2)" by (metis prod.exhaust)
  let ?t2 = "t2\<lparr>sj_status := (sj_status t2)\<lparr>ts_Progress := TaskProgressFailure\<rparr>\<rparr>"
  obtain e3 t3 w3 where p: "pushDB (se_R E) ?t2 w2 = (e3, t3, w3)" by (metis prod.exhaust)
  obtain e4 w4 where c: "cleanProcessingCache E (sj_appInstanceId t3) w3 = (e4, w4)" by fastforce
  have a1: "advanced t w t1 w1" and a2: "advanced t w t2 w2"
    using handleRules_advanced(1) [OF d] handleRules_advanced(2) [OF f] advanced_trans by blast+
  have t3: "t3 = ?t2" using pushDB_advanced [OF p] by simp
  have a3: "advanced t w t3 w3"
    using a2 pushDB_advanced [OF p] t3 by (simp add: advanced_def same_task_def)
  consider "(t', w') = (t1, w1)" "e \<noteq> None" | "(t', w') = (t2, w2)" "e \<noteq> None" | "(t', w') = (t3, w3)" "e \<noteq> None"
    | "t' = t3" "w' = w4" "e3 = None" "e = e4"
    using assms d f p c by (auto simp: handleErrorOnProcessing_def lift_op_def split: option.splits)
  then show ?thesis
  proof cases
    case 4
    have "synced t3 w3" using pushDB_advanced [OF p] 4(3) by blast
    then show ?thesis using 4 a3 clean_cases [OF c] t3
      by (auto simp: advanced_def synced_def dest: same_task_ids split: if_splits)
  qed (use a1 a2 a3 in \<open>auto simp: advanced_def dest: same_task_ids\<close>)
qed

lemma stages_cases:
  assumes "sync_stages E t w = (e, t', w')" and "synced t w"
  obtains (failed) x where "e = Some x" and "advanced t w t' w'" and "(\<forall>p. x \<noteq> Panic p) \<longrightarrow> ts_Details (sj_status t') \<noteq> []"
  | (ok) t1 w1 where "e = None" and "advanced t w t1 w1" and "synced t1 w1" and "all_done (sj_status t1)"
      and "kv w' = kv w1 \<or> kv w' = config_outcome (sj_job t1) (sj_appInstanceId t) (kv w1)"
      and "sj_appInstanceId t' = sj_appInstanceId t"
proof -
  obtain e1 t1 w1 where d: "handleDNSRules E ApplyFunc t w = (e1, t1, w1)" by (metis prod.exhaust)
  obtain e2 t2 w2 where f: "handleTrafficRules E ApplyFunc t1 w1 = (e2, t2, w2)" by (metis prod.exhaust)
  obtain e3 t3 w3 where h: "handleConfigDBWriteOnSuccess E t2 w2 = (e3, t3, w3)" by (metis prod.exhaust)
  note a1 = handleRules_advanced(1) [OF d] and a2 = handleRules_advanced(2) [OF f]
  from a1 a2 have a12: "advanced t w t2 w2" using advanced_trans by blast
  have err: "thesis" if n: "note_error m x u v = (e, t', w')" and m: "m \<noteq> []" and a: "advanced t w u v" for m x u v
    using note_error_advanced [OF n a] note_error_reason [OF n m] failed [of x] by auto
  show thesis
  proof (cases e1)
    case (Some x)
    with assms d have "note_error ''Internal error(failed to configure dns rules).'' x t1 w1 = (e, t', w')"
      by (simp add: sync_stages_def)
    then show thesis using err a1 by blast
  next
    case e1: None
    show thesis
    proof (cases e2)
      case (Some x)
      with assms d f e1 have "note_error ''Internal error(failed to configure traffic rules).'' x t2 w2 = (e, t', w')"
        by (simp add: sync_stages_def)
      then show thesis using err a12 by blast
    next
      case e2: None
      have sy: "synced t2 w2" using a1 a2 e1 e2 assms(2) by simp
      have id: "sj_appInstanceId t2 = sj_appInstanceId t" using a12 by (auto simp: advanced_def dest: same_task_ids)
      from h show thesis
      proof (cases rule: config_write_cases)
        case refused
        then obtain x where "e3 = Some x" by auto
        with assms d f h e1 e2 have "note_error ''Internal error(failed to write appdconfig db).'' x t3 w3 = (e, t', w')"
          by (simp add: sync_stages_def)
        then show thesis using err refused(3) a12 advanced_trans by blast
      qed (use assms d f h e1 e2 a12 sy id ok in \<open>auto simp: sync_stages_def\<close>)
    qed
  qed
qed

text \<open>What a run leaves in the registry.\<close>

definition run_result :: "sync_task \<Rightarrow> 'w \<Rightarrow> 'w \<Rightarrow> bool" where
  "run_result t w w' \<longleftrightarrow>
     (\<exists>st' job'. kv w' (status_key (sj_appInstanceId t) (sj_taskId t)) = Some (DocStatus st') \<and> all_done st'
        \<and> status_shape st' = status_shape (sj_status t) \<and> config_act (sj_job t) job'
        \<and> (\<forall>k. has_prefix k (config_key (sj_appInstanceId t)) \<longrightarrow>
              kv w' k = config_outcome job' (sj_appInstanceId t) (kv w) k))"

lemma run_sync_frame:
  assumes "run_sync E t w = (e, t', w')" and "synced t w"
  shows "(\<forall>k. foreign (sj_appInstanceId t) (sj_taskId t) k \<longrightarrow> kv w' k = kv w k)
    \<and> ((\<forall>k. has_prefix k (config_key (sj_appInstanceId t)) \<longrightarrow> kv w' k = kv w k) \<or> run_result t w w')"
proof -
  let ?app = "sj_appInstanceId t" and ?task = "sj_taskId t"
  obtain e1 t1 w1 where s: "sync_stages E t w = (e1, t1, w1)" by (metis prod.exhaust)
  have adv: "kv w1 k = kv w k" if "advanced t w u w1" and "foreign ?app ?task k \<or> has_prefix k (config_key ?app)" for k u
    using that config_not_status [of k ?app ?app ?task] unfolding advanced_def foreign_def by blast
  from s assms(2) show ?thesis
  proof (cases rule: stages_cases)
    case (failed x)
    obtain e2 t2 w2 where h: "handleErrorOnProcessing E t1 w1 = (e2, t2, w2)" by (metis prod.exhaust)
    have w': "w' = w1 \<or> w' = w2" using assms(1) s failed h by (cases x) (auto simp: run_sync_def)
    have ids: "sj_appInstanceId t1 = ?app" "sj_taskId t1 = ?task" using failed(2) by (auto simp: advanced_def dest: same_task_ids)
    have "kv w2 k = kv w1 k" if "foreign ?app ?task k \<or> has_prefix k (config_key ?app)" for k
      using revert_cases [OF h] that config_not_job [of k ?app ?app] unfolding ids by (auto simp: foreign_def)
    then show ?thesis using w' adv [OF failed(2)] by auto
  next
    case (ok t2 w2)
    obtain c w3 where cl: "cleanProcessingCache E ?app w1 = (c, w3)" by fastforce
    have w': "w' = w3" using assms(1) s ok(1,6) cl by (simp add: run_sync_def)
    have k3: "kv w3 k = kv w1 k" if "\<not> has_prefix k (job_key ?app)" for k
      using clean_cases [OF cl] that by (auto split: if_splits)
    have k2: "kv w2 k = kv w k" if "k \<noteq> status_key ?app ?task" for k
      using ok(2) that by (simp add: advanced_def)
    have fr: "kv w' k = kv w k" if "foreign ?app ?task k" for k
      using that k3 [of k] k2 [of k] ok(5) w' by (auto simp: foreign_def config_outcome_other)
    have shape: "status_shape (sj_status t2) = status_shape (sj_status t)" "config_act (sj_job t) (sj_job t2)"
      using ok(2) by (auto simp: advanced_def same_task_def)
    have ids: "sj_appInstanceId t2 = ?app" "sj_taskId t2 = ?task" using ok(2) by (auto simp: advanced_def dest: same_task_ids)
    have st: "kv w' (status_key ?app ?task) = Some (DocStatus (sj_status t2))"
      using ok(3,5) k3 [of "status_key ?app ?task"] w' config_outcome_other [of "status_key ?app ?task" ?app "sj_job t2" "kv w2"]
      by (auto simp: synced_def ids)
    have cfg: "kv w1 k = kv w k" if "kv w1 = kv w2" and "has_prefix k (config_key ?app)" for k
      using that(1) k2 [OF config_not_status [OF that(2)]] by simp
    show ?thesis
    proof (cases "kv w1 = kv w2")
      case True
      then show ?thesis using fr cfg k3 config_not_job w' by auto
    next
      case False
      then have "kv w1 = config_outcome (sj_job t2) ?app (kv w2)" using ok(5) by simp
      moreover have "config_outcome (sj_job t2) ?app (kv w2) k = config_outcome (sj_job t2) ?app (kv w) k"
        if "has_prefix k (config_key ?app)" for k
        by (rule config_outcome_cong [OF k2 that]) (rule config_not_status)
      ultimately have "kv w' k = config_outcome (sj_job t2) ?app (kv w) k" if "has_prefix k (config_key ?app)" for k
        using that k3 [OF config_not_job [OF that]] w' by simp
      then have "run_result t w w'" unfolding run_result_def using st shape ok(4) by blast
      then show ?thesis using fr by simp
    qed
  qed
qed

text \<open>The records of a task that was staged outside a termination.\<close>

definition staged :: "'w \<Rightarrow> string \<Rightarrow> string \<Rightarrow> AppDConfig \<Rightarrow> TaskStatus \<Rightarrow> bool" where
  "staged w app task job st \<longleftrightarrow> kv w (job_key app) = Some (DocAppD job) \<and> kv w (status_key app task) = Some (DocStatus st)
     \<and> ts_TerminationStatus st \<noteq> TerminationInProgress"

lemma newStatusDB_cases:
  assumes "newStatusDB (se_R E) app task w = (r, w')"
  shows "kv w' = kv w \<and> (\<forall>st. kv w (status_key app task) = Some (DocStatus st) \<longrightarrow> r = None \<or> r = Some st)"
proof -
  obtain g w1 where g: "GetRecord (se_R E) (status_key app task) w = (g, w1)" by fastforce
  have "unmarshal_status d = Some st" if "g = Inr d" "kv w (status_key app task) = Some (DocStatus st)" for d st
    using GetRecord_exact [OF g [unfolded that(1)] that(2)] by simp
  then show ?thesis using assms g GetRecord_kv [OF g]
    by (cases g) (auto simp: newStatusDB_def)
qed

lemma newJob_cases:
  assumes "newAppDJobDB (se_R E) app w = (r, w')"
  shows "kv w' = kv w \<and> (\<forall>job. kv w (job_key app) = Some (DocAppD job) \<longrightarrow> r = None \<or> r = Some job)"
proof -
  obtain g w1 where g: "GetRecord (se_R E) (job_key app) w = (g, w1)" by fastforce
  have "unmarshal_appd d = Some job" if "g = Inr d" "kv w (job_key app) = Some (DocAppD job)" for d job
    using GetRecord_exact [OF g [unfolded that(1)] that(2)] by simp
  then show ?thesis using assms g GetRecord_kv [OF g]
    by (cases g) (auto simp: newAppDJobDB_def)
qed

lemma newConfig_kv: "newAppDConfigDB (se_R E) app w = (r, w') \<Longrightarrow> kv w' = kv w"
  using GetRecord_kv [of "config_key app" w] by (auto simp: newAppDConfigDB_def split: prod.splits sum.splits)

lemma termination_skipped:
  assumes "handleAppTermination E app task w = (r, w')" and "staged w app task job st"
  shows "r = Inr False \<and> kv w' = kv w"
proof -
  obtain s w1 where s: "newStatusDB (se_R E) app task w = (s, w1)" by fastforce
  have "\<not> (case s of None \<Rightarrow> False | Some s \<Rightarrow> ts_TerminationStatus s = TerminationInProgress)"
    using newStatusDB_cases [OF s] assms(2) by (auto simp: staged_def)
  moreover obtain b w2 where i: "IsAppInstanceAlreadyCreated (se_R E) app w1 = (b, w2)" by fastforce
  moreover have "kv w2 = kv w1"
    using i GetRecord_kv [of "config_key app" w1] by (auto simp: IsAppInstanceAlreadyCreated_def split: prod.splits sum.splits)
  ultimately show ?thesis using assms(1) s newStatusDB_cases [OF s]
    by (simp add: handleAppTermination_def)
qed

text \<open>The records of a staged task, terminating or not: an application without a
  configuration is terminated without a job.\<close>

definition on_record :: "'w \<Rightarrow> string \<Rightarrow> string \<Rightarrow> AppDConfig \<Rightarrow> TaskStatus \<Rightarrow> bool" where
  "on_record w app task job st \<longleftrightarrow> kv w (status_key app task) = Some (DocStatus st)
     \<and> (kv w (job_key app) = Some (DocAppD job) \<or> (\<forall>k. has_prefix k (job_key app) \<longrightarrow> kv w k = None))"

lemma newJob_none:
  assumes "newAppDJobDB (se_R E) app w = (r, w')" and "\<forall>k. has_prefix k (job_key app) \<longrightarrow> kv w k = None"
  shows "r = None"
proof -
  obtain g w1 where g: "GetRecord (se_R E) (job_key app) w = (g, w1)" by fastforce
  have "\<exists>c. g = Inl c" using GetRecord_some [of "job_key app" w _ w1] g assms(2) by (cases g) fastforce+
  then show ?thesis using assms(1) g by (auto simp: newAppDJobDB_def)
qed

lemma newTask_cases:
  assumes "newTask E name app task w = (r, w')" and "on_record w app task job st"
  shows "(case r of
      None \<Rightarrow> \<forall>k. \<not> has_prefix k (job_key app) \<longrightarrow> kv w' k = kv w k
    | Some t \<Rightarrow> kv w' = kv w \<and> sj_appInstanceId t = app \<and> sj_taskId t = task \<and> sj_job t = job \<and> sj_status t = st)"
proof -
  obtain j w1 where j: "newAppDJobDB (se_R E) app w = (j, w1)" by fastforce
  obtain c w2 where c: "newAppDConfigDB (se_R E) app w1 = (c, w2)" by fastforce
  obtain s w3 where s: "newStatusDB (se_R E) app task w2 = (s, w3)" by fastforce
  obtain d w4 where d: "DeleteRecord (se_R E) (job_key app) w3 = (d, w4)" by fastforce
  have kv: "kv w1 = kv w" "kv w2 = kv w" "kv w3 = kv w"
    using newJob_cases [OF j] newConfig_kv [OF c] newStatusDB_cases [OF s] by auto
  have del: "kv w4 k = kv w3 k" if "\<not> has_prefix k (job_key app)" for k
    using DeleteRecord_ok [of "job_key app" w3 w4] DeleteRecord_err [OF d] d that by (cases "d = 0") auto
  have jc: "j = None \<or> j = Some job" using newJob_cases [OF j] newJob_none [OF j] assms(2) by (auto simp: on_record_def)
  have sc: "s = None \<or> s = Some st" using newStatusDB_cases [OF s] kv assms(2) by (simp add: on_record_def)
  show ?thesis
  proof (cases j)
    case None
    then show ?thesis using assms(1) j kv by (simp add: newTask_def)
  next
    case (Some job')
    then have "j = Some job" using jc by simp
    then show ?thesis using sc assms(1) j c s d kv del
      by (auto simp: newTask_def job_deleteEntry_def split: if_splits)
  qed
qed

text \<open>The part of the worker after the termination.\<close>

definition sync_rest :: "string \<Rightarrow> string \<Rightarrow> string \<Rightarrow> 'w \<Rightarrow> unit go_result \<times> 'w" where
  "sync_rest name app task w =
     (case newTask E name app task w of
        (None, w) \<Rightarrow>
          let (_, w) = DeletePaths (se_R E) [job_key app] True w;
              (taskStatus, w) = newStatusDB (se_R E) app task w in
          (case taskStatus of
             None \<Rightarrow> (Inr (), w)
           | Some s \<Rightarrow>
               let t = setFailureReason ''Unexpected error in processing.''
                     \<lparr>sj_appName = [], sj_appInstanceId = app, sj_taskId = task,
                      sj_job = empty_AppDConfig, sj_config = None,
                      sj_status = s\<lparr>ts_Progress := TaskProgressFailure\<rparr>\<rparr>
               in (Inr (), snd (snd (pushDB (se_R E) t w))))
      | (Some t, w) \<Rightarrow>
          (case run_sync E t w of
             (Some (Panic p), t, w) \<Rightarrow> (Inl (Panic p), w)
           | (_, t, w) \<Rightarrow> (Inr (), w)))"

lemma sync_after_termination:
  "handleAppTermination E app task w = (Inr False, w1) \<Longrightarrow> ProcessDataPlaneSync E name app task w = sync_rest name app task w1"
  by (simp add: ProcessDataPlaneSync_def sync_rest_def)

lemma sync_rest_frame:
  assumes "sync_rest name app task w = (r, w')" and "on_record w app task job st"
  shows "(\<forall>k. foreign app task k \<longrightarrow> kv w' k = kv w k)
    \<and> ((\<forall>k. has_prefix k (config_key app) \<longrightarrow> kv w' k = kv w k)
      \<or> (\<exists>t. sj_appInstanceId t = app \<and> sj_taskId t = task \<and> sj_job t = job \<and> sj_status t = st \<and> run_result t w w'))"
proof -
  obtain n w2 where n: "newTask E name app task w = (n, w2)" by fastforce
  note n' = newTask_cases [OF n assms(2)]
  show ?thesis
  proof (cases n)
    case None
    obtain c w3 where c: "DeletePaths (se_R E) [job_key app] True w2 = (c, w3)" by fastforce
    obtain s w4 where s: "newStatusDB (se_R E) app task w3 = (s, w4)" by fastforce
    have k4: "kv w4 k = kv w k" if "\<not> has_prefix k (job_key app)" for k
      using DeletePaths_kv [OF c, of k] newStatusDB_cases [OF s] n' None that by auto
    have "kv w' k = kv w4 k" if "k \<noteq> status_key app task" for k
    proof (cases s)
      case (Some st')
      define t where "t = setFailureReason ''Unexpected error in processing.''
          \<lparr>sj_appName = [], sj_appInstanceId = app, sj_taskId = task, sj_job = empty_AppDConfig, sj_config = None,
           sj_status = st'\<lparr>ts_Progress := TaskProgressFailure\<rparr>\<rparr>"
      obtain e5 t5 w5 where p: "pushDB (se_R E) t w4 = (e5, t5, w5)" by (metis prod.exhaust)
      have "sj_appInstanceId t = app" "sj_taskId t = task" by (simp_all add: t_def setFailureReason_def)
      moreover have "w' = w5"
        using assms(1) n None c s Some p by (simp add: sync_rest_def t_def)
      ultimately show ?thesis using pushDB_advanced [OF p] that by (auto simp: advanced_def)
    qed (use assms(1) n None c s in \<open>simp add: sync_rest_def\<close>)
    then show ?thesis using k4 config_not_job config_not_status unfolding foreign_def by metis
  next
    case (Some t)
    then have t: "kv w2 = kv w" "sj_appInstanceId t = app" "sj_taskId t = task" "sj_job t = job" "sj_status t = st"
      using n' by auto
    obtain e t' w3 where r: "run_sync E t w2 = (e, t', w3)" by (metis prod.exhaust)
    have w': "w' = w3"
      using assms(1) n Some r by (auto simp: sync_rest_def split: option.splits go_error.splits)
    have "synced t w2" using t assms(2) by (simp add: synced_def on_record_def)
    from run_sync_frame [OF r this] have "(\<forall>k. foreign app task k \<longrightarrow> kv w' k = kv w k)
        \<and> ((\<forall>k. has_prefix k (config_key app) \<longrightarrow> kv w' k = kv w k) \<or> run_result t w w')"
      unfolding w' t run_result_def .
    then show ?thesis using t by blast
  qed
qed

lemma run_sync_failure:
  assumes "sync_stages E t w = (Some x, t1, w1)" and "\<forall>p. x \<noteq> Panic p" and "synced t w" and "run_sync E t w = (None, t', w')"
  shows "(\<exists>st. kv w' (status_key (sj_appInstanceId t) (sj_taskId t)) = Some (DocStatus st)
        \<and> ts_Progress st = TaskProgressFailure \<and> ts_Details st \<noteq> [])
    \<and> (\<forall>k. has_prefix k (job_key (sj_appInstanceId t)) \<longrightarrow> kv w' k = None)
    \<and> (\<forall>k. has_prefix k (config_key (sj_appInstanceId t)) \<longrightarrow> kv w' k = kv w k)"
proof -
  let ?app = "sj_appInstanceId t" and ?task = "sj_taskId t"
  from assms(1,3) have a: "advanced t w t1 w1" and d: "ts_Details (sj_status t1) \<noteq> []"
    using assms(2) by (auto elim: stages_cases)
  have ids: "sj_appInstanceId t1 = ?app" "sj_taskId t1 = ?task" using a by (auto simp: advanced_def dest: same_task_ids)
  have "handleErrorOnProcessing E t1 w1 = (None, t', w')"
    using assms(1,2,4) by (cases x) (auto simp: run_sync_def)
  note r = revert_cases [OF this, unfolded ids]
  have "kv w' k = kv w k" if "has_prefix k (config_key ?app)" for k
    using r a config_not_job [OF that] config_not_status [OF that] unfolding advanced_def by metis
  then show ?thesis using r d by (auto simp: synced_def)
qed

end

section \<open>A terminating task\<close>

text \<open>Notifying the application leaves the registry alone, and while the worker sleeps at most
  a confirmation is stored.\<close>

locale sync_waits = sync_ports E kv for E :: "'w sync_env" and kv :: "'w \<Rightarrow> string \<Rightarrow> doc option" +
  assumes notify_kv: "kv (snd (se_notify E c i a w)) = kv w"
    and sleep_kv: "\<not> has_prefix k AppConfirmTerminationPath \<Longrightarrow> kv (se_sleep E w) k = kv w k"
begin

lemma subscribed_kv: "AppTerminationIsSubscribed (se_R E) iter app w = (r, w') \<Longrightarrow> kv w' = kv w"
  by (auto simp: AppTerminationIsSubscribed_def split: prod.splits sum.splits if_splits dest: GetRecords_kv)

lemma delete_outside: "\<not> has_prefix k p \<Longrightarrow> kv (snd (DeleteRecord (se_R E) p w)) k = kv w k"
  using DeleteRecord_ok [of p w "snd (DeleteRecord (se_R E) p w)"] DeleteRecord_err [of p w "fst (DeleteRecord (se_R E) p w)"]
  by (cases "fst (DeleteRecord (se_R E) p w) = 0") (auto simp: prod_eq_iff)

lemma put_outside: "k \<noteq> p \<Longrightarrow> kv (snd (PutRecord (se_R E) p d w)) k = kv w k"
  using PutRecord_ok [of p d w "snd (PutRecord (se_R E) p d w)"] PutRecord_err [of p d w "fst (PutRecord (se_R E) p d w)"]
  by (cases "fst (PutRecord (se_R E) p d w) = 0") (auto simp: prod_eq_iff)

lemma wait_outside:
  "\<not> has_prefix k AppConfirmTerminationPath \<Longrightarrow> handleResponseFromAppInstance E app n w = (e, w') \<Longrightarrow> kv w' k = kv w k"
proof (induction n arbitrary: w)
  case (Suc n)
  obtain g w1 where g: "GetRecord (se_R E) (AppConfirmTerminationPath @ app @ ''/'') w = (g, w1)" by fastforce
  then have k1: "kv w1 = kv w" by (rule GetRecord_kv)
  show ?case
  proof (cases "w' = w1")
    case True
    then show ?thesis using k1 by simp
  next
    case False
    then have "handleResponseFromAppInstance E app n (se_sleep E w1) = (e, w')"
      using Suc.prems(2) g by (auto split: sum.splits option.splits if_splits)
    from Suc.IH [OF Suc.prems(1) this] show ?thesis using k1 sleep_kv [OF Suc.prems(1), of w1] by simp
  qed
qed simp

lemma notification_outside:
  assumes "\<not> termination_key app k" and "handleTerminationNotification E app w = (e, w')"
  shows "kv w' k = kv w k"
proof -
  have "\<not> has_prefix k (AppConfirmTerminationPath @ x)" for x
    using assms(1) by (auto simp: termination_key_def has_prefix_iff)
  note key = assms(1) [unfolded termination_key_def, simplified] this [of "app @ ''/''"]
  obtain b sub w1 where s: "AppTerminationIsSubscribed (se_R E) (se_iter E) app w = ((b, sub), w1)" by (metis prod.exhaust)
  have k1: "kv w1 = kv w" using subscribed_kv [OF s] .
  show ?thesis
  proof (cases sub)
    case None
    then show ?thesis using assms(2) s k1 by (simp add: handleTerminationNotification_def)
  next
    case (Some x)
    obtain err w2 where n: "se_notify E (sub_CallbackReference x) (sub_SubscriptionId x) app w1 = (err, w2)" by fastforce
    have k2: "kv w2 = kv w" using notify_kv [of "sub_CallbackReference x" "sub_SubscriptionId x" app w1] n k1 by simp
    show ?thesis
    proof (cases err)
      case (Some y)
      then show ?thesis using assms(2) s \<open>sub = Some x\<close> n k2 by (simp add: handleTerminationNotification_def)
    next
      case None
      define w3 where "w3 = writeConfirmTerminateToDb E app w2"
      obtain e4 w4 where h: "handleResponseFromAppInstance E app AppTerminationTimeout w3 = (e4, w4)" by fastforce
      define D where "D p v = snd (DeleteRecord (se_R E) p v)" for p v
      let ?p = "AppConfirmTerminationPath @ app @ ''/''"
        and ?q = "GetSubscribeKeyPath AppTerminationNotificationSubscription @ app @ ''/''"
        and ?r = "GetSubscribeKeyPath SerAvailabilityNotificationSubscription @ app @ ''/''"
      have "w' = D ?p w4 \<or> w' = D ?q (D ?p w4) \<or> w' = D ?r (D ?q (D ?p w4))"
        using assms(2) s \<open>sub = Some x\<close> n None h
        by (auto simp: handleTerminationNotification_def w3_def D_def Let_def split: prod.splits if_splits)
      moreover have "kv (D ?p v) k = kv v k" "kv (D ?q v) k = kv v k" "kv (D ?r v) k = kv v k" for v
        using key delete_outside unfolding D_def by auto
      moreover have "kv w4 k = kv w k"
      proof -
        have "k \<noteq> ?p" using key by auto
        then have "kv w3 k = kv w2 k" unfolding w3_def writeConfirmTerminateToDb_def by (rule put_outside)
        then show ?thesis using wait_outside [OF _ h] key k2 by simp
      qed
      ultimately show ?thesis by auto
    qed
  qed
qed

lemma termination_outside:
  assumes "handleAppTermination E app task w = (r, w')" and "\<not> termination_key app k"
    and "r = Inr True \<longrightarrow> \<not> has_prefix k AppDLCMJobsPath"
  shows "kv w' k = kv w k"
proof -
  obtain s w1 where s: "newStatusDB (se_R E) app task w = (s, w1)" by fastforce
  define stops where "stops = (case s of None \<Rightarrow> False | Some s \<Rightarrow> ts_TerminationStatus s = TerminationInProgress)"
  obtain e w2 where n: "(if stops then handleTerminationNotification E app w1 else (None, w1)) = (e, w2)" by fastforce
  obtain b w3 where b: "IsAppInstanceAlreadyCreated (se_R E) app w2 = (b, w3)" by fastforce
  have k1: "kv w1 = kv w" using newStatusDB_cases [OF s] by simp
  have k2: "kv w2 k = kv w1 k" using n notification_outside [OF assms(2)] by (auto split: if_splits)
  have k3: "kv w3 = kv w2"
    using b GetRecord_kv [of "config_key app" w2] by (auto simp: IsAppInstanceAlreadyCreated_def split: prod.splits sum.splits)
  have clean: "kv (snd (cleanProcessingCache E [] w3)) k = kv w3 k" if "\<not> has_prefix k AppDLCMJobsPath"
    using clean_cases [of "[]" w3 "fst (cleanProcessingCache E [] w3)" "snd (cleanProcessingCache E [] w3)"] that
    by (auto split: if_splits)
  note run = assms(1) [unfolded handleAppTermination_def s prod.case Let_def, folded stops_def, unfolded n prod.case b]
  have "w' = w2 \<or> w' = w3 \<or> r = Inr True \<and> w' = snd (cleanProcessingCache E [] w3)"
    using run by (auto split: option.splits go_error.splits if_splits)
  then show ?thesis using k1 k2 k3 clean assms(3) by auto
qed

lemma ProcessDataPlaneSync_frame:
  assumes "ProcessDataPlaneSync E name app task w = (r, w')" and "on_record w app task job st"
  shows "(\<forall>k. out_of_reach (ts_TerminationStatus st = TerminationInProgress) app task k \<longrightarrow> kv w' k = kv w k)
    \<and> ((\<forall>k. has_prefix k (config_key app) \<longrightarrow> kv w' k = kv w k)
      \<or> (\<exists>t. sj_appInstanceId t = app \<and> sj_taskId t = task \<and> sj_job t = job \<and> sj_status t = st \<and> run_result t w w'))"
proof -
  obtain h w1 where h: "handleAppTermination E app task w = (h, w1)" by fastforce
  let ?T = "ts_TerminationStatus st = TerminationInProgress"
  have quiet: "h = Inr False \<and> kv w1 = kv w" if "\<not> ?T"
  proof -
    obtain s v where s: "newStatusDB (se_R E) app task w = (s, v)" by fastforce
    have "s = None \<or> s = Some st" using newStatusDB_cases [OF s] assms(2) by (simp add: on_record_def)
    moreover obtain b u where b: "IsAppInstanceAlreadyCreated (se_R E) app v = (b, u)" by fastforce
    moreover have "kv u = kv v"
      using b GetRecord_kv [of "config_key app" v] by (auto simp: IsAppInstanceAlreadyCreated_def split: prod.splits sum.splits)
    ultimately show ?thesis using h s that newStatusDB_cases [OF s] by (auto simp: handleAppTermination_def)
  qed
  have cfg: "\<not> termination_key app k \<and> \<not> has_prefix k AppDLCMJobsPath" if "has_prefix k (config_key app)" for k
    using that by (auto simp: termination_key_def GetSubscribeKeyPath_def has_prefix_iff path_defs)
  have k1: "kv w1 k = kv w k" if "out_of_reach ?T app task k \<or> has_prefix k (config_key app)" for k
  proof (cases ?T)
    case True
    then have "\<not> termination_key app k" "\<not> has_prefix k AppDLCMJobsPath" using that cfg by (auto simp: out_of_reach_def)
    with termination_outside [OF h] show ?thesis by blast
  qed (use quiet in auto)
  show ?thesis
  proof (cases "h = Inr False")
    case False
    then have "w' = w1" using assms(1) h by (auto simp: ProcessDataPlaneSync_def split: sum.splits bool.splits)
    then show ?thesis using k1 by auto
  next
    case True
    have st: "on_record w1 app task job st"
    proof -
      have "kv w1 k = kv w k" if "k = status_key app task \<or> has_prefix k (job_key app)" for k
      proof -
        have "\<not> termination_key app k"
          using that by (auto simp: termination_key_def GetSubscribeKeyPath_def has_prefix_iff path_defs)
        with termination_outside [OF h] True show ?thesis by blast
      qed
      then show ?thesis using assms(2) by (auto simp: on_record_def)
    qed
    have "sync_rest name app task w1 = (r, w')" using assms(1) sync_after_termination h True by metis
    note f = sync_rest_frame [OF this st]
    have "run_result t w1 w' \<longrightarrow> run_result t w w'" if "sj_appInstanceId t = app" for t
      unfolding run_result_def using that k1 config_outcome_cong [of app "kv w1" "kv w"] by fastforce
    with f k1 show ?thesis by (auto simp: out_of_reach_def)
  qed
qed

end

section \<open>The worker next to the DNS server\<close>

text \<open>The environment of the worker with the in-memory registry, the sample data plane
  and the REST agent talking to the modelled DNS server.\<close>

definition local_env :: "bool \<Rightarrow> string \<Rightarrow> string \<Rightarrow> dns_world sync_env" where
  "local_env calm dnsType base = \<lparr>
     se_R = mem_registry calm, se_dataPlane = NoneDataPlane, se_dnsAgent = RestDNSAgent (local_client base) (Some base),
     se_dnsType = dnsType, se_iter = rev, se_notify = (\<lambda>callback subId app w. (None, w)), se_sleep = (\<lambda>w. w)\<rparr>"

lemma local_client_kv: "mw_kv (snd (local_client base rq w)) = mw_kv w"
  by (simp add: local_client_def serve_local_def split: rest_body.split option.split prod.split)

lemma agent_do_kv: "mw_kv (snd (agent_do (local_client base) rq msg w)) = mw_kv w"
  using local_client_kv [of base rq w]
  by (cases "local_client base rq w"; cases "fst (local_client base rq w)") (auto simp: agent_do_def)

interpretation local_sync: sync_ports "local_env calm dnsType base" "\<lambda>w. map_of (mw_kv w)"
  by (intro sync_ports.intro sync_ports_axioms.intro)
    (simp_all add: local_env_def mem_etcd.etcd_axioms NoneDataPlane_def RestDNSAgent_def AddResourceRecord_def
      SetResourceRecord_agent_def DeleteResourceRecord_def agent_do_kv Let_def)

interpretation local_waits: sync_waits "local_env calm dnsType base" "\<lambda>w. map_of (mw_kv w)"
  by (intro sync_waits.intro sync_waits_axioms.intro local_sync.sync_ports_axioms) (simp_all add: local_env_def)

section \<open>Properties\<close>

text \<open>A world with a staged task for the sample application, and a DNS server that
  knows the root zone.\<close>

definition sync_world :: "AppDConfig \<Rightarrow> bool list \<Rightarrow> dns_world" where
  "sync_world job faults = \<lparr>
     mw_kv = [(job_key ''app-1'', DocAppD job), (task_key ''task-1'', DocRaw ''app-1''),
              (status_key ''app-1'' ''task-1'', DocStatus (buildTaskStatus rev job empty_AppDConfig False))],
     mw_faults = faults, dw_dns = empty_db\<rparr>"

abbreviation sample_env :: "dns_world sync_env" where
  "sample_env \<equiv> local_env False ''all'' ''http://localhost:8080/mep/dns_server_mgmt/v1/''"

text \<open>(C6) The configuration of an application changes atomically.  Whatever fails on the
  way, in the registry, the data plane or the DNS agent, and whether the task terminates the
  application or not, a synchronisation leaves the stored configuration of its application
  either untouched or in the final state the job asks for: the job's configuration with default
  rule states filled in, or no configuration after a delete.  The latter happens only once
  every rule of the task is recorded as configured.  The other records it can touch are its
  status and those whose key begins with the key of its configuration or of its job, which are
  of other applications only where their id begins with this one's; and for a task that
  terminates the application also confirmations, the application's subscriptions, and the
  jobs, of all applications if it has no configuration.  Every other record is as it was.  The
  task has its status and its job stored, or no job at all; the data plane, the DNS agent and
  the notified application do not write to the registry, except for confirmations that arrive
  while the worker waits.\<close>

theorem sync_config_atomic:
  assumes "sync_waits E kv" and "kv w (status_key app task) = Some (DocStatus st)"
    and "kv w (job_key app) = Some (DocAppD job) \<or> (\<forall>k. has_prefix k (job_key app) \<longrightarrow> kv w k = None)"
    and "w' = ProcessAppDConfigSync E name app task w"
  shows "(\<forall>k. out_of_reach (ts_TerminationStatus st = TerminationInProgress) app task k \<longrightarrow> kv w' k = kv w k)
    \<and> ((\<forall>k. has_prefix k (config_key app) \<longrightarrow> kv w' k = kv w k)
      \<or> (\<exists>st' job'. kv w' (status_key app task) = Some (DocStatus st') \<and> all_done st' \<and> status_shape st' = status_shape st
           \<and> config_act job job' \<and> (\<forall>k. has_prefix k (config_key app) \<longrightarrow> kv w' k = config_outcome job' app (kv w) k)))"
proof -
  obtain r where r: "ProcessDataPlaneSync E name app task w = (r, w')"
    using assms(4) by (metis ProcessAppDConfigSync_def prod.collapse)
  have p: "sync_ports E kv" using assms(1) by (simp add: sync_waits_def)
  have "sync_ports.on_record kv w app task job st"
    using assms(2,3) by (simp add: sync_ports.on_record_def [OF p])
  from sync_waits.ProcessDataPlaneSync_frame [OF assms(1) r this]
  show ?thesis by (auto simp: sync_ports.run_result_def [OF p])
qed

theorem sync_config_atomic_witness:
  "map_of (mw_kv (ProcessAppDConfigSync sample_env ''app'' ''app-1'' ''task-1'' (sync_world sample_config [False, True]))) (task_key ''task-1'')
     = Some (DocRaw ''app-1'')"
proof -
  have j: "map_of (mw_kv (sync_world sample_config [False, True])) (job_key ''app-1'') = Some (DocAppD sample_config)"
    by (simp add: sync_world_def)
  have s: "map_of (mw_kv (sync_world sample_config [False, True])) (status_key ''app-1'' ''task-1'')
      = Some (DocStatus (buildTaskStatus rev sample_config empty_AppDConfig False))"
    by (simp add: sync_world_def path_defs)
  have f: "out_of_reach (ts_TerminationStatus (buildTaskStatus rev sample_config empty_AppDConfig False) = TerminationInProgress)
      ''app-1'' ''task-1'' (task_key ''task-1'')" by code_simp
  have t: "map_of (mw_kv (sync_world sample_config [False, True])) (task_key ''task-1'') = Some (DocRaw ''app-1'')"
    by (simp add: sync_world_def path_defs)
  show ?thesis
    using sync_config_atomic [where kv = "\<lambda>w. map_of (mw_kv w)" and w = "sync_world sample_config [False, True]",
        OF local_waits.sync_waits_axioms s disjI1 [OF j] refl, THEN conjunct1, rule_format, OF f] t by simp
qed

text \<open>(C36) A failed synchronisation is reported.  When configuring the rules fails and
  the worker gets to the end of its clean-up, the status record of the task carries the
  failure progress and a reason, the job is gone, so that a new operation is admitted,
  and the stored configuration is untouched.\<close>

theorem sync_failure_reported:
  assumes "sync_ports E kv"
    and "kv w (status_key (sj_appInstanceId t) (sj_taskId t)) = Some (DocStatus (sj_status t))"
    and "sync_stages E t w = (Some x, t1, w1)" and "\<not> is_panic (Inl x :: unit go_result)"
    and "run_sync E t w = (None, t', w')"
  shows "(\<exists>st. kv w' (status_key (sj_appInstanceId t) (sj_taskId t)) = Some (DocStatus st)
        \<and> ts_Progress st = TaskProgressFailure \<and> ts_Details st \<noteq> [])
    \<and> (\<forall>k. has_prefix k (job_key (sj_appInstanceId t)) \<longrightarrow> kv w' k = None)
    \<and> (\<forall>k. has_prefix k (config_key (sj_appInstanceId t)) \<longrightarrow> kv w' k = kv w k)"
proof -
  have "\<forall>p. x \<noteq> Panic p" using assms(4) by auto
  then show ?thesis
    using sync_ports.run_sync_failure [OF assms(1,3)] assms(2,5) by (simp add: sync_ports.synced_def [OF assms(1)])
qed

text \<open>A task whose second rule has an address the DNS server refuses.\<close>

definition bad_config :: AppDConfig where
  "bad_config = sample_config\<lparr>ac_AppDNSRule := [dns_rule ''d1'' ''www.example.com'', (dns_rule ''d2'' ''b.example.com'')\<lparr>dr_IPAddress := ''10.0''\<rparr>]\<rparr>"

definition sample_task :: "AppDConfig \<Rightarrow> sync_task" where
  "sample_task job = \<lparr>sj_appName = ''app'', sj_appInstanceId = ''app-1'', sj_taskId = ''task-1'', sj_job = job, sj_config = None,
     sj_status = buildTaskStatus rev job empty_AppDConfig False\<rparr>"

theorem sync_failure_reported_witness:
  "\<exists>t' w' st. run_sync sample_env (sample_task bad_config) (sync_world bad_config []) = (None, t', w')
    \<and> map_of (mw_kv w') (status_key ''app-1'' ''task-1'') = Some (DocStatus st) \<and> ts_Progress st = TaskProgressFailure"
proof -
  have "fst (sync_stages sample_env (sample_task bad_config) (sync_world bad_config [])) = Some (Err ''add request to dns server failed'')"
    by code_simp
  then obtain t1 w1 where s: "sync_stages sample_env (sample_task bad_config) (sync_world bad_config [])
      = (Some (Err ''add request to dns server failed''), t1, w1)"
    by (metis prod.collapse)
  have "fst (run_sync sample_env (sample_task bad_config) (sync_world bad_config [])) = None"
    by code_simp
  then obtain t' w' where r: "run_sync sample_env (sample_task bad_config) (sync_world bad_config []) = (None, t', w')"
    by (metis prod.collapse)
  have "map_of (mw_kv (sync_world bad_config [])) (status_key (sj_appInstanceId (sample_task bad_config)) (sj_taskId (sample_task bad_config)))
      = Some (DocStatus (sj_status (sample_task bad_config)))"
    by (simp add: sync_world_def sample_task_def path_defs)
  from sync_failure_reported [OF local_sync.sync_ports_axioms this s _ r] r show ?thesis
    by (auto simp: sample_task_def)
qed

definition config_write_faults :: "bool list" where
  "config_write_faults = replicate 9 False @ [True]"

text \<open>A lost configuration is reported as a success.  When the final write of the
  configuration fails (here the registry rejects it, after the reads and the four status
  writes went through), the worker ends as if the task had succeeded: every rule is
  recorded as configured, the progress is complete, no failure reason is stored, the job
  is gone, and no configuration is stored.\<close>

theorem config_write_failure_unreported:
  "let m = map_of (mw_kv (ProcessAppDConfigSync sample_env ''app'' ''app-1'' ''task-1'' (sync_world sample_config config_write_faults))) in
   m (config_key ''app-1'') = None \<and> m (job_key ''app-1'') = None
   \<and> (case m (status_key ''app-1'' ''task-1'') of
        Some (DocStatus st) \<Rightarrow> all_done st \<and> ts_Progress st = 2 \<and> ts_Details st = []
      | _ \<Rightarrow> False)"
  by code_simp

end
