(* ===== verification/Sync_Complete.thy ===== *)
theory Sync_Complete
  imports Sync_Correct
begin

text \<open>
  Progress of the rule synchronisation.  The locale \<open>sync_good\<close> carries one
  induction over the two loops of the worker for any notion of a good result that the
  registry and the ports have; it is used twice: with \<open>no panic\<close>, which gives that
  the worker never dereferences a nil rule on a task whose status matches its records,
  and with \<open>no error\<close> (\<open>sync_reliable\<close>), which gives that it completes.
  Together with the staging of \<open>Appd\<close> this yields the end-to-end theorems on an
  application configuration.
\<close>

section \<open>A status that matches its records\<close>

definition rules_covered :: "string list \<Rightarrow> string list \<Rightarrow> (string \<times> OperType) list \<Rightarrow> bool" where
  "rules_covered jobIds configIds rules \<longleftrightarrow>
     list_all (\<lambda>(i, m). case m of
         OperCreate \<Rightarrow> i \<in> set jobIds
       | OperModify \<Rightarrow> i \<in> set jobIds \<and> i \<in> set configIds
       | OperDelete \<Rightarrow> i \<in> set configIds) rules"

definition covered :: "sync_task \<Rightarrow> bool" where
  "covered t \<longleftrightarrow>
     rules_covered (map dr_DNSRuleID (ac_AppDNSRule (sj_job t))) (map dr_DNSRuleID (config_dns t)) (fst (status_shape (sj_status t)))
     \<and> rules_covered (map tr_TrafficRuleID (ac_AppTrafficRule (sj_job t))) (map tr_TrafficRuleID (config_traffic t))
         (snd (status_shape (sj_status t)))"

lemma config_act_ids:
  assumes "config_act c c'"
  shows "map dr_DNSRuleID (ac_AppDNSRule c') = map dr_DNSRuleID (ac_AppDNSRule c)"
    "map tr_TrafficRuleID (ac_AppTrafficRule c') = map tr_TrafficRuleID (ac_AppTrafficRule c)"
proof -
  have "list_all2 dns_act l l' \<Longrightarrow> map dr_DNSRuleID l' = map dr_DNSRuleID l" for l l'
    by (induction l l' rule: list_all2_induct) (auto simp: dns_act_def)
  moreover have "list_all2 traffic_act l l' \<Longrightarrow> map tr_TrafficRuleID l' = map tr_TrafficRuleID l" for l l'
    by (induction l l' rule: list_all2_induct) (auto simp: traffic_act_def)
  ultimately show "map dr_DNSRuleID (ac_AppDNSRule c') = map dr_DNSRuleID (ac_AppDNSRule c)"
    "map tr_TrafficRuleID (ac_AppTrafficRule c') = map tr_TrafficRuleID (ac_AppTrafficRule c)"
    using assms by (simp_all add: config_act_def)
qed

lemma covered_same: "same_task t t' \<Longrightarrow> status_shape (sj_status t') = status_shape (sj_status t) \<Longrightarrow> covered t' = covered t"
  by (cases "sj_config t"; cases "sj_config t'")
    (auto simp: covered_def same_task_def config_dns_def config_traffic_def config_act_ids)

text \<open>The pointers the maps give for an id.\<close>

lemma put_all_dom:
  "map_of (fold (\<lambda>(i, r). al_put (rid r) (b, i)) (enumerate n l) m) k = None \<longleftrightarrow> k \<notin> rid ` set l \<and> map_of m k = None"
  by (induction l arbitrary: n m) auto

lemma put_new_dom:
  "map_of (fold (\<lambda>(i, r) m. if map_of m (rid r) = None then al_put (rid r) (b, i) m else m) (enumerate n l) m) k = None
   \<longleftrightarrow> k \<notin> rid ` set l \<and> map_of m k = None"
  by (induction l arbitrary: n m) auto

lemma generateRuleMap_dom:
  "map_of (fst (generateRuleMap rid b p s)) k = None \<longleftrightarrow> k \<notin> rid ` set p \<and> k \<notin> rid ` set s"
  "map_of (snd (generateRuleMap rid b p s)) k = None \<longleftrightarrow> k \<notin> rid ` set s"
  by (auto simp: generateRuleMap_def Let_def put_all_dom put_new_dom)

text \<open>The pointers an operation needs: applying a create and reverting a delete add a
  rule, everything else also reads the existing one.\<close>

definition refs_ok :: "FuncType \<Rightarrow> OperType \<Rightarrow> rule_ref option \<Rightarrow> rule_ref option \<Rightarrow> bool" where
  "refs_ok ft m new old \<longleftrightarrow> new \<noteq> None
     \<and> (old \<noteq> None \<or> ft = ApplyFunc \<and> m = OperCreate \<or> ft = RevertFunc \<and> m = OperDelete)"

lemma refs_covered:
  assumes "rules_covered (map rid job) (map rid cfg) rules" and "(i, m) \<in> set rules"
  shows "refs_ok ApplyFunc m (map_of (fst (generateRuleMap rid True job cfg)) i) (map_of (snd (generateRuleMap rid True job cfg)) i)"
    and "refs_ok RevertFunc m (map_of (fst (generateRuleMap rid False cfg job)) i) (map_of (snd (generateRuleMap rid False cfg job)) i)"
  using assms by (auto simp: rules_covered_def list_all_iff refs_ok_def generateRuleMap_dom split: OperType.splits) 

fun rule_shape :: "AppDRuleType \<Rightarrow> TaskStatus \<Rightarrow> (string \<times> OperType) list" where
  "rule_shape RuleTypeDns s = fst (status_shape s)"
| "rule_shape RuleTypeTraffic s = snd (status_shape s)"

lemma rule_shape_list: "rule_shape ruleType s = map (\<lambda>r. (rs_Id r, rs_Method r)) (status_list ruleType s)"
  by (cases ruleType) (simp_all add: status_shape_def)

lemma searchRule_None: "searchRule l i = None \<longleftrightarrow> i \<notin> rs_Id ` set l"
  by (induction l) auto

section \<open>Good results\<close>

locale sync_good = sync_ports E kv for E :: "'w sync_env" and kv :: "'w \<Rightarrow> string \<Rightarrow> doc option" +
  fixes good :: "go_error option \<Rightarrow> bool"
  assumes good_None: "good None"
    and add_traffic_good: "good (fst (dp_AddTrafficRule (se_dataPlane E) a i f ac p fl w))"
    and set_traffic_good: "good (fst (dp_SetTrafficRule (se_dataPlane E) a i f ac p fl w))"
    and delete_traffic_good: "good (fst (dp_DeleteTrafficRule (se_dataPlane E) a i w))"
    and add_dns_good: "good (fst (dp_AddDNSRule (se_dataPlane E) a i d ty ip ttl w))"
    and set_dns_good: "good (fst (dp_SetDNSRule (se_dataPlane E) a i d ty ip ttl w))"
    and delete_dns_good: "good (fst (dp_DeleteDNSRule (se_dataPlane E) a i w))"
    and add_rr_good: "good (fst (da_AddResourceRecord (se_dnsAgent E) h ty c rd ttl w))"
    and set_rr_good: "good (fst (da_SetResourceRecord (se_dnsAgent E) h ty c rd ttl w))"
    and delete_rr_good: "good (fst (da_DeleteResourceRecord (se_dnsAgent E) h ty w))"
    and push_good: "good (fst (pushDB (se_R E) t w))"
begin

lemmas ports_good = good_None add_traffic_good set_traffic_good delete_traffic_good add_dns_good set_dns_good delete_dns_good
  add_rr_good set_rr_good delete_rr_good

lemma fst_lift_op [simp]: "fst (lift_op t r) = fst r"
  by (simp add: lift_op_def)

lemma dns_good:
  "n \<noteq> None \<Longrightarrow> good (fst (addDNSOnMp2 E i n x t w))" "n \<noteq> None \<Longrightarrow> x \<noteq> None \<Longrightarrow> good (fst (setDNSOnMp2 E i n x t w))"
  "x \<noteq> None \<Longrightarrow> good (fst (deleteDNSOnMp2 E i n x t w))"
  "n \<noteq> None \<Longrightarrow> good (fst (addDNSOnLocalDns E i n x t w))" "n \<noteq> None \<Longrightarrow> x \<noteq> None \<Longrightarrow> good (fst (setDNSOnLocalDns E i n x t w))"
  "n \<noteq> None \<Longrightarrow> x \<noteq> None \<Longrightarrow> good (fst (deleteDNSOnLocalDns E i n x t w))"
  unfolding addDNSOnMp2_def setDNSOnMp2_def deleteDNSOnMp2_def addDNSOnLocalDns_def setDNSOnLocalDns_def deleteDNSOnLocalDns_def Let_def
  by (cases n; cases x; simp add: ports_good)+

lemma traffic_good:
  "n \<noteq> None \<Longrightarrow> good (fst (addTrafficOnMp2 E i n x t w))" "n \<noteq> None \<Longrightarrow> x \<noteq> None \<Longrightarrow> good (fst (setTrafficOnMp2 E i n x t w))"
  "x \<noteq> None \<Longrightarrow> good (fst (deleteTrafficOnMp2 E i n x t w))"
  unfolding addTrafficOnMp2_def setTrafficOnMp2_def deleteTrafficOnMp2_def Let_def
  by (cases n; cases x; simp add: ports_good)+

lemma machine_good:
  "state_machine E ruleType m s = Some (f, g) \<Longrightarrow>
   (refs_ok ApplyFunc m n x \<longrightarrow> good (fst (f i n x t w))) \<and> (refs_ok RevertFunc m n x \<longrightarrow> good (fst (g i n x t w)))"
  by (cases ruleType; cases m)
    (auto simp: dnsStateMachine_def trfStateMachine_def refs_ok_def dns_good traffic_good split: if_splits)

lemma machine_step_good:
  "refs_ok ApplyFunc m n x \<Longrightarrow>
     (case state_machine E ruleType m s of None \<Rightarrow> (None, t, w) | Some (f, g) \<Rightarrow> f i n x t w) = (e, t', w') \<Longrightarrow> good e"
  "refs_ok RevertFunc m n x \<Longrightarrow>
     (case state_machine E ruleType m s of None \<Rightarrow> (None, t, w) | Some (f, g) \<Rightarrow> g i n x t w) = (e, t', w') \<Longrightarrow> good e"
  using machine_good [of ruleType m s _ _ n x i t w]
  by (auto simp: good_None split: option.splits prod.splits)

lemma note_error_good: "note_error m e t w = (e', t', w') \<Longrightarrow> good (Some e) \<Longrightarrow> good e'"
  by (cases e) (auto simp: note_error_def)

lemma setState_good:
  assumes "setStateAndProgress (se_R E) ruleType i n t w = (e, t', w')" and "i \<in> fst ` set (rule_shape ruleType (sj_status t))"
  shows "good e"
proof -
  obtain j where j: "searchRule (status_list ruleType (sj_status t)) i = Some j"
    using assms(2) searchRule_None [of "status_list ruleType (sj_status t)" i] by (force simp: rule_shape_list)
  define s where "s = (if n = WaitConfigDBWrite
    then (set_rule_state ruleType j n (sj_status t))\<lparr>ts_Progress := ts_Progress (set_rule_state ruleType j n (sj_status t)) + 1\<rparr>
    else set_rule_state ruleType j n (sj_status t))"
  obtain e1 t1 w1 where p: "pushDB (se_R E) (t\<lparr>sj_status := s\<rparr>) w = (e1, t1, w1)" by (metis prod.exhaust)
  have "e = e1" using assms(1) j p by (simp add: setStateAndProgress_def s_def Let_def split: if_splits)
  then show ?thesis using push_good [of "t\<lparr>sj_status := s\<rparr>" w] p by simp
qed

lemma rule_shape_advanced: "advanced t w t' w' \<Longrightarrow> rule_shape ruleType (sj_status t') = rule_shape ruleType (sj_status t)"
  by (cases ruleType) (simp_all add: advanced_def)

lemma apply_states_good:
  "apply_states E ruleType rs new old states t w = (e, t', w') \<Longrightarrow> refs_ok ApplyFunc (rs_Method rs) new old
   \<Longrightarrow> rs_Id rs \<in> fst ` set (rule_shape ruleType (sj_status t)) \<Longrightarrow> good e"
proof (induction states arbitrary: t w)
  case (Cons s states)
  show ?case
  proof (cases "s < rs_State rs")
    case False
    obtain e1 t1 w1 where m: "(case state_machine E ruleType (rs_Method rs) s of None \<Rightarrow> (None, t, w)
        | Some (f, g) \<Rightarrow> f (rs_Id rs) new old t w) = (e1, t1, w1)" by (metis prod.exhaust)
    have s1: "rule_shape ruleType (sj_status t1) = rule_shape ruleType (sj_status t)"
      using kept_advanced [OF machine_step(1) [OF m]] rule_shape_advanced by blast
    obtain e2 t2 w2 where p: "setStateAndProgress (se_R E) ruleType (rs_Id rs) (s + 1) t1 w1 = (e2, t2, w2)" by (metis prod.exhaust)
    have s2: "rule_shape ruleType (sj_status t2) = rule_shape ruleType (sj_status t)"
      using setState_advanced [OF p] rule_shape_advanced s1 by metis
    have g1: "good e1" using machine_step_good(1) [OF Cons.prems(2) m] .
    have g2: "good e2" using setState_good [OF p] Cons.prems(3) s1 by simp
    consider (op) x where "e1 = Some x" "note_error (fail_message ruleType ApplyFunc False) x t1 w1 = (e, t', w')"
      | (state) x where "e2 = Some x" "note_error (fail_message ruleType ApplyFunc True) x t2 w2 = (e, t', w')"
      | (next_state) "apply_states E ruleType rs new old states t2 w2 = (e, t', w')"
      using False Cons.prems(1) m p by (auto split: option.splits)
    then show ?thesis
      using Cons.IH Cons.prems(2,3) s2 g1 g2 by cases (auto dest: note_error_good)
  qed (use Cons in auto)
qed (simp add: good_None)

lemma revert_states_good:
  "revert_states E ruleType rs new old states t w = (e, t', w') \<Longrightarrow> refs_ok RevertFunc (rs_Method rs) new old
   \<Longrightarrow> rs_Id rs \<in> fst ` set (rule_shape ruleType (sj_status t)) \<Longrightarrow> good e"
proof (induction states arbitrary: t w)
  case (Cons s states)
  show ?case
  proof (cases "rs_State rs \<le> s")
    case False
    obtain e1 t1 w1 where m: "(case state_machine E ruleType (rs_Method rs) s of None \<Rightarrow> (None, t, w)
        | Some (f, g) \<Rightarrow> g (rs_Id rs) new old t w) = (e1, t1, w1)" by (metis prod.exhaust)
    have s1: "rule_shape ruleType (sj_status t1) = rule_shape ruleType (sj_status t)"
      using kept_advanced [OF machine_step(2) [OF m]] rule_shape_advanced by blast
    obtain e2 t2 w2 where p: "setStateAndProgress (se_R E) ruleType (rs_Id rs) (s - 1) t1 w1 = (e2, t2, w2)" by (metis prod.exhaust)
    have s2: "rule_shape ruleType (sj_status t2) = rule_shape ruleType (sj_status t)"
      using setState_advanced [OF p] rule_shape_advanced s1 by metis
    have g1: "good e1" using machine_step_good(2) [OF Cons.prems(2) m] .
    have g2: "good e2" using setState_good [OF p] Cons.prems(3) s1 by simp
    consider (op) x where "e1 = Some x" "note_error (fail_message ruleType RevertFunc False) x t1 w1 = (e, t', w')"
      | (first) "e = None"
      | (state) x where "e2 = Some x" "note_error (fail_message ruleType RevertFunc True) x t2 w2 = (e, t', w')"
      | (next_state) "revert_states E ruleType rs new old states t2 w2 = (e, t', w')"
      using False Cons.prems(1) m p by (auto split: option.splits if_splits)
    then show ?thesis
      using Cons.IH Cons.prems(2,3) s2 g1 g2 good_None by cases (auto dest: note_error_good)
  qed (use Cons in auto)
qed (simp add: good_None)

lemma rules_loop_good:
  "rules_loop E ruleType ft nm om is t w = (e, t', w')
   \<Longrightarrow> \<forall>(i, m)\<in>set (rule_shape ruleType (sj_status t)). refs_ok ft m (map_of nm i) (map_of om i)
   \<Longrightarrow> \<forall>j\<in>set is. j < length (status_list ruleType (sj_status t)) \<Longrightarrow> good e"
proof (induction "is" arbitrary: t w)
  case (Cons j "is")
  define rs where "rs = status_list ruleType (sj_status t) ! j"
  have "rs \<in> set (status_list ruleType (sj_status t))" using Cons.prems(3) by (simp add: rs_def)
  then have mem: "(rs_Id rs, rs_Method rs) \<in> set (rule_shape ruleType (sj_status t))" by (auto simp: rule_shape_list)
  then have refs: "refs_ok ft (rs_Method rs) (map_of nm (rs_Id rs)) (map_of om (rs_Id rs))" and
    ids: "rs_Id rs \<in> fst ` set (rule_shape ruleType (sj_status t))" using Cons.prems(2) by force+
  obtain e1 t1 w1 where p: "(if ft = RevertFunc then processEntryRevert E ruleType (map_of nm (rs_Id rs)) (map_of om (rs_Id rs)) rs t w
      else processEntryApply E ruleType (map_of nm (rs_Id rs)) (map_of om (rs_Id rs)) rs t w) = (e1, t1, w1)" by (metis prod.exhaust)
  have g1: "good e1" and a1: "advanced t w t1 w1"
    using p refs ids revert_states_good apply_states_good revert_states_advanced apply_states_advanced
    by (cases ft; auto simp: processEntryRevert_def processEntryApply_def)+
  have sh: "rule_shape ruleType (sj_status t1) = rule_shape ruleType (sj_status t)" by (rule rule_shape_advanced [OF a1])
  then have len: "length (status_list ruleType (sj_status t1)) = length (status_list ruleType (sj_status t))"
    unfolding rule_shape_list by (metis length_map)
  show ?case
  proof (cases e1)
    case None
    with Cons.prems(1) p have "rules_loop E ruleType ft nm om is t1 w1 = (e, t', w')" by (simp add: rs_def Let_def cong: if_cong)
    then show ?thesis using Cons.IH Cons.prems(2,3) sh len by simp
  next
    case (Some x)
    with Cons.prems(1) p have "note_error ''Internal error(invalid function type).'' x t1 w1 = (e, t', w')"
      by (simp add: rs_def Let_def cong: if_cong)
    from note_error_good [OF this] show ?thesis using g1 Some by simp
  qed
qed (simp add: good_None)

lemma handleRules_good:
  assumes "covered t"
  shows "handleDNSRules E ft t w = (e, t', w') \<Longrightarrow> good e" and "handleTrafficRules E ft t w = (e, t', w') \<Longrightarrow> good e"
proof -
  have dns: "\<forall>(i, m)\<in>set (rule_shape RuleTypeDns (sj_status t)).
      refs_ok ft m (map_of (fst (generateDnsRuleMap ft t)) i) (map_of (snd (generateDnsRuleMap ft t)) i)"
    using assms refs_covered [of dr_DNSRuleID] by (cases ft) (auto simp: generateDnsRuleMap_def covered_def)
  have trf: "\<forall>(i, m)\<in>set (rule_shape RuleTypeTraffic (sj_status t)).
      refs_ok ft m (map_of (fst (generateTrafficRuleMap ft t)) i) (map_of (snd (generateTrafficRuleMap ft t)) i)"
    using assms refs_covered [of tr_TrafficRuleID] by (cases ft) (auto simp: generateTrafficRuleMap_def covered_def)
  show "handleDNSRules E ft t w = (e, t', w') \<Longrightarrow> good e"
    using rules_loop_good [OF _ dns] by (auto simp: handleDNSRules_def split: prod.splits)
  show "handleTrafficRules E ft t w = (e, t', w') \<Longrightarrow> good e"
    using rules_loop_good [OF _ trf] by (auto simp: handleTrafficRules_def split: prod.splits)
qed

lemma covered_advanced: "advanced t w t' w' \<Longrightarrow> covered t' = covered t"
  by (simp add: advanced_def covered_same)

end

section \<open>No panic\<close>

fun calm_error :: "go_error option \<Rightarrow> bool" where
  "calm_error (Some (Panic p)) = False"
| "calm_error _ = True"

locale sync_calm = sync_good E kv calm_error for E :: "'w sync_env" and kv :: "'w \<Rightarrow> string \<Rightarrow> doc option"
begin

lemma note_error_calm: "note_error m e t w = (e', t', w') \<Longrightarrow> calm_error (Some e) \<Longrightarrow> calm_error e'"
  by (rule note_error_good)

lemma config_write_calm: "calm_error (fst (handleConfigDBWriteOnSuccess E t w))"
  by (simp add: handleConfigDBWriteOnSuccess_def Let_def split: option.split prod.split)

lemma stages_calm:
  assumes "covered t" and "sync_stages E t w = (e, t', w')"
  shows "calm_error e \<and> covered t'"
proof -
  obtain e1 t1 w1 where d: "handleDNSRules E ApplyFunc t w = (e1, t1, w1)" by (metis prod.exhaust)
  obtain e2 t2 w2 where f: "handleTrafficRules E ApplyFunc t1 w1 = (e2, t2, w2)" by (metis prod.exhaust)
  obtain e3 t3 w3 where h: "handleConfigDBWriteOnSuccess E t2 w2 = (e3, t3, w3)" by (metis prod.exhaust)
  have c1: "covered t1" and c2: "covered t2"
    using handleRules_advanced(1) [OF d] handleRules_advanced(2) [OF f] covered_advanced assms(1) by blast+
  have g: "calm_error e1" "calm_error e2" "calm_error e3"
    using handleRules_good(1) [OF assms(1) d] handleRules_good(2) [OF c1 f] config_write_calm [of t2 w2] h by auto
  have c3: "covered t3"
    using h c2 by (auto simp: handleConfigDBWriteOnSuccess_def Let_def setFailureReason_def covered_def config_dns_def
        config_traffic_def status_shape_def split: option.splits prod.splits if_splits)
  have ne: "calm_error e \<and> covered t'" if "note_error m x u v = (e, t', w')" "calm_error (Some x)" "covered u" for m x u v
    using that by (cases x) (auto simp: note_error_def setFailureReason_def covered_def config_dns_def config_traffic_def
        status_shape_def split: if_splits)
  show ?thesis
    using assms(2) d f h g c1 c2 c3 ne by (auto simp: sync_stages_def split: option.splits)
qed

lemma revert_calm:
  assumes "covered t" and "handleErrorOnProcessing E t w = (e, t', w')"
  shows "calm_error e"
proof -
  obtain e1 t1 w1 where d: "handleDNSRules E RevertFunc t w = (e1, t1, w1)" by (metis prod.exhaust)
  obtain e2 t2 w2 where f: "handleTrafficRules E RevertFunc t1 w1 = (e2, t2, w2)" by (metis prod.exhaust)
  let ?t2 = "t2\<lparr>sj_status := (sj_status t2)\<lparr>ts_Progress := TaskProgressFailure\<rparr>\<rparr>"
  obtain e3 t3 w3 where p: "pushDB (se_R E) ?t2 w2 = (e3, t3, w3)" by (metis prod.exhaust)
  have "covered t1" using handleRules_advanced(1) [OF d] covered_advanced assms(1) by blast
  then have "calm_error e1" "calm_error e2" "calm_error e3"
    using handleRules_good(1) [OF assms(1) d] handleRules_good(2) [OF _ f] push_good [of ?t2 w2] p by auto
  moreover have "calm_error (fst (cleanProcessingCache E a v))" for a v
    by (simp add: cleanProcessingCache_def split: prod.split)
  ultimately show ?thesis
    using assms(2) d f p by (auto simp: handleErrorOnProcessing_def lift_op_def split: option.splits)
qed

lemma run_calm: "covered t \<Longrightarrow> run_sync E t w = (e, t', w') \<Longrightarrow> calm_error e"
  using stages_calm [of t w] revert_calm
  by (auto simp: run_sync_def split: prod.splits option.splits go_error.splits)

end

section \<open>Completion\<close>

text \<open>The status once every rule is configured.\<close>

definition rule_done :: "RuleStatus \<Rightarrow> RuleStatus" where
  "rule_done r = r\<lparr>rs_State := WaitConfigDBWrite\<rparr>"

definition finish_rules :: "AppDRuleType \<Rightarrow> nat \<Rightarrow> TaskStatus \<Rightarrow> TaskStatus" where
  "finish_rules ruleType k s =
     (set_status_list ruleType (take k (status_list ruleType s) @ map rule_done (drop k (status_list ruleType s))) s)
       \<lparr>ts_Progress := ts_Progress s + int (length (status_list ruleType s) - k)\<rparr>"

definition finish_status :: "TaskStatus \<Rightarrow> TaskStatus" where
  "finish_status s = finish_rules RuleTypeTraffic 0 (finish_rules RuleTypeDns 0 s)"

lemma status_list_set [simp]:
  "status_list ruleType (set_status_list ruleType l s) = l"
  "status_list ruleType (s\<lparr>ts_Progress := p\<rparr>) = status_list ruleType s"
  "ts_Progress (set_status_list ruleType l s) = ts_Progress s"
  "set_status_list ruleType l (set_status_list ruleType l' s) = set_status_list ruleType l s"
  "set_status_list ruleType l (s\<lparr>ts_Progress := p\<rparr>) = (set_status_list ruleType l s)\<lparr>ts_Progress := p\<rparr>"
  "set_status_list ruleType (status_list ruleType s) s = s"
  by (cases ruleType; simp)+

lemma all_done_finish: "all_done (finish_status s)"
  by (simp add: finish_status_def finish_rules_def all_done_def rule_done_def list_all_iff)

lemma finish_rules_end: "finish_rules ruleType (length (status_list ruleType s)) s = s"
  by (simp add: finish_rules_def)

lemma finish_rules_step:
  assumes "k < length (status_list ruleType s)"
  shows "finish_rules ruleType (Suc k) ((set_rule_state ruleType k WaitConfigDBWrite s)\<lparr>ts_Progress := ts_Progress s + 1\<rparr>) = finish_rules ruleType k s"
proof -
  let ?l = "status_list ruleType s"
  have "take (Suc k) (?l[k := rule_done (?l ! k)]) @ map rule_done (drop (Suc k) (?l[k := rule_done (?l ! k)]))
      = take k ?l @ map rule_done (drop k ?l)"
    using assms by (simp add: take_Suc_conv_app_nth Cons_nth_drop_Suc [symmetric])
  moreover have "int (length ?l - k) = 1 + int (length ?l - Suc k)" using assms by simp
  ultimately show ?thesis
    by (simp add: finish_rules_def set_rule_state_def rule_done_def [symmetric])
qed

lemma searchRule_distinct: "distinct (map rs_Id l) \<Longrightarrow> k < length l \<Longrightarrow> searchRule l (rs_Id (l ! k)) = Some k"
proof (induction l arbitrary: k)
  case (Cons r l)
  show ?case
  proof (cases k)
    case (Suc j)
    with Cons.prems have "rs_Id r \<noteq> rs_Id (l ! j)" by (metis Suc_less_eq distinct.simps(2) length_Cons length_map list.simps(9) nth_map nth_mem)
    with Suc Cons show ?thesis by simp
  qed simp
qed simp

text \<open>A task that has not been started: every rule waits, no id is listed twice.\<close>

definition fresh_rules :: "RuleStatus list \<Rightarrow> bool" where
  "fresh_rules l \<longleftrightarrow> list_all (\<lambda>r. rs_State r = WaitMp2) l \<and> distinct (map rs_Id l)"

definition fresh :: "TaskStatus \<Rightarrow> bool" where
  "fresh s \<longleftrightarrow> fresh_rules (ts_DNSRuleStatusLst s) \<and> fresh_rules (ts_TrafficRuleStatusLst s)"

text \<open>The registry after a completed synchronisation: the status is finished, the
  configuration written, the job removed.\<close>

definition sync_result :: "AppDConfig \<Rightarrow> string \<Rightarrow> string \<Rightarrow> TaskStatus \<Rightarrow> (string \<Rightarrow> doc option) \<Rightarrow> string \<Rightarrow> doc option" where
  "sync_result job app task st m =
     (\<lambda>k. if has_prefix k (job_key app) then None
          else config_outcome job app (m(status_key app task \<mapsto> DocStatus (finish_status st))) k)"

text \<open>The configuration the registry holds for an application, as a read of its key
  finds it.\<close>

definition stored_config :: "(string \<Rightarrow> doc option) \<Rightarrow> string \<Rightarrow> AppDConfig option \<Rightarrow> bool" where
  "stored_config m app cfg \<longleftrightarrow> m (config_key app) = map_option DocAppD cfg
     \<and> (cfg = None \<longrightarrow> (\<forall>k. has_prefix k (config_key app) \<longrightarrow> m k = None))"

locale sync_reliable = sync_good E kv "\<lambda>e. e = None" for E :: "'w sync_env" and kv :: "'w \<Rightarrow> string \<Rightarrow> doc option" +
  assumes get_sure: "is_ok (fst (reg_get (se_R E) p w))"
    and put_sure: "fst (reg_put (se_R E) p d w) = None"
    and del_sure: "fst (reg_del (se_R E) p w) = None"
begin

lemma setState_done:
  assumes "setStateAndProgress (se_R E) ruleType (rs_Id (status_list ruleType (sj_status t) ! k)) n t w = (e, t', w')"
    and "distinct (map rs_Id (status_list ruleType (sj_status t)))" and "k < length (status_list ruleType (sj_status t))"
  shows "e = None \<and> t' = t\<lparr>sj_status := (set_rule_state ruleType k n (sj_status t))
    \<lparr>ts_Progress := ts_Progress (sj_status t) + (if n = WaitConfigDBWrite then 1 else 0)\<rparr>\<rparr>"
proof -
  have pr: "ts_Progress (set_rule_state ruleType k m s) = ts_Progress s" for m s
    by (simp add: set_rule_state_def)
  define s where "s = (set_rule_state ruleType k n (sj_status t))
    \<lparr>ts_Progress := ts_Progress (sj_status t) + (if n = WaitConfigDBWrite then 1 else 0)\<rparr>"
  have s: "s = (if n = WaitConfigDBWrite
    then (set_rule_state ruleType k n (sj_status t))\<lparr>ts_Progress := ts_Progress (set_rule_state ruleType k n (sj_status t)) + 1\<rparr>
    else set_rule_state ruleType k n (sj_status t))"
    by (simp add: s_def pr)
  obtain e1 t1 w1 where p: "pushDB (se_R E) (t\<lparr>sj_status := s\<rparr>) w = (e1, t1, w1)" by (metis prod.exhaust)
  have "e1 = None" using push_good [of "t\<lparr>sj_status := s\<rparr>" w] unfolding p fst_conv .
  moreover have "t1 = t\<lparr>sj_status := s\<rparr>" by (rule conjunct1 [OF pushDB_cases [OF p]])
  ultimately have "e = None \<and> t' = t\<lparr>sj_status := s\<rparr>" using assms(1) p
    by (simp add: setStateAndProgress_def searchRule_distinct [OF assms(2,3)] s Let_def split: if_splits)
  then show ?thesis by (simp add: s_def)
qed

text \<open>Applying one entry in the first state takes it through all states.\<close>

lemma apply_entry_done:
  assumes "processEntryApply E ruleType new old (status_list ruleType (sj_status t) ! k) t w = (None, t', w')"
    and "distinct (map rs_Id (status_list ruleType (sj_status t)))" and "k < length (status_list ruleType (sj_status t))"
    and "rs_State (status_list ruleType (sj_status t) ! k) = WaitMp2"
    and refs: "refs_ok ApplyFunc (rs_Method (status_list ruleType (sj_status t) ! k)) new old"
  shows "sj_status t' = (set_rule_state ruleType k WaitConfigDBWrite (sj_status t))\<lparr>ts_Progress := ts_Progress (sj_status t) + 1\<rparr>"
proof -
  let ?rs = "status_list ruleType (sj_status t) ! k"
  obtain e1 t1 w1 where m1: "(case state_machine E ruleType (rs_Method ?rs) 0 of None \<Rightarrow> (None, t, w)
      | Some (f, g) \<Rightarrow> f (rs_Id ?rs) new old t w) = (e1, t1, w1)" by (metis prod.exhaust)
  obtain e2 t2 w2 where p1: "setStateAndProgress (se_R E) ruleType (rs_Id ?rs) 1 t1 w1 = (e2, t2, w2)" by (metis prod.exhaust)
  obtain e3 t3 w3 where m2: "(case state_machine E ruleType (rs_Method ?rs) 1 of None \<Rightarrow> (None, t2, w2)
      | Some (f, g) \<Rightarrow> f (rs_Id ?rs) new old t2 w2) = (e3, t3, w3)" by (metis prod.exhaust)
  obtain e4 t4 w4 where p2: "setStateAndProgress (se_R E) ruleType (rs_Id ?rs) 2 t3 w3 = (e4, t4, w4)" by (metis prod.exhaust)
  have s1: "sj_status t1 = sj_status t" and s3: "sj_status t3 = sj_status t2"
    using machine_step(1) [OF m1] machine_step(1) [OF m2] by simp_all
  have q1: "e2 = None" "sj_status t2 = (set_rule_state ruleType k 1 (sj_status t))\<lparr>ts_Progress := ts_Progress (sj_status t)\<rparr>"
    using setState_done [of ruleType t1 k 1 w1 e2 t2 w2] p1 assms(2,3) s1 by (simp_all add: wait_defs)
  have ids: "map rs_Id (status_list ruleType (sj_status t2)) = map rs_Id (status_list ruleType (sj_status t))"
    by (simp add: q1 set_rule_state_def map_update_same)
  have "rs_Id (status_list ruleType (sj_status t3) ! k) = rs_Id ?rs" "k < length (status_list ruleType (sj_status t3))"
    using assms(3) by (simp_all add: s3 q1 set_rule_state_def)
  then have q2: "sj_status t4 = (set_rule_state ruleType k 2 (sj_status t2))\<lparr>ts_Progress := ts_Progress (sj_status t2) + 1\<rparr>" "e4 = None"
    using setState_done [of ruleType t3 k 2 w3 e4 t4 w4] p2 assms(2) s3 ids by (simp_all add: wait_defs)
  have e1: "e1 = None" and e3: "e3 = None"
    using machine_step_good(1) [OF refs m1] machine_step_good(1) [OF refs m2] by simp_all
  have "[WaitMp2..<WaitConfigDBWrite] = [0, 1]" by (simp add: wait_defs upt_conv_Cons)
  then have e: "t' = t4"
    using assms(1,4) m1 p1 m2 p2 q1(1) q2(2) e1 e3
    by (simp add: processEntryApply_def WaitMp2_def Let_def numeral_2_eq_2 [symmetric])
  have "set_rule_state ruleType k 2 (set_rule_state ruleType k 1 (sj_status t)) = set_rule_state ruleType k 2 (sj_status t)"
    using assms(3) by (simp add: set_rule_state_def)
  then show ?thesis
    using q1 q2 e by (simp add: set_rule_state_def wait_defs)
qed

lemma rules_loop_done:
  "rules_loop E ruleType ApplyFunc nm om [k..<n] t w = (e, t', w') \<Longrightarrow> n = length (status_list ruleType (sj_status t)) \<Longrightarrow> k \<le> n
   \<Longrightarrow> distinct (map rs_Id (status_list ruleType (sj_status t)))
   \<Longrightarrow> \<forall>j. k \<le> j \<longrightarrow> j < n \<longrightarrow> rs_State (status_list ruleType (sj_status t) ! j) = WaitMp2
   \<Longrightarrow> \<forall>(i, m)\<in>set (rule_shape ruleType (sj_status t)). refs_ok ApplyFunc m (map_of nm i) (map_of om i)
   \<Longrightarrow> e = None \<and> sj_status t' = finish_rules ruleType k (sj_status t)"
proof (induction "n - k" arbitrary: k t w)
  case 0
  then show ?case using finish_rules_end [of ruleType "sj_status t"] by simp
next
  case (Suc d)
  then have k: "k < n" by simp
  define rs where "rs = status_list ruleType (sj_status t) ! k"
  have "(rs_Id rs, rs_Method rs) \<in> set (rule_shape ruleType (sj_status t))"
    using k Suc.prems(2) by (simp add: rs_def rule_shape_list)
  then have refs: "refs_ok ApplyFunc (rs_Method rs) (map_of nm (rs_Id rs)) (map_of om (rs_Id rs))"
    and found: "rs_Id rs \<in> fst ` set (rule_shape ruleType (sj_status t))" using Suc.prems(6) by force+
  obtain e1 t1 w1 where p: "processEntryApply E ruleType (map_of nm (rs_Id rs)) (map_of om (rs_Id rs)) rs t w = (e1, t1, w1)"
    by (metis prod.exhaust)
  have e1: "e1 = None" using apply_states_good [OF p [unfolded processEntryApply_def] refs found] .
  have loop: "rules_loop E ruleType ApplyFunc nm om [Suc k..<n] t1 w1 = (e, t', w')"
    using Suc.prems(1) k p e1 by (simp add: upt_conv_Cons rs_def Let_def)
  have st: "sj_status t1 = (set_rule_state ruleType k WaitConfigDBWrite (sj_status t))\<lparr>ts_Progress := ts_Progress (sj_status t) + 1\<rparr>"
    using apply_entry_done [OF p [unfolded rs_def e1] Suc.prems(4)] k Suc.prems(2,5) refs by (simp add: rs_def)
  have sh: "rule_shape ruleType (sj_status t1) = rule_shape ruleType (sj_status t)"
    using apply_states_advanced [OF p [unfolded processEntryApply_def]] rule_shape_advanced by blast
  have l: "status_list ruleType (sj_status t1) = (status_list ruleType (sj_status t))[k := rs\<lparr>rs_State := WaitConfigDBWrite\<rparr>]"
    by (simp add: st set_rule_state_def rs_def)
  have "e = None \<and> sj_status t' = finish_rules ruleType (Suc k) (sj_status t1)"
  proof (rule Suc.hyps(1) [OF _ loop])
    show "distinct (map rs_Id (status_list ruleType (sj_status t1)))"
      using Suc.prems(4) by (simp add: l map_update_same rs_def)
  qed (use Suc.hyps(2) Suc.prems(2,5,6) k sh l in auto)
  then show ?case using finish_rules_step [of k ruleType "sj_status t"] k Suc.prems(2) by (simp add: st)
qed

lemma handleDNS_done:
  assumes "handleDNSRules E ApplyFunc t w = (e, t', w')" and "covered t" and "fresh_rules (ts_DNSRuleStatusLst (sj_status t))"
  shows "e = None \<and> sj_status t' = finish_rules RuleTypeDns 0 (sj_status t)"
proof -
  let ?m = "generateDnsRuleMap ApplyFunc t"
  have refs: "\<forall>(i, m)\<in>set (rule_shape RuleTypeDns (sj_status t)). refs_ok ApplyFunc m (map_of (fst ?m) i) (map_of (snd ?m) i)"
    using assms(2) refs_covered(1) [of dr_DNSRuleID] by (auto simp: generateDnsRuleMap_def covered_def)
  show ?thesis
    by (rule rules_loop_done [OF _ _ _ _ _ refs])
      (use assms(1,3) in \<open>auto simp: handleDNSRules_def fresh_rules_def list_all_length split: prod.splits\<close>)
qed

lemma handleTraffic_done:
  assumes "handleTrafficRules E ApplyFunc t w = (e, t', w')" and "covered t" and "fresh_rules (ts_TrafficRuleStatusLst (sj_status t))"
  shows "e = None \<and> sj_status t' = finish_rules RuleTypeTraffic 0 (sj_status t)"
proof -
  let ?m = "generateTrafficRuleMap ApplyFunc t"
  have refs: "\<forall>(i, m)\<in>set (rule_shape RuleTypeTraffic (sj_status t)). refs_ok ApplyFunc m (map_of (fst ?m) i) (map_of (snd ?m) i)"
    using assms(2) refs_covered(1) [of tr_TrafficRuleID] by (auto simp: generateTrafficRuleMap_def covered_def)
  show ?thesis
    by (rule rules_loop_done [OF _ _ _ _ _ refs])
      (use assms(1,3) in \<open>auto simp: handleTrafficRules_def fresh_rules_def list_all_length split: prod.splits\<close>)
qed

lemma record_sure: "fst (PutRecord (se_R E) p d w) = 0" "fst (DeleteRecord (se_R E) p w) = 0"
  using put_sure [of p d w] del_sure [of p w] by (auto simp: PutRecord_def DeleteRecord_def split: prod.splits option.splits)

lemma config_write_sure:
  assumes "handleConfigDBWriteOnSuccess E t w = (e, t', w')" and "all_done (sj_status t)"
  shows "e = None \<and> kv w' = config_outcome (sj_job t) (sj_appInstanceId t) (kv w) \<and> sj_appInstanceId t' = sj_appInstanceId t
    \<and> sj_status t' = sj_status t"
proof -
  define op where "op = ac_Operation (sj_job t)"
  define t1 where "t1 = t\<lparr>sj_job := (sj_job t)\<lparr>ac_Operation := []\<rparr>\<rparr>"
  obtain c w1 where p: "(if op = MethodPost \<or> op = MethodPut then PutRecord (se_R E) (config_key (sj_appInstanceId t)) (DocAppD (sj_job t1)) w
      else if op = MethodDelete then DeleteRecord (se_R E) (config_key (sj_appInstanceId t)) w else (0, w)) = (c, w1)" by fastforce
  have c: "c = 0" using p record_sure by (auto split: if_splits) (metis fst_conv)+
  have "(e, t', w') = (None, t1, w1)"
    using assms p c by (simp add: handleConfigDBWriteOnSuccess_def all_done_def find_all_done [symmetric] op_def t1_def Let_def cong: if_cong)
  moreover have "kv w1 = config_outcome (sj_job t) (sj_appInstanceId t) (kv w)"
    using p c PutRecord_ok DeleteRecord_ok by (auto simp: config_outcome_def op_def [symmetric] t1_def split: if_splits)
  ultimately show ?thesis by (simp add: t1_def)
qed

lemma stages_done:
  assumes "sync_stages E t w = (e, t', w')" and "covered t" and "fresh (sj_status t)" and "synced t w"
  shows "e = None \<and> sj_appInstanceId t' = sj_appInstanceId t
    \<and> (\<exists>job'. config_act (sj_job t) job' \<and> kv w' = config_outcome job' (sj_appInstanceId t)
          ((kv w)(status_key (sj_appInstanceId t) (sj_taskId t) \<mapsto> DocStatus (finish_status (sj_status t)))))"
proof -
  let ?app = "sj_appInstanceId t" and ?task = "sj_taskId t"
  obtain e1 t1 w1 where d: "handleDNSRules E ApplyFunc t w = (e1, t1, w1)" by (metis prod.exhaust)
  obtain e2 t2 w2 where f: "handleTrafficRules E ApplyFunc t1 w1 = (e2, t2, w2)" by (metis prod.exhaust)
  obtain e3 t3 w3 where h: "handleConfigDBWriteOnSuccess E t2 w2 = (e3, t3, w3)" by (metis prod.exhaust)
  note d' = handleDNS_done [OF d assms(2) conjunct1 [OF assms(3) [unfolded fresh_def]]]
  have a1: "advanced t w t1 w1" "synced t1 w1" using handleRules_advanced(1) [OF d] d' assms(4) by simp_all
  have c1: "covered t1" using covered_advanced [OF a1(1)] assms(2) by simp
  have trf: "ts_TrafficRuleStatusLst (sj_status t1) = ts_TrafficRuleStatusLst (sj_status t)"
    using d' by (simp add: finish_rules_def)
  have f': "e2 = None \<and> sj_status t2 = finish_rules RuleTypeTraffic 0 (sj_status t1)"
    by (rule handleTraffic_done [OF f c1]) (use assms(3) in \<open>simp add: fresh_def trf\<close>)
  have a2: "advanced t w t2 w2" "synced t2 w2"
    using handleRules_advanced(2) [OF f] f' a1 advanced_trans by blast+
  have st: "sj_status t2 = finish_status (sj_status t)" using d' f' by (simp add: finish_status_def)
  have ids: "sj_appInstanceId t2 = ?app" "sj_taskId t2 = ?task" using a2 by (auto simp: advanced_def dest: same_task_ids)
  have "kv w2 = (kv w)(status_key ?app ?task \<mapsto> DocStatus (finish_status (sj_status t)))"
    using a2 ids by (auto simp: advanced_def synced_def st fun_eq_iff)
  moreover have "config_act (sj_job t) (sj_job t2)" using a2 by (simp add: advanced_def same_task_def)
  moreover note config_write_sure [OF h]
  ultimately show ?thesis
    using assms(1) d f h d' f' ids all_done_finish [of "sj_status t"] st by (auto simp: sync_stages_def)
qed

lemma run_sync_done:
  assumes "run_sync E t w = (e, t', w')" and "covered t" and "fresh (sj_status t)" and "synced t w"
  shows "e = None \<and> (\<exists>job'. config_act (sj_job t) job'
      \<and> kv w' = sync_result job' (sj_appInstanceId t) (sj_taskId t) (sj_status t) (kv w))"
proof -
  obtain e1 t1 w1 where s: "sync_stages E t w = (e1, t1, w1)" by (metis prod.exhaust)
  note s' = stages_done [OF s assms(2-4)]
  obtain c w2 where c: "cleanProcessingCache E (sj_appInstanceId t) w1 = (c, w2)" by fastforce
  have "c = None" using c record_sure(2) [of "job_key (sj_appInstanceId t)" w1]
    by (auto simp: cleanProcessingCache_def split: prod.splits if_splits)
  then have "kv w2 = (\<lambda>k. if has_prefix k (job_key (sj_appInstanceId t)) then None else kv w1 k)"
    using clean_cases [OF c] by simp
  moreover have "e = None" "w' = w2" using assms(1) s s' c by (auto simp: run_sync_def)
  moreover from s' obtain job' where "config_act (sj_job t) job'" and "kv w1 = config_outcome job' (sj_appInstanceId t)
      ((kv w)(status_key (sj_appInstanceId t) (sj_taskId t) \<mapsto> DocStatus (finish_status (sj_status t))))" by blast
  ultimately show ?thesis unfolding sync_result_def by (intro conjI exI [of _ job']) metis+
qed

lemma GetRecord_sure:
  "kv w p = Some d \<Longrightarrow> \<exists>w'. GetRecord (se_R E) p w = (Inr d, w') \<and> kv w' = kv w"
  "\<forall>k. has_prefix k p \<longrightarrow> kv w k = None \<Longrightarrow> \<exists>c w'. GetRecord (se_R E) p w = (Inl c, w') \<and> kv w' = kv w"
proof -
  obtain kvs w' where g: "reg_get (se_R E) p w = (Inr kvs, w')"
    using get_sure [of p w] by (cases "reg_get (se_R E) p w") (auto simp: is_ok_iff)
  from get_ok [OF g] have s: "set kvs = {(k, v). has_prefix k p \<and> kv w k = Some v}" and k: "kv w' = kv w" by simp_all
  show "\<exists>w'. GetRecord (se_R E) p w = (Inr d, w') \<and> kv w' = kv w" if "kv w p = Some d"
  proof -
    have "(p, d) \<in> set kvs" using s that by simp
    then have r: "GetRecord (se_R E) p w = (Inr (snd (hd kvs)), w')" using g by (cases kvs) (auto simp: GetRecord_def)
    show ?thesis using GetRecord_exact [OF r that] r k by simp
  qed
  show "\<exists>c w'. GetRecord (se_R E) p w = (Inl c, w') \<and> kv w' = kv w" if "\<forall>k. has_prefix k p \<longrightarrow> kv w k = None"
  proof -
    have "kvs = []" using s that by (cases kvs) auto
    then show ?thesis using g k by (simp add: GetRecord_def)
  qed
qed

lemma newTask_sure:
  assumes "staged w app task job st" and "stored_config (kv w) app cfg"
  shows "\<exists>w'. newTask E name app task w = (Some \<lparr>sj_appName = name, sj_appInstanceId = app, sj_taskId = task, sj_job = job,
      sj_config = cfg, sj_status = st\<rparr>, w') \<and> kv w' = kv w"
proof -
  from GetRecord_sure(1) [of w "job_key app" "DocAppD job"] assms(1) obtain w1 where
    g1: "GetRecord (se_R E) (job_key app) w = (Inr (DocAppD job), w1)" and k1: "kv w1 = kv w" by (auto simp: staged_def)
  have "\<exists>w2. newAppDConfigDB (se_R E) app w1 = (cfg, w2) \<and> kv w2 = kv w1"
  proof (cases cfg)
    case None
    then show ?thesis using GetRecord_sure(2) [of "config_key app" w1] assms(2) k1
      by (auto simp: stored_config_def newAppDConfigDB_def)
  next
    case (Some c)
    then show ?thesis using GetRecord_sure(1) [of w1 "config_key app" "DocAppD c"] assms(2) k1
      by (auto simp: stored_config_def newAppDConfigDB_def)
  qed
  then obtain w2 where g2: "newAppDConfigDB (se_R E) app w1 = (cfg, w2)" and k2: "kv w2 = kv w1" by blast
  from GetRecord_sure(1) [of w2 "status_key app task" "DocStatus st"] assms(1) k1 k2 obtain w3 where
    g3: "GetRecord (se_R E) (status_key app task) w2 = (Inr (DocStatus st), w3)" and k3: "kv w3 = kv w2" by (auto simp: staged_def)
  show ?thesis using g1 g2 g3 k1 k2 k3 by (simp add: newTask_def newAppDJobDB_def newStatusDB_def)
qed

lemma process_done:
  assumes "staged w app task job st" and "stored_config (kv w) app cfg" and "fresh st"
    and "covered \<lparr>sj_appName = name, sj_appInstanceId = app, sj_taskId = task, sj_job = job, sj_config = cfg, sj_status = st\<rparr>"
  shows "\<exists>w' job'. ProcessDataPlaneSync E name app task w = (Inr (), w') \<and> config_act job job'
    \<and> kv w' = sync_result job' app task st (kv w)"
proof -
  let ?t = "\<lparr>sj_appName = name, sj_appInstanceId = app, sj_taskId = task, sj_job = job, sj_config = cfg, sj_status = st\<rparr>"
  obtain h w1 where h: "handleAppTermination E app task w = (h, w1)" by fastforce
  note h' = termination_skipped [OF h assms(1)]
  have "staged w1 app task job st" "stored_config (kv w1) app cfg" using h' assms(1,2) by (simp_all add: staged_def)
  from newTask_sure [OF this, of name] obtain w2 where n: "newTask E name app task w1 = (Some ?t, w2)" and k2: "kv w2 = kv w1" by blast
  obtain e t' w3 where r: "run_sync E ?t w2 = (e, t', w3)" by (metis prod.exhaust)
  have "synced ?t w2" using k2 h' assms(1) by (simp add: synced_def staged_def)
  from run_sync_done [OF r assms(4) _ this] assms(3)
  have "e = None \<and> (\<exists>job'. config_act job job' \<and> kv w3 = sync_result job' app task st (kv w))"
    using k2 h' by simp
  then show ?thesis using h h' n r by (auto simp: ProcessDataPlaneSync_def)
qed

end

section \<open>Staged tasks match their records\<close>

lemma rule_update_covered:
  assumes "reordering iter"
  shows "rules_covered (map rid input) (map rid store) (map (\<lambda>r. (rs_Id r, rs_Method r)) (rule_update iter rid input store))"
    and "fresh_rules (rule_update iter rid input store)"
proof -
  have st: "rs_State r = WaitMp2" if "r \<in> set (rule_update iter rid input store)" for r
    using that update_status_ids by (fastforce simp: rule_update_eq [OF assms])
  have m: "update_method (map_of (id_map rid input) (rs_Id r)) (map_of (id_map rid store) (rs_Id r)) = Some (rs_Method r)"
    if "r \<in> set (rule_update iter rid input store)" for r
    using rule_update_iff [OF assms, of "rs_Id r" "rs_Method r" rid input store] that st [OF that]
    by (metis RuleStatus.surjective old.unit.exhaust)
  have "(case rs_Method r of
         OperCreate \<Rightarrow> rs_Id r \<in> rid ` set input
       | OperModify \<Rightarrow> rs_Id r \<in> rid ` set input \<and> rs_Id r \<in> rid ` set store
       | OperDelete \<Rightarrow> rs_Id r \<in> rid ` set store)"
    if "r \<in> set (rule_update iter rid input store)" for r
    using m [OF that] id_map_None [of rid input "rs_Id r"] id_map_None [of rid store "rs_Id r"]
    by (cases "map_of (id_map rid input) (rs_Id r)"; cases "map_of (id_map rid store) (rs_Id r)")
      (auto simp: update_method_def split: if_splits)
  then show "rules_covered (map rid input) (map rid store) (map (\<lambda>r. (rs_Id r, rs_Method r)) (rule_update iter rid input store))"
    by (simp add: rules_covered_def list_all_iff)
  show "fresh_rules (rule_update iter rid input store)"
    using st rule_update_distinct [OF assms] by (simp add: fresh_rules_def list_all_iff)
qed

text \<open>The rule ids of a configuration are distinct.\<close>

definition distinct_rules :: "AppDConfig \<Rightarrow> bool" where
  "distinct_rules c \<longleftrightarrow> distinct (map dr_DNSRuleID (ac_AppDNSRule c)) \<and> distinct (map tr_TrafficRuleID (ac_AppTrafficRule c))"

lemma build_covered:
  assumes "reordering iter" and "ac_Operation input \<in> {MethodPost, MethodPut, MethodDelete}"
    and "ac_Operation input = MethodPost \<Longrightarrow> distinct_rules input" and "ac_Operation input = MethodDelete \<Longrightarrow> distinct_rules store"
    and "sj_job t = (if ac_Operation input = MethodDelete then store\<lparr>ac_Operation := MethodDelete\<rparr> else input)"
    and "ac_Operation input \<noteq> MethodPost \<Longrightarrow> sj_config t = Some store0 \<and> ac_AppDNSRule store0 = ac_AppDNSRule store
           \<and> ac_AppTrafficRule store0 = ac_AppTrafficRule store"
    and "sj_status t = buildTaskStatus iter input store sub"
  shows "covered t \<and> fresh (sj_status t)"
proof -
  consider (post) "ac_Operation input = MethodPost" | (put) "ac_Operation input = MethodPut" | (del) "ac_Operation input = MethodDelete"
    using assms(2) by auto
  then show ?thesis
  proof cases
    case post
    with assms(3,5,7) show ?thesis
      by (simp add: buildTaskStatus_def handleRuleCreateOrDelete_def new_TaskStatus_def covered_def status_shape_def
          rules_covered_def list_all_iff fresh_def fresh_rules_def distinct_rules_def comp_def)
  next
    case put
    with assms(5-7) show ?thesis
      using rule_update_covered [OF assms(1), of dr_DNSRuleID "ac_AppDNSRule input" "ac_AppDNSRule store"]
        rule_update_covered [OF assms(1), of tr_TrafficRuleID "ac_AppTrafficRule input" "ac_AppTrafficRule store"]
      by (simp add: buildTaskStatus_def handleRuleUpdate_def new_TaskStatus_def covered_def status_shape_def fresh_def
          config_dns_def config_traffic_def)
  next
    case del
    with assms(4-7) show ?thesis
      by (simp add: buildTaskStatus_def handleRuleCreateOrDelete_def new_TaskStatus_def covered_def status_shape_def Let_def
          rules_covered_def list_all_iff fresh_def fresh_rules_def distinct_rules_def comp_def config_dns_def config_traffic_def)
  qed
qed

section \<open>Two environments\<close>

text \<open>A registry that does not fail, and a DNS server that answers every request
  alike.\<close>

definition sure_registry :: "'a mem_world_scheme registry" where
  "sure_registry = \<lparr>
     reg_get = (\<lambda>p w. reg_get (mem_registry True) p (w\<lparr>mw_faults := []\<rparr>)),
     reg_put = (\<lambda>p d w. reg_put (mem_registry True) p d (w\<lparr>mw_faults := []\<rparr>)),
     reg_del = (\<lambda>p w. reg_del (mem_registry True) p (w\<lparr>mw_faults := []\<rparr>))\<rparr>"

definition fixed_env :: "mem_world registry \<Rightarrow> string \<Rightarrow> nat \<Rightarrow> mem_world sync_env" where
  "fixed_env R dnsType code = \<lparr>
     se_R = R, se_dataPlane = NoneDataPlane,
     se_dnsAgent = RestDNSAgent (\<lambda>rq w. (Inr code, w)) (Some ''http://localhost:8080/mep/dns_server_mgmt/v1/''),
     se_dnsType = dnsType, se_iter = rev, se_notify = (\<lambda>callback subId app w. (None, w)), se_sleep = (\<lambda>w. w)\<rparr>"

interpretation sure_etcd: etcd sure_registry "\<lambda>w. map_of (mw_kv w)"
proof
  fix p and w w' :: "'a mem_world_scheme" and kvs
  assume "reg_get sure_registry p w = (Inr kvs, w')"
  then show "map_of (mw_kv w') = map_of (mw_kv w)
      \<and> set kvs = {(k, v). has_prefix k p \<and> map_of (mw_kv w) k = Some v}
      \<and> distinct (map fst kvs) \<and> sorted (map fst kvs)"
    using mem_etcd.get_ok [of True p "w\<lparr>mw_faults := []\<rparr>" kvs w'] by (simp add: sure_registry_def)
next
  fix p e and w w' :: "'a mem_world_scheme"
  assume "reg_get sure_registry p w = (Inl e, w')"
  then show "map_of (mw_kv w') = map_of (mw_kv w)"
    using mem_etcd.get_err [of True p "w\<lparr>mw_faults := []\<rparr>" e w'] by (simp add: sure_registry_def)
next
  fix p v and w w' :: "'a mem_world_scheme"
  assume "reg_put sure_registry p v w = (None, w')"
  then show "map_of (mw_kv w') = (map_of (mw_kv w))(p \<mapsto> v)"
    using mem_etcd.put_ok [of True p v "w\<lparr>mw_faults := []\<rparr>" w'] by (simp add: sure_registry_def)
next
  fix p v e and w w' :: "'a mem_world_scheme"
  assume "reg_put sure_registry p v w = (Some e, w')"
  then show "map_of (mw_kv w') = map_of (mw_kv w)"
    using mem_etcd.put_err [of True p v "w\<lparr>mw_faults := []\<rparr>" e w'] by (simp add: sure_registry_def)
next
  fix p and w w' :: "'a mem_world_scheme"
  assume "reg_del sure_registry p w = (None, w')"
  then show "map_of (mw_kv w') = (\<lambda>k. if has_prefix k p then None else map_of (mw_kv w) k)"
    using mem_etcd.del_ok [of True p "w\<lparr>mw_faults := []\<rparr>" w'] by (auto simp: sure_registry_def fun_eq_iff)
next
  fix p e and w w' :: "'a mem_world_scheme"
  assume "reg_del sure_registry p w = (Some e, w')"
  then show "map_of (mw_kv w') = map_of (mw_kv w)"
    using mem_etcd.del_err [of True p "w\<lparr>mw_faults := []\<rparr>" e w'] by (simp add: sure_registry_def)
qed

lemma fixed_ports: "etcd R (\<lambda>w. map_of (mw_kv w)) \<Longrightarrow> sync_ports (fixed_env R dnsType code) (\<lambda>w. map_of (mw_kv w))"
  by (intro sync_ports.intro sync_ports_axioms.intro)
    (simp_all add: fixed_env_def NoneDataPlane_def RestDNSAgent_def AddResourceRecord_def
      SetResourceRecord_agent_def DeleteResourceRecord_def agent_do_def Let_def)

interpretation fixed_calm: sync_calm "fixed_env (mem_registry calm) dnsType code" "\<lambda>w. map_of (mw_kv w)"
  by (intro sync_calm.intro sync_good.intro sync_good_axioms.intro fixed_ports mem_etcd.etcd_axioms)
    (simp_all add: fixed_env_def NoneDataPlane_def RestDNSAgent_def AddResourceRecord_def
      SetResourceRecord_agent_def DeleteResourceRecord_def agent_do_def pushDB_def Let_def split: prod.split)

interpretation fixed_reliable: sync_reliable "fixed_env sure_registry dnsType StatusOK" "\<lambda>w. map_of (mw_kv w)"
  by (intro sync_reliable.intro sync_good.intro sync_good_axioms.intro sync_reliable_axioms.intro fixed_ports sure_etcd.etcd_axioms)
    (simp_all add: fixed_env_def NoneDataPlane_def RestDNSAgent_def AddResourceRecord_def
      SetResourceRecord_agent_def DeleteResourceRecord_def agent_do_def pushDB_def PutRecord_def sure_registry_def mem_registry_def
      mem_fault_def IsHttpStatusOK_def Let_def)

section \<open>Properties\<close>

definition mem_sample :: "AppDConfig \<Rightarrow> AppDConfig option \<Rightarrow> bool list \<Rightarrow> mem_world" where
  "mem_sample job cfg faults = \<lparr>
     mw_kv = (case cfg of None \<Rightarrow> [] | Some c \<Rightarrow> [(config_key ''app-1'', DocAppD c)])
       @ [(job_key ''app-1'', DocAppD job), (task_key ''task-1'', DocRaw ''app-1''),
          (status_key ''app-1'' ''task-1'', DocStatus (buildTaskStatus rev job (case cfg of None \<Rightarrow> empty_AppDConfig | Some c \<Rightarrow> c) False))],
     mw_faults = faults\<rparr>"

text \<open>The worker never dereferences a missing rule.  On a task whose status lists only
  rules that its records have (creates and modifications in the job, modifications and
  deletions in the stored configuration), neither configuring nor reverting the rules
  panics, whichever registry, data plane or DNS calls fail.\<close>

theorem run_never_panics:
  assumes "sync_calm E kv" and "covered t"
  shows "fst (run_sync E t w) \<noteq> Some (Panic p)"
proof -
  obtain e t' w' where r: "run_sync E t w = (e, t', w')" by (metis prod.exhaust)
  from sync_calm.run_calm [OF assms r] r show ?thesis by auto
qed

theorem run_never_panics_witness:
  "\<forall>p. fst (run_sync (fixed_env (mem_registry False) ''all'' 500) (sample_task sample_config) (mem_sample sample_config None [False, True]))
     \<noteq> Some (Panic p)"
proof -
  have "covered (sample_task sample_config)" by code_simp
  from run_never_panics [OF fixed_calm.sync_calm_axioms this] show ?thesis by blast
qed

definition delete_job :: AppDConfig where
  "delete_job = sample_config\<lparr>ac_Operation := ''DELETE''\<rparr>"

text \<open>A read failure of the stored configuration is not an error but a panic.  The
  worker ignores that the configuration could not be read; when it then deletes a rule it
  dereferences the missing record.  The panic is caught, but the job is left behind, so
  that the application stays busy, and the progress is never marked as failed.\<close>

theorem lost_config_read_panics:
  "let r = ProcessDataPlaneSync (fixed_env (mem_registry False) ''all'' 200) ''app'' ''app-1'' ''task-1''
         (mem_sample delete_job (Some sample_config) [False, False, False, True]) in
   is_panic (fst r) \<and> map_of (mw_kv (snd r)) (job_key ''app-1'') = Some (DocAppD delete_job)
   \<and> fst (IsAnyOngoingOperationExist (mem_registry False) ''app-1'' (snd r))
   \<and> (case map_of (mw_kv (snd r)) (status_key ''app-1'' ''task-1'') of Some (DocStatus st) \<Rightarrow> ts_Progress st = 0 | _ \<Rightarrow> False)"
  by code_simp

text \<open>A synchronisation completes.  When the registry, the data plane and the DNS agent
  answer, the worker returns, every rule of a fresh task is recorded as configured with
  the progress raised by the number of rules, the configuration is stored (or removed for
  a delete), the job is removed, and no other record changes.\<close>

theorem sync_completes:
  assumes "sync_reliable E kv" and "kv w (job_key app) = Some (DocAppD job)"
    and "kv w (status_key app task) = Some (DocStatus st)" and "ts_TerminationStatus st \<noteq> TerminationInProgress"
    and "stored_config (kv w) app cfg" and "fresh st"
    and "covered \<lparr>sj_appName = name, sj_appInstanceId = app, sj_taskId = task, sj_job = job, sj_config = cfg, sj_status = st\<rparr>"
  shows "\<exists>w' job'. ProcessDataPlaneSync E name app task w = (Inr (), w') \<and> config_act job job'
    \<and> kv w' = sync_result job' app task st (kv w) \<and> all_done (finish_status st)
    \<and> ts_Progress (finish_status st) = ts_Progress st + int (length (ts_DNSRuleStatusLst st) + length (ts_TrafficRuleStatusLst st))"
proof -
  have ports: "sync_ports E kv" using assms(1) by (simp add: sync_reliable_def sync_good_def)
  have "sync_ports.staged kv w app task job st"
    using assms(2-4) by (simp add: sync_ports.staged_def [OF ports])
  note sync_reliable.process_done [OF assms(1) this assms(5-7)]
  moreover have "ts_Progress (finish_status st)
      = ts_Progress st + int (length (ts_DNSRuleStatusLst st) + length (ts_TrafficRuleStatusLst st))"
    by (simp add: finish_status_def finish_rules_def)
  ultimately show ?thesis using all_done_finish by blast
qed

theorem sync_completes_witness:
  "\<exists>w' job'. ProcessDataPlaneSync (fixed_env sure_registry ''all'' 200) ''app'' ''app-1'' ''task-1'' (mem_sample delete_job (Some sample_config) []) = (Inr (), w')
    \<and> config_act delete_job job' \<and> map_of (mw_kv w') = sync_result job' ''app-1'' ''task-1''
        (buildTaskStatus rev delete_job sample_config False) (map_of (mw_kv (mem_sample delete_job (Some sample_config) [])))"
proof -
  have j: "map_of (mw_kv (mem_sample delete_job (Some sample_config) [])) (job_key ''app-1'') = Some (DocAppD delete_job)"
    by (simp add: mem_sample_def path_defs)
  have s: "map_of (mw_kv (mem_sample delete_job (Some sample_config) [])) (status_key ''app-1'' ''task-1'')
      = Some (DocStatus (buildTaskStatus rev delete_job sample_config False))"
    by (simp add: mem_sample_def path_defs)
  have n: "ts_TerminationStatus (buildTaskStatus rev delete_job sample_config False) \<noteq> TerminationInProgress"
    and f: "fresh (buildTaskStatus rev delete_job sample_config False)"
    and c: "covered \<lparr>sj_appName = ''app'', sj_appInstanceId = ''app-1'', sj_taskId = ''task-1'', sj_job = delete_job,
      sj_config = Some sample_config, sj_status = buildTaskStatus rev delete_job sample_config False\<rparr>"
    by code_simp+
  have g: "stored_config (map_of (mw_kv (mem_sample delete_job (Some sample_config) []))) ''app-1'' (Some sample_config)"
    by (simp add: stored_config_def mem_sample_def)
  show ?thesis
    using sync_completes [where kv = "\<lambda>w. map_of (mw_kv w)" and w = "mem_sample delete_job (Some sample_config) []",
        OF fixed_reliable.sync_reliable_axioms j s n g f c] by blast
qed

text \<open>What a completed synchronisation of a staged task leaves.\<close>

lemma status_not_config: "AppDLCMTaskStatusPath @ x \<noteq> AppDConfigKeyPath @ y"
  by (simp add: path_defs)

lemma sync_result_keys:
  "sync_result job app task st m (job_key app) = None"
  "sync_result job app task st m (status_key app task) = Some (DocStatus (finish_status st))"
  "ac_Operation job = MethodPost \<or> ac_Operation job = MethodPut \<Longrightarrow>
     sync_result job app task st m (config_key app) = Some (DocAppD (job\<lparr>ac_Operation := []\<rparr>))"
  "ac_Operation job = MethodDelete \<Longrightarrow> sync_result job app task st m (config_key app) = None"
  using status_not_config [of "app @ ''/'' @ task" app] by (auto simp: sync_result_def config_outcome_def)

lemma config_act_clear: "config_act c c' \<Longrightarrow> config_act (c\<lparr>ac_Operation := op\<rparr>) (c'\<lparr>ac_Operation := op\<rparr>)"
  by (simp add: config_act_def)

text \<open>A task that was just staged meets what the worker needs.\<close>

lemma stage_ready:
  assumes "etcd R kv" and "reordering iter" and "ac_Operation input \<in> {MethodPost, MethodPut, MethodDelete}"
    and "stored_config (kv w) app cfg" and "\<forall>c. cfg = Some c \<longrightarrow> distinct_rules c" and "distinct_rules input"
    and "StageNewTask R iter riter app task input False w = ((Inr (0, m), input'), w1)"
  obtains job st where "kv w1 (job_key app) = Some (DocAppD job)" and "kv w1 (status_key app task) = Some (DocStatus st)"
    and "ts_TerminationStatus st = NoTermination" and "ts_Progress st = 0" and "stored_config (kv w1) app cfg" and "fresh st"
    and "covered \<lparr>sj_appName = name, sj_appInstanceId = app, sj_taskId = task, sj_job = job, sj_config = cfg, sj_status = st\<rparr>"
    and "ac_Operation job = ac_Operation input" and "ac_Operation input \<noteq> MethodDelete \<Longrightarrow> job = input"
    and "kv w1 (task_key task) = Some (DocRaw app)" and "ts_Details st = []"
    and "0 < length (ts_DNSRuleStatusLst st) + length (ts_TrafficRuleStatusLst st)"
  using assms(7)
proof (cases rule: etcd.StageNewTask_cases [OF assms(1), consumes 1, case_names no_config early staged])
  case (staged sub store w0)
  have sub: "\<not> sub" using staged(6) by auto
  let ?store = "if ac_Operation input = MethodDelete then store\<lparr>ac_Operation := MethodDelete\<rparr> else store"
  let ?job = "if ac_Operation input = MethodDelete then store\<lparr>ac_Operation := MethodDelete\<rparr> else input"
  define st where "st = buildTaskStatus iter input' ?store sub"
  let ?t = "\<lparr>sj_appName = name, sj_appInstanceId = app, sj_taskId = task, sj_job = ?job, sj_config = cfg, sj_status = st\<rparr>"
  have kv1: "kv w1 = (kv w)(job_key app \<mapsto> DocAppD ?job, task_key task \<mapsto> DocRaw app, status_key app task \<mapsto> DocStatus st)"
    and ne: "ts_TrafficRuleStatusLst st \<noteq> [] \<or> ts_DNSRuleStatusLst st \<noteq> []"
    using etcd.stage_task_ok [OF assms(1) staged(1)] unfolding staged(2) st_def by blast+
  have input': "ac_Operation input' = ac_Operation input" "ac_Operation input \<noteq> MethodDelete \<Longrightarrow> input' = input"
    using staged(1) by (auto simp: stage_task_def Let_def split: prod.splits sum.splits if_splits)
  have cfg: "cfg = Some store" if "ac_Operation input \<noteq> MethodPost"
    using staged(4,5) [OF that] assms(4) by (cases cfg) (auto simp: stored_config_def)
  have "kv w1 k = kv w k" if "has_prefix k (config_key app)" for k
    using that config_not_job [of k app app] by (auto simp: kv1 has_prefix_iff) (auto simp: path_defs)
  then have sc: "stored_config (kv w1) app cfg" using assms(4) by (simp add: stored_config_def)
  have "covered ?t \<and> fresh (sj_status ?t)"
  proof (rule build_covered [OF assms(2), of input' ?store ?t store sub])
    show "sj_job ?t = (if ac_Operation input' = MethodDelete then ?store\<lparr>ac_Operation := MethodDelete\<rparr> else input')"
      using input' by auto
  qed (use assms(3,5,6) input' cfg in \<open>auto simp: st_def distinct_rules_def\<close>)
  moreover have "ts_TerminationStatus st = NoTermination" "ts_Progress st = 0" "ts_Details st = []"
    using sub by (simp_all add: st_def buildTaskStatus_def handleRuleCreateOrDelete_def handleRuleUpdate_def new_TaskStatus_def Let_def)
  moreover have "kv w1 (job_key app) = Some (DocAppD ?job)" "kv w1 (status_key app task) = Some (DocStatus st)"
    "kv w1 (task_key task) = Some (DocRaw app)"
    unfolding kv1 by (simp_all add: path_defs)
  moreover have "0 < length (ts_DNSRuleStatusLst st) + length (ts_TrafficRuleStatusLst st)" using ne by auto
  ultimately show ?thesis using that [of ?job st] sc by simp
qed auto

lemma staged_sync:
  assumes "sync_reliable E kv" and "reordering iter" and "ac_Operation input \<in> {MethodPost, MethodPut, MethodDelete}"
    and "stored_config (kv w) app cfg" and "\<forall>c. cfg = Some c \<longrightarrow> distinct_rules c" and "distinct_rules input"
    and "StageNewTask (se_R E) iter riter app task input False w = ((Inr (0, m), input'), w1)"
  obtains w2 job job' st where "ProcessDataPlaneSync E name app task w1 = (Inr (), w2)" and "config_act job job'"
    and "kv w2 = sync_result job' app task st (kv w1)" and "ac_Operation job' = ac_Operation input"
    and "ac_Operation input \<noteq> MethodDelete \<longrightarrow> job = input" and "kv w1 (task_key task) = Some (DocRaw app)"
    and "ts_Details st = []" and "ts_Progress st = 0" and "0 < length (ts_DNSRuleStatusLst st) + length (ts_TrafficRuleStatusLst st)"
proof -
  have ports: "sync_ports E kv" "etcd (se_R E) kv" using assms(1) by (simp_all add: sync_reliable_def sync_good_def sync_ports_def)
  obtain job st where j: "kv w1 (job_key app) = Some (DocAppD job)" "kv w1 (status_key app task) = Some (DocStatus st)"
    and t: "ts_TerminationStatus st = NoTermination" "ts_Progress st = 0"
    and c: "stored_config (kv w1) app cfg" "fresh st"
      "covered \<lparr>sj_appName = name, sj_appInstanceId = app, sj_taskId = task, sj_job = job, sj_config = cfg, sj_status = st\<rparr>"
    and o: "ac_Operation job = ac_Operation input" "ac_Operation input \<noteq> MethodDelete \<Longrightarrow> job = input"
    and x: "kv w1 (task_key task) = Some (DocRaw app)" "ts_Details st = []"
      "0 < length (ts_DNSRuleStatusLst st) + length (ts_TrafficRuleStatusLst st)"
    using stage_ready [OF ports(2) assms(2-7), where name = name] by blast
  have "sync_ports.staged kv w1 app task job st" using j t by (simp add: sync_ports.staged_def [OF ports(1)])
  from sync_reliable.process_done [OF assms(1) this c] obtain w2 job' where
    r: "ProcessDataPlaneSync E name app task w1 = (Inr (), w2)" "config_act job job'" "kv w2 = sync_result job' app task st (kv w1)" by blast
  show thesis
    by (rule that [OF r _ _ x(1,2) t(2) x(3)]) (use r(2) o in \<open>simp_all add: config_act_def\<close>)
qed

lemma finish_status_sizes:
  "length (ts_DNSRuleStatusLst (finish_status st)) = length (ts_DNSRuleStatusLst st)"
  "length (ts_TrafficRuleStatusLst (finish_status st)) = length (ts_TrafficRuleStatusLst st)"
  "ts_Progress (finish_status st) = ts_Progress st + int (length (ts_DNSRuleStatusLst st) + length (ts_TrafficRuleStatusLst st))"
  "ts_Details (finish_status st) = ts_Details st"
  by (simp_all add: finish_status_def finish_rules_def)

text \<open>(C1) An accepted request takes effect.  When \<open>StageNewTask\<close> accepts a create, an
  update or a delete of an application configuration whose rule ids are distinct, the
  synchronisation of that task, with the registry, the data plane and the DNS agent
  answering, ends with the requested configuration stored (its rule states defaulted,
  its operation field cleared), or removed for a delete, with a status that records every
  rule as configured and complete progress, and with no job left.\<close>

theorem stage_then_sync:
  assumes "sync_reliable E kv" and "reordering iter" and "ac_Operation input \<in> {MethodPost, MethodPut, MethodDelete}"
    and "stored_config (kv w) app cfg" and "\<forall>c. cfg = Some c \<longrightarrow> distinct_rules c" and "distinct_rules input"
    and "StageNewTask (se_R E) iter riter app task input False w = ((Inr (0, m), input'), w1)"
    and "w2 = ProcessAppDConfigSync E name app task w1"
  shows "kv w2 (job_key app) = None
    \<and> (\<exists>st. kv w2 (status_key app task) = Some (DocStatus st) \<and> all_done st
          \<and> ts_Progress st = int (length (ts_DNSRuleStatusLst st) + length (ts_TrafficRuleStatusLst st)))
    \<and> (if ac_Operation input = MethodDelete then kv w2 (config_key app) = None
       else \<exists>c. kv w2 (config_key app) = Some (DocAppD c) \<and> config_act (input\<lparr>ac_Operation := []\<rparr>) c)"
proof -
  obtain w3 job job' st where r: "ProcessDataPlaneSync E name app task w1 = (Inr (), w3)" "config_act job job'"
    "kv w3 = sync_result job' app task st (kv w1)" "ac_Operation job' = ac_Operation input"
    and o: "ac_Operation input \<noteq> MethodDelete \<longrightarrow> job = input" and p: "ts_Progress st = 0"
    by (rule staged_sync [OF assms(1-7), where name = name]) (rule that; assumption)
  have w2: "kv w2 = sync_result job' app task st (kv w1)" using r(1,3) assms(8) by (simp add: ProcessAppDConfigSync_def)
  have "ts_Progress (finish_status st) = int (length (ts_DNSRuleStatusLst (finish_status st)) + length (ts_TrafficRuleStatusLst (finish_status st)))"
    using p finish_status_sizes [of st] by simp
  then show ?thesis
    unfolding w2
    using sync_result_keys [of job' app task st "kv w1"] r(4) o assms(3) all_done_finish [of st] config_act_clear [OF r(2), of "[]"]
    by auto
qed

theorem stage_then_sync_witness:
  "\<exists>c. map_of (mw_kv (ProcessAppDConfigSync (fixed_env sure_registry ''all'' 200) ''app'' ''app-1'' ''task-1''
          (snd (StageNewTask sure_registry rev rev ''app-1'' ''task-1'' sample_config False empty_world)))) (config_key ''app-1'')
      = Some (DocAppD c) \<and> config_act (sample_config\<lparr>ac_Operation := []\<rparr>) c"
proof -
  have "fst (StageNewTask sure_registry rev rev ''app-1'' ''task-1'' sample_config False empty_world) = (Inr (0, []), sample_config)"
    by code_simp
  then have s: "StageNewTask (se_R (fixed_env sure_registry ''all'' 200)) rev rev ''app-1'' ''task-1'' sample_config False empty_world
      = ((Inr (0, []), sample_config), snd (StageNewTask sure_registry rev rev ''app-1'' ''task-1'' sample_config False empty_world))"
    by (simp add: fixed_env_def prod_eq_iff)
  have g: "stored_config (map_of (mw_kv empty_world)) ''app-1'' None" by (simp add: stored_config_def empty_world_def)
  have d: "distinct_rules sample_config" and o: "ac_Operation sample_config \<in> {MethodPost, MethodPut, MethodDelete}"
    "ac_Operation sample_config \<noteq> MethodDelete"
    by (code_simp, simp_all add: sample_config_def)
  show ?thesis
    using stage_then_sync [where kv = "\<lambda>w. map_of (mw_kv w)" and w = empty_world and cfg = None and name = "''app''",
        OF fixed_reliable.sync_reliable_axioms reordering_rev o(1) g _ d s refl] o(2) by simp
qed

end
