(* ===== verification/Appd_Plans.thy ===== *)
theory Appd_Plans
  imports Sync_Complete
begin

text \<open>
  The plans of the application configuration interface
  (\<open>mepserver/mm5/plans/appd_config_create.go\<close>, \<open>appd_config_update.go\<close>,
  \<open>appd_config_delete.go\<close>, \<open>appd_config_get.go\<close>,
  \<open>appd_get_taskstatus.go\<close>, the configuration step of
  \<open>app_instance_termination.go\<close>) and their composition in
  \<open>mm5/controller.go\<close>.  A step ends with an error code for the plan, with a
  response, or with a panic; a worker it starts is returned and run afterwards.  JSON
  decoding and the struct validator are parameters.
\<close>

section \<open>Steps and their results\<close>

datatype 'a plan_out = PlanPanic go_error | PlanErr int string | PlanOk 'a

definition SerErrFailBase :: int where "SerErrFailBase = TaskFail"
definition RequestBodyLength :: nat where "RequestBodyLength = 4096"
definition TaskStateSuccess :: string where "TaskStateSuccess = ''SUCCESS''"
definition TaskStateProcessing :: string where "TaskStateProcessing = ''PROCESSING''"
definition TaskStateFailure :: string where "TaskStateFailure = ''FAILURE''"

text \<open>The decoding of a body: into a JSON object that is completed and written back
  (\<open>checkParam\<close>, which panics on null: an entry is assigned in a nil map), into the
  configuration, and the fields the validator rejects.\<close>

record body_codec =
  bc_checkParam :: "string \<Rightarrow> string go_result"
  bc_unmarshal :: "string \<Rightarrow> AppDConfig option"
  bc_validate :: "AppDConfig \<Rightarrow> string list"

definition parseBody :: "body_codec \<Rightarrow> bool \<Rightarrow> string go_result \<Rightarrow> AppDConfig option plan_out" where
  "parseBody codec withBody body =
     (if \<not> withBody then PlanOk None
      else (case body of
              Inl e \<Rightarrow> PlanErr SerErrFailBase ''read request body error''
            | Inr msg \<Rightarrow>
                if RequestBodyLength * 8 < length msg then PlanErr RequestParamErr ''request body too large''
                else (case bc_checkParam codec msg of
                        Inl (Panic m) \<Rightarrow> PlanPanic (Panic m)
                      | Inl e \<Rightarrow> PlanErr SerErrFailBase (err_msg e)
                      | Inr newMsg \<Rightarrow>
                          (case bc_unmarshal codec newMsg of
                             None \<Rightarrow> PlanErr ParseInfoErr ''unmarshal request body error''
                           | Some appDConfigInput \<Rightarrow>
                               (case bc_validate codec appDConfigInput of
                                  [] \<Rightarrow> PlanOk (Some appDConfigInput)
                                | verrs \<Rightarrow> PlanErr SerErrFailBase
                                    (''Invalid value for input on: '' @ concat (map (\<lambda>f. '' '' @ f) verrs)))))))"

text \<open>The started worker: application name, instance and task.\<close>

type_synonym started = "string \<times> string \<times> string"

section \<open>Create, update, delete\<close>

definition common_ip_type :: "DNSRule \<Rightarrow> DNSRule" where
  "common_ip_type r =
     (if dr_IPAddressType r = ''IPv4'' then r\<lparr>dr_IPAddressType := ''IP_V4''\<rparr>
      else if dr_IPAddressType r = ''IPv6'' then r\<lparr>dr_IPAddressType := ''IP_V6''\<rparr> else r)"

definition common_ip_types :: "AppDConfig \<Rightarrow> AppDConfig" where
  "common_ip_types c = c\<lparr>ac_AppDNSRule := map common_ip_type (ac_AppDNSRule c)\<rparr>"

text \<open>The common end of the steps: staging, starting the worker, the response.\<close>

definition stage_and_start ::
  "'w registry \<Rightarrow> (string list \<Rightarrow> string list) \<Rightarrow> ((string \<times> doc) list \<Rightarrow> (string \<times> doc) list)
   \<Rightarrow> string \<Rightarrow> string \<Rightarrow> AppDConfig \<Rightarrow> bool \<Rightarrow> 'w \<Rightarrow> (TaskProgress \<times> started) plan_out \<times> 'w" where
  "stage_and_start R iter riter appInstanceId taskId input isTerminate w =
     (let ((r, input), w) = StageNewTask R iter riter appInstanceId taskId input isTerminate w in
      case r of
        Inl e \<Rightarrow> (PlanPanic e, w)
      | Inr (errCode, msg) \<Rightarrow>
          if errCode \<noteq> 0 then (PlanErr errCode msg, w)
          else (PlanOk (GenerateTaskResponse taskId appInstanceId ''PROCESSING'' ''0'' ''Operation In progress'',
                        (ac_AppName input, appInstanceId, taskId)), w))"

definition CreateAppDConfig_OnRequest ::
  "'w registry \<Rightarrow> (string list \<Rightarrow> string list) \<Rightarrow> ((string \<times> doc) list \<Rightarrow> (string \<times> doc) list)
   \<Rightarrow> string \<Rightarrow> string \<Rightarrow> AppDConfig option \<Rightarrow> 'w \<Rightarrow> (TaskProgress \<times> started) plan_out \<times> 'w" where
  "CreateAppDConfig_OnRequest R iter riter taskId appInstanceId restBody w =
     (case restBody of
        None \<Rightarrow> (PlanErr 1 ''input body parse failed'', w)
      | Some appDConfigInput \<Rightarrow>
          let (created, w) = IsAppInstanceAlreadyCreated R appInstanceId w in
          if created then (PlanErr DuplicateOperation ''duplicate app instance'', w)
          else let (dup, w) = IsDuplicateAppNameExists R (ac_AppName appDConfigInput) w in
            if dup then (PlanErr DuplicateOperation ''duplicate app name'', w)
            else let (ongoing, w) = IsAnyOngoingOperationExist R appInstanceId w in
              if ongoing then (PlanErr ForbiddenOperation ''app instance has other operation in progress'', w)
              else stage_and_start R iter riter appInstanceId taskId
                     (common_ip_types (appDConfigInput\<lparr>ac_Operation := MethodPost\<rparr>)) False w)"

definition UpdateAppDConfig_OnRequest ::
  "'w registry \<Rightarrow> (string list \<Rightarrow> string list) \<Rightarrow> ((string \<times> doc) list \<Rightarrow> (string \<times> doc) list)
   \<Rightarrow> string \<Rightarrow> string \<Rightarrow> AppDConfig option \<Rightarrow> 'w \<Rightarrow> (TaskProgress \<times> started) plan_out \<times> 'w" where
  "UpdateAppDConfig_OnRequest R iter riter taskId appInstanceId restBody w =
     (case restBody of
        None \<Rightarrow> (PlanErr 1 ''input body parse failed'', w)
      | Some appDConfigInput \<Rightarrow>
          let (created, w) = IsAppInstanceAlreadyCreated R appInstanceId w in
          if \<not> created then (PlanErr SerInstanceNotFound ''app instance not found'', w)
          else let (ongoing, w) = IsAnyOngoingOperationExist R appInstanceId w in
            if ongoing then (PlanErr ForbiddenOperation ''app instance has other operation in progress'', w)
            else stage_and_start R iter riter appInstanceId taskId
                   (common_ip_types (appDConfigInput\<lparr>ac_Operation := MethodPut\<rparr>)) False w)"

definition DeleteAppDConfig_OnRequest ::
  "'w registry \<Rightarrow> (string list \<Rightarrow> string list) \<Rightarrow> ((string \<times> doc) list \<Rightarrow> (string \<times> doc) list)
   \<Rightarrow> string \<Rightarrow> string \<Rightarrow> 'w \<Rightarrow> (TaskProgress \<times> started) plan_out \<times> 'w" where
  "DeleteAppDConfig_OnRequest R iter riter taskId appInstanceId w =
     (let (created, w) = IsAppInstanceAlreadyCreated R appInstanceId w in
      if \<not> created then (PlanErr SerInstanceNotFound ''app instance not found'', w)
      else let (ongoing, w) = IsAnyOngoingOperationExist R appInstanceId w in
        if ongoing then (PlanErr ForbiddenOperation ''app instance has other operation in progress'', w)
        else stage_and_start R iter riter appInstanceId taskId (empty_AppDConfig\<lparr>ac_Operation := MethodDelete\<rparr>) False w)"

text \<open>The first step of an application's termination.\<close>

definition DeleteAppDConfigWithSync_OnRequest ::
  "'w registry \<Rightarrow> (string list \<Rightarrow> string list) \<Rightarrow> ((string \<times> doc) list \<Rightarrow> (string \<times> doc) list)
   \<Rightarrow> string \<Rightarrow> string \<Rightarrow> 'w \<Rightarrow> (TaskProgress \<times> started) plan_out \<times> 'w" where
  "DeleteAppDConfigWithSync_OnRequest R iter riter taskId appInstanceId w =
     (let (ongoing, w) = IsAnyOngoingOperationExist R appInstanceId w in
      if ongoing then (PlanErr ForbiddenOperation ''app instance has other operation in progress'', w)
      else stage_and_start R iter riter appInstanceId taskId (empty_AppDConfig\<lparr>ac_Operation := MethodDelete\<rparr>) True w)"

section \<open>Queries\<close>

definition AppDConfigGet_OnRequest :: "'w registry \<Rightarrow> string \<Rightarrow> 'w \<Rightarrow> AppDConfig plan_out \<times> 'w" where
  "AppDConfigGet_OnRequest R appInstanceId w =
     (case GetRecord R (AppDConfigKeyPath @ appInstanceId) w of
        (Inl err, w) \<Rightarrow> (PlanErr err ''appD config retrieval failed'', w)
      | (Inr appDConfigEntry, w) \<Rightarrow>
          (case unmarshal_appd appDConfigEntry of
             None \<Rightarrow> (PlanErr OperateDataWithEtcdErr ''parse appd config  from data-store failed'', w)
           | Some appDInStore \<Rightarrow> (PlanOk appDInStore, w)))"

text \<open>Go's integer division truncates.\<close>

definition go_div :: "int \<Rightarrow> int \<Rightarrow> int" where
  "go_div a b = (if (a < 0) = (b < 0) then \<bar>a\<bar> div \<bar>b\<bar> else - (\<bar>a\<bar> div \<bar>b\<bar>))"

definition report_progress :: "string \<Rightarrow> string \<Rightarrow> TaskStatus \<Rightarrow> TaskProgress plan_out" where
  "report_progress taskId appInst st =
     (let n = int (length (ts_TrafficRuleStatusLst st) + length (ts_DNSRuleStatusLst st)) in
      if n = 0 then PlanPanic (Panic ''integer divide by zero'')
      else let progress = go_div (ts_Progress st * 100) n;
               (state, progress) =
                 (if ts_Progress st = n then (TaskStateSuccess, progress)
                  else if 0 \<le> ts_Progress st then (TaskStateProcessing, progress)
                  else (TaskStateFailure, 0)) in
        PlanOk (GenerateTaskResponse taskId appInst state (itoa (nat progress)) (ts_Details st)))"

text \<open>\<open>txt_of\<close> gives the bytes of a stored document.\<close>

definition TaskStatusGet_OnRequest :: "'w registry \<Rightarrow> (doc \<Rightarrow> string) \<Rightarrow> string \<Rightarrow> 'w \<Rightarrow> TaskProgress plan_out \<times> 'w" where
  "TaskStatusGet_OnRequest R txt_of taskId w =
     (case GetRecord R (AppDLCMTasksPath @ taskId) w of
        (Inl err, w) \<Rightarrow> (PlanErr err ''task rule retrieval failed'', w)
      | (Inr taskEntry, w) \<Rightarrow>
          let appInstInStore = txt_of taskEntry in
          (case GetRecord R (AppDLCMTaskStatusPath @ appInstInStore @ ''/'' @ taskId) w of
             (Inl err, w) \<Rightarrow> (PlanErr err ''task status rule retrieval failed'', w)
           | (Inr taskStatus, w) \<Rightarrow>
               (case unmarshal_status taskStatus of
                  None \<Rightarrow> (PlanErr OperateDataWithEtcdErr ''parse task status from data-store failed'', w)
                | Some taskStatusInStore \<Rightarrow> (report_progress taskId appInstInStore taskStatusInStore, w))))"

definition DecodeTaskRestReq_getParam :: "(string \<Rightarrow> bool) \<Rightarrow> string \<Rightarrow> string plan_out" where
  "DecodeTaskRestReq_getParam ValidateUUID taskId =
     (if \<not> ValidateUUID taskId then PlanErr RequestParamErr ''taskId validation failed, invalid uuid'' else PlanOk taskId)"

section \<open>The handlers\<close>

text \<open>\<open>Try\<close> the steps, \<open>Finally\<close> the response: an error of a step skips
  the later ones.\<close>

definition then_step :: "'a plan_out \<Rightarrow> 'w \<Rightarrow> ('a \<Rightarrow> 'w \<Rightarrow> 'b plan_out \<times> 'w) \<Rightarrow> 'b plan_out \<times> 'w" where
  "then_step r w f =
     (case r of PlanPanic e \<Rightarrow> (PlanPanic e, w) | PlanErr c m \<Rightarrow> (PlanErr c m, w) | PlanOk x \<Rightarrow> f x w)"

definition respond :: "'o \<Rightarrow> 'o plan_out \<Rightarrow> 'o http_out option" where
  "respond no_services r =
     (case r of
        PlanPanic e \<Rightarrow> None
      | PlanErr c m \<Rightarrow> Some (SendHttpRsp_OnRequest (\<lambda>_. None) no_services
          (Some \<lparr>se_ErrCode = c, se_Message = m, se_GrpIdx = 0, se_TaskIdx = 0\<rparr>) 0 None None)
      | PlanOk x \<Rightarrow> Some (SendHttpRsp_OnRequest (\<lambda>_. None) no_services (Some no_error) 0 None (Some x)))"

definition appDCreate where
  "appDCreate codec R iter riter taskId appInstanceId body w =
     then_step (parseBody codec True body) w (CreateAppDConfig_OnRequest R iter riter taskId appInstanceId)"

definition appDUpdate where
  "appDUpdate codec R iter riter taskId appInstanceId body w =
     then_step (parseBody codec True body) w (UpdateAppDConfig_OnRequest R iter riter taskId appInstanceId)"

definition appDDelete where
  "appDDelete codec R iter riter taskId appInstanceId body w =
     then_step (parseBody codec False body) w (\<lambda>_. DeleteAppDConfig_OnRequest R iter riter taskId appInstanceId)"

definition getAppD where
  "getAppD codec R appInstanceId body w = then_step (parseBody codec False body) w (\<lambda>_. AppDConfigGet_OnRequest R appInstanceId)"

definition getResourceTasks where
  "getResourceTasks ValidateUUID R txt_of taskId w =
     then_step (DecodeTaskRestReq_getParam ValidateUUID taskId) w (TaskStatusGet_OnRequest R txt_of)"

section \<open>Reads that answer\<close>

text \<open>A registry whose reads do not fail.\<close>

locale etcd_reads = etcd R kv for R :: "'w registry" and kv :: "'w \<Rightarrow> string \<Rightarrow> doc option" +
  assumes read_sure: "is_ok (fst (reg_get R p w))"
begin

lemma GetRecord_found: "kv w p = Some d \<Longrightarrow> \<exists>w'. GetRecord R p w = (Inr d, w') \<and> kv w' = kv w"
proof -
  assume a: "kv w p = Some d"
  obtain kvs w' where g: "reg_get R p w = (Inr kvs, w')"
    using read_sure [of p w] by (cases "reg_get R p w") (auto simp: is_ok_iff)
  have "(p, d) \<in> set kvs" using get_ok [OF g] a by simp
  then have r: "GetRecord R p w = (Inr (snd (hd kvs)), w')" using g by (cases kvs) (auto simp: GetRecord_def)
  show ?thesis using GetRecord_exact [OF r a] r get_ok [OF g] by simp
qed

lemma IsAnyOngoing_iff:
  "IsAnyOngoingOperationExist R app w = (b, w') \<Longrightarrow> kv w' = kv w \<and> (b \<longleftrightarrow> (\<exists>k. has_prefix k (job_key app) \<and> kv w k \<noteq> None))"
proof -
  assume a: "IsAnyOngoingOperationExist R app w = (b, w')"
  obtain r w1 where g: "GetRecords R (job_key app) w = (r, w1)" by fastforce
  have "\<exists>rs. r = Inr rs" using g read_sure [of "job_key app" w] by (auto simp: GetRecords_def is_ok_iff split: prod.splits sum.splits)
  then obtain rs where "r = Inr rs" by blast
  then show ?thesis using a g GetRecords_nonempty [of "job_key app" w rs w1] GetRecords_kv [OF g]
    by (auto simp: IsAnyOngoingOperationExist_def)
qed

lemma IsCreated_iff:
  "IsAppInstanceAlreadyCreated R app w = (b, w') \<Longrightarrow> kv w' = kv w \<and> (b \<longleftrightarrow> (\<exists>k. has_prefix k (config_key app) \<and> kv w k \<noteq> None))"
proof -
  assume a: "IsAppInstanceAlreadyCreated R app w = (b, w')"
  obtain kvs w1 where g: "reg_get R (config_key app) w = (Inr kvs, w1)"
    using read_sure [of "config_key app" w] by (cases "reg_get R (config_key app) w") (auto simp: is_ok_iff)
  have s: "set kvs = {(k, v). has_prefix k (config_key app) \<and> kv w k = Some v}" and k: "kv w1 = kv w" using get_ok [OF g] by simp_all
  have "b \<longleftrightarrow> kvs \<noteq> []" "w' = w1" using a g by (auto simp: IsAppInstanceAlreadyCreated_def GetRecord_def split: if_splits)
  moreover have "kvs \<noteq> [] \<longleftrightarrow> (\<exists>x. x \<in> set kvs)" by (cases kvs) auto
  ultimately show ?thesis using k unfolding s by auto
qed

lemma IsDuplicate_kv: "IsDuplicateAppNameExists R name w = (b, w') \<Longrightarrow> kv w' = kv w"
  by (auto simp: IsDuplicateAppNameExists_def split: prod.splits sum.splits dest: GetRecords_kv)

lemma busy_refused:
  assumes "kv w (job_key app) \<noteq> None"
  shows "(\<exists>c m. fst (CreateAppDConfig_OnRequest R iter riter task app body w) = PlanErr c m)
      \<and> kv (snd (CreateAppDConfig_OnRequest R iter riter task app body w)) = kv w"
    and "(\<exists>c m. fst (UpdateAppDConfig_OnRequest R iter riter task app body w) = PlanErr c m)
      \<and> kv (snd (UpdateAppDConfig_OnRequest R iter riter task app body w)) = kv w"
    and "(\<exists>c m. fst (DeleteAppDConfig_OnRequest R iter riter task app w) = PlanErr c m)
      \<and> kv (snd (DeleteAppDConfig_OnRequest R iter riter task app w)) = kv w"
    and "fst (DeleteAppDConfigWithSync_OnRequest R iter riter task app w)
        = PlanErr ForbiddenOperation ''app instance has other operation in progress''
      \<and> kv (snd (DeleteAppDConfigWithSync_OnRequest R iter riter task app w)) = kv w"
proof -
  have busy: "\<exists>k. has_prefix k (job_key app) \<and> kv w k \<noteq> None" using assms by (intro exI [of _ "job_key app"]) simp
  have on: "fst (IsAnyOngoingOperationExist R app v) \<and> kv (snd (IsAnyOngoingOperationExist R app v)) = kv w" if "kv v = kv w" for v
    using IsAnyOngoing_iff [of app v] busy that by (cases "IsAnyOngoingOperationExist R app v") auto
  have cr: "kv (snd (IsAppInstanceAlreadyCreated R app v)) = kv v" for v
    using IsCreated_iff [of app v] by (cases "IsAppInstanceAlreadyCreated R app v") auto
  have du: "kv (snd (IsDuplicateAppNameExists R n v)) = kv v" for n v
    using IsDuplicate_kv [of n v] by (cases "IsDuplicateAppNameExists R n v") auto
  show "(\<exists>c m. fst (CreateAppDConfig_OnRequest R iter riter task app body w) = PlanErr c m)
      \<and> kv (snd (CreateAppDConfig_OnRequest R iter riter task app body w)) = kv w"
    by (simp add: CreateAppDConfig_OnRequest_def case_prod_unfold Let_def on cr du split: option.split)
  show "(\<exists>c m. fst (UpdateAppDConfig_OnRequest R iter riter task app body w) = PlanErr c m)
      \<and> kv (snd (UpdateAppDConfig_OnRequest R iter riter task app body w)) = kv w"
    by (simp add: UpdateAppDConfig_OnRequest_def case_prod_unfold Let_def on cr du split: option.split)
  show "(\<exists>c m. fst (DeleteAppDConfig_OnRequest R iter riter task app w) = PlanErr c m)
      \<and> kv (snd (DeleteAppDConfig_OnRequest R iter riter task app w)) = kv w"
    by (simp add: DeleteAppDConfig_OnRequest_def case_prod_unfold Let_def on cr du)
  show "fst (DeleteAppDConfigWithSync_OnRequest R iter riter task app w)
        = PlanErr ForbiddenOperation ''app instance has other operation in progress''
      \<and> kv (snd (DeleteAppDConfigWithSync_OnRequest R iter riter task app w)) = kv w"
    by (simp add: DeleteAppDConfigWithSync_OnRequest_def case_prod_unfold Let_def on)
qed

text \<open>An accepted create comes from staging on the same records, with no configuration
  stored.\<close>

lemma create_accepted:
  assumes "CreateAppDConfig_OnRequest R iter riter task app body w = (PlanOk (rsp, name, app', task'), w1)"
  obtains input w0 m input' where "body = Some input" and "kv w0 = kv w" and "stored_config (kv w) app None"
    and "StageNewTask R iter riter app task (common_ip_types (input\<lparr>ac_Operation := MethodPost\<rparr>)) False w0 = ((Inr (0, m), input'), w1)"
    and "name = ac_AppName input'" and "app' = app" and "task' = task"
proof -
  obtain input where b: "body = Some input" using assms by (cases body) (auto simp: CreateAppDConfig_OnRequest_def)
  obtain c w2 where c: "IsAppInstanceAlreadyCreated R app w = (c, w2)" by fastforce
  obtain d w3 where d: "IsDuplicateAppNameExists R (ac_AppName input) w2 = (d, w3)" by fastforce
  obtain g w4 where g: "IsAnyOngoingOperationExist R app w3 = (g, w4)" by fastforce
  have s: "stage_and_start R iter riter app task (common_ip_types (input\<lparr>ac_Operation := MethodPost\<rparr>)) False w4 = (PlanOk (rsp, name, app', task'), w1)"
    and nc: "\<not> c"
    using assms b c d g by (auto simp: CreateAppDConfig_OnRequest_def split: if_splits)
  have kv: "kv w4 = kv w" using IsCreated_iff [OF c] IsDuplicate_kv [OF d] IsAnyOngoing_iff [OF g] by simp
  have sc: "stored_config (kv w) app None" using IsCreated_iff [OF c] nc by (auto simp: stored_config_def)
  obtain r input' w5 where st: "StageNewTask R iter riter app task (common_ip_types (input\<lparr>ac_Operation := MethodPost\<rparr>)) False w4 = ((r, input'), w5)"
    by (metis prod.exhaust)
  from s st obtain m where "r = Inr (0, m)" "w5 = w1" "name = ac_AppName input'" "app' = app" "task' = task"
    by (auto simp: stage_and_start_def split: sum.splits if_splits)
  then show thesis using that [of input w4 m input'] b kv sc st by simp
qed

end

lemma sync_reliable_reads: "sync_reliable E kv \<Longrightarrow> etcd_reads (se_R E) kv"
  by (simp add: sync_reliable_def sync_good_def sync_ports_def sync_reliable_axioms_def etcd_reads_def etcd_reads_axioms_def)

interpretation sure_reads: etcd_reads sure_registry "\<lambda>w. map_of (mw_kv w)"
  by unfold_locales (simp add: sure_registry_def mem_registry_def mem_fault_def)

section \<open>Properties\<close>

text \<open>A codec that takes every body for the sample configuration.\<close>

definition sample_codec :: body_codec where
  "sample_codec = \<lparr>bc_checkParam = Inr, bc_unmarshal = (\<lambda>_. Some sample_config), bc_validate = (\<lambda>_. [])\<rparr>"

text \<open>(C38) One operation at a time.  As long as the registry can be read, while a job of an
  application is stored a create, an update, a delete and a termination of that application
  are all refused and leave the registry as it is; a body on which the check of its
  parameters panics ends the create or the update with that panic instead.  (A read that fails
  counts as no operation in progress.)\<close>

theorem one_operation_at_a_time:
  assumes "etcd_reads R kv" and "kv w (job_key app) \<noteq> None"
  shows "((\<exists>c m. fst (appDCreate codec R iter riter task app body w) = PlanErr c m)
      \<or> (\<exists>p. parseBody codec True body = PlanPanic p \<and> fst (appDCreate codec R iter riter task app body w) = PlanPanic p))
    \<and> kv (snd (appDCreate codec R iter riter task app body w)) = kv w
    \<and> ((\<exists>c m. fst (appDUpdate codec R iter riter task app body w) = PlanErr c m)
      \<or> (\<exists>p. parseBody codec True body = PlanPanic p \<and> fst (appDUpdate codec R iter riter task app body w) = PlanPanic p))
    \<and> kv (snd (appDUpdate codec R iter riter task app body w)) = kv w
    \<and> (\<exists>c m. fst (appDDelete codec R iter riter task app body w) = PlanErr c m)
    \<and> kv (snd (appDDelete codec R iter riter task app body w)) = kv w
    \<and> fst (DeleteAppDConfigWithSync_OnRequest R iter riter task app w)
        = PlanErr ForbiddenOperation ''app instance has other operation in progress''
    \<and> kv (snd (DeleteAppDConfigWithSync_OnRequest R iter riter task app w)) = kv w"
proof -
  have del: "parseBody codec False body = PlanOk None" by (simp add: parseBody_def)
  show ?thesis
    unfolding appDCreate_def appDUpdate_def appDDelete_def then_step_def del
    using etcd_reads.busy_refused [OF assms]
    by (auto split: plan_out.split)
qed

theorem one_operation_at_a_time_witness:
  "\<exists>c m. fst (appDDelete sample_codec sure_registry rev rev ''task-2'' ''app-1'' (Inr []) (mem_sample delete_job (Some sample_config) [])) = PlanErr c m"
proof -
  have "map_of (mw_kv (mem_sample delete_job (Some sample_config) [])) (job_key ''app-1'') \<noteq> None"
    by (simp add: mem_sample_def path_defs)
  from one_operation_at_a_time [where kv = "\<lambda>w. map_of (mw_kv w)" and codec = sample_codec and iter = rev and riter = rev
      and task = "''task-2''" and body = "Inr []", OF sure_reads.etcd_reads_axioms this]
  show ?thesis by blast
qed

text \<open>The reported progress is sound.  For a status with at least one rule and a
  progress between the failure mark and the number of rules, a status query answers with
  a percentage between 0 and 100 that is 100 exactly for SUCCESS; it answers SUCCESS
  exactly when every rule is counted, FAILURE exactly for the failure mark, and PROCESSING
  otherwise.  For a status without rules the query divides by zero.\<close>

theorem progress_report:
  assumes "n = length (ts_TrafficRuleStatusLst st) + length (ts_DNSRuleStatusLst st)"
    and "-1 \<le> ts_Progress st" and "ts_Progress st \<le> int n"
  shows "if n = 0 then report_progress task app st = PlanPanic (Panic ''integer divide by zero'')
    else \<exists>state p. report_progress task app st = PlanOk (GenerateTaskResponse task app state (itoa p) (ts_Details st))
      \<and> p \<le> 100 \<and> (p = 100 \<longleftrightarrow> state = TaskStateSuccess)
      \<and> state = (if ts_Progress st = int n then TaskStateSuccess else if ts_Progress st = TaskProgressFailure then TaskStateFailure
                 else TaskStateProcessing)"
proof (cases "n = 0")
  case False
  then have n: "0 < int n" "int n \<noteq> 0" by simp_all
  have states: "TaskStateSuccess \<noteq> TaskStateProcessing" "TaskStateSuccess \<noteq> TaskStateFailure"
    by (simp_all add: TaskStateSuccess_def TaskStateProcessing_def TaskStateFailure_def)
  let ?p = "ts_Progress st"
  consider (full) "?p = int n" | (part) "0 \<le> ?p" "?p < int n" | (fail) "?p = -1" using assms(2,3) by linarith
  then show ?thesis
  proof cases
    case full
    with n have "go_div (?p * 100) (int n) = 100" by (simp add: go_div_def)
    with full n show ?thesis
      unfolding report_progress_def assms(1) [symmetric]
      by (intro iffD2 [OF if_not_P] exI [of _ TaskStateSuccess] exI [of _ "100 :: nat"]) simp_all
  next
    case part
    then have "go_div (?p * 100) (int n) = ?p * 100 div int n" using n by (simp add: go_div_def)
    moreover have "?p * 100 div int n < 100"
    proof (rule ccontr)
      assume "\<not> ?p * 100 div int n < 100"
      then have "int n * 100 \<le> int n * (?p * 100 div int n)" by (intro mult_left_mono) auto
      also have "\<dots> \<le> ?p * 100" using mult_div_mod_eq [of "int n" "?p * 100"] pos_mod_sign [OF n(1), of "?p * 100"] by linarith
      finally show False using part by simp
    qed
    ultimately show ?thesis using part n states
      unfolding report_progress_def assms(1) [symmetric]
      by (auto simp: TaskProgressFailure_def intro!: exI [of _ "nat (?p * 100 div int n)"])
  next
    case fail
    with n states show ?thesis
      unfolding report_progress_def assms(1) [symmetric]
      by (auto simp: TaskProgressFailure_def intro!: exI [of _ "0 :: nat"])
  qed
qed (use assms(1) in \<open>simp add: report_progress_def\<close>)

theorem progress_report_witness:
  "\<exists>state p. report_progress ''task-1'' ''app-1'' (buildTaskStatus rev sample_config empty_AppDConfig False)
     = PlanOk (GenerateTaskResponse ''task-1'' ''app-1'' state (itoa p) [])
   \<and> p \<le> 100 \<and> state = TaskStateProcessing"
proof -
  let ?st = "buildTaskStatus rev sample_config empty_AppDConfig False"
  have n: "2 = length (ts_TrafficRuleStatusLst ?st) + length (ts_DNSRuleStatusLst ?st)"
    and p: "ts_Progress ?st = 0" and d: "ts_Details ?st = []" by code_simp+
  show ?thesis using progress_report [OF n, of "''task-1''" "''app-1''"] by (auto simp: p d TaskProgressFailure_def)
qed

lemma common_ip_types_simps [simp]:
  "ac_Operation (common_ip_types c) = ac_Operation c" "ac_AppName (common_ip_types c) = ac_AppName c"
  "distinct_rules (common_ip_types c) = distinct_rules c"
  "distinct_rules (c\<lparr>ac_Operation := op\<rparr>) = distinct_rules c"
  "common_ip_types (c\<lparr>ac_Operation := op\<rparr>) = (common_ip_types c)\<lparr>ac_Operation := op\<rparr>"
proof -
  have "dr_DNSRuleID (common_ip_type r) = dr_DNSRuleID r" for r by (simp add: common_ip_type_def)
  then show "distinct_rules (common_ip_types c) = distinct_rules c" by (simp add: distinct_rules_def common_ip_types_def comp_def)
qed (simp_all add: common_ip_types_def distinct_rules_def)

lemma report_full:
  assumes "n = length (ts_TrafficRuleStatusLst st) + length (ts_DNSRuleStatusLst st)" and "0 < n" and "ts_Progress st = int n"
  shows "report_progress task app st = PlanOk (GenerateTaskResponse task app TaskStateSuccess ''100'' (ts_Details st))"
proof -
  have "itoa 100 = ''100''" by code_simp
  moreover have "go_div (int n * 100) (int n) = 100" "int n \<noteq> 0" using assms(2) by (simp_all add: go_div_def)
  ultimately show ?thesis using assms(3) unfolding report_progress_def assms(1) [symmetric] by simp
qed

lemma sync_result_task: "sync_result job app task st m (task_key task') = m (task_key task')"
  by (simp add: sync_result_def config_outcome_def has_prefix_def path_defs)

text \<open>(C7) A created configuration can be read back.  After an accepted create of a
  configuration whose rules have distinct ids, and the
  synchronisation of its task, with the registry, the data plane and the DNS agent
  answering, a query of the task answers SUCCESS at 100 percent, and a query of the
  application answers with the configuration that was sent, its address types in the
  common form and its rule states defaulted.\<close>

theorem create_then_get:
  assumes "sync_reliable E kv" and "reordering iter" and "\<forall>t. txt_of (DocRaw t) = t" and "ValidateUUID task"
    and "parseBody codec True body = PlanOk (Some input)" and "distinct_rules input"
    and "appDCreate codec (se_R E) iter riter task app body w = (PlanOk (rsp, name, app', task'), w1)"
    and "w2 = ProcessAppDConfigSync E name app' task' w1"
  shows "fst (getResourceTasks ValidateUUID (se_R E) txt_of task w2)
      = PlanOk (GenerateTaskResponse task app TaskStateSuccess ''100'' [])
    \<and> (\<exists>c. fst (getAppD codec (se_R E) app body w2) = PlanOk c \<and> config_act ((common_ip_types input)\<lparr>ac_Operation := []\<rparr>) c)"
proof -
  note reads = sync_reliable_reads [OF assms(1)]
  have "CreateAppDConfig_OnRequest (se_R E) iter riter task app (Some input) w = (PlanOk (rsp, name, app', task'), w1)"
    using assms(5,7) by (simp add: appDCreate_def then_step_def)
  from etcd_reads.create_accepted [OF reads this] obtain w0 m input' where
    k0: "kv w0 = kv w" "stored_config (kv w) app None"
    and st: "StageNewTask (se_R E) iter riter app task (common_ip_types (input\<lparr>ac_Operation := MethodPost\<rparr>)) False w0 = ((Inr (0, m), input'), w1)"
    and ids: "app' = app" "task' = task" by (metis option.inject)
  have sc: "stored_config (kv w0) app None" using k0 by simp
  obtain w3 job job' st where r: "ProcessDataPlaneSync E name app task w1 = (Inr (), w3)" "config_act job job'"
    "kv w3 = sync_result job' app task st (kv w1)" "ac_Operation job' = MethodPost" "job = common_ip_types (input\<lparr>ac_Operation := MethodPost\<rparr>)"
    and x: "kv w1 (task_key task) = Some (DocRaw app)" "ts_Details st = []" "ts_Progress st = 0"
      "0 < length (ts_DNSRuleStatusLst st) + length (ts_TrafficRuleStatusLst st)"
    by (rule staged_sync [OF assms(1,2) _ sc _ _ st, where name = name]) (use assms(6) that in auto)
  have w2: "w2 = w3" using assms(8) ids r(1) by (simp add: ProcessAppDConfigSync_def)
  have t: "kv w2 (task_key task) = Some (DocRaw app)" using x(1) by (simp add: w2 r(3) sync_result_task)
  from etcd_reads.GetRecord_found [OF reads t] obtain w4 where
    g4: "GetRecord (se_R E) (task_key task) w2 = (Inr (DocRaw app), w4)" and k4: "kv w4 = kv w2" by blast
  have "kv w4 (status_key app task) = Some (DocStatus (finish_status st))" unfolding k4 w2 r(3) by (rule sync_result_keys(2))
  from etcd_reads.GetRecord_found [OF reads this] obtain w5 where
    g5: "GetRecord (se_R E) (status_key app task) w4 = (Inr (DocStatus (finish_status st)), w5)" by blast
  have "report_progress task app (finish_status st) = PlanOk (GenerateTaskResponse task app TaskStateSuccess ''100'' [])"
    using report_full [OF refl, of "finish_status st" task app] x(2-4) by (simp add: finish_status_sizes add.commute)
  then have "fst (getResourceTasks ValidateUUID (se_R E) txt_of task w2)
      = PlanOk (GenerateTaskResponse task app TaskStateSuccess ''100'' [])"
    using assms(3,4) g4 g5 by (simp add: getResourceTasks_def DecodeTaskRestReq_getParam_def then_step_def TaskStatusGet_OnRequest_def)
  moreover have c: "kv w2 (config_key app) = Some (DocAppD (job'\<lparr>ac_Operation := []\<rparr>))"
    unfolding w2 r(3) by (rule sync_result_keys(3)) (simp add: r(4))
  from etcd_reads.GetRecord_found [OF reads c] have "fst (getAppD codec (se_R E) app body w2) = PlanOk (job'\<lparr>ac_Operation := []\<rparr>)"
    by (auto simp: getAppD_def parseBody_def then_step_def AppDConfigGet_OnRequest_def)
  moreover have "config_act ((common_ip_types input)\<lparr>ac_Operation := []\<rparr>) (job'\<lparr>ac_Operation := []\<rparr>)"
    using config_act_clear [OF r(2), of "[]"] by (simp add: r(5))
  ultimately show ?thesis by blast
qed

theorem create_then_get_witness:
  "\<exists>rsp w1. appDCreate sample_codec sure_registry rev rev ''task-1'' ''app-1'' (Inr []) empty_world = (PlanOk (rsp, ''app'', ''app-1'', ''task-1''), w1)
    \<and> fst (getResourceTasks (\<lambda>_. True) sure_registry (\<lambda>d. case d of DocRaw t \<Rightarrow> t | _ \<Rightarrow> []) ''task-1''
          (ProcessAppDConfigSync (fixed_env sure_registry ''all'' 200) ''app'' ''app-1'' ''task-1'' w1))
      = PlanOk (GenerateTaskResponse ''task-1'' ''app-1'' TaskStateSuccess ''100'' [])"
proof -
  let ?E = "fixed_env sure_registry ''all'' 200"
  have "map_option snd (case fst (appDCreate sample_codec sure_registry rev rev ''task-1'' ''app-1'' (Inr []) empty_world) of
      PlanOk x \<Rightarrow> Some x | _ \<Rightarrow> None) = Some (''app'', ''app-1'', ''task-1'')" by code_simp
  then obtain rsp w1 where c: "appDCreate sample_codec sure_registry rev rev ''task-1'' ''app-1'' (Inr []) empty_world
      = (PlanOk (rsp, ''app'', ''app-1'', ''task-1''), w1)"
    by (cases "appDCreate sample_codec sure_registry rev rev ''task-1'' ''app-1'' (Inr []) empty_world") (auto split: plan_out.splits)
  have R: "se_R ?E = sure_registry" by (simp add: fixed_env_def)
  have c': "appDCreate sample_codec (se_R ?E) rev rev ''task-1'' ''app-1'' (Inr []) empty_world = (PlanOk (rsp, ''app'', ''app-1'', ''task-1''), w1)"
    using c by (simp add: R)
  have b: "parseBody sample_codec True (Inr []) = PlanOk (Some sample_config)" and d: "distinct_rules sample_config" by code_simp+
  show ?thesis
    using create_then_get [where kv = "\<lambda>w. map_of (mw_kv w)" and E = ?E and w = empty_world
        and txt_of = "\<lambda>d. case d of DocRaw t \<Rightarrow> t | _ \<Rightarrow> []" and ValidateUUID = "\<lambda>_. True",
        OF fixed_reliable.sync_reliable_axioms reordering_rev _ _ b d c' refl] c
    unfolding R by auto
qed

text \<open>Two traffic rules of one id are accepted, but their configuration is not stored: the
  status of the second rule is never updated, so the synchronisation ends without a
  configuration.\<close>

definition twin_rules :: AppDConfig where
  "twin_rules = sample_config\<lparr>ac_AppTrafficRule := [traffic_rule ''t1'', traffic_rule ''t1'']\<rparr>"

lemma twin_rules_accepted:
  "(case CreateAppDConfig_OnRequest sure_registry rev rev ''task-1'' ''app-1'' (Some twin_rules) empty_world of
      (PlanOk _, w) \<Rightarrow> map_of (mw_kv (ProcessAppDConfigSync (fixed_env sure_registry ''all'' 200) ''app'' ''app-1'' ''task-1'' w))
        (config_key ''app-1'') = None
    | _ \<Rightarrow> False)"
  by code_simp

text \<open>An instance id that is a prefix of another one deletes the other application.
  The instance id of the path is not validated and registry keys are matched by prefix:
  a delete of \<open>app\<close>, an application that does not exist, is accepted when only
  \<open>app-1\<close> is configured, and its synchronisation removes the configuration of
  \<open>app-1\<close>.\<close>

theorem prefix_id_deletes_other:
  "let w = (empty_world\<lparr>mw_kv := [(config_key ''app-1'', DocAppD sample_config)]\<rparr>);
       (r, w1) = appDDelete sample_codec sure_registry rev rev ''task-1'' ''app'' (Inr []) w;
       w2 = ProcessAppDConfigSync (fixed_env sure_registry ''all'' 200) ''app'' ''app'' ''task-1'' w1 in
   (case r of PlanOk _ \<Rightarrow> True | _ \<Rightarrow> False)
   \<and> map_of (mw_kv w) (config_key ''app'') = None
   \<and> map_of (mw_kv w) (config_key ''app-1'') = Some (DocAppD sample_config)
   \<and> map_of (mw_kv w2) (config_key ''app-1'') = None"
  by code_simp

end
