(* ===== verification/Mp1_Rules.thy ===== *)
theory Mp1_Rules
  imports Appd_Plans
begin

text \<open>
  The rule plans of the mp1 interface: query and update of one DNS or traffic rule of a
  configured application (\<open>mepserver/mp1/plans/dns_one_update.go\<close>,
  \<open>dns_one_get.go\<close>, \<open>dns_all_get.go\<close>, \<open>traffic_one_update.go\<close>,
  \<open>traffic_one_get.go\<close>, \<open>traffic_all_get.go\<close>) and their composition in
  \<open>mp1/controller.go\<close>.  An update writes the stored configuration first, then the DNS
  server and the data plane, and undoes the earlier writes when a later one fails.  JSON and
  SHA-256 are parameters; the agents and the registry are those of the worker.
\<close>

section \<open>Requests\<close>

record rule_request =
  mr_appInstanceId :: string
  mr_ruleId :: string
  mr_headerId :: string
  mr_path :: string
  mr_ifMatch :: string
  mr_body :: "string go_result"

record rule_json =
  rj_sha256 :: "string \<Rightarrow> string"
  rj_dns :: "DNSRule \<Rightarrow> string"
  rj_traffic :: "TrafficRule \<Rightarrow> string"
  rj_config :: "AppDConfig \<Rightarrow> string"

text \<open>The decoding of a body: completion of the JSON object, decoding, and what the
  struct validator rejects.\<close>

record 'r rule_codec =
  rc_checkParam :: "string \<Rightarrow> string go_result"
  rc_unmarshal :: "string \<Rightarrow> 'r go_result"
  rc_validate :: "'r \<Rightarrow> string option"

definition MaxDNSRuleIdLength :: nat where "MaxDNSRuleIdLength = 36"
definition MaxTrafficRuleIdLength :: nat where "MaxTrafficRuleIdLength = 36"
definition ServicesPath :: string where "ServicesPath = ''/mep/mec_service_mgmt/v1/services''"

definition str_contains :: "string \<Rightarrow> string \<Rightarrow> bool" where
  "str_contains s t \<longleftrightarrow> list_ex (\<lambda>i. has_prefix (drop i s) t) [0..<Suc (length s)]"

definition GenerateStrongETag :: "(string \<Rightarrow> string) \<Rightarrow> string \<Rightarrow> string" where
  "GenerateStrongETag sha256 body = [CHR 0x22] @ hex_encode (sha256 body) @ [CHR 0x22]"

definition ValidateAppInstanceIdWithHeader :: "string \<Rightarrow> 'a rule_request_scheme \<Rightarrow> go_error option" where
  "ValidateAppInstanceIdWithHeader i r =
     (if i = mr_headerId r then None
      else if str_contains (mr_path r) ServicesPath then None
      else Some (Err ''UnAuthorization to access the resource''))"

definition uuid_error :: "(string \<Rightarrow> bool) \<Rightarrow> string \<Rightarrow> bool" where
  "uuid_error uuid i \<longleftrightarrow> length i \<noteq> 0 \<and> \<not> uuid i"

definition DecodeDnsRestReq_getParam :: "(string \<Rightarrow> bool) \<Rightarrow> rule_request \<Rightarrow> unit plan_out" where
  "DecodeDnsRestReq_getParam uuid r =
     (if length (mr_appInstanceId r) = 0 then PlanErr AuthorizationValidateErr ''invalid app instance id''
      else (case ValidateAppInstanceIdWithHeader (mr_appInstanceId r) r of
              Some e \<Rightarrow> PlanErr AuthorizationValidateErr (err_msg e)
            | None \<Rightarrow>
                if uuid_error uuid (mr_appInstanceId r)
                then PlanErr RequestParamErr ''app Instance ID validation failed, invalid uuid''
                else if length (mr_ruleId r) > MaxDNSRuleIdLength
                then PlanErr RequestParamErr ''dns rule id validation failed, invalid length''
                else PlanOk ()))"

definition DecodeDnsRestReq_parseBody :: "DNSRule rule_codec \<Rightarrow> rule_request \<Rightarrow> DNSRule plan_out" where
  "DecodeDnsRestReq_parseBody codec r =
     (case mr_body r of
        Inl e \<Rightarrow> PlanErr SerErrFailBase ''read request body error''
      | Inr msg \<Rightarrow>
          if length msg > RequestBodyLength then PlanErr RequestParamErr ''request body too large''
          else (case rc_checkParam codec msg of
                  Inl (Panic m) \<Rightarrow> PlanPanic (Panic m)
                | Inl e \<Rightarrow> PlanErr SerErrFailBase ''check Param failed''
                | Inr newMsg \<Rightarrow>
                    (case rc_unmarshal codec newMsg of
                       Inl e \<Rightarrow> PlanErr ParseInfoErr ''unmarshal request body error''
                     | Inr rule \<Rightarrow> PlanOk rule)))"

definition DecodeTrafficRestReq_getParam :: "(string \<Rightarrow> bool) \<Rightarrow> rule_request \<Rightarrow> unit plan_out" where
  "DecodeTrafficRestReq_getParam uuid r =
     (if length (mr_appInstanceId r) = 0 then PlanErr AuthorizationValidateErr ''invalid app instance id''
      else (case ValidateAppInstanceIdWithHeader (mr_appInstanceId r) r of
              Some e \<Rightarrow> PlanErr AuthorizationValidateErr (err_msg e)
            | None \<Rightarrow>
                if uuid_error uuid (mr_appInstanceId r)
                then PlanErr RequestParamErr ''app Instance ID validation failed, invalid uuid''
                else if length (mr_ruleId r) > MaxTrafficRuleIdLength
                then PlanErr RequestParamErr ''traffic rule id validation failed, invalid length''
                else PlanOk ()))"

definition DecodeTrafficRestReq_parseBody :: "TrafficRule rule_codec \<Rightarrow> rule_request \<Rightarrow> TrafficRule plan_out" where
  "DecodeTrafficRestReq_parseBody codec r =
     (case mr_body r of
        Inl e \<Rightarrow> PlanErr SerErrFailBase (err_msg e)
      | Inr msg \<Rightarrow>
          (case rc_checkParam codec msg of
             Inl (Panic m) \<Rightarrow> PlanPanic (Panic m)
           | Inl e \<Rightarrow> PlanErr SerErrFailBase (err_msg e)
           | Inr newMsg \<Rightarrow>
               (case rc_unmarshal codec newMsg of
                  Inl e \<Rightarrow> PlanErr SerErrFailBase (err_msg e)
                | Inr rule \<Rightarrow>
                    (case rc_validate codec rule of
                       Some m \<Rightarrow> PlanErr SerErrFailBase m
                     | None \<Rightarrow> PlanOk rule))))"

section \<open>Queries\<close>

text \<open>The index of the first rule with an id.\<close>

definition find_rule :: "('r \<Rightarrow> string) \<Rightarrow> string \<Rightarrow> 'r list \<Rightarrow> nat option" where
  "find_rule rid ruleId rules = find (\<lambda>i. rid (rules ! i) = ruleId) [0..<length rules]"

definition DNSRuleGet_OnRequest :: "'w registry \<Rightarrow> string \<Rightarrow> string \<Rightarrow> 'w \<Rightarrow> DNSRule plan_out \<times> 'w" where
  "DNSRuleGet_OnRequest R appInstanceId ruleId w =
     (if length ruleId = 0 then (PlanErr ParseInfoErr ''invalid query request'', w)
      else (case GetRecord R (AppDConfigKeyPath @ appInstanceId) w of
              (Inl errCode, w) \<Rightarrow> (PlanErr errCode ''dns rule retrieval failed'', w)
            | (Inr entry, w) \<Rightarrow>
                (case unmarshal_appd entry of
                   None \<Rightarrow> (PlanErr OperateDataWithEtcdErr ''parse dns rules failed'', w)
                 | Some appDInStore \<Rightarrow>
                     (case find_rule dr_DNSRuleID ruleId (ac_AppDNSRule appDInStore) of
                        None \<Rightarrow> (PlanErr SubscriptionNotFound ''dns rule retrieval failed'', w)
                      | Some i \<Rightarrow> (PlanOk (ac_AppDNSRule appDInStore ! i), w)))))"

definition DNSRulesGet_OnRequest :: "'w registry \<Rightarrow> string \<Rightarrow> 'w \<Rightarrow> DNSRule list plan_out \<times> 'w" where
  "DNSRulesGet_OnRequest R appInstanceId w =
     (case GetRecord R (AppDConfigKeyPath @ appInstanceId) w of
        (Inl errCode, w) \<Rightarrow>
          if errCode = SubscriptionNotFound then (PlanOk [], w)
          else (PlanErr errCode ''dns rules not found'', w)
      | (Inr entry, w) \<Rightarrow>
          (case unmarshal_appd entry of
             None \<Rightarrow> (PlanErr OperateDataWithEtcdErr ''parse dns rules from data-store failed'', w)
           | Some appDInStore \<Rightarrow> (PlanOk (ac_AppDNSRule appDInStore), w)))"

definition TrafficRuleGet_OnRequest :: "'w registry \<Rightarrow> string \<Rightarrow> string \<Rightarrow> 'w \<Rightarrow> TrafficRule plan_out \<times> 'w" where
  "TrafficRuleGet_OnRequest R appInstanceId ruleId w =
     (if length appInstanceId = 0 \<or> length ruleId = 0 then (PlanErr ParseInfoErr ''invalid query request'', w)
      else (case GetRecord R (AppDConfigKeyPath @ appInstanceId) w of
              (Inl errCode, w) \<Rightarrow> (PlanErr errCode ''traffic rule retrieval failed'', w)
            | (Inr entry, w) \<Rightarrow>
                (case unmarshal_appd entry of
                   None \<Rightarrow> (PlanErr OperateDataWithEtcdErr ''parse traffic rules from etcd failed'', w)
                 | Some appDConfig \<Rightarrow>
                     (case find_rule tr_TrafficRuleID ruleId (ac_AppTrafficRule appDConfig) of
                        None \<Rightarrow> (PlanErr SubscriptionNotFound ''traffic rule does not exist'', w)
                      | Some i \<Rightarrow> (PlanOk (ac_AppTrafficRule appDConfig ! i), w)))))"

definition TrafficRulesGet_OnRequest :: "'w registry \<Rightarrow> string \<Rightarrow> 'w \<Rightarrow> TrafficRule list plan_out \<times> 'w" where
  "TrafficRulesGet_OnRequest R appInstanceId w =
     (if length appInstanceId = 0 then (PlanErr ParseInfoErr ''invalid query request'', w)
      else (case GetRecord R (AppDConfigKeyPath @ appInstanceId) w of
              (Inl errCode, w) \<Rightarrow>
                if errCode = SubscriptionNotFound then (PlanOk [], w)
                else (PlanErr errCode ''traffic rules not found'', w)
            | (Inr entry, w) \<Rightarrow>
                (case unmarshal_appd entry of
                   None \<Rightarrow> (PlanErr OperateDataWithEtcdErr ''parse dns rules from data-store failed'', w)
                 | Some appDConfig \<Rightarrow> (PlanOk (ac_AppTrafficRule appDConfig), w))))"

section \<open>Update of a DNS rule\<close>

text \<open>A call of an agent: a panic ends the step, an error value is passed on.\<close>

definition on_call ::
  "go_error option \<times> 'w \<Rightarrow> (go_error option \<Rightarrow> 'w \<Rightarrow> 'b plan_out \<times> 'w) \<Rightarrow> 'b plan_out \<times> 'w" where
  "on_call r k = (case r of (Some (Panic m), w) \<Rightarrow> (PlanPanic (Panic m), w) | (e, w) \<Rightarrow> k e w)"

text \<open>The agent of the controller is nil when the DNS rules go to the data plane
  only.\<close>

definition mp1_dnsAgent :: "'w sync_env \<Rightarrow> 'w DNSAgent option" where
  "mp1_dnsAgent E = (if se_dnsType E = DnsAgentTypeDataPlane then None else Some (se_dnsAgent E))"

definition validateInputs :: "string \<Rightarrow> DNSRule \<Rightarrow> DNSRule \<Rightarrow> string \<times> int" where
  "validateInputs ruleId input onStore =
     (if length (dr_DNSRuleID input) \<noteq> 0 \<and> ruleId \<noteq> dr_DNSRuleID input
      then (''dns identifier miss-match'', ParseInfoErr)
      else if dr_DomainName input \<noteq> dr_DomainName onStore \<or> dr_IPAddress input \<noteq> dr_IPAddress onStore \<or>
              dr_IPAddressType input \<noteq> dr_IPAddressType onStore \<or> dr_TTL input \<noteq> dr_TTL onStore
      then (''update supported only for state'', ParseInfoErr)
      else if dr_State input \<noteq> ActiveState \<and> dr_State input \<noteq> InactiveState
      then (''invalid dns state input'', ParseInfoErr)
      else ('''', 0))"

definition updateDnsRecordOnDataStore ::
  "'w registry \<Rightarrow> string \<Rightarrow> AppDConfig \<Rightarrow> 'w \<Rightarrow> (int \<times> string) \<times> 'w" where
  "updateDnsRecordOnDataStore R appInstanceId appDConfig w =
     (case PutRecord R (AppDConfigKeyPath @ appInstanceId) (DocAppD appDConfig) w of
        (errCode, w) \<Rightarrow> if errCode \<noteq> 0 then ((errCode, ''rule insertion failed''), w) else ((0, ''''), w))"

definition revertEntryFromDB :: "'w registry \<Rightarrow> string \<Rightarrow> AppDConfig \<Rightarrow> 'w \<Rightarrow> 'w" where
  "revertEntryFromDB R appInstanceId appDConfig w = snd (updateDnsRecordOnDataStore R appInstanceId appDConfig w)"

text \<open>The record is added for an active state and deleted for an inactive one;
  \<open>revertEntryFromDNSServer\<close> does the opposite.\<close>

definition dns_server_apply :: "'w DNSAgent \<Rightarrow> string \<Rightarrow> DNSRule \<Rightarrow> string \<Rightarrow> 'w \<Rightarrow> go_error option \<times> 'w" where
  "dns_server_apply agent state rule rrType w =
     (if state = ActiveState
      then da_AddResourceRecord agent (dr_DomainName rule) rrType ''IN'' [dr_IPAddress rule] (dr_TTL rule) w
      else da_DeleteResourceRecord agent (dr_DomainName rule) rrType w)"

definition revertEntryFromDNSServer ::
  "'w DNSAgent \<Rightarrow> string \<Rightarrow> DNSRule \<Rightarrow> string \<Rightarrow> 'w \<Rightarrow> go_error option \<times> 'w" where
  "revertEntryFromDNSServer agent state rule rrType w =
     (if state = ActiveState
      then da_DeleteResourceRecord agent (dr_DomainName rule) rrType w
      else da_AddResourceRecord agent (dr_DomainName rule) rrType ''IN'' [dr_IPAddress rule] (dr_TTL rule) w)"

definition updateDNSToDataPlane ::
  "'w sync_env \<Rightarrow> 'w DNSAgent \<Rightarrow> string \<Rightarrow> string \<Rightarrow> DNSRule \<Rightarrow> ApplicationInfo \<Rightarrow> string \<Rightarrow> 'w \<Rightarrow>
   (go_error option \<Rightarrow> 'w \<Rightarrow> 'b plan_out \<times> 'w) \<Rightarrow> 'b plan_out \<times> 'w" where
  "updateDNSToDataPlane E agent ruleId state onStore appInfo rrType w k =
     (if state = ActiveState then
        on_call (dp_AddDNSRule (se_dataPlane E) appInfo ruleId (dr_DomainName onStore)
                   (dr_IPAddressType onStore) (dr_IPAddress onStore) (dr_TTL onStore) w)
          (\<lambda>err w. if err \<noteq> None
                   then on_call (da_DeleteResourceRecord agent (dr_DomainName onStore) rrType w) (\<lambda>_ w. k err w)
                   else k None w)
      else
        on_call (dp_DeleteDNSRule (se_dataPlane E) appInfo ruleId w)
          (\<lambda>err w. if err \<noteq> None
                   then on_call (da_AddResourceRecord agent (dr_DomainName onStore) rrType ''IN''
                                   [dr_IPAddress onStore] (dr_TTL onStore) w) (\<lambda>_ w. k err w)
                   else k None w))"

definition with_dns_state :: "AppDConfig \<Rightarrow> nat \<Rightarrow> string \<Rightarrow> AppDConfig" where
  "with_dns_state c i state =
     c\<lparr>ac_AppDNSRule := (ac_AppDNSRule c)[i := (ac_AppDNSRule c ! i)\<lparr>dr_State := state\<rparr>]\<rparr>"

text \<open>The response and the ETag header.\<close>

definition updateDnsRecordToRemoteServer ::
  "'w sync_env \<Rightarrow> rule_json \<Rightarrow> string \<Rightarrow> string \<Rightarrow> AppDConfig \<Rightarrow> nat \<Rightarrow> DNSRule \<Rightarrow> DNSRule \<Rightarrow> 'w \<Rightarrow>
   (DNSRule \<times> string) plan_out \<times> 'w" where
  "updateDnsRecordToRemoteServer E J appInstanceId ruleId appDConfig ruleIndex onStore input w =
     (case validateInputs ruleId input onStore of
        (errorString, errorCode) \<Rightarrow>
          if errorCode \<noteq> 0 then (PlanErr 1 errorString, w)
          else if dr_State onStore = dr_State input
          then (PlanOk (onStore, GenerateStrongETag (rj_sha256 J) (rj_dns J onStore)), w)
          else
            let oldState = dr_State onStore;
                state = dr_State input;
                onStore = onStore\<lparr>dr_State := state\<rparr>;
                appDConfig = with_dns_state appDConfig ruleIndex state
            in (case updateDnsRecordOnDataStore (se_R E) appInstanceId appDConfig w of
                  ((errCode, errString), w) \<Rightarrow>
                    if errCode \<noteq> 0 then (PlanErr errCode errString, w)
                    else
                      (case mp1_dnsAgent E of
                         None \<Rightarrow> (PlanPanic nil_deref, w)
                       | Some agent \<Rightarrow>
                           let rrType = rr_type_of onStore;
                               reverted = with_dns_state appDConfig ruleIndex oldState;
                               failed = PlanErr RemoteServerErr ''failed to apply the dns modification''
                           in on_call (dns_server_apply agent state onStore rrType w)
                                (\<lambda>err w. if err \<noteq> None
                                  then (failed, revertEntryFromDB (se_R E) appInstanceId reverted w)
                                  else updateDNSToDataPlane E agent ruleId state onStore
                                         \<lparr>ai_Id = appInstanceId, ai_Name = ac_AppName appDConfig\<rparr> rrType w
                                         (\<lambda>err w. if err \<noteq> None
                                            then on_call (revertEntryFromDNSServer agent state onStore rrType w)
                                                   (\<lambda>_ w. (failed, revertEntryFromDB (se_R E) appInstanceId reverted w))
                                            else (PlanOk (onStore, GenerateStrongETag (rj_sha256 J) (rj_dns J onStore)), w))))))"

definition DNSRuleUpdate_OnRequest ::
  "'w sync_env \<Rightarrow> rule_json \<Rightarrow> rule_request \<Rightarrow> DNSRule \<Rightarrow> 'w \<Rightarrow> (DNSRule \<times> string) plan_out \<times> 'w" where
  "DNSRuleUpdate_OnRequest E J r input w =
     (case GetRecord (se_R E) (AppDConfigKeyPath @ mr_appInstanceId r) w of
        (Inl errCode, w) \<Rightarrow> (PlanErr errCode ''dns rule retrieval failed'', w)
      | (Inr entry, w) \<Rightarrow>
          (case unmarshal_appd entry of
             None \<Rightarrow> (PlanErr OperateDataWithEtcdErr ''parse dns rules failed'', w)
           | Some appDInStore \<Rightarrow>
               (case find_rule dr_DNSRuleID (mr_ruleId r) (ac_AppDNSRule appDInStore) of
                  None \<Rightarrow> (PlanErr SubscriptionNotFound ''dns rule retrieval failed'', w)
                | Some i \<Rightarrow>
                    let onStore = ac_AppDNSRule appDInStore ! i
                    in if length (mr_ifMatch r) \<noteq> 0 \<and>
                          mr_ifMatch r \<noteq> GenerateStrongETag (rj_sha256 J) (rj_dns J onStore)
                       then (PlanErr EtagMissMatchErr ''e-tag miss-match'', w)
                       else updateDnsRecordToRemoteServer E J (mr_appInstanceId r) (mr_ruleId r)
                              appDInStore i onStore input w)))"

section \<open>Update of a traffic rule\<close>

definition with_traffic_rule :: "AppDConfig \<Rightarrow> nat \<Rightarrow> TrafficRule \<Rightarrow> AppDConfig" where
  "with_traffic_rule c i rule = c\<lparr>ac_AppTrafficRule := (ac_AppTrafficRule c)[i := rule]\<rparr>"

definition traffic_plane_apply ::
  "'w sync_env \<Rightarrow> ApplicationInfo \<Rightarrow> string \<Rightarrow> TrafficRule \<Rightarrow> TrafficRule \<Rightarrow> 'w \<Rightarrow> go_error option \<times> 'w" where
  "traffic_plane_apply E appInfo ruleId input onStore w =
     (if tr_State input \<noteq> tr_State onStore then
        if tr_State input = ''ACTIVE''
        then dp_AddTrafficRule (se_dataPlane E) appInfo ruleId (tr_FilterType input) (tr_Action input)
               (tr_Priority input) (tr_TrafficFilter input) w
        else dp_DeleteTrafficRule (se_dataPlane E) appInfo ruleId w
      else if tr_State input = ''ACTIVE''
      then dp_SetTrafficRule (se_dataPlane E) appInfo ruleId (tr_FilterType input) (tr_Action input)
             (tr_Priority input) (tr_TrafficFilter input) w
      else (None, w))"

text \<open>The response has an ETag unless the rule is unchanged.  The stored bytes that are
  put back on failure are those that were read.\<close>

definition applyTrafficRule ::
  "'w sync_env \<Rightarrow> rule_json \<Rightarrow> string \<Rightarrow> string \<Rightarrow> TrafficRule \<Rightarrow> AppDConfig \<Rightarrow> nat \<Rightarrow> doc \<Rightarrow> TrafficRule \<Rightarrow> 'w \<Rightarrow>
   (TrafficRule \<times> string option) plan_out \<times> 'w" where
  "applyTrafficRule E J appInstanceId ruleId trafficRule appDConfig ruleIndex appDConfigDB input w =
     (let input = input\<lparr>tr_TrafficRuleID := tr_TrafficRuleID trafficRule\<rparr>;
          appDConfig = with_traffic_rule appDConfig ruleIndex input;
          path = AppDConfigKeyPath @ appInstanceId
      in (case PutRecord (se_R E) path (DocAppD appDConfig) w of
            (resultErr, w) \<Rightarrow>
              if resultErr \<noteq> 0 then (PlanErr OperateDataWithEtcdErr ''put traffic rule to etcd failed'', w)
              else on_call (traffic_plane_apply E \<lparr>ai_Id = appInstanceId, ai_Name = ac_AppName appDConfig\<rparr>
                              ruleId input trafficRule w)
                     (\<lambda>err w. if err \<noteq> None
                        then (PlanErr RemoteServerErr ''failed to apply configuration on data-plane'',
                              snd (PutRecord (se_R E) path appDConfigDB w))
                        else (PlanOk (input, Some (GenerateStrongETag (rj_sha256 J) (rj_config J appDConfig))), w))))"

definition TrafficRuleUpdate_OnRequest ::
  "'w sync_env \<Rightarrow> rule_json \<Rightarrow> rule_request \<Rightarrow> TrafficRule \<Rightarrow> 'w \<Rightarrow> (TrafficRule \<times> string option) plan_out \<times> 'w" where
  "TrafficRuleUpdate_OnRequest E J r input w =
     (if length (mr_ruleId r) = 0 then (PlanErr ParseInfoErr ''invalid update request'', w)
      else (case GetRecord (se_R E) (AppDConfigKeyPath @ mr_appInstanceId r) w of
              (Inl errCode, w) \<Rightarrow> (PlanErr errCode ''update rule retrieval failed'', w)
            | (Inr appDConfigDB, w) \<Rightarrow>
                (case unmarshal_appd appDConfigDB of
                   None \<Rightarrow> (PlanErr OperateDataWithEtcdErr ''parse traffic rules from etcd failed'', w)
                 | Some appDConfig \<Rightarrow>
                     (case find_rule tr_TrafficRuleID (mr_ruleId r) (ac_AppTrafficRule appDConfig) of
                        None \<Rightarrow> (PlanErr SubscriptionNotFound ''traffic rule does not exist'', w)
                      | Some i \<Rightarrow>
                          let trafficRule = ac_AppTrafficRule appDConfig ! i
                          in if trafficRule = input then (PlanOk (input, None), w)
                             else if length (mr_ifMatch r) \<noteq> 0 \<and>
                                mr_ifMatch r \<noteq> GenerateStrongETag (rj_sha256 J) (rj_traffic J trafficRule)
                             then (PlanErr EtagMissMatchErr ''e-tag miss-match'', w)
                             else if length (tr_TrafficRuleID input) \<noteq> 0 \<and>
                                tr_TrafficRuleID trafficRule \<noteq> tr_TrafficRuleID input
                             then (PlanErr ParseInfoErr ''traffic identifier miss-match'', w)
                             else applyTrafficRule E J (mr_appInstanceId r) (mr_ruleId r) trafficRule
                                    appDConfig i appDConfigDB input w))))"

section \<open>The handlers\<close>

definition getDnsRules where
  "getDnsRules uuid R r w =
     then_step (DecodeDnsRestReq_getParam uuid r) w (\<lambda>_. DNSRulesGet_OnRequest R (mr_appInstanceId r))"

definition getDnsRule where
  "getDnsRule uuid R r w =
     then_step (DecodeDnsRestReq_getParam uuid r) w (\<lambda>_. DNSRuleGet_OnRequest R (mr_appInstanceId r) (mr_ruleId r))"

definition dnsRuleUpdate where
  "dnsRuleUpdate uuid codec E J r w =
     then_step (DecodeDnsRestReq_getParam uuid r) w
       (\<lambda>_ w. then_step (DecodeDnsRestReq_parseBody codec r) w (DNSRuleUpdate_OnRequest E J r))"

definition getTrafficRules where
  "getTrafficRules uuid R r w =
     then_step (DecodeTrafficRestReq_getParam uuid r) w (\<lambda>_. TrafficRulesGet_OnRequest R (mr_appInstanceId r))"

definition getTrafficRule where
  "getTrafficRule uuid R r w =
     then_step (DecodeTrafficRestReq_getParam uuid r) w
       (\<lambda>_. TrafficRuleGet_OnRequest R (mr_appInstanceId r) (mr_ruleId r))"

definition trafficRuleUpdate where
  "trafficRuleUpdate uuid codec E J r w =
     then_step (DecodeTrafficRestReq_getParam uuid r) w
       (\<lambda>_ w. then_step (DecodeTrafficRestReq_parseBody codec r) w (TrafficRuleUpdate_OnRequest E J r))"

section \<open>What an update leaves behind\<close>

lemma on_callE:
  assumes "on_call r k = (out, w')"
  obtains m where "r = (Some (Panic m), w')" "out = PlanPanic (Panic m)"
    | e w1 where "r = (e, w1)" "k e w1 = (out, w')"
  using assms by (cases r) (auto simp: on_call_def split: option.splits go_error.splits)

lemma find_rule_Some:
  assumes "find_rule rid ruleId rules = Some i"
  shows "i < length rules" "rid (rules ! i) = ruleId"
  using assms by (auto simp: find_rule_def find_Some_iff)

lemma find_rule_update:
  assumes "find_rule rid ruleId rules = Some i" and "rid rule = ruleId"
  shows "find_rule rid ruleId (rules[i := rule]) = Some i"
  using assms by (auto simp: find_rule_def find_Some_iff nth_list_update)

lemma etag_nonempty: "GenerateStrongETag h b \<noteq> []"
  by (simp add: GenerateStrongETag_def)

lemma with_dns_state_back:
  "i < length (ac_AppDNSRule c) \<Longrightarrow>
     with_dns_state (with_dns_state c i s) i (dr_State (ac_AppDNSRule c ! i)) = c"
  by (simp add: with_dns_state_def)

lemma with_dns_state_same:
  "i < length (ac_AppDNSRule c) \<Longrightarrow> with_dns_state c i (dr_State (ac_AppDNSRule c ! i)) = c"
  by (simp add: with_dns_state_def)

definition accepts_writes :: "'w registry \<Rightarrow> bool" where
  "accepts_writes R \<longleftrightarrow> (\<forall>p d w. fst (reg_put R p d w) = None)"

lemma PutRecord_accepted: "accepts_writes R \<Longrightarrow> fst (PutRecord R p d w) = 0"
  by (auto simp: accepts_writes_def PutRecord_def split: prod.splits option.splits) (metis fst_conv option.distinct(1))

text \<open>The outcome of an update on the stored records: on success the configuration has the
  new state of that rule and nothing else, on an error the records are as before; a panic
  comes after the write, so the new state stays.\<close>

definition dns_outcome ::
  "rule_json \<Rightarrow> string \<Rightarrow> AppDConfig \<Rightarrow> nat \<Rightarrow> DNSRule \<Rightarrow> (string \<rightharpoonup> doc) \<Rightarrow>
   (DNSRule \<times> string) plan_out \<Rightarrow> (string \<rightharpoonup> doc) \<Rightarrow> bool" where
  "dns_outcome J app c i input m out m' \<longleftrightarrow>
     (case out of
        PlanOk (rule, etag) \<Rightarrow>
          m' = m(AppDConfigKeyPath @ app \<mapsto> DocAppD (with_dns_state c i (dr_State input))) \<and>
          rule = (ac_AppDNSRule c ! i)\<lparr>dr_State := dr_State input\<rparr> \<and>
          etag = GenerateStrongETag (rj_sha256 J) (rj_dns J rule)
      | PlanErr code msg \<Rightarrow> m' = m
      | PlanPanic e \<Rightarrow> m' = m(AppDConfigKeyPath @ app \<mapsto> DocAppD (with_dns_state c i (dr_State input))))"

context sync_ports
begin

lemma PutRecord_accepted_kv:
  "accepts_writes (se_R E) \<Longrightarrow> kv (snd (PutRecord (se_R E) p d w)) = (kv w)(p \<mapsto> d)"
  using PutRecord_ok [of p d w "snd (PutRecord (se_R E) p d w)"] PutRecord_accepted [of "se_R E" p d w]
  by (metis prod.collapse)

lemma agent_kv:
  "mp1_dnsAgent E = Some agent \<Longrightarrow> dns_server_apply agent s rule t w = (e, w') \<Longrightarrow> kv w' = kv w"
  "mp1_dnsAgent E = Some agent \<Longrightarrow> revertEntryFromDNSServer agent s rule t w = (e, w') \<Longrightarrow> kv w' = kv w"
  using ports_kv
  by (auto simp: mp1_dnsAgent_def dns_server_apply_def revertEntryFromDNSServer_def split: if_splits) (metis snd_conv)+

lemma plane_kv:
  assumes "mp1_dnsAgent E = Some agent" "updateDNSToDataPlane E agent ruleId s rule a t w k = (out, w')"
  shows "(\<exists>m. out = PlanPanic (Panic m) \<and> kv w' = kv w) \<or> (\<exists>e w1. k e w1 = (out, w') \<and> kv w1 = kv w)"
proof -
  have a: "agent = se_dnsAgent E" using assms(1) by (simp add: mp1_dnsAgent_def split: if_splits)
  show ?thesis
    using assms(2) unfolding updateDNSToDataPlane_def a
    by (auto elim!: on_callE split: if_splits) (metis ports_kv snd_conv)+
qed

lemma revert_kv:
  "accepts_writes (se_R E) \<Longrightarrow>
     kv (revertEntryFromDB (se_R E) app c w) = (kv w)(AppDConfigKeyPath @ app \<mapsto> DocAppD c)"
  using PutRecord_accepted_kv [of "AppDConfigKeyPath @ app" "DocAppD c" w]
  by (cases "PutRecord (se_R E) (AppDConfigKeyPath @ app) (DocAppD c) w")
    (simp add: revertEntryFromDB_def updateDnsRecordOnDataStore_def)

lemma remote_outcome:
  assumes writes: "accepts_writes (se_R E)" and i: "i < length (ac_AppDNSRule c)"
    and stored: "kv w (AppDConfigKeyPath @ app) = Some (DocAppD c)"
    and run: "updateDnsRecordToRemoteServer E J app ruleId c i (ac_AppDNSRule c ! i) input w = (out, w')"
  shows "dns_outcome J app c i input (kv w) out (kv w')"
proof (cases "snd (validateInputs ruleId input (ac_AppDNSRule c ! i)) = 0 \<and> dr_State (ac_AppDNSRule c ! i) \<noteq> dr_State input")
  case False
  have same: "(kv w)(AppDConfigKeyPath @ app \<mapsto> DocAppD c) = kv w" using stored by (simp add: fun_upd_idem)
  show ?thesis
    using False run with_dns_state_same [OF i] same
    by (auto simp: updateDnsRecordToRemoteServer_def dns_outcome_def split: prod.splits if_splits)
next
  case True
  define c1 where "c1 = with_dns_state c i (dr_State input)"
  define rule where "rule = (ac_AppDNSRule c ! i)\<lparr>dr_State := dr_State input\<rparr>"
  let ?key = "AppDConfigKeyPath @ app"
  obtain w1 where w1: "PutRecord (se_R E) ?key (DocAppD c1) w = (0, w1)" "kv w1 = (kv w)(?key \<mapsto> DocAppD c1)"
    using PutRecord_accepted [OF writes] PutRecord_accepted_kv [OF writes] by (metis prod.collapse)
  have undone: "with_dns_state c1 i (dr_State (ac_AppDNSRule c ! i)) = c"
    using with_dns_state_back [OF i] by (simp add: c1_def)
  have reverted: "kv (revertEntryFromDB (se_R E) app c w2) = kv w" if "kv w2 = kv w1" for w2
    using that w1(2) stored by (simp add: revert_kv [OF writes] fun_upd_idem)
  note run = run [unfolded updateDnsRecordToRemoteServer_def Let_def updateDnsRecordOnDataStore_def,
    folded c1_def rule_def]
  show ?thesis
  proof (cases "mp1_dnsAgent E")
    case None
    then show ?thesis
      using run True w1 by (auto simp: dns_outcome_def c1_def split: prod.splits)
  next
    case (Some agent)
    have ok: "dns_outcome J app c i input (kv w) (PlanOk (rule, GenerateStrongETag (rj_sha256 J) (rj_dns J rule))) (kv w2)"
      if "kv w2 = kv w1" for w2
      using that w1(2) by (simp add: dns_outcome_def c1_def rule_def)
    have err: "dns_outcome J app c i input (kv w) (PlanErr code m) (kv (revertEntryFromDB (se_R E) app c w2))"
      if "kv w2 = kv w1" for w2 code m
      using reverted [OF that] by (simp add: dns_outcome_def)
    have panic: "dns_outcome J app c i input (kv w) (PlanPanic e) (kv w2)" if "kv w2 = kv w1" for e w2
      using that w1(2) by (simp add: dns_outcome_def c1_def)
    show ?thesis
      using run True w1(1) Some
      by (auto split: prod.splits if_splits elim!: on_callE simp: undone
          dest!: plane_kv [OF Some] agent_kv [OF Some] intro!: ok err panic)
  qed
qed

lemma traffic_plane_kv: "traffic_plane_apply E a ruleId input onStore w = (e, w') \<Longrightarrow> kv w' = kv w"
  using ports_kv by (auto simp: traffic_plane_apply_def split: if_splits) (metis snd_conv)+

lemma traffic_stored:
  assumes "applyTrafficRule E J app ruleId old c i d input w = (PlanOk (rule, Some etag), w')"
  shows "kv w' = (kv w)(AppDConfigKeyPath @ app \<mapsto> DocAppD (with_traffic_rule c i rule))"
    and "rule = input\<lparr>tr_TrafficRuleID := tr_TrafficRuleID old\<rparr>"
    and "etag = GenerateStrongETag (rj_sha256 J) (rj_config J (with_traffic_rule c i rule))"
  using assms
  by (auto simp: applyTrafficRule_def Let_def split: prod.splits if_splits elim!: on_callE
      dest!: PutRecord_ok traffic_plane_kv)

end

section \<open>Properties\<close>

definition plain_json :: rule_json where
  "plain_json = \<lparr>rj_sha256 = (\<lambda>s. s), rj_dns = dr_State, rj_traffic = tr_State,
     rj_config = (\<lambda>c. ac_AppName c @ concat (map tr_State (ac_AppTrafficRule c)))\<rparr>"

definition rule_call :: "string \<Rightarrow> string \<Rightarrow> rule_request" where
  "rule_call rid tag = \<lparr>mr_appInstanceId = ''app-1'', mr_ruleId = rid, mr_headerId = ''app-1'', mr_path = [],
     mr_ifMatch = tag, mr_body = Inr []\<rparr>"

lemma sure_accepts_writes: "accepts_writes sure_registry"
  by (simp add: accepts_writes_def sure_registry_def mem_registry_def mem_fault_def)

text \<open>(C32) The update of a DNS rule is atomic on the data store.  Where the stored
  configuration is the application's and writes succeed, an update that answers success has
  changed the state of that one rule and nothing else, and answers with the rule as stored and
  its ETag; an update that is refused, or that fails on the DNS server or on the data plane,
  leaves every record as it was.  A panic, as with no DNS agent when the rules go to the data
  plane only, comes after the write and leaves the new state of the rule.\<close>

theorem dns_update_atomic:
  assumes "sync_ports E kv" and "accepts_writes (se_R E)"
    and "kv w (AppDConfigKeyPath @ mr_appInstanceId r) = Some (DocAppD c)"
    and "find_rule dr_DNSRuleID (mr_ruleId r) (ac_AppDNSRule c) = Some i"
    and "DNSRuleUpdate_OnRequest E J r input w = (out, w')"
  shows "dns_outcome J (mr_appInstanceId r) c i input (kv w) out (kv w')"
proof -
  note ports = assms(1)
  then have etcd: "etcd (se_R E) kv" by (simp add: sync_ports_def)
  let ?key = "AppDConfigKeyPath @ mr_appInstanceId r"
  have err: "dns_outcome J (mr_appInstanceId r) c i input (kv w) (PlanErr code msg) (kv w)" for code msg
    by (simp add: dns_outcome_def)
  obtain g w1 where g: "GetRecord (se_R E) ?key w = (g, w1)" by fastforce
  note same = etcd.GetRecord_kv [OF etcd g]
  show ?thesis
  proof (cases g)
    case (Inl code)
    then show ?thesis using assms(5) g same err by (auto simp: DNSRuleUpdate_OnRequest_def)
  next
    case (Inr d)
    then have d: "d = DocAppD c" using etcd.GetRecord_exact [OF etcd] g assms(3) by blast
    then show ?thesis
      using assms(5) g Inr same err assms(3,4) find_rule_Some(1) [OF assms(4)]
        sync_ports.remote_outcome [OF ports assms(2), of i c w1 "mr_appInstanceId r" J "mr_ruleId r" input out w']
      by (auto simp: DNSRuleUpdate_OnRequest_def Let_def split: if_splits)
  qed
qed

theorem dns_update_atomic_witness:
  "dns_outcome plain_json ''app-1'' sample_config 0 ((dns_rule ''d1'' ''www.example.com'')\<lparr>dr_State := ''INACTIVE''\<rparr>)
     (map_of (mw_kv (mem_sample sample_config (Some sample_config) [])))
     (PlanErr RemoteServerErr ''failed to apply the dns modification'')
     (map_of (mw_kv (snd (DNSRuleUpdate_OnRequest (fixed_env sure_registry ''all'' 500) plain_json (rule_call ''d1'' [])
        ((dns_rule ''d1'' ''www.example.com'')\<lparr>dr_State := ''INACTIVE''\<rparr>) (mem_sample sample_config (Some sample_config) [])))))"
proof -
  let ?w = "mem_sample sample_config (Some sample_config) []" and ?r = "rule_call ''d1'' []"
    and ?in = "(dns_rule ''d1'' ''www.example.com'')\<lparr>dr_State := ''INACTIVE''\<rparr>"
  let ?run = "DNSRuleUpdate_OnRequest (fixed_env sure_registry ''all'' 500) plain_json ?r ?in ?w"
  have "fst ?run = PlanErr RemoteServerErr ''failed to apply the dns modification''" by code_simp
  then have run: "?run = (PlanErr RemoteServerErr ''failed to apply the dns modification'', snd ?run)" by (metis prod.collapse)
  have kv: "map_of (mw_kv ?w) (AppDConfigKeyPath @ mr_appInstanceId ?r) = Some (DocAppD sample_config)" by code_simp
  have f: "find_rule dr_DNSRuleID (mr_ruleId ?r) (ac_AppDNSRule sample_config) = Some 0" by code_simp
  have a: "accepts_writes (se_R (fixed_env sure_registry ''all'' 500))"
    by (simp add: fixed_env_def sure_accepts_writes)
  show ?thesis
    using dns_update_atomic [OF fixed_ports [OF sure_etcd.etcd_axioms] a kv f run] by (simp add: rule_call_def)
qed

text \<open>The ETag of a traffic rule update cannot be used.  The update answers with the ETag of
  the whole configuration, while a conditional update is compared with the ETag of the rule: the
  next update of the rule that sends the tag just received is refused as a mismatch, unless
  the two tags collide.\<close>

theorem traffic_etag_refused:
  assumes "etcd_reads (se_R E) kv" and "sync_ports E kv"
    and "kv w (AppDConfigKeyPath @ mr_appInstanceId r) = Some (DocAppD c)"
    and "find_rule tr_TrafficRuleID (mr_ruleId r) (ac_AppTrafficRule c) = Some i"
    and "TrafficRuleUpdate_OnRequest E J r input w = (PlanOk (rule, Some etag), w')"
    and "etag \<noteq> GenerateStrongETag (rj_sha256 J) (rj_traffic J rule)"
    and "mr_appInstanceId r' = mr_appInstanceId r" and "mr_ruleId r' = mr_ruleId r" and "mr_ifMatch r' = etag"
    and "change \<noteq> rule"
  shows "fst (TrafficRuleUpdate_OnRequest E J r' change w') = PlanErr EtagMissMatchErr ''e-tag miss-match''"
proof -
  let ?key = "AppDConfigKeyPath @ mr_appInstanceId r"
  have etcd: "etcd (se_R E) kv" using assms(1) by (simp add: etcd_reads_def)
  obtain w1 where g: "GetRecord (se_R E) ?key w = (Inr (DocAppD c), w1)" "kv w1 = kv w"
    using etcd_reads.GetRecord_found [OF assms(1,3)] by blast
  note i = find_rule_Some [OF assms(4)]
  have run: "applyTrafficRule E J (mr_appInstanceId r) (mr_ruleId r) (ac_AppTrafficRule c ! i) c i (DocAppD c) input w1
      = (PlanOk (rule, Some etag), w')"
    using assms(4,5) g by (auto simp: TrafficRuleUpdate_OnRequest_def Let_def split: if_splits)
  note stored = sync_ports.traffic_stored [OF assms(2) run, unfolded g(2)]
  have "kv w' ?key = Some (DocAppD (with_traffic_rule c i rule))" by (simp add: stored)
  then obtain w2 where g2: "GetRecord (se_R E) ?key w' = (Inr (DocAppD (with_traffic_rule c i rule)), w2)"
    using etcd_reads.GetRecord_found [OF assms(1)] by blast
  have f: "find_rule tr_TrafficRuleID (mr_ruleId r) (ac_AppTrafficRule (with_traffic_rule c i rule)) = Some i"
    using find_rule_update [OF assms(4), of rule] stored(2) i by (simp add: with_traffic_rule_def)
  have ne: "length (mr_ruleId r) \<noteq> 0" using assms(5) by (auto simp: TrafficRuleUpdate_OnRequest_def)
  show ?thesis
    using g2 f ne assms(6-10) i(1) etag_nonempty [of "rj_sha256 J" "rj_config J (with_traffic_rule c i rule)"] stored(3)
    by (simp add: TrafficRuleUpdate_OnRequest_def with_traffic_rule_def Let_def)
qed

theorem traffic_etag_refused_witness:
  "\<exists>rule etag w'. TrafficRuleUpdate_OnRequest (fixed_env sure_registry ''all'' 200) plain_json (rule_call ''t1'' [])
        ((traffic_rule ''t1'')\<lparr>tr_State := ''INACTIVE''\<rparr>) (mem_sample sample_config (Some sample_config) []) = (PlanOk (rule, Some etag), w')
    \<and> fst (TrafficRuleUpdate_OnRequest (fixed_env sure_registry ''all'' 200) plain_json (rule_call ''t1'' etag) (traffic_rule ''t1'') w')
      = PlanErr EtagMissMatchErr ''e-tag miss-match''"
proof -
  let ?E = "fixed_env sure_registry ''all'' 200" and ?w = "mem_sample sample_config (Some sample_config) []"
    and ?in = "(traffic_rule ''t1'')\<lparr>tr_State := ''INACTIVE''\<rparr>" and ?r = "rule_call ''t1'' []"
  let ?run = "TrafficRuleUpdate_OnRequest ?E plain_json ?r ?in ?w"
  let ?tag = "GenerateStrongETag (rj_sha256 plain_json) (rj_config plain_json (with_traffic_rule sample_config 0 ?in))"
  have "fst ?run = PlanOk (?in, Some ?tag)" by code_simp
  then have run: "?run = (PlanOk (?in, Some ?tag), snd ?run)" by (metis prod.collapse)
  have kv: "map_of (mw_kv ?w) (AppDConfigKeyPath @ mr_appInstanceId ?r) = Some (DocAppD sample_config)" by code_simp
  have f: "find_rule tr_TrafficRuleID (mr_ruleId ?r) (ac_AppTrafficRule sample_config) = Some 0" by code_simp
  have reads: "etcd_reads (se_R ?E) (\<lambda>w. map_of (mw_kv w))"
    using sure_reads.etcd_reads_axioms by (simp add: fixed_env_def)
  have tags: "?tag \<noteq> GenerateStrongETag (rj_sha256 plain_json) (rj_traffic plain_json ?in)" by code_simp
  have other: "traffic_rule ''t1'' \<noteq> ?in" by code_simp
  have r': "mr_appInstanceId (rule_call ''t1'' ?tag) = mr_appInstanceId ?r" "mr_ruleId (rule_call ''t1'' ?tag) = mr_ruleId ?r"
    "mr_ifMatch (rule_call ''t1'' ?tag) = ?tag" by (simp_all add: rule_call_def)
  show ?thesis
    using run traffic_etag_refused [OF reads fixed_ports [OF sure_etcd.etcd_axioms] kv f run tags r' other] by blast
qed

end
