(* ===== verification/Svc_Model.thy ===== *)
theory Svc_Model
  imports Mp1_Rules
begin

text \<open>
  The MEC service documents of the mp1 interface and their translation to the instances of
  the service centre (\<open>mepserver/common/models/serviceinfo.go\<close>, \<open>transportinfo.go\<close>
  and the models they contain), the API gateway operations
  (\<open>common/util/apigwutil.go\<close>) and the helper functions of \<open>common/util/meputil.go\<close>
  and \<open>requestutil.go\<close> they use.  A service is kept as the properties of an instance:
  every field is one entry of a string map, each endpoint an entry \<open>endpoint/<uri>\<close>
  with the name under which the gateway knows it.
\<close>

section \<open>Numbers in text\<close>

text \<open>\<open>strconv.Itoa\<close> and \<open>strconv.FormatBool\<close>.\<close>

definition itoa_int :: "int \<Rightarrow> string" where
  "itoa_int n = (if n < 0 then CHR ''-'' # itoa (nat (- n)) else itoa (nat n))"

definition format_bool :: "bool \<Rightarrow> string" where
  "format_bool b = (if b then ''true'' else ''false'')"

text \<open>\<open>strconv.ParseInt\<close> with base 10: the value and whether it was parsed.  A syntax
  error gives 0, a value out of range the nearest value of the width.  \<open>strconv.Atoi\<close> is
  the 64-bit case.\<close>

definition parse_int :: "nat \<Rightarrow> string \<Rightarrow> int \<times> bool" where
  "parse_int bits s =
     (let neg = (s \<noteq> [] \<and> hd s = CHR ''-'');
          digits = (if s \<noteq> [] \<and> (hd s = CHR ''-'' \<or> hd s = CHR ''+'') then tl s else s);
          n = int (dec_val digits) in
      if digits = [] \<or> \<not> list_all is_digit digits then (0, False)
      else if \<not> neg \<and> n \<ge> 2 ^ (bits - 1) then (2 ^ (bits - 1) - 1, False)
      else if neg \<and> n > 2 ^ (bits - 1) then (- (2 ^ (bits - 1)), False)
      else (if neg then - n else n, True))"

definition atoi :: "string \<Rightarrow> int \<times> bool" where
  "atoi s = parse_int 64 s"

definition parse_uint :: "nat \<Rightarrow> string \<Rightarrow> nat \<times> bool" where
  "parse_uint bits s =
     (if s = [] \<or> \<not> list_all is_digit s then (0, False)
      else if dec_val s \<ge> 2 ^ bits then (2 ^ bits - 1, False) else (dec_val s, True))"

definition parse_bool :: "string \<Rightarrow> bool \<times> bool" where
  "parse_bool s =
     (if s \<in> set [''1'', ''t'', ''T'', ''TRUE'', ''true'', ''True''] then (True, True)
      else if s \<in> set [''0'', ''f'', ''F'', ''FALSE'', ''false'', ''False''] then (False, True)
      else (False, False))"

lemma parse_bool_format [simp]: "fst (parse_bool (format_bool b)) = b"
  by (simp add: parse_bool_def format_bool_def)

lemma list_all_itoa: "list_all is_digit (itoa n)"
  by (auto simp: list_all_iff intro: itoa_digits)

lemma hd_itoa_digit: "is_digit (hd (itoa n))"
  by (meson hd_in_set itoa_digits itoa_not_Nil)

lemma sign_not_digit: "is_digit c \<Longrightarrow> c \<noteq> CHR ''-'' \<and> c \<noteq> CHR ''+''"
  by (auto simp: is_digit_def)

lemma parse_int_itoa: "int n < 2 ^ (bits - 1) \<Longrightarrow> parse_int bits (itoa n) = (int n, True)"
  using sign_not_digit [OF hd_itoa_digit [of n]]
  by (simp add: parse_int_def list_all_itoa Let_def)

lemma parse_int_itoa_over: "int n \<ge> 2 ^ (bits - 1) \<Longrightarrow> parse_int bits (itoa n) = (2 ^ (bits - 1) - 1, False)"
  using sign_not_digit [OF hd_itoa_digit [of n]]
  by (simp add: parse_int_def list_all_itoa Let_def)

section \<open>The documents\<close>

record EndPointInfoAddress =
  epa_Host :: string
  epa_Port :: "32 word"

text \<open>An alternative endpoint is any JSON value, here its text.\<close>

record EndPointInfo =
  ep_Uris :: "string list"
  ep_Addresses :: "EndPointInfoAddress list"
  ep_Alternative :: "string option"

record SecurityInfoOAuth2Info =
  oa_GrantTypes :: "string list"
  oa_TokenEndpoint :: string

record TransportInfo =
  ti_ID :: string
  ti_Name :: string
  ti_Description :: string
  ti_TransType :: string
  ti_Protocol :: string
  ti_Version :: string
  ti_Endpoint :: EndPointInfo
  ti_Security :: SecurityInfoOAuth2Info

record Link =
  ln_Self :: string
  ln_AppInstanceId :: string

record ServiceInfo =
  si_SerInstanceId :: string
  si_SerName :: string
  si_SerCategory :: CategoryRef
  si_Version :: string
  si_State :: string
  si_TransportID :: string
  si_TransportInfo :: TransportInfo
  si_Serializer :: string
  si_ScopeOfLocality :: string
  si_ConsumedLocalOnly :: bool
  si_IsLocal :: bool
  si_LivenessInterval :: int
  si_Links :: Link

definition empty_category :: CategoryRef where
  "empty_category = \<lparr>cat_Href = [], cat_ID = [], cat_Name = [], cat_Version = []\<rparr>"

definition empty_endpoint :: EndPointInfo where
  "empty_endpoint = \<lparr>ep_Uris = [], ep_Addresses = [], ep_Alternative = None\<rparr>"

definition empty_transport :: TransportInfo where
  "empty_transport = \<lparr>ti_ID = [], ti_Name = [], ti_Description = [], ti_TransType = [], ti_Protocol = [],
     ti_Version = [], ti_Endpoint = empty_endpoint, ti_Security = \<lparr>oa_GrantTypes = [], oa_TokenEndpoint = []\<rparr>\<rparr>"

definition empty_ServiceInfo :: ServiceInfo where
  "empty_ServiceInfo = \<lparr>si_SerInstanceId = [], si_SerName = [], si_SerCategory = empty_category, si_Version = [],
     si_State = [], si_TransportID = [], si_TransportInfo = empty_transport, si_Serializer = [],
     si_ScopeOfLocality = [], si_ConsumedLocalOnly = False, si_IsLocal = False, si_LivenessInterval = 0,
     si_Links = \<lparr>ln_Self = [], ln_AppInstanceId = []\<rparr>\<rparr>"

section \<open>Instances of the service centre\<close>

text \<open>The service centre's own types, as far as the code fills them.  A map of properties
  without entries is the nil map: the service centre does not store empty maps.\<close>

type_synonym props = "(string \<times> string) list"

record HealthCheck =
  hc_Mode :: string
  hc_Interval :: int

record MicroServiceInstance =
  mi_ServiceId :: string
  mi_InstanceId :: string
  mi_Version :: string
  mi_HostName :: string
  mi_Status :: string
  mi_Timestamp :: string
  mi_ModTimestamp :: string
  mi_Endpoints :: "string list"
  mi_HealthCheck :: "HealthCheck option"
  mi_Properties :: props

record MicroService =
  ms_AppId :: string
  ms_ServiceName :: string
  ms_Version :: string
  ms_Status :: string

definition empty_instance :: MicroServiceInstance where
  "empty_instance = \<lparr>mi_ServiceId = [], mi_InstanceId = [], mi_Version = [], mi_HostName = [], mi_Status = [],
     mi_Timestamp = [], mi_ModTimestamp = [], mi_Endpoints = [], mi_HealthCheck = None, mi_Properties = []\<rparr>"

text \<open>Reading a Go map: the zero value for a missing key.\<close>

definition get_prop :: "props \<Rightarrow> string \<Rightarrow> string" where
  "get_prop m k = (case map_of m k of None \<Rightarrow> [] | Some v \<Rightarrow> v)"

definition UpdatePropertiesMap :: "string \<Rightarrow> string \<Rightarrow> props \<Rightarrow> props" where
  "UpdatePropertiesMap k v m = (if v \<noteq> [] then al_put k v m else m)"

lemma al_put_not_Nil [simp]: "al_put k v m \<noteq> []"
  by (cases m) (auto split: if_splits)

lemma get_prop_al_put [simp]: "get_prop (al_put k v m) k' = (if k' = k then v else get_prop m k')"
  by (simp add: get_prop_def)

lemma get_prop_al_del [simp]: "get_prop (al_del k m) k' = (if k' = k then [] else get_prop m k')"
  by (simp add: get_prop_def)

text \<open>A field that is empty in the document keeps the former entry.\<close>

definition keep :: "string \<Rightarrow> string \<Rightarrow> string" where
  "keep v old = (if v \<noteq> [] then v else old)"

lemma keep_simps [simp]: "keep v [] = v" "keep [] old = old" "v \<noteq> [] \<Longrightarrow> keep v old = v"
  by (auto simp: keep_def)

lemma get_prop_UpdatePropertiesMap [simp]:
  "get_prop (UpdatePropertiesMap k v m) k = keep v (get_prop m k)"
  "k' \<noteq> k \<Longrightarrow> get_prop (UpdatePropertiesMap k v m) k' = get_prop m k'"
  by (simp_all add: UpdatePropertiesMap_def)

lemma get_prop_Update_cong:
  "get_prop m k = get_prop m' k \<Longrightarrow> get_prop (UpdatePropertiesMap k' v m) k = get_prop (UpdatePropertiesMap k' v m') k"
  by (cases "k = k'") simp_all

lemma get_prop_Cons [simp]: "get_prop ((k, v) # m) k' = (if k' = k then v else get_prop m k')"
  by (simp add: get_prop_def)

lemma get_prop_Nil [simp]: "get_prop [] k = []"
  by (simp add: get_prop_def)

section \<open>Constants\<close>

definition ServiceVersion :: string where "ServiceVersion = ''1.0.0''"
definition SuspendedState :: string where "SuspendedState = ''SUSPENDED''"
definition DefaultHeartbeatInterval :: int where "DefaultHeartbeatInterval = 60"
definition BitSize :: nat where "BitSize = 32"
definition EndPointPropPrefix :: string where "EndPointPropPrefix = ''endpoint/''"
definition Uris :: string where "Uris = ''uris''"
definition Addresses :: string where "Addresses = ''addresses''"
definition Alternatives :: string where "Alternatives = ''alternative''"
definition serviceUrl :: string where "serviceUrl = ''/services/''"
definition routeUrl :: string where "routeUrl = ''/routes/''"

text \<open>The separator of the grant types, a full-width comma in UTF-8.\<close>

definition grant_separator :: string where
  "grant_separator = [CHR 0xEF, CHR 0xBC, CHR 0x8C]"

definition LivenessPath :: "string \<Rightarrow> string \<Rightarrow> string" where
  "LivenessPath appInstanceId serId =
     ''/mep/mec_service_mgmt/v1/applications/'' @ appInstanceId @ ''/services/'' @ serId @ ''/liveness''"

section \<open>The host of the server\<close>

text \<open>What the operations take from outside: the text of the configuration file, random
  identifiers, the clock (nanoseconds since 1970), HTTP requests (method, URL and body to a
  body or an error), and the iteration order of a map.\<close>

record 'w svc_host =
  sh_config :: "'w \<Rightarrow> string go_result \<times> 'w"
  sh_uuid :: "'w \<Rightarrow> string \<times> 'w"
  sh_clock :: "'w \<Rightarrow> nat \<times> 'w"
  sh_send :: "string \<Rightarrow> string \<Rightarrow> string \<Rightarrow> 'w \<Rightarrow> string go_result \<times> 'w"
  sh_gwBase :: string
  sh_iter :: "props \<Rightarrow> props"

text \<open>The configuration file: \<open>key = value\<close> lines, a value ends at a second equals
  sign.  Lines longer than the scanner's buffer are not modelled.\<close>

definition scan_line :: "string \<Rightarrow> props \<Rightarrow> props" where
  "scan_line line config =
     (if CHR ''='' \<in> set line
      then (let keyVal = split_on (CHR ''='') line
            in al_put (trim_space (keyVal ! 0)) (trim_space (keyVal ! 1)) config)
      else config)"

definition scanConfig :: "string \<Rightarrow> props" where
  "scanConfig text = fold scan_line (split_on (CHR 0x0A) text) []"

definition GetAppConfig :: "'w svc_host \<Rightarrow> 'w \<Rightarrow> props go_result \<times> 'w" where
  "GetAppConfig H w =
     (case sh_config H w of (Inl e, w) \<Rightarrow> (Inl e, w) | (Inr text, w) \<Rightarrow> (Inr (scanConfig text), w))"

section \<open>The API gateway\<close>

record SerInfo =
  gi_SerName :: string
  gi_Uri :: string

definition service_body :: "SerInfo \<Rightarrow> string" where
  "service_body serInfo = ''{ \"url\": \"'' @ gi_Uri serInfo @ ''\", \"name\": \"'' @ gi_SerName serInfo @ ''\" }''"

definition route_body :: "string \<Rightarrow> string" where
  "route_body serName = ''{ \"paths\": [\"/'' @ serName @ ''\"], \"name\": \"'' @ serName @ ''\" }''"

definition jwt_body :: string where
  "jwt_body = ''{ \"name\": \"jwt\", \"config\": { \"claims_to_verify\": [\"exp\"] } }''"

definition service_at :: "'w svc_host \<Rightarrow> string \<Rightarrow> string" where
  "service_at H serName = sh_gwBase H @ serviceUrl @ serName"

definition route_at :: "'w svc_host \<Rightarrow> string \<Rightarrow> string" where
  "route_at H serName = sh_gwBase H @ serviceUrl @ serName @ routeUrl @ serName"

definition plugin_at :: "'w svc_host \<Rightarrow> string \<Rightarrow> string" where
  "plugin_at H serName = sh_gwBase H @ serviceUrl @ serName @ ''/plugins''"

text \<open>A failed request is logged and ignored.\<close>

definition AddOrUpdateApiGwService :: "'w svc_host \<Rightarrow> SerInfo \<Rightarrow> 'w \<Rightarrow> 'w" where
  "AddOrUpdateApiGwService H serInfo w =
     snd (sh_send H ''PUT'' (service_at H (gi_SerName serInfo)) (service_body serInfo) w)"

definition DeleteApiGwService :: "'w svc_host \<Rightarrow> string \<Rightarrow> 'w \<Rightarrow> 'w" where
  "DeleteApiGwService H serviceName w = snd (sh_send H ''DELETE'' (service_at H serviceName) [] w)"

definition AddOrUpdateApiGwRoute :: "'w svc_host \<Rightarrow> SerInfo \<Rightarrow> 'w \<Rightarrow> 'w" where
  "AddOrUpdateApiGwRoute H serInfo w =
     snd (sh_send H ''PUT'' (route_at H (gi_SerName serInfo)) (route_body (gi_SerName serInfo)) w)"

definition DeleteApiGwRoute :: "'w svc_host \<Rightarrow> string \<Rightarrow> 'w \<Rightarrow> 'w" where
  "DeleteApiGwRoute H serviceName w = snd (sh_send H ''DELETE'' (route_at H serviceName) [] w)"

definition EnableJwtPlugin :: "'w svc_host \<Rightarrow> SerInfo \<Rightarrow> 'w \<Rightarrow> 'w" where
  "EnableJwtPlugin H serInfo w = snd (sh_send H ''POST'' (plugin_at H (gi_SerName serInfo)) jwt_body w)"

text \<open>Despite its name this sends the request that creates the plugin.\<close>

definition DeleteJwtPlugin :: "'w svc_host \<Rightarrow> string \<Rightarrow> 'w \<Rightarrow> 'w" where
  "DeleteJwtPlugin H serviceName w = snd (sh_send H ''POST'' (plugin_at H serviceName) jwt_body w)"

definition CleanUpApiGwEntry :: "'w svc_host \<Rightarrow> string \<Rightarrow> 'w \<Rightarrow> 'w" where
  "CleanUpApiGwEntry H serName w =
     (if serName = [] then w
      else DeleteApiGwService H serName (DeleteJwtPlugin H serName (DeleteApiGwRoute H serName w)))"

definition RegisterToApiGw :: "'w svc_host \<Rightarrow> string \<Rightarrow> string \<Rightarrow> bool \<Rightarrow> 'w \<Rightarrow> 'w" where
  "RegisterToApiGw H uri serviceName isUpdateReq w =
     (let serInfo = \<lparr>gi_SerName = serviceName, gi_Uri = uri\<rparr>;
          w = AddOrUpdateApiGwRoute H serInfo (AddOrUpdateApiGwService H serInfo w)
      in if isUpdateReq then w else EnableJwtPlugin H serInfo w)"

section \<open>From a document to an instance\<close>

definition GenerateServiceRequest :: "ServiceInfo \<Rightarrow> MicroService" where
  "GenerateServiceRequest s =
     \<lparr>ms_AppId = [], ms_ServiceName = si_SerName s, ms_Version = ServiceVersion,
      ms_Status = (if si_State s = InactiveState then ''DOWN'' else ''UP'')\<rparr>"

definition serCategoryToProperties :: "CategoryRef \<Rightarrow> props \<Rightarrow> props" where
  "serCategoryToProperties c m =
     UpdatePropertiesMap ''serCategory/version'' (cat_Version c)
       (UpdatePropertiesMap ''serCategory/name'' (cat_Name c)
         (UpdatePropertiesMap ''serCategory/id'' (cat_ID c)
           (UpdatePropertiesMap ''serCategory/href'' (cat_Href c) m)))"

definition transportInfoToProperties :: "TransportInfo \<Rightarrow> props \<Rightarrow> props" where
  "transportInfoToProperties t m =
     UpdatePropertiesMap ''transportInfo/security/oAuth2Info/tokenEndpoint'' (oa_TokenEndpoint (ti_Security t))
       (UpdatePropertiesMap ''transportInfo/security/oAuth2Info/grantTypes'' (join grant_separator (oa_GrantTypes (ti_Security t)))
         (UpdatePropertiesMap ''transportInfo/version'' (ti_Version t)
           (UpdatePropertiesMap ''transportInfo/protocol'' (ti_Protocol t)
             (UpdatePropertiesMap ''transportInfo/type'' (ti_TransType t)
               (UpdatePropertiesMap ''transportInfo/description'' (ti_Description t)
                 (UpdatePropertiesMap ''transportInfo/name'' (ti_Name t)
                   (UpdatePropertiesMap ''transportInfo/id'' (ti_ID t) m)))))))"

text \<open>Both texts of a time: the decimal digits of the nanoseconds, cut after the first half
  and one more digit.\<close>

definition sec_nano :: "nat \<Rightarrow> string \<times> string" where
  "sec_nano now = (let s = itoa now; n = length s div 2 + 1 in (take n s, drop n s))"

definition put_timestamp :: "nat \<Rightarrow> props \<Rightarrow> props" where
  "put_timestamp now m =
     UpdatePropertiesMap ''timestamp/nanoseconds'' (snd (sec_nano now))
       (UpdatePropertiesMap ''timestamp/seconds'' (fst (sec_nano now)) m)"

definition generateServiceIdAndName :: "'w svc_host \<Rightarrow> ServiceInfo \<Rightarrow> 'w \<Rightarrow> (string \<times> string) \<times> 'w" where
  "generateServiceIdAndName H s w =
     (case sh_uuid H w of (u, w) \<Rightarrow> ((take 20 u, si_SerName s @ take 20 u), w))"

text \<open>The new, unmodified and deleted endpoints, each from URI to gateway name.\<close>

fun split_endpoints ::
  "'w svc_host \<Rightarrow> ServiceInfo \<Rightarrow> bool \<Rightarrow> props \<Rightarrow> string list \<Rightarrow> props \<times> props \<Rightarrow> 'w \<Rightarrow> (props \<times> props) \<times> 'w" where
  "split_endpoints H s modReq m [] (newEn, unmEn) w = ((newEn, unmEn), w)"
| "split_endpoints H s modReq m (uri # uris) (newEn, unmEn) w =
     (case (if modReq then map_of m (EndPointPropPrefix @ uri) else None) of
        None \<Rightarrow> (case generateServiceIdAndName H s w of
                   ((serviceId, gwSerName), w) \<Rightarrow> split_endpoints H s modReq m uris (al_put uri gwSerName newEn, unmEn) w)
      | Some serName \<Rightarrow> split_endpoints H s modReq m uris (newEn, al_put uri serName unmEn) w)"

definition endpoint_uri :: "string \<Rightarrow> string" where
  "endpoint_uri k = drop (length EndPointPropPrefix) k"

definition deleted_endpoints :: "props \<Rightarrow> props \<Rightarrow> props \<Rightarrow> props" where
  "deleted_endpoints m newEn unmEn =
     map (\<lambda>(k, v). (endpoint_uri k, v))
       (filter (\<lambda>(k, v). has_prefix k EndPointPropPrefix \<and> map_of newEn (endpoint_uri k) = None
                         \<and> map_of unmEn (endpoint_uri k) = None) m)"

definition compareEndPointsWithDB ::
  "'w svc_host \<Rightarrow> ServiceInfo \<Rightarrow> string list \<Rightarrow> bool \<Rightarrow> props \<Rightarrow> 'w \<Rightarrow> (props \<times> props \<times> props) \<times> 'w" where
  "compareEndPointsWithDB H s nUris modReq m w =
     (case split_endpoints H s modReq m nUris ([], []) w of
        ((newEn, unmEn), w) \<Rightarrow>
          if modReq then ((newEn, unmEn, deleted_endpoints m newEn unmEn), w) else ((newEn, [], []), w))"

definition gateway_uri :: "props \<Rightarrow> string \<Rightarrow> string" where
  "gateway_uri appConfig serName =
     get_prop appConfig ''http_protocol'' @ ''://mep-api-gw.mep:'' @
     itoa (if to_lower (get_prop appConfig ''ssl_enabled'') = ''true'' then 8443 else 8000) @ ''/'' @ serName"

definition register_new :: "'w svc_host \<Rightarrow> bool \<Rightarrow> props \<Rightarrow> props \<times> 'w \<Rightarrow> props \<times> 'w" where
  "register_new H modReq =
     fold (\<lambda>(uri, serName) (m, w).
             (UpdatePropertiesMap (EndPointPropPrefix @ uri) serName m, RegisterToApiGw H uri serName modReq w))"

definition remove_deleted :: "'w svc_host \<Rightarrow> props \<Rightarrow> props \<times> 'w \<Rightarrow> props \<times> 'w" where
  "remove_deleted H =
     fold (\<lambda>(uri, serName) (m, w). (al_del (EndPointPropPrefix @ uri) m, CleanUpApiGwEntry H serName w))"

definition handleEndPointUri ::
  "'w svc_host \<Rightarrow> ServiceInfo \<Rightarrow> string list \<Rightarrow> bool \<Rightarrow> props \<Rightarrow> 'w \<Rightarrow> (string list \<times> string \<times> props) \<times> 'w" where
  "handleEndPointUri H s nUris modReq m w =
     (case GetAppConfig H w of
        (Inl err, w) \<Rightarrow> (([], [], m), w)
      | (Inr appConfig, w) \<Rightarrow>
          (case compareEndPointsWithDB H s nUris modReq m w of
             ((newEn, unmEn, delEn), w) \<Rightarrow>
               (let news = sh_iter H newEn;
                    newUris = map (\<lambda>(uri, serName). gateway_uri appConfig serName) news
                in (case register_new H modReq news (m, w) of
                      (m, w) \<Rightarrow>
                        if modReq then
                          (let unmUris = map (\<lambda>(uri, serName). gateway_uri appConfig serName) (sh_iter H unmEn)
                           in (case remove_deleted H (sh_iter H delEn) (m, w) of
                                 (m, w) \<Rightarrow> ((newUris @ unmUris, Uris, m), w)))
                        else ((newUris, Uris, m), w)))))"

definition address_uri :: "string \<Rightarrow> EndPointInfoAddress \<Rightarrow> string" where
  "address_uri protocol a = protocol @ ''://'' @ epa_Host a @ '':'' @ itoa (unat (epa_Port a)) @ ''/''"

definition registerEndpoints ::
  "'w svc_host \<Rightarrow> ServiceInfo \<Rightarrow> bool \<Rightarrow> props \<Rightarrow> 'w \<Rightarrow> (string list \<times> string \<times> props) \<times> 'w" where
  "registerEndpoints H s modReq m w =
     (let ti = si_TransportInfo s; ep = ti_Endpoint ti in
      if length (ep_Uris ep) \<noteq> 0 then handleEndPointUri H s (ep_Uris ep) modReq m w
      else if length (ep_Addresses ep) \<noteq> 0
      then handleEndPointUri H s (map (address_uri (ti_Protocol ti)) (ep_Addresses ep)) modReq m w
      else (case ep_Alternative ep of
              Some jsonText \<Rightarrow> (([jsonText], Alternatives, m), w)
            | None \<Rightarrow>
                if modReq then
                  (let ends = sh_iter H (filter (\<lambda>(k, v). has_prefix k EndPointPropPrefix) m)
                   in (([], [], fold (\<lambda>(k, v). al_del k) ends m), fold (\<lambda>(k, v). CleanUpApiGwEntry H v) ends w))
                else (([], [], m), w)))"

text \<open>The properties before the endpoints are handled, and the document's own liveness
  interval, which is replaced by the default one.\<close>

definition base_properties :: "ServiceInfo \<Rightarrow> nat \<Rightarrow> props \<Rightarrow> props" where
  "base_properties s nano m =
     put_timestamp nano
      (UpdatePropertiesMap ''mecState'' (si_State s)
       ((if si_LivenessInterval s \<noteq> 0
         then UpdatePropertiesMap ''livenessInterval'' (itoa_int DefaultHeartbeatInterval) else (\<lambda>m. m))
        (UpdatePropertiesMap ''livenessInterval'' (itoa_int 0)
         (UpdatePropertiesMap ''IsLocal'' (format_bool (si_IsLocal s))
          (UpdatePropertiesMap ''ConsumedLocalOnly'' (format_bool (si_ConsumedLocalOnly s))
           (UpdatePropertiesMap ''ScopeOfLocality'' (si_ScopeOfLocality s)
            (UpdatePropertiesMap ''serializer'' (si_Serializer s)
             (UpdatePropertiesMap ''transportId'' (si_TransportID s)
              (al_put ''version'' (si_Version s)
               (serCategoryToProperties (si_SerCategory s)
                (al_put ''serName'' (si_SerName s) m)))))))))))"

definition default_liveness :: "ServiceInfo \<Rightarrow> ServiceInfo" where
  "default_liveness s = (if si_LivenessInterval s \<noteq> 0 then s\<lparr>si_LivenessInterval := DefaultHeartbeatInterval\<rparr> else s)"

definition GenerateRegisterInstance ::
  "'w svc_host \<Rightarrow> ServiceInfo \<Rightarrow> bool \<Rightarrow> MicroServiceInstance \<Rightarrow> 'w \<Rightarrow> (MicroServiceInstance \<times> ServiceInfo) \<times> 'w" where
  "GenerateRegisterInstance H s isUpdateReq inst w =
     (case sh_clock H w of
        (now, w) \<Rightarrow>
          (case sh_clock H w of
             (nano, w) \<Rightarrow>
               (let m = base_properties s nano (mi_Properties inst); s = default_liveness s
                in (case registerEndpoints H s isUpdateReq m w of
                      ((endpoints, epType, m), w) \<Rightarrow>
                        ((inst\<lparr>mi_Version := ServiceVersion,
                               mi_Timestamp := itoa (now div 10 ^ 9), mi_ModTimestamp := itoa (now div 10 ^ 9),
                               mi_Status := (if si_State s = InactiveState then ''DOWN'' else ''UP''),
                               mi_HostName := ''default'', mi_Endpoints := endpoints,
                               mi_HealthCheck := Some \<lparr>hc_Mode = ''push'', hc_Interval = 2 ^ 31 - 2\<rparr>,
                               mi_Properties := transportInfoToProperties (si_TransportInfo s) (al_put ''endPointType'' epType m)\<rparr>,
                          s), w)))))"

section \<open>From an instance to a document\<close>

text \<open>The library functions on URLs and JSON text that reading an instance needs: the host of
  a parsed URL, its split into host and port, and the decoding of a JSON value.\<close>

record svc_codec =
  cd_urlHost :: "string \<Rightarrow> string option"
  cd_splitHostPort :: "string \<Rightarrow> (string \<times> string) option"
  cd_json :: "string \<Rightarrow> string option"

definition GetHostPort :: "svc_codec \<Rightarrow> string \<Rightarrow> (string \<times> int) option" where
  "GetHostPort C uri =
     (case cd_urlHost C uri of
        None \<Rightarrow> None
      | Some h \<Rightarrow>
          (case cd_splitHostPort C h of
             None \<Rightarrow> None
           | Some (host, port) \<Rightarrow> Some (host, if snd (atoi port) then fst (atoi port) else 0)))"

fun address_of :: "svc_codec \<Rightarrow> string \<Rightarrow> EndPointInfoAddress list" where
  "address_of C v = (case GetHostPort C v of
     None \<Rightarrow> [] | Some (host, port) \<Rightarrow> [\<lparr>epa_Host = host, epa_Port = word_of_int port\<rparr>])"

definition fromEndpoints :: "svc_codec \<Rightarrow> string list \<Rightarrow> string \<Rightarrow> EndPointInfo \<Rightarrow> EndPointInfo" where
  "fromEndpoints C uris epType ep =
     (if epType = Uris then ep\<lparr>ep_Uris := uris\<rparr>
      else if epType = Addresses then ep\<lparr>ep_Addresses := concat (map (address_of C) uris)\<rparr>
      else if epType = Alternatives then
        (if length uris = 0 then ep
         else (case cd_json C (hd uris) of None \<Rightarrow> ep\<lparr>ep_Alternative := None\<rparr> | Some jsonObj \<Rightarrow> ep))
      else ep)"

definition serCategoryFromProperties :: "props \<Rightarrow> CategoryRef" where
  "serCategoryFromProperties m =
     \<lparr>cat_Href = get_prop m ''serCategory/href'', cat_ID = get_prop m ''serCategory/id'',
      cat_Name = get_prop m ''serCategory/name'', cat_Version = get_prop m ''serCategory/version''\<rparr>"

definition transportInfoFromProperties :: "props \<Rightarrow> EndPointInfo \<Rightarrow> TransportInfo" where
  "transportInfoFromProperties m ep =
     \<lparr>ti_ID = get_prop m ''transportInfo/id'', ti_Name = get_prop m ''transportInfo/name'',
      ti_Description = get_prop m ''transportInfo/description'', ti_TransType = get_prop m ''transportInfo/type'',
      ti_Protocol = get_prop m ''transportInfo/protocol'', ti_Version = get_prop m ''transportInfo/version'',
      ti_Endpoint = ep,
      ti_Security = \<lparr>oa_GrantTypes = split_on (CHR '','') (get_prop m ''transportInfo/security/oAuth2Info/grantTypes''),
        oa_TokenEndpoint = get_prop m ''transportInfo/security/oAuth2Info/tokenEndpoint''\<rparr>\<rparr>"

text \<open>\<open>FromServiceInstance\<close> on a new document.\<close>

definition FromServiceInstance :: "svc_codec \<Rightarrow> MicroServiceInstance \<Rightarrow> ServiceInfo" where
  "FromServiceInstance C inst =
     (let m = mi_Properties inst; liveness = fst (atoi (get_prop m ''livenessInterval'')) in
      if m = [] then empty_ServiceInfo
      else \<lparr>si_SerInstanceId = mi_ServiceId inst @ mi_InstanceId inst,
            si_SerName = get_prop m ''serName'',
            si_SerCategory = serCategoryFromProperties m,
            si_Version = get_prop m ''version'',
            si_State = get_prop m ''mecState'',
            si_TransportID = get_prop m ''transportId'',
            si_TransportInfo = transportInfoFromProperties m
              (fromEndpoints C (mi_Endpoints inst) (get_prop m ''endPointType'') empty_endpoint),
            si_Serializer = get_prop m ''serializer'',
            si_ScopeOfLocality = get_prop m ''ScopeOfLocality'',
            si_ConsumedLocalOnly = fst (parse_bool (get_prop m ''ConsumedLocalOnly'')),
            si_IsLocal = fst (parse_bool (get_prop m ''IsLocal'')),
            si_LivenessInterval = liveness,
            si_Links = \<lparr>ln_Self = (if liveness \<noteq> 0 then get_prop m ''liveness'' else []),
                        ln_AppInstanceId = get_prop m ''appInstanceId''\<rparr>\<rparr>)"

section \<open>Identifiers and queries\<close>

definition is_lower_hex :: "char \<Rightarrow> bool" where
  "is_lower_hex c \<longleftrightarrow> is_digit c \<or> 97 \<le> (of_char c :: nat) \<and> (of_char c :: nat) \<le> 102"

text \<open>The pattern \<open>[0-9a-f]{32}\<close> is not anchored.\<close>

definition ValidateServiceID :: "string \<Rightarrow> bool" where
  "ValidateServiceID s \<longleftrightarrow>
     list_ex (\<lambda>i. 32 \<le> length (drop i s) \<and> list_all is_lower_hex (take 32 (drop i s))) [0..<Suc (length s)]"

text \<open>A service is named by the id of the service followed by the id of the instance.\<close>

definition split_id :: "string \<Rightarrow> string \<times> string" where
  "split_id s = (take (length s div 2) s, drop (length s div 2) s)"

definition StringContains :: "string list \<Rightarrow> string \<Rightarrow> int" where
  "StringContains arr val = (case find (\<lambda>i. arr ! i = val) [0..<length arr] of None \<Rightarrow> -1 | Some i \<Rightarrow> int i)"

definition InArray :: "string \<Rightarrow> string list \<Rightarrow> bool" where
  "InArray value array = list_ex (\<lambda>v. v = value) array"

definition equal_fold :: "string \<Rightarrow> string \<Rightarrow> bool" where
  "equal_fold s t \<longleftrightarrow> to_lower s = to_lower t"

record svc_query =
  sq_ser_category_id :: string
  sq_scope_of_locality :: string
  sq_consumed_local_only :: string
  sq_is_local :: string

definition isQueryAllSvc :: "svc_query \<Rightarrow> bool" where
  "isQueryAllSvc q \<longleftrightarrow>
     sq_ser_category_id q = [] \<and> sq_scope_of_locality q = [] \<and> sq_consumed_local_only q = [] \<and> sq_is_local q = []"

definition query_selects :: "svc_query \<Rightarrow> MicroServiceInstance \<Rightarrow> bool" where
  "query_selects q ins =
     (let m = mi_Properties ins in
      isQueryAllSvc q \<and> m \<noteq> [] \<or>
      equal_fold (get_prop m ''serCategory/id'') (sq_ser_category_id q) \<or>
      equal_fold (get_prop m ''ConsumedLocalOnly'') (sq_consumed_local_only q) \<or>
      equal_fold (get_prop m ''ScopeOfLocality'') (sq_scope_of_locality q) \<or>
      equal_fold (get_prop m ''IsLocal'') (sq_is_local q))"

text \<open>The result of \<open>FindInstanceByKey\<close> for the documents of the registry, where one
  that does not decode is \<open>None\<close>.\<close>

datatype find_result = FindErr string | FindNull | Found "MicroServiceInstance list"

fun decode_all :: "'a option list \<Rightarrow> 'a list option" where
  "decode_all [] = Some []"
| "decode_all (None # ds) = None"
| "decode_all (Some d # ds) = (case decode_all ds of None \<Rightarrow> None | Some r \<Rightarrow> Some (d # r))"

definition FindInstanceByKey :: "svc_query \<Rightarrow> MicroServiceInstance option list go_result \<Rightarrow> find_result" where
  "FindInstanceByKey q resp =
     (case resp of
        Inl e \<Rightarrow> FindErr ''query from etch error''
      | Inr docs \<Rightarrow>
          (case decode_all docs of
             None \<Rightarrow> FindErr ''string convert to instance failed''
           | Some inss \<Rightarrow> (let findResp = filter (query_selects q) inss in if findResp = [] then FindNull else Found findResp)))"

definition GetApiGwSerName :: "MicroServiceInstance \<Rightarrow> string list" where
  "GetApiGwSerName inst = map (\<lambda>e. last (split_on (CHR ''/'') e)) (mi_Endpoints inst)"

section \<open>Reading what was written\<close>

text \<open>The properties under a prefix are apart from all others.\<close>

definition plain_key :: "string \<Rightarrow> bool" where
  "plain_key k \<longleftrightarrow> \<not> has_prefix k EndPointPropPrefix"

lemma endpoint_key: "has_prefix (EndPointPropPrefix @ uri) EndPointPropPrefix"
  by simp

lemma plain_endpoint: "plain_key k \<Longrightarrow> k \<noteq> EndPointPropPrefix @ uri"
  by (auto simp: plain_key_def)

lemma register_new_plain: "plain_key k \<Longrightarrow> get_prop (fst (register_new H b news (m, w))) k = get_prop m k"
  by (induction news arbitrary: m w) (auto simp: register_new_def plain_endpoint)

lemma remove_deleted_plain: "plain_key k \<Longrightarrow> get_prop (fst (remove_deleted H dels (m, w))) k = get_prop m k"
  by (induction dels arbitrary: m w) (auto simp: remove_deleted_def plain_endpoint)

lemma plain_dests:
  "register_new H b news (m, w) = (m', w') \<Longrightarrow> plain_key k \<Longrightarrow> get_prop m' k = get_prop m k"
  "remove_deleted H dels (m, w) = (m', w') \<Longrightarrow> plain_key k \<Longrightarrow> get_prop m' k = get_prop m k"
  using register_new_plain [of k H b news m w] remove_deleted_plain [of k H dels m w] by auto

lemma drop_ends_plain:
  "plain_key k \<Longrightarrow> set ends \<subseteq> {e. has_prefix (fst e) EndPointPropPrefix} \<Longrightarrow>
     get_prop (fold (\<lambda>(k, v). al_del k) ends m) k = get_prop m k"
  by (induction ends arbitrary: m) (auto simp: plain_key_def)

lemma registerEndpoints_plain:
  assumes "plain_key k" and "reordering (sh_iter H)" and "registerEndpoints H s b m w = ((es, ty, m'), w')"
  shows "get_prop m' k = get_prop m k"
proof -
  have h: "get_prop m' k = get_prop m k" if "handleEndPointUri H s us b m w = ((es, ty, m'), w')" for us
    using that assms(1)
    by (auto simp: handleEndPointUri_def Let_def plain_dests split: prod.splits sum.splits if_splits)
  have d: "get_prop (fold (\<lambda>(k, v). al_del k) (sh_iter H (filter (\<lambda>(k, v). has_prefix k EndPointPropPrefix) m)) m) k = get_prop m k"
    by (rule drop_ends_plain [OF assms(1)]) (auto simp: reordering_set [OF assms(2)])
  show ?thesis
    using assms(3) h d by (auto simp: registerEndpoints_def Let_def split: if_splits option.splits)
qed

end
