(* ===== verification/Data_Bus.thy ===== *)
theory Data_Bus
  imports Svc_Model
begin

text \<open>
  The data bus between the workspace of a plan and its steps (\<open>mepserver/common/arch/bus\<close>)
  and the workspaces of the two interfaces (\<open>mp1/mepspace.go\<close>, \<open>mm5/mepspace.go\<close>).
  The bus copies fields by reflection: a field of a step with the tag \<open>name,in\<close> is set from
  the field of the workspace with the JSON name \<open>name\<close> before the step, and one with
  \<open>name,out\<close> is copied back after it.  The model has the values reflection sees, in a
  store of objects, with pointers, slices and maps as references, and the locations that
  \<open>reflect.Value\<close> keeps; assignability of types is an argument.
  The lemmas show what a transfer does on the fields of a step, that it does not panic, and
  that a value is handed from the step that sets it to the one that asks for it.
\<close>

section \<open>Values and locations\<close>

text \<open>A struct tag as its key and value pairs; the string the code searches has the
  conventional format.\<close>

type_synonym struct_tag = "(string \<times> string) list"

definition tag_string :: "struct_tag \<Rightarrow> string" where
  "tag_string tag = join '' '' (map (\<lambda>(k, v). k @ '':\"'' @ v @ ''\"'') tag)"

definition tag_Get :: "struct_tag \<Rightarrow> string \<Rightarrow> string" where
  "tag_Get tag key = (case map_of tag key of None \<Rightarrow> [] | Some v \<Rightarrow> v)"

record struct_field =
  sf_Name :: string
  sf_Type :: string
  sf_Tag :: struct_tag

definition json_field :: "string \<Rightarrow> string \<Rightarrow> string \<Rightarrow> struct_field" where
  "json_field name ty tag = \<lparr>sf_Name = name, sf_Type = ty, sf_Tag = [(''json'', tag)]\<rparr>"

text \<open>Integers of every width are one constructor; a slice is the address of its array, an
  offset and a length, a map and a pointer an address or nil, an interface its dynamic type and
  value or nil.  Types are known by their names.\<close>

datatype go_value =
    VInvalid
  | VBool bool
  | VInt int
  | VUint nat
  | VFloat string
  | VString string
  | VArray string "go_value list"
  | VSlice string nat nat nat
  | VStruct string "(struct_field \<times> go_value) list"
  | VMap string "nat option"
  | VPtr string "nat option"
  | VInterface "(string \<times> go_value) option"
  | VChan
  | VFunc

record store =
  st_vals :: "nat \<Rightarrow> go_value"
  st_maps :: "nat \<Rightarrow> (go_value \<times> go_value) list"

text \<open>A \<open>reflect.Value\<close>: its type, the value, its location when it is addressable, and
  whether it was reached through an unexported field.\<close>

record reflect_value =
  rv_type :: string
  rv_val :: go_value
  rv_loc :: "(nat \<times> nat list) option"
  rv_RO :: bool

definition zero_rv :: reflect_value where
  "zero_rv = \<lparr>rv_type = [], rv_val = VInvalid, rv_loc = None, rv_RO = False\<rparr>"

definition CanAddr :: "reflect_value \<Rightarrow> bool" where
  "CanAddr v \<longleftrightarrow> rv_loc v \<noteq> None"

definition sub_loc :: "nat \<Rightarrow> reflect_value \<Rightarrow> (nat \<times> nat list) option" where
  "sub_loc i v = map_option (\<lambda>(a, p). (a, p @ [i])) (rv_loc v)"

definition exported :: "struct_field \<Rightarrow> bool" where
  "exported f \<longleftrightarrow> sf_Name f \<noteq> [] \<and> (of_char (hd (sf_Name f)) :: nat) \<in> {65..90}"

definition rv_Field :: "reflect_value \<Rightarrow> (struct_field \<times> go_value) list \<Rightarrow> nat \<Rightarrow> reflect_value" where
  "rv_Field v fs i = \<lparr>rv_type = sf_Type (fst (fs ! i)), rv_val = snd (fs ! i), rv_loc = sub_loc i v,
     rv_RO = (rv_RO v \<or> \<not> exported (fst (fs ! i)))\<rparr>"

definition rv_Len :: "reflect_value \<Rightarrow> nat" where
  "rv_Len v = (case rv_val v of VArray ty vs \<Rightarrow> length vs | VSlice ty a off len \<Rightarrow> len | _ \<Rightarrow> 0)"

definition rv_Index :: "store \<Rightarrow> reflect_value \<Rightarrow> nat \<Rightarrow> reflect_value" where
  "rv_Index h v i =
     (case rv_val v of
        VArray ty vs \<Rightarrow> \<lparr>rv_type = ty, rv_val = vs ! i, rv_loc = sub_loc i v, rv_RO = rv_RO v\<rparr>
      | VSlice ty a off len \<Rightarrow>
          \<lparr>rv_type = ty, rv_val = (case st_vals h a of VArray ty' vs \<Rightarrow> vs ! (off + i) | _ \<Rightarrow> VInvalid),
           rv_loc = Some (a, [off + i]), rv_RO = rv_RO v\<rparr>
      | _ \<Rightarrow> zero_rv)"

definition root_value :: "store \<Rightarrow> string \<Rightarrow> nat \<Rightarrow> bool \<Rightarrow> reflect_value" where
  "root_value h ty a ro = \<lparr>rv_type = ty, rv_val = st_vals h a, rv_loc = Some (a, []), rv_RO = ro\<rparr>"

definition rv_Elem :: "store \<Rightarrow> reflect_value \<Rightarrow> reflect_value" where
  "rv_Elem h v =
     (case rv_val v of
        VPtr ty (Some a) \<Rightarrow> root_value h ty a (rv_RO v)
      | VInterface (Some (ty, x)) \<Rightarrow> \<lparr>rv_type = ty, rv_val = x, rv_loc = None, rv_RO = rv_RO v\<rparr>
      | _ \<Rightarrow> zero_rv)"

text \<open>The entries of a map as values that cannot be addressed, in the order of the
  iteration.\<close>

definition map_entries :: "store \<Rightarrow> ((go_value \<times> go_value) list \<Rightarrow> (go_value \<times> go_value) list) \<Rightarrow> nat option \<Rightarrow> (go_value \<times> go_value) list" where
  "map_entries h iter m = (case m of None \<Rightarrow> [] | Some a \<Rightarrow> iter (st_maps h a))"

section \<open>Setting a value\<close>

fun put_at :: "nat list \<Rightarrow> go_value \<Rightarrow> go_value \<Rightarrow> go_value" where
  "put_at [] x v = x"
| "put_at (i # p) x (VStruct ty fs) = VStruct ty (fs[i := (fst (fs ! i), put_at p x (snd (fs ! i)))])"
| "put_at (i # p) x (VArray ty vs) = VArray ty (vs[i := put_at p x (vs ! i)])"
| "put_at (i # p) x v = v"

text \<open>The types of the program: which types besides equal ones share their representation,
  and which types implement an interface.\<close>

record type_rules =
  tr_direct :: "string \<Rightarrow> string \<Rightarrow> bool"
  tr_implements :: "string \<Rightarrow> string \<Rightarrow> bool"

definition assignTo :: "type_rules \<Rightarrow> reflect_value \<Rightarrow> reflect_value \<Rightarrow> go_value go_result" where
  "assignTo T dst src =
     (if rv_type dst = rv_type src \<or> tr_direct T (rv_type dst) (rv_type src) then Inr (rv_val src)
      else if (case rv_val dst of VInterface d \<Rightarrow> True | _ \<Rightarrow> False) \<and> tr_implements T (rv_type dst) (rv_type src)
      then Inr (case rv_val src of VInterface d \<Rightarrow> VInterface d | v \<Rightarrow> VInterface (Some (rv_type src, v)))
      else Inl (Panic ''reflect.Set: value of type is not assignable to type''))"

definition rv_Set :: "type_rules \<Rightarrow> reflect_value \<Rightarrow> reflect_value \<Rightarrow> store \<Rightarrow> store go_result" where
  "rv_Set T dst src h =
     (case rv_loc dst of
        None \<Rightarrow> Inl (Panic ''reflect.Value.Set using unaddressable value'')
      | Some (a, p) \<Rightarrow>
          if rv_RO dst \<or> rv_RO src then Inl (Panic ''reflect.Value.Set using value obtained using unexported field'')
          else if rv_val src = VInvalid then Inl (Panic ''reflect.Value.Set using zero Value'')
          else bind_res (assignTo T dst src) (\<lambda>x. Inr (h\<lparr>st_vals := (st_vals h)(a := put_at p x (st_vals h a))\<rparr>)))"

section \<open>Paths\<close>

definition DataIn :: string where "DataIn = ''in''"
definition DataOut :: string where "DataOut = ''out''"
definition invalid :: string where "invalid = ''invalid''"

record JpErr =
  je_ErrDes :: string
  je_JPath :: string

definition JpErr_Error :: "JpErr \<Rightarrow> string" where
  "JpErr_Error e = ''jpath error info:'' @ je_ErrDes e @ '', json path:'' @ je_JPath e"

record JSONPathInfo =
  ji_ParentNode :: reflect_value
  ji_CurNode :: reflect_value
  ji_CurName :: string
  ji_e :: "JpErr option"

definition no_info :: JSONPathInfo where
  "no_info = \<lparr>ji_ParentNode = zero_rv, ji_CurNode = zero_rv, ji_CurName = [], ji_e = None\<rparr>"

definition jp_error :: "string \<Rightarrow> string \<Rightarrow> JSONPathInfo" where
  "jp_error des path = no_info\<lparr>ji_e := Some \<lparr>je_ErrDes = des, je_JPath = path\<rparr>\<rparr>"

text \<open>\<open>strings.Replace\<close> of every \<open>~c\<close>.\<close>

fun replace_tilde :: "char \<Rightarrow> char \<Rightarrow> string \<Rightarrow> string" where
  "replace_tilde c r (x # y # s) =
     (if x = CHR ''~'' \<and> y = c then r # replace_tilde c r s else x # replace_tilde c r (y # s))"
| "replace_tilde c r s = s"

definition getFirstName :: "string \<Rightarrow> string \<times> string" where
  "getFirstName path =
     (if path = [] then ([], [])
      else let newPath = (if hd path = CHR ''/'' then tl path else path);
               firstName = takeWhile (\<lambda>c. c \<noteq> CHR ''/'') newPath;
               subPath = dropWhile (\<lambda>c. c \<noteq> CHR ''/'') newPath
           in (if CHR ''~'' \<in> set firstName
               then replace_tilde CHR ''0'' CHR ''~'' (replace_tilde CHR ''1'' CHR ''/'' firstName)
               else firstName, subPath))"

definition str_contains :: "string \<Rightarrow> string \<Rightarrow> bool" where
  "str_contains s t \<longleftrightarrow> list_ex (\<lambda>i. has_prefix (drop i s) t) [0..<Suc (length s)]"

definition json_name :: "struct_field \<Rightarrow> string" where
  "json_name f =
     (let name = tag_Get (sf_Tag f) ''json'' in
      if name = [] then to_lower (sf_Name f)
      else if CHR '','' \<in> set name \<and> hd name \<noteq> CHR '','' then takeWhile (\<lambda>c. c \<noteq> CHR '','') name
      else name)"

definition matchJSONFieldName :: "struct_field \<Rightarrow> string \<Rightarrow> bool" where
  "matchJSONFieldName f jsonName \<longleftrightarrow> str_contains (tag_string (sf_Tag f)) jsonName \<and> json_name f = jsonName"

definition reflectValueToString :: "go_value \<Rightarrow> string" where
  "reflectValueToString v =
     (case v of VInt i \<Rightarrow> itoa_int i | VUint n \<Rightarrow> itoa n | VBool b \<Rightarrow> format_bool b | VString s \<Rightarrow> s | _ \<Rightarrow> invalid)"

definition reflectSafeAddr :: "reflect_value \<Rightarrow> reflect_value \<Rightarrow> JSONPathInfo" where
  "reflectSafeAddr p v =
     no_info\<lparr>ji_ParentNode := (if CanAddr p then p else zero_rv), ji_CurNode := (if CanAddr v then v else zero_rv)\<rparr>"

definition getFieldFromPath :: "reflect_value \<Rightarrow> reflect_value \<Rightarrow> string \<Rightarrow> JSONPathInfo" where
  "getFieldFromPath p v path =
     (if \<not> CanAddr v then jp_error ''CanAddr false'' path
      else case rv_val v of
        VInvalid \<Rightarrow> jp_error ''Kind invalid'' path
      | VChan \<Rightarrow> jp_error ''Kind Chan or Func'' path
      | VFunc \<Rightarrow> jp_error ''Kind Chan or Func'' path
      | VArray ty vs \<Rightarrow> jp_error ''unexpect Kind: reflect.Array, reflect.Struct, reflect.Interface'' path
      | VStruct ty fs \<Rightarrow> jp_error ''unexpect Kind: reflect.Array, reflect.Struct, reflect.Interface'' path
      | VInterface d \<Rightarrow> jp_error ''unexpect Kind: reflect.Array, reflect.Struct, reflect.Interface'' path
      | VFloat x \<Rightarrow> jp_error ''unexpect Kind: reflect.Array, reflect.Struct, reflect.Interface'' path
      | _ \<Rightarrow> no_info\<lparr>ji_ParentNode := p, ji_CurNode := v\<rparr>)"

text \<open>The cases for containers take the recursive call as an argument.  The calls may follow
  a cycle of pointers: \<open>n\<close> is the number of nested calls the stack holds, and a search that
  needs more ends the process.\<close>

type_synonym reflect_call = "reflect_value \<Rightarrow> reflect_value \<Rightarrow> string \<Rightarrow> JSONPathInfo go_result"

definition objReflectPathArray :: "reflect_call \<Rightarrow> store \<Rightarrow> reflect_value \<Rightarrow> string \<Rightarrow> string \<Rightarrow> JSONPathInfo go_result" where
  "objReflectPathArray rec h v fieldName subPath =
     (if fieldName = ''-'' then Inr ((reflectSafeAddr v zero_rv)\<lparr>ji_CurName := ''-''\<rparr>)
      else case atoi fieldName of (idx, ok) \<Rightarrow>
        if \<not> ok then Inr (jp_error ''Atoi error'' fieldName)
        else if idx \<ge> int (rv_Len v) then Inr (jp_error ''Index out of range'' fieldName)
        else if idx < 0 then Inl (Panic ''reflect: array index out of range'')
        else if subPath = [] then Inr (reflectSafeAddr v (rv_Index h v (nat idx)))
        else rec v (rv_Index h v (nat idx)) subPath)"

definition objReflectPathStruct :: "reflect_call \<Rightarrow> reflect_value \<Rightarrow> (struct_field \<times> go_value) list \<Rightarrow> string \<Rightarrow> string \<Rightarrow> JSONPathInfo go_result" where
  "objReflectPathStruct rec v fs fieldName subPath =
     (case find (\<lambda>i. matchJSONFieldName (fst (fs ! i)) fieldName) [0..<length fs] of
        None \<Rightarrow> Inr (jp_error ''can not find field in struct'' fieldName)
      | Some i \<Rightarrow>
          if subPath = [] then Inr (reflectSafeAddr v (rv_Field v fs i))
          else rec v (rv_Field v fs i) subPath)"

definition objReflectPathMap :: "reflect_call \<Rightarrow> reflect_value \<Rightarrow> string \<Rightarrow> (go_value \<times> go_value) list \<Rightarrow> string \<Rightarrow> string \<Rightarrow> JSONPathInfo go_result" where
  "objReflectPathMap rec v ty entries fieldName subPath =
     (case find (\<lambda>e. reflectValueToString (fst e) = fieldName) entries of
        None \<Rightarrow>
          if subPath = [] then Inr ((reflectSafeAddr v zero_rv)\<lparr>ji_CurName := fieldName\<rparr>)
          else Inr (jp_error (''path not in map:'' @ fieldName) subPath)
      | Some e \<Rightarrow>
          if subPath = [] then Inr ((reflectSafeAddr v zero_rv)\<lparr>ji_CurName := fieldName\<rparr>)
          else rec v \<lparr>rv_type = ty, rv_val = snd e, rv_loc = None, rv_RO = rv_RO v\<rparr> subPath)"

primrec objReflectPath :: "nat \<Rightarrow> store \<Rightarrow> ((go_value \<times> go_value) list \<Rightarrow> (go_value \<times> go_value) list) \<Rightarrow> reflect_call" where
  "objReflectPath 0 h iter p v path = Inl (Fatal ''stack overflow'')"
| "objReflectPath (Suc n) h iter p v path =
     (case getFirstName path of (fieldName, subPath) \<Rightarrow>
      case rv_val v of
        VInvalid \<Rightarrow> Inr (jp_error ''reflect.Invalid'' path)
      | VSlice ty a off len \<Rightarrow> objReflectPathArray (objReflectPath n h iter) h v fieldName subPath
      | VArray ty vs \<Rightarrow> objReflectPathArray (objReflectPath n h iter) h v fieldName subPath
      | VStruct ty fs \<Rightarrow> objReflectPathStruct (objReflectPath n h iter) v fs fieldName subPath
      | VMap ty m \<Rightarrow> objReflectPathMap (objReflectPath n h iter) v ty (map_entries h iter m) fieldName subPath
      | VPtr ty None \<Rightarrow> Inr (jp_error ''pointer is null'' path)
      | VPtr ty (Some a) \<Rightarrow> objReflectPath n h iter p (rv_Elem h v) path
      | VInterface None \<Rightarrow> Inr (jp_error ''kind is interface, nil'' path)
      | VInterface (Some d) \<Rightarrow>
          if subPath = [] then Inr (reflectSafeAddr v (rv_Elem h v))
          else objReflectPath n h iter p (rv_Elem h v) path
      | _ \<Rightarrow> Inr (getFieldFromPath p v path))"

section \<open>Transfers\<close>

definition parseTags :: "struct_tag \<Rightarrow> string \<times> string" where
  "parseTags tag =
     (let fieldName = tag_Get tag ''json'' in
      if fieldName = [] then ([], [])
      else let fieldNames = split_on CHR '','' fieldName
           in (hd fieldNames, if length fieldNames > 1 then fieldNames ! 1 else DataIn))"

text \<open>One field of the step, with the step and the workspace at their addresses; the
  fields of the step are read again for each transfer, since the store has changed.\<close>

definition load_field :: "nat \<Rightarrow> type_rules \<Rightarrow> ((go_value \<times> go_value) list \<Rightarrow> (go_value \<times> go_value) list)
      \<Rightarrow> string \<Rightarrow> nat \<Rightarrow> string \<Rightarrow> nat \<Rightarrow> string \<Rightarrow> nat \<Rightarrow> store \<Rightarrow> store go_result" where
  "load_field n T iter dty dst sty src direction i h =
     (let rflDst = root_value h dty dst False; rflSrc = root_value h sty src False in
      case rv_val rflDst of
        VStruct ty fs \<Rightarrow>
          (case parseTags (sf_Tag (fst (fs ! i))) of (fieldName, secTag) \<Rightarrow>
           if fieldName = [] then Inr h
           else if secTag \<noteq> direction then Inr h
           else bind_res (objReflectPath n h iter rflSrc rflSrc fieldName)
             (\<lambda>srcNode.
                if ji_e srcNode \<noteq> None \<or> rv_val (ji_CurNode srcNode) = VInvalid then Inr h
                else if direction = DataIn then rv_Set T (rv_Field rflDst fs i) (ji_CurNode srcNode) h
                else rv_Set T (ji_CurNode srcNode) (rv_Field rflDst fs i) h))
      | _ \<Rightarrow> Inl (Panic ''reflect: NumField of non-struct type''))"

fun load_fields :: "nat \<Rightarrow> type_rules \<Rightarrow> ((go_value \<times> go_value) list \<Rightarrow> (go_value \<times> go_value) list)
      \<Rightarrow> string \<Rightarrow> nat \<Rightarrow> string \<Rightarrow> nat \<Rightarrow> string \<Rightarrow> nat list \<Rightarrow> store \<Rightarrow> store go_result" where
  "load_fields n T iter dty dst sty src direction [] h = Inr h"
| "load_fields n T iter dty dst sty src direction (i # is) h =
     bind_res (load_field n T iter dty dst sty src direction i h)
       (load_fields n T iter dty dst sty src direction is)"

definition LoadObjByInd :: "nat \<Rightarrow> type_rules \<Rightarrow> ((go_value \<times> go_value) list \<Rightarrow> (go_value \<times> go_value) list)
      \<Rightarrow> string \<Rightarrow> nat \<Rightarrow> string \<Rightarrow> nat \<Rightarrow> string \<Rightarrow> store \<Rightarrow> store go_result" where
  "LoadObjByInd n T iter dty dst sty src direction h =
     (case st_vals h dst of
        VStruct ty fs \<Rightarrow> load_fields n T iter dty dst sty src direction [0..<length fs] h
      | _ \<Rightarrow> Inl (Panic ''reflect: NumField of non-struct type''))"

section \<open>The workspaces and the steps of a query for services\<close>

definition MepSpace_mp1 :: "struct_field list" where
  "MepSpace_mp1 =
     [\<lparr>sf_Name = ''SpaceBase'', sf_Type = ''workspace.SpaceBase'', sf_Tag = []\<rparr>,
      json_field ''R'' ''*http.Request'' ''r'', json_field ''W'' ''http.ResponseWriter'' ''w'',
      json_field ''Ctx'' ''context.Context'' ''ctx'', json_field ''ServiceId'' ''string'' ''serviceId'',
      json_field ''RestBody'' ''interface {}'' ''restBody'', json_field ''AppInstanceId'' ''string'' ''appInstanceId'',
      json_field ''InstanceId'' ''string'' ''instanceId'', json_field ''SubscribeId'' ''string'' ''subscribeId'',
      json_field ''DNSRuleId'' ''string'' ''dnsRuleId'', json_field ''TrafficRuleId'' ''string'' ''trafficRuleId'',
      json_field ''Flag'' ''bool'' ''flag'', json_field ''QueryParam'' ''url.Values'' ''queryParam'',
      json_field ''CoreRequest'' ''interface {}'' ''coreRequest'', json_field ''CoreRsp'' ''interface {}'' ''coreRsp'',
      json_field ''HttPErrInf'' ''*proto.Response'' ''httpErrInf'', json_field ''HttPRsp'' ''interface {}'' ''httpRsp'']"

definition MepSpace_mm5 :: "struct_field list" where
  "MepSpace_mm5 =
     [\<lparr>sf_Name = ''SpaceBase'', sf_Type = ''workspace.SpaceBase'', sf_Tag = []\<rparr>,
      json_field ''R'' ''*http.Request'' ''r'', json_field ''W'' ''http.ResponseWriter'' ''w'',
      json_field ''Ctx'' ''context.Context'' ''ctx'', json_field ''RestBody'' ''interface {}'' ''restBody'',
      json_field ''AppInstanceId'' ''string'' ''appInstanceId'', json_field ''DNSRuleId'' ''string'' ''dnsRuleId'',
      json_field ''CapabilityId'' ''string'' ''capabilityId'', json_field ''TaskId'' ''string'' ''taskId'',
      json_field ''QueryParam'' ''url.Values'' ''queryParam'', json_field ''CoreRequest'' ''interface {}'' ''coreRequest'',
      json_field ''CoreRsp'' ''interface {}'' ''coreRsp'', json_field ''HttPErrInf'' ''*proto.Response'' ''httpErrInf'',
      json_field ''HttPRsp'' ''interface {}'' ''httpRsp'']"

text \<open>\<open>NewWorkSpace\<close>: the request and the writer are set, the other fields are zero
  values; the embedded base, with its error record, is an argument.\<close>

definition NewWorkSpace_mp1 :: "go_value \<Rightarrow> go_value \<Rightarrow> go_value \<Rightarrow> go_value" where
  "NewWorkSpace_mp1 base w r = VStruct ''mp1.MepSpace'' (zip MepSpace_mp1
     [base, r, w, VInterface None, VString [], VInterface None, VString [], VString [], VString [], VString [],
      VString [], VBool False, VMap ''[]string'' None, VInterface None, VInterface None, VPtr ''proto.Response'' None,
      VInterface None])"

definition NewWorkSpace_mm5 :: "go_value \<Rightarrow> go_value \<Rightarrow> go_value \<Rightarrow> go_value" where
  "NewWorkSpace_mm5 base w r = VStruct ''mm5.MepSpace'' (zip MepSpace_mm5
     [base, r, w, VInterface None, VInterface None, VString [], VString [], VString [], VString [],
      VMap ''[]string'' None, VInterface None, VInterface None, VPtr ''proto.Response'' None, VInterface None])"

definition TaskBase_field :: struct_field where
  "TaskBase_field = \<lparr>sf_Name = ''TaskBase'', sf_Type = ''workspace.TaskBase'', sf_Tag = []\<rparr>"

definition DiscoverDecode_fields :: "struct_field list" where
  "DiscoverDecode_fields =
     [TaskBase_field, json_field ''R'' ''*http.Request'' ''r,in'', json_field ''Ctx'' ''context.Context'' ''ctx,out'',
      json_field ''QueryParam'' ''url.Values'' ''queryParam,out'', json_field ''CoreRequest'' ''interface {}'' ''coreRequest,out'',
      json_field ''AppInstanceId'' ''string'' ''appInstanceId,out'']"

definition DiscoverService_fields :: "struct_field list" where
  "DiscoverService_fields =
     [TaskBase_field, json_field ''Ctx'' ''context.Context'' ''ctx,in'', json_field ''QueryParam'' ''url.Values'' ''queryParam,in'',
      json_field ''CoreRequest'' ''interface {}'' ''coreRequest,in'', json_field ''AppInstanceId'' ''string'' ''appInstanceId,in'',
      json_field ''Flag'' ''bool'' ''flag,out'', json_field ''InstanceId'' ''string'' ''instanceId,out'',
      json_field ''CoreRsp'' ''interface {}'' ''coreRsp,out'']"

definition ToStrDiscover_fields :: "struct_field list" where
  "ToStrDiscover_fields =
     [TaskBase_field, json_field ''CoreRsp'' ''interface {}'' ''coreRsp,in'', json_field ''InstanceId'' ''string'' ''instanceId,in'',
      json_field ''Flag'' ''bool'' ''flag,in'', json_field ''HttpRsp'' ''interface {}'' ''httpRsp,out'',
      json_field ''HttpErrInf'' ''*proto.Response'' ''httpErrInf,out'']"

definition RspHook_fields :: "struct_field list" where
  "RspHook_fields =
     [json_field ''R'' ''*http.Request'' ''r,in'', TaskBase_field, json_field ''Ctx'' ''context.Context'' ''ctx,in'',
      json_field ''HttpRsp'' ''interface {}'' ''httpRsp,in'', json_field ''HookRsp'' ''interface {}'' ''hookRsp,out'']"

section \<open>What a transfer means\<close>

text \<open>The field of the workspace a name stands for, and the two transfers as functions of
  the fields of the step and of the workspace.\<close>

definition ws_index :: "struct_field list \<Rightarrow> string \<Rightarrow> nat option" where
  "ws_index wfs name = find (\<lambda>i. matchJSONFieldName (wfs ! i) name) [0..<length wfs]"

definition bus_target :: "struct_field list \<Rightarrow> string \<Rightarrow> struct_field \<Rightarrow> nat option" where
  "bus_target wfs direction f =
     (case parseTags (sf_Tag f) of (name, dir) \<Rightarrow>
      if name \<noteq> [] \<and> dir = direction then ws_index wfs name else None)"

definition bus_in_field :: "(struct_field \<times> go_value) list \<Rightarrow> struct_field \<times> go_value \<Rightarrow> struct_field \<times> go_value" where
  "bus_in_field wfs e =
     (case bus_target (map fst wfs) DataIn (fst e) of None \<Rightarrow> e | Some k \<Rightarrow> (fst e, snd (wfs ! k)))"

definition bus_in :: "(struct_field \<times> go_value) list \<Rightarrow> (struct_field \<times> go_value) list \<Rightarrow> (struct_field \<times> go_value) list" where
  "bus_in wfs fs = map (bus_in_field wfs) fs"

definition bus_out_field :: "struct_field \<times> go_value \<Rightarrow> (struct_field \<times> go_value) list \<Rightarrow> (struct_field \<times> go_value) list" where
  "bus_out_field e wfs =
     (case bus_target (map fst wfs) DataOut (fst e) of None \<Rightarrow> wfs | Some k \<Rightarrow> wfs[k := (fst (wfs ! k), snd e)])"

definition bus_out :: "(struct_field \<times> go_value) list \<Rightarrow> (struct_field \<times> go_value) list \<Rightarrow> (struct_field \<times> go_value) list" where
  "bus_out fs wfs = fold bus_out_field fs wfs"

text \<open>The tags of a step fit a workspace: the names are single path elements, and a field
  found has the type of the step's field and is exported, as the step's field is.\<close>

definition plain_name :: "string \<Rightarrow> bool" where
  "plain_name n \<longleftrightarrow> CHR ''/'' \<notin> set n \<and> CHR ''~'' \<notin> set n"

definition tag_fits :: "struct_field list \<Rightarrow> struct_field \<Rightarrow> bool" where
  "tag_fits wfs f \<longleftrightarrow> plain_name (fst (parseTags (sf_Tag f)))
     \<and> (case ws_index wfs (fst (parseTags (sf_Tag f))) of None \<Rightarrow> True
        | Some k \<Rightarrow> fst (parseTags (sf_Tag f)) = [] \<or> (sf_Type (wfs ! k) = sf_Type f \<and> exported f \<and> exported (wfs ! k)))"

definition step_fits :: "struct_field list \<Rightarrow> struct_field list \<Rightarrow> bool" where
  "step_fits wfs fs \<longleftrightarrow> list_all (tag_fits wfs) fs"

definition valid_fields :: "(struct_field \<times> go_value) list \<Rightarrow> bool" where
  "valid_fields fs \<longleftrightarrow> list_all (\<lambda>e. snd e \<noteq> VInvalid) fs"

lemma getFirstName_plain: "plain_name n \<Longrightarrow> n \<noteq> [] \<Longrightarrow> getFirstName n = (n, [])"
proof -
  assume n: "plain_name n" "n \<noteq> []"
  then have "\<forall>c\<in>set n. c \<noteq> CHR ''/''" by (auto simp: plain_name_def)
  then have tw: "takeWhile (\<lambda>c. c \<noteq> CHR ''/'') n = n" "dropWhile (\<lambda>c. c \<noteq> CHR ''/'') n = []" by simp_all
  have "hd n \<noteq> CHR ''/''" using n by (cases n) (auto simp: plain_name_def)
  with n show ?thesis unfolding getFirstName_def Let_def by (simp only: tw if_False) (simp add: plain_name_def tw(1) del: takeWhile_eq_all_conv)
qed

lemma find_Some_upt: "find P [0..<n] = Some k \<Longrightarrow> k < n \<and> P k"
  by (auto simp: find_Some_iff)

lemma ws_index_bound: "ws_index wfs n = Some k \<Longrightarrow> k < length wfs"
  by (auto simp: ws_index_def dest: find_Some_upt)

lemma bus_target_bound: "bus_target wfs d f = Some k \<Longrightarrow> k < length wfs"
  by (auto simp: bus_target_def ws_index_bound split: prod.splits if_splits)

lemma map_fst_bus_out_field [simp]: "map fst (bus_out_field e wfs) = map fst wfs"
  by (auto simp: bus_out_field_def map_update dest: bus_target_bound split: option.splits)
     (metis bus_target_bound length_map list_update_id nth_map)

lemma map_fst_bus_in [simp]: "map fst (bus_in wfs fs) = map fst fs"
  by (auto simp: bus_in_def bus_in_field_def split: option.splits)

lemma store_same [simp]: "h\<lparr>st_vals := st_vals h\<rparr> = h"
  by simp

text \<open>A search for a plain name in the workspace finds the field itself.\<close>

lemma find_name:
  assumes "st_vals h src = VStruct ty wfs" and "plain_name n" and "n \<noteq> []"
  shows "objReflectPath (Suc m) h iter (root_value h sty src False) (root_value h sty src False) n =
    (case ws_index (map fst wfs) n of None \<Rightarrow> Inr (jp_error ''can not find field in struct'' n)
     | Some k \<Rightarrow> Inr (reflectSafeAddr (root_value h sty src False) (rv_Field (root_value h sty src False) wfs k)))"
proof -
  have "find (\<lambda>i. matchJSONFieldName (fst (wfs ! i)) n) [0..<length wfs] = ws_index (map fst wfs) n"
    unfolding ws_index_def by (auto intro: find_cong)
  then show ?thesis
    using assms by (simp add: getFirstName_plain root_value_def objReflectPathStruct_def split: option.split)
qed

text \<open>Setting a field of an object in the store.\<close>

definition set_obj :: "nat \<Rightarrow> go_value \<Rightarrow> store \<Rightarrow> store" where
  "set_obj a v h = h\<lparr>st_vals := (st_vals h)(a := v)\<rparr>"

lemma set_obj_simps [simp]:
  "st_vals (set_obj a v h) = (st_vals h)(a := v)"
  "set_obj a v (set_obj a u h) = set_obj a v h"
  by (simp_all add: set_obj_def)

lemma set_obj_same: "st_vals h a = v \<Longrightarrow> set_obj a v h = h"
  by (auto simp: set_obj_def fun_upd_idem)

lemma root_value_simps [simp]:
  "rv_val (root_value h ty a ro) = st_vals h a" "rv_loc (root_value h ty a ro) = Some (a, [])"
  "rv_type (root_value h ty a ro) = ty" "rv_RO (root_value h ty a ro) = ro"
  by (simp_all add: root_value_def)

lemma set_field:
  assumes "st_vals h a = VStruct t fs" and "exported (fst (fs ! i))"
    and "rv_type src = sf_Type (fst (fs ! i))" and "\<not> rv_RO src" and "rv_val src \<noteq> VInvalid"
  shows "rv_Set T (rv_Field (root_value h ty a False) fs i) src h
    = Inr (set_obj a (VStruct t (fs[i := (fst (fs ! i), rv_val src)])) h)"
  using assms by (simp add: rv_Set_def rv_Field_def sub_loc_def assignTo_def set_obj_def)

lemma field_node:
  "ji_CurNode (reflectSafeAddr (root_value h ty a ro) (rv_Field (root_value h ty a ro) fs k)) = rv_Field (root_value h ty a ro) fs k"
  "ji_e (reflectSafeAddr p v) = None"
  by (simp_all add: reflectSafeAddr_def CanAddr_def rv_Field_def sub_loc_def no_info_def)

lemma rv_Field_simps:
  "rv_val (rv_Field v fs i) = snd (fs ! i)" "rv_type (rv_Field v fs i) = sf_Type (fst (fs ! i))"
  "rv_RO (rv_Field v fs i) = (rv_RO v \<or> \<not> exported (fst (fs ! i)))"
  by (simp_all add: rv_Field_def)

lemma load_field_skip:
  assumes "st_vals h dst = VStruct dt fs" and "st_vals h src = VStruct st wfs" and "i < length fs"
    and "tag_fits (map fst wfs) (fst (fs ! i))" and "bus_target (map fst wfs) d (fst (fs ! i)) = None"
  shows "load_field (Suc m) T iter dty dst sty src d i h = Inr h"
proof (cases "parseTags (sf_Tag (fst (fs ! i)))")
  case (Pair name dir)
  show ?thesis
  proof (cases "name \<noteq> [] \<and> dir = d")
    case True
    have n: "ws_index (map fst wfs) name = None" using assms(5) True Pair by (simp add: bus_target_def)
    have p: "plain_name name" using assms(4) Pair by (simp add: tag_fits_def)
    show ?thesis
      using True find_name [OF assms(2) p, of m iter sty] n assms(1) Pair
      by (simp add: load_field_def Let_def jp_error_def)
  next
    case False
    then show ?thesis using assms(1) Pair by (auto simp: load_field_def Let_def)
  qed
qed

lemma load_field_target:
  assumes "st_vals h dst = VStruct dt fs" and "st_vals h src = VStruct st wfs" and "i < length fs"
    and "tag_fits (map fst wfs) (fst (fs ! i))" and "bus_target (map fst wfs) d (fst (fs ! i)) = Some k"
    and "valid_fields wfs"
  shows "load_field (Suc m) T iter dty dst sty src d i h =
    (if d = DataIn then rv_Set T (rv_Field (root_value h dty dst False) fs i) (rv_Field (root_value h sty src False) wfs k) h
     else rv_Set T (rv_Field (root_value h sty src False) wfs k) (rv_Field (root_value h dty dst False) fs i) h)"
    and "k < length wfs" and "exported (fst (fs ! i))" and "exported (fst (wfs ! k))"
    and "sf_Type (fst (wfs ! k)) = sf_Type (fst (fs ! i))"
proof -
  obtain name dir where P: "parseTags (sf_Tag (fst (fs ! i))) = (name, dir)" by fastforce
  then have n: "name \<noteq> []" "dir = d" "ws_index (map fst wfs) name = Some k"
    using assms(5) by (auto simp: bus_target_def split: if_splits)
  have p: "plain_name name" using assms(4) P by (simp add: tag_fits_def)
  show k: "k < length wfs" using ws_index_bound [OF n(3)] by simp
  have v: "snd (wfs ! k) \<noteq> VInvalid" using assms(6) k by (simp add: valid_fields_def list_all_length)
  show "load_field (Suc m) T iter dty dst sty src d i h =
    (if d = DataIn then rv_Set T (rv_Field (root_value h dty dst False) fs i) (rv_Field (root_value h sty src False) wfs k) h
     else rv_Set T (rv_Field (root_value h sty src False) wfs k) (rv_Field (root_value h dty dst False) fs i) h)"
    using find_name [OF assms(2) p n(1), of m iter sty] n assms(1) P v
    by (simp add: load_field_def Let_def field_node rv_Field_simps)
  show "exported (fst (fs ! i))" "exported (fst (wfs ! k))" "sf_Type (fst (wfs ! k)) = sf_Type (fst (fs ! i))"
    using assms(4) P n k by (simp_all add: tag_fits_def)
qed

lemma load_field_in:
  assumes "st_vals h dst = VStruct dt fs" and "st_vals h src = VStruct st wfs" and "i < length fs"
    and "tag_fits (map fst wfs) (fst (fs ! i))" and "valid_fields wfs"
  shows "load_field (Suc m) T iter dty dst sty src DataIn i h
    = Inr (set_obj dst (VStruct dt (fs[i := bus_in_field wfs (fs ! i)])) h)"
proof (cases "bus_target (map fst wfs) DataIn (fst (fs ! i))")
  case None
  then show ?thesis using load_field_skip [OF assms(1-4) None] assms(1,3)
    by (simp add: bus_in_field_def set_obj_same)
next
  case (Some k)
  note L = load_field_target [OF assms(1-4) Some assms(5)]
  have "snd (wfs ! k) \<noteq> VInvalid" using assms(5) L(2) by (simp add: valid_fields_def list_all_length)
  then show ?thesis
    unfolding L(1) using set_field [OF assms(1) L(3), of "rv_Field (root_value h sty src False) wfs k"] L Some
    by (simp add: rv_Field_simps bus_in_field_def)
qed

lemma load_field_out:
  assumes "st_vals h dst = VStruct dt fs" and "st_vals h src = VStruct st wfs" and "i < length fs"
    and "tag_fits (map fst wfs) (fst (fs ! i))" and "valid_fields wfs" and "valid_fields fs"
  shows "load_field (Suc m) T iter dty dst sty src DataOut i h
    = Inr (set_obj src (VStruct st (bus_out_field (fs ! i) wfs)) h)"
proof (cases "bus_target (map fst wfs) DataOut (fst (fs ! i))")
  case None
  then show ?thesis using load_field_skip [OF assms(1-4) None] assms(2)
    by (simp add: bus_out_field_def set_obj_same)
next
  case (Some k)
  note L = load_field_target [OF assms(1-4) Some assms(5)]
  have "snd (fs ! i) \<noteq> VInvalid" using assms(3,6) by (simp add: valid_fields_def list_all_length)
  then show ?thesis
    unfolding L(1) using set_field [OF assms(2) L(4), of "rv_Field (root_value h dty dst False) fs i"] L Some
    by (simp add: rv_Field_simps bus_out_field_def DataIn_def DataOut_def)
qed

lemma fold_update_map:
  "fold (\<lambda>i xs. xs[i := f (xs ! i)]) [0..<length xs] xs = map f xs"
proof -
  have "n \<le> length xs \<Longrightarrow> fold (\<lambda>i xs. xs[i := f (xs ! i)]) [0..<n] xs = map f (take n xs) @ drop n xs" for n
  proof (induction n)
    case (Suc n)
    then have "drop n xs = xs ! n # drop (Suc n) xs" by (simp add: Cons_nth_drop_Suc)
    with Suc show ?case
      by (simp add: take_Suc_conv_app_nth list_update_append nth_append)
  qed simp
  from this [of "length xs"] show ?thesis by simp
qed

lemma valid_bus_in_field: "valid_fields wfs \<Longrightarrow> snd e \<noteq> VInvalid \<Longrightarrow> snd (bus_in_field wfs e) \<noteq> VInvalid"
  by (auto simp: bus_in_field_def valid_fields_def list_all_length dest: bus_target_bound split: option.split)

lemma fst_bus_in_field [simp]: "fst (bus_in_field wfs e) = fst e"
  by (simp add: bus_in_field_def split: option.split)

lemma valid_bus_out_field:
  assumes "valid_fields wfs" and "snd e \<noteq> VInvalid"
  shows "valid_fields (bus_out_field e wfs)"
  using assms by (auto simp: bus_out_field_def valid_fields_def list_all_iff dest!: set_update_subset_insert [THEN subsetD]
      split: option.split)

lemma map_fst_update: "fst e = fst (fs ! i) \<Longrightarrow> map fst (fs[i := e]) = map fst fs"
  by (cases "i < length fs") (simp_all add: map_update list_update_same_conv list_update_beyond not_less)

lemma load_fields_in:
  assumes "dst \<noteq> src"
  shows "st_vals h dst = VStruct dt fs \<Longrightarrow> st_vals h src = VStruct st wfs \<Longrightarrow> \<forall>i\<in>set is. i < length fs \<Longrightarrow>
    step_fits (map fst wfs) (map fst fs) \<Longrightarrow> valid_fields wfs \<Longrightarrow>
    load_fields (Suc m) T iter dty dst sty src DataIn is h
      = Inr (set_obj dst (VStruct dt (fold (\<lambda>i fs. fs[i := bus_in_field wfs (fs ! i)]) is fs)) h)"
proof (induction "is" arbitrary: h fs)
  case Nil
  then show ?case by (simp add: set_obj_same)
next
  case (Cons i "is")
  let ?fs = "fs[i := bus_in_field wfs (fs ! i)]"
  have fit: "tag_fits (map fst wfs) (fst (fs ! i))"
    using Cons.prems by (simp add: step_fits_def list_all_length)
  have fst: "map fst ?fs = map fst fs"
    by (rule map_fst_update) simp
  have "load_fields (Suc m) T iter dty dst sty src DataIn is (set_obj dst (VStruct dt ?fs) h)
      = Inr (set_obj dst (VStruct dt (fold (\<lambda>i fs. fs[i := bus_in_field wfs (fs ! i)]) is ?fs)) (set_obj dst (VStruct dt ?fs) h))"
    by (rule Cons.IH) (use Cons.prems assms fst in simp_all)
  then show ?case
    using load_field_in [OF Cons.prems(1,2) _ fit Cons.prems(5)] Cons.prems(3) by simp
qed

lemma load_fields_out:
  assumes "dst \<noteq> src"
  shows "st_vals h dst = VStruct dt fs \<Longrightarrow> st_vals h src = VStruct st wfs \<Longrightarrow> \<forall>i\<in>set is. i < length fs \<Longrightarrow>
    step_fits (map fst wfs) (map fst fs) \<Longrightarrow> valid_fields wfs \<Longrightarrow> valid_fields fs \<Longrightarrow>
    load_fields (Suc m) T iter dty dst sty src DataOut is h
      = Inr (set_obj src (VStruct st (fold (\<lambda>i. bus_out_field (fs ! i)) is wfs)) h)"
proof (induction "is" arbitrary: h wfs)
  case Nil
  then show ?case by (simp add: set_obj_same)
next
  case (Cons i "is")
  let ?w = "bus_out_field (fs ! i) wfs"
  have fit: "tag_fits (map fst wfs) (fst (fs ! i))"
    using Cons.prems by (simp add: step_fits_def list_all_length)
  have "snd (fs ! i) \<noteq> VInvalid" using Cons.prems by (simp add: valid_fields_def list_all_length)
  then have "load_fields (Suc m) T iter dty dst sty src DataOut is (set_obj src (VStruct st ?w) h)
      = Inr (set_obj src (VStruct st (fold (\<lambda>i. bus_out_field (fs ! i)) is ?w)) (set_obj src (VStruct st ?w) h))"
    by (intro Cons.IH) (use Cons.prems assms in \<open>simp_all add: valid_bus_out_field\<close>)
  then show ?case
    using load_field_out [OF Cons.prems(1,2) _ fit Cons.prems(5,6)] Cons.prems(3) by simp
qed

text \<open>The two transfers, as functions of the fields.\<close>

lemma load_in:
  assumes "dst \<noteq> src" and "st_vals h dst = VStruct dt fs" and "st_vals h src = VStruct st wfs"
    and "step_fits (map fst wfs) (map fst fs)" and "valid_fields wfs"
  shows "LoadObjByInd (Suc m) T iter dty dst sty src DataIn h = Inr (set_obj dst (VStruct dt (bus_in wfs fs)) h)"
  using load_fields_in [OF assms(1-3) _ assms(4,5), of "[0..<length fs]"] assms(2)
  by (simp add: LoadObjByInd_def fold_update_map bus_in_def)

lemma load_out:
  assumes "dst \<noteq> src" and "st_vals h dst = VStruct dt fs" and "st_vals h src = VStruct st wfs"
    and "step_fits (map fst wfs) (map fst fs)" and "valid_fields wfs" and "valid_fields fs"
  shows "LoadObjByInd (Suc m) T iter dty dst sty src DataOut h = Inr (set_obj src (VStruct st (bus_out fs wfs)) h)"
proof -
  have "fold (\<lambda>i. bus_out_field (fs ! i)) [0..<length fs] wfs = bus_out fs wfs"
    using fold_map [of bus_out_field "(!) fs" "[0..<length fs]"] by (simp add: bus_out_def map_nth comp_def)
  then show ?thesis
    using load_fields_out [OF assms(1-3) _ assms(4-6), of "[0..<length fs]"] assms(2) by (simp add: LoadObjByInd_def)
qed

section \<open>The steps of a plan on one workspace\<close>

text \<open>A step of a plan as \<open>taskRunner\<close> runs it once: its fields are loaded, its
  \<open>OnRequest\<close> changes the store, its results are stored.\<close>

record bus_task =
  bt_type :: string
  bt_addr :: nat
  bt_OnRequest :: "store \<Rightarrow> store"

definition run_step :: "nat \<Rightarrow> type_rules \<Rightarrow> ((go_value \<times> go_value) list \<Rightarrow> (go_value \<times> go_value) list)
      \<Rightarrow> string \<Rightarrow> nat \<Rightarrow> bus_task \<Rightarrow> store \<Rightarrow> store go_result" where
  "run_step n T iter sty src t h =
     bind_res (LoadObjByInd n T iter (bt_type t) (bt_addr t) sty src DataIn h)
       (\<lambda>h. LoadObjByInd n T iter (bt_type t) (bt_addr t) sty src DataOut (bt_OnRequest t h))"

fun run_steps :: "nat \<Rightarrow> type_rules \<Rightarrow> ((go_value \<times> go_value) list \<Rightarrow> (go_value \<times> go_value) list)
      \<Rightarrow> string \<Rightarrow> nat \<Rightarrow> bus_task list \<Rightarrow> store \<Rightarrow> store go_result" where
  "run_steps n T iter sty src [] h = Inr h"
| "run_steps n T iter sty src (t # ts) h = bind_res (run_step n T iter sty src t h) (run_steps n T iter sty src ts)"

definition obj_fields :: "store \<Rightarrow> nat \<Rightarrow> (struct_field \<times> go_value) list" where
  "obj_fields h a = (case st_vals h a of VStruct ty fs \<Rightarrow> fs | _ \<Rightarrow> [])"

definition is_obj :: "struct_field list \<Rightarrow> store \<Rightarrow> nat \<Rightarrow> bool" where
  "is_obj F h a \<longleftrightarrow> (case st_vals h a of VStruct ty fs \<Rightarrow> map fst fs = F \<and> valid_fields fs | _ \<Rightarrow> False)"

text \<open>A store in which the workspace has the fields \<open>W\<close>, and the steps of the plan, at
  their addresses, fields that fit it.\<close>

definition bus_ok :: "nat \<Rightarrow> struct_field list \<Rightarrow> (nat \<times> struct_field list) list \<Rightarrow> store \<Rightarrow> bool" where
  "bus_ok src W D h \<longleftrightarrow> is_obj W h src
     \<and> list_all (\<lambda>(a, F). a \<noteq> src \<and> is_obj F h a \<and> step_fits W F) D"

text \<open>A step that keeps its own and the other steps' fields in place and does not touch the
  workspace.\<close>

definition keeps_space :: "nat \<Rightarrow> struct_field list \<Rightarrow> (nat \<times> struct_field list) list \<Rightarrow> (store \<Rightarrow> store) \<Rightarrow> bool" where
  "keeps_space src W D act \<longleftrightarrow>
     (\<forall>h. bus_ok src W D h \<longrightarrow> bus_ok src W D (act h) \<and> st_vals (act h) src = st_vals h src)"

lemma is_objE:
  assumes "is_obj F h a"
  obtains ty fs where "st_vals h a = VStruct ty fs" "map fst fs = F" "valid_fields fs" "obj_fields h a = fs"
  using assms by (auto simp: is_obj_def obj_fields_def split: go_value.splits)

lemma is_objI: "st_vals h a = VStruct ty fs \<Longrightarrow> map fst fs = F \<Longrightarrow> valid_fields fs \<Longrightarrow> is_obj F h a"
  by (simp add: is_obj_def)

lemma is_obj_set_other: "a \<noteq> b \<Longrightarrow> is_obj F (set_obj b v h) a = is_obj F h a"
  by (simp add: is_obj_def)

lemma obj_fields_set [simp]:
  "obj_fields (set_obj b (VStruct ty fs) h) b = fs"
  "a \<noteq> b \<Longrightarrow> obj_fields (set_obj b v h) a = obj_fields h a"
  by (simp_all add: obj_fields_def)

lemma bus_okD:
  assumes "bus_ok src W D h" and "(a, F) \<in> set D"
  shows "a \<noteq> src" "is_obj F h a" "step_fits W F" "is_obj W h src"
  using assms by (auto simp: bus_ok_def list_all_iff)

text \<open>Replacing the workspace, or a step, by a value with the same fields keeps the store in
  order; two entries of \<open>D\<close> for one address have the same fields.\<close>

lemma bus_ok_set:
  assumes "bus_ok src W D h" and "st_vals h b = VStruct ty gs" and "map fst fs = map fst gs" and "valid_fields fs"
  shows "bus_ok src W D (set_obj b (VStruct ty' fs) h)"
proof -
  have "is_obj F h a \<Longrightarrow> is_obj F (set_obj b (VStruct ty' fs) h) a" for a F
    using assms(2-4) by (cases "a = b") (simp_all add: is_obj_def)
  with assms(1) show ?thesis by (auto simp: bus_ok_def list_all_iff)
qed

lemma valid_bus_in: "valid_fields wfs \<Longrightarrow> valid_fields fs \<Longrightarrow> valid_fields (bus_in wfs fs)"
  unfolding valid_fields_def [of fs] valid_fields_def [of "bus_in wfs fs"]
  by (auto simp: bus_in_def list_all_iff valid_bus_in_field)

lemma bus_out_keeps:
  "valid_fields wfs \<Longrightarrow> valid_fields fs \<Longrightarrow> valid_fields (bus_out fs wfs)"
  "map fst (bus_out fs wfs) = map fst wfs"
proof -
  show "valid_fields wfs \<Longrightarrow> valid_fields fs \<Longrightarrow> valid_fields (bus_out fs wfs)"
    unfolding bus_out_def
  proof (induction fs arbitrary: wfs)
    case (Cons e fs)
    then have "snd e \<noteq> VInvalid" "valid_fields fs" by (simp_all add: valid_fields_def)
    with Cons show ?case by (simp add: valid_bus_out_field)
  qed simp
  show "map fst (bus_out fs wfs) = map fst wfs"
    unfolding bus_out_def by (induction fs arbitrary: wfs) simp_all
qed

lemma step_in:
  assumes ok: "bus_ok src W D h" and a: "(a, F) \<in> set D"
  shows "\<exists>h'. LoadObjByInd (Suc m) T iter dty a sty src DataIn h = Inr h' \<and> bus_ok src W D h'
    \<and> obj_fields h' a = bus_in (obj_fields h src) (obj_fields h a) \<and> (\<forall>c. c \<noteq> a \<longrightarrow> st_vals h' c = st_vals h c)"
proof -
  note D = bus_okD [OF ok a]
  obtain ty fs where f: "st_vals h a = VStruct ty fs" "map fst fs = F" "valid_fields fs" "obj_fields h a = fs"
    using D(2) by (rule is_objE)
  obtain ty' ws where w: "st_vals h src = VStruct ty' ws" "map fst ws = W" "valid_fields ws" "obj_fields h src = ws"
    using D(4) by (rule is_objE)
  have "LoadObjByInd (Suc m) T iter dty a sty src DataIn h = Inr (set_obj a (VStruct ty (bus_in ws fs)) h)"
    using load_in [OF D(1) f(1) w(1)] D(3) f(2) w(2,3) by simp
  moreover have "bus_ok src W D (set_obj a (VStruct ty (bus_in ws fs)) h)"
    using bus_ok_set [OF ok f(1)] valid_bus_in [OF w(3) f(3)] by simp
  ultimately show ?thesis using f(4) w(4) by simp
qed

lemma step_out:
  assumes ok: "bus_ok src W D h" and a: "(a, F) \<in> set D"
  shows "\<exists>h'. LoadObjByInd (Suc m) T iter dty a sty src DataOut h = Inr h' \<and> bus_ok src W D h'
    \<and> obj_fields h' src = bus_out (obj_fields h a) (obj_fields h src) \<and> (\<forall>c. c \<noteq> src \<longrightarrow> st_vals h' c = st_vals h c)"
proof -
  note D = bus_okD [OF ok a]
  obtain ty fs where f: "st_vals h a = VStruct ty fs" "map fst fs = F" "valid_fields fs" "obj_fields h a = fs"
    using D(2) by (rule is_objE)
  obtain ty' ws where w: "st_vals h src = VStruct ty' ws" "map fst ws = W" "valid_fields ws" "obj_fields h src = ws"
    using D(4) by (rule is_objE)
  have "LoadObjByInd (Suc m) T iter dty a sty src DataOut h = Inr (set_obj src (VStruct ty' (bus_out fs ws)) h)"
    using load_out [OF D(1) f(1) w(1)] D(3) f(2,3) w(2,3) by simp
  moreover have "bus_ok src W D (set_obj src (VStruct ty' (bus_out fs ws)) h)"
    using bus_ok_set [OF ok w(1) bus_out_keeps(2)] bus_out_keeps(1) [OF w(3) f(3)] by simp
  ultimately show ?thesis using f(4) w(4) by simp
qed

text \<open>A name that one field of a step stands for gets the value of that field, one that
  none stands for keeps its value.\<close>

lemma bus_out_field_nth:
  assumes "k < length wfs"
  shows "snd (bus_out_field e wfs ! k) = (if bus_target (map fst wfs) DataOut (fst e) = Some k then snd e else snd (wfs ! k))"
  using assms by (auto simp: bus_out_field_def nth_list_update split: option.split)

lemma length_bus_out_field [simp]: "length (bus_out_field e wfs) = length wfs"
  by (simp add: bus_out_field_def split: option.split)

lemma bus_out_unwritten:
  assumes "k < length wfs" and "\<forall>f\<in>set (map fst fs). bus_target (map fst wfs) DataOut f \<noteq> Some k"
  shows "snd (bus_out fs wfs ! k) = snd (wfs ! k)"
  using assms
proof (induction fs arbitrary: wfs)
  case (Cons e fs)
  have "snd (bus_out fs (bus_out_field e wfs) ! k) = snd (bus_out_field e wfs ! k)"
    by (rule Cons.IH) (use Cons.prems in simp_all)
  with Cons.prems show ?case by (simp add: bus_out_def bus_out_field_nth)
qed (simp add: bus_out_def)

lemma bus_out_written:
  assumes "k < length wfs" and "i < length fs" and "bus_target (map fst wfs) DataOut (fst (fs ! i)) = Some k"
    and "\<forall>j. i < j \<and> j < length fs \<longrightarrow> bus_target (map fst wfs) DataOut (fst (fs ! j)) \<noteq> Some k"
  shows "snd (bus_out fs wfs ! k) = snd (fs ! i)"
proof -
  let ?w = "bus_out (take i fs) wfs"
  have fs: "fs = take i fs @ fs ! i # drop (Suc i) fs" using assms(2) by (rule id_take_nth_drop)
  have w: "map fst ?w = map fst wfs" by (rule bus_out_keeps)
  then have k: "k < length ?w" using assms(1) by (metis length_map)
  have "bus_out fs wfs = bus_out (drop (Suc i) fs) (bus_out_field (fs ! i) ?w)"
    by (subst fs) (simp add: bus_out_def)
  moreover have "snd (bus_out (drop (Suc i) fs) (bus_out_field (fs ! i) ?w) ! k) = snd (bus_out_field (fs ! i) ?w ! k)"
  proof (rule bus_out_unwritten)
    show "\<forall>f\<in>set (map fst (drop (Suc i) fs)). bus_target (map fst (bus_out_field (fs ! i) ?w)) DataOut f \<noteq> Some k"
    proof
      fix f assume "f \<in> set (map fst (drop (Suc i) fs))"
      then obtain j where "j < length (map fst (drop (Suc i) fs))" "map fst (drop (Suc i) fs) ! j = f"
        unfolding in_set_conv_nth by blast
      then have "Suc i + j < length fs" "f = fst (fs ! (Suc i + j))" by auto
      then show "bus_target (map fst (bus_out_field (fs ! i) ?w)) DataOut f \<noteq> Some k"
        using assms(4) w by simp
    qed
  qed (use k in simp)
  ultimately show ?thesis using k assms(3) w by (simp add: bus_out_field_nth)
qed

lemma run_step_ok:
  assumes ok: "bus_ok src W D h" and a: "(bt_addr t, F) \<in> set D" and act: "keeps_space src W D (bt_OnRequest t)"
  shows "\<exists>h'. run_step (Suc m) T iter sty src t h = Inr h' \<and> bus_ok src W D h'
    \<and> obj_fields h' src = bus_out (obj_fields h' (bt_addr t)) (obj_fields h src)"
proof -
  obtain h1 where h1: "LoadObjByInd (Suc m) T iter (bt_type t) (bt_addr t) sty src DataIn h = Inr h1"
      "bus_ok src W D h1" "\<forall>c. c \<noteq> bt_addr t \<longrightarrow> st_vals h1 c = st_vals h c"
    using step_in [OF ok a, of m T iter "bt_type t" sty] by blast
  let ?h2 = "bt_OnRequest t h1"
  have ne: "bt_addr t \<noteq> src" using bus_okD(1) [OF ok a] .
  have h2: "bus_ok src W D ?h2" "st_vals ?h2 src = st_vals h src"
    using act h1(2,3) ne by (auto simp: keeps_space_def)
  obtain h3 where h3: "LoadObjByInd (Suc m) T iter (bt_type t) (bt_addr t) sty src DataOut ?h2 = Inr h3"
      "bus_ok src W D h3" "obj_fields h3 src = bus_out (obj_fields ?h2 (bt_addr t)) (obj_fields ?h2 src)"
      "\<forall>c. c \<noteq> src \<longrightarrow> st_vals h3 c = st_vals ?h2 c"
    using step_out [OF h2(1) a, of m T iter "bt_type t" sty] by blast
  have "obj_fields h3 (bt_addr t) = obj_fields ?h2 (bt_addr t)" "obj_fields ?h2 src = obj_fields h src"
    using h3(4) ne h2(2) by (simp_all add: obj_fields_def)
  then show ?thesis using h1(1) h3 by (simp add: run_step_def)
qed

lemma fields_bound:
  assumes "is_obj F h a"
  shows "map fst (obj_fields h a) = F" "length (obj_fields h a) = length F"
  using assms by (auto elim!: is_objE)

lemma step_fields_fst: "bus_ok src W D h \<Longrightarrow> (a, F) \<in> set D \<Longrightarrow> map fst (obj_fields h a) = F"
  by (drule (1) bus_okD(2)) (rule fields_bound)

lemma space_fields_fst: "bus_ok src W D h \<Longrightarrow> map fst (obj_fields h src) = W"
  by (rule fields_bound) (simp add: bus_ok_def)

text \<open>Steps without an output of the name leave the workspace's value of it.\<close>

definition writes :: "struct_field list \<Rightarrow> nat \<Rightarrow> struct_field list \<Rightarrow> bool" where
  "writes W k F \<longleftrightarrow> list_ex (\<lambda>f. bus_target W DataOut f = Some k) F"

definition plan_ok :: "nat \<Rightarrow> struct_field list \<Rightarrow> (nat \<times> struct_field list) list \<Rightarrow> (bus_task \<times> struct_field list) list \<Rightarrow> bool" where
  "plan_ok src W D ts \<longleftrightarrow> (\<forall>(t, F)\<in>set ts. (bt_addr t, F) \<in> set D \<and> keeps_space src W D (bt_OnRequest t))"

lemma steps_keep_value:
  assumes "k < length W"
  shows "bus_ok src W D h \<Longrightarrow> plan_ok src W D ts \<Longrightarrow> \<forall>(t, F)\<in>set ts. \<not> writes W k F \<Longrightarrow>
    \<exists>h'. run_steps (Suc m) T iter sty src (map fst ts) h = Inr h' \<and> bus_ok src W D h'
      \<and> snd (obj_fields h' src ! k) = snd (obj_fields h src ! k)"
proof (induction ts arbitrary: h)
  case (Cons tF ts)
  obtain t F where tF: "tF = (t, F)" by fastforce
  have a: "(bt_addr t, F) \<in> set D" "keeps_space src W D (bt_OnRequest t)" "\<not> writes W k F"
    using Cons.prems(2,3) tF by (auto simp: plan_ok_def)
  obtain h1 where h1: "run_step (Suc m) T iter sty src t h = Inr h1" "bus_ok src W D h1"
      "obj_fields h1 src = bus_out (obj_fields h1 (bt_addr t)) (obj_fields h src)"
    using run_step_ok [OF Cons.prems(1) a(1,2), of m T iter sty] by blast
  have W: "map fst (obj_fields h src) = W" using Cons.prems(1) by (rule space_fields_fst)
  then have len: "k < length (obj_fields h src)" using assms by auto
  have "snd (obj_fields h1 src ! k) = snd (obj_fields h src ! k)"
    unfolding h1(3)
    by (rule bus_out_unwritten [OF len])
       (use step_fields_fst [OF h1(2) a(1)] a(3) W in \<open>simp only: writes_def list_ex_iff, blast\<close>)
  moreover obtain h2 where "run_steps (Suc m) T iter sty src (map fst ts) h1 = Inr h2" "bus_ok src W D h2"
      "snd (obj_fields h2 src ! k) = snd (obj_fields h1 src ! k)"
    using Cons.IH [OF h1(2)] Cons.prems(2,3) by (auto simp: plan_ok_def)
  ultimately show ?case using h1(1) tF by simp
qed simp

text \<open>A plan on a workspace in order never panics in a transfer.\<close>

lemma steps_ok:
  "bus_ok src W D h \<Longrightarrow> plan_ok src W D ts \<Longrightarrow>
    \<exists>h'. run_steps (Suc m) T iter sty src (map fst ts) h = Inr h' \<and> bus_ok src W D h'"
proof (induction ts arbitrary: h)
  case (Cons tF ts)
  then obtain h1 where "run_step (Suc m) T iter sty src (fst tF) h = Inr h1" "bus_ok src W D h1"
    using run_step_ok [OF Cons.prems(1), of "fst tF" "snd tF" m T iter sty] by (auto simp: plan_ok_def)
  with Cons show ?case by (auto simp: plan_ok_def)
qed simp

section \<open>The plan of a query\<close>

text \<open>For a field with a JSON tag the search of the tag's text decides nothing.\<close>

lemma str_contains_inside: "str_contains (p @ t @ q) t"
proof -
  have "length p \<in> set [0..<Suc (length (p @ t @ q))]" "has_prefix (drop (length p) (p @ t @ q)) t" by simp_all
  then show ?thesis unfolding str_contains_def list_ex_iff by blast
qed

lemma str_contains_Nil: "str_contains [] t \<longleftrightarrow> t = []"
  by (auto simp: str_contains_def has_prefix_iff)

lemma match_json_field:
  assumes "tag \<noteq> []"
  shows "matchJSONFieldName (json_field nm ty tag) n \<longleftrightarrow> json_name (json_field nm ty tag) = n"
proof -
  have "str_contains (tag_string [(''json'', tag)]) (json_name (json_field nm ty tag))"
  proof -
    have "\<exists>q. tag = json_name (json_field nm ty tag) @ q"
      using assms by (auto simp: json_name_def json_field_def tag_Get_def Let_def intro: exI [of _ "dropWhile (\<lambda>c. c \<noteq> CHR '','') tag"])
    then obtain q where "tag = json_name (json_field nm ty tag) @ q" ..
    then have "tag_string [(''json'', tag)] = ''json:\"'' @ json_name (json_field nm ty tag) @ q @ ''\"''"
      by (simp add: tag_string_def)
    then show ?thesis by (simp only: str_contains_inside)
  qed
  then show ?thesis by (auto simp: matchJSONFieldName_def json_field_def)
qed

lemma match_untagged: "matchJSONFieldName \<lparr>sf_Name = nm, sf_Type = ty, sf_Tag = []\<rparr> n \<longleftrightarrow> n = [] \<and> nm = []"
  by (auto simp: matchJSONFieldName_def tag_string_def str_contains_Nil json_name_def tag_Get_def to_lower_def)

lemma ws_index_Nil: "ws_index [] n = None"
  by (simp add: ws_index_def)

lemma ws_index_Cons: "ws_index (f # fs) n = (if matchJSONFieldName f n then Some 0 else map_option Suc (ws_index fs n))"
proof -
  have u: "[0..<length (f # fs)] = 0 # map Suc [0..<length fs]" by (simp add: upt_conv_Cons map_Suc_upt del: upt_Suc)
  have m: "find P (map Suc xs) = map_option Suc (find (\<lambda>i. P (Suc i)) xs)" for P xs
    by (induction xs) auto
  show ?thesis unfolding ws_index_def u by (simp add: m)
qed

lemma parse_json_field: "tag \<noteq> [] \<Longrightarrow> parseTags (sf_Tag (json_field nm ty tag)) = (hd (split_on CHR '','' tag), if length (split_on CHR '','' tag) > 1 then split_on CHR '','' tag ! 1 else DataIn)"
  by (simp add: parseTags_def json_field_def tag_Get_def Let_def)

lemma json_name_plain: "tag \<noteq> [] \<Longrightarrow> CHR '','' \<notin> set tag \<Longrightarrow> json_name (json_field nm ty tag) = tag"
  by (simp add: json_name_def json_field_def tag_Get_def)

lemma json_field_parts: "sf_Type (json_field nm ty tag) = ty" "sf_Name (json_field nm ty tag) = nm"
  by (simp_all add: json_field_def)

lemmas bus_eval = ws_index_Nil ws_index_Cons match_json_field match_untagged parse_json_field json_name_plain json_field_parts

lemma mp1_index:
  "ws_index MepSpace_mp1 ''r'' = Some 1" "ws_index MepSpace_mp1 ''ctx'' = Some 3"
  "ws_index MepSpace_mp1 ''appInstanceId'' = Some 6" "ws_index MepSpace_mp1 ''instanceId'' = Some 7"
  "ws_index MepSpace_mp1 ''flag'' = Some 11" "ws_index MepSpace_mp1 ''queryParam'' = Some 12"
  "ws_index MepSpace_mp1 ''coreRequest'' = Some 13" "ws_index MepSpace_mp1 ''coreRsp'' = Some 14"
  "ws_index MepSpace_mp1 ''httpErrInf'' = Some 15" "ws_index MepSpace_mp1 ''httpRsp'' = Some 16"
  "ws_index MepSpace_mp1 ''hookRsp'' = None" "ws_index MepSpace_mp1 [] = None"
  by (simp_all add: MepSpace_mp1_def bus_eval)

lemma mp1_field:
  "MepSpace_mp1 ! Suc 0 = json_field ''R'' ''*http.Request'' ''r''"
  "MepSpace_mp1 ! 3 = json_field ''Ctx'' ''context.Context'' ''ctx''"
  "MepSpace_mp1 ! 6 = json_field ''AppInstanceId'' ''string'' ''appInstanceId''"
  "MepSpace_mp1 ! 7 = json_field ''InstanceId'' ''string'' ''instanceId''"
  "MepSpace_mp1 ! 11 = json_field ''Flag'' ''bool'' ''flag''"
  "MepSpace_mp1 ! 12 = json_field ''QueryParam'' ''url.Values'' ''queryParam''"
  "MepSpace_mp1 ! 13 = json_field ''CoreRequest'' ''interface {}'' ''coreRequest''"
  "MepSpace_mp1 ! 14 = json_field ''CoreRsp'' ''interface {}'' ''coreRsp''"
  "MepSpace_mp1 ! 15 = json_field ''HttPErrInf'' ''*proto.Response'' ''httpErrInf''"
  "MepSpace_mp1 ! 16 = json_field ''HttPRsp'' ''interface {}'' ''httpRsp''"
  "length MepSpace_mp1 = 17"
  by (simp_all add: MepSpace_mp1_def)

lemma TaskBase_tags: "parseTags (sf_Tag TaskBase_field) = ([], [])"
  by (simp add: TaskBase_field_def parseTags_def tag_Get_def)

lemma plain_name_eval: "plain_name [] \<longleftrightarrow> True" "plain_name (c # s) \<longleftrightarrow> c \<noteq> CHR ''/'' \<and> c \<noteq> CHR ''~'' \<and> plain_name s"
  by (auto simp: plain_name_def)

lemma exported_json: "exported (json_field (c # nm) ty tag) \<longleftrightarrow> (of_char c :: nat) \<in> {65..90}"
  by (simp add: exported_def json_field_def)

lemmas fit_eval = step_fits_def tag_fits_def TaskBase_tags parse_json_field plain_name_eval exported_json mp1_index mp1_field json_field_parts

text \<open>The steps of the query plan fit the workspace; only the response of the hook has no
  field there and is dropped.\<close>

lemma discover_steps_fit:
  "step_fits MepSpace_mp1 DiscoverDecode_fields" "step_fits MepSpace_mp1 DiscoverService_fields"
  "step_fits MepSpace_mp1 ToStrDiscover_fields" "step_fits MepSpace_mp1 RspHook_fields"
  unfolding DiscoverDecode_fields_def DiscoverService_fields_def ToStrDiscover_fields_def RspHook_fields_def
  by (simp_all add: fit_eval)

lemma hook_response_dropped: "bus_target MepSpace_mp1 DataOut (RspHook_fields ! 4) = None"
  by (simp add: RspHook_fields_def bus_target_def parse_json_field mp1_index)

text \<open>Past a plain value the rest of a path is not looked at; a negative index of a slice
  panics; and an entry of a map is never found.\<close>

lemma path_past_value:
  assumes "getFirstName path = (nm, [])" and "rv_val v = VString s" and "CanAddr v"
  shows "objReflectPath (Suc m) h iter p v (''/'' @ path @ ''/rest'') = objReflectPath (Suc m) h iter p v path"
  using assms by (simp add: getFieldFromPath_def split: prod.split)

lemma negative_index_panics:
  assumes "rv_val v = VSlice ty a off len"
  shows "objReflectPath (Suc m) h iter p v ''-1'' = Inl (Panic ''reflect: array index out of range'')"
proof -
  have "getFirstName ''-1'' = (''-1'', [])" by (rule getFirstName_plain) (simp_all add: plain_name_def)
  moreover have "atoi ''-1'' = (-1, True)" by code_simp
  ultimately show ?thesis using assms by (simp add: objReflectPathArray_def)
qed

lemma map_entry_not_found:
  assumes "rv_val v = VMap ty mp" and "getFirstName path = (nm, [])"
  shows "\<exists>info. objReflectPath (Suc m) h iter p v path = Inr info \<and> rv_val (ji_CurNode info) = VInvalid"
  using assms
  by (auto simp: objReflectPathMap_def reflectSafeAddr_def no_info_def zero_rv_def CanAddr_def split: option.split)

text \<open>A step that sets one of its own fields keeps the workspace.\<close>

definition set_own :: "nat \<Rightarrow> nat \<Rightarrow> go_value \<Rightarrow> store \<Rightarrow> store" where
  "set_own a i v h = (case st_vals h a of
     VStruct ty fs \<Rightarrow> set_obj a (VStruct ty (fs[i := (fst (fs ! i), v)])) h | _ \<Rightarrow> h)"

lemma valid_fields_update: "valid_fields fs \<Longrightarrow> snd e \<noteq> VInvalid \<Longrightarrow> valid_fields (fs[i := e])"
  by (auto simp: valid_fields_def list_all_iff dest!: set_update_subset_insert [THEN subsetD])

lemma keeps_set_own:
  assumes "(a, F) \<in> set D" and "v \<noteq> VInvalid"
  shows "keeps_space src W D (set_own a i v)"
  unfolding keeps_space_def
proof (intro allI impI)
  fix h assume ok: "bus_ok src W D h"
  obtain ty fs where f: "st_vals h a = VStruct ty fs" "valid_fields fs"
    using bus_okD(2) [OF ok assms(1)] by (auto elim: is_objE)
  have "bus_ok src W D (set_obj a (VStruct ty (fs[i := (fst (fs ! i), v)])) h)"
    using bus_ok_set [OF ok f(1) map_fst_update valid_fields_update] f(2) assms(2) by simp
  then show "bus_ok src W D (set_own a i v h) \<and> st_vals (set_own a i v h) src = st_vals h src"
    using f(1) bus_okD(1) [OF ok assms(1)] by (simp add: set_own_def)
qed

text \<open>The store of a query: the workspace of the request and the four steps, all other
  fields being zero values.\<close>

definition query_store :: store where
  "query_store = \<lparr>st_vals = (\<lambda>a.
     if a = 0 then NewWorkSpace_mp1 (VStruct ''workspace.SpaceBase'' []) (VInterface None) (VPtr ''http.Request'' (Some 9))
     else if a = 1 then VStruct ''mp1.DiscoverDecode'' (zip DiscoverDecode_fields
       [VStruct ''workspace.TaskBase'' [], VPtr ''http.Request'' None, VInterface None, VMap ''[]string'' None, VInterface None, VString []])
     else if a = 2 then VStruct ''mp1.DiscoverService'' (zip DiscoverService_fields
       [VStruct ''workspace.TaskBase'' [], VInterface None, VMap ''[]string'' None, VInterface None, VString [], VBool False, VString [], VInterface None])
     else if a = 3 then VStruct ''mp1.ToStrDiscover'' (zip ToStrDiscover_fields
       [VStruct ''workspace.TaskBase'' [], VInterface None, VString [], VBool False, VInterface None, VPtr ''proto.Response'' None])
     else VStruct ''mp1.RspHook'' (zip RspHook_fields
       [VPtr ''http.Request'' None, VStruct ''workspace.TaskBase'' [], VInterface None, VInterface None, VInterface None])),
     st_maps = (\<lambda>a. [])\<rparr>"

definition query_steps :: "(nat \<times> struct_field list) list" where
  "query_steps = [(1, DiscoverDecode_fields), (2, DiscoverService_fields), (3, ToStrDiscover_fields), (4, RspHook_fields)]"

lemma query_store_ok: "bus_ok 0 MepSpace_mp1 query_steps query_store"
proof -
  have z: "length xs = length ys \<Longrightarrow> map fst (zip xs ys) = xs" for xs :: "struct_field list" and ys :: "go_value list"
    by simp
  have v: "length xs = length ys \<Longrightarrow> list_all (\<lambda>v. v \<noteq> VInvalid) ys \<Longrightarrow> valid_fields (zip xs ys)"
    for xs :: "struct_field list" and ys
    by (auto simp: valid_fields_def list_all_iff dest: set_zip_rightD)
  have o: "is_obj MepSpace_mp1 query_store 0" "is_obj DiscoverDecode_fields query_store 1"
      "is_obj DiscoverService_fields query_store 2" "is_obj ToStrDiscover_fields query_store 3" "is_obj RspHook_fields query_store 4"
    by (simp_all add: is_obj_def query_store_def NewWorkSpace_mp1_def z v MepSpace_mp1_def DiscoverDecode_fields_def
        DiscoverService_fields_def ToStrDiscover_fields_def RspHook_fields_def valid_fields_def)
  show ?thesis unfolding bus_ok_def query_steps_def using o discover_steps_fit by simp
qed

section \<open>Values reach the steps that ask for them\<close>

text \<open>(C23) The data bus hands values over.  In a plan whose steps fit the workspace, let a
  step set the field that is tagged with a name of the workspace for output, no later field of
  it have the same name, and let other steps run after it that do not output that name.  Then
  none of the transfers panics, and the step that asks for the name as an input has in its
  field exactly the value the first step stored, whatever the steps in between do to their
  own fields and for every order of map iterations.\<close>

theorem value_reaches_step:
  assumes "bus_ok src W D h" and "plan_ok src W D ((t, F) # ts)" and "(bt_addr u, G) \<in> set D"
    and "i < length F" and "bus_target W DataOut (F ! i) = Some k"
    and "\<forall>j. i < j \<and> j < length F \<longrightarrow> bus_target W DataOut (F ! j) \<noteq> Some k"
    and "\<forall>(s, S)\<in>set ts. \<not> writes W k S"
    and "j < length G" and "bus_target W DataIn (G ! j) = Some k"
  shows "\<exists>h1 h2 h3. run_step (Suc m) T iter sty src t h = Inr h1
    \<and> run_steps (Suc m) T iter sty src (map fst ts) h1 = Inr h2
    \<and> LoadObjByInd (Suc m) T iter (bt_type u) (bt_addr u) sty src DataIn h2 = Inr h3
    \<and> snd (obj_fields h3 (bt_addr u) ! j) = snd (obj_fields h1 (bt_addr t) ! i)"
proof -
  have t: "(bt_addr t, F) \<in> set D" "keeps_space src W D (bt_OnRequest t)" and ts: "plan_ok src W D ts"
    using assms(2) by (auto simp: plan_ok_def)
  have k: "k < length W" using assms(5) by (rule bus_target_bound)
  obtain h1 where h1: "run_step (Suc m) T iter sty src t h = Inr h1" "bus_ok src W D h1"
      "obj_fields h1 src = bus_out (obj_fields h1 (bt_addr t)) (obj_fields h src)"
    using run_step_ok [OF assms(1) t, of m T iter sty] by blast
  have W: "map fst (obj_fields h src) = W" "length (obj_fields h src) = length W"
    using space_fields_fst [OF assms(1)] by auto
  have F: "length (obj_fields h1 (bt_addr t)) = length F" "\<And>j. j < length F \<Longrightarrow> fst (obj_fields h1 (bt_addr t) ! j) = F ! j"
    using step_fields_fst [OF h1(2) t(1)] by auto
  have v: "snd (obj_fields h1 src ! k) = snd (obj_fields h1 (bt_addr t) ! i)"
    unfolding h1(3) using assms(4-6) k W F by (intro bus_out_written) simp_all
  obtain h2 where h2: "run_steps (Suc m) T iter sty src (map fst ts) h1 = Inr h2" "bus_ok src W D h2"
      "snd (obj_fields h2 src ! k) = snd (obj_fields h1 src ! k)"
    using steps_keep_value [OF k h1(2) ts assms(7), of m T iter sty] by blast
  obtain h3 where h3: "LoadObjByInd (Suc m) T iter (bt_type u) (bt_addr u) sty src DataIn h2 = Inr h3"
      "obj_fields h3 (bt_addr u) = bus_in (obj_fields h2 src) (obj_fields h2 (bt_addr u))"
    using step_in [OF h2(2) assms(3), of m T iter "bt_type u" sty] by blast
  have G: "length (obj_fields h2 (bt_addr u)) = length G" "fst (obj_fields h2 (bt_addr u) ! j) = G ! j"
    using step_fields_fst [OF h2(2) assms(3)] assms(8) by auto
  have "snd (obj_fields h3 (bt_addr u) ! j) = snd (obj_fields h2 src ! k)"
    using G assms(8,9) space_fields_fst [OF h2(2)] by (simp add: h3(2) bus_in_def bus_in_field_def)
  with v h1(1) h2 h3(1) show ?thesis by metis
qed

lemma query_plan_ok:
  "plan_ok 0 MepSpace_mp1 query_steps
    [(\<lparr>bt_type = ''mp1.DiscoverDecode'', bt_addr = 1, bt_OnRequest = set_own 1 2 (VInterface (Some (''*ctx'', VPtr ''ctx'' (Some 8))))\<rparr>, DiscoverDecode_fields),
     (\<lparr>bt_type = ''mp1.DiscoverService'', bt_addr = 2, bt_OnRequest = set_own 2 5 (VBool True)\<rparr>, DiscoverService_fields),
     (\<lparr>bt_type = ''mp1.ToStrDiscover'', bt_addr = 3, bt_OnRequest = set_own 3 4 (VInterface None)\<rparr>, ToStrDiscover_fields)]"
  by (auto simp: plan_ok_def query_steps_def intro: keeps_set_own)

lemma ctx_targets:
  "bus_target MepSpace_mp1 DataOut (DiscoverDecode_fields ! 2) = Some 3"
  "bus_target MepSpace_mp1 DataIn (RspHook_fields ! 2) = Some 3"
  "\<forall>j. 2 < j \<and> j < length DiscoverDecode_fields \<longrightarrow> bus_target MepSpace_mp1 DataOut (DiscoverDecode_fields ! j) \<noteq> Some 3"
  "\<not> writes MepSpace_mp1 3 DiscoverService_fields" "\<not> writes MepSpace_mp1 3 ToStrDiscover_fields"
  "length DiscoverDecode_fields = 6" "length RspHook_fields = 5"
proof -
  show "length DiscoverDecode_fields = 6" "length RspHook_fields = 5"
    by (simp_all add: DiscoverDecode_fields_def RspHook_fields_def)
  show "bus_target MepSpace_mp1 DataOut (DiscoverDecode_fields ! 2) = Some 3"
    "bus_target MepSpace_mp1 DataIn (RspHook_fields ! 2) = Some 3"
    "\<not> writes MepSpace_mp1 3 DiscoverService_fields" "\<not> writes MepSpace_mp1 3 ToStrDiscover_fields"
    by (simp_all add: DiscoverDecode_fields_def RspHook_fields_def DiscoverService_fields_def ToStrDiscover_fields_def
        writes_def bus_target_def parse_json_field TaskBase_tags mp1_index DataIn_def DataOut_def)
  have "bus_target MepSpace_mp1 DataOut (DiscoverDecode_fields ! 3) \<noteq> Some 3"
    "bus_target MepSpace_mp1 DataOut (DiscoverDecode_fields ! 4) \<noteq> Some 3"
    "bus_target MepSpace_mp1 DataOut (DiscoverDecode_fields ! 5) \<noteq> Some 3"
    by (simp_all add: DiscoverDecode_fields_def bus_target_def parse_json_field mp1_index)
  moreover have "j = 3 \<or> j = 4 \<or> j = 5" if "2 < j" "j < length DiscoverDecode_fields" for j
    using that by (auto simp: DiscoverDecode_fields_def)
  ultimately show "\<forall>j. 2 < j \<and> j < length DiscoverDecode_fields \<longrightarrow> bus_target MepSpace_mp1 DataOut (DiscoverDecode_fields ! j) \<noteq> Some 3"
    by blast
qed

theorem value_reaches_step_witness:
  "\<exists>h1 h2 h3. run_step 2 \<lparr>tr_direct = \<lambda>a b. False, tr_implements = \<lambda>a b. False\<rparr> rev ''mp1.MepSpace'' 0
      \<lparr>bt_type = ''mp1.DiscoverDecode'', bt_addr = 1, bt_OnRequest = set_own 1 2 (VInterface (Some (''*ctx'', VPtr ''ctx'' (Some 8))))\<rparr> query_store = Inr h1
    \<and> run_steps 2 \<lparr>tr_direct = \<lambda>a b. False, tr_implements = \<lambda>a b. False\<rparr> rev ''mp1.MepSpace'' 0
      [\<lparr>bt_type = ''mp1.DiscoverService'', bt_addr = 2, bt_OnRequest = set_own 2 5 (VBool True)\<rparr>,
       \<lparr>bt_type = ''mp1.ToStrDiscover'', bt_addr = 3, bt_OnRequest = set_own 3 4 (VInterface None)\<rparr>] h1 = Inr h2
    \<and> LoadObjByInd 2 \<lparr>tr_direct = \<lambda>a b. False, tr_implements = \<lambda>a b. False\<rparr> rev ''mp1.RspHook'' 4 ''mp1.MepSpace'' 0 DataIn h2 = Inr h3
    \<and> snd (obj_fields h3 4 ! 2) = snd (obj_fields h1 1 ! 2)"
  using value_reaches_step [OF query_store_ok query_plan_ok,
      of "\<lparr>bt_type = ''mp1.RspHook'', bt_addr = 4, bt_OnRequest = \<lambda>h. h\<rparr>" RspHook_fields 2 3 2 1
         "\<lparr>tr_direct = \<lambda>a b. False, tr_implements = \<lambda>a b. False\<rparr>" rev "''mp1.MepSpace''"]
    ctx_targets
  by (simp add: query_steps_def del: run_steps.simps One_nat_def)

end
