(* ===== verification/Svc_Plans.thy ===== *)
theory Svc_Plans
  imports Svc_Model
begin

text \<open>
  The plans of the mp1 service interface: registration, update, deletion and query of a
  service (\<open>mp1/plans/svc_register.go\<close>, \<open>svc_one_update.go\<close>,
  \<open>svc_one_delete.go\<close>, \<open>svc_one_get.go\<close>), discovery
  (\<open>mp1/plan_svc_discover.go\<close>) and their composition in \<open>mp1/controller.go\<close>.
  The service centre, which stores the instances, is a third-party library: its calls are a
  record of functions, what is relied upon the locale \<open>service_center\<close>, with an
  in-memory centre as its instance.
\<close>

section \<open>The service centre\<close>

text \<open>Ids of a service and an instance go first.  An answer has a response code; zero is
  success.  \<open>sc_files\<close> reads the stored instances with their documents.\<close>

record 'w service_center =
  sc_create :: "MicroService \<Rightarrow> 'w \<Rightarrow> string go_result \<times> 'w"
  sc_register :: "MicroServiceInstance \<Rightarrow> 'w \<Rightarrow> string go_result \<times> 'w"
  sc_updateProps :: "string \<Rightarrow> string \<Rightarrow> props \<Rightarrow> 'w \<Rightarrow> int go_result \<times> 'w"
  sc_unregister :: "string \<Rightarrow> string \<Rightarrow> 'w \<Rightarrow> int go_result \<times> 'w"
  sc_heartbeat :: "string \<Rightarrow> string \<Rightarrow> 'w \<Rightarrow> int go_result \<times> 'w"
  sc_getInstance :: "string \<Rightarrow> string \<Rightarrow> 'w \<Rightarrow> MicroServiceInstance option go_result \<times> 'w"
  sc_updateInstance :: "MicroServiceInstance \<Rightarrow> 'w \<Rightarrow> go_error option \<times> 'w"
  sc_getOne :: "string \<Rightarrow> string \<Rightarrow> 'w \<Rightarrow> (int \<times> MicroServiceInstance option) go_result \<times> 'w"
  sc_find :: "string \<Rightarrow> string \<Rightarrow> string \<Rightarrow> 'w \<Rightarrow> (int \<times> MicroServiceInstance list) go_result \<times> 'w"
  sc_files :: "'w \<Rightarrow> MicroServiceInstance option list go_result \<times> 'w"

definition SerErrServiceDelFailed :: int where "SerErrServiceDelFailed = 7"
definition SerErrServiceUpdFailed :: int where "SerErrServiceUpdFailed = 8"
definition ServicesMaxCount :: nat where "ServicesMaxCount = 50"

text \<open>The service centre's code for an instance that does not exist.\<close>

definition ErrInstanceNotExists :: int where "ErrInstanceNotExists = 400017"

section \<open>Requests\<close>

record svc_request = rule_request +
  sr_subscriptionId :: string
  sr_serviceId :: string
  sr_query :: svc_query
  sr_instance_id :: string
  sr_ser_name :: string
  sr_version :: string
  sr_consumerName :: string

definition DecodeRestReq_GetParam :: "(string \<Rightarrow> bool) \<Rightarrow> svc_request \<Rightarrow> unit plan_out" where
  "DecodeRestReq_GetParam uuid r =
     (case ValidateAppInstanceIdWithHeader (mr_appInstanceId r) r of
        Some e \<Rightarrow> PlanErr AuthorizationValidateErr (err_msg e)
      | None \<Rightarrow>
          if uuid_error uuid (mr_appInstanceId r)
          then PlanErr RequestParamErr ''app Instance ID validation failed, invalid uuid''
          else if uuid_error uuid (sr_subscriptionId r)
          then PlanErr RequestParamErr ''subscription ID validation failed, invalid uuid''
          else if length (sr_serviceId r) > 0 \<and> \<not> ValidateServiceID (sr_serviceId r)
          then PlanErr SerErrFailBase ''invalid service ID''
          else PlanOk ())"

definition DecodeRestReq_ParseBody :: "'b rule_codec \<Rightarrow> svc_request \<Rightarrow> 'b plan_out" where
  "DecodeRestReq_ParseBody codec r =
     (case mr_body r of
        Inl e \<Rightarrow> PlanErr SerErrFailBase ''read request body error''
      | Inr msg \<Rightarrow>
          if length msg > RequestBodyLength then PlanErr RequestParamErr ''request body too large''
          else (case rc_checkParam codec msg of
                  Inl (Panic m) \<Rightarrow> PlanPanic (Panic m)
                | Inl e \<Rightarrow> PlanErr SerErrFailBase ''check Param failed''
                | Inr newMsg \<Rightarrow>
                    (case rc_unmarshal codec newMsg of
                       Inl e \<Rightarrow> PlanErr ParseInfoErr ''unmarshal request body error''
                     | Inr b \<Rightarrow>
                         (case rc_validate codec b of
                            Some m \<Rightarrow> PlanErr RequestParamErr ''request param validation failed''
                          | None \<Rightarrow> PlanOk b))))"

section \<open>Registration\<close>

definition app_services :: "string \<Rightarrow> MicroServiceInstance list \<Rightarrow> nat" where
  "app_services app inss = length (filter (\<lambda>i. get_prop (mi_Properties i) ''appInstanceId'' = app) inss)"

definition empty_query :: svc_query where
  "empty_query = \<lparr>sq_ser_category_id = [], sq_scope_of_locality = [], sq_consumed_local_only = [], sq_is_local = []\<rparr>"

definition RegisterLimit_OnRequest :: "'w service_center \<Rightarrow> string \<Rightarrow> 'w \<Rightarrow> unit plan_out \<times> 'w" where
  "RegisterLimit_OnRequest SC app w =
     (case sc_files SC w of
        (resp, w) \<Rightarrow>
          (case FindInstanceByKey empty_query resp of
             FindNull \<Rightarrow> (PlanOk (), w)
           | FindErr m \<Rightarrow> (PlanErr SerErrServiceRegFailed ''find instance error'', w)
           | Found inss \<Rightarrow>
               if app_services app inss \<ge> ServicesMaxCount
               then (PlanErr SerErrServiceRegFailed ''registered services have achieve the limit'', w)
               else (PlanOk (), w)))"

definition RegisterServiceId_OnRequest :: "'w service_center \<Rightarrow> ServiceInfo \<Rightarrow> 'w \<Rightarrow> string plan_out \<times> 'w" where
  "RegisterServiceId_OnRequest SC s w =
     (case sc_create SC (GenerateServiceRequest s) w of
        (Inl e, w) \<Rightarrow> (PlanErr SerErrServiceRegFailed ''service creation failed'', w)
      | (Inr serviceId, w) \<Rightarrow>
          if serviceId = [] then (PlanErr SerErrServiceRegFailed ''service register failed'', w) else (PlanOk serviceId, w))"

definition set_liveness :: "string \<Rightarrow> string \<Rightarrow> ServiceInfo \<Rightarrow> props \<Rightarrow> ServiceInfo \<times> props" where
  "set_liveness app serId s m =
     (if si_LivenessInterval s \<noteq> 0
      then (s\<lparr>si_Links := (si_Links s)\<lparr>ln_Self := LivenessPath app serId\<rparr>\<rparr>, al_put ''liveness'' (LivenessPath app serId) m)
      else (s, m))"

text \<open>The answer and the \<open>Location\<close> header.\<close>

definition RegisterServiceInst_OnRequest ::
  "'w svc_host \<Rightarrow> 'w service_center \<Rightarrow> string \<Rightarrow> string \<Rightarrow> ServiceInfo \<Rightarrow> 'w \<Rightarrow> (ServiceInfo \<times> string) plan_out \<times> 'w" where
  "RegisterServiceInst_OnRequest H SC app serviceId s w =
     (case GenerateRegisterInstance H s False empty_instance w of
        ((inst, s), w) \<Rightarrow>
          (let inst = inst\<lparr>mi_ServiceId := serviceId,
                           mi_Properties := al_put ''appInstanceId'' app (mi_Properties inst)\<rparr>
           in (case sc_register SC inst w of
                 (Inl e, w) \<Rightarrow> (PlanErr SerErrServiceInstanceFailed ''instance registration failed'', w)
               | (Inr instanceId, w) \<Rightarrow>
                   if instanceId = [] then (PlanErr SerErrServiceInstanceFailed ''instance id is empty'', w)
                   else (case set_liveness app (serviceId @ instanceId) s (mi_Properties inst) of
                           (s, m) \<Rightarrow>
                             (case sc_updateProps SC serviceId instanceId m w of
                                (Inl e, w) \<Rightarrow> (PlanErr SerErrServiceInstanceFailed ''Status properties failed'', w)
                              | (Inr code, w) \<Rightarrow>
                                  (PlanOk (s\<lparr>si_SerInstanceId := serviceId @ instanceId\<rparr>,
                                           ''/mep/mp1/v1/services/'' @ serviceId @ instanceId), w))))))"

section \<open>Update and deletion\<close>

text \<open>An instance that the centre does not know is an error.  The model works on a copy of the
  instance; the code gets the one of the centre's cache, so the properties that an update or a
  removal changes are seen there before the centre has stored them.\<close>

definition GetServiceInstance :: "'w service_center \<Rightarrow> string \<Rightarrow> 'w \<Rightarrow> MicroServiceInstance go_result \<times> 'w" where
  "GetServiceInstance SC serId w =
     (case sc_getInstance SC (fst (split_id serId)) (snd (split_id serId)) w of
        (Inl e, w) \<Rightarrow> (Inl e, w)
      | (Inr None, w) \<Rightarrow> (Inl (Err ''not exist''), w)
      | (Inr (Some inst), w) \<Rightarrow> (Inr inst, w))"

definition RecordHeartbeat :: "'w service_center \<Rightarrow> string \<Rightarrow> 'w \<Rightarrow> go_error option \<times> 'w" where
  "RecordHeartbeat SC serId w =
     (case sc_heartbeat SC (fst (split_id serId)) (snd (split_id serId)) w of
        (Inl e, w) \<Rightarrow> (Some e, w) | (Inr code, w) \<Rightarrow> (None, w))"

definition UpdateInstance_OnRequest ::
  "'w svc_host \<Rightarrow> 'w service_center \<Rightarrow> string \<Rightarrow> string \<Rightarrow> ServiceInfo \<Rightarrow> 'w \<Rightarrow> ServiceInfo plan_out \<times> 'w" where
  "UpdateInstance_OnRequest H SC app serId s w =
     (if serId = [] then (PlanErr RequestParamErr ''service id is empty'', w)
      else (case GetServiceInstance SC serId w of
              (Inl e, w) \<Rightarrow> (PlanErr SerInstanceNotFound ''find service failed'', w)
            | (Inr instance0, w) \<Rightarrow>
                (case GenerateRegisterInstance H s True instance0 w of
                   ((inst, s), w) \<Rightarrow>
                     (case set_liveness app (mi_ServiceId instance0 @ mi_InstanceId instance0) s
                             (al_put ''appInstanceId'' app (mi_Properties inst)) of
                        (s, m) \<Rightarrow>
                          (case sc_updateInstance SC (inst\<lparr>mi_Properties := m\<rparr>) w of
                             (Some e, w) \<Rightarrow> (PlanErr SerErrServiceUpdFailed ''update service failed'', w)
                           | (None, w) \<Rightarrow>
                               (case RecordHeartbeat SC serId w of
                                  (Some e, w) \<Rightarrow> (PlanErr SerErrServiceUpdFailed ''heartbeat failed'', w)
                                | (None, w) \<Rightarrow>
                                    (PlanOk (s\<lparr>si_SerInstanceId := mi_ServiceId instance0 @ mi_InstanceId instance0\<rparr>), w)))))))"

definition endpoint_entries :: "props \<Rightarrow> props" where
  "endpoint_entries m = filter (\<lambda>(k, v). has_prefix k EndPointPropPrefix) m"

text \<open>The response code of the centre goes with the answer.\<close>

definition DeleteService_OnRequest ::
  "'w svc_host \<Rightarrow> 'w service_center \<Rightarrow> string \<Rightarrow> 'w \<Rightarrow> int plan_out \<times> 'w" where
  "DeleteService_OnRequest H SC serId w =
     (if serId = [] then (PlanErr SerErrServiceDelFailed ''param is empty'', w)
      else (case GetServiceInstance SC serId w of
              (Inl e, w) \<Rightarrow> (PlanErr SerInstanceNotFound ''find service failed'', w)
            | (Inr inst, w) \<Rightarrow>
                (let w = fold (\<lambda>(k, v). CleanUpApiGwEntry H v) (endpoint_entries (sh_iter H (mi_Properties inst))) w
                 in (case sc_unregister SC (fst (split_id serId)) (snd (split_id serId)) w of
                       (Inl e, w) \<Rightarrow> (PlanErr SerErrServiceInstanceFailed ''service delete failed'', w)
                     | (Inr code, w) \<Rightarrow>
                         if code = ErrInstanceNotExists then (PlanErr SerInstanceNotFound ''instance not found'', w)
                         else (PlanOk code, w)))))"

section \<open>Query of one service\<close>

definition GetOneDecode_getFindParam :: "svc_request \<Rightarrow> (string \<times> string) plan_out" where
  "GetOneDecode_getFindParam r =
     (case ValidateAppInstanceIdWithHeader (mr_appInstanceId r) r of
        Some e \<Rightarrow> PlanErr AuthorizationValidateErr (err_msg e)
      | None \<Rightarrow>
          if \<not> ValidateServiceID (sr_serviceId r) then PlanErr SerErrFailBase ''invalid service id''
          else PlanOk (split_id (sr_serviceId r)))"

text \<open>\<open>filterAppInstanceId\<close> assigns to its own parameter, so the instance it is given
  stays.\<close>

definition filterAppInstanceId_one :: "string \<Rightarrow> MicroServiceInstance option \<Rightarrow> MicroServiceInstance option" where
  "filterAppInstanceId_one app inst = inst"

definition GetOneInstance_OnRequest ::
  "svc_codec \<Rightarrow> 'w service_center \<Rightarrow> string \<Rightarrow> string \<times> string \<Rightarrow> 'w \<Rightarrow> (int \<times> ServiceInfo) plan_out \<times> 'w" where
  "GetOneInstance_OnRequest C SC app req w =
     (case sc_getOne SC (fst req) (snd req) w of
        (Inl e, w) \<Rightarrow> (PlanErr SerInstanceNotFound ''get one instance error'', w)
      | (Inr (code, inst), w) \<Rightarrow>
          (case filterAppInstanceId_one app inst of
             None \<Rightarrow> (PlanErr SerInstanceNotFound ''service instance id not found'', w)
           | Some inst \<Rightarrow> (PlanOk (code, FromServiceInstance C inst), w)))"

end
