(* ===== verification/Svc_Discover.thy ===== *)
theory Svc_Discover
  imports Svc_Plans
begin

text \<open>
  Discovery of services (\<open>mp1/plan_svc_discover.go\<close>), the services an application is
  allowed to find, which mepauth keeps (\<open>GetRequiredSerFromMepauth\<close> and
  \<open>ReadMepAuthEndpoint\<close> of \<open>common/util/meputil.go\<close>), and the handlers of the
  service interface in \<open>mp1/controller.go\<close>.
\<close>

section \<open>The services an application requires\<close>

text \<open>The environment variables, and the decoding of mepauth's answer and of a list of
  names.\<close>

record server_env =
  en_mepAuthPort :: string
  en_mepAuthHost :: string
  en_certDomain :: string

record auth_codec =
  au_required :: "string \<Rightarrow> string option"
  au_names :: "string \<Rightarrow> string list option"

definition meputil_MaxPortNumber :: int where "meputil_MaxPortNumber = 65535"
definition maxHostNameLen :: nat where "maxHostNameLen = 253"

text \<open>\<open>DomainPattern\<close>: labels of at most 63 letters, digits and inner hyphens.\<close>

definition is_alnum :: "char \<Rightarrow> bool" where
  "is_alnum c \<longleftrightarrow> is_digit c \<or> 65 \<le> (of_char c :: nat) \<and> (of_char c :: nat) \<le> 90
                 \<or> 97 \<le> (of_char c :: nat) \<and> (of_char c :: nat) \<le> 122"

definition domain_label :: "string \<Rightarrow> bool" where
  "domain_label l \<longleftrightarrow> l \<noteq> [] \<and> length l \<le> 63 \<and> is_alnum (hd l) \<and> is_alnum (last l)
     \<and> list_all (\<lambda>c. is_alnum c \<or> c = CHR ''-'') l"

definition ValidateDomainName :: "string \<Rightarrow> bool" where
  "ValidateDomainName name \<longleftrightarrow>
     length name \<le> maxHostNameLen \<and> list_all domain_label (split_on (CHR ''.'') name)"

definition ReadMepAuthEndpoint :: "server_env \<Rightarrow> 'w svc_host \<Rightarrow> 'w \<Rightarrow> string go_result \<times> 'w" where
  "ReadMepAuthEndpoint env H w =
     (let port = en_mepAuthPort env in
      if length port \<le> 0 \<or> length port > MaxPortLength then (Inl (Err ''port validation error''), w)
      else if snd (atoi port) \<and> (fst (atoi port) \<le> 0 \<or> fst (atoi port) > meputil_MaxPortNumber)
      then (Inl (Err ''port parse error''), w)
      else if ParseIP (en_mepAuthHost env) = None then (Inl (Err ''ip parse error''), w)
      else (case GetAppConfig H w of
              (Inl e, w) \<Rightarrow> (Inl (Err ''get app config failed''), w)
            | (Inr appConfig, w) \<Rightarrow>
                (Inr (get_prop appConfig ''http_protocol'' @ ''://'' @ en_mepAuthHost env @ '':'' @ port @
                      ''/mep/appMng/v1/applications''), w)))"

definition GetRequiredSerFromMepauth ::
  "server_env \<Rightarrow> auth_codec \<Rightarrow> 'w svc_host \<Rightarrow> string \<Rightarrow> 'w \<Rightarrow> string go_result \<times> 'w" where
  "GetRequiredSerFromMepauth env A H appInstanceId w =
     (case ReadMepAuthEndpoint env H w of
        (Inl e, w) \<Rightarrow> (Inl e, w)
      | (Inr authBaseUrl, w) \<Rightarrow>
          if \<not> ValidateDomainName (en_certDomain env) then (Inl (Err ''domain name validation failed''), w)
          else (case sh_send H ''GET'' (authBaseUrl @ ''/'' @ appInstanceId @ ''/confs'') [] w of
                  (Inl e, w) \<Rightarrow> (Inl e, w)
                | (Inr response, w) \<Rightarrow>
                    (case au_required A response of
                       None \<Rightarrow> (Inl (Err ''unmarshal failed''), w)
                     | Some required \<Rightarrow> (Inr required, w))))"

section \<open>Discovery\<close>

record find_request =
  fr_AppId :: string
  fr_ServiceName :: string
  fr_VersionRule :: string

text \<open>The decoded request, the path's application id, the query and the calling
  application.\<close>

definition DiscoverDecode_GetFindParam :: "svc_request \<Rightarrow> find_request plan_out" where
  "DiscoverDecode_GetFindParam r =
     (case ValidateAppInstanceIdWithHeader (mr_appInstanceId r) r of
        Some e \<Rightarrow> PlanErr AuthorizationValidateErr (err_msg e)
      | None \<Rightarrow>
          PlanOk \<lparr>fr_AppId = (if sr_instance_id r = [] then ''default'' else sr_instance_id r),
                  fr_ServiceName = sr_ser_name r,
                  fr_VersionRule = (if sr_version r = [] then ''latest'' else sr_version r)\<rparr>)"

definition checkInstanceId :: "find_request \<Rightarrow> MicroServiceInstance list \<Rightarrow> bool" where
  "checkInstanceId req inss \<longleftrightarrow>
     fr_AppId req = ''default'' \<or> list_ex (\<lambda>i. mi_ServiceId i @ mi_InstanceId i = fr_AppId req) inss"

definition filterAppInstanceId :: "string \<Rightarrow> MicroServiceInstance list \<Rightarrow> MicroServiceInstance list" where
  "filterAppInstanceId app inss =
     (if app = [] then inss else filter (\<lambda>i. get_prop (mi_Properties i) ''appInstanceId'' = app) inss)"

definition DiscoverService_OnRequest ::
  "'w service_center \<Rightarrow> svc_request \<Rightarrow> find_request \<Rightarrow> 'w \<Rightarrow> (int \<times> MicroServiceInstance list) plan_out \<times> 'w" where
  "DiscoverService_OnRequest SC r req w =
     (if fr_ServiceName req = [] then
        (case sc_files SC w of
           (resp, w) \<Rightarrow>
             (case FindInstanceByKey (sr_query r) resp of
                FindErr m \<Rightarrow> (PlanErr SerErrServiceNotFound ''failed to find the instance'', w)
              | FindNull \<Rightarrow> (PlanErr SerErrServiceNotFound ''failed to find the instance'', w)
              | Found inss \<Rightarrow>
                  if \<not> checkInstanceId req inss then (PlanErr SerErrServiceNotFound ''instance id not found'', w)
                  else (PlanOk (0, filterAppInstanceId (mr_appInstanceId r) inss), w)))
      else (case sc_find SC (fr_AppId req) (fr_ServiceName req) (fr_VersionRule req) w of
              (Inl e, w) \<Rightarrow> (PlanErr SerErrServiceNotFound ''failed to find instance request'', w)
            | (Inr (code, inss), w) \<Rightarrow> (PlanOk (code, filterAppInstanceId (mr_appInstanceId r) inss), w)))"

definition Mp1CvtSrvDiscover :: "svc_codec \<Rightarrow> int \<times> MicroServiceInstance list \<Rightarrow> int \<times> ServiceInfo list" where
  "Mp1CvtSrvDiscover C resp =
     (if fst resp \<noteq> 0 then (fst resp, []) else (fst resp, map (FromServiceInstance C) (snd resp)))"

text \<open>The required services: all, or the listed names.\<close>

definition required_filter :: "auth_codec \<Rightarrow> string \<Rightarrow> (string \<Rightarrow> bool) option" where
  "required_filter A requiredServices =
     (if requiredServices = ''*'' \<or> str_contains requiredServices ''service-discovery'' then Some (\<lambda>_. True)
      else (case au_names A requiredServices of None \<Rightarrow> None | Some reqServices \<Rightarrow> Some (\<lambda>n. InArray n reqServices)))"

definition Mp1CvtSrvAuthenDiscover ::
  "server_env \<Rightarrow> auth_codec \<Rightarrow> 'w svc_host \<Rightarrow> svc_codec \<Rightarrow> int \<times> MicroServiceInstance list \<Rightarrow> string \<Rightarrow> 'w \<Rightarrow>
   (int \<times> ServiceInfo list) \<times> 'w" where
  "Mp1CvtSrvAuthenDiscover env A H C resp appInsId w =
     (if fst resp \<noteq> 0 then ((fst resp, []), w)
      else (case GetRequiredSerFromMepauth env A H appInsId w of
              (Inl e, w) \<Rightarrow> ((fst resp, []), w)
            | (Inr requiredServices, w) \<Rightarrow>
                (case required_filter A requiredServices of
                   None \<Rightarrow> ((fst resp, []), w)
                 | Some ok \<Rightarrow>
                     ((fst resp, filter (\<lambda>s. ok (si_SerName s)) (map (FromServiceInstance C) (snd resp))), w))))"

definition ToStrDiscover_OnRequest ::
  "server_env \<Rightarrow> auth_codec \<Rightarrow> 'w svc_host \<Rightarrow> svc_codec \<Rightarrow> svc_request \<Rightarrow> int \<times> MicroServiceInstance list \<Rightarrow> 'w \<Rightarrow>
   (int \<times> ServiceInfo list) plan_out \<times> 'w" where
  "ToStrDiscover_OnRequest env A H C r resp w =
     (if mr_appInstanceId r = []
      then (case Mp1CvtSrvAuthenDiscover env A H C resp (mr_headerId r) w of (rsp, w) \<Rightarrow> (PlanOk rsp, w))
      else (PlanOk (Mp1CvtSrvDiscover C resp), w))"

text \<open>The hook, where one is set, gives the gateway's endpoint, which replaces the one of
  each service until it is empty.\<close>

fun hook_services :: "('w \<Rightarrow> EndPointInfo \<times> 'w) option \<Rightarrow> ServiceInfo list \<Rightarrow> 'w \<Rightarrow> ServiceInfo list \<times> 'w" where
  "hook_services None ss w = (ss, w)"
| "hook_services (Some h) [] w = ([], w)"
| "hook_services (Some h) (s # ss) w =
     (case h w of
        (info, w) \<Rightarrow>
          if ep_Addresses info = [] \<and> ep_Uris info = [] then (s # ss, w)
          else (case hook_services (Some h) ss w of
                  (ss, w) \<Rightarrow> (s\<lparr>si_TransportInfo := (si_TransportInfo s)\<lparr>ti_Endpoint := info\<rparr>\<rparr> # ss, w)))"

definition RspHook_OnRequest ::
  "('w \<Rightarrow> EndPointInfo \<times> 'w) option \<Rightarrow> svc_request \<Rightarrow> int \<times> ServiceInfo list \<Rightarrow> 'w \<Rightarrow> (int \<times> ServiceInfo list) plan_out \<times> 'w" where
  "RspHook_OnRequest hook r rsp w =
     (if sr_consumerName r = ''APIGW'' then (PlanOk rsp, w)
      else (case hook_services hook (snd rsp) w of (ss, w) \<Rightarrow> (PlanOk (fst rsp, ss), w)))"

section \<open>The handlers\<close>

text \<open>The steps of a plan one after another.\<close>

definition and_then :: "'a plan_out \<times> 'w \<Rightarrow> ('a \<Rightarrow> 'w \<Rightarrow> 'b plan_out \<times> 'w) \<Rightarrow> 'b plan_out \<times> 'w" where
  "and_then r f = then_step (fst r) (snd r) f"

definition serviceRegister where
  "serviceRegister uuid codec H SC r w =
     then_step (DecodeRestReq_GetParam uuid r) w (\<lambda>_ w. then_step (DecodeRestReq_ParseBody codec r) w (\<lambda>s w.
       and_then (RegisterLimit_OnRequest SC (mr_appInstanceId r) w) (\<lambda>_ w.
         and_then (RegisterServiceId_OnRequest SC s w) (\<lambda>serviceId.
           RegisterServiceInst_OnRequest H SC (mr_appInstanceId r) serviceId s))))"

definition serviceDiscover where
  "serviceDiscover env A hook H C SC r w =
     then_step (DiscoverDecode_GetFindParam r) w (\<lambda>req w.
       and_then (DiscoverService_OnRequest SC r req w) (\<lambda>resp w.
         and_then (ToStrDiscover_OnRequest env A H C r resp w) (RspHook_OnRequest hook r)))"

definition serviceUpdate where
  "serviceUpdate uuid codec H SC r w =
     then_step (DecodeRestReq_GetParam uuid r) w (\<lambda>_ w. then_step (DecodeRestReq_ParseBody codec r) w
       (UpdateInstance_OnRequest H SC (mr_appInstanceId r) (sr_serviceId r)))"

definition getOneService where
  "getOneService C SC r w =
     then_step (GetOneDecode_getFindParam r) w (GetOneInstance_OnRequest C SC (mr_appInstanceId r))"

definition serviceDelete where
  "serviceDelete uuid H SC r w =
     then_step (DecodeRestReq_GetParam uuid r) w (\<lambda>_. DeleteService_OnRequest H SC (sr_serviceId r))"

end
