(* ===== verification/Mep_Config.thy ===== *)
theory Mep_Config
  imports Mp1_Rules Svc_Discover
begin

text \<open>
  The configuration of mepserver (\<open>common/config/mepserver_loader.go\<close>) and the
  initialisation of its two interfaces from it (\<open>Init\<close> of \<open>mp1/controller.go\<close> and
  \<open>mm5/controller.go\<close>).  The YAML parser and the validator of the struct tags are arguments.
  The lemmas show what a service that was initialised works with, and that the two interfaces
  agree on it.
\<close>

section \<open>The configuration file\<close>

record Address =
  ad_Host :: string
  ad_Port :: int

record EndPoint =
  ep_Address :: Address

record DNSAgentConfig =
  dc_Type :: string
  dc_Endpoint :: EndPoint

record DataPlaneConfig =
  pc_Type :: string

record MepServerConfig =
  mc_DNSAgent :: DNSAgentConfig
  mc_DataPlane :: DataPlaneConfig

record 'w config_host =
  ch_ReadFile :: "string \<Rightarrow> 'w \<Rightarrow> string go_result \<times> 'w"
  ch_Unmarshal :: "string \<Rightarrow> MepServerConfig go_result"
  ch_Struct :: "MepServerConfig \<Rightarrow> go_error option"

definition MepServerConfigPath :: string where
  "MepServerConfigPath = ''/usr/mep/conf/mep/config.yaml''"

definition validateConfig :: "'w config_host \<Rightarrow> MepServerConfig \<Rightarrow> go_error option" where
  "validateConfig C c = (case ch_Struct C c of Some err \<Rightarrow> Some err | None \<Rightarrow> None)"

definition LoadMepServerConfig :: "'w config_host \<Rightarrow> 'w \<Rightarrow> MepServerConfig go_result \<times> 'w" where
  "LoadMepServerConfig C w =
     (case ch_ReadFile C MepServerConfigPath w of
        (Inl err, w) \<Rightarrow> (Inl err, w)
      | (Inr configData, w) \<Rightarrow>
          (case ch_Unmarshal C configData of
             Inl err \<Rightarrow> (Inl err, w)
           | Inr mepConfig \<Rightarrow>
               (case validateConfig C mepConfig of
                  Some err \<Rightarrow> (Inl err, w)
                | None \<Rightarrow> (Inr mepConfig, w))))"

section \<open>The agents\<close>

definition DataPlaneNone :: string where "DataPlaneNone = ''none''"

text \<open>\<open>dataplane.DataPlane\<close> with its first operation, which the record of the rule
  operations leaves out.\<close>

record 'w DataPlaneIf =
  df_InitDataPlane :: "MepServerConfig \<Rightarrow> 'w \<Rightarrow> go_error option \<times> 'w"
  df_rules :: "'w DataPlane"

definition NoneDataPlaneIf :: "'w DataPlaneIf" where
  "NoneDataPlaneIf = \<lparr>df_InitDataPlane = (\<lambda>config w. (None, w)), df_rules = NoneDataPlane\<rparr>"

definition CreateDataPlane :: "MepServerConfig \<Rightarrow> 'w DataPlaneIf option" where
  "CreateDataPlane config =
     (if pc_Type (mc_DataPlane config) = DataPlaneNone then Some NoneDataPlaneIf else None)"

text \<open>The environment of the process: \<open>url_ok\<close> is whether \<open>url.Parse\<close> accepts an
  address.\<close>

record 'w agent_env =
  ae_client :: "'w http_client"
  ae_url_ok :: "string \<Rightarrow> bool"
  ae_DnsHost :: string
  ae_DnsPort :: string

definition NewRestDNSAgent :: "'w agent_env \<Rightarrow> MepServerConfig \<Rightarrow> 'w DNSAgent" where
  "NewRestDNSAgent A config =
     RestDNSAgent (ae_client A)
       (initDnsAgent (\<lambda>s. case atoi s of (n, ok) \<Rightarrow> if ok then Some n else None) (ae_url_ok A) (ae_DnsHost A) (ae_DnsPort A))"

section \<open>The interfaces\<close>

record 'w Mp1Service =
  m1_config :: "MepServerConfig option"
  m1_dnsAgent :: "'w DNSAgent option"
  m1_dataPlane :: "'w DataPlaneIf option"

record 'w Worker =
  wk_dataPlane :: "'w DataPlaneIf option"
  wk_dnsAgent :: "'w DNSAgent option"
  wk_dnsTypeConfig :: string

record 'w Mm5Service =
  m5_config :: "MepServerConfig option"
  m5_mepAuthBaseUrl :: string
  m5_mp2Worker :: "'w Worker"

definition new_mp1 :: "'w Mp1Service" where
  "new_mp1 = \<lparr>m1_config = None, m1_dnsAgent = None, m1_dataPlane = None\<rparr>"

definition new_mm5 :: "'w Mm5Service" where
  "new_mm5 = \<lparr>m5_config = None, m5_mepAuthBaseUrl = [],
     m5_mp2Worker = \<lparr>wk_dataPlane = None, wk_dnsAgent = None, wk_dnsTypeConfig = []\<rparr>\<rparr>"

definition InitializeWorker :: "'w DataPlaneIf \<Rightarrow> 'w DNSAgent option \<Rightarrow> string \<Rightarrow> 'w Worker \<Rightarrow> 'w Worker" where
  "InitializeWorker dataPlane dnsAgent dnsType k =
     k\<lparr>wk_dataPlane := Some dataPlane, wk_dnsAgent := dnsAgent, wk_dnsTypeConfig := dnsType\<rparr>"

definition Mp1Service_Init :: "'w config_host \<Rightarrow> 'w agent_env \<Rightarrow> 'w Mp1Service \<Rightarrow> 'w \<Rightarrow> go_error option \<times> 'w Mp1Service \<times> 'w" where
  "Mp1Service_Init C A m w =
     (case LoadMepServerConfig C w of
        (Inl err, w) \<Rightarrow> (Some (Err ''error: reading configuration failed''), m, w)
      | (Inr mepConfig, w) \<Rightarrow>
          let dnsAgent = (if dc_Type (mc_DNSAgent mepConfig) \<noteq> DnsAgentTypeDataPlane
                          then Some (NewRestDNSAgent A mepConfig) else None);
              m = m\<lparr>m1_config := Some mepConfig, m1_dnsAgent := dnsAgent\<rparr>
          in (case CreateDataPlane mepConfig of
                None \<Rightarrow> (Some (Err ''error: unsupported data-plane''), m, w)
              | Some dataPlane \<Rightarrow>
                  (case df_InitDataPlane dataPlane mepConfig w of
                     (Some err, w) \<Rightarrow> (Some err, m, w)
                   | (None, w) \<Rightarrow> (None, m\<lparr>m1_dataPlane := Some dataPlane\<rparr>, w))))"

definition Mm5Service_Init ::
  "'w config_host \<Rightarrow> 'w agent_env \<Rightarrow> server_env \<Rightarrow> 'w svc_host \<Rightarrow> 'w Mm5Service \<Rightarrow> 'w \<Rightarrow> go_error option \<times> 'w Mm5Service \<times> 'w" where
  "Mm5Service_Init C A env H m w =
     (case LoadMepServerConfig C w of
        (Inl err, w) \<Rightarrow> (Some (Err ''error: reading configuration failed''), m, w)
      | (Inr mepConfig, w) \<Rightarrow>
          let m = m\<lparr>m5_config := Some mepConfig\<rparr>;
              dnsAgent = (if dc_Type (mc_DNSAgent mepConfig) \<noteq> DnsAgentTypeDataPlane
                          then Some (NewRestDNSAgent A mepConfig) else None)
          in (case CreateDataPlane mepConfig of
                None \<Rightarrow> (Some (Err ''error: unsupported data-plane''), m, w)
              | Some dataPlane \<Rightarrow>
                  (case df_InitDataPlane dataPlane mepConfig w of
                     (Some err, w) \<Rightarrow> (Some err, m, w)
                   | (None, w) \<Rightarrow>
                       let m = m\<lparr>m5_mp2Worker := InitializeWorker dataPlane dnsAgent (dc_Type (mc_DNSAgent mepConfig)) (m5_mp2Worker m)\<rparr>
                       in (case ReadMepAuthEndpoint env H w of
                             (Inl err, w) \<Rightarrow> (Some err, m\<lparr>m5_mepAuthBaseUrl := []\<rparr>, w)
                           | (Inr url, w) \<Rightarrow> (None, m\<lparr>m5_mepAuthBaseUrl := url\<rparr>, w)))))"

text \<open>Every configuration that is loaded has passed the validator, and a service without an
  error works with it.\<close>

lemma loaded_is_valid:
  "LoadMepServerConfig C w = (Inr c, w') \<Longrightarrow> ch_Struct C c = None"
  by (auto simp: LoadMepServerConfig_def validateConfig_def split: prod.splits sum.splits option.splits)

lemma mp1_initialised:
  assumes "Mp1Service_Init C A m w = (None, m', w')"
  shows "\<exists>c. LoadMepServerConfig C w = (Inr c, w') \<and> pc_Type (mc_DataPlane c) = DataPlaneNone \<and> m1_config m' = Some c
    \<and> m1_dataPlane m' = Some NoneDataPlaneIf
    \<and> m1_dnsAgent m' = (if dc_Type (mc_DNSAgent c) = DnsAgentTypeDataPlane then None else Some (NewRestDNSAgent A c))"
proof -
  obtain r w1 where L: "LoadMepServerConfig C w = (r, w1)" by fastforce
  show ?thesis
  proof (cases r)
    case (Inl e)
    then show ?thesis using assms L by (simp add: Mp1Service_Init_def)
  next
    case (Inr c)
    then have "Mp1Service_Init C A m w =
      (if pc_Type (mc_DataPlane c) = DataPlaneNone
       then (None, m\<lparr>m1_config := Some c, m1_dnsAgent := (if dc_Type (mc_DNSAgent c) \<noteq> DnsAgentTypeDataPlane
                then Some (NewRestDNSAgent A c) else None), m1_dataPlane := Some NoneDataPlaneIf\<rparr>, w1)
       else (Some (Err ''error: unsupported data-plane''), m\<lparr>m1_config := Some c, m1_dnsAgent :=
                (if dc_Type (mc_DNSAgent c) \<noteq> DnsAgentTypeDataPlane then Some (NewRestDNSAgent A c) else None)\<rparr>, w1))"
      by (simp add: Mp1Service_Init_def L CreateDataPlane_def NoneDataPlaneIf_def Let_def del: not_None_eq)
    with assms L Inr show ?thesis by (auto split: if_splits)
  qed
qed

text \<open>The nil agent of the model of the handlers is the one of the initialised service.\<close>

lemma mp1_agent_agrees:
  assumes "Mp1Service_Init C A m w = (None, m', w')" and "m1_config m' = Some c"
    and "se_dnsType E = dc_Type (mc_DNSAgent c)" and "se_dnsAgent E = NewRestDNSAgent A c"
  shows "m1_dnsAgent m' = mp1_dnsAgent E"
  using mp1_initialised [OF assms(1)] assms(2-4) by (auto simp: mp1_dnsAgent_def)

text \<open>The worker has its agents whenever the configuration is valid for the mp1 interface, even
  when the address of mepauth is missing and the initialisation reports an error.\<close>

lemma mm5_worker_initialised:
  assumes "Mp1Service_Init C A m w = (None, m', w')"
  shows "\<exists>c. m1_config m' = Some c
    \<and> m5_mp2Worker (fst (snd (Mm5Service_Init C A env H n w)))
      = \<lparr>wk_dataPlane = m1_dataPlane m', wk_dnsAgent = m1_dnsAgent m', wk_dnsTypeConfig = dc_Type (mc_DNSAgent c)\<rparr>"
proof -
  obtain c where c: "LoadMepServerConfig C w = (Inr c, w')" "pc_Type (mc_DataPlane c) = DataPlaneNone" "m1_config m' = Some c"
      "m1_dataPlane m' = Some NoneDataPlaneIf"
      "m1_dnsAgent m' = (if dc_Type (mc_DNSAgent c) = DnsAgentTypeDataPlane then None else Some (NewRestDNSAgent A c))"
    using mp1_initialised [OF assms] by blast
  show ?thesis
    by (rule exI [of _ c], cases "ReadMepAuthEndpoint env H w'", cases "fst (ReadMepAuthEndpoint env H w')")
       (simp_all add: c Mm5Service_Init_def CreateDataPlane_def NoneDataPlaneIf_def InitializeWorker_def Let_def)
qed

end
