(* ===== verification/Auth_Keys.thy ===== *)
theory Auth_Keys
  imports Mep_Prelude
begin

text \<open>
  Passwords, keys and encrypted files of mepauth (\<open>mepauth/util/util.go\<close> and the
  password checks of \<open>util/validation.go\<close>).  A byte slice is a list of
  \<^typ>\<open>char\<close>.  The ciphers, PBKDF2 and the random source are parameters of the
  model; what the code relies on of them is the locale \<open>aead\<close> below.  The state is
  the directory of key files and the number of reads of the random source.
\<close>

unbundle bit_operations_syntax

section \<open>Passwords\<close>

definition minPasswordSize :: nat where "minPasswordSize = 8"
definition maxPasswordSize :: nat where "maxPasswordSize = 16"
definition maxPasswordCount :: nat where "maxPasswordCount = 2"

definition char_between :: "nat \<Rightarrow> nat \<Rightarrow> char \<Rightarrow> bool" where
  "char_between l u c \<longleftrightarrow> l \<le> of_char c \<and> of_char c \<le> u"

text \<open>\<open>regexp.Match\<close> with \<open>^.*[class].*$\<close>: the dot stands for
  every character but a newline.\<close>

definition match_class :: "(char \<Rightarrow> bool) \<Rightarrow> string \<Rightarrow> bool" where
  "match_class cls s \<longleftrightarrow> list_all (\<lambda>c. c \<noteq> CHR 0x0A) s \<and> list_ex cls s"

definition special_chars :: string where
  "special_chars = [CHR 0x27] @ ''~!@#$%^&*()-_=+|[{}];:\",<.>/?''"

definition singleDigitRegex :: "string \<Rightarrow> bool" where
  "singleDigitRegex = match_class (char_between 48 57)"
definition lowerCaseRegex :: "string \<Rightarrow> bool" where
  "lowerCaseRegex = match_class (char_between 97 122)"
definition upperCaseRegex :: "string \<Rightarrow> bool" where
  "upperCaseRegex = match_class (char_between 65 90)"
definition specialCharRegex :: "string \<Rightarrow> bool" where
  "specialCharRegex = match_class (\<lambda>c. c \<in> set special_chars)"

definition validateRegex :: "string \<Rightarrow> nat" where
  "validateRegex password =
     (let n = 0;
          n = (if singleDigitRegex password then n + 1 else n);
          n = (if lowerCaseRegex password then n + 1 else n);
          n = (if upperCaseRegex password then n + 1 else n);
          n = (if specialCharRegex password then n + 1 else n)
      in n)"

definition validateLength :: "string \<Rightarrow> bool" where
  "validateLength password \<longleftrightarrow> length password \<ge> minPasswordSize \<and> length password \<le> maxPasswordSize"

definition password_types_msg :: string where
  "password_types_msg = ''password must contain at least two types of the either one lowercase'' @
     '' character, one uppercase character, one digit or one special character''"

definition password_length_msg :: string where
  "password_length_msg = ''password must have minimum length of 8 and maximum of 16''"

definition validateJwtPassword :: "string \<Rightarrow> bool \<times> go_error option" where
  "validateJwtPassword password =
     (if validateLength password then
        (let pwdValidCount = validateRegex password
         in if pwdValidCount < maxPasswordCount then (False, Some (Err password_types_msg))
            else (True, None))
      else (False, Some (Err password_length_msg)))"

definition getPasswordValidCount :: "string \<Rightarrow> nat" where
  "getPasswordValidCount password =
     (let n = 0;
          n = (if singleDigitRegex password then n + 1 else n);
          n = (if lowerCaseRegex password then n + 1 else n);
          n = (if upperCaseRegex password then n + 1 else n);
          n = (if specialCharRegex password then n + 1 else n)
      in n)"

definition validatePassword :: "string \<Rightarrow> bool \<times> go_error option" where
  "validatePassword password =
     (if length password \<ge> minPasswordSize \<and> length password \<le> maxPasswordSize then
        (let pwdValidCount = getPasswordValidCount password
         in if pwdValidCount < maxPasswordCount then (False, Some (Err password_types_msg))
            else (True, None))
      else (False, Some (Err password_length_msg)))"

definition ValidateDbParams :: "string \<Rightarrow> bool \<times> go_error option" where
  "ValidateDbParams dbPwd =
     (case validatePassword dbPwd of
        (dbPwdIsValid, validateDbPwdErr) \<Rightarrow>
          if validateDbPwdErr \<noteq> None \<or> \<not> dbPwdIsValid then (dbPwdIsValid, validateDbPwdErr)
          else (True, None))"

section \<open>Ciphers and files\<close>

definition keySize :: nat where "keySize = 32"
definition NonceSize :: nat where "NonceSize = 12"
definition iterationNum :: nat where "iterationNum = 100000"
definition componentSize :: nat where "componentSize = 256"

definition componentFilePath :: string where "componentFilePath = ''cprop/c_properties''"
definition saltFilePath :: string where "saltFilePath = ''sprop/s_properties''"
definition encryptedWorkKeyFilePath :: string where "encryptedWorkKeyFilePath = ''wprop/w_properties''"
definition workKeyNonceFilePath :: string where "workKeyNonceFilePath = ''wnprop/wn_properties''"
definition encryptedJwtPrivateKeyPwdFilePath :: string where
  "encryptedJwtPrivateKeyPwdFilePath = ''encrypted_jwt_private_key_pwd''"
definition jwtPrivateKeyPwdNonceFilePath :: string where
  "jwtPrivateKeyPwdNonceFilePath = ''jwt_private_key_nonce_pwd''"

text \<open>The parameters: AES-GCM sealing and opening under a key and nonce, PBKDF2, the
  answer of the random source to its \<open>n\<close>-th read of a length, and the paths
  that can be written.\<close>

record key_env =
  ke_seal :: "string \<Rightarrow> string \<Rightarrow> string \<Rightarrow> string"
  ke_open :: "string \<Rightarrow> string \<Rightarrow> string \<Rightarrow> string option"
  ke_pbkdf2 :: "string \<Rightarrow> string \<Rightarrow> nat \<Rightarrow> nat \<Rightarrow> string"
  ke_random :: "nat \<Rightarrow> nat \<Rightarrow> string option"
  ke_writable :: "string \<Rightarrow> bool"
  ke_user :: "string option"

record key_world =
  kw_files :: "(string \<times> string) list"
  kw_reads :: nat

definition read_file :: "string \<Rightarrow> key_world \<Rightarrow> string option" where
  "read_file path w = map_of (kw_files w) path"

definition write_file :: "key_env \<Rightarrow> string \<Rightarrow> string \<Rightarrow> key_world \<Rightarrow> bool \<times> key_world" where
  "write_file env path content w =
     (if ke_writable env path then (True, w\<lparr>kw_files := al_put path content (kw_files w)\<rparr>)
      else (False, w))"

definition rand_read :: "key_env \<Rightarrow> nat \<Rightarrow> key_world \<Rightarrow> string option \<times> key_world" where
  "rand_read env n w = (ke_random env (kw_reads w) n, w\<lparr>kw_reads := Suc (kw_reads w)\<rparr>)"

definition ClearByteArray :: "string \<Rightarrow> string" where
  "ClearByteArray data = map (\<lambda>_. CHR 0x00) data"

definition aes_key_ok :: "string \<Rightarrow> bool" where
  "aes_key_ok key \<longleftrightarrow> length key \<in> {16, 24, 32}"

definition EncryptByAES256GCM :: "key_env \<Rightarrow> string \<Rightarrow> string \<Rightarrow> string \<Rightarrow> string go_result" where
  "EncryptByAES256GCM env plaintext key nonce =
     (if \<not> aes_key_ok key then Inl (Err (''crypto/aes: invalid key size '' @ itoa (length key)))
      else if length nonce \<noteq> NonceSize then Inl (Panic ''crypto/cipher: incorrect nonce length given to GCM'')
      else Inr (ke_seal env key nonce plaintext))"

definition DecryptByAES256GCM :: "key_env \<Rightarrow> string \<Rightarrow> string \<Rightarrow> string \<Rightarrow> string go_result" where
  "DecryptByAES256GCM env ciphertext key nonce =
     (if \<not> aes_key_ok key then Inl (Err (''crypto/aes: invalid key size '' @ itoa (length key)))
      else if length nonce \<noteq> NonceSize then Inl (Panic ''crypto/cipher: incorrect nonce length given to GCM'')
      else (case ke_open env key nonce ciphertext of
              None \<Rightarrow> Inl (Err ''cipher: message authentication failed'')
            | Some plaintext \<Rightarrow> Inr plaintext))"

section \<open>Root key and work key\<close>

definition componentContent :: string where
  "componentContent =
     ''j7k0UwOJSsIfi3dzainoBdkcpJJJOJlzd2oBwMQxXdaZ3oCswITWUyLP4eldxdcK'' @
     ''GmDvG1qwUEfQjAg71ZeFYyHgXa5OpBlmug3z06bs7ssr2XYTuPydK6y4K34UfsgR'' @
     ''KEwMgGP1Ieo8x20lbjXcq0tJG4Q7xgakXs59NwnBeNg2N8R1FgfqD0z9weWgxd7D'' @
     ''dJZkDpbJgdANT31y4KDeDCpJXld6XQOxi99mO2xQdMcH6OUyIfgDP7dPaJU57D33''"

text \<open>A zeroed buffer of the component size with a string copied in, cut at that
  size, and the exclusive or of bytes.\<close>

definition component_buffer :: "string \<Rightarrow> string" where
  "component_buffer s = take componentSize s @ replicate (componentSize - length s) (CHR 0x00)"

definition xor_byte :: "char \<Rightarrow> char \<Rightarrow> char" where
  "xor_byte a b = char_of ((of_char a :: nat) XOR of_char b)"

definition genRootKey :: "key_env \<Rightarrow> string \<Rightarrow> string \<Rightarrow> key_world \<Rightarrow> string go_result" where
  "genRootKey env componentPath saltPath w =
     (case ke_user env of
        None \<Rightarrow> Inl (Panic ''invalid memory address or nil pointer dereference'')
      | Some userStr \<Rightarrow>
          if length userStr = 0 then Inl (Err ''parameter of key is not provided'')
          else
            let componentFromUser = component_buffer userStr
            in (case read_file componentPath w of
                  None \<Rightarrow> Inl (Err ''failed to read random key components from file'')
                | Some componentFromFile \<Rightarrow>
                    (case read_file saltPath w of
                       None \<Rightarrow> Inl (Err ''failed to read random key salt from file'')
                     | Some salt \<Rightarrow>
                         let componentFromHardCode = component_buffer componentContent
                         in if length componentFromFile < componentSize
                            then Inl (Panic ''index out of range'')
                            else
                              let tmpComponent = map (\<lambda>i. xor_byte (xor_byte (componentFromUser ! i)
                                    (componentFromFile ! i)) (componentFromHardCode ! i)) [0..<componentSize]
                              in Inr (ke_pbkdf2 env tmpComponent salt iterationNum keySize))))"

definition decryptKey :: "key_env \<Rightarrow> string \<Rightarrow> string \<Rightarrow> string \<Rightarrow> key_world \<Rightarrow> string go_result" where
  "decryptKey env key encryptedKeyFilePath keyNonceFilePath w =
     (case read_file encryptedKeyFilePath w of
        None \<Rightarrow> Inl (Err ''failed to read encrypted key from file'')
      | Some encryptedKey \<Rightarrow>
          (case read_file keyNonceFilePath w of
             None \<Rightarrow> Inl (Err ''failed to read nonce from file'')
           | Some keyNonce \<Rightarrow>
               (case DecryptByAES256GCM env encryptedKey key keyNonce of
                  Inl (Err _) \<Rightarrow> Inl (Err ''failed to decrypt secret key'')
                | r \<Rightarrow> r)))"

definition GetWorkKey :: "key_env \<Rightarrow> key_world \<Rightarrow> string go_result" where
  "GetWorkKey env w =
     (case genRootKey env componentFilePath saltFilePath w of
        Inl e \<Rightarrow> Inl e
      | Inr rootKey \<Rightarrow> decryptKey env rootKey encryptedWorkKeyFilePath workKeyNonceFilePath w)"

definition isFileOrDirExist :: "string \<Rightarrow> key_world \<Rightarrow> bool" where
  "isFileOrDirExist path w \<longleftrightarrow> read_file path w \<noteq> None"

definition genRandRootKeyComponent :: "key_env \<Rightarrow> string \<Rightarrow> string \<Rightarrow> key_world \<Rightarrow> go_error option \<times> key_world" where
  "genRandRootKeyComponent env componentPath saltPath w =
     (case rand_read env componentSize w of
        (None, w) \<Rightarrow> (Some (Err ''failed to generate random key component''), w)
      | (Some component, w) \<Rightarrow>
          (case rand_read env componentSize w of
             (None, w) \<Rightarrow> (Some (Err ''failed to generate random key salt''), w)
           | (Some salt, w) \<Rightarrow>
               (case write_file env componentPath component w of
                  (ok1, w) \<Rightarrow>
                    (case write_file env saltPath salt w of
                       (ok2, w) \<Rightarrow>
                         if \<not> ok1 \<or> \<not> ok2
                         then (Some (Err ''failed to write random key component and salt to file''), w)
                         else (None, w)))))"

definition genAndSaveWorkKey ::
  "key_env \<Rightarrow> string \<Rightarrow> string \<Rightarrow> string \<Rightarrow> key_world \<Rightarrow> string go_result \<times> key_world" where
  "genAndSaveWorkKey env rootKey keyPath noncePath w =
     (case rand_read env keySize w of
        (None, w) \<Rightarrow> (Inl (Err ''failed to generate random work secret key''), w)
      | (Some workKey, w) \<Rightarrow>
          (case rand_read env NonceSize w of
             (None, w) \<Rightarrow> (Inl (Err ''failed to generate random work key nonce''), w)
           | (Some workKeyNonce, w) \<Rightarrow>
               (case EncryptByAES256GCM env workKey rootKey workKeyNonce of
                  Inl (Err _) \<Rightarrow> (Inl (Err ''failed to encrypt work secret key''), w)
                | Inl e \<Rightarrow> (Inl e, w)
                | Inr encryptedWorkKey \<Rightarrow>
                    (case write_file env keyPath encryptedWorkKey w of
                       (ok1, w) \<Rightarrow>
                         (case write_file env noncePath workKeyNonce w of
                            (ok2, w) \<Rightarrow>
                              if \<not> ok1 \<or> \<not> ok2
                              then (Inl (Err ''failed to write work secret key and nonce to file''), w)
                              else (Inr workKey, w))))))"

definition init_work_key :: "key_env \<Rightarrow> key_world \<Rightarrow> go_error option \<times> key_world" where
  "init_work_key env w =
     (if \<not> isFileOrDirExist encryptedWorkKeyFilePath w \<or> \<not> isFileOrDirExist workKeyNonceFilePath w then
        (case genRootKey env componentFilePath saltFilePath w of
           Inl e \<Rightarrow> (Some e, w)
         | Inr rootKey \<Rightarrow>
             (case genAndSaveWorkKey env rootKey encryptedWorkKeyFilePath workKeyNonceFilePath w of
                (Inl e, w) \<Rightarrow> (Some e, w)
              | (Inr workKey, w) \<Rightarrow> (None, w)))
      else (None, w))"

definition InitRootKeyAndWorkKey :: "key_env \<Rightarrow> key_world \<Rightarrow> go_error option \<times> key_world" where
  "InitRootKeyAndWorkKey env w =
     (if \<not> isFileOrDirExist componentFilePath w \<or> \<not> isFileOrDirExist saltFilePath w then
        (case genRandRootKeyComponent env componentFilePath saltFilePath w of
           (Some e, w) \<Rightarrow> (Some e, w)
         | (None, w) \<Rightarrow> init_work_key env w)
      else init_work_key env w)"

section \<open>The password of the token key\<close>

text \<open>The result, the caller's buffer and the state afterwards.\<close>

definition EncryptAndSaveJwtPwd ::
  "key_env \<Rightarrow> string \<Rightarrow> key_world \<Rightarrow> go_error option \<times> string \<times> key_world" where
  "EncryptAndSaveJwtPwd env pwd w =
     (case validateJwtPassword pwd of
        (pwdIsValid, err) \<Rightarrow>
          if err \<noteq> None \<or> \<not> pwdIsValid then (err, ClearByteArray pwd, w)
          else
            (case rand_read env NonceSize w of
               (None, w) \<Rightarrow> (Some (Err ''failed to generate random jwt private key password nonce''),
                               ClearByteArray pwd, w)
             | (Some pwdNonce, w) \<Rightarrow>
                 (case GetWorkKey env w of
                    Inl (Err m) \<Rightarrow> (Some (Err m), ClearByteArray pwd, w)
                  | Inl e \<Rightarrow> (Some e, pwd, w)
                  | Inr workKey \<Rightarrow>
                      (case EncryptByAES256GCM env pwd workKey pwdNonce of
                         Inl (Err _) \<Rightarrow> (Some (Err ''failed to encrypt jwt private key password''),
                                         ClearByteArray pwd, w)
                       | Inl e \<Rightarrow> (Some e, pwd, w)
                       | Inr encryptedPwd \<Rightarrow>
                           (case write_file env encryptedJwtPrivateKeyPwdFilePath encryptedPwd w of
                              (ok1, w) \<Rightarrow>
                                (case write_file env jwtPrivateKeyPwdNonceFilePath pwdNonce w of
                                   (ok2, w) \<Rightarrow>
                                     (if \<not> ok1 \<or> \<not> ok2
                                      then Some (Err ''failed to write encrypt jwt private key password and nonce to file'')
                                      else None, ClearByteArray pwd, w)))))))"

definition getJwtPrivateKeyPwd :: "key_env \<Rightarrow> key_world \<Rightarrow> string go_result" where
  "getJwtPrivateKeyPwd env w =
     (case GetWorkKey env w of
        Inl e \<Rightarrow> Inl e
      | Inr workKey \<Rightarrow>
          decryptKey env workKey encryptedJwtPrivateKeyPwdFilePath jwtPrivateKeyPwdNonceFilePath w)"

section \<open>What the code relies on of the ciphers\<close>

locale aead =
  fixes env :: key_env
  assumes open_seal: "ke_open env k nonce (ke_seal env k nonce p) = Some p"
    and seal_length: "length (ke_seal env k nonce p) = length p + 16"
    and pbkdf2_length: "length (ke_pbkdf2 env pw salt iter n) = n"
    and random_length: "ke_random env i n = Some r \<Longrightarrow> length r = n"
begin

lemma decrypt_encrypt:
  "EncryptByAES256GCM env p k n = Inr c \<Longrightarrow> DecryptByAES256GCM env c k n = Inr p"
  by (auto simp: EncryptByAES256GCM_def DecryptByAES256GCM_def open_seal split: if_splits)

lemma encrypt_total:
  "length k = keySize \<Longrightarrow> length n = NonceSize \<Longrightarrow> EncryptByAES256GCM env p k n = Inr (ke_seal env k n p)"
  by (simp add: EncryptByAES256GCM_def aes_key_ok_def keySize_def)

lemma genRootKey_length: "genRootKey env cp sp w = Inr k \<Longrightarrow> length k = keySize"
  by (auto simp: genRootKey_def Let_def pbkdf2_length split: option.splits if_splits)

lemma rand_read_length: "rand_read env n w = (Some r, w') \<Longrightarrow> length r = n"
  by (auto simp: rand_read_def dest: random_length)

end

lemma genRootKey_cong:
  "read_file cp w' = read_file cp w \<Longrightarrow> read_file sp w' = read_file sp w \<Longrightarrow>
     genRootKey env cp sp w' = genRootKey env cp sp w"
  unfolding genRootKey_def by (simp only:)

lemma decryptKey_cong:
  "read_file kp w' = read_file kp w \<Longrightarrow> read_file np w' = read_file np w \<Longrightarrow>
     decryptKey env key kp np w' = decryptKey env key kp np w"
  unfolding decryptKey_def by (simp only:)

lemma write_file_cases:
  assumes "write_file env p c w = (ok, w')"
  shows "read_file q w' = (if ok \<and> q = p then Some c else read_file q w)" "kw_reads w' = kw_reads w"
  using assms by (auto simp: write_file_def read_file_def split: if_splits)

lemma rand_read_files: "rand_read env n w = (r, w') \<Longrightarrow> read_file q w' = read_file q w"
  by (auto simp: rand_read_def read_file_def)

lemmas key_paths = componentFilePath_def saltFilePath_def encryptedWorkKeyFilePath_def
  workKeyNonceFilePath_def encryptedJwtPrivateKeyPwdFilePath_def jwtPrivateKeyPwdNonceFilePath_def

lemma key_paths_distinct:
  "distinct [componentFilePath, saltFilePath, encryptedWorkKeyFilePath, workKeyNonceFilePath,
     encryptedJwtPrivateKeyPwdFilePath, jwtPrivateKeyPwdNonceFilePath]"
  by (simp add: key_paths)

text \<open>A reliable environment: the user gave a component, every path can be written
  and the random source answers.\<close>

locale key_host = aead +
  assumes user_given: "\<exists>u. ke_user env = Some u \<and> u \<noteq> []"
    and writable: "ke_writable env p"
    and random_answers: "\<exists>r. ke_random env i n = Some r"
begin

lemma rand_read_ok:
  "\<exists>r. rand_read env n w = (Some r, w\<lparr>kw_reads := Suc (kw_reads w)\<rparr>) \<and> length r = n"
  using random_answers [of "kw_reads w" n] random_length by (auto simp: rand_read_def)

lemma write_ok [simp]: "write_file env p c w = (True, w\<lparr>kw_files := al_put p c (kw_files w)\<rparr>)"
  by (simp add: write_file_def writable)

lemma genRandRootKeyComponent_ok:
  obtains c s w' where "genRandRootKeyComponent env componentFilePath saltFilePath w = (None, w')"
    "length c = componentSize" "kw_files w' = al_put saltFilePath s (al_put componentFilePath c (kw_files w))"
proof -
  obtain c where c: "rand_read env componentSize w = (Some c, w\<lparr>kw_reads := Suc (kw_reads w)\<rparr>)"
      "length c = componentSize"
    using rand_read_ok by blast
  obtain s where "rand_read env componentSize (w\<lparr>kw_reads := Suc (kw_reads w)\<rparr>) =
      (Some s, w\<lparr>kw_reads := Suc (kw_reads w), kw_reads := Suc (Suc (kw_reads w))\<rparr>)"
    using rand_read_ok [of componentSize "w\<lparr>kw_reads := Suc (kw_reads w)\<rparr>"] by auto
  with c show thesis
    by (intro that [of "w\<lparr>kw_reads := Suc (Suc (kw_reads w)), kw_files :=
        al_put saltFilePath s (al_put componentFilePath c (kw_files w))\<rparr>" c s]) (simp_all add: genRandRootKeyComponent_def)
qed

lemma genRootKey_ok:
  assumes "read_file componentFilePath w = Some c" "length c = componentSize"
    and "read_file saltFilePath w = Some s"
  obtains k where "genRootKey env componentFilePath saltFilePath w = Inr k" "length k = keySize"
  using user_given assms by (auto simp: genRootKey_def Let_def pbkdf2_length)

lemma genAndSaveWorkKey_ok:
  assumes "length rootKey = keySize"
  obtains k n w' where "genAndSaveWorkKey env rootKey kp np w = (Inr k, w')" "length k = keySize"
    "length n = NonceSize"
    "kw_files w' = al_put np n (al_put kp (ke_seal env rootKey n k) (kw_files w))"
proof -
  obtain k where k: "rand_read env keySize w = (Some k, w\<lparr>kw_reads := Suc (kw_reads w)\<rparr>)"
      "length k = keySize"
    using rand_read_ok by blast
  obtain n where n: "rand_read env NonceSize (w\<lparr>kw_reads := Suc (kw_reads w)\<rparr>) =
      (Some n, w\<lparr>kw_reads := Suc (kw_reads w), kw_reads := Suc (Suc (kw_reads w))\<rparr>)"
      "length n = NonceSize"
    using rand_read_ok [of NonceSize "w\<lparr>kw_reads := Suc (kw_reads w)\<rparr>"] by auto
  with k show thesis
    by (intro that [of k "w\<lparr>kw_reads := Suc (Suc (kw_reads w)), kw_files :=
        al_put np n (al_put kp (ke_seal env rootKey n k) (kw_files w))\<rparr>" n]) (simp_all add: genAndSaveWorkKey_def encrypt_total assms)
qed

lemma decryptKey_ok:
  assumes "length key = keySize" "length n = NonceSize"
    and "read_file kp w = Some (ke_seal env key n p)" "read_file np w = Some n"
  shows "decryptKey env key kp np w = Inr p"
  using assms by (simp add: decryptKey_def DecryptByAES256GCM_def aes_key_ok_def keySize_def open_seal)

lemma init_fresh:
  assumes "\<not> isFileOrDirExist componentFilePath w" "\<not> isFileOrDirExist encryptedWorkKeyFilePath w"
  obtains k w' where "InitRootKeyAndWorkKey env w = (None, w')" "GetWorkKey env w' = Inr k"
    "length k = keySize" "InitRootKeyAndWorkKey env w' = (None, w')"
proof -
  obtain c s w1 where w1: "genRandRootKeyComponent env componentFilePath saltFilePath w = (None, w1)"
      "length c = componentSize"
      "kw_files w1 = al_put saltFilePath s (al_put componentFilePath c (kw_files w))"
    using genRandRootKeyComponent_ok .
  have r1: "read_file componentFilePath w1 = Some c" "read_file saltFilePath w1 = Some s"
    using key_paths_distinct by (auto simp: read_file_def w1(3))
  obtain root where root: "genRootKey env componentFilePath saltFilePath w1 = Inr root"
      "length root = keySize"
    using genRootKey_ok [OF r1(1) w1(2) r1(2)] .
  obtain k n w2 where w2: "genAndSaveWorkKey env root encryptedWorkKeyFilePath workKeyNonceFilePath w1 =
        (Inr k, w2)" "length k = keySize" "length n = NonceSize"
      "kw_files w2 = al_put workKeyNonceFilePath n
         (al_put encryptedWorkKeyFilePath (ke_seal env root n k) (kw_files w1))"
    using genAndSaveWorkKey_ok [OF root(2)] .
  have r2: "read_file componentFilePath w2 = read_file componentFilePath w1"
      "read_file saltFilePath w2 = read_file saltFilePath w1"
      "read_file encryptedWorkKeyFilePath w2 = Some (ke_seal env root n k)"
      "read_file workKeyNonceFilePath w2 = Some n"
      "read_file encryptedWorkKeyFilePath w1 = read_file encryptedWorkKeyFilePath w"
    using key_paths_distinct by (auto simp: read_file_def w2(4) w1(3))
  have "InitRootKeyAndWorkKey env w = (None, w2)"
    using assms w1(1) root(1) w2(1) r2(5)
    by (simp add: InitRootKeyAndWorkKey_def init_work_key_def isFileOrDirExist_def)
  moreover have "GetWorkKey env w2 = Inr k"
    using genRootKey_cong [OF r2(1,2), of env] root decryptKey_ok [OF root(2) w2(3) r2(3,4)]
    by (simp add: GetWorkKey_def)
  moreover have "InitRootKeyAndWorkKey env w2 = (None, w2)"
    using r1 r2 by (simp add: InitRootKeyAndWorkKey_def init_work_key_def isFileOrDirExist_def)
  ultimately show thesis using that w2(2) by blast
qed

lemma GetWorkKey_cong:
  "(\<And>p. p \<in> {componentFilePath, saltFilePath, encryptedWorkKeyFilePath, workKeyNonceFilePath} \<Longrightarrow>
      read_file p w' = read_file p w) \<Longrightarrow> GetWorkKey env w' = GetWorkKey env w"
  by (simp add: GetWorkKey_def genRootKey_cong [of _ w' w] decryptKey_cong [of _ w' w] split: sum.splits)

lemma save_password:
  assumes "validateJwtPassword pwd = (True, None)" "GetWorkKey env w = Inr k" "length k = keySize"
  obtains w' where "EncryptAndSaveJwtPwd env pwd w = (None, ClearByteArray pwd, w')"
    "getJwtPrivateKeyPwd env w' = Inr pwd" "GetWorkKey env w' = Inr k"
proof -
  define w1 where "w1 = w\<lparr>kw_reads := Suc (kw_reads w)\<rparr>"
  obtain n where n: "rand_read env NonceSize w = (Some n, w1)" "length n = NonceSize"
    using rand_read_ok unfolding w1_def by blast
  have k1: "GetWorkKey env w1 = Inr k"
    using GetWorkKey_cong [of w1 w] assms(2) by (simp add: read_file_def w1_def)
  define w2 where "w2 = w1\<lparr>kw_files := al_put jwtPrivateKeyPwdNonceFilePath n
    (al_put encryptedJwtPrivateKeyPwdFilePath (ke_seal env k n pwd) (kw_files w1))\<rparr>"
  have "EncryptAndSaveJwtPwd env pwd w = (None, ClearByteArray pwd, w2)"
    using assms n k1 by (simp add: EncryptAndSaveJwtPwd_def encrypt_total w2_def)
  moreover have k2: "GetWorkKey env w2 = Inr k"
  proof -
    have "GetWorkKey env w2 = GetWorkKey env w1"
      by (rule GetWorkKey_cong) (use key_paths_distinct in \<open>auto simp: read_file_def w2_def\<close>)
    with k1 show ?thesis by simp
  qed
  moreover have "getJwtPrivateKeyPwd env w2 = Inr pwd"
    using k2 decryptKey_ok [OF assms(3) n(2), of encryptedJwtPrivateKeyPwdFilePath w2 pwd
        jwtPrivateKeyPwdNonceFilePath] key_paths_distinct
    by (auto simp: getJwtPrivateKeyPwd_def read_file_def w2_def)
  ultimately show thesis using that by blast
qed

end

text \<open>A concrete host: sealing appends the start of the key as a tag, opening compares and
  strips it, the key derivation cuts its inputs, and the random source counts.\<close>

definition key_tag :: "string \<Rightarrow> string" where
  "key_tag k = take 16 (k @ replicate 16 (CHR 0x00))"

definition plain_host :: key_env where
  "plain_host = \<lparr>ke_seal = (\<lambda>k n p. p @ key_tag k),
     ke_open = (\<lambda>k n c. if drop (length c - 16) c = key_tag k then Some (take (length c - 16) c) else None),
     ke_pbkdf2 = (\<lambda>pw salt iter n. take n (salt @ pw @ replicate n (CHR 0x00))),
     ke_random = (\<lambda>i n. Some (replicate n (char_of (i mod 256)))),
     ke_writable = (\<lambda>p. True), ke_user = Some ''user component''\<rparr>"

interpretation plain: key_host plain_host
  by unfold_locales (auto simp: plain_host_def key_tag_def)

section \<open>Properties\<close>

lemma two_of_count:
  "((if P \<and> Q then if (if b then 0 else n) < (2 :: nat) then (False, Some x) else (True, None)
     else (False, Some y)) = (True, None)) \<longleftrightarrow> P \<and> Q \<and> \<not> b \<and> 2 \<le> n"
  by auto

text \<open>The two password checks (of the token key and of the database) are the same
  function, written twice: a password is accepted exactly when it has 8 to 16 bytes, no
  newline, and characters of at least two of the four classes.\<close>

theorem password_checks_agree:
  "validateJwtPassword p = validatePassword p \<and>
   ValidateDbParams p = validatePassword p \<and>
   (validatePassword p = (True, None) \<longleftrightarrow>
      8 \<le> length p \<and> length p \<le> 16 \<and> CHR 0x0A \<notin> set p \<and>
      2 \<le> length (filter (\<lambda>cls. \<exists>c\<in>set p. cls c)
             [char_between 48 57, char_between 97 122, char_between 65 90, \<lambda>c. c \<in> set special_chars])) \<and>
   (fst (validatePassword p) \<longleftrightarrow> snd (validatePassword p) = None)"
proof (intro conjI)
  show "validateJwtPassword p = validatePassword p"
    by (simp add: validateJwtPassword_def validatePassword_def validateLength_def validateRegex_def
      getPasswordValidCount_def)
  show "ValidateDbParams p = validatePassword p"
    by (auto simp: ValidateDbParams_def validatePassword_def Let_def)
  show "fst (validatePassword p) \<longleftrightarrow> snd (validatePassword p) = None"
    by (auto simp: validatePassword_def Let_def)
  have cls: "match_class cls p \<longleftrightarrow> CHR 0x0A \<notin> set p \<and> (\<exists>c\<in>set p. cls c)" for cls
    by (auto simp: match_class_def list_all_iff list_ex_iff)
  have count: "getPasswordValidCount p = (if CHR 0x0A \<in> set p then 0
      else length (filter (\<lambda>cls. \<exists>c\<in>set p. cls c)
        [char_between 48 57, char_between 97 122, char_between 65 90, \<lambda>c. c \<in> set special_chars]))"
    by (simp add: getPasswordValidCount_def Let_def cls singleDigitRegex_def
      lowerCaseRegex_def upperCaseRegex_def specialCharRegex_def)
  show "validatePassword p = (True, None) \<longleftrightarrow>
      8 \<le> length p \<and> length p \<le> 16 \<and> CHR 0x0A \<notin> set p \<and>
      2 \<le> length (filter (\<lambda>cls. \<exists>c\<in>set p. cls c)
             [char_between 48 57, char_between 97 122, char_between 65 90, \<lambda>c. c \<in> set special_chars])"
    unfolding validatePassword_def count Let_def minPasswordSize_def maxPasswordSize_def maxPasswordCount_def
    by (rule two_of_count)
qed

text \<open>(C20) On a reliable host without key files, the initialisation succeeds, the work key can
  be read back and has the size of an AES-256 key, a second initialisation changes nothing,
  and an accepted password that is saved under the work key is read back while the caller's
  buffer is zeroed.\<close>

theorem keys_established:
  assumes "key_host env" "\<not> isFileOrDirExist componentFilePath w"
    and "\<not> isFileOrDirExist encryptedWorkKeyFilePath w"
    and "validateJwtPassword pwd = (True, None)"
  shows "\<exists>w1 k w2. InitRootKeyAndWorkKey env w = (None, w1) \<and> GetWorkKey env w1 = Inr k \<and>
    length k = keySize \<and> InitRootKeyAndWorkKey env w1 = (None, w1) \<and>
    EncryptAndSaveJwtPwd env pwd w1 = (None, replicate (length pwd) (CHR 0x00), w2) \<and>
    getJwtPrivateKeyPwd env w2 = Inr pwd \<and> GetWorkKey env w2 = Inr k"
proof -
  obtain k w1 where w1: "InitRootKeyAndWorkKey env w = (None, w1)" "GetWorkKey env w1 = Inr k"
      "length k = keySize" "InitRootKeyAndWorkKey env w1 = (None, w1)"
    using key_host.init_fresh [OF assms(1-3)] .
  obtain w2 where "EncryptAndSaveJwtPwd env pwd w1 = (None, ClearByteArray pwd, w2)"
      "getJwtPrivateKeyPwd env w2 = Inr pwd" "GetWorkKey env w2 = Inr k"
    using key_host.save_password [OF assms(1,4) w1(2,3)] .
  with w1 show ?thesis by (auto simp: ClearByteArray_def map_replicate_const)
qed

definition no_files :: key_world where "no_files = \<lparr>kw_files = [], kw_reads = 0\<rparr>"

theorem keys_established_witness:
  "\<exists>w1 k w2. InitRootKeyAndWorkKey plain_host no_files = (None, w1) \<and> GetWorkKey plain_host w1 = Inr k \<and>
    length k = keySize \<and> InitRootKeyAndWorkKey plain_host w1 = (None, w1) \<and>
    EncryptAndSaveJwtPwd plain_host ''Passw0rd'' w1 = (None, replicate (length ''Passw0rd'') (CHR 0x00), w2) \<and>
    getJwtPrivateKeyPwd plain_host w2 = Inr ''Passw0rd'' \<and> GetWorkKey plain_host w2 = Inr k"
proof -
  have fresh: "\<not> isFileOrDirExist p no_files" for p
    by (simp add: isFileOrDirExist_def read_file_def no_files_def)
  have valid: "validateJwtPassword ''Passw0rd'' = (True, None)" by code_simp
  show ?thesis
    by (rule keys_established [OF plain.key_host_axioms fresh fresh valid])
qed

text \<open>When a file of the root key is lost, the next initialisation reports success with
  new components but keeps the old encrypted work key, which the new root key no longer
  opens: from then on no work key can be read.\<close>

theorem lost_component_loses_work_key:
  assumes "ke_open env root2 n (ke_seal env root n k) = None"
    and "genRootKey env componentFilePath saltFilePath w = Inr root"
    and "read_file encryptedWorkKeyFilePath w = Some (ke_seal env root n k)"
    and "read_file workKeyNonceFilePath w = Some n" "length n = NonceSize"
    and "w1 = w\<lparr>kw_files := al_del componentFilePath (kw_files w)\<rparr>"
    and "InitRootKeyAndWorkKey env w1 = (None, w2)"
    and "genRootKey env componentFilePath saltFilePath w2 = Inr root2" "length root2 = keySize"
  shows "GetWorkKey env w2 = Inl (Err ''failed to decrypt secret key'')"
proof -
  have r1: "read_file componentFilePath w1 = None" and
    keep1: "p \<noteq> componentFilePath \<Longrightarrow> read_file p w1 = read_file p w" for p
    by (auto simp: assms(6) read_file_def)
  from assms(7) r1 obtain w3 where w3:
      "genRandRootKeyComponent env componentFilePath saltFilePath w1 = (None, w3)" "init_work_key env w3 = (None, w2)"
    by (auto simp: InitRootKeyAndWorkKey_def isFileOrDirExist_def split: prod.splits option.splits)
  have keep3: "read_file p w3 = read_file p w1" if "p \<noteq> componentFilePath" "p \<noteq> saltFilePath" for p
    using w3(1) that
    by (auto simp: genRandRootKeyComponent_def rand_read_def write_file_def read_file_def
      split: option.splits if_splits)
  have f: "read_file encryptedWorkKeyFilePath w3 = Some (ke_seal env root n k)"
      "read_file workKeyNonceFilePath w3 = Some n"
    using keep1 keep3 assms(3,4) key_paths_distinct by auto
  then have "w2 = w3" using w3(2) by (simp add: init_work_key_def isFileOrDirExist_def)
  with f assms(1,5,8,9) show ?thesis
    by (simp add: GetWorkKey_def decryptKey_def DecryptByAES256GCM_def aes_key_ok_def keySize_def)
qed

text \<open>The files after a first initialisation of the concrete host, and those after the
  initialisation that follows the loss of the component.\<close>

definition key_files :: "string \<Rightarrow> string \<Rightarrow> (string \<times> string) list" where
  "key_files component salt =
     [(saltFilePath, salt),
      (encryptedWorkKeyFilePath, replicate 32 (CHR 0x02) @ replicate 16 (CHR 0x01)),
      (workKeyNonceFilePath, replicate 12 (CHR 0x03)), (componentFilePath, component)]"

definition first_world :: key_world where
  "first_world = \<lparr>kw_files = key_files (replicate componentSize (CHR 0x00)) (replicate componentSize (CHR 0x01)),
     kw_reads = 4\<rparr>"

definition lost_world :: key_world where
  "lost_world = \<lparr>kw_files = key_files (replicate componentSize (CHR 0x04)) (replicate componentSize (CHR 0x05)),
     kw_reads = 6\<rparr>"

lemma plain_root:
  assumes "kw_files w = key_files (replicate componentSize a) (replicate componentSize b)"
  shows "genRootKey plain_host componentFilePath saltFilePath w = Inr (replicate keySize b)"
proof -
  have "min keySize componentSize = keySize" by (simp add: keySize_def componentSize_def)
  then show ?thesis
    using key_paths_distinct assms
    by (auto simp: genRootKey_def read_file_def key_files_def plain_host_def)
qed

lemma count_bytes: "char_of (4 :: nat) = CHR 0x04" "char_of (5 :: nat) = CHR 0x05"
  by code_simp+

lemma plain_lost:
  "InitRootKeyAndWorkKey plain_host
     (first_world\<lparr>kw_files := al_del componentFilePath (kw_files first_world)\<rparr>) = (None, lost_world)"
  using key_paths_distinct
  by (auto simp: InitRootKeyAndWorkKey_def isFileOrDirExist_def read_file_def first_world_def
    key_files_def al_del_def genRandRootKeyComponent_def rand_read_def write_file_def
    init_work_key_def lost_world_def plain_host_def count_bytes)

theorem lost_component_loses_work_key_witness:
  "GetWorkKey plain_host lost_world = Inl (Err ''failed to decrypt secret key'')"
proof -
  have root: "genRootKey plain_host componentFilePath saltFilePath first_world = Inr (replicate keySize (CHR 0x01))"
      "genRootKey plain_host componentFilePath saltFilePath lost_world = Inr (replicate keySize (CHR 0x05))"
    by (rule plain_root; simp add: first_world_def lost_world_def)+
  have files: "read_file encryptedWorkKeyFilePath first_world =
        Some (ke_seal plain_host (replicate keySize (CHR 0x01)) (replicate 12 (CHR 0x03)) (replicate 32 (CHR 0x02)))"
      "read_file workKeyNonceFilePath first_world = Some (replicate 12 (CHR 0x03))"
    using key_paths_distinct
    by (auto simp: read_file_def first_world_def key_files_def plain_host_def keySize_def key_tag_def)
  have other: "ke_open plain_host (replicate keySize (CHR 0x05)) (replicate 12 (CHR 0x03))
      (ke_seal plain_host (replicate keySize (CHR 0x01)) (replicate 12 (CHR 0x03)) (replicate 32 (CHR 0x02))) = None"
    by (simp add: plain_host_def keySize_def key_tag_def)
  show ?thesis
    by (rule lost_component_loses_work_key [OF other root(1) files _ refl plain_lost root(2)])
      (simp_all add: NonceSize_def keySize_def)
qed

end
