(* ===== verification/Mep_Start.thy ===== *)
theory Mep_Start
  imports Auth_Keys
begin

text \<open>
  The start-up of mepserver (\<open>mepserver/main.go\<close>), its own copy of the key management
  (\<open>common/util/meputil.go\<close>), its password check (\<open>common/util/validation.go\<close>) and the
  decryption of the certificate password for the registry's TLS plugin (\<open>common/tls/tls.go\<close>).
  The ciphers, the random source and the files are the ones of \<open>Auth_Keys\<close>; the state adds the
  environment variables of the process.
\<close>

section \<open>Passwords\<close>

text \<open>In this copy of the pattern the hyphen of \<open>()-_=\<close> is not escaped: the class has every
  character from the closing parenthesis to the underscore.\<close>

definition special_mp :: "char \<Rightarrow> bool" where
  "special_mp c \<longleftrightarrow> c \<in> set ([CHR 0x27] @ ''~!@#$%^&*('') \<or> char_between 0x29 0x5F c \<or> c \<in> set ''=+|[{}];:\",<.>/?'' \<or> c = CHR 0x27"

definition specialCharRegex_mp :: "string \<Rightarrow> bool" where
  "specialCharRegex_mp = match_class special_mp"

definition pwdLengthMin :: nat where "pwdLengthMin = 8"
definition pwdLengthMax :: nat where "pwdLengthMax = 16"
definition pwdCount :: nat where "pwdCount = 2"

definition ValidateValLenPswd :: "string \<Rightarrow> bool \<times> go_error option" where
  "ValidateValLenPswd password =
     (let n = 0;
          n = (if singleDigitRegex password then n + 1 else n);
          n = (if lowerCaseRegex password then n + 1 else n);
          n = (if upperCaseRegex password then n + 1 else n);
          n = (if specialCharRegex_mp password then n + 1 else n)
      in if n < pwdCount then (False, Some (Err password_types_msg)) else (True, None))"

definition ValidatePassword :: "string \<Rightarrow> bool \<times> go_error option" where
  "ValidatePassword password =
     (if length password \<ge> pwdLengthMin \<and> length password \<le> pwdLengthMax then ValidateValLenPswd password
      else (False, Some (Err password_length_msg)))"

section \<open>Keys\<close>

definition EncryptedCertSecFilePath :: string where "EncryptedCertSecFilePath = ''ssl/cert_pwd''"
definition CertSecNonceFilePath :: string where "CertSecNonceFilePath = ''ssl/cert_pwd_nonce''"

definition ValidateKeyComponentUserInput_mp :: "string \<Rightarrow> go_error option" where
  "ValidateKeyComponentUserInput_mp keyComponentUserStr =
     (if length keyComponentUserStr < componentSize
      then Some (Err ''key component user string length is not valid'') else None)"

definition EncryptByAES256GCM_mp :: "key_env \<Rightarrow> string \<Rightarrow> string \<Rightarrow> string \<Rightarrow> string go_result" where
  "EncryptByAES256GCM_mp env plaintext key nonce =
     (if \<not> aes_key_ok key then Inl (Err (''crypto/aes: invalid key size '' @ itoa (length key)))
      else if length nonce \<noteq> NonceSize then Inl (Panic ''crypto/cipher: incorrect nonce length given to GCM'')
      else Inr (ke_seal env key nonce plaintext))"

definition DecryptByAES256GCM_mp :: "key_env \<Rightarrow> string \<Rightarrow> string \<Rightarrow> string \<Rightarrow> string go_result" where
  "DecryptByAES256GCM_mp env ciphertext key nonce =
     (if \<not> aes_key_ok key then Inl (Err (''crypto/aes: invalid key size '' @ itoa (length key)))
      else if length nonce \<noteq> NonceSize then Inl (Panic ''crypto/cipher: incorrect nonce length given to GCM'')
      else (case ke_open env key nonce ciphertext of
              None \<Rightarrow> Inl (Err ''cipher: message authentication failed'')
            | Some plaintext \<Rightarrow> Inr plaintext))"

definition genRootKey_mp :: "key_env \<Rightarrow> string \<Rightarrow> string \<Rightarrow> key_world \<Rightarrow> string go_result" where
  "genRootKey_mp env componentPath saltPath w =
     (case ke_user env of
        None \<Rightarrow> Inl (Panic ''invalid memory address or nil pointer dereference'')
      | Some userStr \<Rightarrow>
          if length userStr = 0 then Inl (Err ''key component length not valid'')
          else
            let componentFromUser = component_buffer userStr
            in (case read_file componentPath w of
                  None \<Rightarrow> Inl (Err ''failed to read random key components from file'')
                | Some componentFromFile \<Rightarrow>
                    (case read_file saltPath w of
                       None \<Rightarrow> Inl (Err ''failed to read random key salt from file'')
                     | Some salt \<Rightarrow>
                         let componentFromHardCode = component_buffer componentContent
                         in if length componentFromFile < componentSize
                            then Inl (Panic ''index out of range'')
                            else
                              let tmpComponent = map (\<lambda>i. xor_byte (xor_byte (componentFromUser ! i)
                                    (componentFromFile ! i)) (componentFromHardCode ! i)) [0..<componentSize]
                              in Inr (ke_pbkdf2 env tmpComponent salt iterationNum keySize))))"

definition decryptKey_mp :: "key_env \<Rightarrow> string \<Rightarrow> string \<Rightarrow> string \<Rightarrow> key_world \<Rightarrow> string go_result" where
  "decryptKey_mp env key encryptedKeyFilePath keyNonceFilePath w =
     (case read_file encryptedKeyFilePath w of
        None \<Rightarrow> Inl (Err ''failed to read encrypted key from file'')
      | Some encryptedKey \<Rightarrow>
          (case read_file keyNonceFilePath w of
             None \<Rightarrow> Inl (Err ''failed to read nonce from file'')
           | Some keyNonce \<Rightarrow>
               (case DecryptByAES256GCM_mp env encryptedKey key keyNonce of
                  Inl (Err m) \<Rightarrow> Inl (Err ''failed to decrypt secret key'')
                | r \<Rightarrow> r)))"

definition GetWorkKey_mp :: "key_env \<Rightarrow> key_world \<Rightarrow> string go_result" where
  "GetWorkKey_mp env w =
     (case genRootKey_mp env componentFilePath saltFilePath w of
        Inl e \<Rightarrow> Inl e
      | Inr rootKey \<Rightarrow> decryptKey_mp env rootKey encryptedWorkKeyFilePath workKeyNonceFilePath w)"

definition IsFileOrDirExist :: "string \<Rightarrow> key_world \<Rightarrow> bool" where
  "IsFileOrDirExist path w \<longleftrightarrow> read_file path w \<noteq> None"

definition genRandRootKeyComponent_mp ::
  "key_env \<Rightarrow> string \<Rightarrow> string \<Rightarrow> key_world \<Rightarrow> go_error option \<times> key_world" where
  "genRandRootKeyComponent_mp env componentPath saltPath w =
     (case rand_read env componentSize w of
        (None, w) \<Rightarrow> (Some (Err ''failed to generate random key component''), w)
      | (Some component, w) \<Rightarrow>
          (case rand_read env componentSize w of
             (None, w) \<Rightarrow> (Some (Err ''failed to generate random key salt''), w)
           | (Some salt, w) \<Rightarrow>
               (case write_file env componentPath component w of
                  (ok1, w) \<Rightarrow>
                    (case write_file env saltPath salt w of
                       (ok2, w) \<Rightarrow>
                         if \<not> ok1 \<or> \<not> ok2
                         then (Some (Err ''failed to write random key component and salt to file''), w)
                         else (None, w)))))"

definition genAndSaveWorkKey_mp ::
  "key_env \<Rightarrow> string \<Rightarrow> string \<Rightarrow> string \<Rightarrow> key_world \<Rightarrow> string go_result \<times> key_world" where
  "genAndSaveWorkKey_mp env rootKey keyPath noncePath w =
     (case rand_read env keySize w of
        (None, w) \<Rightarrow> (Inl (Err ''failed to generate random work secret key''), w)
      | (Some workKey, w) \<Rightarrow>
          (case rand_read env NonceSize w of
             (None, w) \<Rightarrow> (Inl (Err ''failed to generate random work key nonce''), w)
           | (Some workKeyNonce, w) \<Rightarrow>
               (case EncryptByAES256GCM_mp env workKey rootKey workKeyNonce of
                  Inl (Err m) \<Rightarrow> (Inl (Err ''failed to encrypt work secret key''), w)
                | Inl e \<Rightarrow> (Inl e, w)
                | Inr encryptedWorkKey \<Rightarrow>
                    (case write_file env keyPath encryptedWorkKey w of
                       (ok1, w) \<Rightarrow>
                         (case write_file env noncePath workKeyNonce w of
                            (ok2, w) \<Rightarrow>
                              if \<not> ok1 \<or> \<not> ok2
                              then (Inl (Err ''failed to write work secret key and nonce to file''), w)
                              else (Inr workKey, w))))))"

definition InitRootKeyAndWorkKey_mp :: "key_env \<Rightarrow> key_world \<Rightarrow> go_error option \<times> key_world" where
  "InitRootKeyAndWorkKey_mp env w =
     (case (if \<not> IsFileOrDirExist componentFilePath w \<or> \<not> IsFileOrDirExist saltFilePath w
            then genRandRootKeyComponent_mp env componentFilePath saltFilePath w else (None, w)) of
        (Some e, w) \<Rightarrow> (Some e, w)
      | (None, w) \<Rightarrow>
          if \<not> IsFileOrDirExist encryptedWorkKeyFilePath w \<or> \<not> IsFileOrDirExist workKeyNonceFilePath w then
            (case genRootKey_mp env componentFilePath saltFilePath w of
               Inl e \<Rightarrow> (Some e, w)
             | Inr rootKey \<Rightarrow>
                 (case genAndSaveWorkKey_mp env rootKey encryptedWorkKeyFilePath workKeyNonceFilePath w of
                    (Inl e, w) \<Rightarrow> (Some e, w)
                  | (Inr workKey, w) \<Rightarrow> (None, w)))
          else (None, w))"

definition EncryptAndSaveCertPwd :: "key_env \<Rightarrow> string \<Rightarrow> key_world \<Rightarrow> go_error option \<times> key_world" where
  "EncryptAndSaveCertPwd env certPwd w =
     (case rand_read env NonceSize w of
        (None, w) \<Rightarrow> (Some (Err ''failed to generate random cert password nonce''), w)
      | (Some certPwdNonce, w) \<Rightarrow>
          (case GetWorkKey_mp env w of
             Inl e \<Rightarrow> (Some e, w)
           | Inr workKey \<Rightarrow>
               (case EncryptByAES256GCM_mp env certPwd workKey certPwdNonce of
                  Inl (Err m) \<Rightarrow> (Some (Err ''failed to encrypt cert password''), w)
                | Inl e \<Rightarrow> (Some e, w)
                | Inr encryptedCertPwd \<Rightarrow>
                    (case write_file env EncryptedCertSecFilePath encryptedCertPwd w of
                       (ok1, w) \<Rightarrow>
                         (case write_file env CertSecNonceFilePath certPwdNonce w of
                            (ok2, w) \<Rightarrow>
                              if \<not> ok1 \<or> \<not> ok2
                              then (Some (Err ''failed to write encrypt cert password and nonce to file''), w)
                              else (None, w))))))"

definition GetCertPwd :: "key_env \<Rightarrow> key_world \<Rightarrow> string go_result" where
  "GetCertPwd env w =
     (case GetWorkKey_mp env w of
        Inl e \<Rightarrow> Inl e
      | Inr workKey \<Rightarrow> decryptKey_mp env workKey EncryptedCertSecFilePath CertSecNonceFilePath w)"

text \<open>The cipher plugin: without another plugin it answers the text itself; decryption ignores its
  argument.\<close>

definition MepServerTLS_Encrypt :: "(string \<Rightarrow> string go_result) option \<Rightarrow> string \<Rightarrow> string go_result" where
  "MepServerTLS_Encrypt df src = (case df of Some f \<Rightarrow> f src | None \<Rightarrow> Inr src)"

definition MepServerTLS_Decrypt :: "key_env \<Rightarrow> string \<Rightarrow> key_world \<Rightarrow> string \<times> go_error option" where
  "MepServerTLS_Decrypt env src w = (case GetCertPwd env w of Inl e \<Rightarrow> (src, Some e) | Inr certPwd \<Rightarrow> (certPwd, None))"

section \<open>The main program\<close>

record mep_state =
  ms_vars :: "(string \<times> string) list"
  ms_keys :: key_world

definition getenv :: "string \<Rightarrow> mep_state \<Rightarrow> string" where
  "getenv k st = (case map_of (ms_vars st) k of None \<Rightarrow> [] | Some v \<Rightarrow> v)"

definition unsetenv :: "string \<Rightarrow> mep_state \<Rightarrow> mep_state" where
  "unsetenv k st = st\<lparr>ms_vars := al_del k (ms_vars st)\<rparr>"

definition rootKey :: string where "rootKey = ''ROOT_KEY''"
definition tlsKey :: string where "tlsKey = ''TLS_KEY''"

text \<open>The component of the user is a global of the process: it is passed on with the environment of the
  keys.\<close>

definition initialEncryptComponent :: "key_env \<Rightarrow> mep_state \<Rightarrow> go_error option \<times> key_env \<times> mep_state" where
  "initialEncryptComponent env st =
     (let keyComponentFromUser = getenv rootKey st in
      if length keyComponentFromUser = 0
      then (Some (Err ''root key is not present inside environment variable''), env, st)
      else
        let st = unsetenv rootKey st in
        (case ValidateKeyComponentUserInput_mp keyComponentFromUser of
           Some e \<Rightarrow> (Some e, env, st)
         | None \<Rightarrow>
             let env = env\<lparr>ke_user := Some keyComponentFromUser\<rparr> in
             (case InitRootKeyAndWorkKey_mp env (ms_keys st) of
                (err, w) \<Rightarrow> (err, env, st\<lparr>ms_keys := w\<rparr>))))"

definition encryptCertPwd :: "key_env \<Rightarrow> mep_state \<Rightarrow> go_error option \<times> mep_state" where
  "encryptCertPwd env st =
     (let pwd = getenv tlsKey st in
      if length pwd = 0 then (Some (Err ''tls password is not set in environment variable''), st)
      else
        let st = unsetenv tlsKey st in
        (case snd (ValidatePassword pwd) of
           Some e \<Rightarrow> (Some e, st)
         | None \<Rightarrow> (case EncryptAndSaveCertPwd env pwd (ms_keys st) of (err, w) \<Rightarrow> (err, st\<lparr>ms_keys := w\<rparr>))))"

text \<open>The program returns, ends in a panic, or runs the server.  The start of the heartbeat
  process (\<open>Heartbeat\<close>) and the making of the gateway interface from the configuration
  leave the keys and files as they are and are not part of the model.\<close>

datatype mep_end = MepReturned | MepCrashed string | MepServing

definition mep_ended :: "go_error \<Rightarrow> mep_end" where
  "mep_ended e = (case e of Panic m \<Rightarrow> MepCrashed m | _ \<Rightarrow> MepReturned)"

definition mepserver_main :: "key_env \<Rightarrow> mep_state \<Rightarrow> mep_end \<times> key_env \<times> mep_state" where
  "mepserver_main env st =
     (case initialEncryptComponent env st of
        (Some e, env, st) \<Rightarrow> (mep_ended e, env, st)
      | (None, env, st) \<Rightarrow>
          if \<not> IsFileOrDirExist EncryptedCertSecFilePath (ms_keys st)
          then (case encryptCertPwd env st of
                  (Some e, st) \<Rightarrow> (mep_ended e, env, st)
                | (None, st) \<Rightarrow> (MepServing, env, st))
          else (MepServing, env, st))"

section \<open>The two key managements agree\<close>

lemma same_ciphers:
  "EncryptByAES256GCM_mp = EncryptByAES256GCM" "DecryptByAES256GCM_mp = DecryptByAES256GCM"
  "decryptKey_mp = decryptKey" "genRandRootKeyComponent_mp = genRandRootKeyComponent"
  "genAndSaveWorkKey_mp = genAndSaveWorkKey" "IsFileOrDirExist = isFileOrDirExist"
proof -
  show e: "EncryptByAES256GCM_mp = EncryptByAES256GCM"
    by (intro ext) (simp add: EncryptByAES256GCM_mp_def EncryptByAES256GCM_def)
  show d: "DecryptByAES256GCM_mp = DecryptByAES256GCM"
    by (intro ext) (simp add: DecryptByAES256GCM_mp_def DecryptByAES256GCM_def)
  show "decryptKey_mp = decryptKey" unfolding decryptKey_mp_def [abs_def] decryptKey_def [abs_def] d by (rule refl)
  show "genRandRootKeyComponent_mp = genRandRootKeyComponent"
    by (intro ext) (simp add: genRandRootKeyComponent_mp_def genRandRootKeyComponent_def)
  show "genAndSaveWorkKey_mp = genAndSaveWorkKey"
    unfolding genAndSaveWorkKey_mp_def [abs_def] genAndSaveWorkKey_def [abs_def] e by (rule refl)
  show "IsFileOrDirExist = isFileOrDirExist"
    by (intro ext) (simp add: IsFileOrDirExist_def isFileOrDirExist_def)
qed

text \<open>They differ in the message for an empty component only.\<close>

lemma same_root_key:
  "ke_user env \<noteq> Some [] \<Longrightarrow> genRootKey_mp env = genRootKey env"
  by (intro ext) (auto simp: genRootKey_mp_def genRootKey_def split: option.splits)

lemma same_work_key:
  assumes "ke_user env \<noteq> Some []"
  shows "GetWorkKey_mp env w = GetWorkKey env w"
  unfolding GetWorkKey_mp_def GetWorkKey_def same_ciphers same_root_key [OF assms] by (rule refl)

lemma same_init: "ke_user env \<noteq> Some [] \<Longrightarrow> InitRootKeyAndWorkKey_mp env w = InitRootKeyAndWorkKey env w"
  unfolding InitRootKeyAndWorkKey_mp_def InitRootKeyAndWorkKey_def init_work_key_def same_ciphers
  by (cases "isFileOrDirExist componentFilePath w \<and> isFileOrDirExist saltFilePath w")
    (auto simp: same_root_key split: prod.splits option.splits)

text \<open>But not in the passwords they take: digits alone are two kinds of characters to mepserver.\<close>

lemma digits_are_special:
  assumes "8 \<le> length p" "length p \<le> 16" "\<forall>c \<in> set p. char_between 48 57 c"
  shows "ValidatePassword p = (True, None)" "fst (validateJwtPassword p) = False"
proof -
  have no: "c \<noteq> CHR 0x0A" "\<not> char_between 97 122 c" "\<not> char_between 65 90 c" "char_between 0x29 0x5F c"
    "c \<notin> set special_chars" if "char_between 48 57 c" for c
    using that by (auto simp: char_between_def special_chars_def)
  have "p \<noteq> []" using assms(1) by auto
  then have "singleDigitRegex p" "specialCharRegex_mp p" "\<not> lowerCaseRegex p" "\<not> upperCaseRegex p"
      "\<not> specialCharRegex p"
    using assms(3) no
    by (cases p; auto simp: singleDigitRegex_def specialCharRegex_mp_def lowerCaseRegex_def upperCaseRegex_def
        specialCharRegex_def match_class_def list_all_iff list_ex_iff special_mp_def)+
  then show "ValidatePassword p = (True, None)" "fst (validateJwtPassword p) = False"
    using assms(1,2)
    by (simp_all add: ValidatePassword_def ValidateValLenPswd_def pwdLengthMin_def pwdLengthMax_def pwdCount_def
        validateJwtPassword_def validateLength_def minPasswordSize_def maxPasswordSize_def validateRegex_def
        maxPasswordCount_def)
qed

section \<open>The certificate password\<close>

definition key_set :: "key_world \<Rightarrow> bool" where
  "key_set w \<longleftrightarrow> (\<forall>p \<in> {componentFilePath, saltFilePath, encryptedWorkKeyFilePath, workKeyNonceFilePath}.
     read_file p w \<noteq> None)"

lemma write_keeps: "write_file env p c w = (ok, w') \<Longrightarrow> read_file q w \<noteq> None \<Longrightarrow> read_file q w' \<noteq> None"
  using write_file_cases(1) [of env p c w ok w' q] by auto

lemma init_key_set:
  assumes "InitRootKeyAndWorkKey_mp env w = (None, w')"
  shows "key_set w'"
proof -
  have rand: "genRandRootKeyComponent_mp env componentFilePath saltFilePath w = (None, w1) \<Longrightarrow>
      read_file componentFilePath w1 \<noteq> None \<and> read_file saltFilePath w1 \<noteq> None" for w1
    using key_paths_distinct
    by (auto simp: genRandRootKeyComponent_mp_def write_file_def read_file_def split: prod.splits option.splits if_splits)
  have work: "genAndSaveWorkKey_mp env k encryptedWorkKeyFilePath workKeyNonceFilePath w1 = (Inr key, w2) \<Longrightarrow>
      read_file componentFilePath w1 \<noteq> None \<and> read_file saltFilePath w1 \<noteq> None \<Longrightarrow> key_set w2" for k w1 key w2
    using key_paths_distinct
    by (auto simp: genAndSaveWorkKey_mp_def write_file_def read_file_def rand_read_def key_set_def
        split: prod.splits option.splits sum.splits go_error.splits if_splits)
  show ?thesis
    using assms rand work
    by (auto simp: InitRootKeyAndWorkKey_mp_def IsFileOrDirExist_def key_set_def
        split: prod.splits option.splits sum.splits if_splits)
qed

lemma init_key_set_again: "key_set w \<Longrightarrow> InitRootKeyAndWorkKey_mp env w = (None, w)"
  by (auto simp: InitRootKeyAndWorkKey_mp_def IsFileOrDirExist_def key_set_def)

lemma work_key_mp_cong:
  assumes "\<And>p. p \<in> {componentFilePath, saltFilePath, encryptedWorkKeyFilePath, workKeyNonceFilePath} \<Longrightarrow>
    read_file p w' = read_file p w"
  shows "GetWorkKey_mp env w' = GetWorkKey_mp env w"
proof -
  have "read_file componentFilePath w' = read_file componentFilePath w"
      "read_file saltFilePath w' = read_file saltFilePath w"
    by (rule assms, simp)+
  then have "genRootKey_mp env componentFilePath saltFilePath w' = genRootKey_mp env componentFilePath saltFilePath w"
    unfolding genRootKey_mp_def by (simp only:)
  moreover have "decryptKey env k encryptedWorkKeyFilePath workKeyNonceFilePath w' =
      decryptKey env k encryptedWorkKeyFilePath workKeyNonceFilePath w" for k
    using assms by (intro decryptKey_cong) simp_all
  ultimately show ?thesis unfolding GetWorkKey_mp_def same_ciphers by (simp only:)
qed

lemma cert_paths:
  "EncryptedCertSecFilePath \<notin> {componentFilePath, saltFilePath, encryptedWorkKeyFilePath, workKeyNonceFilePath}"
  "CertSecNonceFilePath \<notin> {componentFilePath, saltFilePath, encryptedWorkKeyFilePath, workKeyNonceFilePath}"
  "EncryptedCertSecFilePath \<noteq> CertSecNonceFilePath"
  by (simp_all add: EncryptedCertSecFilePath_def CertSecNonceFilePath_def key_paths)

lemma saved_cert:
  assumes cipher: "aead env" and saved: "EncryptAndSaveCertPwd env pwd w = (None, w')"
  shows "GetCertPwd env w' = Inr pwd" "key_set w \<Longrightarrow> key_set w'" "IsFileOrDirExist EncryptedCertSecFilePath w'"
proof -
  obtain n w1 where r: "rand_read env NonceSize w = (Some n, w1)"
    using saved by (auto simp: EncryptAndSaveCertPwd_def split: prod.splits option.splits)
  obtain k where k: "GetWorkKey_mp env w1 = Inr k"
    using saved r by (cases "GetWorkKey_mp env w1") (auto simp: EncryptAndSaveCertPwd_def)
  have e: "EncryptByAES256GCM env pwd k n = Inr (ke_seal env k n pwd)"
    using saved r k by (auto simp: EncryptAndSaveCertPwd_def same_ciphers EncryptByAES256GCM_def split: if_splits)
  obtain ok1 w2 where w2: "write_file env EncryptedCertSecFilePath (ke_seal env k n pwd) w1 = (ok1, w2)" by fastforce
  obtain ok2 w3 where w3: "write_file env CertSecNonceFilePath n w2 = (ok2, w3)" by fastforce
  have ok: "ok1" "ok2" "w3 = w'"
    using saved r k e w2 w3 by (auto simp: EncryptAndSaveCertPwd_def same_ciphers split: if_splits)
  have files: "read_file q w' = (if q = CertSecNonceFilePath then Some n
      else if q = EncryptedCertSecFilePath then Some (ke_seal env k n pwd) else read_file q w1)" for q
    using write_file_cases(1) [OF w3, of q] write_file_cases(1) [OF w2, of q] ok by simp
  have "GetWorkKey_mp env w' = GetWorkKey_mp env w1"
    by (rule work_key_mp_cong) (use files cert_paths in auto)
  moreover have "DecryptByAES256GCM env (ke_seal env k n pwd) k n = Inr pwd"
    by (rule aead.decrypt_encrypt [OF cipher e])
  ultimately show "GetCertPwd env w' = Inr pwd"
    using k files cert_paths(3) by (simp add: GetCertPwd_def same_ciphers decryptKey_def)
  show "key_set w'" if "key_set w"
    using that rand_read_files [OF r] by (auto simp: key_set_def files)
  show "IsFileOrDirExist EncryptedCertSecFilePath w'" by (simp add: IsFileOrDirExist_def files)
qed

lemma init_other:
  assumes "InitRootKeyAndWorkKey_mp env w = (r, w')"
    and "q \<notin> {componentFilePath, saltFilePath, encryptedWorkKeyFilePath, workKeyNonceFilePath}"
  shows "read_file q w' = read_file q w"
  using assms
  by (auto simp: InitRootKeyAndWorkKey_mp_def genRandRootKeyComponent_mp_def genAndSaveWorkKey_mp_def
      write_file_def rand_read_def read_file_def
      split: prod.splits option.splits sum.splits go_error.splits if_splits)

lemma user_cipher: "aead env \<Longrightarrow> aead (env\<lparr>ke_user := u\<rparr>)"
  unfolding aead_def by simp

lemma getenv_unset: "getenv k (unsetenv k' st) = (if k = k' then [] else getenv k st)"
  by (simp add: getenv_def unsetenv_def)

lemma variables_of_keys [simp]: "getenv k (st\<lparr>ms_keys := w\<rparr>) = getenv k st"
  by (simp add: getenv_def)

lemma keys_of_variables [simp]: "ms_keys (unsetenv k st) = ms_keys st"
  by (simp add: unsetenv_def)

lemma component_given:
  assumes "initialEncryptComponent env st = (None, env1, st1)"
  obtains w where "env1 = env\<lparr>ke_user := Some (getenv rootKey st)\<rparr>" "getenv rootKey st \<noteq> []"
    "ValidateKeyComponentUserInput_mp (getenv rootKey st) = None"
    "InitRootKeyAndWorkKey_mp env1 (ms_keys st) = (None, w)" "st1 = (unsetenv rootKey st)\<lparr>ms_keys := w\<rparr>"
  using assms
  by (auto simp: initialEncryptComponent_def Let_def split: option.splits prod.splits if_splits)

text \<open>(C21) When mepserver first reaches its serving loop, the password of its certificate is the one it was given,
  whatever text it is asked to decrypt, and no secret is left in its environment. Started again with the same root
  key, and without the password, it serves with the same files and the same password.\<close>

theorem certificate_password_kept:
  assumes cipher: "aead env" and main: "mepserver_main env st = (MepServing, env1, st1)"
    and first: "\<not> IsFileOrDirExist EncryptedCertSecFilePath (ms_keys st)"
    and again: "getenv rootKey st2 = getenv rootKey st" "ms_keys st2 = ms_keys st1"
  shows "MepServerTLS_Decrypt env1 src (ms_keys st1) = (getenv tlsKey st, None) \<and>
    getenv rootKey st1 = [] \<and> getenv tlsKey st1 = [] \<and>
    mepserver_main env st2 = (MepServing, env1, unsetenv rootKey st2)"
proof -
  obtain st0 where init: "initialEncryptComponent env st = (None, env1, st0)"
    and rest: "(if \<not> IsFileOrDirExist EncryptedCertSecFilePath (ms_keys st0)
       then (case encryptCertPwd env1 st0 of (Some e, st) \<Rightarrow> (mep_ended e, env1, st)
             | (None, st) \<Rightarrow> (MepServing, env1, st))
       else (MepServing, env1, st0)) = (MepServing, env1, st1)"
    using main
    by (auto simp: mepserver_main_def mep_ended_def split: prod.splits option.splits go_error.splits if_splits)
  obtain w where w: "env1 = env\<lparr>ke_user := Some (getenv rootKey st)\<rparr>" "getenv rootKey st \<noteq> []"
      "ValidateKeyComponentUserInput_mp (getenv rootKey st) = None"
      "InitRootKeyAndWorkKey_mp env1 (ms_keys st) = (None, w)" "st0 = (unsetenv rootKey st)\<lparr>ms_keys := w\<rparr>"
    using component_given [OF init] .
  have "\<not> IsFileOrDirExist EncryptedCertSecFilePath (ms_keys st0)"
    using first init_other [OF w(4) cert_paths(1)] w(5) by (simp add: IsFileOrDirExist_def)
  then have enc: "encryptCertPwd env1 st0 = (None, st1)"
    using rest by (auto simp: mep_ended_def split: prod.splits option.splits go_error.splits)
  have vars: "rootKey \<noteq> tlsKey" by (simp add: rootKey_def tlsKey_def)
  have tls: "getenv tlsKey st0 = getenv tlsKey st" using vars by (simp add: w(5) getenv_unset)
  obtain w' where saved: "EncryptAndSaveCertPwd env1 (getenv tlsKey st) w = (None, w')"
      "st1 = (unsetenv tlsKey st0)\<lparr>ms_keys := w'\<rparr>"
    using enc tls w(5) by (auto simp: encryptCertPwd_def Let_def split: option.splits prod.splits if_splits)
  have cipher1: "aead env1" unfolding w(1) by (rule user_cipher [OF cipher])
  note cert = saved_cert [OF cipher1 saved(1)]
  have keys: "key_set w'" by (rule cert(2) [OF init_key_set [OF w(4)]])
  have "MepServerTLS_Decrypt env1 src (ms_keys st1) = (getenv tlsKey st, None)"
    by (simp add: MepServerTLS_Decrypt_def saved(2) cert(1))
  moreover have "getenv rootKey st1 = []" "getenv tlsKey st1 = []"
    using vars by (simp_all add: saved(2) w(5) getenv_unset)
  moreover have "initialEncryptComponent env st2 = (None, env1, unsetenv rootKey st2)"
    using w(1-3) again init_key_set_again [OF keys, of env1]
    by (simp add: initialEncryptComponent_def Let_def saved(2))
  then have "mepserver_main env st2 = (MepServing, env1, unsetenv rootKey st2)"
    using cert(3) again(2) by (simp add: mepserver_main_def saved(2))
  ultimately show ?thesis by blast
qed

definition given_component :: string where
  "given_component = replicate 256 (CHR ''c'')"

definition first_start :: mep_state where
  "first_start = \<lparr>ms_vars = [(''ROOT_KEY'', given_component), (''TLS_KEY'', ''Passw0rd'')], ms_keys = no_files\<rparr>"

interpretation given: key_host "plain_host\<lparr>ke_user := Some given_component\<rparr>"
  by unfold_locales (auto simp: plain_host_def key_tag_def given_component_def)

lemma first_vars: "getenv rootKey first_start = given_component" "getenv tlsKey first_start = ''Passw0rd''"
  by (simp_all add: getenv_def first_start_def rootKey_def tlsKey_def)

lemma first_serves: "\<exists>env1 st1. mepserver_main plain_host first_start = (MepServing, env1, st1)"
proof -
  let ?env = "plain_host\<lparr>ke_user := Some given_component\<rparr>"
  have user: "ke_user ?env \<noteq> Some []" by (simp add: given_component_def)
  have "\<not> isFileOrDirExist componentFilePath no_files" "\<not> isFileOrDirExist encryptedWorkKeyFilePath no_files"
    by (simp_all add: isFileOrDirExist_def read_file_def no_files_def)
  then obtain k w where w: "InitRootKeyAndWorkKey ?env no_files = (None, w)" "GetWorkKey ?env w = Inr k"
      "length k = keySize"
    using given.init_fresh by metis
  have "ValidateKeyComponentUserInput_mp given_component = None"
    by (simp add: ValidateKeyComponentUserInput_mp_def given_component_def componentSize_def)
  then have init: "initialEncryptComponent plain_host first_start =
      (None, ?env, (unsetenv rootKey first_start)\<lparr>ms_keys := w\<rparr>)"
    using w(1) same_init [OF user] user
    by (simp add: initialEncryptComponent_def first_vars Let_def) (simp add: first_start_def)
  obtain n where n: "rand_read ?env NonceSize w = (Some n, w\<lparr>kw_reads := Suc (kw_reads w)\<rparr>)" "length n = NonceSize"
    using given.rand_read_ok by blast
  have "GetWorkKey ?env (w\<lparr>kw_reads := Suc (kw_reads w)\<rparr>) = Inr k"
    using given.GetWorkKey_cong [of "w\<lparr>kw_reads := Suc (kw_reads w)\<rparr>" w] w(2) by (simp add: read_file_def)
  then obtain w' where saved: "EncryptAndSaveCertPwd ?env ''Passw0rd'' w = (None, w')"
    using n w(3) same_work_key [OF user]
    by (simp add: EncryptAndSaveCertPwd_def same_ciphers given.encrypt_total)
  have "ValidatePassword ''Passw0rd'' = (True, None)" by code_simp
  moreover have "rootKey \<noteq> tlsKey" by (simp add: rootKey_def tlsKey_def)
  ultimately show ?thesis
    using saved by (simp add: mepserver_main_def init encryptCertPwd_def getenv_unset first_vars Let_def)
qed

theorem certificate_password_kept_witness:
  "\<exists>env1 st1. mepserver_main plain_host first_start = (MepServing, env1, st1) \<and>
    MepServerTLS_Decrypt env1 ''cipher'' (ms_keys st1) = (''Passw0rd'', None) \<and>
    fst (mepserver_main plain_host \<lparr>ms_vars = [(''ROOT_KEY'', given_component)], ms_keys = ms_keys st1\<rparr>) = MepServing"
proof -
  obtain env1 st1 where main: "mepserver_main plain_host first_start = (MepServing, env1, st1)"
    using first_serves by blast
  have "\<not> IsFileOrDirExist EncryptedCertSecFilePath (ms_keys first_start)"
    by (simp add: IsFileOrDirExist_def read_file_def first_start_def no_files_def)
  moreover have "getenv rootKey \<lparr>ms_vars = [(''ROOT_KEY'', given_component)], ms_keys = ms_keys st1\<rparr> =
      getenv rootKey first_start"
    unfolding first_vars by (simp add: getenv_def rootKey_def)
  ultimately show ?thesis
    using certificate_password_kept [OF plain.aead_axioms main] main by (auto simp: first_vars)
qed

end
