(* ===== verification/Mep_Queries.thy ===== *)
theory Mep_Queries
  imports Svc_Discover
begin

text \<open>
  The remaining queries of mepserver: the time of the NTP server (\<open>extif/ntp/client.go\<close>,
  \<open>mp1/plans/timing_*\<close>), the transports (\<open>mp1/plans/transport_all_get.go\<close>), the
  address of the gateway adapter (\<open>hook/hook.go\<close>), and what the handlers use of
  \<open>common/util\<close>: requests to other services, TLS configuration, and the patterns of the
  validator.
\<close>

section \<open>Time\<close>

text \<open>What the code reads of an answer of the NTP library: seconds and nanoseconds, and the
  stratum of the server.\<close>

record ntp_response =
  nr_Unix :: int
  nr_Nanosecond :: int
  nr_Stratum :: nat

record NtpCurrentTime =
  nt_Seconds :: int
  nt_NanoSeconds :: int
  nt_TimeSourceStatus :: string

definition NtpConnectionErr :: int where "NtpConnectionErr = 21"
definition NtpHost :: string where "NtpHost = ''mep-ntp''"
definition Traceable :: string where "Traceable = ''TRACEABLE''"
definition NonTraceable :: string where "NonTraceable = ''NONTRACEABLE''"
definition MinPoll :: int where "MinPoll = 4"
definition MaxPoll :: int where "MaxPoll = 17"
definition NtpDnsName :: string where "NtpDnsName = ''DNS_NAME''"
definition NtpAuthType :: string where "NtpAuthType = ''NONE''"

definition GetTimeStamp :: "(string \<Rightarrow> 'w \<Rightarrow> ntp_response option \<times> 'w) \<Rightarrow> 'w \<Rightarrow> (int + NtpCurrentTime) \<times> 'w" where
  "GetTimeStamp ntpQuery w =
     (case ntpQuery NtpHost w of
        (None, w) \<Rightarrow> (Inl NtpConnectionErr, w)
      | (Some ntpRsp, w) \<Rightarrow>
          (Inr \<lparr>nt_Seconds = nr_Unix ntpRsp, nt_NanoSeconds = nr_Nanosecond ntpRsp,
             nt_TimeSourceStatus = (if nr_Stratum ntpRsp \<ge> 1 \<and> nr_Stratum ntpRsp \<le> 15 then Traceable else NonTraceable)\<rparr>, w))"

record CurrentTime =
  ct_Seconds :: int
  ct_NanoSeconds :: int
  ct_TimeSourceStatus :: string

definition CurrentTimeGet_OnRequest where
  "CurrentTimeGet_OnRequest ntpQuery w =
     (case GetTimeStamp ntpQuery w of
        (Inl errCode, w) \<Rightarrow> (PlanErr errCode ''Current time get failed'', w)
      | (Inr t, w) \<Rightarrow>
          (PlanOk \<lparr>ct_Seconds = nt_Seconds t, ct_NanoSeconds = nt_NanoSeconds t,
             ct_TimeSourceStatus = nt_TimeSourceStatus t\<rparr>, w))"

record NtpTimeStamp =
  ns_Seconds :: int
  ns_NanoSeconds :: int

record NtpServers =
  ns_NtpServerAddrType :: string
  ns_NtpServerAddr :: string
  ns_MinPollingInterval :: int
  ns_MaxPollingInterval :: int
  ns_LocalPriority :: int
  ns_AuthenticationOption :: string
  ns_AuthenticationKeyNum :: int

record TimingCaps =
  tc_TimeStamp :: NtpTimeStamp
  tc_NtpServers :: "NtpServers list"

definition GetNtpServer :: "TimingCaps \<Rightarrow> TimingCaps" where
  "GetNtpServer tc = tc\<lparr>tc_NtpServers :=
     [\<lparr>ns_NtpServerAddrType = NtpDnsName, ns_NtpServerAddr = NtpHost, ns_MinPollingInterval = MinPoll,
       ns_MaxPollingInterval = MaxPoll, ns_LocalPriority = 1, ns_AuthenticationOption = NtpAuthType,
       ns_AuthenticationKeyNum = 0\<rparr>]\<rparr>"

definition TimingCaps_OnRequest where
  "TimingCaps_OnRequest ntpQuery w =
     (case GetTimeStamp ntpQuery w of
        (Inl errCode, w) \<Rightarrow> (PlanErr errCode ''Timing caps get failed'', w)
      | (Inr t, w) \<Rightarrow>
          (PlanOk (GetNtpServer \<lparr>tc_TimeStamp = \<lparr>ns_Seconds = nt_Seconds t, ns_NanoSeconds = nt_NanoSeconds t\<rparr>,
             tc_NtpServers = []\<rparr>), w))"

definition getCurrentTime where "getCurrentTime ntpQuery w = CurrentTimeGet_OnRequest ntpQuery w"
definition getTimingCaps where "getTimingCaps ntpQuery w = TimingCaps_OnRequest ntpQuery w"

section \<open>Transports\<close>

definition TransportInfoPath :: string where "TransportInfoPath = DBRootPath @ ''transports/''"
definition TransportName :: string where "TransportName = ''REST''"
definition TransportDescription :: string where "TransportDescription = ''REST API''"
definition TransportTransType :: string where "TransportTransType = ''REST_HTTP''"
definition TransportProtocol :: string where "TransportProtocol = ''HTTP''"
definition TransportVersion :: string where "TransportVersion = ''2.0''"
definition TransportGrantTypes :: string where "TransportGrantTypes = ''OAUTH2_CLIENT_CREDENTIALS''"
definition TransportTokenEndpoint :: string where "TransportTokenEndpoint = ''/mep/token''"

text \<open>The platform: the registry, new identifiers, and the JSON form of a transport, which is kept
  as text.\<close>

record 'w transport_env =
  te_registry :: "'w registry"
  te_uuid :: "'w \<Rightarrow> string \<times> 'w"
  te_marshal :: "TransportInfo \<Rightarrow> string"
  te_unmarshal :: "string \<Rightarrow> TransportInfo option"
  te_order :: "(string \<times> doc) list \<Rightarrow> (string \<times> doc) list"

definition rest_transport :: "string \<Rightarrow> TransportInfo" where
  "rest_transport uuid =
     \<lparr>ti_ID = uuid, ti_Name = TransportName, ti_Description = TransportDescription,
      ti_TransType = TransportTransType, ti_Protocol = TransportProtocol, ti_Version = TransportVersion,
      ti_Endpoint = \<lparr>ep_Uris = [], ep_Addresses = [], ep_Alternative = None\<rparr>,
      ti_Security = \<lparr>oa_GrantTypes = [TransportGrantTypes], oa_TokenEndpoint = TransportTokenEndpoint\<rparr>\<rparr>"

definition getTransportInfo :: "'w transport_env \<Rightarrow> 'w \<Rightarrow> TransportInfo list \<times> 'w" where
  "getTransportInfo E w = (case te_uuid E w of (uuid, w) \<Rightarrow> ([rest_transport uuid], w))"

definition addTransportInfoToDb :: "'w transport_env \<Rightarrow> TransportInfo \<Rightarrow> 'w \<Rightarrow> int \<times> 'w" where
  "addTransportInfoToDb E tpInfo w =
     (case PutRecord (te_registry E) (TransportInfoPath @ ti_ID tpInfo) (DocRaw (te_marshal E tpInfo)) w of
        (resultErr, w) \<Rightarrow> (if resultErr \<noteq> 0 then 1 else 0, w))"

fun addTransports :: "'w transport_env \<Rightarrow> TransportInfo list \<Rightarrow> 'w \<Rightarrow> int \<times> 'w" where
  "addTransports E [] w = (0, w)"
| "addTransports E (t # ts) w =
     (case addTransportInfoToDb E t w of (ret, w) \<Rightarrow> if ret \<noteq> 0 then (ret, w) else addTransports E ts w)"

definition decode_transport :: "'w transport_env \<Rightarrow> doc \<Rightarrow> TransportInfo option" where
  "decode_transport E d = (case d of DocRaw s \<Rightarrow> te_unmarshal E s | _ \<Rightarrow> None)"

fun decodeTransports :: "'w transport_env \<Rightarrow> (string \<times> doc) list \<Rightarrow> int + TransportInfo list" where
  "decodeTransports E [] = Inr []"
| "decodeTransports E ((k, d) # kvs) =
     (case decode_transport E d of
        None \<Rightarrow> Inl ParseInfoErr
      | Some t \<Rightarrow> (case decodeTransports E kvs of Inl e \<Rightarrow> Inl e | Inr ts \<Rightarrow> Inr (t # ts)))"

definition GetTransportsInfo :: "'w transport_env \<Rightarrow> 'w \<Rightarrow> (int + TransportInfo list) \<times> 'w" where
  "GetTransportsInfo E w =
     (case GetRecords (te_registry E) TransportInfoPath w of
        (Inl err, w) \<Rightarrow> (Inl err, w)
      | (Inr respLists, w) \<Rightarrow>
          if length respLists \<noteq> 0 then (decodeTransports E (te_order E respLists), w)
          else (case getTransportInfo E w of
                  (tpInfos, w) \<Rightarrow>
                    (case addTransports E tpInfos w of
                       (ret, w) \<Rightarrow> if ret \<noteq> 0 then (Inl ret, w) else (Inr tpInfos, w))))"

definition Transports_OnRequest :: "'w transport_env \<Rightarrow> 'w \<Rightarrow> TransportInfo list plan_out \<times> 'w" where
  "Transports_OnRequest E w =
     (case GetTransportsInfo E w of
        (Inl err, w) \<Rightarrow> (PlanErr err ''Get transport info failed'', w)
      | (Inr ts, w) \<Rightarrow> (PlanOk ts, w))"

definition getTransports where "getTransports E w = Transports_OnRequest E w"

text \<open>What is relied upon: the contract of the registry, identifiers that leave it alone, and a JSON
  form that is read back for the transport that the code writes.\<close>

locale transport_store = etcd "te_registry E" kv
  for E :: "'w transport_env" and kv :: "'w \<Rightarrow> string \<Rightarrow> doc option" +
  assumes uuid_kv: "kv (snd (te_uuid E w)) = kv w"
    and codec: "te_unmarshal E (te_marshal E (rest_transport i)) = Some (rest_transport i)"
    and order: "reordering (te_order E)"
begin

lemma single_record:
  assumes "\<And>k. has_prefix k p \<Longrightarrow> kv w k = (if k = q then Some d else None)" "has_prefix q p"
    and "GetRecords (te_registry E) p w = (Inr rs, w')"
  shows "map snd rs = [d]" "kv w' = kv w"
proof -
  obtain kvs where g: "reg_get (te_registry E) p w = (Inr kvs, w')"
      and rs: "rs = fold (\<lambda>(k, v). al_put (file_base k) v) kvs []"
    using assms(3) by (auto simp: GetRecords_def split: prod.splits sum.splits)
  from get_ok [OF g] have k: "kv w' = kv w" "set kvs = {(q, d)}" "distinct (map fst kvs)"
    using assms(1,2) by (auto split: if_splits)
  then have "kvs = [(q, d)]"
    by (cases kvs; cases "tl kvs") (auto simp: insert_eq_iff subset_singleton_iff)
  then show "map snd rs = [d]" by (simp add: rs)
  show "kv w' = kv w" by (rule k(1))
qed

end

text \<open>The transports are created once: the first query that is answered stores the transport it answers,
  and every later query answers that transport, with the same identifier, or that the registry failed, and
  changes nothing.\<close>

theorem transports_stable:
  assumes store: "transport_store E kv" and empty: "\<And>k. has_prefix k TransportInfoPath \<Longrightarrow> kv w k = None"
    and first: "getTransports E w = (PlanOk ts, w1)"
  shows "\<exists>t. ts = [t] \<and> kv w1 = (kv w)(TransportInfoPath @ ti_ID t \<mapsto> DocRaw (te_marshal E t)) \<and>
    (\<forall>r w2. getTransports E w1 = (r, w2) \<longrightarrow> kv w2 = kv w1 \<and>
       (r = PlanOk [t] \<or> r = PlanErr OperateDataWithEtcdErr ''Get transport info failed''))"
proof -
  let ?R = "te_registry E"
  have R: "etcd ?R kv" using store by (simp add: transport_store_def)
  obtain rs wa where rs: "GetRecords ?R TransportInfoPath w = (Inr rs, wa)"
    using first by (auto simp: getTransports_def Transports_OnRequest_def GetTransportsInfo_def
        split: prod.splits sum.splits)
  have none: "rs = []" using etcd.GetRecords_nonempty [OF R rs] empty by metis
  have kva: "kv wa = kv w" by (rule etcd.GetRecords_kv [OF R rs])
  obtain uuid wb where u: "te_uuid E wa = (uuid, wb)" by fastforce
  have kvb: "kv wb = kv w" using transport_store.uuid_kv [OF store, of wa] u kva by simp
  define t where "t = rest_transport uuid"
  have info: "getTransportInfo E wa = ([t], wb)" by (simp add: getTransportInfo_def u t_def)
  have put: "PutRecord ?R (TransportInfoPath @ ti_ID t) (DocRaw (te_marshal E t)) wb = (0, w1)" and ts: "ts = [t]"
    using first rs none info
    by (auto simp: getTransports_def Transports_OnRequest_def GetTransportsInfo_def addTransportInfoToDb_def
        split: prod.splits if_splits)
  have kv1: "kv w1 = (kv w)(TransportInfoPath @ ti_ID t \<mapsto> DocRaw (te_marshal E t))"
    using etcd.PutRecord_ok [OF R put] kvb by simp
  have later: "kv w2 = kv w1 \<and> (r = PlanOk [t] \<or> r = PlanErr OperateDataWithEtcdErr ''Get transport info failed'')"
    if q: "getTransports E w1 = (r, w2)" for r w2
  proof (cases "GetRecords ?R TransportInfoPath w1")
    case (Pair res wc)
    show ?thesis
    proof (cases res)
      case (Inl e)
      then have "e = OperateDataWithEtcdErr"
        using Pair by (auto simp: GetRecords_def split: prod.splits sum.splits)
      then show ?thesis
        using q Pair Inl etcd.GetRecords_kv [OF R Pair]
        by (auto simp: getTransports_def Transports_OnRequest_def GetTransportsInfo_def)
    next
      case (Inr rs1)
      have one: "map snd rs1 = [DocRaw (te_marshal E t)]" "kv wc = kv w1"
        using transport_store.single_record [OF store, of TransportInfoPath w1 "TransportInfoPath @ ti_ID t"
            "DocRaw (te_marshal E t)" rs1 wc] empty Pair Inr by (simp_all add: kv1)
      then obtain k where k: "rs1 = [(k, DocRaw (te_marshal E t))]" by (cases rs1) auto
      then have "te_order E rs1 = rs1"
        using reordering_mset [OF transport_store.order [OF store], of rs1] by simp
      then have "decodeTransports E (te_order E rs1) = Inr [t]"
        using transport_store.codec [OF store, of uuid] by (simp add: k decode_transport_def t_def)
      then show ?thesis
        using q Pair Inr one(2) k by (simp add: getTransports_def Transports_OnRequest_def GetTransportsInfo_def)
    qed
  qed
  show ?thesis using ts kv1 later by blast
qed

section \<open>A registry in memory\<close>

record transport_world = mem_world +
  tw_next :: nat

text \<open>The form of a transport is its identifier: the rest is fixed.\<close>

definition mem_transports :: "transport_world transport_env" where
  "mem_transports = \<lparr>te_registry = mem_registry True,
     te_uuid = (\<lambda>w. (itoa (tw_next w), w\<lparr>tw_next := Suc (tw_next w)\<rparr>)),
     te_marshal = ti_ID, te_unmarshal = (\<lambda>s. Some (rest_transport s)), te_order = rev\<rparr>"

interpretation mem_transports: transport_store mem_transports "\<lambda>w. map_of (mw_kv w)"
proof (rule transport_store.intro)
  show "etcd (te_registry mem_transports) (\<lambda>w. map_of (mw_kv w))"
    unfolding mem_transports_def by simp (rule mem_etcd.etcd_axioms)
qed (unfold_locales, simp_all add: mem_transports_def rest_transport_def)

definition no_transports :: transport_world where
  "no_transports = \<lparr>mw_kv = [], mw_faults = [], tw_next = 7\<rparr>"

theorem transports_stable_witness:
  "\<exists>t w1. getTransports mem_transports no_transports = (PlanOk [t], w1) \<and>
     (\<forall>r w2. getTransports mem_transports w1 = (r, w2) \<longrightarrow>
        r = PlanOk [t] \<or> r = PlanErr OperateDataWithEtcdErr ''Get transport info failed'')"
proof -
  have "\<exists>ts w1. getTransports mem_transports no_transports = (PlanOk ts, w1)"
    by (simp add: getTransports_def Transports_OnRequest_def GetTransportsInfo_def GetRecords_def PutRecord_def
        getTransportInfo_def addTransportInfoToDb_def mem_transports_def mem_registry_def mem_fault_def
        no_transports_def)
  then obtain ts w1 where first: "getTransports mem_transports no_transports = (PlanOk ts, w1)" by blast
  have "map_of (mw_kv no_transports) k = None" for k by (simp add: no_transports_def)
  from transports_stable [OF mem_transports.transport_store_axioms this first] first show ?thesis by blast
qed

section \<open>The address of the gateway adapter\<close>

text \<open>The endpoint that the hook answers, and its refresh from the service centre.\<close>

definition replaceAPIGwAddr :: "EndPointInfo \<Rightarrow> EndPointInfo" where
  "replaceAPIGwAddr gEndPoint = gEndPoint"

definition refreshAPIGwAddr ::
  "'w service_center \<Rightarrow> svc_codec \<Rightarrow> EndPointInfo \<Rightarrow> 'w \<Rightarrow> EndPointInfo \<times> 'w" where
  "refreshAPIGwAddr SC C gEndPoint w =
     (case sc_find SC ''default'' ''GatewayAdapter'' ''latest'' w of
        (Inl err, w) \<Rightarrow> (gEndPoint, w)
      | (Inr resp, w) \<Rightarrow>
          (case snd (Mp1CvtSrvDiscover C resp) of
             [] \<Rightarrow> (gEndPoint, w)
           | s # ss \<Rightarrow> (ti_Endpoint (si_TransportInfo s), w)))"

section \<open>Requests to other services\<close>

record rest_request =
  rr_Method :: string
  rr_Url :: string
  rr_Headers :: "(string \<times> string) list"
  rr_Body :: "string option"

definition PostMethod :: string where "PostMethod = ''POST''"
definition PutMethod :: string where "PutMethod = ''PUT''"
definition DeleteMethod :: string where "DeleteMethod = ''DELETE''"
definition GetMethod :: string where "GetMethod = ''GET''"

text \<open>An address of an interface: whether it is a loopback, and its IPv4 text if it has one.\<close>

fun GetLocalIP :: "(bool \<times> string option) list go_result \<Rightarrow> string" where
  "GetLocalIP (Inl e) = []"
| "GetLocalIP (Inr []) = []"
| "GetLocalIP (Inr ((loopback, v4) # addrs)) =
     (case (loopback, v4) of (False, Some ip) \<Rightarrow> ip | _ \<Rightarrow> GetLocalIP (Inr addrs))"

definition generateReq :: "string \<Rightarrow> string \<Rightarrow> string \<Rightarrow> string \<Rightarrow> rest_request" where
  "generateReq localIp url method jsonStr =
     (let ip = (''X-Real-Ip'', localIp); ct = (''Content-Type'', ''application/json; charset=utf-8'') in
      if method = PostMethod \<or> method = PutMethod
      then \<lparr>rr_Method = method, rr_Url = url, rr_Headers = [ct, ip], rr_Body = Some jsonStr\<rparr>
      else \<lparr>rr_Method = (if method = DeleteMethod then DeleteMethod else GetMethod), rr_Url = url, rr_Headers = [ip],
            rr_Body = None\<rparr>)"

text \<open>The client answers an error or a status with its text and a body that may fail to be read.\<close>

record rest_response =
  rp_StatusCode :: nat
  rp_Status :: string
  rp_Body :: "string go_result"

record 'w rest_client =
  rc_interfaces :: "(bool \<times> string option) list go_result"
  rc_send :: "rest_request \<Rightarrow> 'w \<Rightarrow> rest_response go_result \<times> 'w"

definition SendRequest :: "'w rest_client \<Rightarrow> string \<Rightarrow> string \<Rightarrow> string \<Rightarrow> 'w \<Rightarrow> string go_result \<times> 'w" where
  "SendRequest R url method jsonStr w =
     (case rc_send R (generateReq (GetLocalIP (rc_interfaces R)) url method jsonStr) w of
        (Inl e, w) \<Rightarrow> (Inl e, w)
      | (Inr res, w) \<Rightarrow> (rp_Body res, w))"

text \<open>An error of the client comes without a response, whose status is read for the log.  A status other
  than 200 and 201 is no error: its text is answered like a body.\<close>

definition SendRequestRes :: "'w rest_client \<Rightarrow> string \<Rightarrow> string \<Rightarrow> string \<Rightarrow> 'w \<Rightarrow> string go_result \<times> 'w" where
  "SendRequestRes R url method jsonStr w =
     (case rc_send R (generateReq (GetLocalIP (rc_interfaces R)) url method jsonStr) w of
        (Inl e, w) \<Rightarrow> (Inl (Panic ''invalid memory address or nil pointer dereference''), w)
      | (Inr resp, w) \<Rightarrow>
          if rp_StatusCode resp \<noteq> 200 \<and> rp_StatusCode resp \<noteq> 201 then (Inr (rp_Status resp), w)
          else (rp_Body resp, w))"

definition SendPostRequest_mp where "SendPostRequest_mp R url jsonStr = SendRequest R url PostMethod jsonStr"
definition SendPutRequest_mp where "SendPutRequest_mp R url jsonStr = SendRequest R url PutMethod jsonStr"
definition SendDelRequest where "SendDelRequest R url = SendRequest R url DeleteMethod []"
definition SendGetRequest where "SendGetRequest R url = SendRequest R url GetMethod []"

section \<open>TLS configuration\<close>

record tls_host =
  tl_read :: "string \<Rightarrow> string go_result"
  tl_cert_pool :: "string \<Rightarrow> bool"

definition validateServerName_mp :: "string \<Rightarrow> bool \<times> go_error option" where
  "validateServerName_mp serverName =
     (if length serverName > maxHostNameLen then (False, Some (Err ''server or host name validation failed''))
      else (list_all domain_label (split_on (CHR ''.'') serverName), None))"

definition cipherSuites_mp :: "string list" where
  "cipherSuites_mp = [''TLS_ECDHE_RSA_WITH_AES_128_GCM_SHA256'', ''TLS_ECDHE_RSA_WITH_AES_256_GCM_SHA384'']"

fun add_suites :: "string list \<Rightarrow> string list \<Rightarrow> string list option" where
  "add_suites [] arr = (if length arr > 0 then Some arr else None)"
| "add_suites (n # ns) arr =
     (let cipherName = trim_space n in
      if length cipherName = 0 then add_suites ns arr
      else if cipherName \<in> set cipherSuites_mp then add_suites ns (arr @ [cipherName])
      else None)"

definition getCipherSuites_mp :: "string \<Rightarrow> string list option" where
  "getCipherSuites_mp sslCiphers = add_suites (split_on (CHR '','') sslCiphers) []"

text \<open>The server name and the suites; an invalid name gives neither a configuration nor an error.\<close>

definition TLSConfig_mp ::
  "'w svc_host \<Rightarrow> tls_host \<Rightarrow> string \<Rightarrow> 'w \<Rightarrow> (string \<times> string list) option go_result \<times> 'w" where
  "TLSConfig_mp H T crtName w =
     (case GetAppConfig H w of
        (Inl e, w) \<Rightarrow> (Inl e, w)
      | (Inr appConfig, w) \<Rightarrow>
          ((let certNameConfig = get_prop appConfig crtName in
            if length certNameConfig = 0 then Inl (Err ''cert name configuration is not set'')
            else (case tl_read T certNameConfig of
                    Inl e \<Rightarrow> Inl e
                  | Inr crt \<Rightarrow>
                      if \<not> tl_cert_pool T crt then Inl (Err ''failed to decode cert file'')
                      else (case validateServerName_mp (get_prop appConfig ''server_name'') of
                              (valid, Some e) \<Rightarrow> Inl e
                            | (False, None) \<Rightarrow> Inr None
                            | (True, None) \<Rightarrow>
                                if length (get_prop appConfig ''ssl_ciphers'') = 0
                                then Inl (Err ''TLS cipher configuration is not recommended or invalid'')
                                else (case getCipherSuites_mp (get_prop appConfig ''ssl_ciphers'') of
                                        None \<Rightarrow> Inl (Err ''TLS cipher configuration is not recommended or invalid'')
                                      | Some suites \<Rightarrow> Inr (Some (get_prop appConfig ''server_name'', suites)))))), w))"

definition GetAppConfigByKey :: "'w svc_host \<Rightarrow> string \<Rightarrow> 'w \<Rightarrow> string \<times> 'w" where
  "GetAppConfigByKey H k w = (case GetAppConfig H w of (Inl e, w) \<Rightarrow> ([], w) | (Inr appConfig, w) \<Rightarrow> (get_prop appConfig k, w))"

section \<open>The patterns of the validator\<close>

text \<open>A word of the first class, or one that starts and ends with letters or digits and has others of the
  class between.\<close>

definition word_pattern :: "(char \<Rightarrow> bool) \<Rightarrow> string \<Rightarrow> bool" where
  "word_pattern inner s \<longleftrightarrow> list_all is_alnum s \<or>
     (length s \<ge> 2 \<and> is_alnum (hd s) \<and> is_alnum (last s) \<and> list_all (\<lambda>c. is_alnum c \<or> inner c) s)"

definition validateProtocol :: "string \<Rightarrow> bool" where
  "validateProtocol = word_pattern (\<lambda>c. c \<in> set ''_-.'')"

definition validateName :: "string \<Rightarrow> bool" where
  "validateName = word_pattern (\<lambda>c. c \<in> set ''_-'')"

definition validateId :: "string \<Rightarrow> bool" where
  "validateId = word_pattern (\<lambda>c. c = CHR ''-'')"

definition validateVersion :: "string \<Rightarrow> bool" where
  "validateVersion s \<longleftrightarrow>
     (let ns = split_on (CHR ''.'') s in length ns \<le> 3 \<and> list_all (\<lambda>n. n \<noteq> [] \<and> list_all is_digit n) ns)"

lemma word_pattern_mono:
  "(\<And>c. p c \<Longrightarrow> q c) \<Longrightarrow> word_pattern p s \<Longrightarrow> word_pattern q s"
  by (auto simp: word_pattern_def list_all_iff)

text \<open>An identifier is a name, and a name a protocol.\<close>

lemma patterns_nested: "validateId s \<Longrightarrow> validateName s" "validateName s \<Longrightarrow> validateProtocol s"
  by (auto simp: validateId_def validateName_def validateProtocol_def elim!: word_pattern_mono [rotated])

section \<open>Small helpers\<close>

definition FindIPAddressType :: "string \<Rightarrow> string" where
  "FindIPAddressType ip = (if length (filter (\<lambda>c. c = CHR '':'') ip) \<ge> 1 then ''IP_V6'' else ''IP_V4'')"

definition StringInList :: "string \<Rightarrow> string list \<Rightarrow> bool" where
  "StringInList searchStr stringList \<longleftrightarrow> list_ex (\<lambda>oneStr. oneStr = searchStr) stringList"

definition GetMethodFromReq :: "string \<Rightarrow> string" where
  "GetMethodFromReq method = (if method = [] then ''GET'' else method)"

definition GetHttpResourceInfo :: "string \<Rightarrow> string" where
  "GetHttpResourceInfo resource = (if resource = [] then ''UNKNOWN'' else resource)"

definition GetClientIp :: "string \<Rightarrow> string" where
  "GetClientIp xRealIp = (if xRealIp = [] then ''UNKNOWN_IP'' else xRealIp)"

end
