(* ===== verification/Health.thy ===== *)
theory Health
  imports Mep_Prelude
begin

text \<open>
  The health checks: the edge program (\<open>src/healthcheck\<close>), which asks its own services and
  the other edges, and the centre program (\<open>src/healthcheck-m\<close>), which asks every edge for its
  findings and counts them as votes.  HTTP clients, the address validator and the iteration orders of
  maps are parameters.
\<close>

section \<open>Answers\<close>

record CheckedEdgeInfo =
  ci_CheckedIp :: string
  ci_Condition :: bool

record EdgeHealthResult =
  eh_CheckerIp :: string
  eh_EdgeCheckResult :: "CheckedEdgeInfo list"

text \<open>What a handler wrote: the first status counts, and every write adds to the body.  A JSON value
  is the value it encodes.\<close>

datatype chunk =
    PlainText string
  | MsgJson string
  | EdgeJson EdgeHealthResult
  | ListJson "CheckedEdgeInfo list"

record writer =
  wr_status :: "nat option"
  wr_body :: "chunk list"

definition no_answer :: writer where
  "no_answer = \<lparr>wr_status = None, wr_body = []\<rparr>"

definition WriteHeader :: "nat \<Rightarrow> writer \<Rightarrow> writer" where
  "WriteHeader code r = (if wr_status r = None then r\<lparr>wr_status := Some code\<rparr> else r)"

definition write_chunk :: "chunk \<Rightarrow> writer \<Rightarrow> writer" where
  "write_chunk c r = (WriteHeader 200 r)\<lparr>wr_body := wr_body r @ [c]\<rparr>"

definition answer_status :: "writer \<Rightarrow> nat" where
  "answer_status r = (case wr_status r of None \<Rightarrow> 200 | Some code \<Rightarrow> code)"

definition writeResponse_hc :: "string \<Rightarrow> nat \<Rightarrow> writer \<Rightarrow> writer" where
  "writeResponse_hc msg code r = write_chunk (MsgJson msg) (WriteHeader code r)"

definition writeErrorResponse_hc :: "string \<Rightarrow> nat \<Rightarrow> writer \<Rightarrow> writer" where
  "writeErrorResponse_hc errMsg code r = writeResponse_hc errMsg code r"

text \<open>What the name calls logging of an error also answers it.\<close>

definition HandleLoggingForError :: "nat \<Rightarrow> string \<Rightarrow> writer \<Rightarrow> writer" where
  "HandleLoggingForError code errMsg r = writeErrorResponse_hc errMsg code r"

definition BadRequest :: nat where "BadRequest = 400"
definition StatusInternalServerError :: nat where "StatusInternalServerError = 500"
definition EdgeHealthPort :: nat where "EdgeHealthPort = 32759"
definition LcmPort :: nat where "LcmPort = 31252"
definition LcmHealthUri :: string where "LcmHealthUri = ''/lcmcontroller/v1/health''"
definition MepHealthUrl :: string where "MepHealthUrl = ''https://mep-mm5.mep/healthcheck''"
definition EdgeHealthCheck :: string where "EdgeHealthCheck = ''/health-check/v1/edge/action/start''"
definition ClientIpaddressInvalid_hc :: string where "ClientIpaddressInvalid_hc = ''clientIp address is invalid''"
definition FailedToUnmarshal :: string where "FailedToUnmarshal = ''failed to unmarshal request''"
definition ErrCallFromLcm :: string where
  "ErrCallFromLcm = ''failed to execute rest calling, check if lcm service is ready.''"
definition ErrCallFromMep :: string where
  "ErrCallFromMep = ''failed to execute rest calling, check if mep service is ready.''"
definition ErrCallForEdge :: string where
  "ErrCallForEdge = ''mep and lcm in this edge is failed, check if lcm and mep are ready''"
definition ErrSetResult :: string where "ErrSetResult = ''fail to set communicate result from other edge''"
definition ErrCallFromMecM :: string where
  "ErrCallFromMecM = ''failed to execute rest calling, check if mecm service is ready.''"
definition ErrCallFromEdge :: string where "ErrCallFromEdge = ''failed to call edge health check''"

text \<open>The checks of the validator package for the two families of addresses.\<close>

record ip_checks =
  ip_v4 :: "string \<Rightarrow> bool"
  ip_v6 :: "string \<Rightarrow> bool"

definition ValidateSrcAddress :: "ip_checks \<Rightarrow> string \<Rightarrow> go_error option" where
  "ValidateSrcAddress V i =
     (if i = [] then Some (Err ''require ip address'')
      else if \<not> ip_v4 V i then (if ip_v6 V i then None else Some (Err ''ipv6''))
      else None)"

section \<open>The edge program\<close>

record 'w edge_env =
  ed_checks :: ip_checks
  ed_local :: string
  ed_get :: "string \<Rightarrow> 'w \<Rightarrow> nat option \<times> 'w"
  ed_order :: "(string \<times> bool) list \<Rightarrow> (string \<times> bool) list"

text \<open>A call of one of the edge's own services: an error, or the status of the answer.\<close>

definition service_query ::
  "'w edge_env \<Rightarrow> string \<Rightarrow> string \<Rightarrow> string \<Rightarrow> writer \<Rightarrow> 'w \<Rightarrow> bool \<times> writer \<times> 'w" where
  "service_query E clientIp url msg r w =
     (if ValidateSrcAddress (ed_checks E) clientIp \<noteq> None
      then (False, HandleLoggingForError BadRequest ClientIpaddressInvalid_hc r, w)
      else (case ed_get E url w of
              (None, w) \<Rightarrow> (False, HandleLoggingForError StatusInternalServerError msg r, w)
            | (Some code, w) \<Rightarrow>
                if code = 200 then (True, r, w)
                else (False, HandleLoggingForError StatusInternalServerError msg r, w)))"

definition lcm_url :: "'w edge_env \<Rightarrow> string" where
  "lcm_url E = ''https://'' @ ed_local E @ '':'' @ itoa LcmPort @ LcmHealthUri"

definition LcmHealthQuery :: "'w edge_env \<Rightarrow> string \<Rightarrow> writer \<Rightarrow> 'w \<Rightarrow> bool \<times> writer \<times> 'w" where
  "LcmHealthQuery E clientIp r w = service_query E clientIp (lcm_url E) ErrCallFromLcm r w"

definition MepHealthQuery :: "'w edge_env \<Rightarrow> string \<Rightarrow> writer \<Rightarrow> 'w \<Rightarrow> bool \<times> writer \<times> 'w" where
  "MepHealthQuery E clientIp r w = service_query E clientIp MepHealthUrl ErrCallFromMep r w"

definition EdgeController_Get :: "'w edge_env \<Rightarrow> string \<Rightarrow> 'w \<Rightarrow> writer \<times> 'w" where
  "EdgeController_Get E clientIp w =
     (case LcmHealthQuery E clientIp no_answer w of
        (True, r, w) \<Rightarrow> (write_chunk (PlainText ''ok.'') r, w)
      | (False, r, w) \<Rightarrow>
          (case MepHealthQuery E clientIp r w of
             (True, r, w) \<Rightarrow> (write_chunk (PlainText ''ok.'') r, w)
           | (False, r, w) \<Rightarrow> (writeErrorResponse_hc ErrCallForEdge StatusInternalServerError r, w)))"

text \<open>The list of edges grows with every request; the findings start anew.\<close>

record edge_state =
  es_MecList :: "string list"
  es_NodeList :: "(string \<times> bool) list"

definition NewNodeList :: "string list \<Rightarrow> (string \<times> bool) list" where
  "NewNodeList ipList = fold (\<lambda>edge. al_put edge False) ipList []"

definition set_result :: "bool \<Rightarrow> string \<Rightarrow> (string \<times> bool) list \<Rightarrow> go_error option \<times> (string \<times> bool) list" where
  "set_result b ip nodes =
     (if map_of nodes ip \<noteq> None then (None, al_put ip b nodes)
      else (Some (Err ''wrong ip: this ip is not in node list''), nodes))"

definition SetResult :: "string \<Rightarrow> (string \<times> bool) list \<Rightarrow> go_error option \<times> (string \<times> bool) list" where
  "SetResult = set_result True"

definition SetBadResult :: "string \<Rightarrow> (string \<times> bool) list \<Rightarrow> go_error option \<times> (string \<times> bool) list" where
  "SetBadResult = set_result False"

definition report_set :: "go_error option \<times> (string \<times> bool) list \<Rightarrow> writer \<Rightarrow> (string \<times> bool) list \<times> writer" where
  "report_set res r =
     (case res of
        (None, nodes) \<Rightarrow> (nodes, r)
      | (Some e, nodes) \<Rightarrow> (nodes, HandleLoggingForError StatusInternalServerError ErrSetResult r))"

definition edge_url :: "string \<Rightarrow> string" where
  "edge_url ip = ''http://'' @ ip @ '':'' @ itoa EdgeHealthPort @ ''/health-check/v1/edge/health''"

definition check_edge ::
  "'w edge_env \<Rightarrow> string \<Rightarrow> (string \<times> bool) list \<times> writer \<Rightarrow> 'w \<Rightarrow> ((string \<times> bool) list \<times> writer) \<times> 'w" where
  "check_edge E ip nr w =
     (case nr of (nodes, r) \<Rightarrow>
        if ip = ed_local E then (report_set (SetResult ip nodes) r, w)
        else (case ed_get E (edge_url ip) w of
                (None, w) \<Rightarrow> (report_set (SetBadResult ip nodes) r, w)
              | (Some code, w) \<Rightarrow>
                  if code = 200 then (report_set (SetResult ip nodes) r, w)
                  else (report_set (SetBadResult ip nodes)
                          (HandleLoggingForError StatusInternalServerError ''this edge is unhealthy'' r), w)))"

fun check_edges ::
  "'w edge_env \<Rightarrow> string list \<Rightarrow> (string \<times> bool) list \<times> writer \<Rightarrow> 'w \<Rightarrow> ((string \<times> bool) list \<times> writer) \<times> 'w" where
  "check_edges E [] nr w = (nr, w)"
| "check_edges E (ip # ips) nr w = (case check_edge E ip nr w of (nr, w) \<Rightarrow> check_edges E ips nr w)"

definition edge_result :: "'w edge_env \<Rightarrow> (string \<times> bool) list \<Rightarrow> EdgeHealthResult" where
  "edge_result E nodes =
     \<lparr>eh_CheckerIp = ed_local E,
      eh_EdgeCheckResult = map (\<lambda>(ip, b). \<lparr>ci_CheckedIp = ip, ci_Condition = b\<rparr>) (ed_order E nodes)\<rparr>"

definition ComController_Post ::
  "'w edge_env \<Rightarrow> string \<Rightarrow> string list go_result \<Rightarrow> edge_state \<Rightarrow> 'w \<Rightarrow> writer \<times> edge_state \<times> 'w" where
  "ComController_Post E clientIp body st w =
     (if ValidateSrcAddress (ed_checks E) clientIp \<noteq> None
      then (HandleLoggingForError BadRequest ClientIpaddressInvalid_hc no_answer, st, w)
      else (case body of
              Inl e \<Rightarrow> (writeErrorResponse_hc FailedToUnmarshal BadRequest no_answer, st, w)
            | Inr hosts \<Rightarrow>
                (let mecList = es_MecList st @ hosts in
                 case check_edges E mecList (NewNodeList mecList, no_answer) w of
                   ((nodes, r), w) \<Rightarrow>
                     (write_chunk (EdgeJson (edge_result E nodes)) r,
                      st\<lparr>es_MecList := mecList, es_NodeList := nodes\<rparr>, w))))"

definition ComController_Get :: writer where
  "ComController_Get = write_chunk (PlainText ''Health Check edge side connection is ok.'') no_answer"

section \<open>The centre program\<close>

record MecHwCapabilities =
  hw_HwType :: string
  hw_HwVendor :: string
  hw_HwModel :: string

record MecHostInfo =
  mh_MechostIp :: string
  mh_MechostName :: string
  mh_ZipCode :: string
  mh_City :: string
  mh_Address :: string
  mh_Affinity :: string
  mh_UserName :: string
  mh_MepMIp :: string
  mh_Coordinates :: string
  mh_Hwcapabilities :: "MecHwCapabilities list"
  mh_Vim :: string
  mh_ConfigUploadStatus :: string

text \<open>The inventory answers an error, a body that is no list of hosts, or a list; an edge answers an
  error or a body.\<close>

record 'w center_env =
  ce_checks :: ip_checks
  ce_local :: string
  ce_inventory :: "string \<Rightarrow> string \<Rightarrow> 'w \<Rightarrow> MecHostInfo list go_result option \<times> 'w"
  ce_post :: "string \<Rightarrow> string list \<Rightarrow> 'w \<Rightarrow> chunk list option \<times> 'w"
  ce_votes :: "(string \<times> (string \<times> bool) list) list \<Rightarrow> (string \<times> (string \<times> bool) list) list"
  ce_marks :: "(string \<times> bool) list \<Rightarrow> (string \<times> bool) list"
  ce_counts :: "(string \<times> nat) list \<Rightarrow> (string \<times> nat) list"
  ce_results :: "(string \<times> bool) list \<Rightarrow> (string \<times> bool) list"

text \<open>A body is decoded when it is one JSON object.\<close>

definition decode_edge :: "chunk list \<Rightarrow> EdgeHealthResult option" where
  "decode_edge body = (case body of [EdgeJson r] \<Rightarrow> Some r | _ \<Rightarrow> None)"

definition inventory_url :: "'w center_env \<Rightarrow> string \<Rightarrow> string" where
  "inventory_url E tenantId =
     ''https://'' @ ce_local E @ '':'' @ ''30203'' @ ''/inventory/v1/tenants/'' @ tenantId @ ''/mechosts''"

definition check_url :: "string \<Rightarrow> string" where
  "check_url mecIp = ''http://'' @ mecIp @ '':'' @ itoa EdgeHealthPort @ EdgeHealthCheck"

definition k8s_hosts :: "MecHostInfo list \<Rightarrow> string list" where
  "k8s_hosts infos = map mh_MechostIp (filter (\<lambda>i. mh_Vim i = ''K8S'') infos)"

definition os_hosts :: "MecHostInfo list \<Rightarrow> string list" where
  "os_hosts infos = map mh_MechostIp (filter (\<lambda>i. mh_Vim i \<noteq> ''K8S'') infos)"

definition marks_of :: "EdgeHealthResult \<Rightarrow> (string \<times> bool) list" where
  "marks_of r = fold (\<lambda>i. al_put (ci_CheckedIp i) (ci_Condition i)) (eh_EdgeCheckResult r) []"

fun collect_votes ::
  "'w center_env \<Rightarrow> string list \<Rightarrow> string list \<Rightarrow> (string \<times> (string \<times> bool) list) list \<times> writer \<Rightarrow> 'w \<Rightarrow>
   ((string \<times> (string \<times> bool) list) list \<times> writer) \<times> 'w" where
  "collect_votes E hosts [] vr w = (vr, w)"
| "collect_votes E hosts (mecIp # ips) (votes, r) w =
     (case ce_post E (check_url mecIp) hosts w of
        (None, w) \<Rightarrow> collect_votes E hosts ips (votes, r) w
      | (Some body, w) \<Rightarrow>
          (case decode_edge body of
             None \<Rightarrow> collect_votes E hosts ips (votes, writeErrorResponse_hc ''fail to unmarshall edge result'' BadRequest r) w
           | Some edgeResult \<Rightarrow>
               if eh_CheckerIp edgeResult \<noteq> mecIp
               then collect_votes E hosts ips (votes, HandleLoggingForError StatusInternalServerError ErrCallFromEdge r) w
               else collect_votes E hosts ips
                      (al_put (eh_CheckerIp edgeResult) (marks_of edgeResult) votes, r) w))"

definition count_vote :: "string \<times> bool \<Rightarrow> (string \<times> nat) list \<Rightarrow> (string \<times> nat) list" where
  "count_vote m counts =
     (case m of (checkedIp, condition) \<Rightarrow>
        if condition
        then (case map_of counts checkedIp of None \<Rightarrow> al_put checkedIp 1 counts | Some n \<Rightarrow> al_put checkedIp (n + 1) counts)
        else (case map_of counts checkedIp of None \<Rightarrow> al_put checkedIp 0 counts | Some n \<Rightarrow> counts))"

definition count_votes :: "'w center_env \<Rightarrow> (string \<times> (string \<times> bool) list) list \<Rightarrow> (string \<times> nat) list" where
  "count_votes E votes = fold (\<lambda>(checker, edgeMap) counts. fold count_vote (ce_marks E edgeMap) counts) (ce_votes E votes) []"

definition decide :: "'w center_env \<Rightarrow> (string \<times> nat) list \<Rightarrow> (string \<times> bool) list" where
  "decide E counts = fold (\<lambda>(checkedIp, voteNum). al_put checkedIp (voteNum \<ge> 1)) (ce_counts E counts) []"

definition add_openstack :: "string list \<Rightarrow> (string \<times> bool) list \<Rightarrow> (string \<times> bool) list" where
  "add_openstack ips results = fold (\<lambda>ip. al_put ip True) ips results"

definition RunController_Get :: "'w center_env \<Rightarrow> string \<Rightarrow> string \<Rightarrow> string \<Rightarrow> 'w \<Rightarrow> writer \<times> 'w" where
  "RunController_Get E clientIp tenantId accessToken w =
     (if ValidateSrcAddress (ce_checks E) clientIp \<noteq> None
      then (HandleLoggingForError BadRequest ClientIpaddressInvalid_hc no_answer, w)
      else (case ce_inventory E (inventory_url E tenantId) accessToken w of
              (None, w) \<Rightarrow> (writeErrorResponse_hc ErrCallFromMecM StatusInternalServerError no_answer, w)
            | (Some (Inl e), w) \<Rightarrow> (writeErrorResponse_hc FailedToUnmarshal BadRequest no_answer, w)
            | (Some (Inr infos), w) \<Rightarrow>
                (case collect_votes E (k8s_hosts infos) (k8s_hosts infos) ([], no_answer) w of
                   ((votes, r), w) \<Rightarrow>
                     (let results = add_openstack (os_hosts infos) (decide E (count_votes E votes)) in
                      (write_chunk (ListJson (map (\<lambda>(ip, b). \<lparr>ci_CheckedIp = ip, ci_Condition = b\<rparr>)
                         (ce_results E results))) r, w)))))"

definition MecMController_Get :: writer where
  "MecMController_Get = write_chunk (PlainText ''Health Check center side connection is ok.'') no_answer"

section \<open>The vote\<close>

lemma fold_put_keys:
  "distinct (map fst m) \<Longrightarrow> distinct (map fst (fold (\<lambda>x. al_put (f x) (g x)) xs m))"
  by (induction xs arbitrary: m) simp_all

lemma map_of_fold_put:
  "map_of (fold (\<lambda>x. al_put (f x) (g x)) xs m) = map_of m ++ map_of (rev (map (\<lambda>x. (f x, g x)) xs))"
  by (induction xs arbitrary: m) (simp_all add: map_add_assoc [symmetric])

lemma map_of_fold_put_distinct:
  "distinct (map f xs) \<Longrightarrow>
     map_of (fold (\<lambda>x. al_put (f x) (g x)) xs m) = map_of m ++ map_of (map (\<lambda>x. (f x, g x)) xs)"
  unfolding map_of_fold_put
  by (subst map_of_inject_set [THEN iffD2, of "rev (map (\<lambda>x. (f x, g x)) xs)" "map (\<lambda>x. (f x, g x)) xs"])
    (simp_all add: comp_def rev_map [symmetric])

lemma map_of_reordering: "reordering p \<Longrightarrow> distinct (map fst m) \<Longrightarrow> map_of (p m) = map_of m"
  by (subst map_of_inject_set) (auto simp: reordering_set reordering_def distinct_map
      dest: mset_eq_imp_distinct_iff)

lemma count_vote_of:
  "map_of (count_vote (ip, b) counts) i =
     (if i = ip then Some ((case map_of counts ip of None \<Rightarrow> 0 | Some n \<Rightarrow> n) + (if b then 1 else 0))
      else map_of counts i)"
  by (auto simp: count_vote_def split: option.splits)

lemma count_vote_keys: "distinct (map fst counts) \<Longrightarrow> distinct (map fst (count_vote m counts))"
  by (cases m) (simp add: count_vote_def split: option.splits)

lemma count_all:
  "map_of (fold count_vote ms counts) i =
     (if map_of counts i = None \<and> i \<notin> fst ` set ms then None
      else Some ((case map_of counts i of None \<Rightarrow> 0 | Some n \<Rightarrow> n) + length (filter (\<lambda>m. m = (i, True)) ms)))"
proof (induction ms arbitrary: counts)
  case (Cons m ms)
  then show ?case by (cases m) (auto simp: count_vote_of split: option.splits)
qed (simp split: option.splits)

lemma count_all_keys: "distinct (map fst counts) \<Longrightarrow> distinct (map fst (fold count_vote ms counts))"
  by (induction ms arbitrary: counts) (simp_all add: count_vote_keys)

lemma count_votes_flat: "count_votes E votes = fold count_vote (concat (map (\<lambda>(c, em). ce_marks E em) (ce_votes E votes))) []"
proof -
  have "fold (\<lambda>(c, em) counts. fold count_vote (ce_marks E em) counts) vs counts =
      fold count_vote (concat (map (\<lambda>(c, em). ce_marks E em) vs)) counts" for vs counts
    by (induction vs arbitrary: counts) auto
  then show ?thesis by (simp add: count_votes_def)
qed

locale center_orders =
  fixes E :: "'w center_env"
  assumes votes_order: "reordering (ce_votes E)" and marks_order: "reordering (ce_marks E)"
    and counts_order: "reordering (ce_counts E)" and results_order: "reordering (ce_results E)"
begin

lemma counted:
  "map_of (count_votes E votes) ip =
     (if \<exists>c em. (c, em) \<in> set votes \<and> ip \<in> fst ` set em
      then Some (length (filter (\<lambda>m. m = (ip, True)) (concat (map (\<lambda>(c, em). ce_marks E em) (ce_votes E votes)))))
      else None)"
proof -
  have "ip \<in> fst ` set (concat (map (\<lambda>(c, em). ce_marks E em) (ce_votes E votes))) \<longleftrightarrow>
      (\<exists>c em. (c, em) \<in> set votes \<and> ip \<in> fst ` set em)"
    by (auto simp: reordering_set [OF votes_order] reordering_set [OF marks_order])
  then show ?thesis unfolding count_votes_flat count_all by simp
qed

lemma decided:
  "map_of (decide E (count_votes E votes)) ip =
     (if \<exists>c em. (c, em) \<in> set votes \<and> ip \<in> fst ` set em
      then Some (\<exists>c em. (c, em) \<in> set votes \<and> (ip, True) \<in> set em) else None)"
proof -
  let ?counts = "count_votes E votes"
  let ?ms = "concat (map (\<lambda>(c, em). ce_marks E em) (ce_votes E votes))"
  have distinct: "distinct (map fst ?counts)"
    unfolding count_votes_flat by (rule count_all_keys) simp
  have distinct': "distinct (map fst (ce_counts E ?counts))"
    using distinct reordering_distinct [OF counts_order] by (metis counts_order mset_eq_imp_distinct_iff mset_map reordering_def)
  have "map_of (decide E ?counts) = map_of (map (\<lambda>x. (fst x, snd x \<ge> 1)) (ce_counts E ?counts))"
    unfolding decide_def using map_of_fold_put_distinct [of fst "ce_counts E ?counts" "\<lambda>x. snd x \<ge> 1" "[]"] distinct'
    by (simp add: case_prod_unfold)
  then have d: "map_of (decide E ?counts) ip = map_option (\<lambda>n. n \<ge> 1) (map_of ?counts ip)"
    using map_of_map [of "\<lambda>n. n \<ge> 1" "ce_counts E ?counts"] map_of_reordering [OF counts_order distinct]
    by (simp add: case_prod_unfold)
  have "length (filter (\<lambda>m. m = (ip, True)) ?ms) \<ge> 1 \<longleftrightarrow> (ip, True) \<in> set ?ms"
    unfolding One_nat_def Suc_le_eq length_greater_0_conv filter_empty_conv by blast
  also have "\<dots> \<longleftrightarrow> (\<exists>c em. (c, em) \<in> set votes \<and> (ip, True) \<in> set em)"
    by (auto simp: reordering_set [OF votes_order] reordering_set [OF marks_order])
  finally show ?thesis unfolding d counted by simp
qed

lemma openstack: "map_of (add_openstack ips m) ip = (if ip \<in> set ips then Some True else map_of m ip)"
  by (induction ips arbitrary: m) (auto simp: add_openstack_def)

lemma results_keys: "distinct (map fst (add_openstack ips (decide E counts)))"
  unfolding add_openstack_def decide_def
  unfolding case_prod_unfold by (intro fold_put_keys) simp

end

text \<open>Iteration in order and backwards.\<close>

definition plain_center :: "ip_checks \<Rightarrow> string \<Rightarrow> (string \<Rightarrow> string \<Rightarrow> 'w \<Rightarrow> MecHostInfo list go_result option \<times> 'w) \<Rightarrow>
    (string \<Rightarrow> string list \<Rightarrow> 'w \<Rightarrow> chunk list option \<times> 'w) \<Rightarrow> 'w center_env" where
  "plain_center V l query post = \<lparr>ce_checks = V, ce_local = l, ce_inventory = query, ce_post = post, ce_votes = rev,
     ce_marks = (\<lambda>m. m), ce_counts = rev, ce_results = (\<lambda>m. m)\<rparr>"

interpretation plain_orders: center_orders "plain_center V l query post"
  by unfold_locales (simp_all add: plain_center_def)

text \<open>(C30) The centre reports each host once, and whatever the order in which maps are traversed, the same:
  a host that is no Kubernetes edge as healthy, any other exactly when some edge reported on it, and as healthy
  when one of them found it so.\<close>

theorem center_counts_votes:
  assumes "center_orders E" "ValidateSrcAddress (ce_checks E) clientIp = None"
    and "ce_inventory E (inventory_url E tenantId) accessToken w = (Some (Inr infos), w1)"
    and "collect_votes E (k8s_hosts infos) (k8s_hosts infos) ([], no_answer) w1 = ((votes, r), w2)"
  shows "\<exists>results. RunController_Get E clientIp tenantId accessToken w = (write_chunk (ListJson results) r, w2) \<and>
    distinct (map ci_CheckedIp results) \<and>
    (\<forall>ip b. \<lparr>ci_CheckedIp = ip, ci_Condition = b\<rparr> \<in> set results \<longleftrightarrow>
       (if ip \<in> set (os_hosts infos) then b
        else (\<exists>c em. (c, em) \<in> set votes \<and> ip \<in> fst ` set em) \<and>
          (b \<longleftrightarrow> (\<exists>c em. (c, em) \<in> set votes \<and> (ip, True) \<in> set em))))"
proof -
  let ?m = "add_openstack (os_hosts infos) (decide E (count_votes E votes))"
  let ?results = "map (\<lambda>(ip, b). \<lparr>ci_CheckedIp = ip, ci_Condition = b\<rparr>) (ce_results E ?m)"
  note orders = center_orders.results_order [OF assms(1)]
  have keys: "distinct (map fst ?m)" by (rule center_orders.results_keys [OF assms(1)])
  have run: "RunController_Get E clientIp tenantId accessToken w = (write_chunk (ListJson ?results) r, w2)"
    using assms(2-4) by (simp add: RunController_Get_def Let_def)
  have "map ci_CheckedIp ?results = map fst (ce_results E ?m)" by (simp add: case_prod_unfold comp_def)
  moreover have "distinct (map fst (ce_results E ?m))"
    using keys orders by (metis mset_eq_imp_distinct_iff mset_map reordering_def)
  ultimately have once: "distinct (map ci_CheckedIp ?results)" by (simp only:)
  have "\<lparr>ci_CheckedIp = ip, ci_Condition = b\<rparr> \<in> set ?results \<longleftrightarrow> map_of ?m ip = Some b" for ip b
    by (auto simp: reordering_set [OF orders] map_of_eq_Some_iff [OF keys] image_iff split: prod.splits)
  then have "\<lparr>ci_CheckedIp = ip, ci_Condition = b\<rparr> \<in> set ?results \<longleftrightarrow>
      (if ip \<in> set (os_hosts infos) then b
       else (\<exists>c em. (c, em) \<in> set votes \<and> ip \<in> fst ` set em) \<and>
         (b \<longleftrightarrow> (\<exists>c em. (c, em) \<in> set votes \<and> (ip, True) \<in> set em)))" for ip b
    unfolding center_orders.openstack [OF assms(1)] center_orders.decided [OF assms(1)] by auto
  with run once show ?thesis by blast
qed

section \<open>The findings of an edge\<close>

text \<open>The health of an edge is the health of its LCM: when the LCM does not answer 200, the answer has
  status 500 even if the MEP is healthy and the body says so, because the failed query has already answered.\<close>

theorem edge_health_is_lcm:
  assumes "ValidateSrcAddress (ed_checks E) clientIp = None"
  shows "answer_status (fst (EdgeController_Get E clientIp w)) =
    (if fst (ed_get E (lcm_url E) w) = Some 200 then 200 else 500)"
  using assms
  by (auto simp: EdgeController_Get_def LcmHealthQuery_def MepHealthQuery_def service_query_def answer_status_def
      write_chunk_def WriteHeader_def no_answer_def HandleLoggingForError_def writeErrorResponse_hc_def
      writeResponse_hc_def StatusInternalServerError_def split: prod.splits option.splits)

text \<open>What an edge finds of another, and those that answer the check with another status.\<close>

definition edge_found :: "'w edge_env \<Rightarrow> (string \<Rightarrow> nat option) \<Rightarrow> string \<Rightarrow> bool" where
  "edge_found E status ip \<longleftrightarrow> ip = ed_local E \<or> status ip = Some 200"

definition edge_sick :: "'w edge_env \<Rightarrow> (string \<Rightarrow> nat option) \<Rightarrow> string \<Rightarrow> bool" where
  "edge_sick E status ip \<longleftrightarrow> ip \<noteq> ed_local E \<and> (\<exists>code. status ip = Some code \<and> code \<noteq> 200)"

lemma new_nodes: "map_of (NewNodeList ips) ip \<noteq> None \<longleftrightarrow> ip \<in> set ips"
  unfolding NewNodeList_def map_of_fold_put by (force simp: map_of_eq_None_iff)

lemma errors_body:
  "wr_body (fold (\<lambda>ip r. writeErrorResponse_hc m c r) ips r) = wr_body r @ map (\<lambda>_. MsgJson m) ips"
  by (induction ips arbitrary: r)
    (simp_all add: writeErrorResponse_hc_def writeResponse_hc_def write_chunk_def WriteHeader_def)

lemma write_chunk_body [simp]: "wr_body (write_chunk c r) = wr_body r @ [c]"
  by (simp add: write_chunk_def)

text \<open>The findings come from the map of the nodes.\<close>

lemma edge_marks:
  assumes "reordering (ed_order E)" "distinct (map fst nodes)"
  shows "map_of (marks_of (edge_result E nodes)) = map_of nodes"
proof -
  have "distinct (map fst (ed_order E nodes))"
    using assms by (metis mset_eq_imp_distinct_iff mset_map reordering_def)
  then show ?thesis
    using map_of_fold_put_distinct [of fst "ed_order E nodes" snd "[]"] map_of_reordering [OF assms]
    by (simp add: marks_of_def edge_result_def fold_map comp_def case_prod_unfold)
qed

text \<open>While the edges answer steadily, the findings are a function of the list.\<close>

locale steady_edges =
  fixes E :: "'w edge_env" and status :: "string \<Rightarrow> nat option"
  assumes steady: "fst (ed_get E (edge_url ip) w) = status ip"
    and order: "reordering (ed_order E)"
begin

lemma check_edge_found:
  assumes "map_of nodes ip \<noteq> None"
  shows "\<exists>w'. check_edge E ip (nodes, r) w = ((al_put ip (edge_found E status ip) nodes,
    if edge_sick E status ip then writeErrorResponse_hc ''this edge is unhealthy'' StatusInternalServerError r else r), w')"
  using assms steady [of ip w]
  by (cases "ed_get E (edge_url ip) w")
    (auto simp: check_edge_def report_set_def SetResult_def SetBadResult_def set_result_def edge_found_def edge_sick_def
      HandleLoggingForError_def split: option.splits)

lemma check_edges_found:
  assumes "\<forall>ip \<in> set ips. map_of nodes ip \<noteq> None"
  shows "\<exists>w'. check_edges E ips (nodes, r) w = ((fold (\<lambda>ip. al_put ip (edge_found E status ip)) ips nodes,
    fold (\<lambda>ip r. writeErrorResponse_hc ''this edge is unhealthy'' StatusInternalServerError r) (filter (edge_sick E status) ips) r), w')"
  using assms
proof (induction ips arbitrary: nodes r w)
  case (Cons ip ips)
  have "\<forall>i \<in> set ips. map_of (al_put ip (edge_found E status ip) nodes) i \<noteq> None" using Cons.prems by simp
  moreover obtain w1 where "check_edge E ip (nodes, r) w = ((al_put ip (edge_found E status ip) nodes,
      if edge_sick E status ip then writeErrorResponse_hc ''this edge is unhealthy'' StatusInternalServerError r else r), w1)"
    using check_edge_found [of nodes ip r w] Cons.prems by auto
  ultimately show ?case using Cons.IH [of "al_put ip (edge_found E status ip) nodes" _ w1] by simp
qed simp

lemma fold_found:
  "map_of (fold (\<lambda>ip. al_put ip (edge_found E status ip)) ips nodes) ip = (if ip \<in> set ips then Some (edge_found E status ip) else map_of nodes ip)"
  by (induction ips arbitrary: nodes) auto

end

lemma check_edges_keys:
  "distinct (map fst nodes) \<Longrightarrow> distinct (map fst (fst (fst (check_edges E ips (nodes, r) w))))"
  by (induction E ips "(nodes, r)" w arbitrary: nodes r rule: check_edges.induct)
    (auto simp: check_edge_def report_set_def SetResult_def SetBadResult_def set_result_def
      split: prod.splits option.splits)

text \<open>(C31) An edge asked for its findings tries every edge it was ever told of, and reports itself as healthy and
  another when it answered 200. The answer can be decoded only if no edge answered the check with another status,
  because each of those adds an error message before the findings.\<close>

theorem edge_findings:
  assumes "steady_edges E status" "ValidateSrcAddress (ed_checks E) clientIp = None"
    and "ComController_Post E clientIp (Inr hosts) st w = (r, st', w')"
  shows "\<exists>res. es_MecList st' = es_MecList st @ hosts \<and> eh_CheckerIp res = ed_local E \<and>
    (\<forall>ip. map_of (marks_of res) ip =
       (if ip \<in> set (es_MecList st @ hosts) then Some (edge_found E status ip) else None)) \<and>
    wr_body r = map (\<lambda>_. MsgJson ''this edge is unhealthy'')
      (filter (edge_sick E status) (es_MecList st @ hosts)) @ [EdgeJson res] \<and>
    decode_edge (wr_body r) = (if \<exists>ip \<in> set (es_MecList st @ hosts). edge_sick E status ip then None else Some res)"
proof -
  let ?all = "es_MecList st @ hosts"
  let ?nodes = "fold (\<lambda>ip. al_put ip (edge_found E status ip)) ?all (NewNodeList ?all)"
  let ?r = "fold (\<lambda>ip r. writeErrorResponse_hc ''this edge is unhealthy'' StatusInternalServerError r)
    (filter (edge_sick E status) ?all) no_answer"
  let ?res = "edge_result E ?nodes"
  have "\<forall>ip \<in> set ?all. map_of (NewNodeList ?all) ip \<noteq> None" unfolding new_nodes by blast
  from steady_edges.check_edges_found [OF assms(1) this, of no_answer w]
  obtain w1 where run: "check_edges E ?all (NewNodeList ?all, no_answer) w = ((?nodes, ?r), w1)" by blast
  then have post: "r = write_chunk (EdgeJson ?res) ?r" "es_MecList st' = ?all"
    using assms(2,3) by (auto simp: ComController_Post_def Let_def)
  have "distinct (map fst (NewNodeList ?all))"
    unfolding NewNodeList_def by (rule fold_put_keys) simp
  then have keys: "distinct (map fst ?nodes)"
    using check_edges_keys [of "NewNodeList ?all" E ?all no_answer w] run by simp
  have "map_of (NewNodeList ?all) ip = None" if "ip \<notin> set ?all" for ip
    using new_nodes [of ?all ip] that by blast
  then have marks: "map_of (marks_of ?res) ip = (if ip \<in> set ?all then Some (edge_found E status ip) else None)" for ip
    unfolding edge_marks [OF steady_edges.order [OF assms(1)] keys] steady_edges.fold_found [OF assms(1)] by auto
  have body: "wr_body r = map (\<lambda>_. MsgJson ''this edge is unhealthy'') (filter (edge_sick E status) ?all) @ [EdgeJson ?res]"
    unfolding post(1) by (simp add: errors_body no_answer_def)
  have single: "decode_edge (map (\<lambda>_. MsgJson m) xs @ [EdgeJson x]) = (if xs = [] then Some x else None)" for m xs x
    by (cases xs) (auto simp: decode_edge_def split: list.splits)
  have "decode_edge (wr_body r) = (if filter (edge_sick E status) ?all = [] then Some ?res else None)"
    unfolding body by (rule single)
  then have "decode_edge (wr_body r) =
      (if \<exists>ip \<in> set ?all. edge_sick E status ip then None else Some ?res)"
    unfolding filter_empty_conv by (simp only: Bex_def Ball_def) (metis (full_types))
  moreover have "eh_CheckerIp ?res = ed_local E" by (simp add: edge_result_def)
  ultimately show ?thesis using post(2) marks body by (intro exI [of _ ?res]) blast
qed

section \<open>The centre and its edges\<close>

text \<open>An edge that lists itself finds itself healthy, whatever the others answer.\<close>

lemma check_edges_self:
  assumes "map_of nodes (ed_local E) \<noteq> None"
  shows "map_of (fst (fst (check_edges E ips (nodes, r) w))) (ed_local E) =
    (if ed_local E \<in> set ips then Some True else map_of nodes (ed_local E))"
  using assms
proof (induction ips arbitrary: nodes r w)
  case (Cons ip ips)
  obtain nodes1 r1 w1 where c: "check_edge E ip (nodes, r) w = ((nodes1, r1), w1)" by (metis surj_pair)
  then have n: "map_of nodes1 (ed_local E) = (if ip = ed_local E then Some True else map_of nodes (ed_local E))"
    using Cons.prems
    by (auto simp: check_edge_def report_set_def SetResult_def SetBadResult_def set_result_def
        split: prod.splits option.splits if_splits)
  then have "map_of nodes1 (ed_local E) \<noteq> None" using Cons.prems by (metis option.distinct(1))
  from Cons.IH [OF this, of r1 w1] show ?case using c n by (cases "ip = ed_local E") simp_all
qed simp

lemma post_self:
  assumes "reordering (ed_order E)" "ComController_Post E clientIp (Inr hosts) st w = (r, st', w')"
    and "decode_edge (wr_body r) = Some res" "eh_CheckerIp res = ip" "ip \<in> set hosts"
  shows "map_of (marks_of res) ip = Some True"
proof -
  let ?all = "es_MecList st @ hosts"
  obtain nodes r1 w1 where run: "check_edges E ?all (NewNodeList ?all, no_answer) w = ((nodes, r1), w1)"
    by (metis surj_pair)
  have "decode_edge (b @ [EdgeJson x]) = Some y \<Longrightarrow> y = x" for b x y
    by (cases b) (auto simp: decode_edge_def split: list.splits chunk.splits)
  moreover have "decode_edge [MsgJson m] = None" for m by (simp add: decode_edge_def)
  ultimately have res: "res = edge_result E nodes"
    using assms(2,3) run
    by (auto simp: ComController_Post_def Let_def HandleLoggingForError_def writeErrorResponse_hc_def writeResponse_hc_def
        WriteHeader_def no_answer_def split: if_splits)
  then have ip: "ed_local E = ip" using assms(4) by (simp add: edge_result_def)
  then have "map_of (NewNodeList ?all) (ed_local E) \<noteq> None" unfolding new_nodes using assms(5) by simp
  from check_edges_self [OF this, of ?all no_answer w]
  have "map_of nodes ip = Some True" using run ip assms(5) by simp
  moreover have "distinct (map fst (NewNodeList ?all))"
    unfolding NewNodeList_def by (rule fold_put_keys) simp
  then have "distinct (map fst nodes)"
    using check_edges_keys [of "NewNodeList ?all" E ?all no_answer w] run by simp
  ultimately show ?thesis unfolding res edge_marks [OF assms(1)] using edge_marks [OF assms(1)] by simp
qed

text \<open>What the centre may rely on: an edge that answers for itself votes for itself.\<close>

locale self_voting = center_orders E for E :: "'w center_env" +
  assumes self_vote: "ce_post E (check_url ip) hosts w = (Some body, w') \<Longrightarrow> decode_edge body = Some r \<Longrightarrow>
    eh_CheckerIp r = ip \<Longrightarrow> ip \<in> set hosts \<Longrightarrow> map_of (marks_of r) ip = Some True"
begin

lemma counted_self:
  assumes "collect_votes E hosts ips (votes, r) w = ((votes', r'), w')" "set ips \<subseteq> set hosts"
    and "\<forall>c em. map_of votes c = Some em \<longrightarrow> map_of em c = Some True"
  shows "\<forall>c em. map_of votes' c = Some em \<longrightarrow> map_of em c = Some True"
  using assms
proof (induction ips arbitrary: votes r w)
  case (Cons ip ips)
  obtain body w1 where p: "ce_post E (check_url ip) hosts w = (body, w1)" by fastforce
  have sub: "set ips \<subseteq> set hosts" "ip \<in> set hosts" using Cons.prems(2) by auto
  show ?case
  proof (cases "\<exists>b res. body = Some b \<and> decode_edge b = Some res \<and> eh_CheckerIp res = ip")
    case False
    then obtain r1 where run: "collect_votes E hosts ips (votes, r1) w1 = ((votes', r'), w')"
      using Cons.prems(1) p by (auto split: option.splits if_splits)
    show ?thesis by (rule Cons.IH [OF run sub(1) Cons.prems(3)])
  next
    case True
    then obtain b res where b: "body = Some b" "decode_edge b = Some res" "eh_CheckerIp res = ip" by blast
    have vote: "map_of (marks_of res) ip = Some True"
      using self_vote [OF _ b(2,3) sub(2)] p b(1) by blast
    have run: "collect_votes E hosts ips (al_put ip (marks_of res) votes, r) w1 = ((votes', r'), w')"
      using Cons.prems(1) p b by simp
    have "\<forall>c em. map_of (al_put ip (marks_of res) votes) c = Some em \<longrightarrow> map_of em c = Some True"
      using Cons.prems(3) vote by simp
    then show ?thesis by (rule Cons.IH [OF run sub(1)])
  qed
qed simp

lemma votes_keys:
  "collect_votes E hosts ips (votes, r) w = ((votes', r'), w') \<Longrightarrow> distinct (map fst votes) \<Longrightarrow>
     distinct (map fst votes')"
proof (induction ips arbitrary: votes r w)
  case (Cons ip ips)
  then show ?case by (auto split: prod.splits option.splits if_splits)
qed simp

end

text \<open>The network of edges behind their addresses, each with its state.\<close>

definition network_post ::
  "(string \<Rightarrow> 'v edge_env) \<Rightarrow> string list \<Rightarrow> string \<Rightarrow> string \<Rightarrow> string list \<Rightarrow> (string \<Rightarrow> edge_state) \<times> 'v \<Rightarrow>
   chunk list option \<times> ((string \<Rightarrow> edge_state) \<times> 'v)" where
  "network_post envs ips client url hosts w =
     (case find (\<lambda>ip. check_url ip = url) ips of
        None \<Rightarrow> (None, w)
      | Some ip \<Rightarrow>
          (case ComController_Post (envs ip) client (Inr hosts) (fst w ip) (snd w) of
             (r, st, v) \<Rightarrow> (Some (wr_body r), ((fst w)(ip := st), v))))"

lemma network_self_voting:
  assumes "center_orders E" "ce_post E = network_post envs ips client" "\<And>ip. reordering (ed_order (envs ip))"
  shows "self_voting E"
proof (rule self_voting.intro [OF assms(1)], unfold_locales)
  fix ip hosts w body w' r
  assume p: "ce_post E (check_url ip) hosts w = (Some body, w')" and d: "decode_edge body = Some r"
    and c: "eh_CheckerIp r = ip" "ip \<in> set hosts"
  from p obtain ip' out st v where
      "ComController_Post (envs ip') client (Inr hosts) (fst w ip') (snd w) = (out, st, v)" "body = wr_body out"
    unfolding assms(2) by (auto simp: network_post_def split: option.splits prod.splits)
  with post_self [OF assms(3) _ _ c] d show "map_of (marks_of r) ip = Some True" by blast
qed

text \<open>(C29) In the network of the modelled edges, the centre reports every Kubernetes host as healthy whose answer
  it counted, whatever the state of its services: each edge votes for itself without a check.\<close>

theorem answering_edge_is_healthy:
  assumes "center_orders E" "ce_post E = network_post envs ips client" "\<And>ip. reordering (ed_order (envs ip))"
    and "ValidateSrcAddress (ce_checks E) clientIp = None"
    and "ce_inventory E (inventory_url E tenantId) accessToken w = (Some (Inr infos), w1)"
    and "collect_votes E (k8s_hosts infos) (k8s_hosts infos) ([], no_answer) w1 = ((votes, r), w2)"
    and "c \<in> fst ` set votes"
  shows "\<exists>results. wr_body (fst (RunController_Get E clientIp tenantId accessToken w)) = wr_body r @ [ListJson results] \<and>
    \<lparr>ci_CheckedIp = c, ci_Condition = True\<rparr> \<in> set results \<and>
    \<lparr>ci_CheckedIp = c, ci_Condition = False\<rparr> \<notin> set results"
proof -
  note net = network_self_voting [OF assms(1-3)]
  have keys: "distinct (map fst votes)" by (rule self_voting.votes_keys [OF net assms(6)]) simp
  obtain em where em: "(c, em) \<in> set votes" using assms(7) by auto
  then have "map_of votes c = Some em" by (rule map_of_is_SomeI [OF keys])
  then have "map_of em c = Some True"
    using self_voting.counted_self [OF net assms(6) subset_refl] by simp
  then have voted: "(c, True) \<in> set em" by (rule map_of_SomeD)
  let ?m = "add_openstack (os_hosts infos) (decide E (count_votes E votes))"
  have "\<exists>c' em'. (c', em') \<in> set votes \<and> c \<in> fst ` set em'" using em voted by force
  moreover have "\<exists>c' em'. (c', em') \<in> set votes \<and> (c, True) \<in> set em'" using em voted by blast
  ultimately have healthy: "map_of ?m c = Some True"
    using center_orders.openstack [OF assms(1)] center_orders.decided [OF assms(1)] by simp
  have "(c, b) \<in> set ?m \<longleftrightarrow> map_of ?m c = Some b" for b
    by (rule map_of_eq_Some_iff [OF center_orders.results_keys [OF assms(1)], symmetric])
  then have listed: "(c, True) \<in> set (ce_results E ?m)" "(c, False) \<notin> set (ce_results E ?m)"
    unfolding reordering_set [OF center_orders.results_order [OF assms(1)]] healthy by simp_all
  have "wr_body (fst (RunController_Get E clientIp tenantId accessToken w)) = wr_body r @
      [ListJson (map (\<lambda>(ip, b). \<lparr>ci_CheckedIp = ip, ci_Condition = b\<rparr>) (ce_results E ?m))]"
    using assms(4-6) by (simp add: RunController_Get_def Let_def)
  moreover have "\<lparr>ci_CheckedIp = c, ci_Condition = b\<rparr> \<in>
      set (map (\<lambda>(ip, b). \<lparr>ci_CheckedIp = ip, ci_Condition = b\<rparr>) ms) \<longleftrightarrow> (c, b) \<in> set ms" for b ms
    by force
  ultimately show ?thesis using listed by blast
qed

section \<open>A platform of two edges\<close>

definition any_address :: ip_checks where
  "any_address = \<lparr>ip_v4 = (\<lambda>s. True), ip_v6 = (\<lambda>s. False)\<rparr>"

text \<open>An edge whose peers answer as listed; its own services do not answer.\<close>

definition listed_edge :: "string \<Rightarrow> (string \<times> nat) list \<Rightarrow> 'v edge_env" where
  "listed_edge ip peers = \<lparr>ed_checks = any_address, ed_local = ip,
     ed_get = (\<lambda>url v. (map_of (map (\<lambda>(i, c). (edge_url i, c)) peers) url, v)), ed_order = rev\<rparr>"

lemma edge_url_inject: "edge_url i = edge_url j \<longleftrightarrow> i = j"
  by (simp add: edge_url_def)

interpretation listed: steady_edges "listed_edge ip peers" "map_of peers"
proof
  show "fst (ed_get (listed_edge ip peers) (edge_url i) w) = map_of peers i" for i and w :: 'a
    by (induction peers) (auto simp: listed_edge_def edge_url_inject)
qed (simp add: listed_edge_def)

theorem edge_health_is_lcm_witness:
  "answer_status (fst (EdgeController_Get (listed_edge ''10.0.0.1'' []) ''10.0.0.9'' ())) = 500"
  using edge_health_is_lcm [of "listed_edge ''10.0.0.1'' []" "''10.0.0.9''" "()"]
  by (simp add: listed_edge_def any_address_def ValidateSrcAddress_def)

theorem edge_findings_witness:
  "\<exists>r st' v. ComController_Post (listed_edge ''10.0.0.1'' [(''10.0.0.2'', 503)]) ''10.0.0.9'' (Inr [''10.0.0.1'', ''10.0.0.2''])
     \<lparr>es_MecList = [], es_NodeList = []\<rparr> () = (r, st', v) \<and> decode_edge (wr_body r) = None"
proof -
  let ?E = "listed_edge ''10.0.0.1'' [(''10.0.0.2'', 503)] :: unit edge_env"
  let ?st = "\<lparr>es_MecList = [], es_NodeList = []\<rparr>"
  obtain r st' v where run: "ComController_Post ?E ''10.0.0.9'' (Inr [''10.0.0.1'', ''10.0.0.2'']) ?st () = (r, st', v)"
    by (rule prod_cases3)
  have "ValidateSrcAddress (ed_checks ?E) ''10.0.0.9'' = None"
    by (simp add: listed_edge_def any_address_def ValidateSrcAddress_def)
  from edge_findings [OF listed.steady_edges_axioms this run] have "decode_edge (wr_body r) = None"
    by (simp add: edge_sick_def listed_edge_def split: if_splits)
  with run show ?thesis by blast
qed

definition host :: "string \<Rightarrow> string \<Rightarrow> MecHostInfo" where
  "host ip vim = \<lparr>mh_MechostIp = ip, mh_MechostName = [], mh_ZipCode = [], mh_City = [], mh_Address = [],
     mh_Affinity = [], mh_UserName = [], mh_MepMIp = [], mh_Coordinates = [], mh_Hwcapabilities = [], mh_Vim = vim,
     mh_ConfigUploadStatus = []\<rparr>"

definition two_edges :: "((string \<Rightarrow> edge_state) \<times> unit) center_env" where
  "two_edges = plain_center any_address ''10.0.0.9''
     (\<lambda>url token w. (Some (Inr [host ''10.0.0.1'' ''K8S'', host ''10.0.0.2'' ''K8S'', host ''10.0.0.3'' ''OpenStack'']), w))
     (network_post (\<lambda>ip. listed_edge ip []) [''10.0.0.1'', ''10.0.0.2''] ''10.0.0.9'')"

interpretation two: self_voting two_edges
proof (rule network_self_voting)
  show "center_orders two_edges" unfolding two_edges_def by (rule plain_orders.center_orders_axioms)
  show "ce_post two_edges = network_post (\<lambda>ip. listed_edge ip []) [''10.0.0.1'', ''10.0.0.2''] ''10.0.0.9''"
    by (simp add: two_edges_def plain_center_def)
qed (simp add: listed_edge_def)

definition quiet :: "(string \<Rightarrow> edge_state) \<times> unit" where
  "quiet = ((\<lambda>ip. \<lparr>es_MecList = [], es_NodeList = []\<rparr>), ())"

lemma two_hosts:
  "ce_inventory two_edges url token quiet =
     (Some (Inr [host ''10.0.0.1'' ''K8S'', host ''10.0.0.2'' ''K8S'', host ''10.0.0.3'' ''OpenStack'']), quiet)"
  "k8s_hosts [host ''10.0.0.1'' ''K8S'', host ''10.0.0.2'' ''K8S'', host ''10.0.0.3'' ''OpenStack''] =
     [''10.0.0.1'', ''10.0.0.2'']"
  "os_hosts [host ''10.0.0.1'' ''K8S'', host ''10.0.0.2'' ''K8S'', host ''10.0.0.3'' ''OpenStack''] = [''10.0.0.3'']"
  "ValidateSrcAddress (ce_checks two_edges) ''10.0.0.9'' = None"
  by (simp_all add: two_edges_def plain_center_def k8s_hosts_def os_hosts_def host_def any_address_def
      ValidateSrcAddress_def)

lemma two_post:
  assumes "ip \<in> {''10.0.0.1'', ''10.0.0.2''}"
  shows "\<exists>body res w'. ce_post two_edges (check_url ip) hosts w = (Some body, w') \<and>
    decode_edge body = Some res \<and> eh_CheckerIp res = ip"
proof -
  let ?E = "listed_edge ip [] :: unit edge_env"
  obtain r st' v where run: "ComController_Post ?E ''10.0.0.9'' (Inr hosts) (fst w ip) (snd w) = (r, st', v)"
    by (metis surj_pair)
  have "ValidateSrcAddress (ed_checks ?E) ''10.0.0.9'' = None"
    by (simp add: listed_edge_def any_address_def ValidateSrcAddress_def)
  from edge_findings [OF listed.steady_edges_axioms this run]
  obtain res where "eh_CheckerIp res = ip" "decode_edge (wr_body r) = Some res"
    by (auto simp: edge_sick_def listed_edge_def)
  moreover have "ce_post two_edges (check_url ip) hosts w = (Some (wr_body r), ((fst w)(ip := st'), v))"
    using assms run by (auto simp: two_edges_def plain_center_def network_post_def check_url_def)
  ultimately show ?thesis by blast
qed

lemma two_votes:
  "\<exists>votes w. collect_votes two_edges [''10.0.0.1'', ''10.0.0.2''] [''10.0.0.1'', ''10.0.0.2''] ([], no_answer) quiet =
     ((votes, no_answer), w) \<and> ''10.0.0.1'' \<in> fst ` set votes"
proof -
  let ?hosts = "[''10.0.0.1'', ''10.0.0.2'']"
  obtain b1 r1 w1 where 1: "ce_post two_edges (check_url ''10.0.0.1'') ?hosts quiet = (Some b1, w1)"
      "decode_edge b1 = Some r1" "eh_CheckerIp r1 = ''10.0.0.1''"
    using two_post [of "''10.0.0.1''" ?hosts quiet] by auto
  obtain b2 r2 w2 where 2: "ce_post two_edges (check_url ''10.0.0.2'') ?hosts w1 = (Some b2, w2)"
      "decode_edge b2 = Some r2" "eh_CheckerIp r2 = ''10.0.0.2''"
    using two_post [of "''10.0.0.2''" ?hosts w1] by auto
  have "collect_votes two_edges ?hosts ?hosts ([], no_answer) quiet =
      ((al_put ''10.0.0.2'' (marks_of r2) (al_put ''10.0.0.1'' (marks_of r1) []), no_answer), w2)"
    using 1 2 by simp
  then show ?thesis by (intro exI conjI) (assumption, simp)
qed

theorem answering_edge_is_healthy_witness:
  "\<exists>results. wr_body (fst (RunController_Get two_edges ''10.0.0.9'' ''t1'' ''token'' quiet)) = [ListJson results] \<and>
     \<lparr>ci_CheckedIp = ''10.0.0.1'', ci_Condition = True\<rparr> \<in> set results"
proof -
  obtain votes w where run: "collect_votes two_edges [''10.0.0.1'', ''10.0.0.2''] [''10.0.0.1'', ''10.0.0.2'']
      ([], no_answer) quiet = ((votes, no_answer), w)" "''10.0.0.1'' \<in> fst ` set votes"
    using two_votes by blast
  have post: "ce_post two_edges = network_post (\<lambda>ip. listed_edge ip []) [''10.0.0.1'', ''10.0.0.2''] ''10.0.0.9''"
    by (simp add: two_edges_def plain_center_def)
  have "reordering (ed_order (listed_edge ip []))" for ip by (simp add: listed_edge_def)
  from answering_edge_is_healthy [OF two.center_orders_axioms post this two_hosts(4,1) run(1)
      [folded two_hosts(2)] run(2)]
  show ?thesis by (auto simp: no_answer_def)
qed

theorem center_counts_votes_witness:
  "\<exists>results w. RunController_Get two_edges ''10.0.0.9'' ''t1'' ''token'' quiet = (write_chunk (ListJson results) no_answer, w) \<and>
     \<lparr>ci_CheckedIp = ''10.0.0.3'', ci_Condition = True\<rparr> \<in> set results"
proof -
  obtain votes w where run: "collect_votes two_edges [''10.0.0.1'', ''10.0.0.2''] [''10.0.0.1'', ''10.0.0.2'']
      ([], no_answer) quiet = ((votes, no_answer), w)"
    using two_votes by blast
  from center_counts_votes [OF two.center_orders_axioms two_hosts(4,1) run [folded two_hosts(2)], of "''t1''" "''token''"]
  obtain results where "RunController_Get two_edges ''10.0.0.9'' ''t1'' ''token'' quiet =
      (write_chunk (ListJson results) no_answer, w)"
    "\<lparr>ci_CheckedIp = ''10.0.0.3'', ci_Condition = True\<rparr> \<in> set results"
    unfolding two_hosts(3) by fastforce
  then show ?thesis by blast
qed

end
