(* ===== verification/Dns_Server.thy ===== *)
theory Dns_Server
  imports Dns_Mgmt
begin

text \<open>
  The query path and the start-up checks of the DNS server
  (\<open>dns-server/dns.go\<close>, \<open>dns-server/main.go\<close>): \<open>handleDNS\<close> with
  its validation, the lookup in the store, the forwarder with its retries and the
  shuffle for load balancing; \<open>validateInputAndGenerateConfig\<close>.  The message
  type of the package \<open>dns\<close> is a record of the fields the code uses; the reply
  constructors, the exchange with the forwarder and the shuffle are parameters, with
  the locale \<open>dns_replies\<close> for what the code relies on.
\<close>

section \<open>Messages and configuration\<close>

record Msg =
  msg_Id :: "16 word"
  msg_Response :: bool
  msg_Opcode :: nat
  msg_Authoritative :: bool
  msg_Rcode :: nat
  msg_Question :: "Question list"
  msg_Answer :: "RR list"

definition new_Msg :: Msg where
  "new_Msg = \<lparr>msg_Id = 0, msg_Response = False, msg_Opcode = 0, msg_Authoritative = False,
              msg_Rcode = 0, msg_Question = [], msg_Answer = []\<rparr>"

abbreviation OpcodeQuery :: nat where "OpcodeQuery \<equiv> 0"
abbreviation RcodeSuccess :: nat where "RcodeSuccess \<equiv> 0"
abbreviation RcodeFormatError :: nat where "RcodeFormatError \<equiv> 1"
abbreviation RcodeServerFailure :: nat where "RcodeServerFailure \<equiv> 2"
abbreviation RcodeRefused :: nat where "RcodeRefused \<equiv> 5"

record Config =
  cfg_dbName :: string
  cfg_port :: nat
  cfg_mgmtPort :: nat
  cfg_ipAdd :: "ip option"
  cfg_ipMgmtAdd :: "ip option"
  cfg_forwarder :: "ip option"
  cfg_connectionTimeout :: nat
  cfg_loadBalance :: bool

definition DefaultIP :: string where "DefaultIP = ''0.0.0.0''"
definition ForwardRetryCount :: nat where "ForwardRetryCount = 3"
definition MaxDNSQuestionLength :: nat where "MaxDNSQuestionLength = MaxDNSFQDNLength + 1"

text \<open>The two reply constructors of \<open>dns.Msg\<close>.\<close>

record dns_lib =
  SetReply :: "Msg \<Rightarrow> Msg \<Rightarrow> Msg"
  SetRcode :: "Msg \<Rightarrow> Msg \<Rightarrow> nat \<Rightarrow> Msg"

section \<open>Queries\<close>

definition quoted :: "string \<Rightarrow> string" where
  "quoted s = CHR 0x22 # s @ [CHR 0x22]"

text \<open>\<open>c.Exchange\<close> may answer each attempt differently; attempt \<open>i\<close> of
  \<open>n\<close> is made when the earlier ones failed.\<close>

fun forward_loop :: "(nat \<Rightarrow> Msg \<Rightarrow> string \<Rightarrow> Msg go_result) \<Rightarrow> nat \<Rightarrow> nat \<Rightarrow> Msg \<Rightarrow> string \<Rightarrow> Msg option" where
  "forward_loop exchange i 0 req addr = None"
| "forward_loop exchange i (Suc n) req addr =
     (case exchange i req addr of
        Inl e \<Rightarrow> forward_loop exchange (Suc i) n req addr
      | Inr ret \<Rightarrow> if msg_Rcode ret = RcodeSuccess then Some ret
                    else forward_loop exchange (Suc i) n req addr)"

definition forward :: "Config \<Rightarrow> (nat \<Rightarrow> Msg \<Rightarrow> string \<Rightarrow> Msg go_result) \<Rightarrow> Msg \<Rightarrow> Msg go_result" where
  "forward config exchange req =
     (let forwarder = ip_string (cfg_forwarder config); name = quoted (q_Name (hd (msg_Question req))) in
      if forwarder = DefaultIP
      then Inl (Err (''could not resolve the request '' @ name @ '' and no forwarder is configured''))
      else (case forward_loop exchange 0 ForwardRetryCount req (forwarder @ '':53'') of
              Some ret \<Rightarrow> Inr ret
            | None \<Rightarrow> Inl (Err (''forward of request '' @ name @ '' was not accepted''))))"

definition validateQuestion :: "Msg \<Rightarrow> bool" where
  "validateQuestion req =
     (if length (msg_Question req) \<noteq> 1 then False
      else if length (q_Name (msg_Question req ! 0)) = 0
           \<or> MaxDNSQuestionLength < length (q_Name (msg_Question req ! 0)) then False
      else True)"

definition writeErrorResponse :: "dns_lib \<Rightarrow> Msg \<Rightarrow> nat \<Rightarrow> Msg" where
  "writeErrorResponse L req rc =
     (let response = SetReply L new_Msg req in SetRcode L response req rc)"

definition writeSuccessResponse :: "dns_lib \<Rightarrow> RR list \<Rightarrow> Msg \<Rightarrow> Msg" where
  "writeSuccessResponse L answer req =
     (let response = new_Msg\<lparr>msg_Answer := answer, msg_Authoritative := True\<rparr> in SetReply L response req)"

text \<open>\<open>handleDNS\<close>: the messages handed to the response writer.  A failing
  write is only logged.  \<^const>\<open>None\<close> is a lookup that does not return, and a
  panic of the lookup is passed on.\<close>

definition handleDNS ::
  "dns_lib \<Rightarrow> 's bolt_ops \<Rightarrow> (string \<Rightarrow> nat \<Rightarrow> nat \<times> bool) \<Rightarrow> (string list \<Rightarrow> string list) \<Rightarrow> (RR list \<Rightarrow> RR list)
   \<Rightarrow> (nat \<Rightarrow> Msg \<Rightarrow> string \<Rightarrow> Msg go_result) \<Rightarrow> Config \<Rightarrow> 's \<Rightarrow> Msg \<Rightarrow> Msg list go_result option" where
  "handleDNS L B nextLabel iter shuffle exchange config s req =
     (if \<not> validateQuestion req then Some (Inr [writeErrorResponse L req RcodeFormatError])
      else if msg_Opcode req = OpcodeQuery then
        map_option (\<lambda>r. case r of
            Inl (Panic p) \<Rightarrow> Inl (Panic p)
          | Inl err \<Rightarrow>
              (case forward config exchange req of
                 Inl err \<Rightarrow> Inr [writeErrorResponse L req RcodeServerFailure]
               | Inr respMsg \<Rightarrow> Inr [respMsg])
          | Inr rrs \<Rightarrow>
              (let rrs = (if cfg_loadBalance config \<and> 1 < length rrs then shuffle rrs else rrs)
               in Inr [writeSuccessResponse L rrs req]))
          (GetResourceRecord B nextLabel iter (msg_Question req ! 0) s)
      else Some (Inr [writeErrorResponse L req RcodeRefused]))"

section \<open>Start-up\<close>

record InputParameters =
  in_dbName :: string
  in_port :: nat
  in_mgmtPort :: nat
  in_connTimeOut :: nat
  in_ipAddString :: string
  in_ipMgmtAddString :: string
  in_forwarder :: string
  in_loadBalance :: bool

definition DBStringExceptions :: string where "DBStringExceptions = [CHR ''/'', CHR ''.'', CHR 0x5C]"
definition MaxDBNameLength :: nat where "MaxDBNameLength = 256"
definition MaxPortNumber :: nat where "MaxPortNumber = 65535"
definition MinConnTimeout :: nat where "MinConnTimeout = 2"
definition MaxConnTimeout :: nat where "MaxConnTimeout = 50"

definition invalid_unicast :: "ip option \<Rightarrow> bool" where
  "invalid_unicast ip = (case ip of None \<Rightarrow> False | Some p \<Rightarrow> IsMulticast p \<or> ip_equal p IPv4bcast)"

text \<open>Each \<open>log.Fatalf\<close> ends the process with its message.\<close>

definition validateInputAndGenerateConfig :: "InputParameters \<Rightarrow> Config go_result" where
  "validateInputAndGenerateConfig p =
     (let ipAdd = ParseIP (in_ipAddString p); ipMgmtAdd = ParseIP (in_ipMgmtAddString p);
          forwarderAdd = ParseIP (in_forwarder p) in
      if MaxDBNameLength \<le> length (in_dbName p) then Inl (Fatal ''Failed to parse db name'')
      else if contains_any (in_dbName p) DBStringExceptions then Inl (Fatal ''Failed to parse db name'')
      else if MaxPortNumber < in_port p \<or> in_port p = 0 then Inl (Fatal ''Failed to parse port number'')
      else if MaxPortNumber < in_mgmtPort p \<or> in_mgmtPort p = 0
      then Inl (Fatal ''Failed to parse management port number'')
      else if in_port p = in_mgmtPort p then Inl (Fatal ''Port number conflict'')
      else if MaxConnTimeout < in_connTimeOut p \<or> in_connTimeOut p < MinConnTimeout
      then Inl (Fatal ''Failed to parse connection timeout input'')
      else if ipAdd = None then Inl (Fatal ''Failed to parse ip address'')
      else if invalid_unicast ipAdd then Inl (Fatal ''Multicast or broadcast ip address'')
      else if ipMgmtAdd = None then Inl (Fatal ''Failed to parse management ip address'')
      else if invalid_unicast ipMgmtAdd then Inl (Fatal ''Multicast or broadcast ip address'')
      else if forwarderAdd = None then Inl (Fatal ''Failed to parse forwarder address'')
      else if invalid_unicast forwarderAdd then Inl (Fatal ''Multicast or broadcast ip address'')
      else Inr \<lparr>cfg_dbName = in_dbName p, cfg_port = in_port p, cfg_mgmtPort = in_mgmtPort p,
                cfg_ipAdd = ipAdd, cfg_ipMgmtAdd = ipMgmtAdd, cfg_forwarder = forwarderAdd,
                cfg_connectionTimeout = in_connTimeOut p, cfg_loadBalance = in_loadBalance p\<rparr>)"

section \<open>Replies\<close>

text \<open>What the documentation of \<open>SetReply\<close> and \<open>SetRcode\<close> promises of a
  reply.\<close>

locale dns_replies =
  fixes L :: dns_lib
  assumes reply_id: "msg_Id (SetReply L m req) = msg_Id req"
    and reply_response: "msg_Response (SetReply L m req)"
    and reply_rcode: "msg_Rcode (SetReply L m req) = RcodeSuccess"
    and reply_answer: "msg_Answer (SetReply L m req) = msg_Answer m"
    and reply_authoritative: "msg_Authoritative (SetReply L m req) = msg_Authoritative m"
    and rcode_id: "msg_Id (SetRcode L m req rc) = msg_Id req"
    and rcode_response: "msg_Response (SetRcode L m req rc)"
    and rcode_rcode: "msg_Rcode (SetRcode L m req rc) = rc"
    and rcode_answer: "msg_Answer (SetRcode L m req rc) = msg_Answer m"
begin

lemma error_response:
  "msg_Id (writeErrorResponse L req rc) = msg_Id req" "msg_Response (writeErrorResponse L req rc)"
  "msg_Rcode (writeErrorResponse L req rc) = rc" "msg_Answer (writeErrorResponse L req rc) = []"
  by (simp_all add: writeErrorResponse_def Let_def rcode_id rcode_response rcode_rcode rcode_answer
      reply_answer new_Msg_def)

lemma success_response:
  "msg_Id (writeSuccessResponse L ans req) = msg_Id req" "msg_Response (writeSuccessResponse L ans req)"
  "msg_Rcode (writeSuccessResponse L ans req) = RcodeSuccess" "msg_Answer (writeSuccessResponse L ans req) = ans"
  "msg_Authoritative (writeSuccessResponse L ans req)"
  by (simp_all add: writeSuccessResponse_def Let_def reply_id reply_response reply_rcode reply_answer
      reply_authoritative)

end

definition plain_dns_lib :: dns_lib where
  "plain_dns_lib = \<lparr>
     SetReply = (\<lambda>m req. m\<lparr>msg_Id := msg_Id req, msg_Response := True, msg_Opcode := msg_Opcode req,
                           msg_Rcode := RcodeSuccess, msg_Question := take 1 (msg_Question req)\<rparr>),
     SetRcode = (\<lambda>m req rc. m\<lparr>msg_Id := msg_Id req, msg_Response := True, msg_Opcode := msg_Opcode req,
                           msg_Rcode := rc, msg_Question := take 1 (msg_Question req)\<rparr>)\<rparr>"

interpretation plain_replies: dns_replies plain_dns_lib
  by unfold_locales (simp_all add: plain_dns_lib_def)

section \<open>Forwarding\<close>

definition accepted :: "(nat \<Rightarrow> Msg \<Rightarrow> string \<Rightarrow> Msg go_result) \<Rightarrow> Msg \<Rightarrow> string \<Rightarrow> nat \<Rightarrow> Msg \<Rightarrow> bool" where
  "accepted exchange req addr i m \<longleftrightarrow> exchange i req addr = Inr m \<and> msg_Rcode m = RcodeSuccess"

lemma forward_loop_Some:
  "forward_loop exchange i n req addr = Some m \<longleftrightarrow>
   (\<exists>j<n. accepted exchange req addr (i + j) m \<and> (\<forall>l<j. \<forall>m'. \<not> accepted exchange req addr (i + l) m'))"
proof (induction n arbitrary: i)
  case (Suc n)
  show ?case
  proof (cases "\<exists>m'. accepted exchange req addr i m'")
    case True
    then obtain m' where m': "accepted exchange req addr i m'" by blast
    then have "forward_loop exchange i (Suc n) req addr = Some m'" by (simp add: accepted_def)
    moreover have "accepted exchange req addr i m \<longleftrightarrow> m = m'"
      using m' by (auto simp: accepted_def)
    ultimately show ?thesis using m' by (auto simp: Ex_less_Suc2 All_less_Suc2)
  next
    case False
    then have "forward_loop exchange i (Suc n) req addr = forward_loop exchange (Suc i) n req addr"
      by (auto simp: accepted_def split: sum.splits)
    moreover have "(\<exists>j<Suc n. accepted exchange req addr (i + j) m \<and> (\<forall>l<j. \<forall>m'. \<not> accepted exchange req addr (i + l) m'))
      \<longleftrightarrow> (\<exists>j<n. accepted exchange req addr (Suc i + j) m \<and> (\<forall>l<j. \<forall>m'. \<not> accepted exchange req addr (Suc i + l) m'))"
      using False by (auto simp: Ex_less_Suc2 All_less_Suc2)
    ultimately show ?thesis using Suc by simp
  qed
qed simp

section \<open>Answers from the store\<close>

fun rr_addr :: "RR \<Rightarrow> ip option" where
  "rr_addr (RR_A h a) = a" | "rr_addr (RR_AAAA h a) = a"

fun rr_header :: "RR \<Rightarrow> RR_Header" where
  "rr_header (RR_A h a) = h" | "rr_header (RR_AAAA h a) = h"

definition answer_ok :: "RR \<Rightarrow> bool" where
  "answer_ok r = (case rr_addr r of None \<Rightarrow> False
     | Some p \<Rightarrow> length p = 16 \<and> \<not> IsMulticast p \<and> p \<noteq> IPv4bcast \<and> hdr_Ttl (rr_header r) \<noteq> 0)"

text \<open>The record that answers a question with one of the stored addresses.\<close>

definition answerRR :: "Question \<Rightarrow> 32 word \<Rightarrow> string \<Rightarrow> RR" where
  "answerRR q ttl ip = (if q_Qtype q = TypeA then RR_A else RR_AAAA)
     \<lparr>hdr_Name = q_Name q, hdr_Rrtype = q_Qtype q, hdr_Class = ClassINET, hdr_Ttl = ttl\<rparr> (ParseIP ip)"

lemma answerRR_sel [simp]:
  "rr_addr (answerRR q ttl ip) = ParseIP ip" "hdr_Ttl (rr_header (answerRR q ttl ip)) = ttl"
  by (simp_all add: answerRR_def)

lemma pointToRR_eq:
  "pointToRR q v = (if q_Qtype q = TypeA \<or> q_Qtype q = TypeAAAA then (\<lambda>ip. [answerRR q (val_TTL v) ip]) else (\<lambda>ip. []))"
  by (auto simp: pointToRR_def answerRR_def Let_def fun_eq_iff)

lemma getRR_answer_ok:
  assumes "store_ok B s" and "r \<in> set (getRRFromZoneBucket B s z k q)"
  shows "answer_ok r"
proof -
  obtain bs v where g: "bolt_get B z k s = Some bs" and v: "unmarshal_conf bs = Some v"
    and r: "r \<in> set (concat (map (pointToRR q v) (val_PointTo v)))"
    using assms(2) by (simp add: getRRFromZoneBucket_def split: option.splits if_splits) metis
  from assms(1) g have "entry_ok k bs" by (auto simp: store_ok_def)
  with v have ok: "val_TTL v \<noteq> 0" "list_all valid_rdata (val_PointTo v)" by (auto simp: entry_ok_def)
  from r obtain ip where ip: "ip \<in> set (val_PointTo v)" and r': "r \<in> set (pointToRR q v ip)" by auto
  from ok(2) ip have "valid_rdata ip" by (auto simp: list_all_iff)
  then obtain p where p: "ParseIP ip = Some p" "\<not> IsMulticast p" "\<not> ip_equal p IPv4bcast"
    by (auto simp: valid_rdata_def split: option.splits)
  have "r = answerRR q (val_TTL v) ip" using r' by (simp add: pointToRR_eq split: if_splits)
  with p ok(1) ParseIP_length [OF p(1)] show ?thesis
    by (auto simp: answer_ok_def ip_equal_def IPv4bcast_def)
qed

lemma getRR_value:
  assumes "bolt_get B z k s = Some (Enc v)" and "val_RRClass v = q_Qclass q"
    and "q_Qtype q = TypeA \<or> q_Qtype q = TypeAAAA"
  shows "getRRFromZoneBucket B s z k q = map (answerRR q (val_TTL v)) (val_PointTo v)"
  using assms by (simp add: getRRFromZoneBucket_def pointToRR_eq concat_map_singleton)

context bolt_store
begin

lemma lookup_returns:
  assumes "next_label_ok nl" and "store_ok B s" and "bolt_begin B False s = None"
  shows "\<exists>r. GetResourceRecord B nl iter q s = Some r \<and> (\<forall>p. r \<noteq> Inl (Panic p))
    \<and> (\<forall>rrs. r = Inr rrs \<longrightarrow> rrs \<noteq> [] \<and> (\<forall>x\<in>set rrs. answer_ok x))"
proof -
  let ?k = "\<lparr>key_Host = to_lower (q_Name q), key_RRType = q_Qtype q\<rparr>"
  from GetResourceRecord_eq [OF assms(1) _ assms(3), of q iter] assms(2) obtain zs where
    eq: "GetResourceRecord B nl iter q s = Some (let r = zone_search B s ?k q (iter zs) []
           in if r = [] then Inl (Err ''could not process/retrieve the query'') else Inr r)"
    by (auto simp: store_ok_def)
  show ?thesis
  proof (cases "zone_search B s ?k q (iter zs) [] = []")
    case False
    from zone_search_from [OF this] obtain z where
      "zone_search B s ?k q (iter zs) [] = getRRFromZoneBucket B s z ?k q" by blast
    with eq False getRR_answer_ok [OF assms(2)] show ?thesis by (auto simp: Let_def)
  qed (simp add: eq)
qed

lemma add_then_lookup:
  assumes "next_label_ok nl" and "reordering iter" and "store_ok B s"
    and b: "bolt_begin B False s = None" "bolt_begin B False s' = None"
    and add: "handleAddResourceRecords B zone (Some rr) s = (Inr (StatusOK, m), s')"
    and q: "to_lower (q_Name q) = to_lower (rr_Name rr)" "rrTypeMap (rr_Type rr) = Some (q_Qtype q)"
      "rrClassMap (rr_Class rr) = Some (q_Qclass q)"
    and zs: "question_zones nl (to_lower (q_Name q)) = Some zs" "default_zone zone \<in> set zs"
  shows "GetResourceRecord B nl iter q s' = Some (Inr (map (answerRR q (rr_TTL rr)) (rr_RData rr)))"
  using add
proof (cases rule: handleAdd_cases)
  case (2 rr')
  then have rr': "rr' = rr" by simp
  let ?k = "\<lparr>key_Host = to_lower (q_Name q), key_RRType = q_Qtype q\<rparr>"
  from SetResourceRecord_ok [OF 2(4)] obtain bs where root: "bolt_has_root B s'"
    and e: "setOrCreateDBEntryGeneration (bolt_get B (default_zone zone) ?k s) rr = Inr bs"
    and g: "\<forall>z k'. bolt_get B z k' s' = (if z = default_zone zone \<and> k' = ?k then Some bs else bolt_get B z k' s)"
    using q rr' by (auto simp: Let_def)
  have none: "\<forall>z. bolt_get B z ?k s = None"
    using exists_iff [OF assms(3) b(1) q(2) 2(2) [unfolded rr']] 2(3) q(1) rr' by auto
  note v = validateSetRecordInput_ok [OF 2(2) [unfolded rr']]
  obtain w where w: "bs = Enc w" "val_TTL w = rr_TTL rr" "val_PointTo w = rr_RData rr" "val_RRClass w = q_Qclass q"
    using setOrCreate_ok [OF e] v q(3) by auto
  have "q_Qtype q = TypeA \<or> q_Qtype q = TypeAAAA" using q(2) by (auto simp: rrTypeMap_Some)
  then have rrs: "getRRFromZoneBucket B s' (default_zone zone) ?k q = map (answerRR q (rr_TTL rr)) (rr_RData rr)"
    using getRR_value [of B "default_zone zone" ?k s' w q] g w by simp
  then have "getRRFromZoneBucket B s' (default_zone zone) ?k q \<noteq> []" using v(5) by simp
  moreover have "\<forall>z'. bolt_get B z' ?k s' \<noteq> None \<longrightarrow> z' = default_zone zone" using g none by simp
  ultimately show ?thesis
    using GetResourceRecord_unique [OF assms(1,2) root b(2) zs refl] rrs by simp
qed simp

lemma delete_then_lookup:
  assumes "next_label_ok nl" and "store_ok B s" and "unique_keys B s" and "bolt_begin B False s' = None"
    and "handleDeleteResourceRecord B zone fqdn rrtype s = (Inr (StatusOK, m), s')"
    and "to_lower (q_Name q) = to_lower fqdn" and "rrTypeMap rrtype = Some (q_Qtype q)"
  shows "GetResourceRecord B nl iter q s' = Some (Inl (Err ''could not process/retrieve the query''))"
  using assms(5)
proof (cases rule: handleDelete_cases)
  case 2
  let ?k = "\<lparr>key_Host = to_lower (q_Name q), key_RRType = q_Qtype q\<rparr>"
  from DelResourceRecord_ok [OF 2(1)] obtain z where z: "bolt_get B z ?k s \<noteq> None"
    and root: "bolt_has_root B s' = bolt_has_root B s"
    and g: "\<forall>z' k'. bolt_get B z' k' s' = (if z' = z \<and> k' = ?k then None else bolt_get B z' k' s)"
    using assms(6,7) by (auto simp: Let_def)
  have "bolt_get B z' ?k s' = None" for z'
    using g z assms(3) unfolding unique_keys_def by metis
  then show ?thesis
    using GetResourceRecord_absent [OF assms(1) _ assms(4)] root assms(2) by (simp add: store_ok_def)
qed simp

end

section \<open>Properties\<close>

text \<open>A server without a forwarder, the query for the record of the witnesses, and a
  network that never answers.\<close>

definition lone_config :: Config where
  "lone_config = \<lparr>cfg_dbName = ''dbEgDns'', cfg_port = 53, cfg_mgmtPort = 8080, cfg_ipAdd = ParseIP ''0.0.0.0'',
     cfg_ipMgmtAdd = ParseIP ''0.0.0.0'', cfg_forwarder = ParseIP ''0.0.0.0'', cfg_connectionTimeout = 2,
     cfg_loadBalance = True\<rparr>"

definition www_question :: Question where
  "www_question = \<lparr>q_Name = ''WWW.Example.com.'', q_Qtype = TypeA, q_Qclass = ClassINET\<rparr>"

definition www_query :: Msg where
  "www_query = new_Msg\<lparr>msg_Id := 7, msg_Question := [www_question]\<rparr>"

definition silent_exchange :: "nat \<Rightarrow> Msg \<Rightarrow> string \<Rightarrow> Msg go_result" where
  "silent_exchange i req addr = Inl (Err ''i/o timeout'')"

lemma www_db_reached: "www_db = mgmt_run (mem_bolt_ops False) [PostRR [] (Some www_rr)] empty_db"
  by (simp add: mgmt_run_def post_www del: mgmt_handle.simps)

lemma www_db_ok [simp]: "store_ok (mem_bolt_ops False) www_db"
  unfolding www_db_reached by (rule mem_bolt.mgmt_run_store_ok) simp

text \<open>Every query is answered exactly once.  On a store that keeps the data
  invariant the lookup returns, and one message is written: a format error when the
  question is not a single non-empty name of at most 254 bytes, a refusal for an opcode
  other than QUERY, an authoritative answer with a permutation of the stored records
  when the lookup succeeds, the forwarder's reply when it fails, and a server failure
  when that fails too.\<close>

theorem handleDNS_one_response:
  assumes "bolt_store B" and "dns_replies L" and "next_label_ok nl" and "reordering shuffle"
    and "store_ok B s" and "bolt_begin B False s = None"
  shows "\<exists>m. handleDNS L B nl iter shuffle exchange config s req = Some (Inr [m])
    \<and> (if \<not> validateQuestion req
        then msg_Rcode m = RcodeFormatError \<and> msg_Id m = msg_Id req \<and> msg_Answer m = []
        else if msg_Opcode req \<noteq> OpcodeQuery
        then msg_Rcode m = RcodeRefused \<and> msg_Id m = msg_Id req \<and> msg_Answer m = []
        else (\<exists>rrs. GetResourceRecord B nl iter (msg_Question req ! 0) s = Some (Inr rrs)
                \<and> msg_Rcode m = RcodeSuccess \<and> msg_Id m = msg_Id req \<and> msg_Authoritative m
                \<and> mset (msg_Answer m) = mset rrs)
           \<or> (\<exists>e. GetResourceRecord B nl iter (msg_Question req ! 0) s = Some (Inl e)
                \<and> (case forward config exchange req of
                     Inr reply \<Rightarrow> m = reply
                   | Inl _ \<Rightarrow> msg_Rcode m = RcodeServerFailure \<and> msg_Id m = msg_Id req \<and> msg_Answer m = [])))"
proof (cases "validateQuestion req \<and> msg_Opcode req = OpcodeQuery")
  case True
  note E = dns_replies.error_response [OF assms(2)] and S = dns_replies.success_response [OF assms(2)]
  obtain r where r: "GetResourceRecord B nl iter (msg_Question req ! 0) s = Some r" "\<forall>p. r \<noteq> Inl (Panic p)"
    using bolt_store.lookup_returns [OF assms(1,3,5,6)] by blast
  show ?thesis
  proof (cases r)
    case (Inl e)
    then have "handleDNS L B nl iter shuffle exchange config s req = Some (case forward config exchange req of
       Inl err \<Rightarrow> Inr [writeErrorResponse L req RcodeServerFailure] | Inr m \<Rightarrow> Inr [m])"
      using True r by (cases e) (simp_all add: handleDNS_def)
    then show ?thesis using True r Inl by (auto simp: E split: sum.splits)
  next
    case (Inr rrs)
    then show ?thesis
      using True r by (simp add: handleDNS_def Let_def S reordering_mset [OF assms(4)])
  qed
next
  case False
  then show ?thesis by (auto simp: handleDNS_def dns_replies.error_response [OF assms(2)])
qed

theorem handleDNS_one_response_witness:
  "\<exists>m. handleDNS plain_dns_lib (mem_bolt_ops False) plain_next_label rev rev silent_exchange lone_config www_db
         (www_query\<lparr>msg_Opcode := 4\<rparr>) = Some (Inr [m]) \<and> msg_Rcode m = RcodeRefused"
proof -
  have "validateQuestion (www_query\<lparr>msg_Opcode := 4\<rparr>)" and "msg_Opcode (www_query\<lparr>msg_Opcode := 4\<rparr>) \<noteq> OpcodeQuery"
    by code_simp+
  then show ?thesis
    using handleDNS_one_response [OF mem_bolt.bolt_store_axioms plain_replies.dns_replies_axioms plain_next_label_ok
        reordering_rev www_db_ok mem_bolt_begin, of rev silent_exchange lone_config "www_query\<lparr>msg_Opcode := 4\<rparr>"]
    by auto
qed

text \<open>Only usable addresses are served.  Every record of a successful lookup has
  a 16-byte address that is neither multicast nor the broadcast address, and a positive
  time to live: no answer is built around the nil result of a failed parse.\<close>

theorem lookup_answers_ok:
  assumes "bolt_store B" and "next_label_ok nl" and "store_ok B s" and "bolt_begin B False s = None"
  shows "\<exists>r. GetResourceRecord B nl iter q s = Some r
    \<and> (case r of Inr rrs \<Rightarrow> rrs \<noteq> [] \<and> list_all answer_ok rrs | Inl e \<Rightarrow> \<not> is_panic r)"
  using bolt_store.lookup_returns [OF assms, of iter q]
  by (fastforce simp: list_all_iff elim: is_panic.elims split: sum.splits)

theorem lookup_answers_ok_witness:
  "\<exists>r. GetResourceRecord (mem_bolt_ops False) plain_next_label rev www_question
         (mgmt_run (mem_bolt_ops False) [PostRR [] (Some www_rr)] empty_db) = Some r
    \<and> (case r of Inr rrs \<Rightarrow> rrs \<noteq> [] \<and> list_all answer_ok rrs | Inl e \<Rightarrow> \<not> is_panic r)"
  by (rule lookup_answers_ok [OF mem_bolt.bolt_store_axioms plain_next_label_ok mem_bolt.mgmt_run_store_ok]) simp_all

text \<open>(C12) A record that was added is served.  After a POST answered 200 into a zone of
  the queried name, the lookup of that name, in any letter case and whatever order the
  zones are visited in, gives one record per address of the request, in its order, with
  its time to live.\<close>

theorem add_then_query:
  assumes "bolt_store B" and "next_label_ok nl" and "reordering iter" and "store_ok B s"
    and "bolt_begin B False s = None" and "bolt_begin B False s' = None"
    and "handleAddResourceRecords B zone (Some rr) s = (Inr (StatusOK, m), s')"
    and "to_lower (q_Name q) = to_lower (rr_Name rr)" and "rrTypeMap (rr_Type rr) = Some (q_Qtype q)"
    and "rrClassMap (rr_Class rr) = Some (q_Qclass q)"
    and "question_zones nl (to_lower (q_Name q)) = Some zs" and "default_zone zone \<in> set zs"
  shows "GetResourceRecord B nl iter q s' = Some (Inr (map (answerRR q (rr_TTL rr)) (rr_RData rr)))"
  using bolt_store.add_then_lookup [OF assms] .

theorem add_then_query_witness:
  "GetResourceRecord (mem_bolt_ops False) plain_next_label rev www_question www_db
   = Some (Inr [answerRR www_question 30 ''172.168.15.101'', answerRR www_question 30 ''10.0.0.7''])"
proof -
  have q: "to_lower (q_Name www_question) = to_lower (rr_Name www_rr)"
    "rrTypeMap (rr_Type www_rr) = Some (q_Qtype www_question)"
    "rrClassMap (rr_Class www_rr) = Some (q_Qclass www_question)"
    "question_zones plain_next_label (to_lower (q_Name www_question))
      = Some [''www.example.com.'', ''example.com.'', ''com.'', ''.'']"
    "default_zone [] \<in> set [''www.example.com.'', ''example.com.'', ''com.'', ''.'']"
    by code_simp+
  show ?thesis
    using add_then_query [OF mem_bolt.bolt_store_axioms plain_next_label_ok reordering_rev empty_db_ok(1)
        mem_bolt_begin mem_bolt_begin post_www [unfolded mgmt_handle.simps] q]
    by (simp add: www_rr_def)
qed

text \<open>A record that was deleted is gone.  When each key is in one zone only, a
  DELETE answered 200 removes the record from every lookup of its name.\<close>

theorem delete_then_query:
  assumes "bolt_store B" and "next_label_ok nl" and "store_ok B s" and "unique_keys B s"
    and "bolt_begin B False s' = None"
    and "handleDeleteResourceRecord B zone fqdn rrtype s = (Inr (StatusOK, m), s')"
    and "to_lower (q_Name q) = to_lower fqdn" and "rrTypeMap rrtype = Some (q_Qtype q)"
  shows "GetResourceRecord B nl iter q s' = Some (Inl (Err ''could not process/retrieve the query''))"
  using bolt_store.delete_then_lookup [OF assms] .

theorem delete_then_query_witness:
  "\<exists>s'. handleDeleteResourceRecord (mem_bolt_ops False) [] ''www.EXAMPLE.com.'' ''A'' www_db
          = (Inr (StatusOK, ''Success''), s')
    \<and> GetResourceRecord (mem_bolt_ops False) plain_next_label rev www_question s'
      = Some (Inl (Err ''could not process/retrieve the query''))"
proof -
  have del: "handleDeleteResourceRecord (mem_bolt_ops False) [] ''www.EXAMPLE.com.'' ''A'' www_db
             = (Inr (StatusOK, ''Success''), empty_db)"
    by code_simp
  have uniq: "unique_keys (mem_bolt_ops False) www_db"
    by (auto simp: unique_keys_def mem_bolt_ops_def www_db_def split: if_splits option.splits)
  have q: "to_lower (q_Name www_question) = to_lower ''www.EXAMPLE.com.''" "rrTypeMap ''A'' = Some (q_Qtype www_question)"
    by code_simp+
  show ?thesis
    using delete_then_query [OF mem_bolt.bolt_store_axioms plain_next_label_ok www_db_ok uniq mem_bolt_begin del q] del
    by blast
qed

text \<open>The forwarder is asked at most three times: without a configured forwarder
  the query is not sent at all; otherwise the reply is the first of the three attempts
  that is answered with success, and there is an error exactly when none of them is.\<close>

theorem forward_retries:
  "forward config exchange req = Inr reply \<longleftrightarrow>
   ip_string (cfg_forwarder config) \<noteq> DefaultIP
   \<and> (\<exists>i<3. accepted exchange req (ip_string (cfg_forwarder config) @ '':53'') i reply
        \<and> (\<forall>j<i. \<forall>m. \<not> accepted exchange req (ip_string (cfg_forwarder config) @ '':53'') j m))"
  using forward_loop_Some [of exchange 0 3 req "ip_string (cfg_forwarder config) @ '':53''" reply]
  by (auto simp: forward_def Let_def ForwardRetryCount_def split: option.splits if_splits simp del: forward_loop.simps)

theorem forward_retries_witness:
  "forward (lone_config\<lparr>cfg_forwarder := ParseIP ''8.8.8.8''\<rparr>)
     (\<lambda>i req addr. if i = 2 \<and> addr = ''8.8.8.8:53'' then Inr www_query else silent_exchange i req addr) www_query
   = Inr www_query"
proof -
  have "ip_string (cfg_forwarder (lone_config\<lparr>cfg_forwarder := ParseIP ''8.8.8.8''\<rparr>)) = ''8.8.8.8''"
    "msg_Rcode www_query = RcodeSuccess"
    by code_simp+
  then show ?thesis
    by (subst forward_retries) (auto simp: accepted_def DefaultIP_def silent_exchange_def intro!: exI [of _ 2])
qed

definition unicast_address :: "ip option \<Rightarrow> bool" where
  "unicast_address a = (case a of None \<Rightarrow> False
     | Some x \<Rightarrow> length x = 16 \<and> \<not> IsMulticast x \<and> x \<noteq> IPv4bcast)"

lemma unicast_address_parsed:
  "ParseIP t \<noteq> None \<Longrightarrow> \<not> invalid_unicast (ParseIP t) \<Longrightarrow> unicast_address (ParseIP t)"
  by (auto simp: unicast_address_def invalid_unicast_def ip_equal_def IPv4bcast_def dest: ParseIP_length)

text \<open>A generated configuration is usable: two different ports in range, a time-out
  between 2 and 50 seconds, three addresses that are set and not multicast or
  broadcast, and a data base name below 256 bytes without path characters.\<close>

theorem config_valid:
  assumes "validateInputAndGenerateConfig p = Inr c"
  shows "0 < cfg_port c \<and> cfg_port c \<le> 65535 \<and> 0 < cfg_mgmtPort c \<and> cfg_mgmtPort c \<le> 65535
    \<and> cfg_port c \<noteq> cfg_mgmtPort c \<and> 2 \<le> cfg_connectionTimeout c \<and> cfg_connectionTimeout c \<le> 50
    \<and> unicast_address (cfg_ipAdd c) \<and> unicast_address (cfg_ipMgmtAdd c) \<and> unicast_address (cfg_forwarder c)
    \<and> length (cfg_dbName c) < 256 \<and> CHR ''/'' \<notin> set (cfg_dbName c) \<and> CHR ''.'' \<notin> set (cfg_dbName c)"
proof -
  note [simp] = MaxDBNameLength_def MaxPortNumber_def MinConnTimeout_def MaxConnTimeout_def
  have c: "c = \<lparr>cfg_dbName = in_dbName p, cfg_port = in_port p, cfg_mgmtPort = in_mgmtPort p,
      cfg_ipAdd = ParseIP (in_ipAddString p), cfg_ipMgmtAdd = ParseIP (in_ipMgmtAddString p),
      cfg_forwarder = ParseIP (in_forwarder p), cfg_connectionTimeout = in_connTimeOut p,
      cfg_loadBalance = in_loadBalance p\<rparr>"
    and name: "\<not> MaxDBNameLength \<le> length (in_dbName p)" "\<not> contains_any (in_dbName p) DBStringExceptions"
    and port: "\<not> (MaxPortNumber < in_port p \<or> in_port p = 0)"
      "\<not> (MaxPortNumber < in_mgmtPort p \<or> in_mgmtPort p = 0)" "in_port p \<noteq> in_mgmtPort p"
    and wait: "\<not> (MaxConnTimeout < in_connTimeOut p \<or> in_connTimeOut p < MinConnTimeout)"
    and ip: "unicast_address (ParseIP (in_ipAddString p))" "unicast_address (ParseIP (in_ipMgmtAddString p))"
      "unicast_address (ParseIP (in_forwarder p))"
    using assms unfolding validateInputAndGenerateConfig_def Let_def guard_eq_Inr
    by (metis sum.inject(2) unicast_address_parsed)+
  have "CHR ''/'' \<notin> set (in_dbName p) \<and> CHR ''.'' \<notin> set (in_dbName p)"
    using name(2) by (auto simp: contains_any_def list_ex_iff DBStringExceptions_def)
  then show ?thesis using c name(1) port wait ip by simp
qed

theorem config_valid_witness:
  "\<exists>c. validateInputAndGenerateConfig \<lparr>in_dbName = ''zones'', in_port = 53, in_mgmtPort = 8080, in_connTimeOut = 2,
     in_ipAddString = ''0.0.0.0'', in_ipMgmtAddString = ''::1'', in_forwarder = ''8.8.8.8'', in_loadBalance = False\<rparr>
     = Inr c \<and> cfg_port c \<noteq> cfg_mgmtPort c"
proof -
  let ?p = "\<lparr>in_dbName = ''zones'', in_port = 53, in_mgmtPort = 8080, in_connTimeOut = 2,
     in_ipAddString = ''0.0.0.0'', in_ipMgmtAddString = ''::1'', in_forwarder = ''8.8.8.8'', in_loadBalance = False\<rparr>"
  have "is_ok (validateInputAndGenerateConfig ?p)" by code_simp
  then obtain c where "validateInputAndGenerateConfig ?p = Inr c" unfolding is_ok_iff by blast
  with config_valid [OF this] show ?thesis by blast
qed

end
