(* ===== verification/Svc_Correct.thy ===== *)
theory Svc_Correct
  imports Svc_Discover
begin

text \<open>
  What the service interface guarantees, on a service centre and a gateway that keep their
  contracts: \<open>center\<close> for the stored instances, \<open>center_up\<close> for a centre that
  answers, \<open>blind\<close> for calls that do not touch an observed part of the world, and
  \<open>kong\<close> for the services and routes of the gateway.  One in-memory platform is an
  instance of all of them.
\<close>

section \<open>Identifiers\<close>

text \<open>The identifier plugin (\<open>mp1/uuid/mp1context.go\<close>): half of a SHA-256 sum of the
  service's key, or of a random id, as 16 hexadecimal digits.\<close>

definition half_sum :: "(string \<Rightarrow> string) \<Rightarrow> string \<Rightarrow> string" where
  "half_sum sha256 s = hex_encode (take 8 (sha256 s))"

definition GetServiceId :: "(string \<Rightarrow> string) \<Rightarrow> string \<Rightarrow> string \<Rightarrow> string" where
  "GetServiceId sha256 buildin content = (if length content = 0 then buildin else half_sum sha256 content)"

definition GetInstanceId :: "(string \<Rightarrow> string) \<Rightarrow> string \<Rightarrow> string" where
  "GetInstanceId sha256 random = half_sum sha256 random"

definition center_id :: "string \<Rightarrow> bool" where
  "center_id s \<longleftrightarrow> length s = 16 \<and> list_all is_lower_hex s"

lemma lower_hex_digit: "n < 16 \<Longrightarrow> is_lower_hex (Mep_Prelude.hex_digit n)"
  by (auto simp: is_lower_hex_def Mep_Prelude.hex_digit_def is_digit_def)

lemma center_id_plugin:
  assumes "\<And>s. length (sha256 s) = 32"
  shows "center_id (GetInstanceId sha256 random)" "content \<noteq> [] \<Longrightarrow> center_id (GetServiceId sha256 b content)"
proof -
  have "list_all is_lower_hex (hex_encode s)" for s
    by (induction s) (auto simp: hex_encode_def intro!: lower_hex_digit less_mult_imp_div_less)
  with assms show "center_id (GetInstanceId sha256 random)" "content \<noteq> [] \<Longrightarrow> center_id (GetServiceId sha256 b content)"
    by (simp_all add: center_id_def GetInstanceId_def GetServiceId_def half_sum_def)
qed

lemma split_id_center: "center_id s \<Longrightarrow> center_id i \<Longrightarrow> split_id (s @ i) = (s, i)"
  by (simp add: split_id_def center_id_def)

lemma ValidateServiceID_center: "center_id s \<Longrightarrow> center_id i \<Longrightarrow> ValidateServiceID (s @ i)"
  by (auto simp: ValidateServiceID_def center_id_def list_ex_iff intro!: bexI [of _ 0])

section \<open>Contracts\<close>

definition inst_doc :: "MicroServiceInstance \<Rightarrow> (string \<times> string) \<times> string list \<times> props" where
  "inst_doc i = ((mi_ServiceId i, mi_InstanceId i), mi_Endpoints i, mi_Properties i)"

locale center =
  fixes SC :: "'w service_center" and docs :: "'w \<Rightarrow> string \<times> string \<Rightarrow> (string list \<times> props) option"
  assumes create_docs: "docs (snd (sc_create SC ms w)) = docs w"
    and register_ok: "sc_register SC inst w = (Inr iid, w') \<Longrightarrow> iid \<noteq> [] \<Longrightarrow>
      docs w' = (docs w)((mi_ServiceId inst, iid) \<mapsto> (mi_Endpoints inst, mi_Properties inst))"
    and register_err: "sc_register SC inst w = (rr, w') \<Longrightarrow> \<not> is_ok rr \<or> rr = Inr [] \<Longrightarrow> docs w' = docs w"
    and updateProps_ok: "sc_updateProps SC s i m w = (Inr 0, w') \<Longrightarrow>
      \<exists>es m0. docs w (s, i) = Some (es, m0) \<and> docs w' = (docs w)((s, i) \<mapsto> (es, m))"
    and updateProps_err: "sc_updateProps SC s i m w = (r, w') \<Longrightarrow> r \<noteq> Inr 0 \<Longrightarrow> docs w' = docs w"
    and unregister_ok: "sc_unregister SC s i w = (Inr 0, w') \<Longrightarrow> docs w' = (docs w)((s, i) := None)"
    and unregister_err: "sc_unregister SC s i w = (r, w') \<Longrightarrow> r \<noteq> Inr 0 \<Longrightarrow> docs w' = docs w"
    and heartbeat_docs: "docs (snd (sc_heartbeat SC s i w)) = docs w"
    and getInstance_ok: "sc_getInstance SC s i w = (Inr (Some inst), w') \<Longrightarrow>
      inst_doc inst = ((s, i), mi_Endpoints inst, mi_Properties inst) \<and>
      docs w (s, i) = Some (mi_Endpoints inst, mi_Properties inst)"
    and getInstance_docs: "docs (snd (sc_getInstance SC s i w)) = docs w"
    and updateInstance_ok: "sc_updateInstance SC inst w = (None, w') \<Longrightarrow>
      docs w' = (docs w)((mi_ServiceId inst, mi_InstanceId inst) \<mapsto> (mi_Endpoints inst, mi_Properties inst))"
    and updateInstance_err: "sc_updateInstance SC inst w = (Some e, w') \<Longrightarrow> docs w' = docs w"
    and getOne_ok: "sc_getOne SC s i w = (Inr (c, Some inst), w') \<Longrightarrow>
      inst_doc inst = ((s, i), mi_Endpoints inst, mi_Properties inst) \<and>
      docs w (s, i) = Some (mi_Endpoints inst, mi_Properties inst)"
    and getOne_docs: "docs (snd (sc_getOne SC s i w)) = docs w"
    and files_ok: "sc_files SC w = (Inr ds, w') \<Longrightarrow> decode_all ds = Some inss \<Longrightarrow>
      set (map inst_doc inss) = {(k, d). docs w k = Some d} \<and> distinct (map inst_doc inss)"
    and files_docs: "docs (snd (sc_files SC w)) = docs w"
    and find_docs: "docs (snd (sc_find SC a n v w)) = docs w"

locale center_up = center SC docs for SC :: "'w service_center" and docs :: "'w \<Rightarrow> string \<times> string \<Rightarrow> (string list \<times> props) option" +
  assumes getOne_up: "docs w (s, i) = Some d \<Longrightarrow> \<exists>inst w'. sc_getOne SC s i w = (Inr (0, Some inst), w')"
    and updateProps_up: "docs w (s, i) = Some d \<Longrightarrow> fst (sc_updateProps SC s i m w) = Inr 0"
    and create_id: "sc_create SC ms w = (Inr sid, w') \<Longrightarrow> sid \<noteq> [] \<Longrightarrow> center_id sid"
    and register_id: "sc_register SC inst w = (Inr iid, w') \<Longrightarrow> iid \<noteq> [] \<Longrightarrow> center_id iid"

text \<open>The host's calls do not change the observed part \<open>f\<close> of the world.\<close>

locale blind =
  fixes H :: "'w svc_host" and f :: "'w \<Rightarrow> 'x"
  assumes blind_config: "f (snd (sh_config H w)) = f w"
    and blind_uuid: "f (snd (sh_uuid H w)) = f w"
    and blind_clock: "f (snd (sh_clock H w)) = f w"
    and blind_send: "f (snd (sh_send H meth url body w)) = f w"
begin

lemma blind_gateway:
  "f (RegisterToApiGw H uri n b w) = f w" "f (CleanUpApiGwEntry H n w) = f w"
  by (simp_all add: RegisterToApiGw_def AddOrUpdateApiGwRoute_def AddOrUpdateApiGwService_def EnableJwtPlugin_def
      CleanUpApiGwEntry_def DeleteApiGwService_def DeleteJwtPlugin_def DeleteApiGwRoute_def blind_send Let_def)

lemma blind_register_new: "f (snd (register_new H b news mw)) = f (snd mw)"
  by (induction news arbitrary: mw) (auto simp: register_new_def blind_gateway)

lemma blind_remove: "f (snd (remove_deleted H dels mw)) = f (snd mw)"
  by (induction dels arbitrary: mw) (auto simp: remove_deleted_def blind_gateway)

lemma blind_cleanup: "f (fold (\<lambda>(k, v). CleanUpApiGwEntry H v) ends w) = f w"
  by (induction ends arbitrary: w) (auto simp: blind_gateway)

lemmas blind_folds = blind_register_new blind_remove blind_cleanup

lemma blind_split: "f (snd (split_endpoints H s b m uris acc w)) = f w"
proof (induction uris arbitrary: acc w)
  case Nil
  show ?case by (cases acc) simp
next
  case (Cons uri uris)
  obtain newEn unmEn u w1 where acc: "acc = (newEn, unmEn)" and u: "sh_uuid H w = (u, w1)"
    by (metis prod.collapse)
  then have "f w1 = f w" using blind_uuid [of w] by simp
  then show ?case using Cons.IH u acc by (cases b) (simp_all add: generateServiceIdAndName_def split: option.split)
qed

lemma blind_handle: "f (snd (handleEndPointUri H s uris b m w)) = f w"
proof -
  obtain cfg w1 where c: "sh_config H w = (cfg, w1)" by fastforce
  have w1: "f w1 = f w" using blind_config [of w] c by simp
  show ?thesis
  proof (cases cfg)
    case (Inr t)
    obtain ends w2 where e: "compareEndPointsWithDB H s uris b m w1 = (ends, w2)" by fastforce
    then have "f w2 = f w1" using blind_split [of s b m uris "([], [])" w1]
      by (auto simp: compareEndPointsWithDB_def split: prod.splits if_splits)
    with w1 c Inr e show ?thesis
      using blind_folds(1) [of b "sh_iter H (fst ends)" "(m, w2)"]
        blind_folds(2) [of "sh_iter H (snd (snd ends))" "register_new H b (sh_iter H (fst ends)) (m, w2)"]
      by (auto simp: handleEndPointUri_def GetAppConfig_def Let_def split: prod.splits)
  qed (simp add: handleEndPointUri_def GetAppConfig_def c w1)
qed

lemma blind_register: "f (snd (registerEndpoints H s b m w)) = f w"
  by (auto simp: registerEndpoints_def blind_handle blind_folds Let_def split: option.split)

lemma blind_generate:
  assumes "GenerateRegisterInstance H s b inst w = (r, w')" shows "f w' = f w"
proof -
  obtain now w1 nano w2 where c: "sh_clock H w = (now, w1)" "sh_clock H w1 = (nano, w2)" by fastforce
  then have "f w2 = f w" using blind_clock [of w] blind_clock [of w1] by simp
  with c assms blind_register [of "default_liveness s" b "base_properties s nano (mi_Properties inst)" w2]
  show ?thesis by (auto simp: GenerateRegisterInstance_def Let_def split: prod.splits)
qed

end

section \<open>What a document looks like when it is read back\<close>

lemma get_prop_transport_cong:
  "get_prop m k = get_prop m' k \<Longrightarrow> get_prop (transportInfoToProperties t m) k = get_prop (transportInfoToProperties t m') k"
  unfolding transportInfoToProperties_def by (intro get_prop_Update_cong)

lemma GenerateRegisterInstance_props:
  assumes "GenerateRegisterInstance H s b inst w = ((inst', s'), w')" and "reordering (sh_iter H)"
  obtains ty nano where
    "\<And>k. plain_key k \<Longrightarrow> get_prop (mi_Properties inst') k
        = get_prop (transportInfoToProperties (si_TransportInfo s) (al_put ''endPointType'' ty (base_properties s nano (mi_Properties inst)))) k"
    and "s' = default_liveness s" and "mi_Properties inst' \<noteq> []"
    and "mi_ServiceId inst' = mi_ServiceId inst" "mi_InstanceId inst' = mi_InstanceId inst"
    and "ty \<in> {Uris, Alternatives, []}"
proof -
  obtain now w1 nano w2 where c: "sh_clock H w = (now, w1)" "sh_clock H w1 = (nano, w2)" by fastforce
  obtain es ty m w3 where r: "registerEndpoints H (default_liveness s) b (base_properties s nano (mi_Properties inst)) w2 = ((es, ty, m), w3)"
    by (metis prod.collapse)
  note g = assms(1) [unfolded GenerateRegisterInstance_def Let_def c r prod.case]
  have k: "get_prop (mi_Properties inst') k
      = get_prop (transportInfoToProperties (si_TransportInfo s) (al_put ''endPointType'' ty (base_properties s nano (mi_Properties inst)))) k"
    if "plain_key k" for k
    using g registerEndpoints_plain [OF that assms(2) r]
    by (auto simp: default_liveness_def intro!: get_prop_transport_cong)
  have ne: "UpdatePropertiesMap k v m \<noteq> [] \<longleftrightarrow> m \<noteq> [] \<or> v \<noteq> []" for k v and m :: props
    by (auto simp: UpdatePropertiesMap_def)
  have ty: "ty \<in> {Uris, Alternatives, []}"
    using r by (auto simp: registerEndpoints_def handleEndPointUri_def Let_def split: if_splits option.splits prod.splits sum.splits)
  have "transportInfoToProperties t (al_put k v m) \<noteq> []" for t k v m
    by (simp add: transportInfoToProperties_def ne)
  then have full: "mi_Properties inst' \<noteq> []" using g by auto
  show ?thesis
    by (rule that [OF k]) (use g ty full in auto)
qed

text \<open>The stored form loses the endpoints as given and the list of grant types.\<close>

definition read_back :: "string \<Rightarrow> EndPointInfo \<Rightarrow> ServiceInfo \<Rightarrow> ServiceInfo" where
  "read_back app ep s =
     s\<lparr>si_TransportInfo := (si_TransportInfo s)\<lparr>ti_Endpoint := ep,
         ti_Security := \<lparr>oa_GrantTypes = split_on (CHR '','') (join grant_separator (oa_GrantTypes (ti_Security (si_TransportInfo s)))),
                         oa_TokenEndpoint = oa_TokenEndpoint (ti_Security (si_TransportInfo s))\<rparr>\<rparr>,
       si_Links := \<lparr>ln_Self = (if si_LivenessInterval s \<noteq> 0 then ln_Self (si_Links s) else []), ln_AppInstanceId = app\<rparr>\<rparr>"

lemma plain_keys:
  "plain_key ''serName''" "plain_key ''version''" "plain_key ''mecState''" "plain_key ''transportId''"
  "plain_key ''serializer''" "plain_key ''ScopeOfLocality''" "plain_key ''ConsumedLocalOnly''" "plain_key ''IsLocal''"
  "plain_key ''livenessInterval''" "plain_key ''liveness''" "plain_key ''appInstanceId''" "plain_key ''endPointType''"
  "plain_key ''serCategory/href''" "plain_key ''serCategory/id''" "plain_key ''serCategory/name''" "plain_key ''serCategory/version''"
  "plain_key ''transportInfo/id''" "plain_key ''transportInfo/name''" "plain_key ''transportInfo/description''"
  "plain_key ''transportInfo/type''" "plain_key ''transportInfo/protocol''" "plain_key ''transportInfo/version''"
  "plain_key ''transportInfo/security/oAuth2Info/grantTypes''" "plain_key ''transportInfo/security/oAuth2Info/tokenEndpoint''"
  "plain_key ''timestamp/seconds''" "plain_key ''timestamp/nanoseconds''"
  by (simp_all add: plain_key_def has_prefix_def EndPointPropPrefix_def)

lemmas property_maps = transportInfoToProperties_def base_properties_def serCategoryToProperties_def put_timestamp_def

lemma atoi_intervals: "fst (atoi (itoa_int DefaultHeartbeatInterval)) = 60" "fst (atoi (itoa_int 0)) = 0"
  by code_simp+

lemma registered_reads_back:
  assumes "GenerateRegisterInstance H s False empty_instance w = ((inst, s1), w')" and "reordering (sh_iter H)"
    and "set_liveness app (sid @ iid) s1 (al_put ''appInstanceId'' app (mi_Properties inst)) = (s2, m)"
    and "mi_ServiceId i = sid" and "mi_InstanceId i = iid" and "mi_Properties i = m"
  shows "FromServiceInstance C i = read_back app (fromEndpoints C (mi_Endpoints i) (get_prop m ''endPointType'') empty_endpoint)
    (s2\<lparr>si_SerInstanceId := sid @ iid\<rparr>)"
proof -
  obtain ty nano where
    p: "\<And>k. plain_key k \<Longrightarrow> get_prop (mi_Properties inst) k
        = get_prop (transportInfoToProperties (si_TransportInfo s) (al_put ''endPointType'' ty (base_properties s nano []))) k"
    and s1: "s1 = default_liveness s" and ty: "ty \<in> {Uris, Alternatives, []}"
    by (rule GenerateRegisterInstance_props [OF assms(1,2)]) (auto simp: empty_instance_def)
  define ep where "ep = fromEndpoints C (mi_Endpoints i) (get_prop m ''endPointType'') empty_endpoint"
  note q = p [OF plain_keys(1)] p [OF plain_keys(2)] p [OF plain_keys(3)] p [OF plain_keys(4)] p [OF plain_keys(5)]
    p [OF plain_keys(6)] p [OF plain_keys(7)] p [OF plain_keys(8)] p [OF plain_keys(9)] p [OF plain_keys(10)]
    p [OF plain_keys(12)] p [OF plain_keys(13)] p [OF plain_keys(14)] p [OF plain_keys(15)] p [OF plain_keys(16)]
    p [OF plain_keys(17)] p [OF plain_keys(18)] p [OF plain_keys(19)] p [OF plain_keys(20)] p [OF plain_keys(21)]
    p [OF plain_keys(22)] p [OF plain_keys(23)] p [OF plain_keys(24)]
  note r = q [unfolded property_maps, simplified]
  have m: "m \<noteq> []" using assms(3) by (auto simp: set_liveness_def split: if_splits)
  have ne: "format_bool b \<noteq> []" "itoa_int DefaultHeartbeatInterval \<noteq> []" "itoa_int 0 \<noteq> []" "LivenessPath a x \<noteq> []" for b a x
    by (simp_all add: format_bool_def itoa_int_def DefaultHeartbeatInterval_def LivenessPath_def)
  have "FromServiceInstance C i = read_back app ep (s2\<lparr>si_SerInstanceId := sid @ iid\<rparr>)"
  proof (cases "si_LivenessInterval s = 0")
    case True
    then have s2: "s2 = s" "m = al_put ''appInstanceId'' app (mi_Properties inst)"
      using assms(3) by (simp_all add: set_liveness_def s1 default_liveness_def)
    show ?thesis
      unfolding FromServiceInstance_def Let_def read_back_def transportInfoFromProperties_def serCategoryFromProperties_def assms(4-6)
      using m True
      by (auto simp: r ne atoi_intervals ep_def s2 assms(6) intro!: ServiceInfo.equality TransportInfo.equality CategoryRef.equality)
  next
    case False
    then have s2: "s2 = s\<lparr>si_LivenessInterval := 60, si_Links := (si_Links s)\<lparr>ln_Self := LivenessPath app (sid @ iid)\<rparr>\<rparr>"
      "m = al_put ''liveness'' (LivenessPath app (sid @ iid)) (al_put ''appInstanceId'' app (mi_Properties inst))"
      using assms(3) by (auto simp: set_liveness_def s1 default_liveness_def DefaultHeartbeatInterval_def)
    show ?thesis
      unfolding FromServiceInstance_def Let_def read_back_def transportInfoFromProperties_def serCategoryFromProperties_def assms(4-6)
      using m False
      by (auto simp: r ne atoi_intervals ep_def s2 assms(6) intro!: ServiceInfo.equality TransportInfo.equality CategoryRef.equality)
  qed
  then show ?thesis by (simp add: ep_def)
qed

section \<open>The stored instances\<close>

lemma and_then_cases:
  assumes "and_then r f = (out, w')"
  obtains (ok) x w1 where "r = (PlanOk x, w1)" "f x w1 = (out, w')"
    | (err) c m where "r = (PlanErr c m, w')" "out = PlanErr c m"
    | (panic) e where "r = (PlanPanic e, w')" "out = PlanPanic e"
  using assms by (cases r; cases "fst r") (auto simp: and_then_def then_step_def)

lemma then_step_cases:
  assumes "then_step r w f = (out, w')"
  obtains (ok) x where "r = PlanOk x" "f x w = (out, w')"
    | (err) c m where "r = PlanErr c m" "out = PlanErr c m" "w' = w"
    | (panic) e where "r = PlanPanic e" "out = PlanPanic e" "w' = w"
  using assms by (cases r) (auto simp: then_step_def)

lemma then_step_ok: "then_step r w f = (PlanOk y, w') \<Longrightarrow> \<exists>x. r = PlanOk x \<and> f x w = (PlanOk y, w')"
  by (auto elim: then_step_cases)

lemma and_then_ok: "and_then r f = (PlanOk y, w') \<Longrightarrow> \<exists>x w1. r = (PlanOk x, w1) \<and> f x w1 = (PlanOk y, w')"
  by (auto elim: and_then_cases)

lemma set_liveness_other: "set_liveness app x s m = (s', m') \<Longrightarrow> k \<noteq> ''liveness'' \<Longrightarrow> get_prop m' k = get_prop m k"
  by (auto simp: set_liveness_def split: if_splits)

locale svc_ports = center SC docs + blind H docs
  for SC :: "'w service_center" and H :: "'w svc_host" and docs :: "'w \<Rightarrow> string \<times> string \<Rightarrow> (string list \<times> props) option"
begin

text \<open>Registration adds or replaces one instance, with the generated properties and the
  application as its owner.\<close>

lemma register_writes:
  assumes "RegisterServiceInst_OnRequest H SC app sid s w = (out, w')"
  shows "docs w' = docs w \<or> (\<exists>iid es m inst s1 w1. docs w' = (docs w)((sid, iid) \<mapsto> (es, m))
    \<and> GenerateRegisterInstance H s False empty_instance w = ((inst, s1), w1)
    \<and> (\<forall>k. k \<noteq> ''liveness'' \<longrightarrow> get_prop m k = get_prop (al_put ''appInstanceId'' app (mi_Properties inst)) k))"
proof -
  obtain inst s1 w1 where g: "GenerateRegisterInstance H s False empty_instance w = ((inst, s1), w1)"
    by (metis prod.collapse)
  define inst1 where "inst1 = inst\<lparr>mi_ServiceId := sid, mi_Properties := al_put ''appInstanceId'' app (mi_Properties inst)\<rparr>"
  obtain r w2 where r: "sc_register SC inst1 w1 = (r, w2)" by fastforce
  note w1 = blind_generate [OF g]
  note run = assms [unfolded RegisterServiceInst_OnRequest_def Let_def g prod.case, folded inst1_def, unfolded r prod.case]
  show ?thesis
  proof (cases "\<exists>iid. r = Inr iid \<and> iid \<noteq> []")
    case False
    then have "w' = w2" "\<not> is_ok r \<or> r = Inr []" using run by (auto split: sum.splits if_splits)
    then show ?thesis using register_err [OF r] w1 by simp
  next
    case True
    then obtain iid where iid: "r = Inr iid" "iid \<noteq> []" by blast
    then have d2: "docs w2 = (docs w)((sid, iid) \<mapsto> (mi_Endpoints inst1, mi_Properties inst1))"
      using register_ok [OF r [unfolded iid(1)]] w1 by (simp add: inst1_def)
    obtain s2 m where l: "set_liveness app (sid @ iid) s1 (mi_Properties inst1) = (s2, m)" by fastforce
    obtain u w3 where u: "sc_updateProps SC sid iid m w2 = (u, w3)" by fastforce
    have "w' = w3" using run by (auto simp: iid l u split: sum.splits)
    moreover have "docs w3 = docs w2 \<or> (\<exists>es. docs w3 = (docs w2)((sid, iid) \<mapsto> (es, m)))"
      using updateProps_ok [of sid iid m w2 w3] updateProps_err [OF u] u by (cases "u = Inr 0") auto
    moreover have "get_prop m k = get_prop (mi_Properties inst1) k" if "k \<noteq> ''liveness''" for k
      using set_liveness_other [OF l that] .
    ultimately obtain es m where w': "docs w' = (docs w)((sid, iid) \<mapsto> (es, m))"
        and m: "\<forall>k. k \<noteq> ''liveness'' \<longrightarrow> get_prop m k = get_prop (mi_Properties inst1) k"
      unfolding d2 by (metis fun_upd_upd)
    have "\<forall>k. k \<noteq> ''liveness'' \<longrightarrow> get_prop m k = get_prop (al_put ''appInstanceId'' app (mi_Properties inst)) k"
      using m by (simp add: inst1_def)
    then show ?thesis using w' g by blast
  qed
qed

lemma register_docs:
  assumes "RegisterServiceInst_OnRequest H SC app sid s w = (out, w')"
  shows "docs w' = docs w \<or> (\<exists>iid es m. docs w' = (docs w)((sid, iid) \<mapsto> (es, m)) \<and> get_prop m ''appInstanceId'' = app)"
  using register_writes [OF assms]
proof (elim disjE exE conjE)
  fix iid es m inst s1 w1
  assume d: "docs w' = (docs w)((sid, iid) \<mapsto> (es, m))"
    and m: "\<forall>k. k \<noteq> ''liveness'' \<longrightarrow> get_prop m k = get_prop (al_put ''appInstanceId'' app (mi_Properties inst)) k"
  have "get_prop m ''appInstanceId'' = app" using m [rule_format, of "''appInstanceId''"] by simp
  with d show ?thesis by blast
qed simp

end

locale svc_ports_up = svc_ports SC H docs + center_up SC docs
  for SC :: "'w service_center" and H :: "'w svc_host" and docs :: "'w \<Rightarrow> string \<times> string \<Rightarrow> (string list \<times> props) option"
begin

lemma registered_get:
  assumes run: "RegisterServiceInst_OnRequest H SC app sid s w = (PlanOk (rsp, loc), w')"
    and iter: "reordering (sh_iter H)" and sid: "center_id sid"
  shows "\<exists>inst s1 w1 iid m s2 w2. GenerateRegisterInstance H s False empty_instance w = ((inst, s1), w1)
    \<and> set_liveness app (sid @ iid) s1 (al_put ''appInstanceId'' app (mi_Properties inst)) = (s2, m)
    \<and> docs w' (sid, iid) = Some (mi_Endpoints inst, m) \<and> rsp = s2\<lparr>si_SerInstanceId := sid @ iid\<rparr> \<and> center_id iid
    \<and> GetOneInstance_OnRequest C SC app' (sid, iid) w' = (PlanOk (0, read_back app
        (fromEndpoints C (mi_Endpoints inst) (get_prop m ''endPointType'') empty_endpoint) rsp), w2)"
proof -
  obtain inst s1 w1 where g: "GenerateRegisterInstance H s False empty_instance w = ((inst, s1), w1)"
    by (metis prod.collapse)
  define inst1 where "inst1 = inst\<lparr>mi_ServiceId := sid, mi_Properties := al_put ''appInstanceId'' app (mi_Properties inst)\<rparr>"
  obtain r w2 where r: "sc_register SC inst1 w1 = (r, w2)" by fastforce
  note run = run [unfolded RegisterServiceInst_OnRequest_def Let_def g prod.case, folded inst1_def, unfolded r prod.case]
  obtain iid where iid: "r = Inr iid" "iid \<noteq> []"
    using run by (auto split: sum.splits if_splits)
  have d2: "docs w2 = (docs w1)((sid, iid) \<mapsto> (mi_Endpoints inst1, mi_Properties inst1))"
    using register_ok [OF r [unfolded iid(1)] iid(2)] by (simp add: inst1_def)
  obtain s2 m where l: "set_liveness app (sid @ iid) s1 (mi_Properties inst1) = (s2, m)" by fastforce
  obtain u w3 where u: "sc_updateProps SC sid iid m w2 = (u, w3)" by fastforce
  have "u = Inr 0" using updateProps_up [of w2 sid iid _ m] d2 u by auto
  then have d3: "docs w3 (sid, iid) = Some (mi_Endpoints inst1, m)"
    using updateProps_ok [of sid iid m w2 w3] u d2 by auto
  have out: "w' = w3" "rsp = s2\<lparr>si_SerInstanceId := sid @ iid\<rparr>"
    using run by (auto simp: iid l u split: sum.splits)
  obtain i w4 where i: "sc_getOne SC sid iid w3 = (Inr (0, Some i), w4)" using getOne_up [OF d3] by blast
  have di: "mi_ServiceId i = sid" "mi_InstanceId i = iid" "mi_Properties i = m"
    and de: "mi_Endpoints i = mi_Endpoints inst"
    using getOne_ok [OF i] d3 by (auto simp: inst_doc_def inst1_def)
  have l1: "set_liveness app (sid @ iid) s1 (al_put ''appInstanceId'' app (mi_Properties inst)) = (s2, m)"
    using l by (simp add: inst1_def)
  have "GetOneInstance_OnRequest C SC app' (sid, iid) w' = (PlanOk (0, FromServiceInstance C i), w4)"
    using i out by (simp add: GetOneInstance_OnRequest_def filterAppInstanceId_one_def)
  moreover have "FromServiceInstance C i
      = read_back app (fromEndpoints C (mi_Endpoints inst) (get_prop m ''endPointType'') empty_endpoint) rsp"
    using registered_reads_back [OF g iter l1 di] out de by simp
  ultimately show ?thesis
    using g l1 d3 out register_id [OF r [unfolded iid(1)] iid(2)] by (auto simp: inst1_def)
qed

end

section \<open>The limit of services\<close>

definition owned :: "(string \<times> string \<Rightarrow> (string list \<times> props) option) \<Rightarrow> string \<Rightarrow> (string \<times> string) set" where
  "owned d app = {k. \<exists>es m. d k = Some (es, m) \<and> get_prop m ''appInstanceId'' = app}"

lemma owned_upd: "owned (d(k \<mapsto> (es, m))) app \<subseteq> insert k (owned d app)"
  by (auto simp: owned_def)

lemma owned_other: "get_prop m ''appInstanceId'' \<noteq> app \<Longrightarrow> owned (d(k \<mapsto> (es, m))) app \<subseteq> owned d app"
  by (auto simp: owned_def split: if_splits)

lemma query_all: "query_selects empty_query i"
  by (auto simp: query_selects_def empty_query_def isQueryAllSvc_def Let_def equal_fold_def)

lemma find_all:
  "FindInstanceByKey empty_query resp = FindNull \<Longrightarrow> \<exists>ds. resp = Inr ds \<and> decode_all ds = Some []"
  "FindInstanceByKey empty_query resp = Found inss \<Longrightarrow> \<exists>ds. resp = Inr ds \<and> decode_all ds = Some inss"
  by (auto simp: FindInstanceByKey_def query_all Let_def split: sum.splits option.splits if_splits)

context center
begin

lemma limit_counts:
  assumes "RegisterLimit_OnRequest SC app w = (PlanOk (), w')"
  shows "docs w' = docs w" and "finite (owned (docs w) app)" and "card (owned (docs w) app) < ServicesMaxCount"
proof -
  obtain resp where f: "sc_files SC w = (resp, w')"
    using assms by (auto simp: RegisterLimit_OnRequest_def split: prod.splits find_result.splits if_splits)
  show "docs w' = docs w" using files_docs [of w] f by simp
  obtain ds inss where ds: "resp = Inr ds" "decode_all ds = Some inss" and n: "app_services app inss < ServicesMaxCount"
  proof (cases "FindInstanceByKey empty_query resp")
    case FindNull
    then show ?thesis using find_all(1) [of resp] that [of _ "[]"] by (auto simp: app_services_def ServicesMaxCount_def)
  next
    case (Found inss)
    then show ?thesis
      using find_all(2) [of resp inss] that assms f by (auto simp: RegisterLimit_OnRequest_def split: if_splits)
  qed (use assms f in \<open>simp add: RegisterLimit_OnRequest_def\<close>)
  note files = files_ok [OF f [unfolded ds(1)] ds(2)]
  have eq: "owned (docs w) app = fst ` set (map inst_doc (filter (\<lambda>i. get_prop (mi_Properties i) ''appInstanceId'' = app) inss))"
  proof -
    have "owned (docs w) app = {k. \<exists>es m. (k, es, m) \<in> set (map inst_doc inss) \<and> get_prop m ''appInstanceId'' = app}"
      using files by (simp add: owned_def)
    then show ?thesis by (force simp: inst_doc_def image_iff)
  qed
  then show "finite (owned (docs w) app)" by simp
  have "card (owned (docs w) app) \<le> app_services app inss"
    unfolding eq app_services_def set_map [symmetric] by (rule order_trans [OF card_length]) simp
  with n show "card (owned (docs w) app) < ServicesMaxCount" by simp
qed

end

lemma RegisterServiceId_docs: "RegisterServiceId_OnRequest SC s w = (out, w') \<Longrightarrow> center SC docs \<Longrightarrow> docs w' = docs w"
  using center.create_docs [of SC docs "GenerateServiceRequest s" w]
  by (auto simp: RegisterServiceId_OnRequest_def split: prod.splits sum.splits if_splits)

lemma RegisterLimit_docs: "RegisterLimit_OnRequest SC app w = (out, w') \<Longrightarrow> center SC docs \<Longrightarrow> docs w' = docs w"
  using center.files_docs [of SC docs w]
  by (auto simp: RegisterLimit_OnRequest_def split: prod.splits find_result.splits if_splits)

section \<open>An in-memory platform\<close>

text \<open>The stored instances, the services and routes of the gateway, the counter of
  identifiers, the clock, the configuration file, and whether the centre takes
  registrations.\<close>

record svc_world =
  vw_docs :: "((string \<times> string) \<times> string list \<times> props) list"
  vw_gws :: "(string \<times> string) list"
  vw_routes :: "string list"
  vw_count :: nat
  vw_clock :: nat
  vw_config :: "string go_result"
  vw_open :: bool

definition pad :: "nat \<Rightarrow> nat \<Rightarrow> string" where
  "pad n k = (let s = itoa k in replicate (n - length s) (CHR ''0'') @ take n s)"

definition mem_inst :: "string \<times> string \<Rightarrow> string list \<times> props \<Rightarrow> MicroServiceInstance" where
  "mem_inst k d = empty_instance\<lparr>mi_ServiceId := fst k, mi_InstanceId := snd k, mi_Endpoints := fst d, mi_Properties := snd d\<rparr>"

definition mem_get :: "string \<Rightarrow> string \<Rightarrow> svc_world \<Rightarrow> MicroServiceInstance option" where
  "mem_get s i w = map_option (mem_inst (s, i)) (map_of (vw_docs w) (s, i))"

definition put_doc :: "string \<times> string \<Rightarrow> string list \<times> props \<Rightarrow> svc_world \<Rightarrow> svc_world" where
  "put_doc k d w = w\<lparr>vw_docs := al_put k d (vw_docs w)\<rparr>"

definition mem_center :: "svc_world service_center" where
  "mem_center = \<lparr>
     sc_create = (\<lambda>ms w. (Inr (pad 16 (length (ms_ServiceName ms))), w)),
     sc_register = (\<lambda>inst w.
       if vw_open w then (let iid = pad 16 (vw_count w) in
         (Inr iid, put_doc (mi_ServiceId inst, iid) (mi_Endpoints inst, mi_Properties inst) (w\<lparr>vw_count := Suc (vw_count w)\<rparr>)))
       else (Inl (Err ''not enough quota''), w)),
     sc_updateProps = (\<lambda>s i m w. case map_of (vw_docs w) (s, i) of
         None \<Rightarrow> (Inr ErrInstanceNotExists, w) | Some (es, _) \<Rightarrow> (Inr 0, put_doc (s, i) (es, m) w)),
     sc_unregister = (\<lambda>s i w. if map_of (vw_docs w) (s, i) = None then (Inr ErrInstanceNotExists, w)
         else (Inr 0, w\<lparr>vw_docs := al_del (s, i) (vw_docs w)\<rparr>)),
     sc_heartbeat = (\<lambda>s i w. (Inr 0, w)),
     sc_getInstance = (\<lambda>s i w. (Inr (mem_get s i w), w)),
     sc_updateInstance = (\<lambda>inst w. (None, put_doc (mi_ServiceId inst, mi_InstanceId inst) (mi_Endpoints inst, mi_Properties inst) w)),
     sc_getOne = (\<lambda>s i w. (Inr (if mem_get s i w = None then ErrInstanceNotExists else 0, mem_get s i w), w)),
     sc_find = (\<lambda>a n v w. (Inr (0, map (\<lambda>k. mem_inst k (the (map_of (vw_docs w) k))) (remdups (map fst (vw_docs w)))), w)),
     sc_files = (\<lambda>w. (Inr (map (\<lambda>k. Some (mem_inst k (the (map_of (vw_docs w) k)))) (remdups (map fst (vw_docs w)))), w))\<rparr>"

lemma decode_all_Some: "decode_all (map Some xs) = Some xs"
  by (induction xs) auto

lemma inst_doc_mem [simp]: "inst_doc (mem_inst k d) = (k, d)"
  by (simp add: inst_doc_def mem_inst_def)

lemma map_of_put_doc [simp]: "map_of (vw_docs (put_doc k d w)) = (map_of (vw_docs w))(k \<mapsto> d)"
  by (simp add: put_doc_def)

lemma center_id_pad: "center_id (pad 16 k)"
proof -
  have "is_lower_hex c" if "c \<in> set (itoa k)" for c using itoa_digits [OF that] by (simp add: is_lower_hex_def)
  then show ?thesis
    by (auto simp: center_id_def pad_def Let_def list_all_iff is_lower_hex_def is_digit_def dest: in_set_takeD)
qed

lemma pad_not_Nil: "pad 16 k \<noteq> []"
  using center_id_pad [of k] by (auto simp: center_id_def)

interpretation mem_center: center_up mem_center "\<lambda>w. map_of (vw_docs w)"
proof
  fix w w' :: svc_world and ds inss
  assume "sc_files mem_center w = (Inr ds, w')" and d: "decode_all ds = Some inss"
  then have ds: "ds = map Some (map (\<lambda>k. mem_inst k (the (map_of (vw_docs w) k))) (remdups (map fst (vw_docs w))))"
    by (auto simp: mem_center_def comp_def)
  have inss: "map inst_doc inss = map (\<lambda>k. (k, the (map_of (vw_docs w) k))) (remdups (map fst (vw_docs w)))"
    using d unfolding ds decode_all_Some by auto
  have "set (map inst_doc inss) = (\<lambda>k. (k, the (map_of (vw_docs w) k))) ` dom (map_of (vw_docs w))"
    by (simp add: inss dom_map_of_conv_image_fst)
  also have "\<dots> = {(k, d). map_of (vw_docs w) k = Some d}" by (auto simp: image_iff)
  finally show "set (map inst_doc inss) = {(k, d). map_of (vw_docs w) k = Some d} \<and> distinct (map inst_doc inss)"
    unfolding inss by (simp add: distinct_map inj_on_def)
qed (auto simp: mem_center_def mem_get_def Let_def inst_doc_def mem_inst_def center_id_pad pad_not_Nil ErrInstanceNotExists_def
      split: if_splits option.splits prod.splits)

end
