(* ===== verification/Svc_Gateway.thy ===== *)
theory Svc_Gateway
  imports Svc_Correct
begin

text \<open>
  The services and routes of the API gateway against the endpoints that the service
  documents record: registering, updating and deleting a service keeps every recorded endpoint
  routed to its URI.  The gateway's contract is the locale \<open>kong\<close>; the host of the
  in-memory platform is an instance.
\<close>

section \<open>The contract of the gateway\<close>

definition gw_name :: "string \<Rightarrow> bool" where
  "gw_name n \<longleftrightarrow> n \<noteq> [] \<and> CHR ''/'' \<notin> set n"

text \<open>\<open>gws\<close> gives the URI of a named gateway service.  A service with a route is not
  deleted.\<close>

locale kong =
  fixes H :: "'w svc_host" and gws :: "'w \<Rightarrow> string \<Rightarrow> string option" and routes :: "'w \<Rightarrow> string set"
  assumes put_service: "gw_name n \<Longrightarrow>
      gws (snd (sh_send H ''PUT'' (service_at H n) (service_body \<lparr>gi_SerName = n, gi_Uri = u\<rparr>) w)) = (gws w)(n \<mapsto> u)"
    and put_service_routes: "gw_name n \<Longrightarrow> routes (snd (sh_send H ''PUT'' (service_at H n) body w)) = routes w"
    and put_route: "gw_name n \<Longrightarrow> gws w n = Some u \<Longrightarrow>
      routes (snd (sh_send H ''PUT'' (route_at H n) (route_body n) w)) = insert n (routes w)"
    and put_route_gws: "gw_name n \<Longrightarrow> gws (snd (sh_send H ''PUT'' (route_at H n) (route_body n) w)) = gws w"
    and post_plugin: "gw_name n \<Longrightarrow> gws (snd (sh_send H ''POST'' (plugin_at H n) body w)) = gws w"
    and post_plugin_routes: "gw_name n \<Longrightarrow> routes (snd (sh_send H ''POST'' (plugin_at H n) body w)) = routes w"
    and delete_route: "gw_name n \<Longrightarrow> routes (snd (sh_send H ''DELETE'' (route_at H n) body w)) = routes w - {n}"
    and delete_route_gws: "gw_name n \<Longrightarrow> gws (snd (sh_send H ''DELETE'' (route_at H n) body w)) = gws w"
    and delete_service: "gw_name n \<Longrightarrow> n \<notin> routes w \<Longrightarrow>
      gws (snd (sh_send H ''DELETE'' (service_at H n) body w)) = (gws w)(n := None)"
    and delete_service_routes: "gw_name n \<Longrightarrow> routes (snd (sh_send H ''DELETE'' (service_at H n) body w)) = routes w"
    and quiet: "gws (snd (sh_config H w)) = gws w" "routes (snd (sh_config H w)) = routes w"
      "gws (snd (sh_uuid H w)) = gws w" "routes (snd (sh_uuid H w)) = routes w"
      "gws (snd (sh_clock H w)) = gws w" "routes (snd (sh_clock H w)) = routes w"
begin

lemma registered_gw:
  assumes "gw_name n"
  shows "gws (RegisterToApiGw H uri n b w) = (gws w)(n \<mapsto> uri)"
    and "routes (RegisterToApiGw H uri n b w) = insert n (routes w)"
  using assms
  by (simp_all add: RegisterToApiGw_def AddOrUpdateApiGwRoute_def AddOrUpdateApiGwService_def EnableJwtPlugin_def Let_def
      put_service put_service_routes put_route [where u = uri] put_route_gws post_plugin post_plugin_routes)

lemma cleaned_gw:
  assumes "gw_name n"
  shows "gws (CleanUpApiGwEntry H n w) = (gws w)(n := None)"
    and "routes (CleanUpApiGwEntry H n w) = routes w - {n}"
  using assms
  by (simp_all add: CleanUpApiGwEntry_def DeleteApiGwService_def DeleteJwtPlugin_def DeleteApiGwRoute_def gw_name_def
      delete_service delete_service_routes delete_route delete_route_gws post_plugin post_plugin_routes)

end

section \<open>Recorded endpoints\<close>

abbreviation endpoint_of :: "props \<Rightarrow> string \<Rightarrow> string option" where
  "endpoint_of m uri \<equiv> map_of m (EndPointPropPrefix @ uri)"

text \<open>Every endpoint that the properties record is a service of the gateway for its URI, and
  routed.\<close>

definition routed :: "(string \<Rightarrow> string option) \<Rightarrow> string set \<Rightarrow> props \<Rightarrow> bool" where
  "routed g r m \<longleftrightarrow> (\<forall>uri n. endpoint_of m uri = Some n \<longrightarrow> gw_name n \<and> g n = Some uri \<and> n \<in> r)"

lemma endpoint_of_UpdatePropertiesMap:
  "v \<noteq> [] \<Longrightarrow> endpoint_of (UpdatePropertiesMap (EndPointPropPrefix @ u) v m) uri = (if uri = u then Some v else endpoint_of m uri)"
  by (simp add: UpdatePropertiesMap_def)

lemma endpoint_of_al_del: "endpoint_of (al_del (EndPointPropPrefix @ u) m) uri = (if uri = u then None else endpoint_of m uri)"
  by simp

context kong
begin

lemma register_new_routed:
  assumes "routed (gws w) (routes w) m" and "distinct (map snd news)"
    and "\<forall>(u, n)\<in>set news. gw_name n \<and> gws w n = None" and "register_new H b news (m, w) = (m', w')"
  shows "routed (gws w') (routes w') m' \<and>
    (\<forall>uri. endpoint_of m' uri \<noteq> None \<longleftrightarrow> uri \<in> fst ` set news \<or> endpoint_of m uri \<noteq> None) \<and>
    (\<forall>uri. uri \<notin> fst ` set news \<longrightarrow> endpoint_of m' uri = endpoint_of m uri)"
  using assms
proof (induction news arbitrary: m w)
  case Nil
  then show ?case by (simp add: register_new_def)
next
  case (Cons e news)
  obtain u n where e: "e = (u, n)" by fastforce
  define m1 where "m1 = UpdatePropertiesMap (EndPointPropPrefix @ u) n m"
  define w1 where "w1 = RegisterToApiGw H u n b w"
  from Cons.prems(3) e have n: "gw_name n" "gws w n = None" by auto
  then have m1: "endpoint_of m1 uri = (if uri = u then Some n else endpoint_of m uri)" for uri
    by (simp add: m1_def endpoint_of_UpdatePropertiesMap gw_name_def)
  note w1 = registered_gw [OF n(1), of u b w, folded w1_def]
  have r1: "routed (gws w1) (routes w1) m1"
    using Cons.prems(1) n by (auto simp: routed_def w1 m1)
  have "register_new H b news (m1, w1) = (m', w')"
    using Cons.prems(4) by (simp add: e register_new_def m1_def w1_def)
  moreover have "\<forall>(u', n')\<in>set news. gw_name n' \<and> gws w1 n' = None"
    using Cons.prems(2,3) by (force simp: w1 e)
  ultimately show ?case
    using Cons.IH [OF r1] Cons.prems(2) by (auto simp: e m1)
qed

lemma remove_deleted_routed:
  assumes "routed (gws w) (routes w) m" and "distinct (map fst dels)" and "distinct (map snd dels)"
    and "\<forall>(u, n)\<in>set dels. endpoint_of m u = Some n" and "remove_deleted H dels (m, w) = (m', w')"
  shows "routed (gws w') (routes w') m' \<and>
    (\<forall>uri. endpoint_of m' uri = (if uri \<in> fst ` set dels then None else endpoint_of m uri))"
  using assms
proof (induction dels arbitrary: m w)
  case Nil
  then show ?case by (simp add: remove_deleted_def)
next
  case (Cons e dels)
  obtain u n where e: "e = (u, n)" by fastforce
  define m1 where "m1 = al_del (EndPointPropPrefix @ u) m"
  define w1 where "w1 = CleanUpApiGwEntry H n w"
  have un: "endpoint_of m u = Some n" using Cons.prems(4) e by auto
  then have n: "gw_name n" "gws w n = Some u" using Cons.prems(1) by (auto simp: routed_def)
  have m1: "endpoint_of m1 uri = (if uri = u then None else endpoint_of m uri)" for uri
    by (simp add: m1_def)
  note w1 = cleaned_gw [OF n(1), of w, folded w1_def]
  have r1: "routed (gws w1) (routes w1) m1"
    using Cons.prems(1) n by (auto simp: routed_def w1 m1)
  have "remove_deleted H dels (m1, w1) = (m', w')"
    using Cons.prems(5) by (simp add: e remove_deleted_def m1_def w1_def)
  moreover have "\<forall>(u', n')\<in>set dels. endpoint_of m1 u' = Some n'"
    using Cons.prems(2,4) by (force simp: m1 e)
  ultimately show ?case
    using Cons.IH [OF r1] Cons.prems(2,3) by (auto simp: e m1)
qed

end

section \<open>The endpoints of a document\<close>

text \<open>The URIs a document gives, directly or as addresses.\<close>

definition given_uris :: "ServiceInfo \<Rightarrow> string list" where
  "given_uris s =
     (let ti = si_TransportInfo s; ep = ti_Endpoint ti in
      if ep_Uris ep \<noteq> [] then ep_Uris ep else map (address_uri (ti_Protocol ti)) (ep_Addresses ep))"

definition former :: "bool \<Rightarrow> props \<Rightarrow> string \<Rightarrow> string option" where
  "former b m uri = (if b then endpoint_of m uri else None)"

lemma split_endpoints_parts:
  assumes "split_endpoints H s b m uris (N, U) w = ((N', U'), w')"
  shows "fst ` set N' = fst ` set N \<union> {u \<in> set uris. former b m u = None} \<and>
    fst ` set U' = fst ` set U \<union> {u \<in> set uris. former b m u \<noteq> None}"
  using assms
proof (induction uris arbitrary: N U w)
  case (Cons uri uris)
  show ?case
  proof (cases "former b m uri")
    case None
    obtain sid n w1 where g: "generateServiceIdAndName H s w = ((sid, n), w1)" by (metis prod.collapse)
    have "split_endpoints H s b m uris (al_put uri n N, U) w1 = ((N', U'), w')"
      using Cons.prems None g by (simp add: former_def)
    from Cons.IH [OF this] None show ?thesis by (auto simp: fst_al_put)
  next
    case (Some n)
    have "split_endpoints H s b m uris (N, al_put uri n U) w = ((N', U'), w')"
      using Cons.prems Some by (cases b) (simp_all add: former_def)
    from Cons.IH [OF this] Some show ?thesis by (auto simp: fst_al_put)
  qed
qed simp

lemma endpoint_key_iff: "has_prefix k EndPointPropPrefix \<and> u = endpoint_uri k \<longleftrightarrow> k = EndPointPropPrefix @ u"
  by (auto simp: has_prefix_iff endpoint_uri_def)

lemma deleted_endpoints_mem:
  assumes "distinct (map fst m)"
  shows "(u, n) \<in> set (deleted_endpoints m N U) \<longleftrightarrow>
    endpoint_of m u = Some n \<and> u \<notin> fst ` set N \<and> u \<notin> fst ` set U"
proof -
  have "(u, n) \<in> set (deleted_endpoints m N U) \<longleftrightarrow>
      (\<exists>k. (k, n) \<in> set m \<and> (has_prefix k EndPointPropPrefix \<and> u = endpoint_uri k) \<and> map_of N u = None \<and> map_of U u = None)"
    by (auto simp: deleted_endpoints_def image_iff)
  also have "\<dots> \<longleftrightarrow> (EndPointPropPrefix @ u, n) \<in> set m \<and> map_of N u = None \<and> map_of U u = None"
    by (simp only: endpoint_key_iff) blast
  finally show ?thesis
    by (simp add: map_of_eq_None_iff map_of_eq_Some_iff [OF assms])
qed

lemma deleted_endpoints_uris:
  assumes "distinct (map fst m)"
  shows "u \<in> fst ` set (deleted_endpoints m N U) \<longleftrightarrow>
    endpoint_of m u \<noteq> None \<and> u \<notin> fst ` set N \<and> u \<notin> fst ` set U"
proof -
  have "u \<in> fst ` X \<longleftrightarrow> (\<exists>n. (u, n) \<in> X)" for X :: "(string \<times> string) set" by force
  then show ?thesis by (simp add: deleted_endpoints_mem [OF assms])
qed

lemma deleted_endpoints_distinct:
  assumes "distinct (map fst m)"
  shows "distinct (map fst (deleted_endpoints m N U))"
proof -
  define ends where "ends = filter (\<lambda>(k, v). has_prefix k EndPointPropPrefix \<and> map_of N (endpoint_uri k) = None
                         \<and> map_of U (endpoint_uri k) = None) m"
  have "map fst (deleted_endpoints m N U) = map endpoint_uri (map fst ends)"
    by (simp add: deleted_endpoints_def ends_def comp_def case_prod_beta)
  moreover have "distinct (map fst ends)"
    unfolding ends_def by (rule distinct_map_filter [OF assms])
  moreover have "inj_on endpoint_uri (set (map fst ends))"
    by (auto simp: inj_on_def ends_def has_prefix_iff endpoint_uri_def)
  ultimately show ?thesis by (simp only: distinct_map)
qed

lemma reordering_map: "reordering p \<Longrightarrow> mset (map f (p xs)) = mset (map f xs)"
  by (simp add: reordering_mset)

lemma reordering_distinct_map: "reordering p \<Longrightarrow> distinct (map f (p xs)) = distinct (map f xs)"
  using reordering_map mset_eq_imp_distinct_iff by blast

text \<open>The names drawn for new endpoints.\<close>

definition drawn_names :: "'w svc_host \<Rightarrow> ServiceInfo \<Rightarrow> bool \<Rightarrow> props \<Rightarrow> 'w \<Rightarrow> string list" where
  "drawn_names H s b m w =
     map snd (fst (fst (split_endpoints H s b m (given_uris s) ([], []) (snd (GetAppConfig H w)))))"

lemma routed_names_distinct:
  assumes "routed g r m" and "distinct (map fst dels)" and "\<forall>(u, n)\<in>set dels. endpoint_of m u = Some n"
  shows "distinct (map snd dels)"
proof -
  have "inj_on snd (set dels)"
  proof (rule inj_onI)
    fix x y assume xy: "x \<in> set dels" "y \<in> set dels" "snd x = snd y"
    then have "endpoint_of m (fst x) = Some (snd x)" "endpoint_of m (fst y) = Some (snd y)" using assms(3) by auto
    then have "g (snd x) = Some (fst x)" "g (snd y) = Some (fst y)" using assms(1) unfolding routed_def by blast+
    with xy(3) have "fst x = fst y" by simp
    with xy(3) show "x = y" by (simp add: prod_eq_iff)
  qed
  moreover have "distinct dels" using assms(2) by (simp add: distinct_map)
  ultimately show ?thesis by (simp add: distinct_map)
qed

lemma cleanup_is_remove:
  "\<forall>(k, v)\<in>set ends. has_prefix k EndPointPropPrefix \<Longrightarrow>
     (fold (\<lambda>(k, v). al_del k) ends m, fold (\<lambda>(k, v). CleanUpApiGwEntry H v) ends w)
     = remove_deleted H (map (\<lambda>(k, v). (endpoint_uri k, v)) ends) (m, w)"
proof (induction ends arbitrary: m w)
  case (Cons e ends)
  then have "EndPointPropPrefix @ endpoint_uri (fst e) = fst e"
    by (auto simp: has_prefix_iff endpoint_uri_def)
  with Cons.IH [of "al_del (fst e) m" "CleanUpApiGwEntry H (snd e) w"] Cons.prems show ?case
    by (simp add: remove_deleted_def case_prod_beta)
qed (simp add: remove_deleted_def)

context kong
begin

lemma quiet_config: "GetAppConfig H w = (cfg, w1) \<Longrightarrow> gws w1 = gws w \<and> routes w1 = routes w"
  using quiet(1,2) [of w] by (auto simp: GetAppConfig_def split: prod.splits sum.splits)

lemma quiet_split:
  "split_endpoints H s b m uris acc w = (r, w') \<Longrightarrow> gws w' = gws w \<and> routes w' = routes w"
proof (induction uris arbitrary: acc w)
  case Nil
  then show ?case by (cases acc) simp
next
  case (Cons uri uris)
  obtain N U u w1 where acc: "acc = (N, U)" and u: "sh_uuid H w = (u, w1)" by (metis prod.collapse)
  then have "gws w1 = gws w \<and> routes w1 = routes w" using quiet(3,4) [of w] by simp
  then show ?case using Cons.IH Cons.prems u acc
    by (cases b) (auto simp: generateServiceIdAndName_def split: option.splits)
qed

lemma handle_routed:
  assumes m: "distinct (map fst m)" and iter: "reordering (sh_iter H)"
    and routed: "routed (gws w) (routes w) m" and new: "b \<or> (\<forall>uri. endpoint_of m uri = None)"
    and cfg: "GetAppConfig H w = (Inr cfg, w1)"
    and split: "split_endpoints H s b m uris ([], []) w1 = ((N, U), w2)"
    and fresh: "distinct (map snd N)" "\<forall>n\<in>snd ` set N. gw_name n \<and> gws w n = None"
    and run: "handleEndPointUri H s uris b m w = ((es, ty, m'), w')"
  shows "routed (gws w') (routes w') m' \<and> (\<forall>uri. endpoint_of m' uri \<noteq> None \<longleftrightarrow> uri \<in> set uris)"
proof -
  note parts = split_endpoints_parts [OF split]
  have w2: "gws w2 = gws w" "routes w2 = routes w" using quiet_config [OF cfg] quiet_split [OF split] by auto
  let ?news = "sh_iter H N"
  obtain m3 w3 where r: "register_new H b ?news (m, w2) = (m3, w3)" by fastforce
  have "distinct (map snd ?news)" using fresh(1) by (simp add: reordering_distinct_map [OF iter])
  moreover have "\<forall>(u, n)\<in>set ?news. gw_name n \<and> gws w2 n = None"
    using fresh(2) by (auto simp: reordering_set [OF iter] w2)
  ultimately have 3: "routed (gws w3) (routes w3) m3"
    "\<forall>uri. endpoint_of m3 uri \<noteq> None \<longleftrightarrow> uri \<in> fst ` set N \<or> endpoint_of m uri \<noteq> None"
    "\<forall>uri. uri \<notin> fst ` set N \<longrightarrow> endpoint_of m3 uri = endpoint_of m uri"
    using register_new_routed [OF _ _ _ r] routed w2 by (simp_all add: reordering_set [OF iter])
  show ?thesis
  proof (cases b)
    case False
    then have "m' = m3" "w' = w3"
      using run cfg split r by (auto simp: handleEndPointUri_def compareEndPointsWithDB_def Let_def)
    moreover have "fst ` set N = set uris" using parts False by (auto simp: former_def)
    ultimately show ?thesis using 3 new False by simp
  next
    case True
    let ?dels = "sh_iter H (deleted_endpoints m N U)"
    obtain m4 w4 where d: "remove_deleted H ?dels (m3, w3) = (m4, w4)" by fastforce
    have mem: "\<forall>(u, n)\<in>set ?dels. endpoint_of m3 u = Some n"
      using 3(3) by (auto simp: reordering_set [OF iter] deleted_endpoints_mem [OF m])
    have dist: "distinct (map fst ?dels)"
      using deleted_endpoints_distinct [OF m] by (simp add: reordering_distinct_map [OF iter])
    from remove_deleted_routed [OF 3(1) dist routed_names_distinct [OF 3(1) dist mem] mem d]
    have 4: "routed (gws w4) (routes w4) m4"
      "\<forall>uri. endpoint_of m4 uri = (if uri \<in> fst ` set ?dels then None else endpoint_of m3 uri)" by auto
    have "m' = m4" "w' = w4"
      using run cfg split r d True by (auto simp: handleEndPointUri_def compareEndPointsWithDB_def Let_def)
    moreover have "endpoint_of m4 uri \<noteq> None \<longleftrightarrow> uri \<in> set uris" for uri
    proof -
      have "uri \<in> fst ` set ?dels \<longleftrightarrow> endpoint_of m uri \<noteq> None \<and> uri \<notin> fst ` set N \<and> uri \<notin> fst ` set U"
        unfolding reordering_set [OF iter] by (rule deleted_endpoints_uris [OF m])
      moreover have "uri \<in> fst ` set N \<longleftrightarrow> uri \<in> set uris \<and> endpoint_of m uri = None"
        "uri \<in> fst ` set U \<longleftrightarrow> uri \<in> set uris \<and> endpoint_of m uri \<noteq> None"
        using parts True by (auto simp: former_def)
      ultimately show ?thesis using 4(2) 3(2) by auto
    qed
    ultimately show ?thesis using 4(1) by simp
  qed
qed

lemma register_routed:
  assumes m: "distinct (map fst m)" and iter: "reordering (sh_iter H)"
    and routed: "routed (gws w) (routes w) m" and new: "b \<or> (\<forall>uri. endpoint_of m uri = None)"
    and cfg: "is_ok (fst (GetAppConfig H w))"
    and alt: "ep_Alternative (ti_Endpoint (si_TransportInfo s)) = None"
    and fresh: "distinct (drawn_names H s b m w)" "\<forall>n\<in>set (drawn_names H s b m w). gw_name n \<and> gws w n = None"
    and run: "registerEndpoints H s b m w = ((es, ty, m'), w')"
  shows "routed (gws w') (routes w') m' \<and> (\<forall>uri. endpoint_of m' uri \<noteq> None \<longleftrightarrow> uri \<in> set (given_uris s))"
proof (cases "given_uris s = []")
  case False
  obtain c w1 where c: "GetAppConfig H w = (Inr c, w1)" using cfg by (metis is_ok_iff prod.collapse)
  obtain N U w2 where split: "split_endpoints H s b m (given_uris s) ([], []) w1 = ((N, U), w2)" by (metis prod.collapse)
  have names: "drawn_names H s b m w = map snd N" by (simp add: drawn_names_def c split)
  have "handleEndPointUri H s (given_uris s) b m w = ((es, ty, m'), w')"
    using run False by (auto simp: registerEndpoints_def given_uris_def Let_def split: if_splits)
  with handle_routed [OF m iter routed new c split, of es ty m' w'] fresh show ?thesis by (simp add: names)
next
  case True
  then have none: "ep_Uris (ti_Endpoint (si_TransportInfo s)) = []" "ep_Addresses (ti_Endpoint (si_TransportInfo s)) = []"
    by (auto simp: given_uris_def Let_def split: if_splits)
  show ?thesis
  proof (cases b)
    case False
    then show ?thesis using run none alt routed new True by (auto simp: registerEndpoints_def Let_def)
  next
    case b: True
    define ends where "ends = sh_iter H (filter (\<lambda>(k, v). has_prefix k EndPointPropPrefix) m)"
    let ?dels = "map (\<lambda>(k, v). (endpoint_uri k, v)) ends"
    have keys: "\<forall>(k, v)\<in>set ends. has_prefix k EndPointPropPrefix"
      by (auto simp: ends_def reordering_set [OF iter])
    have "(m', w') = remove_deleted H ?dels (m, w)"
      using run none alt b cleanup_is_remove [OF keys, of m H w] by (simp add: registerEndpoints_def Let_def ends_def)
    moreover have all: "mset ?dels = mset (deleted_endpoints m [] [])"
      by (simp add: ends_def deleted_endpoints_def reordering_mset [OF iter])
    moreover have mem: "\<forall>(u, n)\<in>set ?dels. endpoint_of m u = Some n"
      using deleted_endpoints_mem [OF m, of _ _ "[]" "[]"] mset_eq_setD [OF all] by auto
    moreover have dist: "distinct (map fst ?dels)"
      using deleted_endpoints_distinct [OF m, of "[]" "[]"] all by (metis mset_eq_imp_distinct_iff mset_map)
    ultimately have r: "routed (gws w') (routes w') m'"
      "\<forall>uri. endpoint_of m' uri = (if uri \<in> fst ` set ?dels then None else endpoint_of m uri)"
      using remove_deleted_routed [OF routed dist routed_names_distinct [OF routed dist mem] mem, of m' w'] by auto
    have "uri \<in> fst ` set ?dels \<longleftrightarrow> endpoint_of m uri \<noteq> None" for uri
      unfolding mset_eq_setD [OF all] by (simp add: deleted_endpoints_uris [OF m])
    with r True show ?thesis by simp
  qed
qed

end

section \<open>What a registration publishes\<close>

text \<open>The endpoint in the answer to a query: one URI of the gateway for every URI in
  \<open>us\<close>, with the gateway name that the properties record for it, and none when the
  configuration could not be read.\<close>

definition published :: "props go_result \<Rightarrow> props \<Rightarrow> string list \<Rightarrow> EndPointInfo" where
  "published cfg m us =
     \<lparr>ep_Uris = (case cfg of Inl e \<Rightarrow> [] | Inr c \<Rightarrow> map (\<lambda>u. gateway_uri c (get_prop m (EndPointPropPrefix @ u))) us),
      ep_Addresses = [], ep_Alternative = None\<rparr>"

text \<open>The names that a registration draws: the name of the service and part of a random
  identifier.\<close>

definition drawn_for :: "'w svc_host \<Rightarrow> ServiceInfo \<Rightarrow> string \<Rightarrow> bool" where
  "drawn_for H s n \<longleftrightarrow> (\<exists>v. n = si_SerName s @ take 20 (fst (sh_uuid H v)))"

lemma al_put_mem: "e \<in> set (al_put k v al) \<Longrightarrow> e = (k, v) \<or> e \<in> set al"
  by (induction k v al rule: al_put.induct) (auto split: if_splits)

lemma split_endpoints_names:
  assumes "split_endpoints H s b m uris (N, U) w = ((N', U'), w')" and "distinct (map fst N)"
    and "\<forall>(u, n)\<in>set N. drawn_for H s n"
  shows "distinct (map fst N') \<and> (\<forall>(u, n)\<in>set N'. drawn_for H s n)"
  using assms
proof (induction uris arbitrary: N U w)
  case (Cons uri uris)
  show ?case
  proof (cases "former b m uri")
    case None
    obtain x w1 where x: "sh_uuid H w = (x, w1)" by fastforce
    let ?n = "si_SerName s @ take 20 x"
    have "split_endpoints H s b m uris (al_put uri ?n N, U) w1 = ((N', U'), w')"
      using Cons.prems(1) None x by (simp add: former_def generateServiceIdAndName_def)
    moreover have "drawn_for H s ?n" using x unfolding drawn_for_def by (metis fst_conv)
    then have "\<forall>(u, n)\<in>set (al_put uri ?n N). drawn_for H s n"
      using Cons.prems(3) by (auto dest: al_put_mem)
    ultimately show ?thesis using Cons.IH Cons.prems(2) by simp
  next
    case (Some n)
    have "split_endpoints H s b m uris (N, al_put uri n U) w = ((N', U'), w')"
      using Cons.prems Some by (cases b) (simp_all add: former_def)
    from Cons.IH [OF this] Cons.prems show ?thesis by simp
  qed
qed simp

lemma register_new_props:
  assumes "register_new H b news (m, w) = (m', w')" and "distinct (map fst news)"
    and "\<forall>u. get_prop m (EndPointPropPrefix @ u) = [] \<or> u \<notin> fst ` set news"
  shows "\<forall>(u, n)\<in>set news. get_prop m' (EndPointPropPrefix @ u) = n"
    and "u \<notin> fst ` set news \<Longrightarrow> get_prop m' (EndPointPropPrefix @ u) = get_prop m (EndPointPropPrefix @ u)"
proof -
  have "(\<forall>(u, n)\<in>set news. get_prop m' (EndPointPropPrefix @ u) = n) \<and>
    (\<forall>u. u \<notin> fst ` set news \<longrightarrow> get_prop m' (EndPointPropPrefix @ u) = get_prop m (EndPointPropPrefix @ u))"
    using assms
  proof (induction news arbitrary: m w)
    case (Cons e news)
    obtain v n where e: "e = (v, n)" by fastforce
    let ?m = "UpdatePropertiesMap (EndPointPropPrefix @ v) n m"
    have r: "register_new H b news (?m, RegisterToApiGw H v n b w) = (m', w')"
      using Cons.prems(1) by (simp add: e register_new_def)
    have v: "v \<notin> fst ` set news" "get_prop m (EndPointPropPrefix @ v) = []"
      using Cons.prems(2,3) by (auto simp: e)
    have g: "get_prop ?m (EndPointPropPrefix @ u) = (if u = v then n else get_prop m (EndPointPropPrefix @ u))" for u
      using v(2) by simp
    have "\<forall>u. get_prop ?m (EndPointPropPrefix @ u) = [] \<or> u \<notin> fst ` set news"
      using Cons.prems(3) v(1) by (auto simp: g e)
    from Cons.IH [OF r _ this] Cons.prems(2) v(1) show ?case by (auto simp: e g)
  qed (simp add: register_new_def)
  then show "\<forall>(u, n)\<in>set news. get_prop m' (EndPointPropPrefix @ u) = n"
    and "u \<notin> fst ` set news \<Longrightarrow> get_prop m' (EndPointPropPrefix @ u) = get_prop m (EndPointPropPrefix @ u)" by auto
qed

lemma registered_published:
  assumes run: "registerEndpoints H s False m w = ((es, ty, m'), w')" and iter: "reordering (sh_iter H)"
    and none: "\<forall>u. get_prop m (EndPointPropPrefix @ u) = []"
  shows "\<exists>us. distinct us \<and> set us = set (given_uris s)
    \<and> fromEndpoints C es ty empty_endpoint = published (fst (GetAppConfig H w)) m' us
    \<and> (is_ok (fst (GetAppConfig H w)) \<longrightarrow> (\<forall>u\<in>set us. drawn_for H s (get_prop m' (EndPointPropPrefix @ u))))"
proof (cases "given_uris s = []")
  case True
  then have "ep_Uris (ti_Endpoint (si_TransportInfo s)) = []" "ep_Addresses (ti_Endpoint (si_TransportInfo s)) = []"
    by (auto simp: given_uris_def Let_def split: if_splits)
  then have "fromEndpoints C es ty empty_endpoint = published (fst (GetAppConfig H w)) m' []"
    using run
    by (auto simp: registerEndpoints_def fromEndpoints_def published_def empty_endpoint_def Alternatives_def Uris_def
        Addresses_def Let_def split: option.splits sum.splits)
  then show ?thesis using True by (intro exI [of _ "[]"]) simp
next
  case False
  obtain cfg w1 where c: "GetAppConfig H w = (cfg, w1)" by fastforce
  have h: "handleEndPointUri H s (given_uris s) False m w = ((es, ty, m'), w')"
    using run False by (auto simp: registerEndpoints_def given_uris_def Let_def split: if_splits)
  show ?thesis
  proof (cases cfg)
    case (Inl e)
    then have "fromEndpoints C es ty empty_endpoint = published (fst (GetAppConfig H w)) m' (remdups (given_uris s))"
      using h c
      by (simp add: handleEndPointUri_def fromEndpoints_def published_def empty_endpoint_def Alternatives_def Uris_def Addresses_def)
    then show ?thesis using c Inl by (intro exI [of _ "remdups (given_uris s)"]) simp
  next
    case (Inr conf)
    obtain N U w2 where split: "split_endpoints H s False m (given_uris s) ([], []) w1 = ((N, U), w2)" by (metis prod.collapse)
    let ?news = "sh_iter H N"
    obtain m3 w3 where r: "register_new H False ?news (m, w2) = (m3, w3)" by fastforce
    have out: "es = map (\<lambda>(uri, n). gateway_uri conf n) ?news" "ty = Uris" "m' = m3"
      using h c Inr split r by (auto simp: handleEndPointUri_def compareEndPointsWithDB_def Let_def)
    have N: "distinct (map fst N)" "\<forall>(u, n)\<in>set N. drawn_for H s n" "fst ` set N = set (given_uris s)"
      using split_endpoints_names [OF split] split_endpoints_parts [OF split] by (auto simp: former_def)
    then have d: "distinct (map fst ?news)" by (simp add: reordering_distinct_map [OF iter])
    have names: "\<forall>(u, n)\<in>set ?news. get_prop m' (EndPointPropPrefix @ u) = n"
      using register_new_props(1) [OF r d] none unfolding out(3) by simp
    have "es = map (\<lambda>u. gateway_uri conf (get_prop m' (EndPointPropPrefix @ u))) (map fst ?news)"
      using names by (auto simp: out(1) case_prod_beta)
    then have "fromEndpoints C es ty empty_endpoint = published (fst (GetAppConfig H w)) m' (map fst ?news)"
      by (simp add: out(2) c Inr fromEndpoints_def published_def empty_endpoint_def)
    moreover have "set (map fst ?news) = set (given_uris s)" using N(3) by (simp add: reordering_set [OF iter])
    moreover have "drawn_for H s (get_prop m' (EndPointPropPrefix @ u))" if "u \<in> set (map fst ?news)" for u
      using that names N(2) by (fastforce simp: reordering_set [OF iter])
    ultimately show ?thesis using d by blast
  qed
qed

lemma plain_update: "plain_key k \<Longrightarrow>
    get_prop (UpdatePropertiesMap k v m) (EndPointPropPrefix @ u) = get_prop m (EndPointPropPrefix @ u)"
  using plain_endpoint [of k u] by (intro get_prop_UpdatePropertiesMap(2)) auto

lemma plain_put: "plain_key k \<Longrightarrow> get_prop (al_put k v m) (EndPointPropPrefix @ u) = get_prop m (EndPointPropPrefix @ u)"
  using plain_endpoint [of k u] by auto

lemma plain_update_if: "plain_key k \<Longrightarrow>
    get_prop ((if b then UpdatePropertiesMap k v else (\<lambda>m. m)) m) (EndPointPropPrefix @ u) = get_prop m (EndPointPropPrefix @ u)"
  by (simp add: plain_update)

lemma base_no_endpoints: "get_prop (base_properties s nano []) (EndPointPropPrefix @ u) = []"
  unfolding property_maps by (simp only: plain_update plain_put plain_update_if plain_keys get_prop_Nil)

lemma transport_endpoint: "get_prop (transportInfoToProperties t m) (EndPointPropPrefix @ u) = get_prop m (EndPointPropPrefix @ u)"
  unfolding property_maps by (simp only: plain_update plain_keys)

lemma endPointType_kept: "get_prop (transportInfoToProperties t m) ''endPointType'' = get_prop m ''endPointType''"
  unfolding property_maps by simp

lemma generated_published:
  assumes run: "GenerateRegisterInstance H s False empty_instance w = ((inst, s1), w')" and iter: "reordering (sh_iter H)"
    and live: "set_liveness app serId s1 (al_put ''appInstanceId'' app (mi_Properties inst)) = (s2, m)"
    and cfg: "cfg = fst (GetAppConfig H (snd (sh_clock H (snd (sh_clock H w)))))"
  shows "\<exists>us. distinct us \<and> set us = set (given_uris s)
    \<and> fromEndpoints C (mi_Endpoints inst) (get_prop m ''endPointType'') empty_endpoint = published cfg m us
    \<and> (is_ok cfg \<longrightarrow> (\<forall>u\<in>set us. drawn_for H s (get_prop m (EndPointPropPrefix @ u))))"
    and "s2 = (if si_LivenessInterval s = 0 then s
      else s\<lparr>si_LivenessInterval := 60, si_Links := (si_Links s)\<lparr>ln_Self := LivenessPath app serId\<rparr>\<rparr>)"
proof -
  obtain now w1 nano w2 where c: "sh_clock H w = (now, w1)" "sh_clock H w1 = (nano, w2)" by fastforce
  obtain es ty m3 w3 where r: "registerEndpoints H (default_liveness s) False (base_properties s nano []) w2 = ((es, ty, m3), w3)"
    by (metis prod.collapse)
  have "si_TransportInfo (default_liveness s) = si_TransportInfo s" by (simp add: default_liveness_def)
  note g = run [unfolded GenerateRegisterInstance_def Let_def empty_instance_def c prod.case MicroServiceInstance.simps r this]
  have inst: "mi_Endpoints inst = es" "mi_Properties inst = transportInfoToProperties (si_TransportInfo s) (al_put ''endPointType'' ty m3)"
      "s1 = default_liveness s"
    using g by auto
  have t: "get_prop m ''endPointType'' = ty"
    using live by (auto simp: set_liveness_def inst(2) endPointType_kept split: if_splits)
  have e: "get_prop m (EndPointPropPrefix @ u) = get_prop m3 (EndPointPropPrefix @ u)" for u
    using live plain_put [OF plain_keys(10)] plain_put [OF plain_keys(11)] plain_put [OF plain_keys(12)]
    by (auto simp: set_liveness_def inst(2) transport_endpoint split: if_splits)
  have pub: "published cfg m = published cfg m3" by (simp add: published_def e fun_eq_iff split: sum.split)
  have "given_uris (default_liveness s) = given_uris s" "drawn_for H (default_liveness s) n = drawn_for H s n" for n
    by (simp_all add: default_liveness_def given_uris_def drawn_for_def)
  then show "\<exists>us. distinct us \<and> set us = set (given_uris s)
    \<and> fromEndpoints C (mi_Endpoints inst) (get_prop m ''endPointType'') empty_endpoint = published cfg m us
    \<and> (is_ok cfg \<longrightarrow> (\<forall>u\<in>set us. drawn_for H s (get_prop m (EndPointPropPrefix @ u))))"
    using registered_published [OF r iter, of C] base_no_endpoints [of s nano]
    unfolding inst(1) t e pub by (simp add: cfg c)
  show "s2 = (if si_LivenessInterval s = 0 then s
      else s\<lparr>si_LivenessInterval := 60, si_Links := (si_Links s)\<lparr>ln_Self := LivenessPath app serId\<rparr>\<rparr>)"
    using live by (auto simp: set_liveness_def inst(3) default_liveness_def DefaultHeartbeatInterval_def)
qed

section \<open>The host of the in-memory platform\<close>

definition mem_base :: string where "mem_base = ''http://apigw:8001''"

text \<open>The URI in the body of a service request, and the segments of a URL after the
  collection of services.\<close>

definition body_uri :: "string \<Rightarrow> string \<Rightarrow> string" where
  "body_uri n body =
     (let pre = length ''{ \"url\": \"''; post = length (''\", \"name\": \"'' @ n @ ''\" }'')
      in take (length body - pre - post) (drop pre body))"

definition gw_segments :: "string \<Rightarrow> string list" where
  "gw_segments url = split_on (CHR ''/'') (drop (length (mem_base @ serviceUrl)) url)"

definition mem_send :: "string \<Rightarrow> string \<Rightarrow> string \<Rightarrow> svc_world \<Rightarrow> string go_result \<times> svc_world" where
  "mem_send meth url body w =
     (Inr [], case gw_segments url of
        [n] \<Rightarrow> if meth = ''PUT'' then w\<lparr>vw_gws := al_put n (body_uri n body) (vw_gws w)\<rparr>
               else if meth = ''DELETE'' \<and> n \<notin> set (vw_routes w) then w\<lparr>vw_gws := al_del n (vw_gws w)\<rparr> else w
      | [n, r, n'] \<Rightarrow> if meth = ''PUT'' \<and> map_of (vw_gws w) n \<noteq> None then w\<lparr>vw_routes := n # vw_routes w\<rparr>
               else if meth = ''DELETE'' then w\<lparr>vw_routes := filter (\<lambda>x. x \<noteq> n) (vw_routes w)\<rparr> else w
      | _ \<Rightarrow> w)"

definition mem_host :: "svc_world svc_host" where
  "mem_host = \<lparr>
     sh_config = (\<lambda>w. (vw_config w, w)),
     sh_uuid = (\<lambda>w. (pad 20 (vw_count w) @ ''-uuid'', w\<lparr>vw_count := Suc (vw_count w)\<rparr>)),
     sh_clock = (\<lambda>w. (vw_clock w, w)),
     sh_send = mem_send, sh_gwBase = mem_base, sh_iter = rev\<rparr>"

lemma gw_segments_at:
  assumes "gw_name n"
  shows "gw_segments (service_at mem_host n) = [n]"
    and "gw_segments (route_at mem_host n) = [n, ''routes'', n]"
    and "gw_segments (plugin_at mem_host n) = [n, ''plugins'']"
proof -
  have n: "CHR ''/'' \<notin> set n" using assms by (simp add: gw_name_def)
  have d: "drop (length (mem_base @ serviceUrl)) (sh_gwBase mem_host @ serviceUrl @ x) = x" for x
    by (simp add: mem_host_def)
  show "gw_segments (service_at mem_host n) = [n]"
    unfolding gw_segments_def service_at_def d by (rule split_on_free [OF n])
  show "gw_segments (route_at mem_host n) = [n, ''routes'', n]"
    unfolding gw_segments_def route_at_def d using n
    by (simp add: routeUrl_def split_on_append_sep split_on_free)
  show "gw_segments (plugin_at mem_host n) = [n, ''plugins'']"
    unfolding gw_segments_def plugin_at_def d using n by (simp add: split_on_append_sep split_on_free)
qed

lemma body_uri_service: "body_uri n (service_body \<lparr>gi_SerName = n, gi_Uri = u\<rparr>) = u"
  by (simp add: body_uri_def service_body_def Let_def)

interpretation mem_kong: kong mem_host "\<lambda>w. map_of (vw_gws w)" "\<lambda>w. set (vw_routes w)"
proof -
  have send: "sh_send mem_host = mem_send" by (simp add: mem_host_def)
  show "kong mem_host (\<lambda>w. map_of (vw_gws w)) (\<lambda>w. set (vw_routes w))"
    by unfold_locales
      (auto simp: send mem_send_def gw_segments_at body_uri_service, simp_all add: mem_host_def)
qed

interpretation mem_blind: blind mem_host "\<lambda>w. map_of (vw_docs w)"
  by unfold_locales (auto simp: mem_host_def mem_send_def split: list.split)

interpretation mem_ports: svc_ports_up mem_center mem_host "\<lambda>w. map_of (vw_docs w)"
  by unfold_locales

end
