(* ===== verification/Svc_Properties.thy ===== *)
theory Svc_Properties
  imports Svc_Gateway
begin

text \<open>
  The properties of the service interface: what a registered service looks like when it is
  queried, the endpoints at the gateway, the limit of services, the services an application
  may discover, and what an update does to the service of another application.
\<close>

section \<open>A sample\<close>

definition sample_service :: ServiceInfo where
  "sample_service = empty_ServiceInfo\<lparr>si_SerName := ''face'', si_Version := ''1.2'', si_State := ''ACTIVE'',
     si_TransportID := ''rest-1'', si_Serializer := ''JSON'', si_ScopeOfLocality := ''MEC_HOST'', si_IsLocal := True,
     si_LivenessInterval := 5,
     si_TransportInfo := empty_transport\<lparr>ti_Protocol := ''HTTP'',
       ti_Endpoint := empty_endpoint\<lparr>ep_Uris := [''http://10.1.1.1:80/a'', ''http://10.1.1.1:80/b'']\<rparr>\<rparr>\<rparr>"

definition body_of :: "'b \<Rightarrow> 'b rule_codec" where
  "body_of b = \<lparr>rc_checkParam = (\<lambda>s. Inr s), rc_unmarshal = (\<lambda>s. Inr b), rc_validate = (\<lambda>b. None)\<rparr>"

definition svc_call :: "string \<Rightarrow> string \<Rightarrow> svc_request" where
  "svc_call app serId = \<lparr>mr_appInstanceId = app, mr_ruleId = [], mr_headerId = app, mr_path = [], mr_ifMatch = [],
     mr_body = Inr [], sr_subscriptionId = [], sr_serviceId = serId, sr_query = empty_query, sr_instance_id = [],
     sr_ser_name = [], sr_version = [], sr_consumerName = []\<rparr>"

definition no_codec :: svc_codec where
  "no_codec = \<lparr>cd_urlHost = (\<lambda>s. None), cd_splitHostPort = (\<lambda>s. None), cd_json = (\<lambda>s. Some s)\<rparr>"

definition svc_start :: svc_world where
  "svc_start = \<lparr>vw_docs = [], vw_gws = [], vw_routes = [], vw_count = 7, vw_clock = 1700,
     vw_config = Inr (''http_protocol = https'' @ newline @ ''ssl_enabled = true''), vw_open = True\<rparr>"

section \<open>Registration\<close>

text \<open>The configuration as a registration reads it: after the limit, the creation of the
  service and two readings of the clock.\<close>

definition config_read :: "'w svc_host \<Rightarrow> 'w service_center \<Rightarrow> string \<Rightarrow> ServiceInfo \<Rightarrow> 'w \<Rightarrow> props go_result" where
  "config_read H SC app s w =
     fst (GetAppConfig H (snd (sh_clock H (snd (sh_clock H
       (snd (RegisterServiceId_OnRequest SC s (snd (RegisterLimit_OnRequest SC app w)))))))))"

text \<open>(C8) A registered service is found as it was answered.  A registration that is
  answered with success decoded a document \<open>s\<close>, and the answer is that document with the
  id of the instance and, when a liveness interval was given, the interval of 60 seconds and
  the liveness link of the instance.  The instance is stored, and a query for the id of the
  answer (from an application whose header agrees with its path) succeeds and gives the
  document of the answer: same name, category, version, state and flags.  The
  exceptions are stated.  Its endpoint is what the gateway published: no addresses and no
  alternative, and for every URI or address that the document gave, each once, the URI of the
  gateway for the name that the stored properties record, which was drawn from the name of
  the service and a random identifier; no URI when the configuration of the gateway could not
  be read.  The grant types come back as one string cut at ASCII commas, although they were
  joined with another separator.  The service centre is assumed to answer for stored
  instances and to generate well-formed ids, and the calls to the gateway, the clock and the
  generator of identifiers not to change what it stores.\<close>

theorem register_then_get:
  assumes "svc_ports_up SC H docs" and "reordering (sh_iter H)"
    and "serviceRegister uuid codec H SC r w = (PlanOk (rsp, loc), w')"
    and "ValidateAppInstanceIdWithHeader (mr_appInstanceId r') r' = None"
    and "sr_serviceId r' = si_SerInstanceId rsp"
  shows "\<exists>s es m us. DecodeRestReq_ParseBody codec r = PlanOk s
    \<and> rsp = (if si_LivenessInterval s = 0 then s
         else s\<lparr>si_LivenessInterval := 60,
           si_Links := (si_Links s)\<lparr>ln_Self := LivenessPath (mr_appInstanceId r) (si_SerInstanceId rsp)\<rparr>\<rparr>)
         \<lparr>si_SerInstanceId := si_SerInstanceId rsp\<rparr>
    \<and> docs w' (split_id (si_SerInstanceId rsp)) = Some (es, m)
    \<and> distinct us \<and> set us = set (given_uris s)
    \<and> (is_ok (config_read H SC (mr_appInstanceId r) s w)
         \<longrightarrow> (\<forall>u\<in>set us. drawn_for H s (get_prop m (EndPointPropPrefix @ u))))
    \<and> fst (getOneService C SC r' w')
       = PlanOk (0, read_back (mr_appInstanceId r) (published (config_read H SC (mr_appInstanceId r) s w) m us) rsp)"
proof -
  note ports = assms(1)
  have up: "center_up SC docs" using ports by (simp add: svc_ports_up_def)
  obtain s w2 sid w3 where dec: "DecodeRestReq_ParseBody codec r = PlanOk s"
    and lim: "RegisterLimit_OnRequest SC (mr_appInstanceId r) w = (PlanOk (), w2)"
    and new: "RegisterServiceId_OnRequest SC s w2 = (PlanOk sid, w3)"
    and run: "RegisterServiceInst_OnRequest H SC (mr_appInstanceId r) sid s w3 = (PlanOk (rsp, loc), w')"
    using assms(3) by (auto simp: serviceRegister_def dest!: then_step_ok and_then_ok)
  have sid: "center_id sid"
    using new center_up.create_id [OF up, of "GenerateServiceRequest s" w2]
    by (auto simp: RegisterServiceId_OnRequest_def split: prod.splits sum.splits if_splits)
  let ?cfg = "config_read H SC (mr_appInstanceId r) s w"
  have cfg: "?cfg = fst (GetAppConfig H (snd (sh_clock H (snd (sh_clock H w3)))))" by (simp add: config_read_def lim new)
  from svc_ports_up.registered_get [OF ports run assms(2) sid, of C "mr_appInstanceId r'"]
  obtain inst s1 w1 iid m s2 w4 where g: "GenerateRegisterInstance H s False empty_instance w3 = ((inst, s1), w1)"
    and live: "set_liveness (mr_appInstanceId r) (sid @ iid) s1 (al_put ''appInstanceId'' (mr_appInstanceId r) (mi_Properties inst)) = (s2, m)"
    and doc: "docs w' (sid, iid) = Some (mi_Endpoints inst, m)"
    and rsp: "rsp = s2\<lparr>si_SerInstanceId := sid @ iid\<rparr>" and iid: "center_id iid"
    and get: "GetOneInstance_OnRequest C SC (mr_appInstanceId r') (sid, iid) w' = (PlanOk (0, read_back (mr_appInstanceId r)
        (fromEndpoints C (mi_Endpoints inst) (get_prop m ''endPointType'') empty_endpoint) rsp), w4)"
    by blast
  note s2 = generated_published(2) [OF g assms(2) live cfg]
  obtain us where us: "distinct us" "set us = set (given_uris s)"
    "fromEndpoints C (mi_Endpoints inst) (get_prop m ''endPointType'') empty_endpoint = published ?cfg m us"
    "is_ok ?cfg \<longrightarrow> (\<forall>u\<in>set us. drawn_for H s (get_prop m (EndPointPropPrefix @ u)))"
    using generated_published(1) [OF g assms(2) live cfg, of C] by blast
  have id: "si_SerInstanceId rsp = sid @ iid" by (simp add: rsp)
  have "GetOneDecode_getFindParam r' = PlanOk (sid, iid)"
    using assms(4,5) id sid iid by (simp add: GetOneDecode_getFindParam_def ValidateServiceID_center split_id_center)
  then have "fst (getOneService C SC r' w') = PlanOk (0, read_back (mr_appInstanceId r) (published ?cfg m us) rsp)"
    using get us(3) by (simp add: getOneService_def then_step_def)
  moreover have "docs w' (split_id (si_SerInstanceId rsp)) = Some (mi_Endpoints inst, m)"
    using doc id sid iid by (simp add: split_id_center)
  moreover have "rsp = (if si_LivenessInterval s = 0 then s
         else s\<lparr>si_LivenessInterval := 60,
           si_Links := (si_Links s)\<lparr>ln_Self := LivenessPath (mr_appInstanceId r) (si_SerInstanceId rsp)\<rparr>\<rparr>)
         \<lparr>si_SerInstanceId := si_SerInstanceId rsp\<rparr>"
    unfolding id using rsp s2 by simp
  ultimately show ?thesis using dec us(1,2,4) by blast
qed

abbreviation sample_run :: "(ServiceInfo \<times> string) plan_out \<times> svc_world" where
  "sample_run \<equiv> serviceRegister (\<lambda>_. True) (body_of sample_service) mem_host mem_center (svc_call ''app-1'' []) svc_start"

interpretation mem_open: blind mem_host vw_open
  by unfold_locales (auto simp: mem_host_def mem_send_def split: list.split)

lemma mem_registers:
  assumes "vw_open w"
  shows "\<exists>rsp loc w'. RegisterServiceInst_OnRequest mem_host mem_center app sid s w = (PlanOk (rsp, loc), w') \<and> si_SerName rsp = si_SerName s"
proof -
  obtain inst s1 w1 where g: "GenerateRegisterInstance mem_host s False empty_instance w = ((inst, s1), w1)"
    by (metis prod.collapse)
  have s1: "si_SerName s1 = si_SerName s"
    using g by (auto simp: GenerateRegisterInstance_def default_liveness_def Let_def split: prod.splits if_splits)
  have "vw_open w1" using mem_open.blind_generate [OF g] assms by simp
  with s1 show ?thesis
    by (auto simp: RegisterServiceInst_OnRequest_def g mem_center_def pad_not_Nil set_liveness_def Let_def)
qed

lemma sample_registers: "\<exists>rsp loc w'. sample_run = (PlanOk (rsp, loc), w') \<and> si_SerName rsp = ''face''"
proof -
  have d: "DecodeRestReq_GetParam (\<lambda>_. True) (svc_call ''app-1'' []) = PlanOk ()"
    "DecodeRestReq_ParseBody (body_of sample_service) (svc_call ''app-1'' []) = PlanOk sample_service"
    "RegisterLimit_OnRequest mem_center ''app-1'' svc_start = (PlanOk (), svc_start)" by code_simp+
  have i: "RegisterServiceId_OnRequest mem_center sample_service svc_start = (PlanOk (pad 16 4), svc_start)" by code_simp
  have "mr_appInstanceId (svc_call ''app-1'' []) = ''app-1''" "vw_open svc_start" "si_SerName sample_service = ''face''"
    by code_simp+
  then show ?thesis
    using mem_registers [of svc_start "''app-1''" "pad 16 4" sample_service]
    by (simp add: serviceRegister_def d i then_step_def and_then_def)
qed

theorem register_then_get_witness:
  "\<exists>rsp loc w' ep m. sample_run = (PlanOk (rsp, loc), w') \<and> si_SerName rsp = ''face'' \<and> si_LivenessInterval rsp = 60 \<and>
     length (ep_Uris ep) = 2 \<and>
     set (ep_Uris ep) = {''https://mep-api-gw.mep:8443/'' @ get_prop m ''endpoint/http://10.1.1.1:80/a'',
                         ''https://mep-api-gw.mep:8443/'' @ get_prop m ''endpoint/http://10.1.1.1:80/b''} \<and>
     fst (getOneService no_codec mem_center (svc_call ''app-1'' (si_SerInstanceId rsp)) w')
     = PlanOk (0, read_back ''app-1'' ep rsp)"
proof -
  obtain rsp loc w' where run: "sample_run = (PlanOk (rsp, loc), w')" and name: "si_SerName rsp = ''face''"
    using sample_registers by blast
  have v: "ValidateAppInstanceIdWithHeader (mr_appInstanceId (svc_call ''app-1'' (si_SerInstanceId rsp)))
      (svc_call ''app-1'' (si_SerInstanceId rsp)) = None"
    by (simp add: ValidateAppInstanceIdWithHeader_def svc_call_def)
  have i: "sr_serviceId (svc_call ''app-1'' (si_SerInstanceId rsp)) = si_SerInstanceId rsp" by (simp add: svc_call_def)
  have o: "reordering (sh_iter mem_host)" by (simp add: mem_host_def)
  have a: "mr_appInstanceId (svc_call ''app-1'' []) = ''app-1''" by (simp add: svc_call_def)
  have d: "DecodeRestReq_ParseBody (body_of sample_service) (svc_call ''app-1'' []) = PlanOk sample_service" by code_simp
  obtain conf where c: "config_read mem_host mem_center ''app-1'' sample_service svc_start = Inr conf"
    and conf: "gateway_uri conf n = ''https://mep-api-gw.mep:8443/'' @ n" for n
  proof (rule that)
    show "config_read mem_host mem_center ''app-1'' sample_service svc_start
      = Inr [(''http_protocol'', ''https''), (''ssl_enabled'', ''true'')]" by code_simp
    show "gateway_uri [(''http_protocol'', ''https''), (''ssl_enabled'', ''true'')] n = ''https://mep-api-gw.mep:8443/'' @ n" for n
      by code_simp
  qed
  have g: "set (given_uris sample_service) = {''http://10.1.1.1:80/a'', ''http://10.1.1.1:80/b''}"
    "si_LivenessInterval sample_service = 5" by code_simp+
  obtain s m us where dec: "PlanOk sample_service = PlanOk s"
    and r: "rsp = (if si_LivenessInterval s = 0 then s
         else s\<lparr>si_LivenessInterval := 60,
           si_Links := (si_Links s)\<lparr>ln_Self := LivenessPath ''app-1'' (si_SerInstanceId rsp)\<rparr>\<rparr>)
         \<lparr>si_SerInstanceId := si_SerInstanceId rsp\<rparr>"
    and us0: "distinct us" "set us = set (given_uris s)"
    and get0: "fst (getOneService no_codec mem_center (svc_call ''app-1'' (si_SerInstanceId rsp)) w')
       = PlanOk (0, read_back ''app-1'' (published (config_read mem_host mem_center ''app-1'' s svc_start) m us) rsp)"
    using register_then_get [OF mem_ports.svc_ports_up_axioms o run v i, of no_codec, unfolded a d] by blast
  have s: "s = sample_service" using dec by simp
  have us: "distinct us" "set us = {''http://10.1.1.1:80/a'', ''http://10.1.1.1:80/b''}"
    and rsp: "si_LivenessInterval rsp = 60"
    and get: "fst (getOneService no_codec mem_center (svc_call ''app-1'' (si_SerInstanceId rsp)) w')
       = PlanOk (0, read_back ''app-1'' (published (Inr conf) m us) rsp)"
    using us0 get0 arg_cong [OF r, of si_LivenessInterval] unfolding s c g by simp_all
  have "length us = 2" using distinct_card [OF us(1)] us(2) by simp
  then show ?thesis
    using run name rsp get us(2)
    by (intro exI [of _ rsp] exI [of _ loc] exI [of _ w'] exI [of _ "published (Inr conf) m us"] exI [of _ m])
      (simp add: published_def conf EndPointPropPrefix_def)
qed

section \<open>The gateway\<close>

text \<open>(C9) The gateway follows the recorded endpoints.  Registering or updating a document
  with URIs or addresses, on a readable configuration and with fresh names, keeps every
  recorded endpoint a routed service of the gateway for its URI, and afterwards exactly the
  given URIs are recorded: new ones are added, those no longer given are removed, in whatever
  order the maps are iterated.  The gateway is assumed to take the requests it is sent: the
  code ignores its answers, so a request that fails is not covered.\<close>

theorem endpoints_in_step:
  assumes "kong H gws routes" and "distinct (map fst m)" and "reordering (sh_iter H)"
    and "routed (gws w) (routes w) m" and "b \<or> (\<forall>uri. endpoint_of m uri = None)"
    and "is_ok (fst (GetAppConfig H w))" and "ep_Alternative (ti_Endpoint (si_TransportInfo s)) = None"
    and "distinct (drawn_names H s b m w)" and "\<forall>n\<in>set (drawn_names H s b m w). gw_name n \<and> gws w n = None"
    and "registerEndpoints H s b m w = ((es, ty, m'), w')"
  shows "routed (gws w') (routes w') m' \<and> (\<forall>uri. endpoint_of m' uri \<noteq> None \<longleftrightarrow> uri \<in> set (given_uris s))"
  by (rule kong.register_routed [OF assms])

theorem endpoints_in_step_witness:
  "\<exists>es ty m' w'. registerEndpoints mem_host sample_service True [(''endpoint/http://old/'', ''face-old'')]
       (svc_start\<lparr>vw_gws := [(''face-old'', ''http://old/'')], vw_routes := [''face-old'']\<rparr>) = ((es, ty, m'), w')
     \<and> routed (map_of (vw_gws w')) (set (vw_routes w')) m'
     \<and> endpoint_of m' ''http://10.1.1.1:80/a'' \<noteq> None \<and> endpoint_of m' ''http://old/'' = None"
proof -
  let ?m = "[(''endpoint/http://old/'', ''face-old'')]"
    and ?w = "svc_start\<lparr>vw_gws := [(''face-old'', ''http://old/'')], vw_routes := [''face-old'']\<rparr>"
  obtain es ty m' w' where run: "registerEndpoints mem_host sample_service True ?m ?w = ((es, ty, m'), w')"
    by (metis prod.collapse)
  have old: "endpoint_of ?m uri = Some n \<Longrightarrow> uri = ''http://old/'' \<and> n = ''face-old''" for uri n
    by (auto simp: EndPointPropPrefix_def split: if_splits)
  have r: "routed (map_of (vw_gws ?w)) (set (vw_routes ?w)) ?m"
    unfolding routed_def
  proof (intro allI impI)
    fix uri n assume "endpoint_of ?m uri = Some n"
    from old [OF this] show "gw_name n \<and> map_of (vw_gws ?w) n = Some uri \<and> n \<in> set (vw_routes ?w)"
      by (simp add: gw_name_def)
  qed
  have c: "is_ok (fst (GetAppConfig mem_host ?w))" by code_simp
  have a: "ep_Alternative (ti_Endpoint (si_TransportInfo sample_service)) = None" by code_simp
  have d: "distinct (drawn_names mem_host sample_service True ?m ?w)" by code_simp
  have n: "\<forall>n\<in>set (drawn_names mem_host sample_service True ?m ?w). gw_name n \<and> map_of (vw_gws ?w) n = None" by code_simp
  have g: "set (given_uris sample_service) = {''http://10.1.1.1:80/a'', ''http://10.1.1.1:80/b''}" by code_simp
  have i: "reordering (sh_iter mem_host)" by (simp add: mem_host_def)
  have m: "distinct (map fst ?m)" by simp
  note e = endpoints_in_step [OF mem_kong.kong_axioms m i r disjI1 [OF TrueI] c a d n run, unfolded g]
  have "endpoint_of m' ''http://10.1.1.1:80/a'' \<noteq> None" "endpoint_of m' ''http://old/'' = None"
    using spec [OF conjunct2 [OF e], of "''http://10.1.1.1:80/a''"] spec [OF conjunct2 [OF e], of "''http://old/''"]
    by simp_all
  with conjunct1 [OF e] run show ?thesis by blast
qed

section \<open>The limit of services\<close>

text \<open>(C33) Registration keeps the limit of services.  Whatever a registration answers and
  whatever the centre does, an application that had at most 50 services before has at most 50
  after, and so has every other application.\<close>

theorem service_limit:
  assumes "svc_ports SC H docs" and "finite (dom (docs w))"
    and "card (owned (docs w) a) \<le> ServicesMaxCount"
    and "serviceRegister uuid codec H SC r w = (out, w')"
  shows "card (owned (docs w') a) \<le> ServicesMaxCount"
proof -
  have c: "center SC docs" using assms(1) by (simp add: svc_ports_def)
  let ?app = "mr_appInstanceId r"
  have fin: "finite (owned (docs w) a)"
    using assms(2) by (rule rev_finite_subset) (auto simp: owned_def)
  consider "docs w' = docs w"
    | s w1 sid w2 where "RegisterLimit_OnRequest SC ?app w = (PlanOk (), w1)" "docs w2 = docs w1"
        "RegisterServiceInst_OnRequest H SC ?app sid s w2 = (out, w')"
    using assms(4) unfolding serviceRegister_def
    by (elim then_step_cases and_then_cases) (auto dest!: RegisterServiceId_docs [OF _ c] RegisterLimit_docs [OF _ c])
  then show ?thesis
  proof cases
    case 1
    then show ?thesis using assms(3) by simp
  next
    case 2
    note limit = center.limit_counts [OF c 2(1)]
    from svc_ports.register_docs [OF assms(1) 2(3)] consider "docs w' = docs w"
      | iid es m where "docs w' = (docs w)((sid, iid) \<mapsto> (es, m))" "get_prop m ''appInstanceId'' = ?app"
      using 2(2) limit(1) by auto
    then show ?thesis
    proof cases
      case 1
      then show ?thesis using assms(3) by simp
    next
      case new: 2
      show ?thesis
      proof (cases "a = ?app")
        case True
        have "card (owned (docs w') a) \<le> card (insert (sid, iid) (owned (docs w) a))"
          unfolding new(1) by (rule card_mono) (simp_all add: fin owned_upd)
        also have "\<dots> \<le> Suc (card (owned (docs w) a))" using card_insert_le_m1 [of "Suc (card (owned (docs w) a))"] fin
          by (simp add: card_insert_if)
        finally show ?thesis using limit(3) True by simp
      next
        case False
        have "card (owned (docs w') a) \<le> card (owned (docs w) a)"
          unfolding new(1) by (rule card_mono [OF fin owned_other]) (use new(2) False in simp)
        then show ?thesis using assms(3) by simp
      qed
    qed
  qed
qed

theorem service_limit_witness:
  "\<exists>out w'. sample_run = (out, w') \<and> card (owned (map_of (vw_docs w')) ''app-1'') \<le> 50"
proof -
  obtain out w' where run: "sample_run = (out, w')" by fastforce
  have d: "map_of (vw_docs svc_start) = Map.empty" by (simp add: svc_start_def)
  have "card (owned (map_of (vw_docs svc_start)) ''app-1'') \<le> ServicesMaxCount" by (simp add: d owned_def)
  then show ?thesis
    using service_limit [OF mem_ports.svc_ports_axioms _ _ run, of "''app-1''"] run
    by (simp add: ServicesMaxCount_def finite_dom_map_of)
qed

section \<open>Discovery\<close>

text \<open>(C22) An application discovers only what it may use.  A discovery on the common path,
  without an application in the path, answers with services only if mepauth named the services
  that the calling application requires, and then only with services of these names, unless
  mepauth allows all of them; when mepauth cannot be asked, the list is empty.\<close>

theorem discovery_only_required:
  assumes "serviceDiscover env A hook H C SC r w = (PlanOk (code, ss), w')" and "mr_appInstanceId r = []"
  shows "ss = [] \<or> (\<exists>w1 required w2 ok. GetRequiredSerFromMepauth env A H (mr_headerId r) w1 = (Inr required, w2)
    \<and> required_filter A required = Some ok \<and> (\<forall>s\<in>set ss. ok (si_SerName s)))"
proof -
  have names: "map si_SerName (fst (hook_services h xs v)) = map si_SerName xs" for h xs v
    by (induction h xs v rule: hook_services.induct) (auto split: prod.split)
  obtain resp w1 c xs w2 where
    t: "ToStrDiscover_OnRequest env A H C r resp w1 = (PlanOk (c, xs), w2)"
    and h: "RspHook_OnRequest hook r (c, xs) w2 = (PlanOk (code, ss), w')"
    using assms(1) by (auto simp: serviceDiscover_def dest!: then_step_ok and_then_ok)
  have ss: "map si_SerName ss = map si_SerName xs"
    using h names [of hook xs w2] by (auto simp: RspHook_OnRequest_def split: if_splits prod.splits)
  then have same: "si_SerName ` set ss = si_SerName ` set xs" "ss = [] \<longleftrightarrow> xs = []"
    by (metis set_map) (use ss in auto)
  have "xs = [] \<or> (\<exists>w1 required w2 ok. GetRequiredSerFromMepauth env A H (mr_headerId r) w1 = (Inr required, w2)
    \<and> required_filter A required = Some ok \<and> (\<forall>s\<in>set xs. ok (si_SerName s)))"
    using t assms(2)
    by (auto simp: ToStrDiscover_OnRequest_def Mp1CvtSrvAuthenDiscover_def split: if_splits prod.splits sum.splits option.splits)
      blast
  then show ?thesis using same by (metis imageE image_eqI)
qed

definition home_env :: server_env where
  "home_env = \<lparr>en_mepAuthPort = ''10443'', en_mepAuthHost = ''10.0.0.2'', en_certDomain = ''mep.local''\<rparr>"

definition one_name :: auth_codec where
  "one_name = \<lparr>au_required = (\<lambda>s. Some ''[\"face\"]''), au_names = (\<lambda>s. Some [''face''])\<rparr>"

definition two_services :: svc_world where
  "two_services = svc_start\<lparr>vw_docs := [((''s1'', ''i1''), [], [(''serName'', ''face'')]), ((''s2'', ''i2''), [], [(''serName'', ''pay'')])]\<rparr>"

theorem discovery_only_required_witness:
  "\<exists>ss w'. serviceDiscover home_env one_name None mem_host no_codec mem_center
       (svc_call [] []) two_services = (PlanOk (0, ss), w') \<and> map si_SerName ss = [''face'']
     \<and> (\<exists>w1 required w2 ok. GetRequiredSerFromMepauth home_env one_name mem_host [] w1 = (Inr required, w2)
       \<and> required_filter one_name required = Some ok \<and> (\<forall>s\<in>set ss. ok (si_SerName s)))"
proof -
  let ?run = "serviceDiscover home_env one_name None mem_host no_codec mem_center (svc_call [] []) two_services"
  have "(case fst ?run of PlanOk (c, ss) \<Rightarrow> c = 0 \<and> map si_SerName ss = [''face''] | _ \<Rightarrow> False)" by code_simp
  then obtain ss where "fst ?run = PlanOk (0, ss)" and n: "map si_SerName ss = [''face'']"
    by (auto split: plan_out.splits)
  then have run: "?run = (PlanOk (0, ss), snd ?run)" by (simp add: prod_eq_iff)
  have a: "mr_appInstanceId (svc_call [] []) = []" and h: "mr_headerId (svc_call [] []) = []" by (simp_all add: svc_call_def)
  have "ss \<noteq> []" using n by auto
  with discovery_only_required [OF run a, unfolded h]
  have named: "\<exists>w1 required w2 ok. GetRequiredSerFromMepauth home_env one_name mem_host [] w1 = (Inr required, w2)
      \<and> required_filter one_name required = Some ok \<and> (\<forall>s\<in>set ss. ok (si_SerName s))" by simp
  show ?thesis by (intro exI [of _ ss] exI [of _ "snd ?run"] conjI run n named)
qed

section \<open>Updates\<close>

text \<open>An update takes a service over.  Nothing compares the application of the stored
  service with the one of the request: a successful update of any known service makes the
  calling application its owner and changes no other service.  A field that the new document
  leaves empty is not cleared but keeps the value it had.\<close>

theorem update_takes_over:
  assumes "svc_ports SC H docs" and "reordering (sh_iter H)"
    and "DecodeRestReq_ParseBody codec r = PlanOk s"
    and "serviceUpdate uuid codec H SC r w = (PlanOk rsp, w')"
  shows "\<exists>es0 m0 es m. docs w (split_id (sr_serviceId r)) = Some (es0, m0)
    \<and> docs w' = (docs w)(split_id (sr_serviceId r) \<mapsto> (es, m))
    \<and> get_prop m ''appInstanceId'' = mr_appInstanceId r
    \<and> get_prop m ''serName'' = si_SerName s
    \<and> get_prop m ''transportId'' = keep (si_TransportID s) (get_prop m0 ''transportId'')
    \<and> get_prop m ''serCategory/id'' = keep (cat_ID (si_SerCategory s)) (get_prop m0 ''serCategory/id'')"
proof -
  have c: "center SC docs" and b: "blind H docs" using assms(1) by (simp_all add: svc_ports_def)
  let ?id = "sr_serviceId r" and ?app = "mr_appInstanceId r"
  have run: "UpdateInstance_OnRequest H SC ?app ?id s w = (PlanOk rsp, w')"
    using assms(3,4) by (auto simp: serviceUpdate_def dest!: then_step_ok)
  obtain i0 w1 where get: "sc_getInstance SC (fst (split_id ?id)) (snd (split_id ?id)) w = (Inr (Some i0), w1)"
    using run by (auto simp: UpdateInstance_OnRequest_def GetServiceInstance_def split: if_splits prod.splits sum.splits option.splits)
  have old: "docs w (split_id ?id) = Some (mi_Endpoints i0, mi_Properties i0)"
    and key: "(mi_ServiceId i0, mi_InstanceId i0) = split_id ?id" and w1: "docs w1 = docs w"
    using center.getInstance_ok [OF c get] center.getInstance_docs [OF c, of "fst (split_id ?id)" "snd (split_id ?id)" w] get
    by (auto simp: inst_doc_def)
  obtain inst s1 w2 where g: "GenerateRegisterInstance H s True i0 w1 = ((inst, s1), w2)" by (metis prod.collapse)
  obtain s2 m where l: "set_liveness ?app (mi_ServiceId i0 @ mi_InstanceId i0) s1 (al_put ''appInstanceId'' ?app (mi_Properties inst)) = (s2, m)"
    by fastforce
  obtain w3 where u: "sc_updateInstance SC (inst\<lparr>mi_Properties := m\<rparr>) w2 = (None, w3)" and w': "docs w' = docs w3"
    using run center.heartbeat_docs [OF c, of "fst (split_id ?id)" "snd (split_id ?id)"]
    by (auto simp: UpdateInstance_OnRequest_def GetServiceInstance_def RecordHeartbeat_def get g l
        split: if_splits prod.splits sum.splits option.splits) (metis snd_conv)
  obtain ty nano where
    p: "\<And>k. plain_key k \<Longrightarrow> get_prop (mi_Properties inst) k
        = get_prop (transportInfoToProperties (si_TransportInfo s) (al_put ''endPointType'' ty (base_properties s nano (mi_Properties i0)))) k"
    and ids: "mi_ServiceId inst = mi_ServiceId i0" "mi_InstanceId inst = mi_InstanceId i0"
    by (rule GenerateRegisterInstance_props [OF g assms(2)]) (rule that; assumption)
  have m: "get_prop m k = get_prop (al_put ''appInstanceId'' ?app (mi_Properties inst)) k" if "k \<noteq> ''liveness''" for k
    using l that by (auto simp: set_liveness_def split: if_splits)
  have skip: "get_prop ((if P then UpdatePropertiesMap ''livenessInterval'' v else (\<lambda>m. m)) M) k = get_prop M k"
    if "k \<noteq> ''livenessInterval''" for P v M k using that by simp
  note q = p [OF plain_keys(1)] p [OF plain_keys(4)] p [OF plain_keys(14)]
  note q = q [unfolded property_maps, simplified skip, simplified]
  have "docs w' = (docs w)(split_id ?id \<mapsto> (mi_Endpoints inst, m))"
    using center.updateInstance_ok [OF c u] blind.blind_generate [OF b g] w1 w' key ids by simp
  moreover have "get_prop m ''appInstanceId'' = ?app" "get_prop m ''serName'' = si_SerName s"
    "get_prop m ''transportId'' = keep (si_TransportID s) (get_prop (mi_Properties i0) ''transportId'')"
    "get_prop m ''serCategory/id'' = keep (cat_ID (si_SerCategory s)) (get_prop (mi_Properties i0) ''serCategory/id'')"
    using q by (simp_all add: m)
  ultimately show ?thesis using old by blast
qed

lemma mem_updates:
  assumes "map_of (vw_docs w) (split_id serId) = Some d" and "serId \<noteq> []"
  shows "\<exists>rsp w'. UpdateInstance_OnRequest mem_host mem_center app serId s w = (PlanOk rsp, w')"
proof -
  obtain i where i: "GetServiceInstance mem_center serId w = (Inr i, w)"
    using assms(1) by (simp add: GetServiceInstance_def mem_center_def mem_get_def)
  obtain inst s1 w1 where g: "GenerateRegisterInstance mem_host s True i w = ((inst, s1), w1)" by (metis prod.collapse)
  have ops: "RecordHeartbeat mem_center serId v = (None, v)" "\<exists>v'. sc_updateInstance mem_center j v = (None, v')" for v j
    by (simp_all add: RecordHeartbeat_def mem_center_def)
  obtain s2 m where l: "set_liveness app (mi_ServiceId i @ mi_InstanceId i) s1 (al_put ''appInstanceId'' app (mi_Properties inst)) = (s2, m)"
    by fastforce
  obtain w2 where "sc_updateInstance mem_center (inst\<lparr>mi_Properties := m\<rparr>) w1 = (None, w2)" using ops(2) by blast
  then show ?thesis using assms(2) by (simp add: UpdateInstance_OnRequest_def i g l ops)
qed

definition owned_service :: svc_world where
  "owned_service = svc_start\<lparr>vw_docs := [((pad 16 2, pad 16 3), [], [(''serName'', ''face''), (''appInstanceId'', ''app-1'')])]\<rparr>"

theorem update_takes_over_witness:
  "\<exists>rsp w' es m. serviceUpdate (\<lambda>_. True) (body_of sample_service) mem_host mem_center
       (svc_call ''app-2'' (pad 16 2 @ pad 16 3)) owned_service = (PlanOk rsp, w')
     \<and> map_of (vw_docs w') (pad 16 2, pad 16 3) = Some (es, m) \<and> get_prop m ''appInstanceId'' = ''app-2''"
proof -
  let ?r = "svc_call ''app-2'' (pad 16 2 @ pad 16 3)"
  have d: "DecodeRestReq_GetParam (\<lambda>_. True) ?r = PlanOk ()" by code_simp
  have p: "DecodeRestReq_ParseBody (body_of sample_service) ?r = PlanOk sample_service" by code_simp
  have r: "sr_serviceId ?r = pad 16 2 @ pad 16 3" "mr_appInstanceId ?r = ''app-2''" by (simp_all add: svc_call_def)
  have i: "split_id (pad 16 2 @ pad 16 3) = (pad 16 2, pad 16 3)" by (rule split_id_center [OF center_id_pad center_id_pad])
  have "map_of (vw_docs owned_service) (split_id (pad 16 2 @ pad 16 3)) = Some ([], [(''serName'', ''face''), (''appInstanceId'', ''app-1'')])"
    by (simp add: i owned_service_def)
  from mem_updates [OF this, of "''app-2''" sample_service] obtain rsp w' where
    run: "serviceUpdate (\<lambda>_. True) (body_of sample_service) mem_host mem_center ?r owned_service = (PlanOk rsp, w')"
    by (auto simp: serviceUpdate_def d p then_step_def r pad_not_Nil)
  have "reordering (sh_iter mem_host)" by (simp add: mem_host_def)
  from update_takes_over [OF mem_ports.svc_ports_axioms this p run] obtain es m where
    "map_of (vw_docs w') (pad 16 2, pad 16 3) = Some (es, m)" "get_prop m ''appInstanceId'' = ''app-2''"
    by (auto simp: r i)
  with run show ?thesis by blast
qed

end
