(* ===== verification/Heartbeat.thy ===== *)
theory Heartbeat
  imports Svc_Properties
begin

text \<open>
  The liveness of services: the heartbeat plans of the mp1 interface
  (\<open>mp1/plans/heartbeat_patched.go\<close>, \<open>heartbeat_get.go\<close>,
  \<open>common/models/service_liveness_info.go\<close>) and the process that once a second suspends
  overdue services (\<open>heartbeat.go\<close>).  A service with a liveness interval is ACTIVE or
  SUSPENDED depending on its last heartbeat; an INACTIVE one is left alone.
\<close>

section \<open>Intervals and times\<close>

text \<open>\<open>BufferHeartbeatInterval\<close>: a twentieth of the interval, rounded up, at most 5 more
  seconds.  The source computes it in floating point, which is exact up to the cap.\<close>

definition BufferHeartbeatInterval :: "int \<Rightarrow> int" where
  "BufferHeartbeatInterval interval = interval + min (- ((- interval) div 20)) 5"

record ServiceLivenessInfo =
  sl_State :: string
  sl_Seconds :: "32 word"
  sl_Nanoseconds :: "32 word"
  sl_Interval :: int


text \<open>The liveness part of an instance, or an error for a number that does not parse.\<close>

definition liveness_FromServiceInstance :: "MicroServiceInstance \<Rightarrow> ServiceLivenessInfo go_result" where
  "liveness_FromServiceInstance inst =
     (let m = mi_Properties inst in
      if m = [] then Inr \<lparr>sl_State = [], sl_Seconds = 0, sl_Nanoseconds = 0, sl_Interval = 0\<rparr>
      else (case atoi (get_prop m ''livenessInterval'') of
              (interval, False) \<Rightarrow> Inl (Err ''liveness interval'')
            | (interval, True) \<Rightarrow>
                (case parse_uint BitSize (get_prop m ''timestamp/seconds'') of
                   (seconds, False) \<Rightarrow> Inl (Err ''seconds'')
                 | (seconds, True) \<Rightarrow>
                     (case parse_uint BitSize (get_prop m ''timestamp/nanoseconds'') of
                        (nanoSeconds, False) \<Rightarrow> Inl (Err ''nanoseconds'')
                      | (nanoSeconds, True) \<Rightarrow>
                          Inr \<lparr>sl_State = get_prop m ''mecState'', sl_Seconds = word_of_nat seconds,
                               sl_Nanoseconds = word_of_nat nanoSeconds, sl_Interval = interval\<rparr>))))"

section \<open>The plans\<close>

text \<open>\<open>rc_unmarshal\<close> gives the \<open>state\<close> of the body; the validator requires
  \<open>ACTIVE\<close>.\<close>

definition DecodeHeartbeat_ParseBody :: "string rule_codec \<Rightarrow> svc_request \<Rightarrow> string plan_out" where
  "DecodeHeartbeat_ParseBody codec r =
     (case mr_body r of
        Inl e \<Rightarrow> PlanErr SerErrFailBase ''read request body error''
      | Inr msg \<Rightarrow>
          if length msg > RequestBodyLength then PlanErr RequestParamErr ''request body too large''
          else if length msg = 0 then PlanErr RequestParamErr ''request body is empty''
          else (case rc_unmarshal codec msg of
                  Inl e \<Rightarrow> PlanErr ParseInfoErr ''unmarshal request body error''
                | Inr state \<Rightarrow>
                    (case rc_validate codec state of
                       Some m \<Rightarrow> PlanErr RequestParamErr ''request param validation failed''
                     | None \<Rightarrow> PlanOk state)))"

definition DecodeHeartbeat_getFindParam :: "svc_request \<Rightarrow> (string \<times> string) plan_out" where
  "DecodeHeartbeat_getFindParam r =
     (case ValidateAppInstanceIdWithHeader (mr_appInstanceId r) r of
        Some e \<Rightarrow> PlanErr AuthorizationValidateErr (err_msg e)
      | None \<Rightarrow>
          if \<not> ValidateServiceID (sr_serviceId r) then PlanErr SerErrFailBase ''Invalid service ID''
          else PlanOk (split_id (sr_serviceId r)))"

definition GetOneDecodeHeartbeat_getFindParam :: "svc_request \<Rightarrow> (string \<times> string) plan_out" where
  "GetOneDecodeHeartbeat_getFindParam r =
     (if \<not> ValidateServiceID (sr_serviceId r) then PlanErr RequestParamErr ''Invalid service ID''
      else (case ValidateAppInstanceIdWithHeader (mr_appInstanceId r) r of
              Some e \<Rightarrow> PlanErr AuthorizationValidateErr (err_msg e)
            | None \<Rightarrow> PlanOk (split_id (sr_serviceId r))))"

definition GetOneInstanceHeartbeat_OnRequest ::
  "'w service_center \<Rightarrow> string \<Rightarrow> string \<times> string \<Rightarrow> 'w \<Rightarrow> (int \<times> ServiceLivenessInfo) plan_out \<times> 'w" where
  "GetOneInstanceHeartbeat_OnRequest SC app req w =
     (case sc_getOne SC (fst req) (snd req) w of
        (Inl e, w) \<Rightarrow> (PlanErr SerInstanceNotFound ''get one instance heartbeat error'', w)
      | (Inr (code, inst), w) \<Rightarrow>
          (case filterAppInstanceId_one app inst of
             None \<Rightarrow> (PlanErr SerInstanceNotFound ''service instance id in heartbeat not found'', w)
           | Some inst \<Rightarrow>
               (case liveness_FromServiceInstance inst of
                  Inl e \<Rightarrow> (PlanErr SerInstanceNotFound ''heartbeat data parsing failed'', w)
                | Inr rsp \<Rightarrow>
                    if sl_Interval rsp = 0 then (PlanErr HeartbeatServiceNotFound ''Invalid get heartbeat request'', w)
                    else (PlanOk (code, rsp), w))))"

definition UpdateHeartbeat_OnRequest ::
  "'w svc_host \<Rightarrow> 'w service_center \<Rightarrow> string \<Rightarrow> string \<Rightarrow> string \<times> string \<Rightarrow> 'w \<Rightarrow> int plan_out \<times> 'w" where
  "UpdateHeartbeat_OnRequest H SC app serId req w =
     (if serId = [] then (PlanErr SerInstanceNotFound ''ServiceId is not found'', w)
      else (case sc_getOne SC (fst req) (snd req) w of
              (Inl e, w) \<Rightarrow> (PlanErr SerInstanceNotFound ''get one instance error'', w)
            | (Inr (code, inst), w) \<Rightarrow>
                (case filterAppInstanceId_one app inst of
                   None \<Rightarrow> (PlanErr SerInstanceNotFound ''service instance id not found'', w)
                 | Some inst \<Rightarrow>
                     (let m = mi_Properties inst in
                      if fst (atoi (get_prop m ''livenessInterval'')) = 0
                      then (PlanErr HeartbeatServiceNotFound ''Invalid heartbeat update request'', w)
                      else if get_prop m ''mecState'' = InactiveState
                      then (PlanErr ServiceInactive ''The service is in INACTIVE state'', w)
                      else (case sh_clock H w of
                              (now, w) \<Rightarrow>
                                (case sc_updateProps SC (fst (split_id serId)) (snd (split_id serId))
                                        (put_timestamp now (UpdatePropertiesMap ''mecState'' ActiveState m)) w of
                                   (Inl e, w) \<Rightarrow> (PlanErr SerErrServiceInstanceFailed ''Status properties failed'', w)
                                 | (Inr code, w) \<Rightarrow> (PlanOk code, w)))))))"

definition getHeartbeat where
  "getHeartbeat SC r w =
     then_step (GetOneDecodeHeartbeat_getFindParam r) w (GetOneInstanceHeartbeat_OnRequest SC (mr_appInstanceId r))"

definition heartbeatService where
  "heartbeatService codec H SC r w =
     then_step (DecodeHeartbeat_getFindParam r) w (\<lambda>req w. then_step (DecodeHeartbeat_ParseBody codec r) w
       (\<lambda>_. UpdateHeartbeat_OnRequest H SC (mr_appInstanceId r) (sr_serviceId r) req))"

section \<open>The supervising process\<close>

text \<open>The supervised services: an interval above zero and the active state.  One instance
  whose interval does not parse ends the search with an error.\<close>

fun supervised :: "MicroServiceInstance list \<Rightarrow> MicroServiceInstance list option" where
  "supervised [] = Some []"
| "supervised (ins # inss) =
     (case atoi (get_prop (mi_Properties ins) ''livenessInterval'') of
        (liveInterval, False) \<Rightarrow> None
      | (liveInterval, True) \<Rightarrow>
          map_option (\<lambda>found. if liveInterval > 0 \<and> get_prop (mi_Properties ins) ''mecState'' = ActiveState
                              then ins # found else found) (supervised inss))"

text \<open>Every error gives no services.\<close>

definition availableServiceForHeartbeat :: "'w service_center \<Rightarrow> 'w \<Rightarrow> MicroServiceInstance list \<times> 'w" where
  "availableServiceForHeartbeat SC w =
     (case sc_files SC w of
        (Inl e, w) \<Rightarrow> ([], w)
      | (Inr docs, w) \<Rightarrow>
          ((case decode_all docs of
              None \<Rightarrow> []
            | Some inss \<Rightarrow> (case supervised inss of None \<Rightarrow> [] | Some found \<Rightarrow> found)), w))"

definition overdue :: "nat \<Rightarrow> props \<Rightarrow> bool" where
  "overdue now m \<longleftrightarrow>
     int (now div 10 ^ 9) - fst (parse_int BitSize (get_prop m ''timestamp/seconds''))
     > BufferHeartbeatInterval (fst (atoi (get_prop m ''livenessInterval'')))"

text \<open>The write carries all properties of the instance as it was read.\<close>

fun suspend_overdue :: "'w svc_host \<Rightarrow> 'w service_center \<Rightarrow> MicroServiceInstance list \<Rightarrow> 'w \<Rightarrow> 'w" where
  "suspend_overdue H SC [] w = w"
| "suspend_overdue H SC (svc # svcs) w =
     (case sh_clock H w of
        (now, w) \<Rightarrow>
          suspend_overdue H SC svcs
            (if overdue now (mi_Properties svc)
             then snd (sc_updateProps SC (mi_ServiceId svc) (mi_InstanceId svc)
                         (al_put ''mecState'' SuspendedState (mi_Properties svc)) w)
             else w))"

definition heartbeat_tick :: "'w svc_host \<Rightarrow> 'w service_center \<Rightarrow> 'w \<Rightarrow> 'w" where
  "heartbeat_tick H SC w = (case availableServiceForHeartbeat SC w of (services, w) \<Rightarrow> suspend_overdue H SC services w)"

section \<open>Times in text\<close>

lemma itoa_split: "n \<ge> 10 ^ j \<Longrightarrow> \<exists>t. itoa n = itoa (n div 10 ^ j) @ t \<and> length t = j"
proof (induction j)
  case (Suc j)
  then have "n \<ge> 10 ^ j" by simp
  with Suc.IH obtain t where t: "itoa n = itoa (n div 10 ^ j) @ t" "length t = j" by blast
  have "n div 10 ^ j \<ge> 10" using Suc.prems by (simp add: less_eq_div_iff_mult_less_eq mult.commute)
  then have "itoa (n div 10 ^ j) = itoa (n div 10 ^ Suc j) @ [digit (n div 10 ^ j mod 10)]"
    by (subst itoa.simps) (simp add: div_mult2_eq [symmetric] power_Suc2 del: power_Suc)
  with t show ?case by (auto intro: exI [of _ "digit (n div 10 ^ j mod 10) # t"])
qed simp

lemma length_itoa: "10 ^ k \<le> n \<Longrightarrow> n < 10 ^ Suc k \<Longrightarrow> length (itoa n) = Suc k"
proof -
  assume n: "10 ^ k \<le> n" "n < 10 ^ Suc k"
  obtain t where t: "itoa n = itoa (n div 10 ^ k) @ t" "length t = k" using itoa_split [OF n(1)] by blast
  have "n div 10 ^ k < 10" using n(2) by (simp add: div_less_iff_less_mult mult.commute)
  then have "length (itoa (n div 10 ^ k)) = 1" by (subst itoa.simps) simp
  with t show ?thesis by simp
qed

text \<open>The nanoseconds of the years 2001 to 2286 have 19 digits; then the first text is the
  time in seconds.\<close>

lemma sec_nano_seconds:
  assumes "10 ^ 18 \<le> now" and "now < 10 ^ 19"
  shows "fst (sec_nano now) = itoa (now div 10 ^ 9)"
proof -
  have l: "length (itoa now) = 19" using length_itoa [of 18 now] assms by simp
  obtain t where t: "itoa now = itoa (now div 10 ^ 9) @ t" "length t = 9"
    using itoa_split [of 9 now] assms by fastforce
  then have "length (itoa (now div 10 ^ 9)) = 10" using l by simp
  with t l show ?thesis by (simp add: sec_nano_def Let_def)
qed

section \<open>What a tick does\<close>

definition watched :: "props \<Rightarrow> bool" where
  "watched m \<longleftrightarrow> fst (atoi (get_prop m ''livenessInterval'')) > 0 \<and> get_prop m ''mecState'' = ActiveState"

lemma supervised_Some: "supervised inss = Some found \<Longrightarrow> found = filter (\<lambda>i. watched (mi_Properties i)) inss"
  by (induction inss arbitrary: found) (auto simp: watched_def split: prod.splits bool.splits)

definition suspended :: "nat \<Rightarrow> props \<Rightarrow> props" where
  "suspended t m = (if overdue t m then al_put ''mecState'' SuspendedState m else m)"

context center_up
begin

lemma suspend_overdue_docs:
  assumes "\<forall>v. fst (sh_clock H v) = t" and "\<forall>v. docs (snd (sh_clock H v)) = docs v"
    and "distinct (map (fst \<circ> inst_doc) svcs)"
    and "\<forall>i\<in>set svcs. docs w (fst (inst_doc i)) = Some (snd (inst_doc i))"
  shows "docs (suspend_overdue H SC svcs w) = (\<lambda>k. if k \<in> (fst \<circ> inst_doc) ` set svcs
           then map_option (\<lambda>(es, m). (es, suspended t m)) (docs w k) else docs w k)"
  using assms(3,4)
proof (induction svcs arbitrary: w)
  case (Cons i svcs)
  obtain v where v: "sh_clock H w = (t, v)" using assms(1) by (metis prod.collapse)
  then have dv: "docs v = docs w" using assms(2) by (metis snd_conv)
  let ?k = "(mi_ServiceId i, mi_InstanceId i)" and ?m = "mi_Properties i"
  have i: "docs w ?k = Some (mi_Endpoints i, ?m)" using Cons.prems(2) by (simp add: inst_doc_def)
  define u where "u = (if overdue t ?m
      then snd (sc_updateProps SC (mi_ServiceId i) (mi_InstanceId i) (al_put ''mecState'' SuspendedState ?m) v) else v)"
  have du: "docs u = (docs w)(?k \<mapsto> (mi_Endpoints i, suspended t ?m))"
  proof (cases "overdue t ?m")
    case True
    obtain r u1 where r: "sc_updateProps SC (mi_ServiceId i) (mi_InstanceId i) (al_put ''mecState'' SuspendedState ?m) v = (r, u1)"
      by fastforce
    have "docs v ?k = Some (mi_Endpoints i, ?m)" using i dv by simp
    with r have "r = Inr 0" using updateProps_up by (metis fst_conv)
    with updateProps_ok r i dv True show ?thesis by (fastforce simp: u_def suspended_def)
  qed (use i dv in \<open>auto simp: u_def suspended_def fun_upd_idem\<close>)
  have k: "fst (inst_doc i) = ?k" by (simp add: inst_doc_def)
  have fresh: "\<forall>j\<in>set svcs. fst (inst_doc j) \<noteq> ?k" using Cons.prems(1) unfolding k [symmetric] by (auto simp: image_iff)
  then have "\<forall>j\<in>set svcs. docs u (fst (inst_doc j)) = Some (snd (inst_doc j))"
    using Cons.prems(2) by (auto simp: du)
  moreover have "suspend_overdue H SC (i # svcs) w = suspend_overdue H SC svcs u"
    by (simp add: v u_def)
  moreover have "?k \<notin> (fst \<circ> inst_doc) ` set svcs" "(fst \<circ> inst_doc) i = ?k"
    using fresh k by auto
  ultimately show ?case
    using Cons.IH [of u] Cons.prems(1) i by (auto simp: du fun_eq_iff)
qed simp

lemma tick_docs:
  assumes "\<forall>v. fst (sh_clock H v) = t" and "\<forall>v. docs (snd (sh_clock H v)) = docs v"
    and files: "sc_files SC w = (Inr ds, w1)" and dec: "decode_all ds = Some inss" and sup: "supervised inss \<noteq> None"
  shows "docs (heartbeat_tick H SC w)
    = (\<lambda>k. map_option (\<lambda>(es, m). (es, if watched m then suspended t m else m)) (docs w k))"
proof -
  obtain found where found: "supervised inss = Some found" using sup by blast
  note f = supervised_Some [OF found]
  have w1: "docs w1 = docs w" using files_docs [of w] files by simp
  note all = files_ok [OF files dec]
  have g: "docs w k = Some d \<longleftrightarrow> (k, d) \<in> set (map inst_doc inss)" for k d using all by simp
  have "distinct (map (fst \<circ> inst_doc) inss)"
  proof -
    have "inj_on fst (set (map inst_doc inss))"
    proof (rule inj_onI)
      fix x y assume xy: "x \<in> set (map inst_doc inss)" "y \<in> set (map inst_doc inss)" and eq: "fst x = fst y"
      have "docs w (fst x) = Some (snd x)" "docs w (fst y) = Some (snd y)"
        using xy g [of "fst x" "snd x"] g [of "fst y" "snd y"] by simp_all
      then show "x = y" using eq by (metis option.inject prod_eqI)
    qed
    with all show ?thesis by (simp add: distinct_map comp_inj_on flip: map_map)
  qed
  then have dist: "distinct (map (fst \<circ> inst_doc) found)" unfolding f by (rule distinct_map_filter)
  have mem: "\<forall>i\<in>set found. docs w1 (fst (inst_doc i)) = Some (snd (inst_doc i))"
    using g by (auto simp: f w1)
  have "heartbeat_tick H SC w = suspend_overdue H SC found w1"
    by (simp add: heartbeat_tick_def availableServiceForHeartbeat_def files dec found)
  moreover have "k \<in> (fst \<circ> inst_doc) ` set found \<longleftrightarrow> (\<exists>es m. docs w k = Some (es, m) \<and> watched m)" for k
  proof -
    have "k \<in> (fst \<circ> inst_doc) ` set found \<longleftrightarrow> (\<exists>i\<in>set inss. watched (mi_Properties i) \<and> fst (inst_doc i) = k)"
      by (auto simp: f)
    also have "\<dots> \<longleftrightarrow> (\<exists>es m. (k, es, m) \<in> inst_doc ` set inss \<and> watched m)"
      by (auto simp: inst_doc_def)
    finally show ?thesis by (simp add: g)
  qed
  ultimately have run: "docs (heartbeat_tick H SC w) = (\<lambda>k. if \<exists>es m. docs w k = Some (es, m) \<and> watched m
      then map_option (\<lambda>(es, m). (es, suspended t m)) (docs w k) else docs w k)"
    using suspend_overdue_docs [OF assms(1,2) dist mem] by (simp add: w1 cong: if_cong)
  show ?thesis
  proof
    fix k
    show "docs (heartbeat_tick H SC w) k
      = map_option (\<lambda>(es, m). (es, if watched m then suspended t m else m)) (docs w k)"
      by (cases "docs w k") (auto simp: run)
  qed
qed

end

section \<open>Properties\<close>

text \<open>(C26) A tick suspends exactly the overdue services.  With a centre that answers and
  intervals that parse, one run of the supervising process at time \<open>t\<close> turns the state
  of every active service whose last heartbeat is longer ago than its interval and buffer to
  SUSPENDED, and changes no other service and no other property.\<close>

theorem tick_suspends_overdue:
  assumes "center_up SC docs" and "\<forall>v. fst (sh_clock H v) = t" and "\<forall>v. docs (snd (sh_clock H v)) = docs v"
    and "sc_files SC w = (Inr ds, w1)" and "decode_all ds = Some inss" and "supervised inss \<noteq> None"
  shows "docs (heartbeat_tick H SC w)
    = (\<lambda>k. map_option (\<lambda>(es, m). (es, if watched m \<and> overdue t m then al_put ''mecState'' SuspendedState m else m)) (docs w k))"
proof -
  have "(if watched m then suspended t m else m) = (if watched m \<and> overdue t m then al_put ''mecState'' SuspendedState m else m)" for m
    by (simp add: suspended_def)
  with center_up.tick_docs [OF assms] show ?thesis by simp
qed

definition live :: "string \<Rightarrow> string \<Rightarrow> props" where
  "live state seconds = [(''livenessInterval'', ''60''), (''mecState'', state), (''timestamp/seconds'', seconds)]"

definition live_world :: svc_world where
  "live_world = svc_start\<lparr>vw_clock := 1700000100000000000,
     vw_docs := [((pad 16 2, pad 16 3), [], live ''ACTIVE'' ''1700000030''),
                 ((pad 16 2, pad 16 4), [], live ''ACTIVE'' ''1700000040''),
                 ((pad 16 2, pad 16 5), [], live ''INACTIVE'' ''0'')]\<rparr>"

definition clock_host :: "nat \<Rightarrow> svc_world svc_host" where
  "clock_host t = mem_host\<lparr>sh_clock := (\<lambda>w. (t, w))\<rparr>"

theorem tick_suspends_overdue_witness:
  "map_of (vw_docs (heartbeat_tick (clock_host 1700000100000000000) mem_center live_world)) (pad 16 2, pad 16 3)
     = Some ([], al_put ''mecState'' SuspendedState (live ''ACTIVE'' ''1700000030''))
   \<and> map_of (vw_docs (heartbeat_tick (clock_host 1700000100000000000) mem_center live_world)) (pad 16 2, pad 16 4)
     = Some ([], live ''ACTIVE'' ''1700000040'')"
proof -
  let ?ds = "map (\<lambda>k. Some (mem_inst k (the (map_of (vw_docs live_world) k)))) (remdups (map fst (vw_docs live_world)))"
  let ?inss = "map (\<lambda>k. mem_inst k (the (map_of (vw_docs live_world) k))) (remdups (map fst (vw_docs live_world)))"
  have f: "sc_files mem_center live_world = (Inr ?ds, live_world)" by (simp add: mem_center_def)
  have d: "decode_all ?ds = Some ?inss" using decode_all_Some [of ?inss] by (simp add: comp_def)
  have s: "supervised ?inss \<noteq> None" by code_simp
  have c: "\<forall>v. fst (sh_clock (clock_host 1700000100000000000) v) = 1700000100000000000"
    "\<forall>v. map_of (vw_docs (snd (sh_clock (clock_host 1700000100000000000) v))) = map_of (vw_docs v)"
    by (simp_all add: clock_host_def)
  have a: "map_of (vw_docs live_world) (pad 16 2, pad 16 3) = Some ([], live ''ACTIVE'' ''1700000030'')"
    "map_of (vw_docs live_world) (pad 16 2, pad 16 4) = Some ([], live ''ACTIVE'' ''1700000040'')" by code_simp+
  have o: "watched (live ''ACTIVE'' ''1700000030'')" "overdue 1700000100000000000 (live ''ACTIVE'' ''1700000030'')"
    "\<not> overdue 1700000100000000000 (live ''ACTIVE'' ''1700000040'')" by code_simp+
  show ?thesis
    unfolding tick_suspends_overdue [OF mem_center.center_up_axioms c f d s] by (simp add: a o)
qed

text \<open>A heartbeat is worth an interval, until 2038.  An accepted heartbeat at time
  \<open>t\<close> was for a service with an interval that was not INACTIVE, makes it active and
  changes no other service; afterwards the service is overdue at a time exactly when more than
  its interval and buffer have passed since the heartbeat, where the seconds are read with 32
  bits, so that from January 2038 on every heartbeat counts as one of that date.\<close>

theorem heartbeat_then_overdue:
  assumes "center SC docs" and "\<forall>v. fst (sh_clock H v) = t" and "\<forall>v. docs (snd (sh_clock H v)) = docs v"
    and "10 ^ 18 \<le> t" and "t < 10 ^ 19"
    and "heartbeatService codec H SC r w = (PlanOk 0, w')"
  shows "\<exists>es m0 m. docs w (split_id (sr_serviceId r)) = Some (es, m0)
    \<and> docs w' = (docs w)(split_id (sr_serviceId r) \<mapsto> (es, m))
    \<and> get_prop m0 ''mecState'' \<noteq> InactiveState \<and> get_prop m ''mecState'' = ActiveState
    \<and> (\<forall>t2. overdue t2 m \<longleftrightarrow> int (t2 div 10 ^ 9) - min (int (t div 10 ^ 9)) (2 ^ 31 - 1)
        > BufferHeartbeatInterval (fst (atoi (get_prop m0 ''livenessInterval''))))"
proof -
  let ?id = "sr_serviceId r"
  have run: "UpdateHeartbeat_OnRequest H SC (mr_appInstanceId r) ?id (split_id ?id) w = (PlanOk 0, w')"
    using assms(6) by (auto simp: heartbeatService_def DecodeHeartbeat_getFindParam_def dest!: then_step_ok split: option.splits if_splits)
  obtain c i w1 where get: "sc_getOne SC (fst (split_id ?id)) (snd (split_id ?id)) w = (Inr (c, Some i), w1)"
    using run by (auto simp: UpdateHeartbeat_OnRequest_def filterAppInstanceId_one_def split: if_splits prod.splits sum.splits option.splits)
  obtain w2 where clock: "sh_clock H w1 = (t, w2)" using assms(2) by (metis prod.collapse)
  define m where "m = put_timestamp t (UpdatePropertiesMap ''mecState'' ActiveState (mi_Properties i))"
  have u: "sc_updateProps SC (fst (split_id ?id)) (snd (split_id ?id)) m w2 = (Inr 0, w')"
    and active: "get_prop (mi_Properties i) ''mecState'' \<noteq> InactiveState"
    using run by (auto simp: UpdateHeartbeat_OnRequest_def filterAppInstanceId_one_def get clock m_def Let_def split: if_splits prod.splits sum.splits)
  have old: "docs w (split_id ?id) = Some (mi_Endpoints i, mi_Properties i)" and same: "docs w2 = docs w"
    using center.getOne_ok [OF assms(1) get] center.getOne_docs [OF assms(1), of "fst (split_id ?id)" "snd (split_id ?id)" w]
      get clock assms(3) by (auto simp: inst_doc_def) (metis snd_conv)
  have new: "docs w' = (docs w)(split_id ?id \<mapsto> (mi_Endpoints i, m))"
    using center.updateProps_ok [OF assms(1) u] old same by auto
  have ne: "ActiveState \<noteq> []" "itoa (t div 10 ^ 9) \<noteq> []" by (simp_all add: ActiveState_def)
  have sec: "get_prop m ''timestamp/seconds'' = itoa (t div 10 ^ 9)"
    using ne by (simp add: m_def put_timestamp_def sec_nano_seconds [OF assms(4,5)])
  have "fst (parse_int BitSize (itoa (t div 10 ^ 9))) = min (int (t div 10 ^ 9)) (2 ^ 31 - 1)"
    using parse_int_itoa [of "t div 10 ^ 9" 32] parse_int_itoa_over [of 32 "t div 10 ^ 9"]
    by (cases "int (t div 10 ^ 9) < 2 ^ 31") (simp_all add: BitSize_def)
  then have "overdue t2 m \<longleftrightarrow> int (t2 div 10 ^ 9) - min (int (t div 10 ^ 9)) (2 ^ 31 - 1)
        > BufferHeartbeatInterval (fst (atoi (get_prop (mi_Properties i) ''livenessInterval'')))" for t2
    unfolding overdue_def sec by (simp add: m_def put_timestamp_def)
  moreover have "get_prop m ''mecState'' = ActiveState" using ne by (simp add: m_def put_timestamp_def)
  ultimately show ?thesis using old new active by blast
qed

theorem heartbeat_then_overdue_witness:
  "\<exists>w' es m. heartbeatService (body_of ''ACTIVE'') (clock_host 4102444800000000000) mem_center
       (svc_call ''app-1'' (pad 16 2 @ pad 16 4)\<lparr>mr_body := Inr ''x''\<rparr>) live_world = (PlanOk 0, w')
     \<and> map_of (vw_docs w') (pad 16 2, pad 16 4) = Some (es, m) \<and> overdue 4102444800000000000 m"
proof -
  let ?t = "4102444800000000000 :: nat" and ?r = "svc_call ''app-1'' (pad 16 2 @ pad 16 4)\<lparr>mr_body := Inr ''x''\<rparr>"
  let ?run = "heartbeatService (body_of ''ACTIVE'') (clock_host ?t) mem_center ?r live_world"
  have "fst ?run = PlanOk 0" by code_simp
  then have run: "?run = (PlanOk 0, snd ?run)" by (simp add: prod_eq_iff)
  have c: "\<forall>v. fst (sh_clock (clock_host ?t) v) = ?t" "\<forall>v. map_of (vw_docs (snd (sh_clock (clock_host ?t) v))) = map_of (vw_docs v)"
    by (simp_all add: clock_host_def)
  have i: "split_id (sr_serviceId ?r) = (pad 16 2, pad 16 4)"
    by (simp add: svc_call_def split_id_center [OF center_id_pad center_id_pad])
  have m0: "map_of (vw_docs live_world) (pad 16 2, pad 16 4) = Some ([], live ''ACTIVE'' ''1700000040'')" by code_simp
  have b: "BufferHeartbeatInterval (fst (atoi (get_prop (live ''ACTIVE'' ''1700000040'') ''livenessInterval''))) = 63" by code_simp
  have n: "10 ^ 18 \<le> ?t" "?t < 10 ^ 19" by simp_all
  note h = heartbeat_then_overdue [OF mem_center.center_axioms c n run, unfolded i m0]
  then obtain es m where m: "map_of (vw_docs (snd ?run)) (pad 16 2, pad 16 4) = Some (es, m)"
    and o: "\<forall>t2. overdue t2 m \<longleftrightarrow> int (t2 div 10 ^ 9) - min (int (?t div 10 ^ 9)) (2 ^ 31 - 1) > 63"
  proof (elim exE conjE)
    fix es m0 m
    assume same: "Some ([], live ''ACTIVE'' ''1700000040'') = Some (es, m0)"
      and new: "map_of (vw_docs (snd ?run)) = (map_of (vw_docs live_world))((pad 16 2, pad 16 4) \<mapsto> (es, m))"
      and due: "\<forall>t2. overdue t2 m \<longleftrightarrow> int (t2 div 10 ^ 9) - min (int (?t div 10 ^ 9)) (2 ^ 31 - 1)
        > BufferHeartbeatInterval (fst (atoi (get_prop m0 ''livenessInterval'')))"
    show thesis
    proof (rule that)
      show "map_of (vw_docs (snd ?run)) (pad 16 2, pad 16 4) = Some (es, m)" using new by simp
      show "\<forall>t2. overdue t2 m \<longleftrightarrow> int (t2 div 10 ^ 9) - min (int (?t div 10 ^ 9)) (2 ^ 31 - 1) > 63"
        using due same b by (metis option.inject prod.inject)
    qed
  qed
  have "overdue ?t m" using o by simp
  with run m show ?thesis by blast
qed

text \<open>A heartbeat between the reading and the writing of the process is lost: the process
  writes the properties it read, so the service is suspended with its old time although it has
  just been answered.\<close>

theorem heartbeat_lost:
  assumes "center_up SC docs" and "\<forall>v. fst (sh_clock H v) = t" and "\<forall>v. docs (snd (sh_clock H v)) = docs v"
    and "overdue t (mi_Properties i)" and "docs w (mi_ServiceId i, mi_InstanceId i) = Some (es, m)"
  shows "docs (suspend_overdue H SC [i] w) (mi_ServiceId i, mi_InstanceId i)
    = Some (es, al_put ''mecState'' SuspendedState (mi_Properties i))"
proof -
  have c: "center SC docs" using assms(1) by (simp add: center_up_def)
  obtain v where v: "sh_clock H w = (t, v)" using assms(2) by (metis prod.collapse)
  then have dv: "docs v = docs w" using assms(3) by (metis snd_conv)
  obtain u w1 where u: "sc_updateProps SC (mi_ServiceId i) (mi_InstanceId i) (al_put ''mecState'' SuspendedState (mi_Properties i)) v = (u, w1)"
    by fastforce
  have "u = Inr 0" using center_up.updateProps_up [OF assms(1)] assms(5) u dv by (metis fst_conv)
  with center.updateProps_ok [OF c] u dv assms(5) have "docs w1 (mi_ServiceId i, mi_InstanceId i)
    = Some (es, al_put ''mecState'' SuspendedState (mi_Properties i))" by fastforce
  then show ?thesis using assms(4) by (simp add: v u)
qed

end
