(* ===== verification/Subscriptions.thy ===== *)
theory Subscriptions
  imports Svc_Properties
begin

text \<open>
  The subscriptions of applications (\<open>mp1/plans/app_subscribe.go\<close>,
  \<open>app_subscribes_get.go\<close>, \<open>app_subscribe_one_get.go\<close>,
  \<open>app_subscribe_one_del.go\<close>) and the notifications about services that they ask for
  (\<open>mp1/event/instance_event_handler.go\<close>).  Subscriptions are documents of the registry
  under one key per application and subscription.  The service centre reports each change of
  an instance; the event handler sends a message to the call-back of every subscription whose
  filter accepts the instance.
\<close>

section \<open>Keys\<close>

definition AppSubscriptionCount :: nat where "AppSubscriptionCount = 50"
definition MecServicePath :: string where "MecServicePath = ''/mec_service_mgmt/v1''"
definition MecAppSupportPath :: string where "MecAppSupportPath = ''/mec_app_support/v1''"
definition RootPath :: string where "RootPath = ''/mep''"

text \<open>The two transactions on a single key: read it, delete it.\<close>

record 'w key_registry =
  kr_get :: "string \<Rightarrow> 'w \<Rightarrow> doc option go_result \<times> 'w"
  kr_del :: "string \<Rightarrow> 'w \<Rightarrow> go_error option \<times> 'w"

definition subscription_key :: "string \<Rightarrow> string \<Rightarrow> string \<Rightarrow> string" where
  "subscription_key subType app subId = GetSubscribeKeyPath subType @ app @ ''/'' @ subId"

text \<open>The path of the resource without the root of the interface.\<close>

definition self_path :: "string \<Rightarrow> string" where
  "self_path p = drop (length RootPath) p"

section \<open>Subscribing\<close>

text \<open>The body of a request, of one of the two types of subscription.\<close>

datatype sub_body = SerAvail SerAvailabilitySubscription | AppTerm TerminationSubscription

fun sub_doc :: "sub_body \<Rightarrow> doc" where
  "sub_doc (SerAvail s) = DocAvail s" | "sub_doc (AppTerm s) = DocSub s"

fun sub_callback :: "sub_body \<Rightarrow> string" where
  "sub_callback (SerAvail s) = av_CallbackReference s" | "sub_callback (AppTerm s) = sub_CallbackReference s"

fun with_self :: "string \<Rightarrow> sub_body \<Rightarrow> sub_body" where
  "with_self href (SerAvail s) = SerAvail (s\<lparr>av_Self := href\<rparr>)"
| "with_self href (AppTerm s) = AppTerm (s\<lparr>sub_Self := href\<rparr>)"

fun with_id :: "string \<Rightarrow> sub_body \<Rightarrow> sub_body" where
  "with_id i (SerAvail s) = SerAvail (s\<lparr>av_SubscriptionId := i\<rparr>)"
| "with_id i (AppTerm s) = AppTerm (s\<lparr>sub_SubscriptionId := i\<rparr>)"

fun sub_location :: "sub_body \<Rightarrow> string \<Rightarrow> string \<Rightarrow> string" where
  "sub_location (SerAvail s) app i = MecServicePath @ ''/applications/'' @ app @ ''/subscriptions/'' @ i"
| "sub_location (AppTerm s) app i = MecAppSupportPath @ ''/applications/'' @ app @ ''/subscriptions/'' @ i"

definition getMp1SubscribeInfo :: "string \<Rightarrow> sub_body \<Rightarrow> sub_body option" where
  "getMp1SubscribeInfo subType body =
     (case body of
        SerAvail s \<Rightarrow> if subType = SerAvailabilityNotificationSubscription then Some body else None
      | AppTerm s \<Rightarrow> if subType = SerAvailabilityNotificationSubscription then None else Some body)"

text \<open>True for an invalid reference, where \<open>uri\<close> is \<open>url.ParseRequestURI\<close>.\<close>

definition ValidateCallbackUri :: "(string \<Rightarrow> bool) \<Rightarrow> sub_body \<Rightarrow> bool" where
  "ValidateCallbackUri uri body \<longleftrightarrow> sub_callback body \<noteq> [] \<and> \<not> uri (sub_callback body)"

definition insertOrUpdateData :: "'w registry \<Rightarrow> string \<Rightarrow> string \<Rightarrow> string \<Rightarrow> sub_body \<Rightarrow> 'w \<Rightarrow> go_error option \<times> 'w" where
  "insertOrUpdateData R subType app subId body w = reg_put R (subscription_key subType app subId) (sub_doc body) w"

text \<open>The answer, which has the new id and its location; the stored document has neither.\<close>

definition sub_buildResponse :: "string \<Rightarrow> string \<Rightarrow> sub_body \<Rightarrow> sub_body \<times> string" where
  "sub_buildResponse app subId body =
     (with_id subId (with_self (sub_location body app subId) body), sub_location body app subId)"

definition AppSubscribeLimit_OnRequest :: "'w registry \<Rightarrow> string \<Rightarrow> string \<Rightarrow> 'w \<Rightarrow> unit plan_out \<times> 'w" where
  "AppSubscribeLimit_OnRequest R subType app w =
     (case reg_get R (GetSubscribeKeyPath subType @ app) w of
        (Inl err, w) \<Rightarrow> (PlanErr OperateDataWithEtcdErr ''get subscription from etcd failed'', w)
      | (Inr kvs, w) \<Rightarrow>
          if length kvs \<ge> AppSubscriptionCount then (PlanErr SubscriptionErr ''subscription has over the limit'', w)
          else (PlanOk (), w))"

definition SubscribeIst_OnRequest ::
  "'w registry \<Rightarrow> (string \<Rightarrow> bool) \<Rightarrow> ('w \<Rightarrow> string \<times> 'w) \<Rightarrow> string \<Rightarrow> string \<Rightarrow> sub_body \<Rightarrow> 'w \<Rightarrow> (sub_body \<times> string) plan_out \<times> 'w" where
  "SubscribeIst_OnRequest R uri newUuid subType app body w =
     (case getMp1SubscribeInfo subType body of
        None \<Rightarrow> (PlanErr RequestParamErr ''request body invalid'', w)
      | Some info \<Rightarrow>
          if ValidateCallbackUri uri info then (PlanErr RequestParamErr ''Invalid CallbackReference uri'', w)
          else (case newUuid w of
                  (subId, w) \<Rightarrow>
                    (case insertOrUpdateData R subType app subId info w of
                       (Some err, w) \<Rightarrow> (PlanErr OperateDataWithEtcdErr ''put subscription to etcd failed'', w)
                     | (None, w) \<Rightarrow> (PlanOk (sub_buildResponse app subId info), w))))"

section \<open>Queries and removal\<close>

record Subscription =
  sl_Href :: string
  sl_Rel :: string

text \<open>The links of a list of keys, where \<open>parse\<close> gives the path of a parsed URL.\<close>

fun subscription_links ::
  "(string \<Rightarrow> string option) \<Rightarrow> string \<Rightarrow> string \<Rightarrow> (string \<times> doc) list \<Rightarrow> Subscription list option" where
  "subscription_links parse subType selfPath [] = Some []"
| "subscription_links parse subType selfPath ((k, v) # kvs) =
     (case parse k of
        None \<Rightarrow> None
      | Some p \<Rightarrow> map_option (Cons \<lparr>sl_Href = selfPath @ ''/'' @ file_base p, sl_Rel = subType\<rparr>)
                    (subscription_links parse subType selfPath kvs))"

definition GetSubscribes_OnRequest ::
  "'w registry \<Rightarrow> (string \<Rightarrow> string option) \<Rightarrow> string \<Rightarrow> string \<Rightarrow> string \<Rightarrow> 'w \<Rightarrow> (string \<times> Subscription list) plan_out \<times> 'w" where
  "GetSubscribes_OnRequest R parse subType app path w =
     (case reg_get R (GetSubscribeKeyPath subType @ app) w of
        (Inl err, w) \<Rightarrow> (PlanErr OperateDataWithEtcdErr ''get subscription from etcd failed'', w)
      | (Inr kvs, w) \<Rightarrow>
          (case subscription_links parse subType (self_path path) kvs of
             None \<Rightarrow> (PlanErr ParseInfoErr ''parse value failed'', w)
           | Some [] \<Rightarrow> (PlanErr SubscriptionNotFound ''get subscription failed, subscription not exist'', w)
           | Some subs \<Rightarrow> (PlanOk (self_path path, subs), w)))"

definition GetOneSubscribe_OnRequest ::
  "'w key_registry \<Rightarrow> string \<Rightarrow> string \<Rightarrow> string \<Rightarrow> string \<Rightarrow> 'w \<Rightarrow> sub_body plan_out \<times> 'w" where
  "GetOneSubscribe_OnRequest K subType app subId path w =
     (case kr_get K (subscription_key subType app subId) w of
        (Inl err, w) \<Rightarrow> (PlanErr OperateDataWithEtcdErr ''get subscription from etch failed'', w)
      | (Inr None, w) \<Rightarrow> (PlanErr SubscriptionNotFound ''subscription not exist'', w)
      | (Inr (Some d), w) \<Rightarrow>
          (case (if subType = SerAvailabilityNotificationSubscription then map_option SerAvail (unmarshal_avail d)
                 else map_option AppTerm (unmarshal_sub d)) of
             None \<Rightarrow> (PlanErr ParseInfoErr ''subscription parsed fail'', w)
           | Some sub \<Rightarrow> (PlanOk (with_self (self_path path) sub), w)))"

definition DelOneSubscribe_OnRequest :: "'w key_registry \<Rightarrow> string \<Rightarrow> string \<Rightarrow> string \<Rightarrow> 'w \<Rightarrow> unit plan_out \<times> 'w" where
  "DelOneSubscribe_OnRequest K subType app subId w =
     (case kr_get K (subscription_key subType app subId) w of
        (Inl err, w) \<Rightarrow> (PlanErr OperateDataWithEtcdErr ''get subscription from etch failed'', w)
      | (Inr None, w) \<Rightarrow> (PlanErr SubscriptionNotFound ''subscription not exist'', w)
      | (Inr (Some d), w) \<Rightarrow>
          (case kr_del K (subscription_key subType app subId) w of
             (Some err, w) \<Rightarrow> (PlanErr OperateDataWithEtcdErr ''delete subscription from etch failed'', w)
           | (None, w) \<Rightarrow> (PlanOk (), w)))"

section \<open>The handlers\<close>

text \<open>Each handler exists for both types of subscription.\<close>

definition subscribe where
  "subscribe subType R uuid codec uri newUuid r w =
     then_step (DecodeRestReq_GetParam uuid r) w (\<lambda>_ w. then_step (DecodeRestReq_ParseBody codec r) w (\<lambda>body w.
       and_then (AppSubscribeLimit_OnRequest R subType (mr_appInstanceId r) w)
         (\<lambda>_. SubscribeIst_OnRequest R uri newUuid subType (mr_appInstanceId r) body)))"

definition doAppSubscribe where
  "doAppSubscribe = subscribe SerAvailabilityNotificationSubscription"

definition appEndSubscribe where
  "appEndSubscribe = subscribe AppTerminationNotificationSubscription"

definition get_subscribes where
  "get_subscribes subType R uuid parse r w =
     then_step (DecodeRestReq_GetParam uuid r) w
       (\<lambda>_. GetSubscribes_OnRequest R parse subType (mr_appInstanceId r) (mr_path r))"

definition getAppSubscribes where
  "getAppSubscribes = get_subscribes SerAvailabilityNotificationSubscription"

definition getAppEndSubscribes where
  "getAppEndSubscribes = get_subscribes AppTerminationNotificationSubscription"

definition get_one_subscribe where
  "get_one_subscribe subType K uuid r w =
     then_step (DecodeRestReq_GetParam uuid r) w
       (\<lambda>_. GetOneSubscribe_OnRequest K subType (mr_appInstanceId r) (sr_subscriptionId r) (mr_path r))"

definition getOneAppSubscribe where
  "getOneAppSubscribe = get_one_subscribe SerAvailabilityNotificationSubscription"

definition getEndAppOneSubscribe where
  "getEndAppOneSubscribe = get_one_subscribe AppTerminationNotificationSubscription"

definition del_one_subscribe where
  "del_one_subscribe subType K uuid r w =
     then_step (DecodeRestReq_GetParam uuid r) w
       (\<lambda>_. DelOneSubscribe_OnRequest K subType (mr_appInstanceId r) (sr_subscriptionId r))"

definition delOneAppSubscribe where
  "delOneAppSubscribe = del_one_subscribe SerAvailabilityNotificationSubscription"

definition delEndAppOneSubscribe where
  "delEndAppOneSubscribe = del_one_subscribe AppTerminationNotificationSubscription"

end
