(* ===== verification/Notifications.thy ===== *)
theory Notifications
  imports Subscriptions
begin

text \<open>
  The notifications about services (\<open>mp1/event/instance_event_handler.go\<close>): the
  handler of the events of the service centre, the choice of the subscriptions by their
  filters, and the messages.
\<close>

section \<open>Filters\<close>

definition isAllFilterEmpty :: "FilteringCriteria \<Rightarrow> bool" where
  "isAllFilterEmpty f \<longleftrightarrow> length (fc_SerNames f) = 0 \<and> length (fc_SerInstanceIds f) = 0
     \<and> length (fc_SerCategories f) = 0 \<and> length (fc_States f) = 0 \<and> \<not> fc_IsLocal f"

definition isServiceCategoryMatched :: "CategoryRef list \<Rightarrow> CategoryRef \<Rightarrow> bool" where
  "isServiceCategoryMatched serCategories serCategory =
     list_ex (\<lambda>c. cat_Href c = cat_Href serCategory \<and> cat_ID c = cat_ID serCategory
                  \<and> cat_Name c = cat_Name serCategory \<and> cat_Version c = cat_Version serCategory) serCategories"

definition isFilterContain :: "FilteringCriteria \<Rightarrow> string \<Rightarrow> string \<Rightarrow> CategoryRef \<Rightarrow> bool" where
  "isFilterContain f instanceID serName serCategory \<longleftrightarrow>
     length (fc_SerInstanceIds f) \<noteq> 0 \<and> StringContains (fc_SerInstanceIds f) instanceID \<noteq> -1
     \<or> length (fc_SerNames f) \<noteq> 0 \<and> StringContains (fc_SerNames f) serName \<noteq> -1
     \<or> length (fc_SerCategories f) \<noteq> 0 \<and> isServiceCategoryMatched (fc_SerCategories f) serCategory"

text \<open>The comparison of the locality is overwritten before it is used.\<close>

definition isInFilter :: "FilteringCriteria \<Rightarrow> string \<Rightarrow> string \<Rightarrow> string \<Rightarrow> string \<Rightarrow> CategoryRef \<Rightarrow> bool" where
  "isInFilter f instanceID serName isLocal state serCategory =
     (let localFilter = (format_bool (fc_IsLocal f) = isLocal);
          stateFilter = (fc_States f = [] \<or> StringContains (fc_States f) state \<noteq> -1);
          localFilter = True
      in if \<not> localFilter \<or> \<not> stateFilter then False
         else if isAllFilterEmpty f then True
         else isFilterContain f instanceID serName serCategory)"

section \<open>Messages\<close>

record ServiceReferences =
  nr_Href :: string
  nr_SerName :: string
  nr_SerInstanceID :: string
  nr_State :: string
  nr_ChangeType :: string

record ServiceAvailabilityNotification =
  nt_NotificationType :: string
  nt_ServiceReferences :: "ServiceReferences list"
  nt_Subscription :: string

text \<open>What the handler uses of the platform: the counting of instances, the quota, the
  default project, whether notifications are closed, the look-up of a service, the HTTP client,
  and the iteration orders of the two maps.\<close>

record 'w event_host =
  eh_report :: "string \<Rightarrow> int \<Rightarrow> 'w \<Rightarrow> 'w"
  eh_remandQuota :: "string \<Rightarrow> string \<Rightarrow> 'w \<Rightarrow> 'w"
  eh_isDefault :: "string \<Rightarrow> bool"
  eh_closed :: "'w \<Rightarrow> bool"
  eh_service :: "string \<Rightarrow> string \<Rightarrow> 'w \<Rightarrow> bool \<times> 'w"
  eh_post :: "string \<Rightarrow> ServiceAvailabilityNotification \<Rightarrow> 'w \<Rightarrow> 'w"
  eh_iterSubs :: "(string \<times> SerAvailabilitySubscription) list \<Rightarrow> (string \<times> SerAvailabilitySubscription) list"
  eh_iterUris :: "(string \<times> string) list \<Rightarrow> (string \<times> string) list"

definition GetAllSubscriberInfoFromDB :: "'w registry \<Rightarrow> 'w \<Rightarrow> (string \<times> SerAvailabilitySubscription) list \<times> 'w" where
  "GetAllSubscriberInfoFromDB R w =
     (case reg_get R (GetSubscribeKeyPath SerAvailabilityNotificationSubscription) w of
        (Inl err, w) \<Rightarrow> ([], w)
      | (Inr kvs, w) \<Rightarrow>
          (fold (\<lambda>(k, d) m. case unmarshal_avail d of None \<Rightarrow> m | Some notifyInfo \<Rightarrow> al_put k notifyInfo m) kvs [], w))"

definition getCallBackUris ::
  "'w event_host \<Rightarrow> 'w registry \<Rightarrow> string \<Rightarrow> string \<Rightarrow> string \<Rightarrow> string \<Rightarrow> CategoryRef \<Rightarrow> 'w \<Rightarrow> (string \<times> string) list \<times> 'w" where
  "getCallBackUris H R instanceID serName isLocal state serCategory w =
     (case GetAllSubscriberInfoFromDB R w of
        (notifyInfos, w) \<Rightarrow>
          (fold (\<lambda>(subKey, s) m.
                   if isInFilter (av_FilteringCriteria s) instanceID serName isLocal state serCategory
                   then al_put subKey (av_CallbackReference s) m else m) (eh_iterSubs H notifyInfos) [], w))"

definition service_change :: "string \<Rightarrow> MicroServiceInstance \<Rightarrow> ServiceAvailabilityNotification" where
  "service_change action inst =
     (let ident = mi_ServiceId inst @ mi_InstanceId inst; m = mi_Properties inst;
          href = ''/mec_service_mgmt/v1/services/'' @ ident;
          ref = (\<lambda>link ty. \<lparr>nr_Href = link, nr_SerName = get_prop m ''serName'', nr_SerInstanceID = ident,
                   nr_State = get_prop m ''mecState'', nr_ChangeType = ty\<rparr>)
      in \<lparr>nt_NotificationType = ''SerAvailabilityNotification'',
          nt_ServiceReferences =
            [if action = ''CREATE'' then ref href ''ADDED''
             else if action = ''DELETE'' then ref [] ''REMOVED''
             else if action = ''UPDATE'' then ref href ''ATTRIBUTES_CHANGED''
             else ref [] []],
          nt_Subscription = []\<rparr>)"

definition subscription_location :: "string \<Rightarrow> string" where
  "subscription_location subscription =
     (let app = split_on (CHR ''/'') subscription;
          subscriptionID = app ! (length app - 1);
          appInstID = app ! (length app - 2)
      in MecServicePath @ ''/applications/'' @ appInstID @ ''/subscriptions/'' @ subscriptionID)"

definition sendMsg :: "'w event_host \<Rightarrow> ServiceAvailabilityNotification \<Rightarrow> string \<Rightarrow> string \<Rightarrow> 'w \<Rightarrow> 'w" where
  "sendMsg H info callBackURI subscription =
     eh_post H callBackURI (info\<lparr>nt_Subscription := subscription_location subscription\<rparr>)"

definition doSend :: "'w event_host \<Rightarrow> string \<Rightarrow> MicroServiceInstance \<Rightarrow> (string \<times> string) list \<Rightarrow> 'w \<Rightarrow> 'w" where
  "doSend H action inst callbackUris =
     fold (\<lambda>(subscription, uri). sendMsg H (service_change action inst) uri subscription) (eh_iterUris H callbackUris)"

definition sendRestMessageToApp :: "'w event_host \<Rightarrow> 'w registry \<Rightarrow> MicroServiceInstance \<Rightarrow> string \<Rightarrow> 'w \<Rightarrow> 'w" where
  "sendRestMessageToApp H R inst action w =
     (let m = mi_Properties inst in
      case getCallBackUris H R (mi_ServiceId inst @ mi_InstanceId inst) (get_prop m ''serName'')
             (get_prop m ''isLocal'') (get_prop m ''mecState'') (serCategoryFromProperties m) w of
        (callBackUris, w) \<Rightarrow> if length callBackUris = 0 then w else doSend H action inst callBackUris w)"

section \<open>Events\<close>

text \<open>An event: its type, the instance where the value is one, and what its key says: the
  ids of the service and of the instance, and the domain and project.\<close>

record kv_event =
  ev_Type :: string
  ev_Value :: "MicroServiceInstance option"
  ev_providerID :: string
  ev_providerInstanceID :: string
  ev_domainProject :: string

definition count_event :: "'w event_host \<Rightarrow> string \<Rightarrow> string \<Rightarrow> 'w \<Rightarrow> 'w" where
  "count_event H action dp w =
     (let domainName = takeWhile (\<lambda>c. c \<noteq> CHR ''/'') dp;
          projectName = tl (dropWhile (\<lambda>c. c \<noteq> CHR ''/'') dp) in
      if action = ''INIT'' \<or> action = ''CREATE'' then eh_report H domainName 1 w
      else if action = ''UPDATE'' then eh_report H domainName 0 w
      else if action = ''DELETE'' then
        (let w = eh_report H domainName (- 1) w in
         if eh_isDefault H dp then w else eh_remandQuota H domainName projectName w)
      else w)"

definition OnEvent :: "'w event_host \<Rightarrow> 'w registry \<Rightarrow> kv_event \<Rightarrow> 'w \<Rightarrow> 'w" where
  "OnEvent H R evt w =
     (case ev_Value evt of
        None \<Rightarrow> w
      | Some inst \<Rightarrow>
          (let dp = ev_domainProject evt; action = ev_Type evt in
           if length dp = 0 then w
           else if CHR ''/'' \<notin> set dp then w
           else
             (let w = count_event H action dp w in
              if action = ''INIT'' then w
              else if eh_closed H w then w
              else (case eh_service H dp (ev_providerID evt) w of
                      (False, w) \<Rightarrow> w
                    | (True, w) \<Rightarrow> sendRestMessageToApp H R inst action w))))"

end
