(* ===== verification/Sub_Correct.thy ===== *)
theory Sub_Correct
  imports Notifications
begin

text \<open>
  What the subscription handlers and the event handler guarantee.  The transactions on single
  keys extend the contract \<open>etcd\<close> of the registry to \<open>etcd_keys\<close>; what is relied
  upon of the rest of the platform is that it leaves the registry alone, and that the HTTP
  client is handed one message at a time (\<open>events\<close>); a look-up of a service or a read
  of the subscriptions may fail, and the centre may be closed.
\<close>

section \<open>Contracts\<close>

locale etcd_keys = etcd R kv for R :: "'w registry" and kv :: "'w \<Rightarrow> string \<Rightarrow> doc option" +
  fixes K :: "'w key_registry"
  assumes key_get_ok: "kr_get K p w = (Inr d, w') \<Longrightarrow> d = kv w p \<and> kv w' = kv w"
    and key_get_err: "kr_get K p w = (Inl e, w') \<Longrightarrow> kv w' = kv w"
    and key_del_ok: "kr_del K p w = (None, w') \<Longrightarrow> kv w' = (kv w)(p := None)"
    and key_del_err: "kr_del K p w = (Some e, w') \<Longrightarrow> kv w' = kv w"

text \<open>The messages of the event handler, as the applications receive them.\<close>

locale events = etcd R kv for R :: "'w registry" and kv :: "'w \<Rightarrow> string \<Rightarrow> doc option" +
  fixes H :: "'w event_host" and sent :: "'w \<Rightarrow> (string \<times> ServiceAvailabilityNotification) list"
  assumes report_quiet: "kv (eh_report H d c w) = kv w \<and> sent (eh_report H d c w) = sent w"
    and quota_quiet: "kv (eh_remandQuota H d p w) = kv w \<and> sent (eh_remandQuota H d p w) = sent w"
    and service_quiet: "kv (snd (eh_service H d p w)) = kv w \<and> sent (snd (eh_service H d p w)) = sent w"
    and read_sent: "sent (snd (reg_get R k w)) = sent w"
    and post_kv: "kv (eh_post H u n w) = kv w"
    and post_sent: "sent (eh_post H u n w) = sent w @ [(u, n)]"
    and orders: "reordering (eh_iterSubs H)" "reordering (eh_iterUris H)"

section \<open>Subscriptions\<close>

lemma getMp1SubscribeInfo_Some: "getMp1SubscribeInfo T body = Some info \<Longrightarrow> info = body"
  by (cases body) (auto simp: getMp1SubscribeInfo_def split: if_splits)

lemma getMp1SubscribeInfo_doc:
  "getMp1SubscribeInfo T body = Some info \<Longrightarrow>
   (if T = SerAvailabilityNotificationSubscription then map_option SerAvail (unmarshal_avail (sub_doc info))
    else map_option AppTerm (unmarshal_sub (sub_doc info))) = Some info"
  by (cases body) (auto simp: getMp1SubscribeInfo_def split: if_splits)

text \<open>The only way to an accepted subscription.\<close>

lemma subscribe_ok:
  assumes "subscribe T R uuid codec uri newUuid r w = (PlanOk (rsp, loc), w')"
  obtains body kvs w1 i w2 where "DecodeRestReq_GetParam uuid r = PlanOk ()" "DecodeRestReq_ParseBody codec r = PlanOk body"
    "reg_get R (GetSubscribeKeyPath T @ mr_appInstanceId r) w = (Inr kvs, w1)" "length kvs < AppSubscriptionCount"
    "getMp1SubscribeInfo T body = Some body" "\<not> ValidateCallbackUri uri body" "newUuid w1 = (i, w2)"
    "reg_put R (subscription_key T (mr_appInstanceId r) i) (sub_doc body) w2 = (None, w')"
    "loc = sub_location body (mr_appInstanceId r) i" "rsp = with_id i (with_self loc body)"
proof -
  obtain body w1 where d: "DecodeRestReq_GetParam uuid r = PlanOk ()" "DecodeRestReq_ParseBody codec r = PlanOk body"
    and l: "AppSubscribeLimit_OnRequest R T (mr_appInstanceId r) w = (PlanOk (), w1)"
    and s: "SubscribeIst_OnRequest R uri newUuid T (mr_appInstanceId r) body w1 = (PlanOk (rsp, loc), w')"
    using assms by (auto simp: subscribe_def dest!: then_step_ok and_then_ok)
  from l obtain kvs where g: "reg_get R (GetSubscribeKeyPath T @ mr_appInstanceId r) w = (Inr kvs, w1)"
    and n: "length kvs < AppSubscriptionCount"
    by (auto simp: AppSubscribeLimit_OnRequest_def split: prod.splits sum.splits if_splits)
  from s obtain info where info: "getMp1SubscribeInfo T body = Some info"
    by (auto simp: SubscribeIst_OnRequest_def split: option.splits)
  then have eq: "info = body" by (rule getMp1SubscribeInfo_Some)
  from s info obtain i w2 where
    s2: "\<not> ValidateCallbackUri uri body" "newUuid w1 = (i, w2)"
      "reg_put R (subscription_key T (mr_appInstanceId r) i) (sub_doc body) w2 = (None, w')"
      "loc = sub_location body (mr_appInstanceId r) i" "rsp = with_id i (with_self loc body)"
    by (auto simp: SubscribeIst_OnRequest_def eq insertOrUpdateData_def sub_buildResponse_def
        split: if_splits prod.splits option.splits)
  from that [OF d g n _ s2] info eq show thesis by simp
qed

fun sub_id :: "sub_body \<Rightarrow> string" where
  "sub_id (SerAvail s) = av_SubscriptionId s" | "sub_id (AppTerm s) = sub_SubscriptionId s"

lemma sub_id_with_id [simp]: "sub_id (with_id i body) = i"
  by (cases body) simp_all

lemma sub_callback_with [simp]:
  "sub_callback (with_id i body) = sub_callback body" "sub_callback (with_self h body) = sub_callback body"
  by (cases body; simp)+

text \<open>The documents of an application.\<close>

definition sub_keys :: "(string \<Rightarrow> doc option) \<Rightarrow> string \<Rightarrow> string \<Rightarrow> string set" where
  "sub_keys m T a = {k. has_prefix k (GetSubscribeKeyPath T @ a @ ''/'') \<and> m k \<noteq> None}"

lemma sub_keys_upd:
  "sub_keys (m(k \<mapsto> d)) T a = (if has_prefix k (GetSubscribeKeyPath T @ a @ ''/'') then insert k (sub_keys m T a) else sub_keys m T a)"
  by (auto simp: sub_keys_def)

lemma append_slash_inject:
  "CHR ''/'' \<notin> set a \<Longrightarrow> CHR ''/'' \<notin> set b \<Longrightarrow> a @ CHR ''/'' # x = b @ CHR ''/'' # y \<longleftrightarrow> a = b \<and> x = y"
  by (induction a arbitrary: b; case_tac b) auto

lemma key_of_app:
  assumes "CHR ''/'' \<notin> set a" and "CHR ''/'' \<notin> set b"
  shows "has_prefix (subscription_key T b i) (GetSubscribeKeyPath T @ a @ ''/'') \<longleftrightarrow> a = b"
  using append_slash_inject [OF assms(2,1)] by (auto simp: subscription_key_def has_prefix_iff)

text \<open>What the two transactions of a registration read and write.\<close>

context etcd
begin

lemma get_card: "reg_get R p w = (Inr kvs, w') \<Longrightarrow> length kvs = card {k. has_prefix k p \<and> kv w k \<noteq> None}"
proof -
  assume g: "reg_get R p w = (Inr kvs, w')"
  from get_ok [OF g] have d: "distinct (map fst kvs)" and s: "set kvs = {(k, v). has_prefix k p \<and> kv w k = Some v}" by auto
  have "fst ` set kvs = {k. has_prefix k p \<and> kv w k \<noteq> None}" unfolding s by (auto simp: image_iff)
  then show ?thesis by (metis d distinct_card length_map list.set_map)
qed

text \<open>A request writes at most one document, under a key of the calling application, and
  only below the limit.\<close>

lemma subscribe_writes:
  assumes "subscribe T R uuid codec uri newUuid r w = (out, w')" and "\<forall>v. kv (snd (newUuid v)) = kv v"
  shows "kv w' = kv w \<or> (\<exists>i d. kv w' = (kv w)(subscription_key T (mr_appInstanceId r) i \<mapsto> d)
    \<and> card {k. has_prefix k (GetSubscribeKeyPath T @ mr_appInstanceId r) \<and> kv w k \<noteq> None} < AppSubscriptionCount)"
  using assms(1) unfolding subscribe_def
proof (elim then_step_cases and_then_cases; (simp; fail)?)
  fix body x w1
  assume l: "AppSubscribeLimit_OnRequest R T (mr_appInstanceId r) w = (PlanOk x, w1)"
    and s: "SubscribeIst_OnRequest R uri newUuid T (mr_appInstanceId r) body w1 = (out, w')"
  from l obtain kvs where g: "reg_get R (GetSubscribeKeyPath T @ mr_appInstanceId r) w = (Inr kvs, w1)"
    and n: "length kvs < AppSubscriptionCount"
    by (auto simp: AppSubscribeLimit_OnRequest_def split: prod.splits sum.splits if_splits)
  have w1: "kv w1 = kv w" using get_ok [OF g] by simp
  have "kv w' = kv w1 \<or> (\<exists>i d. kv w' = (kv w1)(subscription_key T (mr_appInstanceId r) i \<mapsto> d))"
    using s assms(2) put_ok put_err
    by (auto simp: SubscribeIst_OnRequest_def insertOrUpdateData_def split: option.splits if_splits prod.splits) (metis snd_conv)+
  with w1 n get_card [OF g] show ?thesis by auto
next
  fix c m
  assume "AppSubscribeLimit_OnRequest R T (mr_appInstanceId r) w = (PlanErr c m, w')"
  then show ?thesis using get_ok get_err by (fastforce simp: AppSubscribeLimit_OnRequest_def split: prod.splits sum.splits if_splits)
next
  fix e
  assume "AppSubscribeLimit_OnRequest R T (mr_appInstanceId r) w = (PlanPanic e, w')"
  then show ?thesis by (auto simp: AppSubscribeLimit_OnRequest_def split: prod.splits sum.splits if_splits)
qed

end

context etcd_keys
begin

lemma getOne_stored:
  assumes "kv w (subscription_key T app i) = Some (sub_doc body)" and "getMp1SubscribeInfo T body = Some body"
    and "is_ok (fst (kr_get K (subscription_key T app i) w))"
  shows "\<exists>w1. GetOneSubscribe_OnRequest K T app i path w = (PlanOk (with_self (self_path path) body), w1) \<and> kv w1 = kv w"
proof -
  obtain w1 where g: "kr_get K (subscription_key T app i) w = (Inr (Some (sub_doc body)), w1)"
    using assms(1,3) key_get_ok by (cases "kr_get K (subscription_key T app i) w") (fastforce simp: is_ok_iff)
  have "kv w1 = kv w" using key_get_ok [OF g] by simp
  then show ?thesis
    using getMp1SubscribeInfo_doc [OF assms(2)] by (simp add: GetOneSubscribe_OnRequest_def g)
qed

lemma delOne_ok:
  "DelOneSubscribe_OnRequest K T app i w = (PlanOk (), w') \<Longrightarrow> kv w' = (kv w)(subscription_key T app i := None)"
  by (auto simp: DelOneSubscribe_OnRequest_def split: prod.splits sum.splits option.splits
      dest!: key_get_ok key_del_ok)

end

section \<open>Notifications\<close>

text \<open>What a filter asks for, as a condition on the instance.\<close>

definition wants :: "FilteringCriteria \<Rightarrow> MicroServiceInstance \<Rightarrow> bool" where
  "wants f inst \<longleftrightarrow> (let m = mi_Properties inst in
     (fc_States f = [] \<or> get_prop m ''mecState'' \<in> set (fc_States f)) \<and>
     (fc_SerInstanceIds f = [] \<and> fc_SerNames f = [] \<and> fc_SerCategories f = [] \<and> fc_States f = [] \<and> \<not> fc_IsLocal f
      \<or> mi_ServiceId inst @ mi_InstanceId inst \<in> set (fc_SerInstanceIds f)
      \<or> get_prop m ''serName'' \<in> set (fc_SerNames f)
      \<or> serCategoryFromProperties m \<in> set (fc_SerCategories f)))"

lemma StringContains_iff: "StringContains arr v \<noteq> -1 \<longleftrightarrow> v \<in> set arr"
proof -
  have "StringContains arr v \<noteq> -1 \<longleftrightarrow> (\<exists>i<length arr. arr ! i = v)"
    by (auto simp: StringContains_def find_None_iff split: option.splits dest!: iffD1 [OF find_Some_iff])
  then show ?thesis by (simp add: in_set_conv_nth)
qed

lemma isServiceCategoryMatched_iff: "isServiceCategoryMatched cs c \<longleftrightarrow> c \<in> set cs"
  by (auto simp: isServiceCategoryMatched_def list_ex_iff) (metis CategoryRef.equality old.unit.exhaust)

lemma isInFilter_wants:
  "isInFilter f (mi_ServiceId inst @ mi_InstanceId inst) (get_prop (mi_Properties inst) ''serName'') loc
     (get_prop (mi_Properties inst) ''mecState'') (serCategoryFromProperties (mi_Properties inst)) = wants f inst"
  unfolding isInFilter_def wants_def isFilterContain_def isAllFilterEmpty_def StringContains_iff isServiceCategoryMatched_iff Let_def
  by auto

text \<open>The message for a subscription.\<close>

definition message_for :: "string \<Rightarrow> MicroServiceInstance \<Rightarrow> string \<Rightarrow> ServiceAvailabilityNotification" where
  "message_for action inst key = (service_change action inst)\<lparr>nt_Subscription := subscription_location key\<rparr>"

text \<open>The entries that a fold over distinct keys collects.\<close>

lemma map_of_collect:
  assumes "distinct (map fst xs)"
  shows "map_of (fold (\<lambda>(k, x) m. case f x of None \<Rightarrow> m | Some y \<Rightarrow> al_put k y m) xs m0) k
    = (case map_of xs k of None \<Rightarrow> map_of m0 k | Some x \<Rightarrow> (case f x of None \<Rightarrow> map_of m0 k | Some y \<Rightarrow> Some y))"
  using assms
proof (induction xs arbitrary: m0)
  case (Cons p xs)
  obtain j x where p: "p = (j, x)" by fastforce
  with Cons.prems have "map_of xs j = None" by (simp add: map_of_eq_None_iff)
  with Cons show ?case by (auto simp: p split: option.split)
qed simp

lemma distinct_collect:
  "distinct (map fst m0) \<Longrightarrow> distinct (map fst (fold (\<lambda>(k, x) m. case f x of None \<Rightarrow> m | Some y \<Rightarrow> al_put k y m) xs m0))"
  by (induction xs arbitrary: m0) (auto split: option.split)

lemma reordering_map_of:
  assumes "reordering p" and "distinct (map fst xs)"
  shows "map_of (p xs) = map_of xs" and "distinct (map fst (p xs))"
proof -
  have m: "mset (p xs) = mset xs" using assms(1) by (rule reordering_mset)
  then have "mset (map fst (p xs)) = mset (map fst xs)" by simp
  then show d: "distinct (map fst (p xs))" using assms(2) by (metis mset_eq_imp_distinct_iff)
  show "map_of (p xs) = map_of xs"
    using map_of_inject_set [OF d assms(2)] reordering_set [OF assms(1)] by simp
qed

text \<open>The subscription stored under a key.\<close>

definition stored_sub :: "(string \<Rightarrow> doc option) \<Rightarrow> string \<Rightarrow> SerAvailabilitySubscription option" where
  "stored_sub m k = (if has_prefix k AvailAppSubKeyPath then Option.bind (m k) unmarshal_avail else None)"

context etcd
begin

lemma subscribers_read:
  assumes "GetAllSubscriberInfoFromDB R w = (infos, w1)"
    and "is_ok (fst (reg_get R (GetSubscribeKeyPath SerAvailabilityNotificationSubscription) w))"
  shows "distinct (map fst infos)" and "map_of infos = stored_sub (kv w)" and "kv w1 = kv w"
    and "w1 = snd (reg_get R (GetSubscribeKeyPath SerAvailabilityNotificationSubscription) w)"
proof -
  let ?p = "GetSubscribeKeyPath SerAvailabilityNotificationSubscription"
  have p: "?p = AvailAppSubKeyPath" by (simp add: GetSubscribeKeyPath_def)
  obtain kvs where g: "reg_get R ?p w = (Inr kvs, w1)"
    using assms by (auto simp: GetAllSubscriberInfoFromDB_def is_ok_iff split: prod.splits sum.splits)
  from get_ok [OF g] have d: "distinct (map fst kvs)"
    and s: "set kvs = {(k, v). has_prefix k ?p \<and> kv w k = Some v}" and "kv w1 = kv w" by auto
  then show "kv w1 = kv w" by simp
  show "w1 = snd (reg_get R ?p w)" by (simp add: g)
  have i: "infos = fold (\<lambda>(k, d) m. case unmarshal_avail d of None \<Rightarrow> m | Some s \<Rightarrow> al_put k s m) kvs []"
    using assms(1) by (simp add: GetAllSubscriberInfoFromDB_def g)
  show "distinct (map fst infos)" unfolding i by (rule distinct_collect) simp
  have "map_of kvs k = (if has_prefix k ?p then kv w k else None)" for k
    using s d by (cases "map_of kvs k") (auto simp: map_of_eq_None_iff image_iff dest: map_of_SomeD split: if_splits)
  then show "map_of infos = stored_sub (kv w)"
    unfolding i map_of_collect [OF d] p stored_sub_def by (auto simp: fun_eq_iff split: option.split)
qed

end

text \<open>When an event is passed on to the subscribers: its key names a domain and a project, it
  is not the event of an instance that was there at the start, the service centre has not
  closed its notifications, the service of the instance is found, and the subscriptions can
  be read.  In every other case the handler returns, or reads no subscription, and drops the
  event.\<close>

definition readable :: "'w registry \<Rightarrow> 'w \<Rightarrow> bool" where
  "readable R w \<longleftrightarrow> is_ok (fst (reg_get R (GetSubscribeKeyPath SerAvailabilityNotificationSubscription) w))"

definition delivers :: "'w event_host \<Rightarrow> 'w registry \<Rightarrow> kv_event \<Rightarrow> 'w \<Rightarrow> bool" where
  "delivers H R evt w \<longleftrightarrow>
     (let dp = ev_domainProject evt; v = count_event H (ev_Type evt) dp w in
      CHR ''/'' \<in> set dp \<and> ev_Type evt \<noteq> ''INIT'' \<and> \<not> eh_closed H v \<and>
      (case eh_service H dp (ev_providerID evt) v of (found, v') \<Rightarrow> found \<and> readable R v'))"

text \<open>The subscriptions that want an instance, with their call-backs.\<close>

definition wanted_by :: "(string \<Rightarrow> doc option) \<Rightarrow> MicroServiceInstance \<Rightarrow> (string \<times> string) set" where
  "wanted_by m inst =
     {(k, u). \<exists>s. stored_sub m k = Some s \<and> wants (av_FilteringCriteria s) inst \<and> u = av_CallbackReference s}"

context events
begin

lemma subscribers:
  assumes "GetAllSubscriberInfoFromDB R w = (infos, w1)" and "readable R w"
  shows "distinct (map fst infos)" and "map_of infos = stored_sub (kv w)" and "kv w1 = kv w" and "sent w1 = sent w"
  using subscribers_read [OF assms(1) assms(2) [unfolded readable_def]] read_sent by simp_all

lemma no_subscribers:
  assumes "GetAllSubscriberInfoFromDB R w = (infos, w1)" and "\<not> readable R w"
  shows "infos = []" and "kv w1 = kv w" and "sent w1 = sent w"
proof -
  obtain r v where g: "reg_get R (GetSubscribeKeyPath SerAvailabilityNotificationSubscription) w = (r, v)" by fastforce
  then obtain e where r: "r = Inl e" using assms(2) by (cases r) (simp_all add: readable_def)
  have "sent v = sent w" using read_sent [of "GetSubscribeKeyPath SerAvailabilityNotificationSubscription" w] g by simp
  moreover have "kv v = kv w" using get_err [OF g [unfolded r]] .
  ultimately show "infos = []" "kv w1 = kv w" "sent w1 = sent w"
    using assms(1) by (simp_all add: GetAllSubscriberInfoFromDB_def g r)
qed

lemma callbacks:
  assumes "getCallBackUris H R (mi_ServiceId inst @ mi_InstanceId inst) (get_prop (mi_Properties inst) ''serName'') loc
     (get_prop (mi_Properties inst) ''mecState'') (serCategoryFromProperties (mi_Properties inst)) w = (uris, w1)"
    and "readable R w"
  shows "distinct (map fst uris)" and "kv w1 = kv w" and "sent w1 = sent w"
    and "map_of uris k = (case stored_sub (kv w) k of None \<Rightarrow> None
      | Some s \<Rightarrow> if wants (av_FilteringCriteria s) inst then Some (av_CallbackReference s) else None)"
proof -
  obtain infos where s: "GetAllSubscriberInfoFromDB R w = (infos, w1)"
    using assms by (auto simp: getCallBackUris_def split: prod.splits)
  note t = subscribers [OF s assms(2)]
  note r = reordering_map_of [OF orders(1) t(1)]
  let ?f = "\<lambda>s. if wants (av_FilteringCriteria s) inst then Some (av_CallbackReference s) else None"
  have "uris = fold (\<lambda>(k, s) m. case ?f s of None \<Rightarrow> m | Some u \<Rightarrow> al_put k u m) (eh_iterSubs H infos) []"
    using assms by (auto simp: getCallBackUris_def s isInFilter_wants if_distrib [of "case_option _ _"] cong: if_cong)
  then show "distinct (map fst uris)"
    and "map_of uris k = (case stored_sub (kv w) k of None \<Rightarrow> None
      | Some s \<Rightarrow> if wants (av_FilteringCriteria s) inst then Some (av_CallbackReference s) else None)"
    using map_of_collect [OF r(2), of ?f "[]" k] by (auto simp: distinct_collect r(1) t(2) split: option.split)
  show "kv w1 = kv w" "sent w1 = sent w" by (rule t)+
qed

lemma posted:
  "kv (fold (\<lambda>(k, u). sendMsg H n u k) ms w) = kv w \<and>
   sent (fold (\<lambda>(k, u). sendMsg H n u k) ms w) = sent w @ map (\<lambda>(k, u). (u, n\<lparr>nt_Subscription := subscription_location k\<rparr>)) ms"
  by (induction ms arbitrary: w) (auto simp: sendMsg_def post_kv post_sent)

lemma send_exact:
  "\<exists>ms. sent (sendRestMessageToApp H R inst action w) = sent w @ map (\<lambda>(k, u). (u, message_for action inst k)) ms
    \<and> distinct (map fst ms) \<and> set ms = (if readable R w then wanted_by (kv w) inst else {})
    \<and> kv (sendRestMessageToApp H R inst action w) = kv w"
proof (cases "readable R w")
  case False
  obtain infos w1 where g: "GetAllSubscriberInfoFromDB R w = (infos, w1)" by fastforce
  note n = no_subscribers [OF g False]
  have "eh_iterSubs H infos = []" using reordering_set [OF orders(1), of infos] by (simp add: n(1))
  then have "sendRestMessageToApp H R inst action w = w1"
    by (simp add: sendRestMessageToApp_def getCallBackUris_def g Let_def)
  with n False show ?thesis by (intro exI [of _ "[]"]) simp
next
  case True
  let ?m = "mi_Properties inst"
  obtain uris w1 where c: "getCallBackUris H R (mi_ServiceId inst @ mi_InstanceId inst) (get_prop ?m ''serName'')
      (get_prop ?m ''isLocal'') (get_prop ?m ''mecState'') (serCategoryFromProperties ?m) w = (uris, w1)" by fastforce
  note t = callbacks [OF c True]
  note r = reordering_map_of [OF orders(2) t(1)]
  let ?ms = "eh_iterUris H uris"
  have e: "uris = [] \<Longrightarrow> ?ms = []" using reordering_set [OF orders(2), of uris] by simp
  have "sendRestMessageToApp H R inst action w = (if uris = [] then w1 else doSend H action inst uris w1)"
    unfolding sendRestMessageToApp_def Let_def c by simp
  then have "sendRestMessageToApp H R inst action w = doSend H action inst uris w1"
    using e by (auto simp: doSend_def)
  then have w: "sent (sendRestMessageToApp H R inst action w) = sent w @ map (\<lambda>(k, u). (u, message_for action inst k)) ?ms"
      "kv (sendRestMessageToApp H R inst action w) = kv w"
    using posted [of "service_change action inst" ?ms w1] t(2,3) by (simp_all add: doSend_def message_for_def)
  have "(k, u) \<in> set ?ms \<longleftrightarrow> map_of uris k = Some u" for k u
    using r map_of_eq_Some_iff [OF r(2)] by metis
  then have "(k, u) \<in> set ?ms \<longleftrightarrow> (\<exists>s. stored_sub (kv w) k = Some s \<and> wants (av_FilteringCriteria s) inst \<and> u = av_CallbackReference s)" for k u
    by (auto simp: t(4) split: option.split)
  then have "set ?ms = wanted_by (kv w) inst" by (auto simp: wanted_by_def)
  with w r(2) True show ?thesis by (intro exI [of _ ?ms]) simp
qed

lemma event_exact:
  assumes "ev_Value evt = Some inst"
  shows "\<exists>ms. sent (OnEvent H R evt w) = sent w @ map (\<lambda>(k, u). (u, message_for (ev_Type evt) inst k)) ms
    \<and> distinct (map fst ms) \<and> set ms = (if delivers H R evt w then wanted_by (kv w) inst else {})
    \<and> kv (OnEvent H R evt w) = kv w"
proof -
  let ?dp = "ev_domainProject evt"
  define v where "v = count_event H (ev_Type evt) ?dp w"
  have v: "kv v = kv w" "sent v = sent w"
    by (simp_all add: v_def count_event_def Let_def report_quiet quota_quiet)
  obtain found w0 where w0: "eh_service H ?dp (ev_providerID evt) v = (found, w0)" by fastforce
  have q: "kv w0 = kv w" "sent w0 = sent w" using service_quiet [of ?dp "ev_providerID evt" v] v by (simp_all add: w0)
  show ?thesis
  proof (cases "CHR ''/'' \<in> set ?dp \<and> ev_Type evt \<noteq> ''INIT'' \<and> \<not> eh_closed H v \<and> found")
    case True
    then have ne: "?dp \<noteq> []" by auto
    have e: "OnEvent H R evt w = sendRestMessageToApp H R inst (ev_Type evt) w0"
      using True ne by (simp add: OnEvent_def assms w0 flip: v_def)
    have "delivers H R evt w \<longleftrightarrow> readable R w0"
      using True by (simp add: delivers_def w0 flip: v_def)
    with send_exact [of inst "ev_Type evt" w0] show ?thesis unfolding e q by simp
  next
    case False
    then have "\<not> delivers H R evt w" by (auto simp: delivers_def w0 simp flip: v_def)
    moreover have "OnEvent H R evt w \<in> {w, v, w0}"
      using False w0 by (auto simp: OnEvent_def assms Let_def simp flip: v_def split: if_splits)
    ultimately show ?thesis using v q by (intro exI [of _ "[]"]) auto
  qed
qed

text \<open>A subscription that wants the instance is among those told.\<close>

lemma event_reaches:
  assumes "ev_Value evt = Some inst" and "delivers H R evt w"
    and "stored_sub (kv w) k = Some s" and "wants (av_FilteringCriteria s) inst"
  shows "(av_CallbackReference s, message_for (ev_Type evt) inst k) \<in> set (sent (OnEvent H R evt w))"
proof -
  obtain ms where e: "sent (OnEvent H R evt w) = sent w @ map (\<lambda>(k, u). (u, message_for (ev_Type evt) inst k)) ms"
    and s: "set ms = wanted_by (kv w) inst"
    using event_exact [OF assms(1), of w] assms(2) by auto
  have "(k, av_CallbackReference s) \<in> set ms" using assms(3,4) by (auto simp: s wanted_by_def)
  then show ?thesis unfolding e by force
qed

end

end
