(* ===== verification/Sub_Properties.thy ===== *)
theory Sub_Properties
  imports Sub_Correct
begin

text \<open>
  The properties of subscriptions and notifications, with an in-memory platform on which their
  assumptions hold.
\<close>

section \<open>An in-memory platform\<close>

record sub_world = mem_world +
  sw_sent :: "(string \<times> ServiceAvailabilityNotification) list"
  sw_next :: nat

definition mem_keys :: "sub_world key_registry" where
  "mem_keys = \<lparr>kr_get = (\<lambda>p w. (Inr (map_of (mw_kv w) p), w)),
     kr_del = (\<lambda>p w. (None, w\<lparr>mw_kv := filter (\<lambda>(k, _). k \<noteq> p) (mw_kv w)\<rparr>))\<rparr>"

definition mem_events :: "sub_world event_host" where
  "mem_events = \<lparr>eh_report = (\<lambda>d n w. w), eh_remandQuota = (\<lambda>d p w. w), eh_isDefault = (\<lambda>d. True),
     eh_closed = (\<lambda>w. False), eh_service = (\<lambda>d p w. (True, w)),
     eh_post = (\<lambda>u n w. w\<lparr>sw_sent := sw_sent w @ [(u, n)]\<rparr>), eh_iterSubs = rev, eh_iterUris = rev\<rparr>"

definition next_uuid :: "sub_world \<Rightarrow> string \<times> sub_world" where
  "next_uuid w = (''sub-'' @ itoa (sw_next w), w\<lparr>sw_next := Suc (sw_next w)\<rparr>)"

interpretation mem_subs: etcd_keys "sure_registry :: sub_world registry" "\<lambda>w. map_of (mw_kv w)" mem_keys
  by unfold_locales (auto simp: mem_keys_def map_of_filter_key fun_eq_iff)

interpretation mem_notes: events "sure_registry :: sub_world registry" "\<lambda>w. map_of (mw_kv w)" mem_events sw_sent
  by unfold_locales (auto simp: mem_events_def sure_registry_def mem_registry_def mem_fault_def)

definition sample_sub :: SerAvailabilitySubscription where
  "sample_sub = \<lparr>av_SubscriptionId = [], av_SubscriptionType = ''SerAvailabilityNotificationSubscription'',
     av_CallbackReference = ''http://10.1.1.9/cb'', av_Self = [],
     av_FilteringCriteria = \<lparr>fc_SerInstanceIds = [], fc_SerNames = [''face''], fc_SerCategories = [], fc_States = [], fc_IsLocal = False\<rparr>\<rparr>"

definition sub_call :: "string \<Rightarrow> string \<Rightarrow> svc_request" where
  "sub_call app i = (svc_call app [])\<lparr>sr_subscriptionId := i, mr_path := ''/mep/x''\<rparr>"

definition sub_start :: sub_world where
  "sub_start = \<lparr>mw_kv = [], mw_faults = [], sw_sent = [], sw_next = 7\<rparr>"

definition sample_face :: MicroServiceInstance where
  "sample_face = empty_instance\<lparr>mi_ServiceId := ''0011'', mi_InstanceId := ''2233'',
     mi_Properties := [(''serName'', ''face''), (''mecState'', ''ACTIVE'')]\<rparr>"

abbreviation sample_subscribe :: "(sub_body \<times> string) plan_out \<times> sub_world" where
  "sample_subscribe \<equiv> doAppSubscribe sure_registry (\<lambda>_. True) (body_of (SerAvail sample_sub)) (\<lambda>_. True) next_uuid (sub_call ''app-1'' []) sub_start"

lemma sample_subscribes: "sample_subscribe = (PlanOk (with_id ''sub-7'' (with_self ''/mec_service_mgmt/v1/applications/app-1/subscriptions/sub-7'' (SerAvail sample_sub)),
    ''/mec_service_mgmt/v1/applications/app-1/subscriptions/sub-7''),
    sub_start\<lparr>sw_next := 8, mw_kv := [(''/cse-sr/etsi/subscribe/app-1/sub-7'', DocAvail sample_sub)]\<rparr>)"
  by code_simp

section \<open>Subscriptions\<close>

text \<open>(C14) A subscription can be read and removed.  After a subscription that is answered with
  success, a query for the id of the answer gives the document that was sent, with the path of
  the query as its link; the answer itself has the new id and its location, which the stored
  document lacks.  When the subscription is removed, the registry is what it was before.\<close>

theorem subscription_lifecycle:
  assumes "etcd_keys R kv K" and "\<forall>v. kv (snd (newUuid v)) = kv v"
    and "subscribe T R uuid codec uri newUuid r w = (PlanOk (rsp, loc), w1)"
    and "kv w (subscription_key T (mr_appInstanceId r) (sub_id rsp)) = None"
    and "DecodeRestReq_GetParam uuid r' = PlanOk ()"
    and "mr_appInstanceId r' = mr_appInstanceId r" and "sr_subscriptionId r' = sub_id rsp"
    and "is_ok (fst (kr_get K (subscription_key T (mr_appInstanceId r) (sub_id rsp)) w1))"
    and "get_one_subscribe T K uuid r' w1 = (out, w2)" and "del_one_subscribe T K uuid r' w2 = (PlanOk (), w3)"
  shows "\<exists>body. DecodeRestReq_ParseBody codec r = PlanOk body \<and> rsp = with_id (sub_id rsp) (with_self loc body)
    \<and> out = PlanOk (with_self (self_path (mr_path r')) body) \<and> kv w3 = kv w"
proof -
  have E: "etcd R kv" using assms(1) by (simp add: etcd_keys_def)
  obtain body kvs v i u where p: "DecodeRestReq_ParseBody codec r = PlanOk body"
    and g: "reg_get R (GetSubscribeKeyPath T @ mr_appInstanceId r) w = (Inr kvs, v)"
    and b: "getMp1SubscribeInfo T body = Some body" and n: "newUuid v = (i, u)"
    and put: "reg_put R (subscription_key T (mr_appInstanceId r) i) (sub_doc body) u = (None, w1)"
    and rsp: "rsp = with_id i (with_self loc body)"
    using assms(3) by (elim subscribe_ok)
  have i: "sub_id rsp = i" by (simp add: rsp)
  have "kv v = kv w" "kv u = kv v" using etcd.get_ok [OF E g] assms(2) n by (auto dest: spec [of _ v])
  then have w1: "kv w1 = (kv w)(subscription_key T (mr_appInstanceId r) i \<mapsto> sub_doc body)"
    using etcd.put_ok [OF E put] by simp
  then have "kv w1 (subscription_key T (mr_appInstanceId r) i) = Some (sub_doc body)" by simp
  from etcd_keys.getOne_stored [OF assms(1) this b assms(8) [unfolded i], of "mr_path r'"] assms(5-7,9)
  have out: "out = PlanOk (with_self (self_path (mr_path r')) body)" and w2: "kv w2 = kv w1"
    by (auto simp: get_one_subscribe_def then_step_def i)
  have "kv w3 = (kv w2)(subscription_key T (mr_appInstanceId r) i := None)"
    using etcd_keys.delOne_ok [OF assms(1)] assms(5-7,10) by (auto simp: del_one_subscribe_def then_step_def i)
  then have "kv w3 = kv w" using assms(4) by (auto simp: w2 w1 i fun_upd_idem)
  with p rsp i out show ?thesis by auto
qed

theorem subscription_lifecycle_witness:
  "\<exists>out w2 w3. get_one_subscribe SerAvailabilityNotificationSubscription mem_keys (\<lambda>_. True) (sub_call ''app-1'' ''sub-7'') (snd sample_subscribe) = (out, w2)
    \<and> del_one_subscribe SerAvailabilityNotificationSubscription mem_keys (\<lambda>_. True) (sub_call ''app-1'' ''sub-7'') w2 = (PlanOk (), w3)
    \<and> out = PlanOk (with_self ''/x'' (SerAvail sample_sub)) \<and> map_of (mw_kv w3) = Map.empty"
proof -
  let ?T = SerAvailabilityNotificationSubscription and ?r = "sub_call ''app-1'' ''sub-7''" and ?w1 = "snd sample_subscribe"
  let ?get = "get_one_subscribe ?T mem_keys (\<lambda>_. True) ?r ?w1"
  let ?del = "del_one_subscribe ?T mem_keys (\<lambda>_. True) ?r (snd ?get)"
  have s: "subscribe ?T sure_registry (\<lambda>_. True) (body_of (SerAvail sample_sub)) (\<lambda>_. True) next_uuid (sub_call ''app-1'' []) sub_start
    = (PlanOk (with_id ''sub-7'' (with_self ''/mec_service_mgmt/v1/applications/app-1/subscriptions/sub-7'' (SerAvail sample_sub)),
        ''/mec_service_mgmt/v1/applications/app-1/subscriptions/sub-7''), ?w1)"
    using sample_subscribes by (simp add: doAppSubscribe_def)
  have q: "\<forall>v. map_of (mw_kv (snd (next_uuid v))) = map_of (mw_kv v)" by (simp add: next_uuid_def)
  have "fst ?del = PlanOk ()" unfolding sample_subscribes snd_conv by code_simp
  then have d: "?del = (PlanOk (), snd ?del)" by (simp add: prod_eq_iff)
  have p: "DecodeRestReq_ParseBody (body_of (SerAvail sample_sub)) (sub_call ''app-1'' []) = PlanOk (SerAvail sample_sub)"
    "DecodeRestReq_GetParam (\<lambda>_. True) ?r = PlanOk ()" "self_path (mr_path ?r) = ''/x''"
    "mr_appInstanceId ?r = mr_appInstanceId (sub_call ''app-1'' [])" "mr_appInstanceId (sub_call ''app-1'' []) = ''app-1''"
    "sr_subscriptionId ?r = ''sub-7''" by code_simp+
  from subscription_lifecycle [OF mem_subs.etcd_keys_axioms q s _ p(2,4) _ _ _ d, of "fst ?get"]
  have "fst ?get = PlanOk (with_self ''/x'' (SerAvail sample_sub)) \<and> map_of (mw_kv (snd ?del)) = map_of (mw_kv sub_start)"
    by (simp add: p sub_start_def mem_keys_def)
  with d show ?thesis by (auto simp: sub_start_def prod_eq_iff)
qed

text \<open>Subscribing keeps the limit.  Whatever a request answers and whichever transactions
  fail, an application that had at most 50 subscriptions of a type before has at most 50 after,
  and so has every other application, as long as their ids have no slash.\<close>

theorem subscription_limit:
  assumes "etcd R kv" and "\<forall>v. kv (snd (newUuid v)) = kv v" and "finite (dom (kv w))"
    and "card (sub_keys (kv w) T a) \<le> AppSubscriptionCount"
    and "CHR ''/'' \<notin> set a" and "CHR ''/'' \<notin> set (mr_appInstanceId r)"
    and "subscribe T R uuid codec uri newUuid r w = (out, w')"
  shows "card (sub_keys (kv w') T a) \<le> AppSubscriptionCount"
proof (cases "kv w' = kv w")
  case False
  then obtain i d where w': "kv w' = (kv w)(subscription_key T (mr_appInstanceId r) i \<mapsto> d)"
    and n: "card {k. has_prefix k (GetSubscribeKeyPath T @ mr_appInstanceId r) \<and> kv w k \<noteq> None} < AppSubscriptionCount"
    using etcd.subscribe_writes [OF assms(1,7,2)] by auto
  have fin: "finite {k. P k \<and> kv w k \<noteq> None}" for P
    using assms(3) by (rule rev_finite_subset) auto
  have "sub_keys (kv w) T (mr_appInstanceId r) \<subseteq> {k. has_prefix k (GetSubscribeKeyPath T @ mr_appInstanceId r) \<and> kv w k \<noteq> None}"
    by (auto simp: sub_keys_def has_prefix_iff)
  then have "card (sub_keys (kv w) T (mr_appInstanceId r)) < AppSubscriptionCount"
    using n card_mono [OF fin] by (meson le_less_trans)
  moreover have "finite (sub_keys (kv w) T a)" unfolding sub_keys_def by (rule fin)
  ultimately show ?thesis
    using assms(4) key_of_app [OF assms(5,6)] by (auto simp: w' sub_keys_upd card_insert_if)
qed (use assms(4) in simp)

theorem subscription_limit_witness: "card (sub_keys (map_of (mw_kv (snd sample_subscribe))) SerAvailabilityNotificationSubscription ''app-1'') \<le> 50"
proof -
  have q: "\<forall>v. map_of (mw_kv (snd (next_uuid v))) = map_of (mw_kv v)" by (simp add: next_uuid_def)
  have s: "subscribe SerAvailabilityNotificationSubscription sure_registry (\<lambda>_. True) (body_of (SerAvail sample_sub)) (\<lambda>_. True) next_uuid (sub_call ''app-1'' []) sub_start
    = (fst sample_subscribe, snd sample_subscribe)"
    by (simp add: doAppSubscribe_def)
  have "card (sub_keys (map_of (mw_kv sub_start)) SerAvailabilityNotificationSubscription ''app-1'') \<le> AppSubscriptionCount"
    by (simp add: sub_keys_def sub_start_def)
  from subscription_limit [OF sure_etcd.etcd_axioms q _ this _ _ s] show ?thesis
    by (simp add: sub_start_def sub_call_def svc_call_def AppSubscriptionCount_def)
qed

section \<open>Notifications\<close>

text \<open>(C16) The subscribers of a service are told exactly once.  An event that carries an
  instance and is passed on (\<open>delivers\<close>: its key names a domain and a project, its type
  is not \<open>INIT\<close>, the centre is not closed, the service is found and the subscriptions can
  be read) hands the HTTP client one message for every stored subscription whose filter wants
  the instance, for its call-back, and no other message, in whatever order the maps are
  iterated; an event that is not passed on hands over nothing.  The registry is as it was in
  either case.  The counting of instances, the quota, the look-up of a service and the HTTP
  client do not write to the registry.\<close>

theorem notified_exactly:
  assumes "events R kv H sent" and "ev_Value evt = Some inst"
  shows "\<exists>ms. sent (OnEvent H R evt w) = sent w @ map (\<lambda>(k, u). (u, message_for (ev_Type evt) inst k)) ms
    \<and> distinct (map fst ms) \<and> set ms = (if delivers H R evt w then wanted_by (kv w) inst else {})
    \<and> kv (OnEvent H R evt w) = kv w"
  using events.event_exact [OF assms] .

definition face_created :: kv_event where
  "face_created = \<lparr>ev_Type = ''CREATE'', ev_Value = Some sample_face, ev_providerID = ''0011'', ev_providerInstanceID = ''2233'',
     ev_domainProject = ''default/default''\<rparr>"

lemma face_event: "ev_Value face_created = Some sample_face" "delivers mem_events sure_registry face_created w"
  by (simp_all add: face_created_def delivers_def count_event_def readable_def mem_events_def sure_registry_def
      mem_registry_def mem_fault_def Let_def)

lemma face_wanted: "wanted_by (map_of (mw_kv (snd sample_subscribe))) sample_face
    = {(''/cse-sr/etsi/subscribe/app-1/sub-7'', ''http://10.1.1.9/cb'')}"
proof -
  have "stored_sub (map_of (mw_kv (snd sample_subscribe))) k = (if k = ''/cse-sr/etsi/subscribe/app-1/sub-7'' then Some sample_sub else None)" for k
    unfolding sample_subscribes by (simp add: stored_sub_def path_defs has_prefix_def)
  moreover have "wants (av_FilteringCriteria sample_sub) sample_face" "av_CallbackReference sample_sub = ''http://10.1.1.9/cb''"
    by (simp_all add: wants_def sample_sub_def sample_face_def Let_def empty_instance_def get_prop_def)
  ultimately show ?thesis by (auto simp: wanted_by_def split: if_splits)
qed

theorem notified_exactly_witness:
  "sw_sent (OnEvent mem_events sure_registry face_created (snd sample_subscribe))
   = [(''http://10.1.1.9/cb'', message_for ''CREATE'' sample_face ''/cse-sr/etsi/subscribe/app-1/sub-7'')]"
proof -
  obtain ms where e: "sw_sent (OnEvent mem_events sure_registry face_created (snd sample_subscribe))
      = sw_sent (snd sample_subscribe) @ map (\<lambda>(k, u). (u, message_for ''CREATE'' sample_face k)) ms"
    and d: "distinct (map fst ms)" and s: "set ms = {(''/cse-sr/etsi/subscribe/app-1/sub-7'', ''http://10.1.1.9/cb'')}"
    using notified_exactly [OF mem_notes.events_axioms face_event(1), of "snd sample_subscribe"]
      face_event(2) [of "snd sample_subscribe"]
    unfolding face_wanted by (auto simp: face_created_def)
  have "distinct ms" using d by (simp add: distinct_map)
  then have "length ms = 1" using s distinct_card [of ms] by simp
  then have "ms = [(''/cse-sr/etsi/subscribe/app-1/sub-7'', ''http://10.1.1.9/cb'')]"
    using s by (cases ms) auto
  moreover have "sw_sent (snd sample_subscribe) = []" unfolding sample_subscribes by (simp add: sub_start_def)
  ultimately show ?thesis unfolding e by simp
qed

text \<open>(C15) A subscription takes effect.  After an accepted subscription, as long as its
  document is the one stored, an event that is passed on (\<open>delivers\<close>: not an event of
  type \<open>INIT\<close>, not while the centre is closed or the service is unknown or the
  subscriptions cannot be read) and whose instance the filter wants hands the HTTP client a
  message about this instance for the call-back of the subscription, and the link of the
  message is the location that the subscriber was given.  The ids of the application and of
  the subscription have no slash, and the other calls of the handler do not write to the
  registry.\<close>

theorem subscribed_then_notified:
  assumes "events R kv H sent" and "\<forall>v. kv (snd (newUuid v)) = kv v"
    and "doAppSubscribe R uuid codec uri newUuid r w = (PlanOk (SerAvail s, loc), w1)"
    and "CHR ''/'' \<notin> set (mr_appInstanceId r)" and "CHR ''/'' \<notin> set (av_SubscriptionId s)"
    and "kv v (subscription_key SerAvailabilityNotificationSubscription (mr_appInstanceId r) (av_SubscriptionId s))
       = kv w1 (subscription_key SerAvailabilityNotificationSubscription (mr_appInstanceId r) (av_SubscriptionId s))"
    and "ev_Value evt = Some inst" and "delivers H R evt v"
    and "wants (av_FilteringCriteria s) inst"
  shows "(av_CallbackReference s, (service_change (ev_Type evt) inst)\<lparr>nt_Subscription := loc\<rparr>) \<in> set (sent (OnEvent H R evt v))"
proof -
  let ?T = SerAvailabilityNotificationSubscription and ?app = "mr_appInstanceId r" and ?i = "av_SubscriptionId s"
  have E: "etcd R kv" using assms(1) by (simp add: events_def)
  obtain body u i where put: "reg_put R (subscription_key ?T ?app i) (sub_doc body) u = (None, w1)"
    and loc: "loc = sub_location body ?app i" and rsp: "SerAvail s = with_id i (with_self loc body)"
    using assms(3) unfolding doAppSubscribe_def by (elim subscribe_ok)
  obtain b where b: "body = SerAvail b" using rsp by (cases body) auto
  then have s: "s = b\<lparr>av_Self := loc, av_SubscriptionId := i\<rparr>" using rsp by simp
  let ?key = "subscription_key ?T ?app i"
  have pre: "has_prefix ?key AvailAppSubKeyPath"
    by (simp add: subscription_key_def GetSubscribeKeyPath_def)
  have "kv v ?key = Some (DocAvail b)"
    using assms(6) etcd.put_ok [OF E put] by (simp add: s b)
  then have "stored_sub (kv v) ?key = Some b" using pre by (simp add: stored_sub_def)
  moreover have "wants (av_FilteringCriteria b) inst" using assms(9) by (simp add: s)
  ultimately have m: "(av_CallbackReference b, message_for (ev_Type evt) inst ?key) \<in> set (sent (OnEvent H R evt v))"
    using events.event_reaches [OF assms(1,7,8)] by blast
  have "split_on (CHR ''/'') ?key = [[], ''cse-sr'', ''etsi'', ''subscribe'', ?app, i]"
    using assms(4,5) by (simp add: subscription_key_def GetSubscribeKeyPath_def path_defs s split_on_append_sep split_on_free)
  then have "subscription_location ?key = loc"
    by (simp add: subscription_location_def loc b)
  with m show ?thesis by (simp add: message_for_def s)
qed

theorem subscribed_then_notified_witness:
  "(''http://10.1.1.9/cb'', (service_change ''CREATE'' sample_face)\<lparr>nt_Subscription := ''/mec_service_mgmt/v1/applications/app-1/subscriptions/sub-7''\<rparr>)
     \<in> set (sw_sent (OnEvent mem_events sure_registry face_created (snd sample_subscribe)))"
proof -
  have q: "\<forall>v. map_of (mw_kv (snd (next_uuid v))) = map_of (mw_kv v)" by (simp add: next_uuid_def)
  have s: "sample_subscribe = (PlanOk (SerAvail (sample_sub\<lparr>av_Self := ''/mec_service_mgmt/v1/applications/app-1/subscriptions/sub-7'', av_SubscriptionId := ''sub-7''\<rparr>),
      ''/mec_service_mgmt/v1/applications/app-1/subscriptions/sub-7''), snd sample_subscribe)"
    using sample_subscribes by simp
  have a: "mr_appInstanceId (sub_call ''app-1'' []) = ''app-1''" by (simp add: sub_call_def svc_call_def)
  have w: "wants (av_FilteringCriteria (sample_sub\<lparr>av_Self := ''/mec_service_mgmt/v1/applications/app-1/subscriptions/sub-7'', av_SubscriptionId := ''sub-7''\<rparr>)) sample_face"
    by (simp add: wants_def sample_sub_def sample_face_def Let_def empty_instance_def get_prop_def)
  from subscribed_then_notified [OF mem_notes.events_axioms q s _ _ refl face_event w]
  show ?thesis by (simp add: a face_created_def sample_sub_def)
qed

text \<open>A filter with one kind of criterion means what is documented.  The documentation
  combines all criteria of a filter with "and".  The handler does so for a filter that names
  services by at most one of their ids, names and categories, and names states only beside
  such a criterion; the locality is never compared.\<close>

theorem filter_as_documented:
  assumes "\<not> fc_IsLocal f"
    and "fc_SerInstanceIds f = [] \<and> fc_SerNames f = [] \<or> fc_SerInstanceIds f = [] \<and> fc_SerCategories f = []
       \<or> fc_SerNames f = [] \<and> fc_SerCategories f = []"
    and "fc_States f = [] \<or> fc_SerInstanceIds f \<noteq> [] \<or> fc_SerNames f \<noteq> [] \<or> fc_SerCategories f \<noteq> []"
  shows "isInFilter f ident serName loc state cat \<longleftrightarrow>
      (fc_SerInstanceIds f = [] \<or> ident \<in> set (fc_SerInstanceIds f)) \<and> (fc_SerNames f = [] \<or> serName \<in> set (fc_SerNames f))
    \<and> (fc_SerCategories f = [] \<or> cat \<in> set (fc_SerCategories f)) \<and> (fc_States f = [] \<or> state \<in> set (fc_States f))"
  using assms unfolding isInFilter_def isFilterContain_def isAllFilterEmpty_def StringContains_iff isServiceCategoryMatched_iff Let_def
  by auto

theorem filter_as_documented_witness:
  "isInFilter (av_FilteringCriteria sample_sub) ''00112233'' ''face'' ''true'' ''ACTIVE'' empty_category"
  using filter_as_documented [of "av_FilteringCriteria sample_sub" "''00112233''" "''face''" "''true''" "''ACTIVE''" empty_category]
  by (simp add: sample_sub_def)

text \<open>A filter by states or by locality alone wants nothing.\<close>

lemma states_alone_want_nothing:
  assumes "fc_SerInstanceIds f = []" and "fc_SerNames f = []" and "fc_SerCategories f = []"
    and "fc_States f \<noteq> [] \<or> fc_IsLocal f"
  shows "\<not> isInFilter f ident serName loc state cat"
  using assms by (auto simp: isInFilter_def isFilterContain_def isAllFilterEmpty_def)

end
