(* ===== verification/Termination.thy ===== *)
theory Termination
  imports Sub_Properties
begin

text \<open>
  The end of an application instance.  The mm5 interface starts a termination
  (\<open>mm5/plans/app_instance_termination.go\<close>, \<open>terminateAppInstance\<close> in
  \<open>mm5/controller.go\<close>): the configuration is removed by a worker, the services of the
  application are unregistered, and its key is removed from mepauth.  The worker of the
  configuration (theory \<open>Appd_Sync\<close>) tells a subscribed application and waits for its
  confirmation, which arrives over the mp1 interface (\<open>mp1/plans/app_confirm_termination.go\<close>).
  An application reports that it is up with \<open>mp1/plans/app_confirm_ready.go\<close>.  The
  call-back plan (\<open>mp1/plans/app_callback.go\<close>) passes a message on to another application.
\<close>

section \<open>Confirmations\<close>

text \<open>The body, read and decoded: \<open>rc_unmarshal\<close> gives the field of the confirmation.\<close>

definition confirm_getParam :: "svc_request \<Rightarrow> unit plan_out" where
  "confirm_getParam r =
     (if length (mr_appInstanceId r) = 0 then PlanErr AuthorizationValidateErr ''invalid app instance id'' else PlanOk ())"

definition confirm_body :: "svc_request \<Rightarrow> string plan_out" where
  "confirm_body r =
     (case mr_body r of
        Inl e \<Rightarrow> PlanErr SerErrFailBase ''read request body error''
      | Inr msg \<Rightarrow> if length msg > RequestBodyLength then PlanErr RequestParamErr ''request body too large'' else PlanOk msg)"

definition DecodeConfirmReadyReq_ParseBody :: "string rule_codec \<Rightarrow> svc_request \<Rightarrow> string plan_out" where
  "DecodeConfirmReadyReq_ParseBody codec r =
     (case confirm_body r of
        PlanPanic e \<Rightarrow> PlanPanic e
      | PlanErr c m \<Rightarrow> PlanErr c m
      | PlanOk msg \<Rightarrow>
          (case rc_unmarshal codec msg of
             Inl e \<Rightarrow> PlanErr ParseInfoErr ''validate param failed''
           | Inr indication \<Rightarrow>
               if indication \<noteq> ''READY'' then PlanErr ParseInfoErr ''validate param failed'' else PlanOk indication))"

definition ConfirmReady_OnRequest :: "'w registry \<Rightarrow> string \<Rightarrow> 'w \<Rightarrow> unit plan_out \<times> 'w" where
  "ConfirmReady_OnRequest R app w =
     (case IsAnyOngoingOperationExist R app w of
        (ongoing, w) \<Rightarrow>
          if ongoing then (PlanErr ServiceInactive ''configuration sync for application is in progress on confirm ready'', w)
          else (PlanOk (), w))"

text \<open>The check of a confirmation of termination against the record of the termination in
  progress.  Only two of its errors are recorded for the plan by the check itself; for a body
  that does not decode no error is recorded at all, and the plan goes on.\<close>

definition DecodeConfirmTerminateReq_ParseBody ::
  "'w registry \<Rightarrow> string rule_codec \<Rightarrow> svc_request \<Rightarrow> 'w \<Rightarrow> unit plan_out \<times> 'w" where
  "DecodeConfirmTerminateReq_ParseBody R codec r w =
     (case confirm_body r of
        PlanPanic e \<Rightarrow> (PlanPanic e, w)
      | PlanErr c m \<Rightarrow> (PlanErr c m, w)
      | PlanOk msg \<Rightarrow>
          (case rc_unmarshal codec msg of
             Inl e \<Rightarrow> (PlanOk (), w)
           | Inr operationAction \<Rightarrow>
               (case GetRecord R (AppConfirmTerminationPath @ mr_appInstanceId r @ ''/'') w of
                  (Inl errCode, w) \<Rightarrow> (PlanErr ServiceInactive ''no termination is going on'', w)
                | (Inr resp, w) \<Rightarrow>
                    (case unmarshal_confirm resp of
                       None \<Rightarrow> (PlanErr RequestParamErr ''subscription parsed failed'', w)
                     | Some rec \<Rightarrow>
                         if operationAction \<noteq> ctr_OperationAction rec
                         then (PlanErr RequestParamErr ''operation action is not matching'', w)
                         else (PlanOk (), w)))))"

definition ConfirmTermination_OnRequest :: "'w registry \<Rightarrow> string \<Rightarrow> 'w \<Rightarrow> unit plan_out \<times> 'w" where
  "ConfirmTermination_OnRequest R app w =
     (case GetRecord R (AppConfirmTerminationPath @ app @ ''/'') w of
        (Inl errCode, w) \<Rightarrow> (PlanErr ServiceInactive ''no termination is going on'', w)
      | (Inr resp, w) \<Rightarrow>
          (case unmarshal_confirm resp of
             None \<Rightarrow> (PlanOk (), w)
           | Some terminationConfirm \<Rightarrow>
               (case PutRecord R (AppConfirmTerminationPath @ app @ ''/'')
                       (DocConfirm (terminationConfirm\<lparr>ctr_TerminationStatus := TerminationFinish\<rparr>)) w of
                  (err, w) \<Rightarrow>
                    if err \<noteq> 0 then (PlanErr OperateDataWithEtcdErr ''put record failed for confirm termination'', w)
                    else (PlanOk (), w))))"

definition confirmReady where
  "confirmReady R codec r w =
     then_step (confirm_getParam r) w (\<lambda>_ w. then_step (DecodeConfirmReadyReq_ParseBody codec r) w
       (\<lambda>_. ConfirmReady_OnRequest R (mr_appInstanceId r)))"

definition confirmTermination where
  "confirmTermination R codec r w =
     then_step (confirm_getParam r) w (\<lambda>_ w. and_then (DecodeConfirmTerminateReq_ParseBody R codec r w)
       (\<lambda>_. ConfirmTermination_OnRequest R (mr_appInstanceId r)))"

section \<open>Call-backs\<close>

text \<open>The request's header, its body, whether the TLS configuration can be built, and the
  HTTP client, whose failure is logged and leaves the answer empty.\<close>

definition CallbackUrlNotFound :: int where "CallbackUrlNotFound = 22"

definition Callback_OnRequest ::
  "bool \<Rightarrow> (string \<Rightarrow> string \<Rightarrow> 'w \<Rightarrow> string go_result \<times> 'w) \<Rightarrow> string \<Rightarrow> string go_result \<Rightarrow> 'w \<Rightarrow> string plan_out \<times> 'w" where
  "Callback_OnRequest tls post callbackUrl body w =
     (if callbackUrl = [] then (PlanErr CallbackUrlNotFound ''Callback Url validation failed'', w)
      else (case body of
              Inl e \<Rightarrow> (PlanErr SerErrFailBase ''read request body error'', w)
            | Inr msg \<Rightarrow>
                if length msg > RequestBodyLength then (PlanErr RequestParamErr ''request body too large'', w)
                else if \<not> tls then (PlanErr RequestParamErr ''TLSConfig fail.'', w)
                else (case post callbackUrl msg w of
                        (Inl e, w) \<Rightarrow> (PlanOk [], w)
                      | (Inr response, w) \<Rightarrow> (PlanOk response, w))))"

section \<open>Termination\<close>

definition DecodeAppTerminationReq_GetFindParam :: "svc_request \<Rightarrow> unit plan_out" where
  "DecodeAppTerminationReq_GetFindParam r =
     (case ValidateAppInstanceIdWithHeader (mr_appInstanceId r) r of
        Some e \<Rightarrow> PlanErr AuthorizationValidateErr (err_msg e) | None \<Rightarrow> PlanOk ())"

definition checkErr :: "int go_result \<Rightarrow> (int \<times> string) option" where
  "checkErr response =
     (case response of
        Inl err \<Rightarrow> Some (SerErrServiceInstanceFailed, ''service delete failed'')
      | Inr code \<Rightarrow> if code = ErrInstanceNotExists then Some (SerInstanceNotFound, ''instance not found'') else None)"

text \<open>The loop over the stored instances, where one that does not decode is \<open>None\<close> (the
  message of its error is left out).\<close>

fun unregister_services ::
  "'w svc_host \<Rightarrow> 'w service_center \<Rightarrow> string \<Rightarrow> MicroServiceInstance option list \<Rightarrow> 'w \<Rightarrow> unit plan_out \<times> 'w" where
  "unregister_services H SC app [] w = (PlanOk (), w)"
| "unregister_services H SC app (None # ds) w = (PlanErr ParseInfoErr [], w)"
| "unregister_services H SC app (Some ins # ds) w =
     (if app = get_prop (mi_Properties ins) ''appInstanceId'' then
        (case sc_unregister SC (mi_ServiceId ins) (mi_InstanceId ins) w of
           (resp, w) \<Rightarrow>
             (case checkErr resp of
                Some (c, m) \<Rightarrow> (PlanErr c m, w)
              | None \<Rightarrow> unregister_services H SC app ds (fold (CleanUpApiGwEntry H) (GetApiGwSerName ins) w)))
      else unregister_services H SC app ds w)"

text \<open>The records of the registry go into a map by the last element of their keys,
  \<open>base\<close>, which is iterated in the order \<open>iter\<close>.\<close>

definition DeleteService_all ::
  "'w svc_host \<Rightarrow> 'w service_center \<Rightarrow> (MicroServiceInstance option \<Rightarrow> string)
   \<Rightarrow> ((string \<times> MicroServiceInstance option) list \<Rightarrow> (string \<times> MicroServiceInstance option) list)
   \<Rightarrow> string \<Rightarrow> 'w \<Rightarrow> unit plan_out \<times> 'w" where
  "DeleteService_all H SC base iter app w =
     (case sc_files SC w of
        (Inl e, w) \<Rightarrow> (PlanErr OperateDataWithEtcdErr ''query error from etcd'', w)
      | (Inr ds, w) \<Rightarrow> unregister_services H SC app (map snd (iter (fold (\<lambda>d. al_put (base d) d) ds []))) w)"

text \<open>Every failure of this step is logged only.\<close>

definition DeleteFromMepauth_OnRequest :: "server_env \<Rightarrow> 'w svc_host \<Rightarrow> string \<Rightarrow> string \<Rightarrow> 'w \<Rightarrow> unit plan_out \<times> 'w" where
  "DeleteFromMepauth_OnRequest env H authBaseUrl app w =
     (if \<not> ValidateDomainName (en_certDomain env) then (PlanOk (), w)
      else (PlanOk (), snd (sh_send H ''DELETE'' (authBaseUrl @ ''/'' @ app @ ''/confs'') [] w)))"

text \<open>The answer of the plan is the empty text of the last step that sets one; the task of
  the started worker is not in it.\<close>

definition terminateAppInstance where
  "terminateAppInstance env H SC R iter riter base siter authBaseUrl taskId r w =
     then_step (DecodeAppTerminationReq_GetFindParam r) w (\<lambda>_ w.
       and_then (DeleteAppDConfigWithSync_OnRequest R iter riter taskId (mr_appInstanceId r) w) (\<lambda>(progress, worker) w.
         and_then (DeleteService_all H SC base siter (mr_appInstanceId r) w) (\<lambda>_ w.
           and_then (DeleteFromMepauth_OnRequest env H authBaseUrl (mr_appInstanceId r) w) (\<lambda>_ w.
             (PlanOk (([] :: string), worker), w)))))"

section \<open>What a confirmation does\<close>

context etcd
begin

lemma GetRecord_stored:
  assumes "kv w p = Some d" and "is_ok (fst (reg_get R p w))"
  shows "\<exists>u. GetRecord R p w = (Inr d, u)"
proof -
  obtain kvs u where g: "reg_get R p w = (Inr kvs, u)" using assms(2) by (metis is_ok_iff prod.collapse)
  have "(p, d) \<in> set kvs" using get_ok [OF g] assms(1) by simp
  then obtain d' where r: "GetRecord R p w = (Inr d', u)" by (cases kvs) (auto simp: GetRecord_def g)
  with GetRecord_exact [OF r assms(1)] show ?thesis by simp
qed

lemma confirmed_record:
  assumes "ConfirmTermination_OnRequest R app w = (PlanOk (), w1)"
    and "kv w (AppConfirmTerminationPath @ app @ ''/'') = Some (DocConfirm c)"
  shows "kv w1 = (kv w)(AppConfirmTerminationPath @ app @ ''/'' \<mapsto> DocConfirm (c\<lparr>ctr_TerminationStatus := TerminationFinish\<rparr>))"
proof -
  let ?p = "AppConfirmTerminationPath @ app @ ''/''"
  obtain d v where g: "GetRecord R ?p w = (Inr d, v)"
    using assms(1) by (auto simp: ConfirmTermination_OnRequest_def split: prod.splits sum.splits)
  have d: "d = DocConfirm c" using GetRecord_exact [OF g assms(2)] .
  have "PutRecord R ?p (DocConfirm (c\<lparr>ctr_TerminationStatus := TerminationFinish\<rparr>)) v = (0, w1)"
    using assms(1) by (auto simp: ConfirmTermination_OnRequest_def g d split: prod.splits if_splits)
  then show ?thesis using PutRecord_ok GetRecord_kv [OF g] by metis
qed

lemma check_keeps: "DecodeConfirmTerminateReq_ParseBody R codec r w = (out, w1) \<Longrightarrow> kv w1 = kv w"
  using GetRecord_kv [of "AppConfirmTerminationPath @ mr_appInstanceId r @ ''/''" w]
  by (auto simp: DecodeConfirmTerminateReq_ParseBody_def split: plan_out.splits prod.splits sum.splits option.splits if_splits)

lemma check_action:
  assumes "DecodeConfirmTerminateReq_ParseBody R codec r w = (PlanOk (), w1)"
    and "kv w (AppConfirmTerminationPath @ mr_appInstanceId r @ ''/'') = Some (DocConfirm c)"
  shows "\<exists>msg. mr_body r = Inr msg \<and> (case rc_unmarshal codec msg of Inl e \<Rightarrow> True | Inr a \<Rightarrow> a = ctr_OperationAction c)"
  using assms GetRecord_exact [OF _ assms(2)]
  by (fastforce simp: DecodeConfirmTerminateReq_ParseBody_def confirm_body_def split: plan_out.splits prod.splits sum.splits option.splits if_splits)

end

section \<open>The removal of the services\<close>

lemma split_on_parts: "x \<in> set (split_on sep s) \<Longrightarrow> sep \<notin> set x"
  by (induction s arbitrary: x) (auto split: list.splits if_splits)

lemma gateway_names: "n \<in> set (GetApiGwSerName i) \<Longrightarrow> n \<noteq> [] \<Longrightarrow> gw_name n"
  using split_on_parts [OF last_in_set [OF split_on_not_Nil]] by (auto simp: GetApiGwSerName_def gw_name_def)

lemma al_put_new: "k \<notin> fst ` set al \<Longrightarrow> al_put k v al = al @ [(k, v)]"
  by (induction k v al rule: al_put.induct) auto

lemma fold_al_put_distinct:
  "distinct (map base ds) \<Longrightarrow> base ` set ds \<inter> fst ` set al = {} \<Longrightarrow>
   fold (\<lambda>d. al_put (base d) d) ds al = al @ map (\<lambda>d. (base d, d)) ds"
proof (induction ds arbitrary: al)
  case (Cons d ds)
  then have "base ` set ds \<inter> fst ` set (al @ [(base d, d)]) = {}" by auto
  with Cons show ?case by (simp add: al_put_new)
qed simp

text \<open>The instances of an application, by their key.\<close>

definition app_owned :: "string \<Rightarrow> MicroServiceInstance \<Rightarrow> bool" where
  "app_owned app i \<longleftrightarrow> get_prop (mi_Properties i) ''appInstanceId'' = app"

locale teardown = center SC docs + kong H gws routes + blind H docs
  for SC :: "'w service_center" and H :: "'w svc_host" and docs :: "'w \<Rightarrow> string \<times> string \<Rightarrow> (string list \<times> props) option"
    and gws :: "'w \<Rightarrow> string \<Rightarrow> string option" and routes :: "'w \<Rightarrow> string set" +
  assumes unregister_codes: "fst (sc_unregister SC s i w) = Inr c \<Longrightarrow> c = 0 \<or> c = ErrInstanceNotExists"
    and unregister_gws: "gws (snd (sc_unregister SC s i w)) = gws w" "routes (snd (sc_unregister SC s i w)) = routes w"
    and files_gws: "gws (snd (sc_files SC w)) = gws w" "routes (snd (sc_files SC w)) = routes w"
begin

lemma clean_names:
  "(\<forall>n\<in>set ns. n \<noteq> [] \<longrightarrow> gw_name n) \<Longrightarrow>
   docs (fold (CleanUpApiGwEntry H) ns w) = docs w \<and>
   gws (fold (CleanUpApiGwEntry H) ns w) = (\<lambda>n. if n \<in> set ns \<and> n \<noteq> [] then None else gws w n)"
proof (induction ns arbitrary: w)
  case (Cons n ns)
  have "CleanUpApiGwEntry H [] w = w" by (simp add: CleanUpApiGwEntry_def)
  with Cons cleaned_gw [of n w] blind_gateway(2) [of n w] show ?case by (cases "n = []") (auto simp: fun_eq_iff)
qed simp

lemma unregistered:
  assumes "unregister_services H SC app (map Some inss) w = (PlanOk (), w')"
  shows "docs w' = (\<lambda>k. if \<exists>i\<in>set inss. app_owned app i \<and> (mi_ServiceId i, mi_InstanceId i) = k then None else docs w k)
    \<and> gws w' = (\<lambda>n. if n \<noteq> [] \<and> (\<exists>i\<in>set inss. app_owned app i \<and> n \<in> set (GetApiGwSerName i)) then None else gws w n)"
  using assms
proof (induction inss arbitrary: w)
  case (Cons i inss)
  show ?case
  proof (cases "app_owned app i")
    case True
    then have own: "app = get_prop (mi_Properties i) ''appInstanceId''" by (simp add: app_owned_def)
    obtain resp u where un: "sc_unregister SC (mi_ServiceId i) (mi_InstanceId i) w = (resp, u)" by fastforce
    with Cons.prems own have ok: "checkErr resp = None"
      and rest: "unregister_services H SC app (map Some inss) (fold (CleanUpApiGwEntry H) (GetApiGwSerName i) u) = (PlanOk (), w')"
      by (auto split: option.splits)
    have "resp = Inr 0"
      using ok unregister_codes [of "mi_ServiceId i" "mi_InstanceId i" w] un by (auto simp: checkErr_def split: sum.splits if_splits)
    with un have u: "docs u = (docs w)((mi_ServiceId i, mi_InstanceId i) := None)" "gws u = gws w"
      using unregister_ok unregister_gws(1) [of "mi_ServiceId i" "mi_InstanceId i" w] by auto
    from Cons.IH [OF rest] clean_names [of "GetApiGwSerName i" u] gateway_names u True show ?thesis
      by (auto simp: fun_eq_iff)
  next
    case False
    with Cons.prems have "unregister_services H SC app (map Some inss) w = (PlanOk (), w')" by (auto simp: app_owned_def)
    from Cons.IH [OF this] False show ?thesis by auto
  qed
qed simp

lemma services_removed:
  assumes files: "sc_files SC w = (Inr ds, w1)" and dec: "decode_all ds = Some inss"
    and base: "\<And>i. base (Some i) = mi_InstanceId i" and iter: "reordering iter" and inj: "inj_on snd (dom (docs w))"
    and run: "DeleteService_all H SC base iter app w = (PlanOk (), w')"
  shows "docs w' = (\<lambda>k. case docs w k of None \<Rightarrow> None
      | Some (es, m) \<Rightarrow> if get_prop m ''appInstanceId'' = app then None else Some (es, m))"
    and "gws w' = (\<lambda>n. if n \<noteq> [] \<and> (\<exists>i\<in>set inss. app_owned app i \<and> n \<in> set (GetApiGwSerName i)) then None else gws w n)"
proof -
  have ds: "ds = map Some inss" using dec
    by (induction ds arbitrary: inss rule: decode_all.induct) (auto split: option.splits)
  note all = files_ok [OF files dec]
  have "inj_on mi_InstanceId (set inss)"
  proof (rule inj_onI)
    fix i j assume i: "i \<in> set inss" and j: "j \<in> set inss" and eq: "mi_InstanceId i = mi_InstanceId j"
    have "docs w (fst (inst_doc i)) = Some (snd (inst_doc i))" "docs w (fst (inst_doc j)) = Some (snd (inst_doc j))"
      using all i j by (metis (mono_tags, lifting) list.set_map mem_Collect_eq case_prodD imageI prod.collapse)+
    moreover have "fst (inst_doc i) = fst (inst_doc j)"
      using inj_onD [OF inj, of "fst (inst_doc i)" "fst (inst_doc j)"] calculation eq by (auto simp: inst_doc_def)
    ultimately have "inst_doc i = inst_doc j" by (metis option.inject prod_eqI)
    with all i j show "i = j" by (meson distinct_map inj_onD)
  qed
  moreover have "distinct inss" using all by (meson distinct_map)
  ultimately have "distinct (map base ds)" by (simp add: ds distinct_map comp_def base inj_on_def)
  then have recs: "fold (\<lambda>d. al_put (base d) d) ds [] = map (\<lambda>d. (base d, d)) ds"
    using fold_al_put_distinct [of base ds "[]"] by simp
  define order where "order = map (the \<circ> snd) (iter (map (\<lambda>d. (base d, d)) ds))"
  have elems: "set (iter (map (\<lambda>d. (base d, d)) ds)) = (\<lambda>i. (mi_InstanceId i, Some i)) ` set inss"
    using reordering_set [OF iter] by (auto simp: ds base)
  then have o: "map snd (iter (map (\<lambda>d. (base d, d)) ds)) = map Some order"
    by (auto simp: order_def)
  have so: "set order = set inss" by (simp add: order_def elems image_image)
  have w1: "docs w1 = docs w" "gws w1 = gws w" using files_docs [of w] files_gws(1) [of w] files by auto
  from run have "unregister_services H SC app (map Some order) w1 = (PlanOk (), w')"
    by (simp add: DeleteService_all_def files recs o)
  note t = unregistered [OF this, unfolded so w1]
  then show "gws w' = (\<lambda>n. if n \<noteq> [] \<and> (\<exists>i\<in>set inss. app_owned app i \<and> n \<in> set (GetApiGwSerName i)) then None else gws w n)"
    by simp
  have m: "(k, es, m) \<in> inst_doc ` set inss \<longleftrightarrow> docs w k = Some (es, m)" for k es m using all by simp
  have "(\<exists>i\<in>set inss. app_owned app i \<and> (mi_ServiceId i, mi_InstanceId i) = k)
      \<longleftrightarrow> (\<exists>es m. docs w k = Some (es, m) \<and> get_prop m ''appInstanceId'' = app)" for k
    unfolding m [symmetric] by (auto simp: inst_doc_def app_owned_def image_iff)
  with t show "docs w' = (\<lambda>k. case docs w k of None \<Rightarrow> None
      | Some (es, m) \<Rightarrow> if get_prop m ''appInstanceId'' = app then None else Some (es, m))"
    by (auto simp: fun_eq_iff split: option.split)
qed

end

interpretation mem_teardown: teardown mem_center mem_host "\<lambda>w. map_of (vw_docs w)" "\<lambda>w. map_of (vw_gws w)" "\<lambda>w. set (vw_routes w)"
  by unfold_locales (auto simp: mem_center_def split: if_splits)

section \<open>Properties\<close>

text \<open>(C25) A terminated application leaves no service behind.  When the step of the
  termination that removes the services succeeds, exactly the instances of the application are
  gone from the service centre, and exactly the gateway services that their endpoints name are
  gone from the gateway, in whatever order the instances are visited.  The list of instances
  was read, their ids are distinct, the centre answers a removal with success or with "does
  not exist", and the gateway removes what it is asked to remove.\<close>

theorem terminated_services_gone:
  assumes "teardown SC H docs gws routes" and "sc_files SC w = (Inr ds, w1)" and "decode_all ds = Some inss"
    and "\<forall>i. base (Some i) = mi_InstanceId i" and "reordering iter" and "inj_on snd (dom (docs w))"
    and "DeleteService_all H SC base iter app w = (PlanOk (), w')"
  shows "docs w' = (\<lambda>k. case docs w k of None \<Rightarrow> None
      | Some (es, m) \<Rightarrow> if get_prop m ''appInstanceId'' = app then None else Some (es, m))
    \<and> gws w' = (\<lambda>n. if n \<noteq> [] \<and> (\<exists>i\<in>set inss. app_owned app i \<and> n \<in> set (GetApiGwSerName i)) then None else gws w n)"
  using teardown.services_removed [OF assms(1-3) spec [OF assms(4)] assms(5-7)] by (rule conjI)

definition town :: svc_world where
  "town = svc_start\<lparr>
     vw_docs := [((pad 16 2, pad 16 3), [''https://mep-api-gw.mep:8443/a1''], [(''appInstanceId'', ''app-1'')]),
                 ((pad 16 2, pad 16 4), [''https://mep-api-gw.mep:8443/b1''], [(''appInstanceId'', ''app-2'')])],
     vw_gws := [(''a1'', ''http://10.1.1.1''), (''b1'', ''http://10.1.1.2'')], vw_routes := [''a1'', ''b1'']\<rparr>"

theorem terminated_services_gone_witness:
  "let w' = snd (DeleteService_all mem_host mem_center (\<lambda>d. case d of None \<Rightarrow> [] | Some i \<Rightarrow> mi_InstanceId i) rev ''app-1'' town) in
     map_of (vw_docs w') (pad 16 2, pad 16 3) = None \<and> map_of (vw_docs w') (pad 16 2, pad 16 4) \<noteq> None
     \<and> map_of (vw_gws w') ''a1'' = None \<and> map_of (vw_gws w') ''b1'' = Some ''http://10.1.1.2''"
proof -
  let ?base = "\<lambda>d. case d of None \<Rightarrow> [] | Some i \<Rightarrow> mi_InstanceId i"
  let ?run = "DeleteService_all mem_host mem_center ?base rev ''app-1'' town"
  let ?inss = "map (\<lambda>k. mem_inst k (the (map_of (vw_docs town) k))) (remdups (map fst (vw_docs town)))"
  let ?ds = "map (\<lambda>k. Some (mem_inst k (the (map_of (vw_docs town) k)))) (remdups (map fst (vw_docs town)))"
  have f: "sc_files mem_center town = (Inr ?ds, town)" by (simp add: mem_center_def)
  have d: "decode_all ?ds = Some ?inss" using decode_all_Some [of ?inss] by (simp add: comp_def)
  have inss: "?inss = [mem_inst (pad 16 2, pad 16 3) ([''https://mep-api-gw.mep:8443/a1''], [(''appInstanceId'', ''app-1'')]),
      mem_inst (pad 16 2, pad 16 4) ([''https://mep-api-gw.mep:8443/b1''], [(''appInstanceId'', ''app-2'')])]" by code_simp
  have p: "pad 16 3 \<noteq> pad 16 4" by code_simp
  then have i: "inj_on snd (dom (map_of (vw_docs town)))" by (auto simp: town_def inj_on_def split: if_splits)
  have "fst ?run = PlanOk ()" by code_simp
  then have r: "?run = (PlanOk (), snd ?run)" by (simp add: prod_eq_iff)
  have b: "\<forall>i. ?base (Some i) = mi_InstanceId i" by simp
  note t = terminated_services_gone [OF mem_teardown.teardown_axioms f d b reordering_rev i r]
  have a: "split_on (CHR ''/'') ''https://mep-api-gw.mep:8443/a1'' = [''https:'', [], ''mep-api-gw.mep:8443'', ''a1'']"
    "split_on (CHR ''/'') ''https://mep-api-gw.mep:8443/b1'' = [''https:'', [], ''mep-api-gw.mep:8443'', ''b1'']" by code_simp+
  show ?thesis
    unfolding Let_def conjunct1 [OF t] conjunct2 [OF t] inss
    using p by (auto simp: town_def get_prop_def app_owned_def GetApiGwSerName_def mem_inst_def a)
qed

text \<open>(C39) A confirmation ends the wait.  When a confirmation of termination is accepted while
  the termination is recorded as pending, its body names the recorded action or does not decode
  at all, the record is marked as finished and nothing else changes, and the worker that waits
  returns after its next reading of the record.\<close>

theorem confirmation_ends_wait:
  assumes "etcd (se_R E) kv" and "confirmTermination (se_R E) codec r w = (PlanOk (), w1)"
    and "kv w (AppConfirmTerminationPath @ mr_appInstanceId r @ ''/'') = Some (DocConfirm c)"
    and "is_ok (fst (reg_get (se_R E) (AppConfirmTerminationPath @ mr_appInstanceId r @ ''/'') w1))"
  shows "(\<exists>msg. mr_body r = Inr msg \<and> (case rc_unmarshal codec msg of Inl e \<Rightarrow> True | Inr a \<Rightarrow> a = ctr_OperationAction c))
    \<and> kv w1 = (kv w)(AppConfirmTerminationPath @ mr_appInstanceId r @ ''/'' \<mapsto> DocConfirm (c\<lparr>ctr_TerminationStatus := TerminationFinish\<rparr>))
    \<and> handleResponseFromAppInstance E (mr_appInstanceId r) (Suc n) w1
      = (None, snd (GetRecord (se_R E) (AppConfirmTerminationPath @ mr_appInstanceId r @ ''/'') w1))"
proof -
  let ?p = "AppConfirmTerminationPath @ mr_appInstanceId r @ ''/''"
  note etcd = assms(1)
  obtain v where check: "DecodeConfirmTerminateReq_ParseBody (se_R E) codec r w = (PlanOk (), v)"
    and run: "ConfirmTermination_OnRequest (se_R E) (mr_appInstanceId r) v = (PlanOk (), w1)"
    using assms(2) by (auto simp: confirmTermination_def dest!: then_step_ok and_then_ok)
  have v: "kv v = kv w" using etcd.check_keeps [OF etcd check] .
  then have "kv v ?p = Some (DocConfirm c)" using assms(3) by simp
  from etcd.confirmed_record [OF etcd run this] v
  have w1: "kv w1 = (kv w)(?p \<mapsto> DocConfirm (c\<lparr>ctr_TerminationStatus := TerminationFinish\<rparr>))" by simp
  then have "kv w1 ?p = Some (DocConfirm (c\<lparr>ctr_TerminationStatus := TerminationFinish\<rparr>))" by simp
  from etcd.GetRecord_stored [OF etcd this assms(4)]
  obtain u where r: "GetRecord (se_R E) ?p w1 = (Inr (DocConfirm (c\<lparr>ctr_TerminationStatus := TerminationFinish\<rparr>)), u)" by blast
  then have "handleResponseFromAppInstance E (mr_appInstanceId r) (Suc n) w1 = (None, snd (GetRecord (se_R E) ?p w1))"
    by (simp add: r)
  with etcd.check_action [OF etcd check assms(3)] w1 show ?thesis by blast
qed

definition pending_world :: mem_world where
  "pending_world = \<lparr>mw_kv = [(''/cse-sr/etsi/app-confirm-termination/app-1/'',
      DocConfirm \<lparr>ctr_OperationAction = ''TERMINATING'', ctr_TerminationStatus = TerminationInProgress\<rparr>)], mw_faults = []\<rparr>"

theorem confirmation_ends_wait_witness:
  "\<exists>w1 w2. confirmTermination sure_registry (body_of ''TERMINATING'') (sub_call ''app-1'' []) pending_world = (PlanOk (), w1)
    \<and> handleResponseFromAppInstance (fixed_env sure_registry ''all'' 200) ''app-1'' 50 w1 = (None, w2)"
proof -
  let ?E = "fixed_env sure_registry ''all'' 200" and ?r = "sub_call ''app-1'' []"
  let ?run = "confirmTermination (se_R ?E) (body_of ''TERMINATING'') ?r pending_world"
  have e: "etcd (se_R ?E) (\<lambda>w. map_of (mw_kv w))" using sure_etcd.etcd_axioms by (simp add: fixed_env_def)
  have "fst ?run = PlanOk ()" by code_simp
  then have r: "?run = (PlanOk (), snd ?run)" by (simp add: prod_eq_iff)
  have a: "mr_appInstanceId ?r = ''app-1''" by (simp add: sub_call_def svc_call_def)
  have p: "map_of (mw_kv pending_world) (AppConfirmTerminationPath @ mr_appInstanceId ?r @ ''/'')
    = Some (DocConfirm \<lparr>ctr_OperationAction = ''TERMINATING'', ctr_TerminationStatus = TerminationInProgress\<rparr>)"
    by (simp add: a pending_world_def path_defs)
  have g: "is_ok (fst (reg_get (se_R ?E) q v))" for q v
    by (simp add: fixed_env_def sure_registry_def mem_registry_def mem_fault_def)
  from confirmation_ends_wait [OF e r p g, of 49] show ?thesis using r by (auto simp: a fixed_env_def)
qed

text \<open>Any text confirms a termination.  A confirmation whose body is not JSON is treated
  like a valid one: no error is recorded for it, and the pending termination is finished.\<close>

theorem garbage_confirms:
  assumes "etcd R kv" and "\<forall>p v. is_ok (fst (reg_get R p v))" and "\<forall>p d v. fst (reg_put R p d v) = None"
    and "mr_body r = Inr msg" and "length msg \<le> RequestBodyLength" and "rc_unmarshal codec msg = Inl e" and "mr_appInstanceId r \<noteq> []"
    and "kv w (AppConfirmTerminationPath @ mr_appInstanceId r @ ''/'') = Some (DocConfirm c)"
  shows "\<exists>w'. confirmTermination R codec r w = (PlanOk (), w')
    \<and> kv w' = (kv w)(AppConfirmTerminationPath @ mr_appInstanceId r @ ''/'' \<mapsto> DocConfirm (c\<lparr>ctr_TerminationStatus := TerminationFinish\<rparr>))"
proof -
  let ?p = "AppConfirmTerminationPath @ mr_appInstanceId r @ ''/''"
  have run: "confirmTermination R codec r w = ConfirmTermination_OnRequest R (mr_appInstanceId r) w"
    using assms(4-7) by (simp add: confirmTermination_def confirm_getParam_def DecodeConfirmTerminateReq_ParseBody_def confirm_body_def
        then_step_def and_then_def)
  obtain u where d: "GetRecord R ?p w = (Inr (DocConfirm c), u)"
    using etcd.GetRecord_stored [OF assms(1,8)] assms(2) by blast
  then have "fst (ConfirmTermination_OnRequest R (mr_appInstanceId r) w) = PlanOk ()"
    using assms(3) by (auto simp: ConfirmTermination_OnRequest_def d PutRecord_def split: prod.splits option.splits)
      (metis fst_conv option.distinct(1))+
  then obtain w' where "ConfirmTermination_OnRequest R (mr_appInstanceId r) w = (PlanOk (), w')" by (metis prod.collapse)
  with etcd.confirmed_record [OF assms(1) this assms(8)] run show ?thesis by simp
qed

theorem garbage_confirms_witness:
  "\<exists>w'. confirmTermination sure_registry (body_of ''x''\<lparr>rc_unmarshal := \<lambda>s. Inl (Err ''invalid character'')\<rparr>) (sub_call ''app-1'' []) pending_world
      = (PlanOk (), w')"
proof -
  have g: "\<forall>q v. is_ok (fst (reg_get (sure_registry :: mem_world registry) q v))" "\<forall>q d v. fst (reg_put (sure_registry :: mem_world registry) q d v) = None"
    by (simp_all add: sure_registry_def mem_registry_def mem_fault_def)
  let ?r = "sub_call ''app-1'' []" and ?codec = "body_of ''x''\<lparr>rc_unmarshal := \<lambda>s. Inl (Err ''invalid character'')\<rparr>"
  have a: "mr_appInstanceId ?r = ''app-1''" and b: "mr_body ?r = Inr []" by (simp_all add: sub_call_def svc_call_def)
  have p: "map_of (mw_kv pending_world) (AppConfirmTerminationPath @ mr_appInstanceId ?r @ ''/'')
    = Some (DocConfirm \<lparr>ctr_OperationAction = ''TERMINATING'', ctr_TerminationStatus = TerminationInProgress\<rparr>)"
    by (simp add: a pending_world_def path_defs)
  have l: "length ([] :: string) \<le> RequestBodyLength" "rc_unmarshal ?codec [] = Inl (Err ''invalid character'')" "mr_appInstanceId ?r \<noteq> []"
    by (simp_all add: a)
  note h = garbage_confirms [where R = sure_registry and kv = "\<lambda>w. map_of (mw_kv w)" and w = pending_world and r = ?r
      and codec = ?codec and msg = "[]" and e = "Err ''invalid character''"
      and c = "\<lparr>ctr_OperationAction = ''TERMINATING'', ctr_TerminationStatus = TerminationInProgress\<rparr>"]
  show ?thesis using h [OF sure_etcd.etcd_axioms g b l p] by blast
qed

end
