(* ===== verification/Svc_Typing.thy ===== *)
theory Svc_Typing
  imports Heartbeat Termination
begin

text \<open>
  The type of the stored service documents.  The service centre stores untyped properties, all
  of them text.  Every document that the interface writes has an interval that parses, one of
  the three states, and flags that parse; this holds in every state that requests, heartbeats,
  the supervising process and terminations reach, and it is what the supervision of the
  heartbeats needs.
\<close>

section \<open>Typed documents\<close>

definition typed_doc :: "props \<Rightarrow> bool" where
  "typed_doc m \<longleftrightarrow> get_prop m ''livenessInterval'' \<in> {''0'', ''60''}
     \<and> get_prop m ''mecState'' \<in> {ActiveState, InactiveState, SuspendedState}
     \<and> get_prop m ''ConsumedLocalOnly'' \<in> {''true'', ''false''} \<and> get_prop m ''IsLocal'' \<in> {''true'', ''false''}"

definition typed :: "(string \<times> string \<Rightarrow> (string list \<times> props) option) \<Rightarrow> bool" where
  "typed d \<longleftrightarrow> (\<forall>k es m. d k = Some (es, m) \<longrightarrow> typed_doc m)"

lemma typed_upd: "typed d \<Longrightarrow> typed_doc m \<Longrightarrow> typed (d(k \<mapsto> (es, m)))"
  by (auto simp: typed_def)

lemma typed_del: "typed d \<Longrightarrow> typed (d(k := None))"
  by (auto simp: typed_def)

lemma typed_doc_cong:
  "(\<forall>k. k \<noteq> ''liveness'' \<longrightarrow> get_prop m k = get_prop (al_put ''appInstanceId'' app m0) k) \<Longrightarrow> typed_doc m0 \<Longrightarrow> typed_doc m"
  by (simp add: typed_doc_def)

lemma typed_put_state: "typed_doc m \<Longrightarrow> v \<in> {ActiveState, InactiveState, SuspendedState} \<Longrightarrow> typed_doc (al_put ''mecState'' v m)"
  by (simp add: typed_doc_def)

lemma typed_stamp: "typed_doc m \<Longrightarrow> typed_doc (put_timestamp t m)"
  by (simp add: typed_doc_def put_timestamp_def)

lemma typed_update_state:
  "typed_doc m \<Longrightarrow> v \<in> {ActiveState, InactiveState, SuspendedState} \<Longrightarrow> typed_doc (UpdatePropertiesMap ''mecState'' v m)"
  by (auto simp: UpdatePropertiesMap_def intro: typed_put_state)

text \<open>What is generated from a validated document is typed, whatever was stored before.\<close>

lemma typed_generated:
  assumes "GenerateRegisterInstance H s b inst w = ((inst', s'), w')" and "reordering (sh_iter H)"
    and "si_State s \<in> {ActiveState, InactiveState}"
  shows "typed_doc (mi_Properties inst')"
proof -
  obtain ty nano where
    p: "\<And>k. plain_key k \<Longrightarrow> get_prop (mi_Properties inst') k
        = get_prop (transportInfoToProperties (si_TransportInfo s) (al_put ''endPointType'' ty (base_properties s nano (mi_Properties inst)))) k"
    by (rule GenerateRegisterInstance_props [OF assms(1,2)]) (rule that; assumption)
  note q = p [OF plain_keys(3)] p [OF plain_keys(7)] p [OF plain_keys(8)] p [OF plain_keys(9)]
  note r = q [unfolded property_maps, simplified]
  have i: "itoa_int DefaultHeartbeatInterval = ''60''" "itoa_int 0 = ''0''" by code_simp+
  have st: "si_State s \<noteq> []" using assms(3) by (auto simp: ActiveState_def InactiveState_def)
  have b: "format_bool x \<noteq> []" "format_bool x \<in> {''true'', ''false''}" for x by (simp_all add: format_bool_def)
  show ?thesis
    unfolding typed_doc_def using r assms(3) st b by (auto simp: i)
qed

text \<open>The state that the validator admits is the one that is stored.\<close>

definition states_checked :: "ServiceInfo rule_codec \<Rightarrow> bool" where
  "states_checked codec \<longleftrightarrow> (\<forall>s. rc_validate codec s = None \<longrightarrow> si_State s \<in> {ActiveState, InactiveState})"

section \<open>The steps\<close>

text \<open>A step of the platform: a request to the service interface, a heartbeat, a run of the
  supervising process, or the removal of the services of a terminated application, with any
  request and any answer.\<close>

inductive svc_step ::
  "(string \<Rightarrow> bool) \<Rightarrow> ServiceInfo rule_codec \<Rightarrow> string rule_codec \<Rightarrow> 'w svc_host \<Rightarrow> 'w service_center \<Rightarrow> 'w \<Rightarrow> 'w \<Rightarrow> bool"
  for uuid codec beat H SC where
  registers: "serviceRegister uuid codec H SC r w = (out, w') \<Longrightarrow> svc_step uuid codec beat H SC w w'"
| updates: "serviceUpdate uuid codec H SC r w = (upd, w') \<Longrightarrow> svc_step uuid codec beat H SC w w'"
| deletes: "serviceDelete uuid H SC r w = (code, w') \<Longrightarrow> svc_step uuid codec beat H SC w w'"
| reads: "getOneService C SC r w = (one, w') \<Longrightarrow> svc_step uuid codec beat H SC w w'"
| beats: "heartbeatService beat H SC r w = (code, w') \<Longrightarrow> svc_step uuid codec beat H SC w w'"
| ticks: "heartbeat_tick H SC w = w' \<Longrightarrow> svc_step uuid codec beat H SC w w'"
| ends_app: "DeleteService_all H SC base iter app w = (res, w') \<Longrightarrow> svc_step uuid codec beat H SC w w'"

context svc_ports
begin

lemma update_writes:
  assumes "UpdateInstance_OnRequest H SC app serId s w = (out, w')"
  shows "docs w' = docs w \<or> (\<exists>k es m inst0 inst s1 v w1. docs w' = (docs w)(k \<mapsto> (es, m))
    \<and> GenerateRegisterInstance H s True inst0 v = ((inst, s1), w1)
    \<and> (\<forall>k. k \<noteq> ''liveness'' \<longrightarrow> get_prop m k = get_prop (al_put ''appInstanceId'' app (mi_Properties inst)) k))"
proof (cases "serId = [] \<or> (\<exists>e. fst (GetServiceInstance SC serId w) = Inl e)")
  case True
  moreover have "docs (snd (GetServiceInstance SC serId w)) = docs w"
    using getInstance_docs [of "fst (split_id serId)" "snd (split_id serId)" w]
    by (auto simp: GetServiceInstance_def split: prod.splits sum.splits option.splits)
  ultimately show ?thesis
    using assms by (auto simp: UpdateInstance_OnRequest_def split: if_splits prod.splits)
next
  case False
  then obtain inst0 v where i: "GetServiceInstance SC serId w = (Inr inst0, v)" and ne: "serId \<noteq> []"
    by (metis prod.collapse sum.exhaust)
  have v: "docs v = docs w"
    using getInstance_docs [of "fst (split_id serId)" "snd (split_id serId)" w] i
    by (auto simp: GetServiceInstance_def split: prod.splits sum.splits option.splits)
  obtain inst s1 w1 where g: "GenerateRegisterInstance H s True inst0 v = ((inst, s1), w1)" by (metis prod.collapse)
  obtain s2 m where l: "set_liveness app (mi_ServiceId inst0 @ mi_InstanceId inst0) s1 (al_put ''appInstanceId'' app (mi_Properties inst)) = (s2, m)"
    by fastforce
  obtain u w2 where u: "sc_updateInstance SC (inst\<lparr>mi_Properties := m\<rparr>) w1 = (u, w2)" by fastforce
  have "docs (snd (RecordHeartbeat SC serId x)) = docs x" for x
    using heartbeat_docs [of "fst (split_id serId)" "snd (split_id serId)" x]
    by (auto simp: RecordHeartbeat_def split: prod.splits sum.splits)
  then have "docs w' = docs w2"
    using assms by (auto simp: UpdateInstance_OnRequest_def i ne g l u split: option.splits prod.splits) (metis snd_conv)+
  moreover have "docs w1 = docs w" using blind_generate [OF g] v by simp
  moreover have "\<forall>k. k \<noteq> ''liveness'' \<longrightarrow> get_prop m k = get_prop (al_put ''appInstanceId'' app (mi_Properties inst)) k"
    using set_liveness_other [OF l] by blast
  ultimately have m: "docs w' = docs w2" "docs w1 = docs w"
    "\<forall>k. k \<noteq> ''liveness'' \<longrightarrow> get_prop m k = get_prop (al_put ''appInstanceId'' app (mi_Properties inst)) k"
    by simp_all
  show ?thesis
  proof (cases u)
    case None
    then have "docs w' = (docs w)((mi_ServiceId inst, mi_InstanceId inst) \<mapsto> (mi_Endpoints inst, m))"
      using updateInstance_ok [OF u [unfolded None]] m by simp
    with m(3) g show ?thesis by blast
  next
    case (Some e)
    then have "docs w' = docs w" using updateInstance_err [OF u [unfolded Some]] m by simp
    then show ?thesis ..
  qed
qed

lemma unregister_docs: "docs (snd (sc_unregister SC s i w)) = docs w \<or> docs (snd (sc_unregister SC s i w)) = (docs w)((s, i) := None)"
  using unregister_ok [of s i w] unregister_err [of s i w] by (metis prod.collapse)

lemma delete_typed:
  assumes "DeleteService_OnRequest H SC serId w = (out, w')" and "typed (docs w)"
  shows "typed (docs w')"
proof -
  have i: "docs (snd (GetServiceInstance SC serId w)) = docs w"
    using getInstance_docs [of "fst (split_id serId)" "snd (split_id serId)" w]
    by (auto simp: GetServiceInstance_def split: prod.splits sum.splits option.splits)
  show ?thesis
  proof (cases "serId = [] \<or> (\<exists>e. fst (GetServiceInstance SC serId w) = Inl e)")
    case True
    then have "docs w' = docs w" using assms(1) i by (auto simp: DeleteService_OnRequest_def split: if_splits prod.splits)
    with assms(2) show ?thesis by simp
  next
    case False
    then obtain inst v where g: "GetServiceInstance SC serId w = (Inr inst, v)" and ne: "serId \<noteq> []"
      by (metis prod.collapse sum.exhaust)
    define u where "u = fold (\<lambda>(k, v). CleanUpApiGwEntry H v) (endpoint_entries (sh_iter H (mi_Properties inst))) v"
    have u: "docs u = docs w" using i unfolding u_def blind_cleanup by (simp add: g)
    have "w' = snd (sc_unregister SC (fst (split_id serId)) (snd (split_id serId)) u)"
      using assms(1) by (auto simp: DeleteService_OnRequest_def g ne Let_def u_def split: prod.splits sum.splits if_splits)
    with unregister_docs [of "fst (split_id serId)" "snd (split_id serId)" u] assms(2) u show ?thesis
      by (auto intro: typed_del)
  qed
qed

lemma unregister_typed: "typed (docs w) \<Longrightarrow> typed (docs (snd (sc_unregister SC s i w)))"
  using unregister_docs [of s i w] by (auto intro: typed_del)

lemma blind_clean_names: "docs (fold (CleanUpApiGwEntry H) ns w) = docs w"
  by (induction ns arbitrary: w) (simp_all add: blind_gateway)

lemma unregister_services_typed:
  "unregister_services H SC app ds w = (out, w') \<Longrightarrow> typed (docs w) \<Longrightarrow> typed (docs w')"
proof (induction ds arbitrary: w)
  case (Cons d ds)
  show ?case
  proof (cases d)
    case (Some ins)
    obtain resp u where un: "sc_unregister SC (mi_ServiceId ins) (mi_InstanceId ins) w = (resp, u)" by fastforce
    have u: "typed (docs u)"
      using unregister_typed [OF Cons.prems(2), of "mi_ServiceId ins" "mi_InstanceId ins"] un by simp
    then have "typed (docs (fold (CleanUpApiGwEntry H) (GetApiGwSerName ins) u))" by (simp add: blind_clean_names)
    with Cons u un Some show ?thesis by (auto split: if_splits option.splits)
  qed (use Cons.prems in simp)
qed simp

lemma ends_app_typed:
  assumes "DeleteService_all H SC base iter app w = (out, w')" and "typed (docs w)"
  shows "typed (docs w')"
proof -
  obtain ds v where f: "sc_files SC w = (ds, v)" by fastforce
  then have "typed (docs v)" using files_docs [of w] assms(2) by simp
  with assms(1) f show ?thesis
    by (auto simp: DeleteService_all_def split: sum.splits dest: unregister_services_typed)
qed

lemma updateProps_typed: "typed_doc m \<Longrightarrow> typed (docs w) \<Longrightarrow> typed (docs (snd (sc_updateProps SC s i m w)))"
  using updateProps_ok [of s i m w] updateProps_err [of s i m w]
  by (cases "sc_updateProps SC s i m w"; cases "fst (sc_updateProps SC s i m w) = Inr 0") (auto intro: typed_upd)

lemma getOne_typed: "sc_getOne SC s i w = (Inr (c, Some inst), v) \<Longrightarrow> typed (docs w) \<Longrightarrow> typed_doc (mi_Properties inst)"
  using getOne_ok [of s i w c inst v] unfolding typed_def by blast

lemma heartbeat_typed:
  assumes "UpdateHeartbeat_OnRequest H SC app serId req w = (out, w')" and "typed (docs w)"
  shows "typed (docs w')"
proof -
  obtain r v where r: "sc_getOne SC (fst req) (snd req) w = (r, v)" by fastforce
  obtain now u where c: "sh_clock H v = (now, u)" by fastforce
  have v: "typed (docs v)" using getOne_docs [of "fst req" "snd req" w] assms(2) r by simp
  have u: "typed (docs u)" using blind_clock [of v] v c by simp
  define P where "P i = put_timestamp now (UpdatePropertiesMap ''mecState'' ActiveState (mi_Properties i))" for i :: MicroServiceInstance
  have p: "typed (docs (snd (sc_updateProps SC a b (P i) u)))" if "r = Inr (k, Some i)" for a b k i
    using getOne_typed [OF r [unfolded that] assms(2)] u
    by (auto simp: P_def intro!: updateProps_typed typed_stamp typed_update_state)
  show ?thesis
  proof (cases "\<exists>k i. r = Inr (k, Some i)")
    case True
    then obtain k i where i: "r = Inr (k, Some i)" by blast
    obtain q x where up: "sc_updateProps SC (fst (split_id serId)) (snd (split_id serId)) (P i) u = (q, x)" by fastforce
    have "w' \<in> {w, v, x}"
      using assms(1) up unfolding UpdateHeartbeat_OnRequest_def r i P_def
      by (auto simp: c filterAppInstanceId_one_def Let_def split: if_splits sum.splits)
    moreover have "typed (docs x)" using p [OF i, of "fst (split_id serId)" "snd (split_id serId)"] up by simp
    ultimately show ?thesis using assms(2) v by auto
  next
    case False
    then have "w' \<in> {w, v}"
      using assms(1) unfolding UpdateHeartbeat_OnRequest_def r
      by (auto simp: filterAppInstanceId_one_def split: if_splits sum.splits option.splits)
    then show ?thesis using assms(2) v by auto
  qed
qed

lemma suspend_typed:
  "typed (docs w) \<Longrightarrow> (\<And>i. i \<in> set svcs \<Longrightarrow> typed_doc (mi_Properties i)) \<Longrightarrow> typed (docs (suspend_overdue H SC svcs w))"
proof (induction svcs arbitrary: w)
  case (Cons i svcs)
  obtain now v where c: "sh_clock H w = (now, v)" by fastforce
  have "typed (docs v)" using blind_clock [of w] Cons.prems(1) c by simp
  with Cons.prems(2) [of i] have "typed (docs (if overdue now (mi_Properties i)
      then snd (sc_updateProps SC (mi_ServiceId i) (mi_InstanceId i) (al_put ''mecState'' SuspendedState (mi_Properties i)) v) else v))"
    by (auto intro!: updateProps_typed typed_put_state)
  with Cons show ?case by (simp add: c)
qed simp

lemma files_typed:
  assumes "sc_files SC w = (Inr ds, v)" and "decode_all ds = Some inss" and "typed (docs w)" and "i \<in> set inss"
  shows "typed_doc (mi_Properties i)"
proof -
  have "inst_doc i \<in> set (map inst_doc inss)" using assms(4) by simp
  then have "inst_doc i \<in> {(k, d). docs w k = Some d}" using files_ok [OF assms(1,2)] by simp
  then have "docs w (mi_ServiceId i, mi_InstanceId i) = Some (mi_Endpoints i, mi_Properties i)" by (simp add: inst_doc_def)
  with assms(3) [unfolded typed_def, rule_format, of "(mi_ServiceId i, mi_InstanceId i)"] show ?thesis by blast
qed

lemma tick_typed: "typed (docs w) \<Longrightarrow> typed (docs (heartbeat_tick H SC w))"
proof -
  assume w: "typed (docs w)"
  obtain ds v where f: "sc_files SC w = (ds, v)" by fastforce
  have v: "typed (docs v)" using files_docs [of w] w f by simp
  have "typed_doc (mi_Properties i)" if "ds = Inr xs" "decode_all xs = Some inss" "supervised inss = Some found" "i \<in> set found"
    for i xs inss found
    using files_typed [OF f [unfolded that(1)] that(2) w] supervised_Some [OF that(3)] that(4) by simp
  with v show ?thesis
    by (auto simp: heartbeat_tick_def availableServiceForHeartbeat_def f split: sum.splits option.splits intro!: suspend_typed)
qed

lemma parsed_state:
  assumes "DecodeRestReq_ParseBody codec r = PlanOk s" and "states_checked codec"
  shows "si_State s \<in> {ActiveState, InactiveState}"
proof -
  have "rc_validate codec s = None"
    using assms(1) unfolding DecodeRestReq_ParseBody_def
    by (simp split: sum.splits if_splits option.splits go_error.splits)
  then show ?thesis using assms(2) by (simp add: states_checked_def)
qed

lemma generated_stored:
  assumes "GenerateRegisterInstance H s b inst0 v = ((inst, s1), w1)" and "reordering (sh_iter H)"
    and "si_State s \<in> {ActiveState, InactiveState}" and "typed d"
    and "\<forall>k. k \<noteq> ''liveness'' \<longrightarrow> get_prop m k = get_prop (al_put ''appInstanceId'' app (mi_Properties inst)) k"
  shows "typed (d(k \<mapsto> (es, m)))"
  by (rule typed_upd [OF assms(4) typed_doc_cong [OF assms(5) typed_generated [OF assms(1-3)]]])

lemma register_run:
  assumes "serviceRegister uuid codec H SC r w = (out, w')" and lim: "RegisterLimit_OnRequest SC (mr_appInstanceId r) w = (lim, v)"
  shows "w' = w \<or> w' = v \<or> (\<exists>s res. RegisterServiceId_OnRequest SC s v = (res, w'))
    \<or> (\<exists>s sid u res. DecodeRestReq_ParseBody codec r = PlanOk s \<and> RegisterServiceId_OnRequest SC s v = (PlanOk sid, u)
         \<and> RegisterServiceInst_OnRequest H SC (mr_appInstanceId r) sid s u = (res, w'))"
proof (cases "\<exists>s. DecodeRestReq_GetParam uuid r = PlanOk () \<and> DecodeRestReq_ParseBody codec r = PlanOk s \<and> lim = PlanOk ()")
  case True
  then obtain s where s: "DecodeRestReq_GetParam uuid r = PlanOk ()" "DecodeRestReq_ParseBody codec r = PlanOk s" "lim = PlanOk ()"
    by blast
  obtain sr u where i: "RegisterServiceId_OnRequest SC s v = (sr, u)" by fastforce
  have run: "then_step sr u (\<lambda>sid. RegisterServiceInst_OnRequest H SC (mr_appInstanceId r) sid s) = (out, w')"
    using assms(1) by (simp add: serviceRegister_def s lim and_then_def then_step_def [of "PlanOk _"] i)
  show ?thesis
    by (rule then_step_cases [OF run]) (use i s in auto)
next
  case False
  then show ?thesis
    using assms(1) by (auto simp: serviceRegister_def lim and_then_def then_step_def split: plan_out.splits)
qed

lemma registers_typed:
  assumes "serviceRegister uuid codec H SC r w = (out, w')" and "reordering (sh_iter H)" and "states_checked codec"
    and "typed (docs w)"
  shows "typed (docs w')"
proof -
  have c: "center SC docs" by (rule center_axioms)
  obtain lim v where lim: "RegisterLimit_OnRequest SC (mr_appInstanceId r) w = (lim, v)" by fastforce
  have v: "docs v = docs w" by (rule RegisterLimit_docs [OF lim c])
  from register_run [OF assms(1) lim] show ?thesis
  proof (elim disjE exE conjE)
    fix s sid u res
    assume p: "DecodeRestReq_ParseBody codec r = PlanOk s" and i: "RegisterServiceId_OnRequest SC s v = (PlanOk sid, u)"
      and run: "RegisterServiceInst_OnRequest H SC (mr_appInstanceId r) sid s u = (res, w')"
    have u: "docs u = docs w" using RegisterServiceId_docs [OF i c] v by simp
    from register_writes [OF run] show ?thesis
    proof (elim disjE exE conjE)
      fix iid es m inst s1 w1
      assume d: "docs w' = (docs u)((sid, iid) \<mapsto> (es, m))"
        and "GenerateRegisterInstance H s False empty_instance u = ((inst, s1), w1)"
        and "\<forall>k. k \<noteq> ''liveness'' \<longrightarrow> get_prop m k = get_prop (al_put ''appInstanceId'' (mr_appInstanceId r) (mi_Properties inst)) k"
      from generated_stored [OF this(2) assms(2) parsed_state [OF p assms(3)] assms(4) this(3)] show ?thesis
        unfolding d u .
    qed (use u assms(4) in simp)
  next
    fix s res
    assume "RegisterServiceId_OnRequest SC s v = (res, w')"
    from RegisterServiceId_docs [OF this c] v assms(4) show ?thesis by simp
  qed (use v assms(4) in simp_all)
qed

lemma updates_typed:
  assumes "serviceUpdate uuid codec H SC r w = (out, w')" and "reordering (sh_iter H)" and "states_checked codec"
    and "typed (docs w)"
  shows "typed (docs w')"
proof (cases "\<exists>s. DecodeRestReq_ParseBody codec r = PlanOk s \<and> DecodeRestReq_GetParam uuid r = PlanOk ()")
  case True
  then obtain s where p: "DecodeRestReq_ParseBody codec r = PlanOk s" and "DecodeRestReq_GetParam uuid r = PlanOk ()" by blast
  with assms(1) have "\<exists>out. UpdateInstance_OnRequest H SC (mr_appInstanceId r) (sr_serviceId r) s w = (out, w')"
    by (auto simp: serviceUpdate_def then_step_def)
  then obtain out where "UpdateInstance_OnRequest H SC (mr_appInstanceId r) (sr_serviceId r) s w = (out, w')" by blast
  from update_writes [OF this] show ?thesis
  proof (elim disjE exE conjE)
    fix k es m inst0 inst s1 v w1
    assume d: "docs w' = (docs w)(k \<mapsto> (es, m))"
      and "GenerateRegisterInstance H s True inst0 v = ((inst, s1), w1)"
      and "\<forall>k. k \<noteq> ''liveness'' \<longrightarrow> get_prop m k = get_prop (al_put ''appInstanceId'' (mr_appInstanceId r) (mi_Properties inst)) k"
    from generated_stored [OF this(2) assms(2) parsed_state [OF p assms(3)] assms(4) this(3)] show ?thesis
      unfolding d .
  qed (use assms(4) in simp)
next
  case False
  then have "w' = w" using assms(1) by (auto simp: serviceUpdate_def then_step_def split: plan_out.splits)
  then show ?thesis using assms(4) by simp
qed

lemma step_typed:
  assumes "svc_step uuid codec beat H SC w w'" and "reordering (sh_iter H)" and "states_checked codec" and "typed (docs w)"
  shows "typed (docs w')"
  using assms(1)
proof cases
  case registers
  then show ?thesis using registers_typed assms(2-4) by blast
next
  case updates
  then show ?thesis using updates_typed assms(2-4) by blast
next
  case (deletes r code)
  then have "w' = w \<or> (\<exists>out. DeleteService_OnRequest H SC (sr_serviceId r) w = (out, w'))"
    by (auto simp: serviceDelete_def then_step_def split: plan_out.splits)
  then show ?thesis using delete_typed assms(4) by blast
next
  case (reads C r one)
  have "docs (snd (GetOneInstance_OnRequest C SC app req w)) = docs w" for app req
    using getOne_docs [of "fst req" "snd req" w]
    by (auto simp: GetOneInstance_OnRequest_def split: prod.splits sum.splits option.splits)
  then have "docs w' = docs w" using reads by (auto simp: getOneService_def then_step_def split: plan_out.splits) (metis snd_conv)
  then show ?thesis using assms(4) by simp
next
  case (beats r code)
  then have "w' = w \<or> (\<exists>out req. UpdateHeartbeat_OnRequest H SC (mr_appInstanceId r) (sr_serviceId r) req w = (out, w'))"
    by (auto simp: heartbeatService_def then_step_def split: plan_out.splits)
  then show ?thesis using heartbeat_typed assms(4) by blast
next
  case ticks
  then show ?thesis using tick_typed assms(4) by blast
next
  case ends_app
  then show ?thesis using ends_app_typed assms(4) by blast
qed

lemma steps_typed:
  assumes "(svc_step uuid codec beat H SC)\<^sup>*\<^sup>* w w'" and "reordering (sh_iter H)" and "states_checked codec" and "typed (docs w)"
  shows "typed (docs w')"
  using assms by (induction rule: rtranclp_induct) (auto intro: step_typed)

end

lemma supervised_typed: "\<forall>i\<in>set inss. typed_doc (mi_Properties i) \<Longrightarrow> supervised inss \<noteq> None"
proof (induction inss)
  case (Cons i inss)
  have "atoi ''0'' = (0, True)" "atoi ''60'' = (60, True)" by code_simp+
  then have "snd (atoi (get_prop (mi_Properties i) ''livenessInterval''))"
    using Cons.prems by (auto simp: typed_doc_def)
  with Cons show ?case by (auto split: prod.splits bool.splits)
qed simp

section \<open>Properties\<close>

text \<open>(C24) Service documents stay typed.  On a service centre that keeps its contract, where the
  validator admits the states ACTIVE and INACTIVE only, whatever requests, heartbeats, runs of the
  supervising process and terminations happen: every stored document has an interval of 0 or 60, one
  of the three states, and flags that parse; so no document ever stops the supervision of the
  heartbeats.\<close>

theorem services_stay_typed:
  assumes "svc_ports SC H docs" and "reordering (sh_iter H)" and "states_checked codec"
    and "typed (docs w)" and "(svc_step uuid codec beat H SC)\<^sup>*\<^sup>* w w'"
  shows "typed (docs w') \<and> (sc_files SC w' = (Inr ds, v) \<longrightarrow> decode_all ds = Some inss \<longrightarrow> supervised inss \<noteq> None)"
proof -
  have t: "typed (docs w')" by (rule svc_ports.steps_typed [OF assms(1,5,2,3,4)])
  have "\<forall>i\<in>set inss. typed_doc (mi_Properties i)" if "sc_files SC w' = (Inr ds, v)" "decode_all ds = Some inss"
    using svc_ports.files_typed [OF assms(1) that t] by blast
  with t supervised_typed show ?thesis by blast
qed

text \<open>Two services, of which one is overdue: a heartbeat for the other, and a run of the
  supervising process.\<close>

definition typed_world :: svc_world where
  "typed_world = live_world\<lparr>vw_docs :=
     map (\<lambda>(i, sec). ((pad 16 2, pad 16 i), [], live ''ACTIVE'' sec @ [(''ConsumedLocalOnly'', ''true''), (''IsLocal'', ''false'')]))
       [(3, ''1700000030''), (4, ''1700000040'')]\<rparr>"

definition checked_body :: "ServiceInfo \<Rightarrow> ServiceInfo rule_codec" where
  "checked_body s = (body_of s)\<lparr>rc_validate := (\<lambda>s. if si_State s = ActiveState \<or> si_State s = InactiveState then None else Some ''state'')\<rparr>"

abbreviation typed_beat :: "int plan_out \<times> svc_world" where
  "typed_beat \<equiv> heartbeatService (body_of ''ACTIVE'') (clock_host 1700000100000000000) mem_center
     (svc_call ''app-1'' (pad 16 2 @ pad 16 4)\<lparr>mr_body := Inr ''x''\<rparr>) typed_world"

abbreviation typed_run :: svc_world where
  "typed_run \<equiv> heartbeat_tick (clock_host 1700000100000000000) mem_center (snd typed_beat)"

theorem services_stay_typed_witness:
  "length (vw_docs typed_world) = 2 \<and> typed (map_of (vw_docs typed_run))
   \<and> supervised (map (\<lambda>k. mem_inst k (the (map_of (vw_docs typed_run) k))) (remdups (map fst (vw_docs typed_run)))) \<noteq> None"
proof -
  let ?H = "clock_host 1700000100000000000"
  have iter: "reordering (sh_iter ?H)" by (simp add: clock_host_def mem_host_def)
  have check: "states_checked (checked_body sample_service)" by (simp add: states_checked_def checked_body_def)
  have start: "typed (map_of (vw_docs typed_world))"
    by (auto simp: typed_def typed_world_def typed_doc_def live_def ActiveState_def get_prop_def split: if_splits)
  have ports: "svc_ports mem_center ?H (\<lambda>w. map_of (vw_docs w))"
    by (intro svc_ports.intro mem_center.center_axioms blind.intro) (auto simp: clock_host_def mem_host_def mem_send_def split: list.split)
  have "svc_step (\<lambda>_. True) (checked_body sample_service) (body_of ''ACTIVE'') ?H mem_center typed_world (snd typed_beat)"
    by (rule svc_step.beats) (rule prod.collapse [symmetric])
  moreover have "svc_step (\<lambda>_. True) (checked_body sample_service) (body_of ''ACTIVE'') ?H mem_center (snd typed_beat) typed_run"
    by (rule svc_step.ticks) simp
  ultimately have run: "(svc_step (\<lambda>_. True) (checked_body sample_service) (body_of ''ACTIVE'') ?H mem_center)\<^sup>*\<^sup>* typed_world typed_run"
    by simp
  let ?inss = "map (\<lambda>k. mem_inst k (the (map_of (vw_docs typed_run) k))) (remdups (map fst (vw_docs typed_run)))"
  have files: "sc_files mem_center typed_run = (Inr (map Some ?inss), typed_run)" by (simp add: mem_center_def comp_def)
  have "length (vw_docs typed_world) = 2" by (simp add: typed_world_def)
  with services_stay_typed [OF ports iter check start run, of "map Some ?inss" typed_run ?inss] files show ?thesis
    using decode_all_Some [of ?inss] by blast
qed

end
