(* ===== verification/Capability.thy ===== *)
theory Capability
  imports Sub_Properties Termination
begin

text \<open>
  The views of the mm5 interface over services and subscriptions: the capabilities with their
  consumers (\<open>mm5/plans/capability_all_get.go\<close>, \<open>capability_one_get.go\<close>), the
  statistics of the subscriptions (\<open>subscription_info_get.go\<close>) and the list of all
  services (\<open>services_get.go\<close>).  An application is a consumer of a capability when one of
  its availability subscriptions names it, by its id, its name or its category.
\<close>

section \<open>Capabilities\<close>

record PlatformCapability =
  pc_CapabilityId :: string
  pc_CapabilityName :: string
  pc_Status :: string
  pc_Version :: string
  pc_Consumers :: "string list"

definition instance_id :: "MicroServiceInstance \<Rightarrow> string" where
  "instance_id i = mi_ServiceId i @ mi_InstanceId i"

definition instance_name :: "MicroServiceInstance \<Rightarrow> string" where
  "instance_name i = get_prop (mi_Properties i) ''serName''"

definition instance_category :: "MicroServiceInstance \<Rightarrow> CategoryRef" where
  "instance_category i = serCategoryFromProperties (mi_Properties i)"

text \<open>The ids by name and by category; of several instances with one name the last one stays.
  A failing search gives empty maps.\<close>

type_synonym service_mapping = "(string \<times> string) list \<times> (CategoryRef \<times> string) list"

definition getServiceMapping :: "'w service_center \<Rightarrow> 'w \<Rightarrow> service_mapping \<times> 'w" where
  "getServiceMapping SC w =
     (case sc_files SC w of
        (resp, w) \<Rightarrow>
          ((case FindInstanceByKey empty_query resp of
              Found inss \<Rightarrow>
                (fold (\<lambda>i. al_put (instance_name i) (instance_id i)) inss [],
                 fold (\<lambda>i. al_put (instance_category i) (instance_id i)) inss [])
            | _ \<Rightarrow> ([], [])), w))"

text \<open>What one subscription adds: ids are used if there are any, then names, then
  categories.\<close>

fun fill_found :: "('b \<Rightarrow> 'c \<Rightarrow> 'c) \<Rightarrow> ('a \<times> 'b) list \<Rightarrow> 'a list \<Rightarrow> 'c \<Rightarrow> 'c" where
  "fill_found fill mapping [] c = c"
| "fill_found fill mapping (x # xs) c =
     fill_found fill mapping xs (case map_of mapping x of None \<Rightarrow> c | Some serInstanceId \<Rightarrow> fill serInstanceId c)"

definition fillConsumerListForSubscription ::
  "(string \<Rightarrow> 'c \<Rightarrow> 'c) \<Rightarrow> service_mapping \<Rightarrow> FilteringCriteria \<Rightarrow> 'c \<Rightarrow> 'c" where
  "fillConsumerListForSubscription fill mapping f c =
     (if length (fc_SerInstanceIds f) > 0 then fold fill (fc_SerInstanceIds f) c
      else if length (fc_SerNames f) > 0 then fill_found fill (fst mapping) (fc_SerNames f) c
      else if length (fc_SerCategories f) > 0 then fill_found fill (snd mapping) (fc_SerCategories f) c
      else c)"

text \<open>The consumers of all capabilities, and those of one.\<close>

definition fillConsumerData_all :: "string \<Rightarrow> string \<Rightarrow> (string \<times> string list) list \<Rightarrow> (string \<times> string list) list" where
  "fillConsumerData_all appInstanceId serInstanceId consumerList =
     (let consumerList = (if map_of consumerList serInstanceId = None then al_put serInstanceId [] consumerList else consumerList)
      in al_put serInstanceId (the (map_of consumerList serInstanceId) @ [appInstanceId]) consumerList)"

definition fillConsumerData_one :: "string \<Rightarrow> string \<Rightarrow> string \<Rightarrow> string list \<Rightarrow> string list" where
  "fillConsumerData_one capabilityId appInstanceId serInstanceId consumerList =
     (if serInstanceId = capabilityId then consumerList @ [appInstanceId] else consumerList)"

text \<open>The loop over the records: the application is the last but one element of the key.\<close>

fun fill_records ::
  "(string \<Rightarrow> string \<Rightarrow> 'c \<Rightarrow> 'c) \<Rightarrow> service_mapping \<Rightarrow> (string \<times> doc) list \<Rightarrow> 'c \<Rightarrow> int + 'c" where
  "fill_records fill mapping [] c = Inr c"
| "fill_records fill mapping ((keyPath, subscriptionData) # recs) c =
     (let paths = split_on (CHR ''/'') keyPath in
      if length paths < 2 then fill_records fill mapping recs c
      else (case unmarshal_avail subscriptionData of
              None \<Rightarrow> Inl OperateDataWithEtcdErr
            | Some s \<Rightarrow>
                fill_records fill mapping recs
                  (fillConsumerListForSubscription (fill (paths ! (length paths - 2))) mapping (av_FilteringCriteria s) c)))"

definition avail_path :: string where
  "avail_path = butlast (GetSubscribeKeyPath SerAvailabilityNotificationSubscription)"

definition build_consumers ::
  "(string \<Rightarrow> string \<Rightarrow> 'c \<Rightarrow> 'c) \<Rightarrow> 'w service_center \<Rightarrow> 'w registry
   \<Rightarrow> ((string \<times> doc) list \<Rightarrow> (string \<times> doc) list) \<Rightarrow> 'c \<Rightarrow> 'w \<Rightarrow> (int + 'c) \<times> 'w" where
  "build_consumers fill SC R iter c w =
     (case getServiceMapping SC w of
        (mapping, w) \<Rightarrow>
          (case GetRecordsWithCompleteKeyPath R avail_path w of
             (Inl errCode, w) \<Rightarrow> (Inl errCode, w)
           | (Inr appServiceList, w) \<Rightarrow> (fill_records fill mapping (iter appServiceList) c, w)))"

definition CapabilitiesGet_buildConsumerList where
  "CapabilitiesGet_buildConsumerList SC R iter w = build_consumers fillConsumerData_all SC R iter [] w"

definition CapabilityGet_buildConsumerList where
  "CapabilityGet_buildConsumerList capabilityId SC R iter w = build_consumers (fillConsumerData_one capabilityId) SC R iter [] w"

definition capability_of :: "MicroServiceInstance \<Rightarrow> string list \<Rightarrow> PlatformCapability" where
  "capability_of i consumers =
     \<lparr>pc_CapabilityId = instance_id i, pc_CapabilityName = instance_name i,
      pc_Status = get_prop (mi_Properties i) ''mecState'', pc_Version = get_prop (mi_Properties i) ''version'',
      pc_Consumers = consumers\<rparr>"

text \<open>The response code is set only when there are instances.\<close>

definition CapabilitiesGet_OnRequest ::
  "'w service_center \<Rightarrow> 'w registry \<Rightarrow> ((string \<times> doc) list \<Rightarrow> (string \<times> doc) list) \<Rightarrow> svc_query \<Rightarrow> 'w
   \<Rightarrow> (int option \<times> PlatformCapability list) plan_out \<times> 'w" where
  "CapabilitiesGet_OnRequest SC R iter q w =
     (case sc_files SC w of
        (resp, w) \<Rightarrow>
          (case FindInstanceByKey q resp of
             FindNull \<Rightarrow> (PlanOk (None, []), w)
           | FindErr m \<Rightarrow> (PlanErr SerErrServiceNotFound ''failed to find service instance'', w)
           | Found inss \<Rightarrow>
               (case CapabilitiesGet_buildConsumerList SC R iter w of
                  (Inl errCode, w) \<Rightarrow> (PlanErr errCode ''get consumer list error'', w)
                | (Inr consumerList, w) \<Rightarrow>
                    (PlanOk (Some 0, map (\<lambda>i. capability_of i (case map_of consumerList (instance_id i) of None \<Rightarrow> [] | Some l \<Rightarrow> l)) inss), w))))"

definition CapabilityGet_OnRequest ::
  "'w service_center \<Rightarrow> 'w registry \<Rightarrow> ((string \<times> doc) list \<Rightarrow> (string \<times> doc) list) \<Rightarrow> string \<Rightarrow> 'w
   \<Rightarrow> (int \<times> PlatformCapability) plan_out \<times> 'w" where
  "CapabilityGet_OnRequest SC R iter capabilityId w =
     (if \<not> ValidateServiceID capabilityId then (PlanErr SerErrFailBase ''Invalid service ID'', w)
      else (case sc_getOne SC (fst (split_id capabilityId)) (snd (split_id capabilityId)) w of
              (Inl e, w) \<Rightarrow> (PlanErr SerInstanceNotFound ''get one instance error'', w)
            | (Inr (code, None), w) \<Rightarrow> (PlanErr SerInstanceNotFound ''get one instance error'', w)
            | (Inr (code, Some i), w) \<Rightarrow>
                if instance_id i \<noteq> capabilityId then (PlanErr SerInstanceNotFound ''capability id miss-match'', w)
                else (case CapabilityGet_buildConsumerList capabilityId SC R iter w of
                        (Inl errCode, w) \<Rightarrow> (PlanErr errCode ''get consumer list error'', w)
                      | (Inr consumerList, w) \<Rightarrow> (PlanOk (code, capability_of i consumerList), w))))"

section \<open>Statistics of the subscriptions\<close>

record subscription_stats =
  ss_apps :: "string list"
  ss_services :: "string list"
  ss_relations :: "(string \<times> string list) list"

text \<open>Sets and the relation, as association lists; a key without a separator is an index out of
  range.\<close>

definition set_add :: "'a \<Rightarrow> 'a list \<Rightarrow> 'a list" where
  "set_add x xs = (if x \<in> set xs then xs else xs @ [x])"

fun collect_subscriptions ::
  "(string \<times> SerAvailabilitySubscription) list \<Rightarrow> subscription_stats \<Rightarrow> subscription_stats go_result" where
  "collect_subscriptions [] st = Inr st"
| "collect_subscriptions ((key, s) # infos) st =
     (let str = split_on (CHR ''/'') key in
      if length str < 2 then Inl (Panic ''index out of range'')
      else (let appInstanceId = str ! (length str - 2); f = av_FilteringCriteria s in
        collect_subscriptions infos
          \<lparr>ss_apps = set_add appInstanceId (ss_apps st),
           ss_services = fold set_add (fc_SerNames f) (ss_services st),
           ss_relations = al_put appInstanceId
             (case map_of (ss_relations st) appInstanceId of
                None \<Rightarrow> fc_SerInstanceIds f | Some values \<Rightarrow> values @ fc_SerInstanceIds f) (ss_relations st)\<rparr>))"

record subscription_info =
  sn_appSubscribeNum :: nat
  sn_serviceSubscribedNum :: nat
  sn_subscribeRelations :: "(string \<times> string list) list"

definition SubscriptionInfoReq_OnRequest where
  "SubscriptionInfoReq_OnRequest R iter riter w =
     (case GetAllSubscriberInfoFromDB R w of
        (infos, w) \<Rightarrow>
          ((case collect_subscriptions (iter infos) \<lparr>ss_apps = [], ss_services = [], ss_relations = []\<rparr> of
              Inl e \<Rightarrow> PlanPanic e
            | Inr st \<Rightarrow> PlanOk \<lparr>sn_appSubscribeNum = length (ss_apps st), sn_serviceSubscribedNum = length (ss_services st),
                sn_subscribeRelations = riter (ss_relations st)\<rparr>), w))"

section \<open>All services\<close>

definition getAllServices :: "svc_codec \<Rightarrow> 'w service_center \<Rightarrow> 'w \<Rightarrow> ServiceInfo list \<times> 'w" where
  "getAllServices C SC w =
     (case sc_files SC w of
        (resp, w) \<Rightarrow>
          ((case FindInstanceByKey empty_query resp of
              Found inss \<Rightarrow> snd (Mp1CvtSrvDiscover C (0, inss)) | _ \<Rightarrow> []), w))"

definition AllServicesReq_OnRequest :: "svc_codec \<Rightarrow> 'w service_center \<Rightarrow> 'w \<Rightarrow> ServiceInfo list plan_out \<times> 'w" where
  "AllServicesReq_OnRequest C SC w = (case getAllServices C SC w of (services, w) \<Rightarrow> (PlanOk services, w))"

section \<open>Handlers\<close>

record capability_request =
  cq_capabilityId :: string
  cq_query :: svc_query

text \<open>Decoding never fails.\<close>

definition DecodeCapabilityQueryReq_getParam :: "capability_request \<Rightarrow> (string \<times> svc_query) plan_out" where
  "DecodeCapabilityQueryReq_getParam r = PlanOk (cq_capabilityId r, cq_query r)"

definition getPlatformCapabilities where
  "getPlatformCapabilities SC R iter r w =
     then_step (DecodeCapabilityQueryReq_getParam r) w (\<lambda>(capabilityId, q). CapabilitiesGet_OnRequest SC R iter q)"

definition getPlatformCapability where
  "getPlatformCapability SC R iter r w =
     then_step (DecodeCapabilityQueryReq_getParam r) w (\<lambda>(capabilityId, q). CapabilityGet_OnRequest SC R iter capabilityId)"

section \<open>The consumers as a relation\<close>

text \<open>The ids a filter stands for, and the pairs of consumer and id that the records
  give.\<close>

definition consumed :: "service_mapping \<Rightarrow> FilteringCriteria \<Rightarrow> string list" where
  "consumed mapping f =
     (if fc_SerInstanceIds f \<noteq> [] then fc_SerInstanceIds f
      else if fc_SerNames f \<noteq> [] then List.map_filter (map_of (fst mapping)) (fc_SerNames f)
      else List.map_filter (map_of (snd mapping)) (fc_SerCategories f))"

lemma in_map_filter: "y \<in> set (List.map_filter f xs) \<longleftrightarrow> (\<exists>x\<in>set xs. f x = Some y)"
  by (force simp: List.map_filter_def)

lemma fill_found_fold: "fill_found fill mapping xs c = fold fill (List.map_filter (map_of mapping) xs) c"
  by (induction xs arbitrary: c) (auto simp: List.map_filter_def split: option.split)

lemma fill_consumed: "fillConsumerListForSubscription fill mapping f c = fold fill (consumed mapping f) c"
  by (auto simp: fillConsumerListForSubscription_def consumed_def fill_found_fold List.map_filter_def)

definition record_app :: "string \<Rightarrow> string" where
  "record_app key = (let paths = split_on (CHR ''/'') key in paths ! (length paths - 2))"

definition record_pairs :: "service_mapping \<Rightarrow> string \<times> doc \<Rightarrow> (string \<times> string) list" where
  "record_pairs mapping = (\<lambda>(k, d).
     if length (split_on (CHR ''/'') k) < 2 then []
     else case unmarshal_avail d of None \<Rightarrow> []
       | Some s \<Rightarrow> map (Pair (record_app k)) (consumed mapping (av_FilteringCriteria s)))"

definition readable :: "string \<times> doc \<Rightarrow> bool" where
  "readable = (\<lambda>(k, d). length (split_on (CHR ''/'') k) < 2 \<or> unmarshal_avail d \<noteq> None)"

lemma fold_map_Pair: "fold (\<lambda>(a, i). fill a i) (map (Pair x) is) c = fold (fill x) is c"
  by (induction "is" arbitrary: c) auto

lemma fill_records_pairs:
  "fill_records fill mapping recs c =
     (if \<forall>r\<in>set recs. readable r then Inr (fold (\<lambda>(a, i). fill a i) (concat (map (record_pairs mapping) recs)) c)
      else Inl OperateDataWithEtcdErr)"
proof (induction recs arbitrary: c)
  case (Cons r recs)
  obtain k d where r: "r = (k, d)" by fastforce
  show ?case
  proof (cases "length (split_on (CHR ''/'') k) < 2")
    case True
    with Cons.IH [of c] show ?thesis by (simp add: r readable_def record_pairs_def Let_def)
  next
    case long: False
    show ?thesis
    proof (cases "unmarshal_avail d")
      case None
      with long show ?thesis by (simp add: r readable_def Let_def)
    next
      case (Some s)
      with long Cons.IH show ?thesis
        by (simp add: r readable_def record_pairs_def record_app_def Let_def fill_consumed fold_map_Pair)
    qed
  qed
qed simp

definition consumers_in :: "(string \<times> string) list \<Rightarrow> string \<Rightarrow> string list" where
  "consumers_in ps ident = map fst (filter (\<lambda>p. snd p = ident) ps)"

lemma fill_all_lookup:
  "(case map_of (fold (\<lambda>(a, i). fillConsumerData_all a i) ps m) ident of None \<Rightarrow> [] | Some l \<Rightarrow> l)
   = (case map_of m ident of None \<Rightarrow> [] | Some l \<Rightarrow> l) @ consumers_in ps ident"
  by (induction ps arbitrary: m) (auto simp: fillConsumerData_all_def consumers_in_def Let_def split: option.split if_splits)

lemma fill_one_lookup: "fold (\<lambda>(a, i). fillConsumerData_one ident a i) ps l = l @ consumers_in ps ident"
  by (induction ps arbitrary: l) (auto simp: fillConsumerData_one_def consumers_in_def)

lemma consumers_mset:
  assumes "mset recs = mset recs'"
  shows "mset (consumers_in (concat (map (record_pairs mapping) recs)) ident)
       = mset (consumers_in (concat (map (record_pairs mapping) recs')) ident)"
proof -
  have "mset (concat (map (record_pairs mapping) xs)) = \<Sum>\<^sub># (image_mset (\<lambda>r. mset (record_pairs mapping r)) (mset xs))" for xs
    by (induction xs) auto
  then have "mset (concat (map (record_pairs mapping) recs)) = mset (concat (map (record_pairs mapping) recs'))"
    using assms by simp
  then show ?thesis by (simp add: consumers_in_def mset_filter)
qed

lemma mapped_instance:
  "map_of (fold (\<lambda>i. al_put (f i) (instance_id i)) inss m) x = Some ident \<Longrightarrow>
   map_of m x = Some ident \<or> (\<exists>i\<in>set inss. f i = x \<and> instance_id i = ident)"
  by (induction inss arbitrary: m) (auto split: if_splits, (fastforce split: if_splits)+)

section \<open>The platform of the views\<close>

definition mapping_of :: "'w service_center \<Rightarrow> 'w \<Rightarrow> service_mapping" where
  "mapping_of SC w = fst (getServiceMapping SC w)"

lemma fold_al_put_pairs:
  "distinct (map fst kvs) \<Longrightarrow> fst ` set kvs \<inter> fst ` set al = {} \<Longrightarrow> fold (\<lambda>(k, v). al_put k v) kvs al = al @ kvs"
proof (induction kvs arbitrary: al)
  case (Cons kv kvs)
  then have "fst ` set kvs \<inter> fst ` set (al @ [kv]) = {}" by auto
  with Cons show ?case by (cases kv) (simp add: al_put_new)
qed simp

text \<open>A service centre and a registry that keep their contracts, answer, and leave each other
  alone, and whose reads do not change what the service centre lists.\<close>

locale views = center_up SC docs + etcd R kv
  for SC :: "'w service_center" and docs :: "'w \<Rightarrow> string \<times> string \<Rightarrow> (string list \<times> props) option"
    and R :: "'w registry" and kv :: "'w \<Rightarrow> string \<Rightarrow> doc option" +
  assumes files_listing: "fst (sc_files SC (snd (sc_files SC w))) = fst (sc_files SC w)"
    and getOne_listing: "fst (sc_files SC (snd (sc_getOne SC s i w))) = fst (sc_files SC w)"
    and get_listing: "fst (sc_files SC (snd (reg_get R p w))) = fst (sc_files SC w)"
    and files_kv: "kv (snd (sc_files SC w)) = kv w"
    and getOne_kv: "kv (snd (sc_getOne SC s i w)) = kv w"
    and get_docs: "docs (snd (reg_get R p w)) = docs w"
    and read_sure: "is_ok (fst (reg_get R p w))"
begin

lemma mapping_reads:
  assumes "getServiceMapping SC w = (mapping, w1)"
  shows "mapping = mapping_of SC w" and "docs w1 = docs w" and "kv w1 = kv w" and "fst (sc_files SC w1) = fst (sc_files SC w)"
  using assms files_docs [of w] files_kv [of w] files_listing [of w] by (auto simp: mapping_of_def getServiceMapping_def split: prod.splits)

lemma mapping_steady: "fst (sc_files SC v) = fst (sc_files SC w) \<Longrightarrow> mapping_of SC v = mapping_of SC w"
  by (auto simp: mapping_of_def getServiceMapping_def split: prod.splits)

lemma records_read:
  assumes "GetRecordsWithCompleteKeyPath R p w = (r, w1)"
  obtains recs where "r = Inr recs" "set recs = {(k, v). has_prefix k p \<and> kv w k = Some v}" "distinct (map fst recs)"
    "kv w1 = kv w" "docs w1 = docs w" "fst (sc_files SC w1) = fst (sc_files SC w)"
proof -
  obtain kvs where g: "reg_get R p w = (Inr kvs, w1)" and r: "r = Inr (fold (\<lambda>(k, v). al_put k v) kvs [])"
    using assms read_sure [of p w] by (auto simp: GetRecordsWithCompleteKeyPath_def is_ok_iff split: prod.splits sum.splits)
  from get_ok [OF g] have d: "distinct (map fst kvs)" "set kvs = {(k, v). has_prefix k p \<and> kv w k = Some v}" "kv w1 = kv w" by auto
  have "fold (\<lambda>(k, v). al_put k v) kvs [] = kvs"
    using fold_al_put_pairs [OF d(1), of "[]"] by simp
  with r d get_docs [of p w] get_listing [of p w] g show thesis by (intro that) auto
qed

lemma build_reads:
  assumes "build_consumers fill SC R iter c w = (r, w1)" and "reordering iter"
  obtains recs where "set recs = {(k, v). has_prefix k avail_path \<and> kv w k = Some v}" "distinct (map fst recs)"
    "r = (if \<forall>x\<in>set recs. readable x
          then Inr (fold (\<lambda>(a, i). fill a i) (concat (map (record_pairs (mapping_of SC w)) recs)) c)
          else Inl OperateDataWithEtcdErr)"
    "docs w1 = docs w" "kv w1 = kv w" "fst (sc_files SC w1) = fst (sc_files SC w)"
proof -
  obtain mapping v where m: "getServiceMapping SC w = (mapping, v)" by fastforce
  note mr = mapping_reads [OF m]
  obtain rr u where rd: "GetRecordsWithCompleteKeyPath R avail_path v = (rr, u)" by fastforce
  from records_read [OF rd] obtain recs where recs: "rr = Inr recs" "set recs = {(k, x). has_prefix k avail_path \<and> kv v k = Some x}"
    "distinct (map fst recs)" "kv u = kv v" "docs u = docs v" "fst (sc_files SC u) = fst (sc_files SC v)" by blast
  show thesis
  proof (rule that [of "iter recs"])
    show "distinct (map fst (iter recs))"
      using recs(3) reordering_mset [OF assms(2), of recs] by (metis mset_map mset_eq_imp_distinct_iff)
  qed (use assms(1) mr recs reordering_set [OF assms(2), of recs] in \<open>auto simp: build_consumers_def m rd fill_records_pairs\<close>)
qed

text \<open>Every pair of consumer and id comes from a stored subscription and, unless it is given by
  id, from an instance of the service centre.\<close>

lemma found_stored:
  assumes "sc_files SC w = (resp, v)" and "FindInstanceByKey q resp = Found inss" and "i \<in> set inss"
  shows "docs w (mi_ServiceId i, mi_InstanceId i) = Some (mi_Endpoints i, mi_Properties i)"
proof -
  obtain ds all where ds: "resp = Inr ds" "decode_all ds = Some all" and sub: "set inss \<subseteq> set all"
    using assms(2) by (auto simp: FindInstanceByKey_def Let_def split: sum.splits option.splits if_splits)
  have "inst_doc i \<in> set (map inst_doc all)" using assms(3) sub by auto
  then have "inst_doc i \<in> {(k, d). docs w k = Some d}" using files_ok [OF assms(1) [unfolded ds(1)] ds(2)] by simp
  then show ?thesis by (simp add: inst_doc_def)
qed

lemma mapped_stored:
  assumes "map_of (case FindInstanceByKey empty_query (fst (sc_files SC w)) of
      Found inss \<Rightarrow> fold (\<lambda>i. al_put (f i) (instance_id i)) inss [] | _ \<Rightarrow> []) x = Some ident"
  shows "\<exists>i. docs w (mi_ServiceId i, mi_InstanceId i) = Some (mi_Endpoints i, mi_Properties i)
    \<and> instance_id i = ident \<and> f i = x"
proof -
  obtain resp v where s: "sc_files SC w = (resp, v)" by fastforce
  obtain inss where i: "FindInstanceByKey empty_query resp = Found inss"
    using assms by (auto simp: s split: find_result.splits)
  have "map_of (fold (\<lambda>i. al_put (f i) (instance_id i)) inss []) x = Some ident" using assms by (simp add: s i)
  from mapped_instance [OF this] obtain i where m: "i \<in> set inss" "f i = x" "instance_id i = ident" by auto
  with found_stored [OF s i m(1)] show ?thesis by blast
qed

lemma mapping_pair:
  "mapping_of SC w =
     (case FindInstanceByKey empty_query (fst (sc_files SC w)) of
        Found inss \<Rightarrow> fold (\<lambda>i. al_put (instance_name i) (instance_id i)) inss [] | _ \<Rightarrow> [],
      case FindInstanceByKey empty_query (fst (sc_files SC w)) of
        Found inss \<Rightarrow> fold (\<lambda>i. al_put (instance_category i) (instance_id i)) inss [] | _ \<Rightarrow> [])"
  by (auto simp: mapping_of_def getServiceMapping_def split: prod.splits find_result.splits)

lemma consumed_stored:
  assumes "ident \<in> set (consumed (mapping_of SC w) f)"
    and "docs w (mi_ServiceId j, mi_InstanceId j) = Some (mi_Endpoints j, mi_Properties j)" and "instance_id j = ident"
  shows "\<exists>i. docs w (mi_ServiceId i, mi_InstanceId i) = Some (mi_Endpoints i, mi_Properties i) \<and> instance_id i = ident
    \<and> isFilterContain f ident (instance_name i) (instance_category i)"
proof (cases "fc_SerInstanceIds f = []")
  case False
  then have "isFilterContain f ident (instance_name j) (instance_category j)"
    using assms(1) by (simp add: consumed_def isFilterContain_def StringContains_iff)
  with assms show ?thesis by blast
next
  case ids: True
  show ?thesis
  proof (cases "fc_SerNames f = []")
    case False
    then obtain n where n: "n \<in> set (fc_SerNames f)" "map_of (fst (mapping_of SC w)) n = Some ident"
      using assms(1) ids by (auto simp: consumed_def in_map_filter)
    from mapped_stored [OF n(2) [unfolded mapping_pair fst_conv]] n(1) show ?thesis
      by (auto simp: isFilterContain_def StringContains_iff)
  next
    case True
    then obtain c where c: "c \<in> set (fc_SerCategories f)" "map_of (snd (mapping_of SC w)) c = Some ident"
      using assms(1) ids by (auto simp: consumed_def in_map_filter)
    from mapped_stored [OF c(2) [unfolded mapping_pair snd_conv]] obtain i where
      i: "docs w (mi_ServiceId i, mi_InstanceId i) = Some (mi_Endpoints i, mi_Properties i)"
      "instance_id i = ident" "instance_category i = c" by blast
    have "isServiceCategoryMatched (fc_SerCategories f) c" using c(1) by (auto simp: isServiceCategoryMatched_def list_ex_iff)
    with i c(1) show ?thesis by (auto simp: isFilterContain_def)
  qed
qed

lemma all_reads:
  assumes "CapabilitiesGet_OnRequest SC R iter q w = (PlanOk (Some code, caps), w')" and "reordering iter"
  obtains inss resp v recs where "sc_files SC w = (resp, v)" "FindInstanceByKey q resp = Found inss"
    "set recs = {(k, v). has_prefix k avail_path \<and> kv w k = Some v}" "distinct (map fst recs)" "\<forall>r\<in>set recs. readable r"
    "caps = map (\<lambda>i. capability_of i (consumers_in (concat (map (record_pairs (mapping_of SC w)) recs)) (instance_id i))) inss"
    "docs w' = docs w" "kv w' = kv w" "fst (sc_files SC w') = fst (sc_files SC w)"
proof -
  obtain resp v where f: "sc_files SC w = (resp, v)" by fastforce
  have v: "docs v = docs w" "kv v = kv w" "fst (sc_files SC v) = fst (sc_files SC w)"
    using files_docs [of w] files_kv [of w] files_listing [of w] f by simp_all
  obtain inss where i: "FindInstanceByKey q resp = Found inss"
    using assms(1) by (auto simp: CapabilitiesGet_OnRequest_def f split: find_result.splits)
  obtain r u where b: "build_consumers fillConsumerData_all SC R iter [] v = (r, u)" by fastforce
  from build_reads [OF b assms(2)] obtain recs where recs: "set recs = {(k, x). has_prefix k avail_path \<and> kv v k = Some x}"
    "distinct (map fst recs)" "docs u = docs v" "kv u = kv v" "fst (sc_files SC u) = fst (sc_files SC v)"
    "r = (if \<forall>x\<in>set recs. readable x
          then Inr (fold (\<lambda>(a, i). fillConsumerData_all a i) (concat (map (record_pairs (mapping_of SC v)) recs)) [])
          else Inl OperateDataWithEtcdErr)" by blast
  note m = mapping_steady [OF v(3)]
  show thesis
    by (rule that [OF f i]; (use recs v assms(1) in \<open>auto simp: CapabilitiesGet_OnRequest_def CapabilitiesGet_buildConsumerList_def
        f i b m fill_all_lookup split: if_splits\<close>)?)
qed

text \<open>The query of one capability, for a stored instance and readable records.\<close>

lemma one_reads:
  assumes "docs w (s, i) = Some (es, m)" and "center_id s" "center_id i" and "reordering iter"
    and "\<forall>k d. has_prefix k avail_path \<longrightarrow> kv w k = Some d \<longrightarrow> readable (k, d)"
  obtains inst recs w' where "inst_doc inst = ((s, i), es, m)"
    "CapabilityGet_OnRequest SC R iter (s @ i) w
      = (PlanOk (0, capability_of inst (consumers_in (concat (map (record_pairs (mapping_of SC w)) recs)) (s @ i))), w')"
    "set recs = {(k, v). has_prefix k avail_path \<and> kv w k = Some v}" "distinct (map fst recs)"
proof -
  obtain inst v where g: "sc_getOne SC s i w = (Inr (0, Some inst), v)" using getOne_up [OF assms(1)] by blast
  have v: "docs v = docs w" "kv v = kv w" "fst (sc_files SC v) = fst (sc_files SC w)"
    using getOne_docs [of s i w] getOne_kv [of s i w] getOne_listing [of s i w] g by simp_all
  have inst: "inst_doc inst = ((s, i), es, m)" using getOne_ok [OF g] assms(1) by simp
  obtain r u where b: "build_consumers (fillConsumerData_one (s @ i)) SC R iter [] v = (r, u)" by fastforce
  from build_reads [OF b assms(4)] obtain recs where recs: "set recs = {(k, x). has_prefix k avail_path \<and> kv v k = Some x}"
    "distinct (map fst recs)"
    "r = (if \<forall>x\<in>set recs. readable x
          then Inr (fold (\<lambda>(a, j). fillConsumerData_one (s @ i) a j) (concat (map (record_pairs (mapping_of SC v)) recs)) [])
          else Inl OperateDataWithEtcdErr)" by blast
  have ok: "r = Inr (consumers_in (concat (map (record_pairs (mapping_of SC w)) recs)) (s @ i))"
    using recs assms(5) v by (auto simp: fill_one_lookup mapping_steady [OF v(3)])
  have ident: "instance_id inst = s @ i" using inst by (simp add: inst_doc_def instance_id_def)
  show thesis
    by (rule that [of inst recs u])
      (use inst recs(1,2) v g b [unfolded ok] ident assms(2,3) in \<open>simp_all add: CapabilityGet_OnRequest_def CapabilityGet_buildConsumerList_def
        ValidateServiceID_center split_id_center\<close>)
qed

end

section \<open>The statistics\<close>

lemma set_set_add [simp]: "set (set_add x xs) = insert x (set xs)"
  by (auto simp: set_add_def)

lemma distinct_set_add [simp]: "distinct xs \<Longrightarrow> distinct (set_add x xs)"
  by (simp add: set_add_def)

lemma fold_set_add: "set (fold set_add ys xs) = set xs \<union> set ys" "distinct xs \<Longrightarrow> distinct (fold set_add ys xs)"
  by (induction ys arbitrary: xs) auto

lemma length_split_on: "length (split_on c s) = Suc (count_list s c)"
  by (induction s) (auto split: list.split)

definition deep_key :: "string \<Rightarrow> bool" where
  "deep_key k \<longleftrightarrow> CHR ''/'' \<in> set k"

lemma deep_key_split: "deep_key k \<Longrightarrow> \<not> length (split_on (CHR ''/'') k) < 2"
  using count_list_0_iff [of k "CHR ''/''"] by (auto simp: deep_key_def length_split_on)

lemma deep_prefix: "has_prefix k AvailAppSubKeyPath \<Longrightarrow> deep_key k"
  using set_take_subset [of "length AvailAppSubKeyPath" k]
  by (auto simp: has_prefix_def deep_key_def AvailAppSubKeyPath_def DBRootPath_def)

text \<open>What is collected from the subscriptions of one application.\<close>

definition ids_of :: "(string \<times> SerAvailabilitySubscription) list \<Rightarrow> string \<Rightarrow> string set" where
  "ids_of infos app = (\<Union>(k, s)\<in>{x \<in> set infos. record_app (fst x) = app}. set (fc_SerInstanceIds (av_FilteringCriteria s)))"

definition related :: "subscription_stats \<Rightarrow> string \<Rightarrow> string set" where
  "related st app = (case map_of (ss_relations st) app of None \<Rightarrow> {} | Some ids \<Rightarrow> set ids)"

lemma collect_ok:
  assumes "\<forall>x\<in>set infos. deep_key (fst x)" and "distinct (ss_apps st)" and "distinct (ss_services st)"
    and "distinct (map fst (ss_relations st))"
  shows "\<exists>st'. collect_subscriptions infos st = Inr st'
    \<and> distinct (ss_apps st') \<and> set (ss_apps st') = set (ss_apps st) \<union> (record_app \<circ> fst) ` set infos
    \<and> distinct (ss_services st')
    \<and> set (ss_services st') = set (ss_services st) \<union> (\<Union>(k, s)\<in>set infos. set (fc_SerNames (av_FilteringCriteria s)))
    \<and> distinct (map fst (ss_relations st'))
    \<and> fst ` set (ss_relations st') = fst ` set (ss_relations st) \<union> (record_app \<circ> fst) ` set infos
    \<and> (\<forall>app. related st' app = related st app \<union> ids_of infos app)"
  using assms
proof (induction infos arbitrary: st)
  case Nil
  then show ?case by (simp add: ids_of_def)
next
  case (Cons x infos)
  obtain k s where x: "x = (k, s)" by fastforce
  let ?app = "record_app k" and ?f = "av_FilteringCriteria s"
  define st1 where "st1 = \<lparr>ss_apps = set_add ?app (ss_apps st), ss_services = fold set_add (fc_SerNames ?f) (ss_services st),
    ss_relations = al_put ?app (case map_of (ss_relations st) ?app of
       None \<Rightarrow> fc_SerInstanceIds ?f | Some values \<Rightarrow> values @ fc_SerInstanceIds ?f) (ss_relations st)\<rparr>"
  have k: "\<not> length (split_on (CHR ''/'') k) < 2" using Cons.prems(1) x by (intro deep_key_split) simp
  then have run: "collect_subscriptions (x # infos) st = collect_subscriptions infos st1"
    by (simp add: x st1_def record_app_def Let_def)
  have "related st1 app = related st app \<union> (if app = ?app then set (fc_SerInstanceIds ?f) else {})" for app
    by (auto simp: related_def st1_def split: option.splits)
  then have "related st1 app \<union> ids_of infos app = related st app \<union> ids_of (x # infos) app" for app
    by (auto simp: ids_of_def x)
  moreover have "distinct (ss_apps st1)" "distinct (ss_services st1)" "distinct (map fst (ss_relations st1))"
    using Cons.prems by (simp_all add: st1_def fold_set_add)
  ultimately show ?case
    using Cons.IH [of st1] Cons.prems(1) unfolding run
    by (auto simp: st1_def fold_set_add fst_al_put x)
qed

section \<open>An in-memory platform\<close>

text \<open>A service centre on the first part of a world and a registry on the second.\<close>

definition at_fst :: "('a \<Rightarrow> 'r \<times> 'a) \<Rightarrow> 'a \<times> 'b \<Rightarrow> 'r \<times> 'a \<times> 'b" where
  "at_fst f w = (fst (f (fst w)), snd (f (fst w)), snd w)"

definition at_snd :: "('b \<Rightarrow> 'r \<times> 'b) \<Rightarrow> 'a \<times> 'b \<Rightarrow> 'r \<times> 'a \<times> 'b" where
  "at_snd f w = (fst (f (snd w)), fst w, snd (f (snd w)))"

definition left_center :: "'a service_center \<Rightarrow> ('a \<times> 'b) service_center" where
  "left_center SC = \<lparr>sc_create = (\<lambda>ms. at_fst (sc_create SC ms)), sc_register = (\<lambda>i. at_fst (sc_register SC i)),
     sc_updateProps = (\<lambda>s i m. at_fst (sc_updateProps SC s i m)), sc_unregister = (\<lambda>s i. at_fst (sc_unregister SC s i)),
     sc_heartbeat = (\<lambda>s i. at_fst (sc_heartbeat SC s i)), sc_getInstance = (\<lambda>s i. at_fst (sc_getInstance SC s i)),
     sc_updateInstance = (\<lambda>i. at_fst (sc_updateInstance SC i)), sc_getOne = (\<lambda>s i. at_fst (sc_getOne SC s i)),
     sc_find = (\<lambda>a n v. at_fst (sc_find SC a n v)), sc_files = at_fst (sc_files SC)\<rparr>"

definition right_registry :: "'b registry \<Rightarrow> ('a \<times> 'b) registry" where
  "right_registry R = \<lparr>reg_get = (\<lambda>p. at_snd (reg_get R p)), reg_put = (\<lambda>p v. at_snd (reg_put R p v)),
     reg_del = (\<lambda>p. at_snd (reg_del R p))\<rparr>"

lemma at_fst_iff: "at_fst f w = (r, w') \<longleftrightarrow> f (fst w) = (r, fst w') \<and> snd w' = snd w"
  by (auto simp: at_fst_def prod_eq_iff)

lemma at_fst_sel [simp]: "fst (at_fst f w) = fst (f (fst w))" "fst (snd (at_fst f w)) = snd (f (fst w))" "snd (snd (at_fst f w)) = snd w"
  by (simp_all add: at_fst_def)

lemma at_snd_iff: "at_snd f w = (r, w') \<longleftrightarrow> f (snd w) = (r, snd w') \<and> fst w' = fst w"
  by (auto simp: at_snd_def prod_eq_iff)

lemma at_snd_sel [simp]: "fst (at_snd f w) = fst (f (snd w))" "fst (snd (at_snd f w)) = fst w" "snd (snd (at_snd f w)) = snd (f (snd w))"
  by (simp_all add: at_snd_def)

lemma left_center_ops:
  "sc_create (left_center SC) ms = at_fst (sc_create SC ms)" "sc_register (left_center SC) inst = at_fst (sc_register SC inst)"
  "sc_updateProps (left_center SC) s i m = at_fst (sc_updateProps SC s i m)"
  "sc_unregister (left_center SC) s i = at_fst (sc_unregister SC s i)" "sc_heartbeat (left_center SC) s i = at_fst (sc_heartbeat SC s i)"
  "sc_getInstance (left_center SC) s i = at_fst (sc_getInstance SC s i)"
  "sc_updateInstance (left_center SC) inst = at_fst (sc_updateInstance SC inst)" "sc_getOne (left_center SC) s i = at_fst (sc_getOne SC s i)"
  "sc_find (left_center SC) a n v = at_fst (sc_find SC a n v)" "sc_files (left_center SC) = at_fst (sc_files SC)"
  by (simp_all add: left_center_def)

lemma right_registry_ops:
  "reg_get (right_registry R) p = at_snd (reg_get R p)" "reg_put (right_registry R) p v = at_snd (reg_put R p v)"
  "reg_del (right_registry R) p = at_snd (reg_del R p)"
  by (simp_all add: right_registry_def)

context center_up
begin

lemma center_left: "center_up (left_center SC) (\<lambda>w. docs (fst w))"
proof
  fix s i :: string and d and w :: "'w \<times> 'x"
  assume "docs (fst w) (s, i) = Some d"
  from getOne_up [OF this] show "\<exists>inst w'. sc_getOne (left_center SC) s i w = (Inr (0, Some inst), w')"
    by (auto simp: left_center_ops at_fst_iff)
qed (simp_all only: left_center_ops at_fst_iff at_fst_sel create_docs heartbeat_docs getInstance_docs getOne_docs files_docs find_docs,
    (erule updateProps_up | erule conjE, erule register_ok register_err updateProps_ok updateProps_err unregister_ok unregister_err getInstance_ok
       updateInstance_ok updateInstance_err getOne_ok files_ok create_id register_id, assumption?)+)

end

context etcd
begin

lemma etcd_right: "etcd (right_registry R) (\<lambda>w. kv (snd w))"
  by (unfold_locales, simp_all only: right_registry_ops at_snd_iff)
    (erule conjE, erule get_ok get_err put_ok put_err del_ok del_err)+

end

type_synonym view_world = "svc_world \<times> mem_world"

abbreviation view_center :: "view_world service_center" where "view_center \<equiv> left_center mem_center"
abbreviation view_registry :: "view_world registry" where "view_registry \<equiv> right_registry sure_registry"

interpretation view_reads: etcd view_registry "\<lambda>w. map_of (mw_kv (snd w))"
  by (rule sure_etcd.etcd_right)

interpretation mem_views: views view_center "\<lambda>w. map_of (vw_docs (fst w))" view_registry "\<lambda>w. map_of (mw_kv (snd w))"
proof (intro views.intro views_axioms.intro)
  show "center_up view_center (\<lambda>w. map_of (vw_docs (fst w)))" by (rule mem_center.center_left)
  show "etcd view_registry (\<lambda>w. map_of (mw_kv (snd w)))" by (rule view_reads.etcd_axioms)
qed (simp_all add: left_center_ops right_registry_ops mem_center_def sure_registry_def mem_registry_def mem_fault_def)

text \<open>Two instances with one name, one more, and subscriptions of two applications: one by name,
  one by id.\<close>

definition view_doc :: "string \<Rightarrow> string list \<times> props" where
  "view_doc n = ([], [(''serName'', n), (''mecState'', ''ACTIVE''), (''version'', ''1.0'')])"

definition view_filter :: "string list \<Rightarrow> string list \<Rightarrow> doc" where
  "view_filter ids names = DocAvail (sample_sub\<lparr>av_FilteringCriteria :=
     \<lparr>fc_SerInstanceIds = ids, fc_SerNames = names, fc_SerCategories = [], fc_States = [], fc_IsLocal = False\<rparr>\<rparr>)"

definition view_start :: view_world where
  "view_start = (svc_start\<lparr>vw_docs := [((pad 16 2, pad 16 3), view_doc ''face''), ((pad 16 2, pad 16 4), view_doc ''plate'')]\<rparr>,
     \<lparr>mw_kv = [(AvailAppSubKeyPath @ ''app-1/s1'', view_filter [] [''face'']),
               (AvailAppSubKeyPath @ ''app-2/s2'', view_filter [pad 16 2 @ pad 16 3] [])], mw_faults = []\<rparr>)"

abbreviation view_run :: "(int option \<times> PlatformCapability list) plan_out \<times> view_world" where
  "view_run \<equiv> getPlatformCapabilities view_center view_registry rev \<lparr>cq_capabilityId = [], cq_query = empty_query\<rparr> view_start"

definition face_capability :: PlatformCapability where
  "face_capability = \<lparr>pc_CapabilityId = pad 16 2 @ pad 16 3, pc_CapabilityName = ''face'', pc_Status = ''ACTIVE'',
     pc_Version = ''1.0'', pc_Consumers = [''app-2'', ''app-1'']\<rparr>"

definition plate_capability :: PlatformCapability where
  "plate_capability = \<lparr>pc_CapabilityId = pad 16 2 @ pad 16 4, pc_CapabilityName = ''plate'', pc_Status = ''ACTIVE'',
     pc_Version = ''1.0'', pc_Consumers = []\<rparr>"

lemma view_answer: "fst view_run = PlanOk (Some 0, [face_capability, plate_capability])"
  by code_simp

lemma view_run: "view_run = (PlanOk (Some 0, [face_capability, plate_capability]), snd view_run)"
  using view_answer by (simp add: prod_eq_iff)

section \<open>Properties\<close>

text \<open>(C27) Consumers are subscribers.  Every application that the capability query lists as a
  consumer of a capability has a stored availability subscription, under a key of its own, whose
  filter contains an instance with the id of the capability, by its id, its name or its
  category.\<close>

theorem consumers_subscribe:
  assumes "views SC docs R kv" and "reordering iter"
    and "getPlatformCapabilities SC R iter r w = (PlanOk (Some code, caps), w')"
    and "c \<in> set caps" and "app \<in> set (pc_Consumers c)"
  shows "\<exists>k s i. has_prefix k avail_path \<and> kv w k = Some (DocAvail s) \<and> record_app k = app
    \<and> docs w (mi_ServiceId i, mi_InstanceId i) = Some (mi_Endpoints i, mi_Properties i) \<and> instance_id i = pc_CapabilityId c
    \<and> isFilterContain (av_FilteringCriteria s) (instance_id i) (instance_name i) (instance_category i)"
proof -
  have run: "CapabilitiesGet_OnRequest SC R iter (cq_query r) w = (PlanOk (Some code, caps), w')"
    using assms(3) by (simp add: getPlatformCapabilities_def DecodeCapabilityQueryReq_getParam_def then_step_def)
  obtain inss resp v recs where
    f: "sc_files SC w = (resp, v)" "FindInstanceByKey (cq_query r) resp = Found inss"
    and recs: "set recs = {(k, v). has_prefix k avail_path \<and> kv w k = Some v}" "distinct (map fst recs)" "\<forall>r\<in>set recs. readable r"
    and caps: "caps = map (\<lambda>i. capability_of i (consumers_in (concat (map (record_pairs (mapping_of SC w)) recs)) (instance_id i))) inss"
    and w': "docs w' = docs w" "kv w' = kv w" "fst (sc_files SC w') = fst (sc_files SC w)"
    by (rule views.all_reads [OF assms(1) run assms(2)])
  obtain j where j: "j \<in> set inss" "c = capability_of j (consumers_in (concat (map (record_pairs (mapping_of SC w)) recs)) (instance_id j))"
    using assms(4) caps by auto
  then obtain k d where k: "(k, d) \<in> set recs" "(app, instance_id j) \<in> set (record_pairs (mapping_of SC w) (k, d))"
    using assms(5) by (auto simp: capability_of_def consumers_in_def)
  then obtain s where s: "unmarshal_avail d = Some s" "app = record_app k"
      "instance_id j \<in> set (consumed (mapping_of SC w) (av_FilteringCriteria s))"
    by (cases "unmarshal_avail d") (auto simp: record_pairs_def split: if_splits)
  have d: "d = DocAvail s" using s(1) by (cases d) auto
  obtain i where i: "docs w (mi_ServiceId i, mi_InstanceId i) = Some (mi_Endpoints i, mi_Properties i)"
    "instance_id i = instance_id j"
    "isFilterContain (av_FilteringCriteria s) (instance_id j) (instance_name i) (instance_category i)"
    using views.consumed_stored [OF assms(1) s(3) views.found_stored [OF assms(1) f j(1)] refl] by blast
  have c: "pc_CapabilityId c = instance_id j" using j(2) by (simp add: capability_of_def)
  have key: "has_prefix k avail_path" "kv w k = Some (DocAvail s)" using k(1) recs(1) d by auto
  show ?thesis
    by (intro exI [of _ k] exI [of _ s] exI [of _ i]) (use i c key s(2) in simp)
qed

theorem consumers_subscribe_witness:
  "\<exists>k s i. map_of (mw_kv (snd view_start)) k = Some (DocAvail s) \<and> record_app k = ''app-1''
     \<and> map_of (vw_docs (fst view_start)) (mi_ServiceId i, mi_InstanceId i) = Some (mi_Endpoints i, mi_Properties i)
     \<and> instance_id i = pad 16 2 @ pad 16 3
     \<and> isFilterContain (av_FilteringCriteria s) (instance_id i) (instance_name i) (instance_category i)"
proof -
  have c: "face_capability \<in> set [face_capability, plate_capability]" "''app-1'' \<in> set (pc_Consumers face_capability)"
    and i: "pc_CapabilityId face_capability = pad 16 2 @ pad 16 3"
    by (simp_all add: face_capability_def)
  from consumers_subscribe [OF mem_views.views_axioms reordering_rev view_run c] show ?thesis
    unfolding i by (elim exE conjE) (intro exI conjI)
qed

text \<open>The two capability queries agree.  When all stored ids are ids of the service centre,
  the query of one capability that a query of all has listed is answered with the same
  description, and with the same consumers up to the order in which the maps are iterated.\<close>

theorem capability_queries_agree:
  assumes "views SC docs R kv" and "reordering iter" and "reordering iter'"
    and "\<forall>s i. docs w (s, i) \<noteq> None \<longrightarrow> center_id s \<and> center_id i"
    and "getPlatformCapabilities SC R iter r w = (PlanOk (Some code, caps), w')" and "c \<in> set caps"
  shows "\<exists>c' w''. getPlatformCapability SC R iter' \<lparr>cq_capabilityId = pc_CapabilityId c, cq_query = empty_query\<rparr> w' = (PlanOk (0, c'), w'')
    \<and> c'\<lparr>pc_Consumers := pc_Consumers c\<rparr> = c \<and> mset (pc_Consumers c') = mset (pc_Consumers c)"
proof -
  have run: "CapabilitiesGet_OnRequest SC R iter (cq_query r) w = (PlanOk (Some code, caps), w')"
    using assms(5) by (simp add: getPlatformCapabilities_def DecodeCapabilityQueryReq_getParam_def then_step_def)
  obtain inss resp v recs where
    f: "sc_files SC w = (resp, v)" "FindInstanceByKey (cq_query r) resp = Found inss"
    and recs: "set recs = {(k, v). has_prefix k avail_path \<and> kv w k = Some v}" "distinct (map fst recs)" "\<forall>r\<in>set recs. readable r"
    and caps: "caps = map (\<lambda>i. capability_of i (consumers_in (concat (map (record_pairs (mapping_of SC w)) recs)) (instance_id i))) inss"
    and w': "docs w' = docs w" "kv w' = kv w" "fst (sc_files SC w') = fst (sc_files SC w)"
    by (rule views.all_reads [OF assms(1) run assms(2)])
  obtain j where j: "j \<in> set inss" and c: "c = capability_of j (consumers_in (concat (map (record_pairs (mapping_of SC w)) recs)) (instance_id j))"
    using assms(6) caps by auto
  have d: "docs w' (mi_ServiceId j, mi_InstanceId j) = Some (mi_Endpoints j, mi_Properties j)"
    using views.found_stored [OF assms(1) f j] w' by simp
  have ids: "center_id (mi_ServiceId j)" "center_id (mi_InstanceId j)" using assms(4) d w' by auto
  have read: "\<forall>k d. has_prefix k avail_path \<longrightarrow> kv w' k = Some d \<longrightarrow> readable (k, d)" using recs(1,3) w' by auto
  obtain inst recs' w'' where one: "inst_doc inst = ((mi_ServiceId j, mi_InstanceId j), mi_Endpoints j, mi_Properties j)"
    "CapabilityGet_OnRequest SC R iter' (mi_ServiceId j @ mi_InstanceId j) w' = (PlanOk (0, capability_of inst
      (consumers_in (concat (map (record_pairs (mapping_of SC w')) recs')) (mi_ServiceId j @ mi_InstanceId j))), w'')"
    "set recs' = {(k, v). has_prefix k avail_path \<and> kv w' k = Some v}" "distinct (map fst recs')"
    by (rule views.one_reads [OF assms(1) d ids assms(3) read])
  have "mset recs' = mset recs"
    using recs(1,2) one(3,4) w' by (metis distinct_map set_eq_iff_mset_eq_distinct)
  note same = consumers_mset [OF this, of "mapping_of SC w" "instance_id j"]
  have "mapping_of SC w' = mapping_of SC w" by (rule views.mapping_steady [OF assms(1) w'(3)])
  moreover have "pc_CapabilityId c = mi_ServiceId j @ mi_InstanceId j" by (simp add: c capability_of_def instance_id_def)
  ultimately show ?thesis
    using one(1,2) same
    by (auto simp: c capability_of_def inst_doc_def instance_id_def instance_name_def
        getPlatformCapability_def DecodeCapabilityQueryReq_getParam_def then_step_def)
qed

theorem capability_queries_agree_witness:
  "\<exists>c' w''. getPlatformCapability view_center view_registry (\<lambda>xs. xs)
       \<lparr>cq_capabilityId = pad 16 2 @ pad 16 3, cq_query = empty_query\<rparr> (snd view_run) = (PlanOk (0, c'), w'')
     \<and> pc_CapabilityName c' = ''face'' \<and> mset (pc_Consumers c') = {#''app-1'', ''app-2''#}"
proof -
  have c: "face_capability \<in> set [face_capability, plate_capability]" by simp
  have ids: "\<forall>s i. map_of (vw_docs (fst view_start)) (s, i) \<noteq> None \<longrightarrow> center_id s \<and> center_id i"
    by (simp add: view_start_def center_id_pad)
  have f: "pc_CapabilityName face_capability = ''face''" "mset (pc_Consumers face_capability) = {#''app-1'', ''app-2''#}"
    "pc_CapabilityId face_capability = pad 16 2 @ pad 16 3"
    by (simp_all add: face_capability_def)
  obtain c' w'' where one: "getPlatformCapability view_center view_registry (\<lambda>xs. xs)
       \<lparr>cq_capabilityId = pc_CapabilityId face_capability, cq_query = empty_query\<rparr> (snd view_run) = (PlanOk (0, c'), w'')"
    and same: "c'\<lparr>pc_Consumers := pc_Consumers face_capability\<rparr> = face_capability" "mset (pc_Consumers c') = mset (pc_Consumers face_capability)"
    using capability_queries_agree [OF mem_views.views_axioms reordering_rev reordering_id ids view_run c] by blast
  have "pc_CapabilityName c' = pc_CapabilityName face_capability" using arg_cong [OF same(1), of pc_CapabilityName] by simp
  with one same(2) show ?thesis unfolding f by blast
qed

text \<open>The statistics count.  On a registry that answers, the statistics are answered (no key
  of a subscription is too short for the application), the numbers are the numbers of different
  applications with subscriptions and of different service names in filters, and the relations
  give each of these applications once, with exactly the instance ids of its subscriptions.\<close>

theorem statistics_count:
  assumes "etcd R kv" and "reordering iter" and "reordering riter"
    and "is_ok (fst (reg_get R (GetSubscribeKeyPath SerAvailabilityNotificationSubscription) w))"
  shows "\<exists>info w'. SubscriptionInfoReq_OnRequest R iter riter w = (PlanOk info, w')
    \<and> sn_appSubscribeNum info = card (record_app ` {k. stored_sub (kv w) k \<noteq> None})
    \<and> sn_serviceSubscribedNum info = card (\<Union>{set (fc_SerNames (av_FilteringCriteria s)) |s. \<exists>k. stored_sub (kv w) k = Some s})
    \<and> distinct (map fst (sn_subscribeRelations info))
    \<and> fst ` set (sn_subscribeRelations info) = record_app ` {k. stored_sub (kv w) k \<noteq> None}
    \<and> (\<forall>app ids. (app, ids) \<in> set (sn_subscribeRelations info) \<longrightarrow>
        set ids = \<Union>{set (fc_SerInstanceIds (av_FilteringCriteria s)) |s. \<exists>k. stored_sub (kv w) k = Some s \<and> record_app k = app})"
proof -
  obtain infos w1 where g: "GetAllSubscriberInfoFromDB R w = (infos, w1)" by fastforce
  note t = etcd.subscribers_read [OF assms(1) g assms(4)]
  have set: "set (iter infos) = {(k, s). stored_sub (kv w) k = Some s}"
    unfolding reordering_set [OF assms(2)] t(2) [symmetric] using t(1) by (auto dest: map_of_SomeD)
  have deep: "\<forall>x\<in>set (iter infos). deep_key (fst x)"
    unfolding set by (auto simp: stored_sub_def intro: deep_prefix split: if_splits)
  obtain st where st: "collect_subscriptions (iter infos) \<lparr>ss_apps = [], ss_services = [], ss_relations = []\<rparr> = Inr st"
    and d: "distinct (ss_apps st)" "distinct (ss_services st)" "distinct (map fst (ss_relations st))"
    and a: "set (ss_apps st) = (record_app \<circ> fst) ` set (iter infos)" "fst ` set (ss_relations st) = (record_app \<circ> fst) ` set (iter infos)"
    and n: "set (ss_services st) = (\<Union>(k, s)\<in>set (iter infos). set (fc_SerNames (av_FilteringCriteria s)))"
    and r: "\<And>app. related st app = ids_of (iter infos) app"
    using collect_ok [OF deep, of "\<lparr>ss_apps = [], ss_services = [], ss_relations = []\<rparr>"] by (auto simp: related_def)
  have apps: "(record_app \<circ> fst) ` set (iter infos) = record_app ` {k. stored_sub (kv w) k \<noteq> None}"
    unfolding set by (force simp: image_iff)
  have names: "(\<Union>(k, s)\<in>set (iter infos). set (fc_SerNames (av_FilteringCriteria s)))
      = \<Union>{set (fc_SerNames (av_FilteringCriteria s)) |s. \<exists>k. stored_sub (kv w) k = Some s}"
    unfolding set by blast
  have ids: "set is = \<Union>{set (fc_SerInstanceIds (av_FilteringCriteria s)) |s. \<exists>k. stored_sub (kv w) k = Some s \<and> record_app k = app}"
    if "(app, is) \<in> set (riter (ss_relations st))" for app "is"
  proof -
    have "map_of (ss_relations st) app = Some is" using that d(3) reordering_set [OF assms(3)] by simp
    then have "set is = ids_of (iter infos) app" using r [of app] by (simp add: related_def)
    then show ?thesis unfolding ids_of_def set by fastforce
  qed
  have dr: "distinct (map fst (riter (ss_relations st)))" "set (riter (ss_relations st)) = set (ss_relations st)"
    using reordering_map_of(2) [OF assms(3) d(3)] reordering_set [OF assms(3)] by auto
  have nums: "length (ss_apps st) = card (record_app ` {k. stored_sub (kv w) k \<noteq> None})"
    "length (ss_services st) = card (\<Union>{set (fc_SerNames (av_FilteringCriteria s)) |s. \<exists>k. stored_sub (kv w) k = Some s})"
    using distinct_card [OF d(1)] distinct_card [OF d(2)] a(1) n unfolding apps names by simp_all
  have run: "SubscriptionInfoReq_OnRequest R iter riter w = (PlanOk \<lparr>sn_appSubscribeNum = length (ss_apps st),
      sn_serviceSubscribedNum = length (ss_services st), sn_subscribeRelations = riter (ss_relations st)\<rparr>, w1)"
    by (simp add: SubscriptionInfoReq_OnRequest_def g st)
  show ?thesis
    by (rule exI, rule exI, rule conjI [OF run]) (use nums dr a(2) apps ids in auto)
qed

theorem statistics_count_witness:
  "\<exists>info w'. SubscriptionInfoReq_OnRequest view_registry rev rev view_start = (PlanOk info, w')
     \<and> fst ` set (sn_subscribeRelations info) = record_app ` {k. stored_sub (map_of (mw_kv (snd view_start))) k \<noteq> None}"
proof -
  have ok: "is_ok (fst (reg_get view_registry (GetSubscribeKeyPath SerAvailabilityNotificationSubscription) view_start))"
    by (rule mem_views.read_sure)
  from statistics_count [OF view_reads.etcd_axioms reordering_rev reordering_rev ok] show ?thesis
    by (elim exE conjE) (intro exI conjI)
qed

end
