(* ===== verification/Kong_Log.thy ===== *)
theory Kong_Log
  imports Capability
begin

text \<open>
  The log of the gateway (\<open>mm5/plans/kong_http_log.go\<close>).  The gateway posts every call;
  the application is read from the token of the call, and the document goes to a search service.
  The statistics count the calls of the last seven days.  The parser of JSON, the claims of a token
  and the search service are arguments.
\<close>

section \<open>JSON values\<close>

datatype json =
    JNull
  | JBool bool
  | JNumber string
  | JString string
  | JArray "json list"
  | JObject "(string \<times> json) list"

text \<open>Into a \<open>map[string]interface{}\<close>; null gives the nil map.\<close>

fun unmarshal_map :: "json \<Rightarrow> (string \<times> json) list go_result" where
  "unmarshal_map JNull = Inr []"
| "unmarshal_map (JObject kvs) = Inr kvs"
| "unmarshal_map _ = Inl (Err ''cannot unmarshal into map'')"

definition map_index :: "(string \<times> json) list \<Rightarrow> string \<Rightarrow> json" where
  "map_index m k = (case map_of m k of None \<Rightarrow> JNull | Some v \<Rightarrow> v)"

record ReqHeaders =
  rq_Host :: string
  rq_ContentType :: string
  rq_Authorization :: string

text \<open>A text field of a struct: the fields of the object match without regard to case, in the
  sorted order in which a map is encoded, null leaves the field as it is, and any other value is
  an error.\<close>

fun string_field :: "string \<Rightarrow> (string \<times> json) list \<Rightarrow> string \<Rightarrow> string go_result" where
  "string_field name [] acc = Inr acc"
| "string_field name ((k, v) # kvs) acc =
     (if \<not> equal_fold k name then string_field name kvs acc
      else (case v of JString s \<Rightarrow> string_field name kvs s
                    | JNull \<Rightarrow> string_field name kvs acc
                    | _ \<Rightarrow> Inl (Err ''cannot unmarshal into string'')))"

definition unmarshal_ReqHeaders :: "json \<Rightarrow> ReqHeaders go_result" where
  "unmarshal_ReqHeaders j =
     (case j of
        JNull \<Rightarrow> Inr \<lparr>rq_Host = [], rq_ContentType = [], rq_Authorization = []\<rparr>
      | JObject kvs \<Rightarrow>
          (let kvs = sort_key fst kvs in
           case (string_field ''host'' kvs [], string_field ''content-type'' kvs [], string_field ''authorization'' kvs []) of
             (Inr h, Inr c, Inr a) \<Rightarrow> Inr \<lparr>rq_Host = h, rq_ContentType = c, rq_Authorization = a\<rparr>
           | _ \<Rightarrow> Inl (Err ''cannot unmarshal into string''))
      | _ \<Rightarrow> Inl (Err ''cannot unmarshal into struct''))"

section \<open>Base64\<close>

definition b64_std :: string where
  "b64_std = ''ABCDEFGHIJKLMNOPQRSTUVWXYZabcdefghijklmnopqrstuvwxyz0123456789+/''"

definition b64_value :: "string \<Rightarrow> char \<Rightarrow> nat option" where
  "b64_value alphabet c = find (\<lambda>i. alphabet ! i = c) [0..<length alphabet]"

fun b64_bytes :: "nat list \<Rightarrow> string option" where
  "b64_bytes [] = Some []"
| "b64_bytes [a] = None"
| "b64_bytes [a, b] = Some [char_of (a * 4 + b div 16)]"
| "b64_bytes [a, b, c] = Some [char_of (a * 4 + b div 16), char_of (b * 16 + c div 4)]"
| "b64_bytes (a # b # c # d # vs) =
     map_option (\<lambda>s. char_of (a * 4 + b div 16) # char_of (b * 16 + c div 4) # char_of (c * 64 + d) # s) (b64_bytes vs)"

fun all_some :: "'a option list \<Rightarrow> 'a list option" where
  "all_some [] = Some []"
| "all_some (None # xs) = None"
| "all_some (Some x # xs) = map_option (Cons x) (all_some xs)"

text \<open>\<open>base64.RawStdEncoding.DecodeString\<close>: line ends are skipped, padding and other
  characters are errors.\<close>

definition raw_std_decode :: "string \<Rightarrow> string option" where
  "raw_std_decode s =
     Option.bind (all_some (map (b64_value b64_std) (filter (\<lambda>c. c \<noteq> CHR 0x0A \<and> c \<noteq> CHR 0x0D) s))) b64_bytes"

section \<open>Logging a call\<close>

text \<open>\<open>strings.Index\<close> for one character.\<close>

definition char_index :: "string \<Rightarrow> char \<Rightarrow> int" where
  "char_index s c = (let n = length (takeWhile (\<lambda>x. x \<noteq> c) s) in if n < length s then int n else -1)"

text \<open>The application of the authorization header: nil where the token cannot be read, and a
  panic where the slice ends at the index of a missing dot.\<close>

definition parseAuthorization :: "(string \<Rightarrow> string go_result) \<Rightarrow> string \<Rightarrow> string option go_result" where
  "parseAuthorization claims authorization =
     (if has_prefix authorization ''Bearer'' then
        (let start = char_index authorization (CHR ''.'');
             subStr = drop (nat (start + 1)) authorization;
             stop = char_index subStr (CHR ''.'')
         in if stop < 0 then Inl (Panic ''slice bounds out of range'')
            else (case raw_std_decode (take (nat stop) subStr) of
                    None \<Rightarrow> Inr None
                  | Some decode \<Rightarrow> (case claims decode of Inl e \<Rightarrow> Inr None | Inr subject \<Rightarrow> Inr (Some subject))))
      else Inr (Some []))"

definition parseRequest :: "(string \<Rightarrow> string go_result) \<Rightarrow> (string \<times> json) list \<Rightarrow> string option go_result" where
  "parseRequest claims temp =
     (case unmarshal_map (map_index temp ''request'') of
        Inl e \<Rightarrow> Inr None
      | Inr headerMap \<Rightarrow>
          (case unmarshal_ReqHeaders (map_index headerMap ''headers'') of
             Inl e \<Rightarrow> Inr None
           | Inr headers \<Rightarrow> parseAuthorization claims (rq_Authorization headers)))"

datatype es_filter =
    TermsQuery string string
  | PrefixQuery string string
  | RegexpQuery string string
  | MatchQuery string string
  | RangeQuery string string "string option"

text \<open>The search service: indexing a document, counting the documents of an index that pass all
  filters, and what the start-up asks.\<close>

record 'w log_store =
  ls_index :: "string \<Rightarrow> json \<Rightarrow> 'w \<Rightarrow> string go_result \<times> 'w"
  ls_count :: "string \<Rightarrow> es_filter list \<Rightarrow> 'w \<Rightarrow> int go_result \<times> 'w"
  ls_connect :: "'w \<Rightarrow> go_error option \<times> 'w"
  ls_exists :: "string \<Rightarrow> 'w \<Rightarrow> bool go_result \<times> 'w"
  ls_create :: "string \<Rightarrow> string \<Rightarrow> 'w \<Rightarrow> bool go_result \<times> 'w"

definition KongHttpLogIndex :: string where "KongHttpLogIndex = ''http-log''"
definition WeekDay :: nat where "WeekDay = 7"
definition startedAt :: string where "startedAt = ''started_at''"

definition GetHttpLogMapping :: string where
  "GetHttpLogMapping = ''{\"mappings\":{\"properties\":{\"started_at\":{\"type\":\"date\"}}}}''"

text \<open>The client of the package, a nil pointer when the connection failed at the start; every
  error after the connection is logged only.\<close>

definition createEsClient :: "'w log_store \<Rightarrow> 'w \<Rightarrow> 'w log_store option \<times> 'w" where
  "createEsClient E w =
     (case ls_connect E w of
        (Some err, w) \<Rightarrow> (None, w)
      | (None, w) \<Rightarrow>
          (case ls_exists E KongHttpLogIndex w of
             (Inl err, w) \<Rightarrow> (Some E, w)
           | (Inr True, w) \<Rightarrow> (Some E, w)
           | (Inr False, w) \<Rightarrow> (Some E, snd (ls_create E KongHttpLogIndex GetHttpLogMapping w))))"

definition app_json :: "string option \<Rightarrow> json" where
  "app_json app = (case app of None \<Rightarrow> JNull | Some s \<Rightarrow> JString s)"

definition nil_client :: go_error where
  "nil_client = Panic ''invalid memory address or nil pointer dereference''"

text \<open>An error of the search service is logged only, but a call on a nil client panics.  Null is
  a nil map, to which nothing can be assigned.\<close>

definition CreateKongHttpLog_OnRequest ::
  "(string \<Rightarrow> json go_result) \<Rightarrow> (string \<Rightarrow> string go_result) \<Rightarrow> 'w log_store option \<Rightarrow> string go_result \<Rightarrow> 'w
   \<Rightarrow> string go_result plan_out \<times> 'w" where
  "CreateKongHttpLog_OnRequest parse claims EsClient body w =
     (case body of
        Inl err \<Rightarrow> (PlanErr SerErrFailBase ''Read request body error.'', w)
      | Inr msg \<Rightarrow>
          (case parse msg of
             Inl err \<Rightarrow> (PlanErr SerErrFailBase ''Json Unmarshal error.'', w)
           | Inr j \<Rightarrow>
               (case unmarshal_map j of
                  Inl err \<Rightarrow> (PlanErr SerErrFailBase ''Json Unmarshal error.'', w)
                | Inr temp \<Rightarrow>
                    (case parseRequest claims temp of
                       Inl p \<Rightarrow> (PlanPanic p, w)
                     | Inr appInsId \<Rightarrow>
                         if j = JNull then (PlanPanic (Panic ''assignment to entry in nil map''), w)
                         else (case EsClient of
                                 None \<Rightarrow> (PlanPanic nil_client, w)
                               | Some E \<Rightarrow>
                                   (case ls_index E KongHttpLogIndex (JObject (al_put ''appInstanceId'' (app_json appInsId) temp)) w of
                                      (resp, w) \<Rightarrow> (PlanOk resp, w)))))))"

section \<open>Statistics\<close>

text \<open>Date mathematics of the search service: whole days, today or some days ago.\<close>

definition getTimeRange :: "nat \<Rightarrow> es_filter" where
  "getTimeRange i =
     (if i = 0 then RangeQuery startedAt ''now/d'' None
      else RangeQuery startedAt (''now-'' @ itoa i @ ''d/d'') (Some (''now-'' @ itoa (i - 1) @ ''d/d'')))"

text \<open>A count that fails is zero.\<close>

fun count_days :: "'w log_store \<Rightarrow> es_filter list \<Rightarrow> nat list \<Rightarrow> 'w \<Rightarrow> int list \<times> 'w" where
  "count_days E query [] w = ([], w)"
| "count_days E query (i # is) w =
     (case ls_count E KongHttpLogIndex (query @ [getTimeRange i]) w of
        (resp, w) \<Rightarrow> (case count_days E query is w of
           (counts, w) \<Rightarrow> ((case resp of Inl err \<Rightarrow> 0 | Inr n \<Rightarrow> n) # counts, w)))"

record service_calls =
  kc_name :: string
  kc_desc :: string
  kc_callTimes :: "int list"

definition statisticDiscoveryServices :: "'w log_store \<Rightarrow> 'w \<Rightarrow> int list \<times> 'w" where
  "statisticDiscoveryServices E w =
     count_days E [TermsQuery ''service.name'' ''mepserver'',
       PrefixQuery ''upstream_uri.keyword'' ''/mep/mec_service_mgmt/v1/services'',
       MatchQuery ''request.method'' ''GET''] [0..<WeekDay] w"

definition statisticRegisterServices :: "'w log_store \<Rightarrow> 'w \<Rightarrow> int list \<times> 'w" where
  "statisticRegisterServices E w =
     count_days E [TermsQuery ''service.name'' ''mepserver'',
       RegexpQuery ''upstream_uri.keyword'' ''/mep/mec_service_mgmt/v1/applications/[-A-Za-z0-9]+/services'',
       MatchQuery ''request.method'' ''POST''] [0..<WeekDay] w"

definition statisticMepServices :: "'w log_store \<Rightarrow> 'w \<Rightarrow> service_calls list \<times> 'w" where
  "statisticMepServices E w =
     (case statisticRegisterServices E w of
        (registers, w) \<Rightarrow>
          (case statisticDiscoveryServices E w of
             (discoveries, w) \<Rightarrow>
               ([\<lparr>kc_name = ''serviceRegister'', kc_desc = [], kc_callTimes = registers\<rparr>,
                 \<lparr>kc_name = ''serviceDiscovery'', kc_desc = [], kc_callTimes = discoveries\<rparr>], w)))"

fun statisticAppServices :: "'w log_store \<Rightarrow> string list \<Rightarrow> 'w \<Rightarrow> service_calls list \<times> 'w" where
  "statisticAppServices E [] w = ([], w)"
| "statisticAppServices E (serviceName # names) w =
     (case count_days E [PrefixQuery ''service.name.keyword'' serviceName] [0..<WeekDay] w of
        (dayCount, w) \<Rightarrow> (case statisticAppServices E names w of
           (list, w) \<Rightarrow> (\<lparr>kc_name = serviceName, kc_desc = [], kc_callTimes = dayCount\<rparr> # list, w)))"

definition getAllServiceNames :: "svc_codec \<Rightarrow> 'w service_center \<Rightarrow> 'w \<Rightarrow> string list \<times> 'w" where
  "getAllServiceNames C SC w =
     (case sc_files SC w of
        (resp, w) \<Rightarrow>
          ((case FindInstanceByKey empty_query resp of
              Found inss \<Rightarrow> map si_SerName (snd (Mp1CvtSrvDiscover C (0, inss))) | _ \<Rightarrow> []), w))"

record log_statistics =
  lg_appServices :: "service_calls list"
  lg_mepServices :: "service_calls list"

text \<open>The counting of the platform's own services calls the client in any case.\<close>

definition GetKongHttpLog_OnRequest ::
  "'w log_store option \<Rightarrow> svc_codec \<Rightarrow> 'w service_center \<Rightarrow> 'w \<Rightarrow> log_statistics plan_out \<times> 'w" where
  "GetKongHttpLog_OnRequest EsClient C SC w =
     (case getAllServiceNames C SC w of
        (serviceNames, w) \<Rightarrow>
          (case EsClient of
             None \<Rightarrow> (PlanPanic nil_client, w)
           | Some E \<Rightarrow>
               (case statisticAppServices E serviceNames w of
                  (appList, w) \<Rightarrow>
                    (case statisticMepServices E w of
                       (mepList, w) \<Rightarrow> (PlanOk \<lparr>lg_appServices = appList, lg_mepServices = mepList\<rparr>, w)))))"

text \<open>The mm5 handlers of the log, and of the statistics and the list of services.\<close>

definition insertHttpLog where
  "insertHttpLog parse claims EsClient body w = CreateKongHttpLog_OnRequest parse claims EsClient body w"

definition queryHttpLog where
  "queryHttpLog EsClient C SC w = GetKongHttpLog_OnRequest EsClient C SC w"

definition querySubscribeStatistic where
  "querySubscribeStatistic R iter riter w = SubscriptionInfoReq_OnRequest R iter riter w"

definition queryAllServices where
  "queryAllServices C SC w = AllServicesReq_OnRequest C SC w"

section \<open>Tokens\<close>

text \<open>The encoding of the parts of a token: base64 with the alphabet for URLs.\<close>

definition b64_url :: string where
  "b64_url = take 62 b64_std @ ''-_''"

fun b64_vals :: "string \<Rightarrow> nat list" where
  "b64_vals [] = []"
| "b64_vals [x] = [of_char x div 4, of_char x mod 4 * 16]"
| "b64_vals [x, y] = [of_char x div 4, of_char x mod 4 * 16 + of_char y div 16, of_char y mod 16 * 4]"
| "b64_vals (x # y # z # s) =
     [of_char x div 4, of_char x mod 4 * 16 + of_char y div 16, of_char y mod 16 * 4 + of_char z div 64, of_char z mod 64] @ b64_vals s"

definition b64_encode :: "string \<Rightarrow> string \<Rightarrow> string" where
  "b64_encode alphabet s = map ((!) alphabet) (b64_vals s)"

lemma sextets:
  fixes a b c :: nat
  assumes "a < 256" and "b < 256" and "c < 256"
  shows "a div 4 * 4 + (a mod 4 * 16 + b div 16) div 16 = a" and "a div 4 * 4 + a mod 4 * 16 div 16 = a"
    and "((a mod 4 * 16 + b div 16) * 16 + b mod 16 * 4 div 4) mod 256 = b"
    and "((a mod 4 * 16 + b div 16) * 16 + (b mod 16 * 4 + c div 64) div 4) mod 256 = b"
    and "((b mod 16 * 4 + c div 64) * 64 + c mod 64) mod 256 = c"
proof -
  have d: "(m * k + r) div k = m" if "r < k" for m k r :: nat using that by simp
  have "b div 16 < 16" "c div 64 < 4" using assms by simp_all
  then have e: "(a mod 4 * 16 + b div 16) div 16 = a mod 4" "(b mod 16 * 4 + c div 64) div 4 = b mod 16" by (simp_all add: d)
  show "a div 4 * 4 + (a mod 4 * 16 + b div 16) div 16 = a" "a div 4 * 4 + a mod 4 * 16 div 16 = a"
    unfolding e by simp_all
  have b: "(a mod 4 * 16 + b div 16) * 16 + b mod 16 = b + a mod 4 * 256"
    using div_mult_mod_eq [of b 16] by (simp add: algebra_simps)
  then show "((a mod 4 * 16 + b div 16) * 16 + b mod 16 * 4 div 4) mod 256 = b"
    "((a mod 4 * 16 + b div 16) * 16 + (b mod 16 * 4 + c div 64) div 4) mod 256 = b"
    unfolding e using assms by simp_all
  have "(b mod 16 * 4 + c div 64) * 64 + c mod 64 = c + b mod 16 * 256"
    using div_mult_mod_eq [of c 64] by (simp add: algebra_simps)
  then show "((b mod 16 * 4 + c div 64) * 64 + c mod 64) mod 256 = c" using assms by simp
qed

lemma char_parts:
  fixes x y z :: char
  shows "char_of (of_char x div 4 * 4 + (of_char x mod 4 * 16 + of_char y div 16) div 16 :: nat) = x"
    and "char_of (of_char x div 4 * 4 + of_char x mod 4 * 16 div 16 :: nat) = x"
    and "char_of ((of_char x mod 4 * 16 + of_char y div 16) * 16 + of_char y mod 16 * 4 div 4 :: nat) = y"
    and "char_of ((of_char x mod 4 * 16 + of_char y div 16) * 16 + (of_char y mod 16 * 4 + of_char z div 64) div 4 :: nat) = y"
    and "char_of ((of_char y mod 16 * 4 + of_char z div 64) * 64 + of_char z mod 64 :: nat) = z"
proof -
  note q = sextets [OF nat_of_char_less_256 [of x] nat_of_char_less_256 [of y] nat_of_char_less_256 [of z]]
  have m: "char_of n = c" if "n mod 256 = of_char c" for n :: nat and c
    by (metis char_of_mod_256 char_of_char that)
  show "char_of (of_char x div 4 * 4 + (of_char x mod 4 * 16 + of_char y div 16) div 16 :: nat) = x"
    "char_of (of_char x div 4 * 4 + of_char x mod 4 * 16 div 16 :: nat) = x"
    unfolding q by simp_all
  show "char_of ((of_char x mod 4 * 16 + of_char y div 16) * 16 + of_char y mod 16 * 4 div 4 :: nat) = y"
    "char_of ((of_char x mod 4 * 16 + of_char y div 16) * 16 + (of_char y mod 16 * 4 + of_char z div 64) div 4 :: nat) = y"
    "char_of ((of_char y mod 16 * 4 + of_char z div 64) * 64 + of_char z mod 64 :: nat) = z"
    by (rule m, rule q)+
qed

lemma b64_bytes_vals: "b64_bytes (b64_vals s) = Some s"
  by (induction s rule: b64_vals.induct) (simp_all only: b64_vals.simps b64_bytes.simps char_parts option.map append.simps)

lemma char_divs: "(of_char c :: nat) div 4 < 64" "(of_char c :: nat) div 16 < 16" "(of_char c :: nat) div 64 < 4"
  by (rule less_mult_imp_div_less, simp)+

lemma sextet_less: "(of_char x :: nat) mod 4 * 16 + of_char y div 16 < 64" "(of_char y :: nat) mod 16 * 4 + of_char z div 64 < 64"
  "(of_char x :: nat) mod 4 * 16 < 64" "(of_char x :: nat) mod 16 * 4 < 64"
proof -
  have "(of_char x :: nat) mod 4 \<le> 3" "(of_char y :: nat) mod 16 \<le> 15" "(of_char x :: nat) mod 16 \<le> 15"
    using mod_less_divisor [of 4 "of_char x :: nat"] mod_less_divisor [of 16 "of_char y :: nat"] mod_less_divisor [of 16 "of_char x :: nat"]
    by simp_all
  then show "(of_char x :: nat) mod 4 * 16 + of_char y div 16 < 64" "(of_char y :: nat) mod 16 * 4 + of_char z div 64 < 64"
    "(of_char x :: nat) mod 4 * 16 < 64" "(of_char x :: nat) mod 16 * 4 < 64"
    using char_divs(2) [of y] char_divs(3) [of z] by linarith+
qed

lemma b64_vals_less: "n \<in> set (b64_vals s) \<Longrightarrow> n < 64"
  by (induction s rule: b64_vals.induct) (auto simp: char_divs sextet_less)

lemma b64_value_nth: "distinct alphabet \<Longrightarrow> n < length alphabet \<Longrightarrow> b64_value alphabet (alphabet ! n) = Some n"
  unfolding b64_value_def find_Some_iff by (intro exI [of _ n]) (auto simp: nth_eq_iff_index_eq)

lemma b64_value_None: "c \<notin> set alphabet \<Longrightarrow> b64_value alphabet c = None"
  by (auto simp: b64_value_def find_None_iff)

lemma b64_alphabets: "distinct b64_std" "length b64_std = 64" "CHR ''-'' \<notin> set b64_std" "CHR ''_'' \<notin> set b64_std"
  "CHR ''.'' \<notin> set b64_url" "CHR 0x0A \<notin> set b64_url" "CHR 0x0D \<notin> set b64_url"
  by code_simp+

text \<open>Each character of the URL alphabet: its value in the standard alphabet, and that it is
  neither a dot nor a line end.\<close>

lemma url_chars:
  assumes "n < 64"
  shows "b64_value b64_std (b64_url ! n) = (if n < 62 then Some n else None)" and "b64_url ! n \<notin> {CHR ''.'', CHR 0x0A, CHR 0x0D}"
proof -
  show "b64_value b64_std (b64_url ! n) = (if n < 62 then Some n else None)"
  proof (cases "n < 62")
    case True
    then have "b64_url ! n = b64_std ! n" by (simp add: b64_url_def nth_append b64_alphabets(2))
    with True show ?thesis by (simp add: b64_value_nth b64_alphabets)
  next
    case False
    with assms have "n = 62 \<or> n = 63" by auto
    then have "b64_url ! n = CHR ''-'' \<or> b64_url ! n = CHR ''_''" by (auto simp: b64_url_def nth_append b64_alphabets(2))
    with False show ?thesis by (auto simp: b64_value_None b64_alphabets)
  qed
  have "b64_url ! n \<in> set b64_url" using assms by (intro nth_mem) (simp add: b64_url_def b64_alphabets(2))
  then show "b64_url ! n \<notin> {CHR ''.'', CHR 0x0A, CHR 0x0D}" using b64_alphabets by auto
qed

lemma all_some_if: "all_some (map (\<lambda>n. if P n then Some n else None) ns) = (if list_all P ns then Some ns else None)"
  by (induction ns) auto

text \<open>The decoder reads the URL encoding exactly when it does not use the two characters in which the
  alphabets differ.\<close>

definition plain_url :: "string \<Rightarrow> bool" where
  "plain_url s \<longleftrightarrow> list_all (\<lambda>n. n < 62) (b64_vals s)"

lemma url_free:
  assumes "c \<in> set (b64_encode b64_url s)"
  shows "c \<notin> {CHR ''.'', CHR 0x0A, CHR 0x0D}"
proof -
  obtain n where n: "n \<in> set (b64_vals s)" "c = b64_url ! n" using assms by (auto simp: b64_encode_def)
  show ?thesis unfolding n(2) by (rule url_chars(2) [OF b64_vals_less [OF n(1)]])
qed

lemma raw_std_url: "raw_std_decode (b64_encode b64_url s) = (if plain_url s then Some s else None)"
proof -
  have f: "filter (\<lambda>c. c \<noteq> CHR 0x0A \<and> c \<noteq> CHR 0x0D) (b64_encode b64_url s) = b64_encode b64_url s"
    using url_free by (intro filter_True) auto
  have m: "map (b64_value b64_std) (b64_encode b64_url s) = map (\<lambda>n. if n < 62 then Some n else None) (b64_vals s)"
    using url_chars(1) [OF b64_vals_less] by (simp add: b64_encode_def)
  show ?thesis
    unfolding raw_std_decode_def f m all_some_if by (simp add: plain_url_def b64_bytes_vals)
qed

lemma char_index_app: "c \<notin> set s \<Longrightarrow> char_index (s @ c # t) c = int (length s)"
proof -
  assume "c \<notin> set s"
  then have "takeWhile (\<lambda>x. x \<noteq> c) (s @ c # t) = s" by (subst takeWhile_append2) auto
  then show ?thesis by (simp add: char_index_def Let_def)
qed

lemma drop_index: "drop (nat (int (length s) + 1)) (s @ c # t) = t"
  by (simp add: nat_add_distrib)

lemma char_index_neg: "char_index s c < 0 \<longleftrightarrow> c \<notin> set s"
proof -
  have "length (takeWhile (\<lambda>x. x \<noteq> c) s) < length s \<longleftrightarrow> c \<in> set s"
    by (induction s) auto
  then show ?thesis by (auto simp: char_index_def Let_def)
qed

section \<open>The search service\<close>

text \<open>What is relied upon of the search service: a count is the number of the stored entries that
  pass all filters, a range compares whole days, and counting changes nothing.  All requests fall
  on one day, \<open>today\<close>.\<close>

locale elastic =
  fixes E :: "'w log_store" and logs :: "'w \<Rightarrow> 'l list" and holds :: "'l \<Rightarrow> es_filter \<Rightarrow> bool"
    and day :: "'l \<Rightarrow> int" and moment :: "string \<Rightarrow> int option" and today :: int
  assumes count_ok: "ls_count E ix q w = (Inr n, w') \<Longrightarrow> n = int (length (filter (\<lambda>l. list_all (holds l) q) (logs w)))"
    and count_logs: "logs (snd (ls_count E ix q w)) = logs w"
    and count_sure: "is_ok (fst (ls_count E ix q w))"
    and moment_today: "moment ''now/d'' = Some today"
    and moment_ago: "moment (''now-'' @ itoa k @ ''d/d'') = Some (today - int k)"
    and range_days: "holds l (RangeQuery startedAt lo hi) \<longleftrightarrow>
      (\<exists>a. moment lo = Some a \<and> a \<le> day l) \<and> (\<forall>h. hi = Some h \<longrightarrow> (\<exists>b. moment h = Some b \<and> day l < b))"
begin

lemma time_range: "holds l (getTimeRange i) \<longleftrightarrow> (if i = 0 then today \<le> day l else day l = today - int i)"
proof (cases i)
  case (Suc j)
  then have "getTimeRange i = RangeQuery startedAt (''now-'' @ itoa (Suc j) @ ''d/d'') (Some (''now-'' @ itoa j @ ''d/d''))"
    by (simp add: getTimeRange_def)
  then show ?thesis using Suc by (auto simp: range_days moment_ago [simplified])
qed (simp add: getTimeRange_def range_days moment_today)

lemma count_days_exact:
  assumes "count_days E q is w = (ns, w')"
  shows "ns = map (\<lambda>i. int (length (filter (\<lambda>l. list_all (holds l) q \<and> holds l (getTimeRange i)) (logs w)))) is" and "logs w' = logs w"
  using assms
proof (induction "is" arbitrary: ns w w')
  case (Cons i "is")
  { case 1
    obtain r v where r: "ls_count E KongHttpLogIndex (q @ [getTimeRange i]) w = (r, v)" by fastforce
    obtain ms u where m: "count_days E q is v = (ms, u)" by fastforce
    obtain n where n: "r = Inr n" using count_sure [of KongHttpLogIndex "q @ [getTimeRange i]" w] r by (auto simp: is_ok_iff)
    have v: "logs v = logs w" using count_logs [of KongHttpLogIndex "q @ [getTimeRange i]" w] r by simp
    have "ns = n # ms" using 1 by (simp add: r m n)
    then show ?case using count_ok [OF r [unfolded n]] Cons.IH(1) [OF m] v by simp }
  { case 2
    obtain r v where r: "ls_count E KongHttpLogIndex (q @ [getTimeRange i]) w = (r, v)" by fastforce
    obtain ms u where m: "count_days E q is v = (ms, u)" by fastforce
    have v: "logs v = logs w" using count_logs [of KongHttpLogIndex "q @ [getTimeRange i]" w] r by simp
    have "u = w'" using 2 by (simp add: r m)
    then show ?case using Cons.IH(2) [OF m] v by simp }
qed simp_all

end

text \<open>The seven days are disjoint and cover everything since six days ago.\<close>

lemma week_sum:
  fixes d :: "'l \<Rightarrow> int"
  shows "(\<Sum>i\<leftarrow>[0..<Suc n]. int (length (filter (\<lambda>l. P l \<and> (if i = 0 then t \<le> d l else d l = t - int i)) ls)))
    = int (length (filter (\<lambda>l. P l \<and> t - int n \<le> d l) ls))"
proof (induction n)
  case (Suc n)
  have "length (filter (\<lambda>l. P l \<and> t - int (Suc n) \<le> d l) ls)
      = length (filter (\<lambda>l. P l \<and> t - int n \<le> d l) ls) + length (filter (\<lambda>l. P l \<and> d l = t - int (Suc n)) ls)"
    by (induction ls) auto
  with Suc show ?case by simp
qed simp

text \<open>An in-memory search service: the documents, fields by their path, and days since the epoch
  from the milliseconds of the start.\<close>

fun json_path :: "json \<Rightarrow> string list \<Rightarrow> json" where
  "json_path j [] = j"
| "json_path (JObject kvs) (p # ps) = (case map_of kvs p of None \<Rightarrow> JNull | Some v \<Rightarrow> json_path v ps)"
| "json_path j (p # ps) = JNull"

fun json_text :: "json \<Rightarrow> string" where
  "json_text (JString s) = s" | "json_text (JNumber s) = s" | "json_text j = []"

definition log_field :: "json \<Rightarrow> string \<Rightarrow> string" where
  "log_field j f = json_text (json_path j (filter (\<lambda>p. p \<noteq> ''keyword'') (split_on (CHR ''.'') f)))"

definition log_day :: "json \<Rightarrow> int" where
  "log_day j = int (dec_val (log_field j startedAt) div 86400000)"

definition register_uri :: "string \<Rightarrow> bool" where
  "register_uri s \<longleftrightarrow> (case split_on (CHR ''/'') s of
     [e, a, b, c, d, app, svc] \<Rightarrow> [e, a, b, c, d, svc] = [[], ''mep'', ''mec_service_mgmt'', ''v1'', ''applications'', ''services''] \<and> app \<noteq> []
   | _ \<Rightarrow> False)"

definition mem_moment :: "int \<Rightarrow> string \<Rightarrow> int option" where
  "mem_moment t s =
     (if s = ''now/d'' then Some t
      else if has_prefix s ''now-'' then Some (t - int (dec_val (takeWhile is_digit (drop 4 s)))) else None)"

fun log_holds :: "int \<Rightarrow> json \<Rightarrow> es_filter \<Rightarrow> bool" where
  "log_holds t j (TermsQuery f v) = (log_field j f = v)"
| "log_holds t j (PrefixQuery f p) = has_prefix (log_field j f) p"
| "log_holds t j (RegexpQuery f p) = register_uri (log_field j f)"
| "log_holds t j (MatchQuery f v) = (log_field j f = v)"
| "log_holds t j (RangeQuery f lo hi) =
     ((case mem_moment t lo of None \<Rightarrow> False | Some a \<Rightarrow> a \<le> log_day j)
      \<and> (case hi of None \<Rightarrow> True | Some h \<Rightarrow> (case mem_moment t h of None \<Rightarrow> False | Some b \<Rightarrow> log_day j < b)))"

definition mem_logs :: "int \<Rightarrow> json list log_store" where
  "mem_logs t = \<lparr>ls_index = (\<lambda>ix j w. (Inr ''created'', w @ [j])),
     ls_count = (\<lambda>ix q w. (Inr (int (length (filter (\<lambda>j. list_all (log_holds t j) q) w))), w)),
     ls_connect = (\<lambda>w. (None, w)), ls_exists = (\<lambda>ix w. (Inr True, w)), ls_create = (\<lambda>ix m w. (Inr True, w))\<rparr>"

lemma mem_moment_ago: "mem_moment t (''now-'' @ itoa n @ ''d/d'') = Some (t - int n)"
proof -
  have "takeWhile is_digit (itoa n @ ''d/d'') = itoa n"
    using itoa_digits by (subst takeWhile_append2) (auto simp: is_digit_def)
  then show ?thesis by (simp add: mem_moment_def has_prefix_def)
qed

interpretation mem_elastic: elastic "mem_logs t" "\<lambda>w. w" "log_holds t" log_day "mem_moment t" t
proof
  show "mem_moment t (''now-'' @ itoa k @ ''d/d'') = Some (t - int k)" for k by (rule mem_moment_ago)
  show "mem_moment t ''now/d'' = Some t" by (simp add: mem_moment_def)
qed (auto simp: mem_logs_def split: option.splits)

section \<open>Properties of the log\<close>

text \<open>(C28) The log records the application of the token.  For a call with a bearer token
  \<open>header.payload.signature\<close>, whose parts are encoded as tokens are, the stored document is the
  posted one with the subject of the token's claims as \<open>appInstanceId\<close>, whenever the encoded
  payload does not use the two characters in which the URL alphabet differs from the standard one;
  when it does, the application is null.  Without a client, when the search service could not be
  reached at the start, the handler panics.\<close>

theorem logged_application:
  assumes "parse msg = Inr (JObject kvs)" and "unmarshal_map (map_index kvs ''request'') = Inr headerMap"
    and "unmarshal_ReqHeaders (map_index headerMap ''headers'') = Inr headers"
    and "rq_Authorization headers = ''Bearer '' @ header @ ''.'' @ b64_encode b64_url payload @ ''.'' @ signature"
    and "CHR ''.'' \<notin> set header" and "claims payload = Inr subject"
  shows "CreateKongHttpLog_OnRequest parse claims EsClient (Inr msg) w =
    (case EsClient of
       None \<Rightarrow> (PlanPanic nil_client, w)
     | Some E \<Rightarrow> apfst PlanOk (ls_index E KongHttpLogIndex
         (JObject (al_put ''appInstanceId'' (if plain_url payload then JString subject else JNull) kvs)) w))"
proof -
  let ?a = "rq_Authorization headers" and ?p = "b64_encode b64_url payload"
  have dots: "CHR ''.'' \<notin> set (''Bearer '' @ header)" "CHR ''.'' \<notin> set ?p" using assms(5) url_free [of "CHR ''.''" payload] by auto
  have a: "?a = (''Bearer '' @ header) @ CHR ''.'' # ?p @ CHR ''.'' # signature" using assms(4) by simp
  have i: "char_index ?a (CHR ''.'') = int (length (''Bearer '' @ header))" unfolding a by (rule char_index_app [OF dots(1)])
  have sub: "drop (nat (char_index ?a (CHR ''.'') + 1)) ?a = ?p @ CHR ''.'' # signature"
    unfolding i unfolding a by (rule drop_index)
  have j: "char_index (?p @ CHR ''.'' # signature) (CHR ''.'') = int (length ?p)" by (rule char_index_app [OF dots(2)])
  have b: "has_prefix ?a ''Bearer''" by (simp add: a has_prefix_def)
  have "parseAuthorization claims ?a = Inr (if plain_url payload then Some subject else None)"
    unfolding parseAuthorization_def Let_def sub j using b assms(6) by (simp add: raw_std_url)
  then have "parseRequest claims kvs = Inr (if plain_url payload then Some subject else None)"
    using assms(2,3) by (simp add: parseRequest_def)
  then show ?thesis
    using assms(1) by (simp add: CreateKongHttpLog_OnRequest_def app_json_def apfst_def map_prod_def split: prod.split option.split)
qed

text \<open>A call with a token whose payload is \<open>{"sub":"a1"}\<close>.\<close>

definition sample_headers :: "(string \<times> json) list" where
  "sample_headers = [(''host'', JString ''mep''), (''authorization'',
     JString (''Bearer '' @ ''eyJhbGciOiJSUzUxMiJ9'' @ ''.'' @ b64_encode b64_url ''{\"sub\":\"a1\"}'' @ ''.'' @ ''c2ln''))]"

definition sample_call :: "(string \<times> json) list" where
  "sample_call = [(''started_at'', JNumber ''1641600000000''), (''service'', JObject [(''name'', JString ''face'')]),
     (''request'', JObject [(''method'', JString ''GET''), (''headers'', JObject sample_headers)])]"

theorem logged_application_witness:
  "CreateKongHttpLog_OnRequest (\<lambda>m. Inr (JObject sample_call)) (\<lambda>p. Inr ''a1'') (Some (mem_logs 19000)) (Inr ''body'') []
   = (PlanOk (Inr ''created''), [JObject (sample_call @ [(''appInstanceId'', JString ''a1'')])])"
proof -
  let ?a = "''Bearer '' @ ''eyJhbGciOiJSUzUxMiJ9'' @ ''.'' @ b64_encode b64_url ''{\"sub\":\"a1\"}'' @ ''.'' @ ''c2ln''"
  have m: "unmarshal_map (map_index sample_call ''request'') = Inr [(''method'', JString ''GET''), (''headers'', JObject sample_headers)]"
    by (simp add: sample_call_def map_index_def)
  have h: "unmarshal_ReqHeaders (map_index [(''method'', JString ''GET''), (''headers'', JObject sample_headers)] ''headers'')
      = Inr \<lparr>rq_Host = ''mep'', rq_ContentType = [], rq_Authorization = ?a\<rparr>"
    by code_simp
  have p: "plain_url ''{\"sub\":\"a1\"}''" by code_simp
  have "al_put ''appInstanceId'' (JString ''a1'') sample_call = sample_call @ [(''appInstanceId'', JString ''a1'')]"
    by (simp add: sample_call_def)
  then show ?thesis
    using logged_application [where parse = "\<lambda>m. Inr (JObject sample_call)" and claims = "\<lambda>p. Inr ''a1''" and msg = "''body''"
        and EsClient = "Some (mem_logs 19000)" and w = "[]", OF refl m h, of "''eyJhbGciOiJSUzUxMiJ9''" "''{\"sub\":\"a1\"}''" "''c2ln''" "''a1''"] p
    by (simp add: mem_logs_def)
qed

text \<open>What stops the logging of a call.  Reading the authorization header panics exactly when it
  starts with \<open>Bearer\<close> and has fewer than two dots.\<close>

theorem bearer_without_dots_panics:
  "(\<exists>e. parseAuthorization claims authorization = Inl e) \<longleftrightarrow>
   has_prefix authorization ''Bearer'' \<and> count_list authorization (CHR ''.'') < 2"
proof (cases "CHR ''.'' \<in> set authorization")
  case False
  then have "char_index authorization (CHR ''.'') = -1"
    using char_index_neg [of authorization "CHR ''.''"] by (auto simp: char_index_def Let_def split: if_splits)
  with False show ?thesis
    by (simp add: parseAuthorization_def Let_def char_index_neg count_list_0_iff [THEN iffD2])
next
  case True
  then obtain s t where a: "authorization = s @ CHR ''.'' # t" and s: "CHR ''.'' \<notin> set s" by (meson split_list_first)
  have d: "drop (nat (char_index authorization (CHR ''.'') + 1)) authorization = t"
    unfolding a char_index_app [OF s] by (rule drop_index)
  have "count_list authorization (CHR ''.'') = Suc (count_list t (CHR ''.''))"
    using s by (simp add: a count_list_0_iff [THEN iffD2])
  then have "count_list authorization (CHR ''.'') < 2 \<longleftrightarrow> char_index t (CHR ''.'') < 0"
    by (simp add: char_index_neg count_list_0_iff)
  then show ?thesis
    unfolding parseAuthorization_def Let_def d by (auto split: option.splits sum.splits)
qed

text \<open>Every call is counted once.  With a search service that answers, the statistics of the
  services have one line per name, and the seven numbers of a line add up to the number of logged
  calls since six days ago of services whose name starts with that name: no call of these days is
  counted twice or left out.\<close>

theorem week_counts_once:
  assumes "elastic E logs holds day moment today" and "statisticAppServices E names w = (calls, w')"
  shows "map kc_name calls = names \<and> (\<forall>c\<in>set calls. length (kc_callTimes c) = 7 \<and>
    sum_list (kc_callTimes c)
      = int (length (filter (\<lambda>l. holds l (PrefixQuery ''service.name.keyword'' (kc_name c)) \<and> today - 6 \<le> day l) (logs w))))"
  using assms(2)
proof (induction names arbitrary: calls w w')
  case (Cons n names)
  let ?q = "[PrefixQuery ''service.name.keyword'' n]"
  obtain ns v where d: "count_days E ?q [0..<WeekDay] w = (ns, v)" by fastforce
  obtain cs u where r: "statisticAppServices E names v = (cs, u)" by fastforce
  note e = elastic.count_days_exact [OF assms(1) d]
  have week: "[0..<WeekDay] = [0..<Suc 6]" by (simp add: WeekDay_def)
  have "sum_list ns = int (length (filter (\<lambda>l. holds l (hd ?q) \<and> today - int 6 \<le> day l) (logs w)))"
    unfolding e(1) elastic.time_range [OF assms(1)] week week_sum [symmetric] by simp
  moreover have "length ns = 7" unfolding e(1) by (simp add: WeekDay_def)
  ultimately show ?case using Cons.IH [OF r] Cons.prems e(2) by (auto simp: d r)
qed simp

text \<open>Two calls of \<open>face\<close>, on the eighth and the fifth of January 2022, seen on the eighth; one
  of \<open>plate\<close>, and one long ago.\<close>

definition call_at :: "string \<Rightarrow> string \<Rightarrow> json" where
  "call_at ms name = JObject [(''started_at'', JNumber ms), (''service'', JObject [(''name'', JString name)])]"

definition sample_logs :: "json list" where
  "sample_logs = [call_at ''1641600000000'' ''face'', call_at ''1641390000000'' ''face'', call_at ''1641600000001'' ''plate'',
     call_at ''1600000000000'' ''face'']"

theorem week_counts_once_witness:
  "map (\<lambda>c. (kc_name c, sum_list (kc_callTimes c))) (fst (statisticAppServices (mem_logs 19000) [''face''] sample_logs)) = [(''face'', 2)]"
proof -
  obtain calls w' where run: "statisticAppServices (mem_logs 19000) [''face''] sample_logs = (calls, w')" by fastforce
  have "length (filter (\<lambda>l. log_holds 19000 l (PrefixQuery ''service.name.keyword'' ''face'') \<and> 19000 - 6 \<le> log_day l) sample_logs) = 2"
    by code_simp
  with week_counts_once [OF mem_elastic.elastic_axioms run] show ?thesis
    unfolding run fst_conv by auto
qed

end
