(* ===== verification/Auth_Blocklist.thy ===== *)
theory Auth_Blocklist
  imports Mep_Prelude
begin

text \<open>
  The block list of mepauth (\<open>mepauth/controllers/blocklist.go\<close>): the table of
  sessions by access key, the timers that end them and the goroutines that wait for the
  timers.  Sessions are objects behind pointers that the table and the goroutines share,
  so the state has a heap of sessions and a list of timers, both indexed by allocation.
  A goroutine reads the timer of its session when it is scheduled, which may be later than
  its creation; a fired timer holds its tick until a goroutine receives it.  Every step is
  atomic; the interleaving of the steps is arbitrary.
\<close>

section \<open>State\<close>

definition ValidationCounter :: int where "ValidationCounter = 3"
definition ValidateListClearTimer :: nat where "ValidateListClearTimer = 300"
definition BlockListClearTimer :: nat where "BlockListClearTimer = 900"

record AkSessionInfo =
  ses_ClearTimer :: nat
  ses_State :: string
  ses_Ak :: string
  ses_ValidateCounter :: int

text \<open>A \<open>time.Timer\<close>: running for a number of seconds, fired with its tick
  in the channel, or without a tick to come (stopped, or its tick received).\<close>

datatype go_timer = Running nat | Fired | Silent

text \<open>The goroutine that clears a session: the key and session it captured, and
  whether it has not run yet, waits on the channel of a timer, or has ended.\<close>

datatype clearer_state = Starting | Waiting nat | Ended

record clearer =
  cl_ak :: string
  cl_session :: nat
  cl_state :: clearer_state

record blocklist =
  bl_authInfoList :: "(string \<times> nat) list"
  bl_sessions :: "AkSessionInfo list"
  bl_timers :: "go_timer list"
  bl_clearers :: "clearer list"

abbreviation UnderBlockList :: string where "UnderBlockList \<equiv> ''UnderBlockList''"
abbreviation ValidationInProgress :: string where "ValidationInProgress \<equiv> ''ValidationInProgress''"

definition InitAuthInfoList :: "blocklist \<Rightarrow> blocklist" where
  "InitAuthInfoList b = b\<lparr>bl_authInfoList := []\<rparr>"

definition no_sessions :: blocklist where
  "no_sessions = InitAuthInfoList \<lparr>bl_authInfoList = [], bl_sessions = [], bl_timers = [], bl_clearers = []\<rparr>"

section \<open>Operations\<close>

definition isAkInBlockList :: "string \<Rightarrow> blocklist \<Rightarrow> bool" where
  "isAkInBlockList ak b =
     (case map_of (bl_authInfoList b) ak of
        Some a \<Rightarrow> ses_State (bl_sessions b ! a) = UnderBlockList
      | None \<Rightarrow> False)"

definition isAkInValidationList :: "string \<Rightarrow> blocklist \<Rightarrow> bool" where
  "isAkInValidationList ak b =
     (case map_of (bl_authInfoList b) ak of
        Some a \<Rightarrow> ses_State (bl_sessions b ! a) = ValidationInProgress
      | None \<Rightarrow> False)"

definition startValidatingAk :: "string \<Rightarrow> blocklist \<Rightarrow> blocklist" where
  "startValidatingAk ak b =
     (let t = length (bl_timers b);
          a = length (bl_sessions b);
          akInfo = \<lparr>ses_ClearTimer = t, ses_State = ValidationInProgress, ses_Ak = ak,
                    ses_ValidateCounter = 0 + 1\<rparr>
      in b\<lparr>bl_timers := bl_timers b @ [Running ValidateListClearTimer],
            bl_sessions := bl_sessions b @ [akInfo],
            bl_clearers := bl_clearers b @ [\<lparr>cl_ak = ak, cl_session = a, cl_state = Starting\<rparr>],
            bl_authInfoList := al_put ak a (bl_authInfoList b)\<rparr>)"

text \<open>\<open>Timer.Stop\<close>: a tick already in the channel stays there.\<close>

definition stop_timer :: "nat \<Rightarrow> blocklist \<Rightarrow> blocklist" where
  "stop_timer t b =
     (case bl_timers b ! t of
        Running _ \<Rightarrow> b\<lparr>bl_timers := (bl_timers b)[t := Silent]\<rparr>
      | _ \<Rightarrow> b)"

definition stopValidatingAk :: "string \<Rightarrow> blocklist \<Rightarrow> blocklist" where
  "stopValidatingAk ak b =
     (case map_of (bl_authInfoList b) ak of
        Some a \<Rightarrow>
          let akInfo = bl_sessions b ! a
          in stop_timer (ses_ClearTimer akInfo)
               (b\<lparr>bl_sessions := (bl_sessions b)
                    [a := akInfo\<lparr>ses_State := ''None'', ses_ValidateCounter := 0\<rparr>]\<rparr>)
      | None \<Rightarrow> b)"

definition startBlockListingAk :: "string \<Rightarrow> blocklist \<Rightarrow> blocklist" where
  "startBlockListingAk ak b =
     (case map_of (bl_authInfoList b) ak of
        Some a \<Rightarrow>
          let t = length (bl_timers b);
              akInfo = bl_sessions b ! a
          in b\<lparr>bl_sessions := (bl_sessions b)
                 [a := akInfo\<lparr>ses_State := UnderBlockList, ses_ClearTimer := t\<rparr>],
               bl_timers := bl_timers b @ [Running BlockListClearTimer],
               bl_clearers := bl_clearers b @ [\<lparr>cl_ak = ak, cl_session = a, cl_state = Starting\<rparr>]\<rparr>
      | None \<Rightarrow> b)"

definition processAkForBlockListing :: "string \<Rightarrow> blocklist \<Rightarrow> blocklist" where
  "processAkForBlockListing ak b =
     (if isAkInValidationList ak b then
        (case map_of (bl_authInfoList b) ak of
           Some a \<Rightarrow>
             let akInfo = bl_sessions b ! a;
                 n = ses_ValidateCounter akInfo + 1;
                 b1 = b\<lparr>bl_sessions := (bl_sessions b)[a := akInfo\<lparr>ses_ValidateCounter := n\<rparr>]\<rparr>
             in if n \<ge> ValidationCounter then startBlockListingAk ak (stopValidatingAk ak b1)
                else b1
         | None \<Rightarrow> b)
      else startValidatingAk ak b)"

definition clearAkFromBlockListing :: "string \<Rightarrow> blocklist \<Rightarrow> blocklist" where
  "clearAkFromBlockListing ak b =
     (if isAkInValidationList ak b
      then let b1 = stopValidatingAk ak b
           in b1\<lparr>bl_authInfoList := al_del ak (bl_authInfoList b1)\<rparr>
      else b)"

section \<open>The goroutines\<close>

text \<open>A scheduled clearer evaluates \<open>akInfo.ClearTimer.C\<close>, and with a tick in
  that channel it takes the tick and deletes the entry of its key, whatever session the
  entry holds by then.\<close>

definition clearer_starts :: "nat \<Rightarrow> blocklist \<Rightarrow> blocklist" where
  "clearer_starts i b =
     (let c = bl_clearers b ! i
      in b\<lparr>bl_clearers := (bl_clearers b)
             [i := c\<lparr>cl_state := Waiting (ses_ClearTimer (bl_sessions b ! cl_session c))\<rparr>]\<rparr>)"

definition timer_fires :: "nat \<Rightarrow> blocklist \<Rightarrow> blocklist" where
  "timer_fires t b = b\<lparr>bl_timers := (bl_timers b)[t := Fired]\<rparr>"

definition clearer_wakes :: "nat \<Rightarrow> nat \<Rightarrow> blocklist \<Rightarrow> blocklist" where
  "clearer_wakes i t b =
     (let c = bl_clearers b ! i
      in b\<lparr>bl_timers := (bl_timers b)[t := Silent],
            bl_clearers := (bl_clearers b)[i := c\<lparr>cl_state := Ended\<rparr>],
            bl_authInfoList := al_del (cl_ak c) (bl_authInfoList b)\<rparr>)"

datatype bl_event =
    InvalidSignature string
  | ValidSignature string
  | ClearerStarts nat
  | TimerFires nat
  | ClearerWakes nat

text \<open>The step of an event, where it is enabled.\<close>

fun bl_exec :: "bl_event \<Rightarrow> blocklist \<Rightarrow> blocklist option" where
  "bl_exec (InvalidSignature ak) b = Some (processAkForBlockListing ak b)"
| "bl_exec (ValidSignature ak) b = Some (clearAkFromBlockListing ak b)"
| "bl_exec (ClearerStarts i) b =
     (if i < length (bl_clearers b) \<and> cl_state (bl_clearers b ! i) = Starting
      then Some (clearer_starts i b) else None)"
| "bl_exec (TimerFires t) b =
     (if t < length (bl_timers b)
      then (case bl_timers b ! t of Running _ \<Rightarrow> Some (timer_fires t b) | _ \<Rightarrow> None) else None)"
| "bl_exec (ClearerWakes i) b =
     (if i < length (bl_clearers b)
      then (case cl_state (bl_clearers b ! i) of
              Waiting t \<Rightarrow> if bl_timers b ! t = Fired then Some (clearer_wakes i t b) else None
            | _ \<Rightarrow> None)
      else None)"

fun bl_run :: "bl_event list \<Rightarrow> blocklist \<Rightarrow> blocklist option" where
  "bl_run [] b = Some b"
| "bl_run (e # es) b = (case bl_exec e b of Some b' \<Rightarrow> bl_run es b' | None \<Rightarrow> None)"

inductive bl_reach :: "blocklist \<Rightarrow> bool" where
  reach_init: "bl_reach no_sessions"
| reach_step: "bl_reach b \<Longrightarrow> bl_exec e b = Some b' \<Longrightarrow> bl_reach b'"

section \<open>What the table means\<close>

datatype ak_status = Free | Failing int | Blocked

definition ak_status :: "string \<Rightarrow> blocklist \<Rightarrow> ak_status" where
  "ak_status ak b =
     (case map_of (bl_authInfoList b) ak of
        None \<Rightarrow> Free
      | Some a \<Rightarrow> if ses_State (bl_sessions b ! a) = UnderBlockList then Blocked
                  else Failing (ses_ValidateCounter (bl_sessions b ! a)))"

fun spec_fail :: "ak_status \<Rightarrow> ak_status" where
  "spec_fail Free = Failing 1"
| "spec_fail (Failing n) = (if n \<ge> 2 then Blocked else Failing (n + 1))"
| "spec_fail Blocked = Failing 1"

fun spec_success :: "ak_status \<Rightarrow> ak_status" where
  "spec_success Blocked = Blocked"
| "spec_success _ = Free"

text \<open>The abstract step of one key.\<close>

fun spec_step :: "string \<Rightarrow> blocklist \<Rightarrow> bl_event \<Rightarrow> ak_status \<Rightarrow> ak_status" where
  "spec_step ak b (InvalidSignature ak') s = (if ak' = ak then spec_fail s else s)"
| "spec_step ak b (ValidSignature ak') s = (if ak' = ak then spec_success s else s)"
| "spec_step ak b (ClearerStarts i) s = s"
| "spec_step ak b (TimerFires t) s = s"
| "spec_step ak b (ClearerWakes i) s = (if cl_ak (bl_clearers b ! i) = ak then Free else s)"

text \<open>A run that leaves a key alone but for failed signatures: no valid signature of it,
  and no goroutine of it that takes a tick.\<close>

fun leaves_key :: "string \<Rightarrow> blocklist \<Rightarrow> bl_event \<Rightarrow> bool" where
  "leaves_key ak b (ValidSignature ak') = (ak' \<noteq> ak)"
| "leaves_key ak b (ClearerWakes i) = (cl_ak (bl_clearers b ! i) \<noteq> ak)"
| "leaves_key ak b _ = True"

fun left_alone :: "string \<Rightarrow> bl_event list \<Rightarrow> blocklist \<Rightarrow> bool" where
  "left_alone ak [] b = True"
| "left_alone ak (e # es) b =
     (leaves_key ak b e \<and> (case bl_exec e b of Some b' \<Rightarrow> left_alone ak es b' | None \<Rightarrow> True))"

definition failures :: "string \<Rightarrow> bl_event list \<Rightarrow> nat" where
  "failures ak es = length (filter (\<lambda>e. e = InvalidSignature ak) es)"

definition clock_event :: "bl_event \<Rightarrow> bool" where
  "clock_event e = (case e of InvalidSignature _ \<Rightarrow> False | ValidSignature _ \<Rightarrow> False | _ \<Rightarrow> True)"

section \<open>Invariant\<close>

text \<open>A listed session is an allocated one of that key, is being validated with one or
  two failures or is blocked, and has a timer that will tick or has ticked and a goroutine
  that will take that tick; no two sessions share a timer, and a goroutine waits on a timer
  of its own session.\<close>

definition ends_session :: "string \<Rightarrow> nat \<Rightarrow> blocklist \<Rightarrow> bool" where
  "ends_session ak a b \<longleftrightarrow>
     (let t = ses_ClearTimer (bl_sessions b ! a)
      in t < length (bl_timers b) \<and> bl_timers b ! t \<noteq> Silent \<and>
         (\<exists>c\<in>set (bl_clearers b). cl_ak c = ak \<and> cl_session c = a \<and>
            (cl_state c = Starting \<or> cl_state c = Waiting t)))"

definition listed_ok :: "string \<Rightarrow> nat \<Rightarrow> blocklist \<Rightarrow> bool" where
  "listed_ok ak a b \<longleftrightarrow>
     a < length (bl_sessions b) \<and> ses_Ak (bl_sessions b ! a) = ak \<and>
     (ses_State (bl_sessions b ! a) = UnderBlockList \<or>
      ses_State (bl_sessions b ! a) = ValidationInProgress \<and>
      ses_ValidateCounter (bl_sessions b ! a) \<in> {1, 2}) \<and>
     ends_session ak a b"

definition clearer_ok :: "blocklist \<Rightarrow> clearer \<Rightarrow> bool" where
  "clearer_ok b c \<longleftrightarrow>
     cl_session c < length (bl_sessions b) \<and> ses_Ak (bl_sessions b ! cl_session c) = cl_ak c \<and>
     (\<forall>t. cl_state c = Waiting t \<longrightarrow> t < length (bl_timers b))"

definition timers_own :: "blocklist \<Rightarrow> bool" where
  "timers_own b \<longleftrightarrow>
     (\<forall>a < length (bl_sessions b). ses_ClearTimer (bl_sessions b ! a) < length (bl_timers b) \<and>
        (\<forall>a' < length (bl_sessions b). a \<noteq> a' \<longrightarrow>
           ses_ClearTimer (bl_sessions b ! a) \<noteq> ses_ClearTimer (bl_sessions b ! a')) \<and>
        (\<forall>c\<in>set (bl_clearers b). cl_session c \<noteq> a \<longrightarrow>
           cl_state c \<noteq> Waiting (ses_ClearTimer (bl_sessions b ! a))))"

definition bl_inv :: "blocklist \<Rightarrow> bool" where
  "bl_inv b \<longleftrightarrow>
     (\<forall>ak a. map_of (bl_authInfoList b) ak = Some a \<longrightarrow> listed_ok ak a b) \<and>
     (\<forall>c\<in>set (bl_clearers b). clearer_ok b c) \<and> timers_own b"

text \<open>The two effects of a failed signature on a listed session: the second failure is
  counted, the third blocks.\<close>

definition count_failure :: "nat \<Rightarrow> blocklist \<Rightarrow> blocklist" where
  "count_failure a b = b\<lparr>bl_sessions := (bl_sessions b)[a := (bl_sessions b ! a)\<lparr>ses_ValidateCounter := 2\<rparr>]\<rparr>"

definition block_session :: "string \<Rightarrow> nat \<Rightarrow> blocklist \<Rightarrow> blocklist" where
  "block_session ak a b =
     (let b1 = stop_timer (ses_ClearTimer (bl_sessions b ! a)) b
      in b1\<lparr>bl_sessions := (bl_sessions b)
               [a := (bl_sessions b ! a)\<lparr>ses_ValidateCounter := 0, ses_State := UnderBlockList,
                      ses_ClearTimer := length (bl_timers b)\<rparr>],
             bl_timers := bl_timers b1 @ [Running BlockListClearTimer],
             bl_clearers := bl_clearers b @ [\<lparr>cl_ak = ak, cl_session = a, cl_state = Starting\<rparr>]\<rparr>)"

lemmas bl_inv_defs = bl_inv_def listed_ok_def ends_session_def clearer_ok_def timers_own_def Let_def

section \<open>Preservation\<close>

lemma inv_init: "bl_inv no_sessions"
  by (simp add: bl_inv_defs no_sessions_def InitAuthInfoList_def)

lemma inv_start_validating:
  assumes "bl_inv b" shows "bl_inv (startValidatingAk ak b)"
  using assms
  by (auto simp: bl_inv_defs startValidatingAk_def nth_append less_Suc_eq)

lemma stop_timer_simps [simp]:
  "bl_authInfoList (stop_timer t b) = bl_authInfoList b"
  "bl_sessions (stop_timer t b) = bl_sessions b"
  "bl_clearers (stop_timer t b) = bl_clearers b"
  "length (bl_timers (stop_timer t b)) = length (bl_timers b)"
  "stop_timer t (b\<lparr>bl_sessions := ss\<rparr>) = (stop_timer t b)\<lparr>bl_sessions := ss\<rparr>"
  by (simp_all add: stop_timer_def split: go_timer.splits)

lemma nth_stop_timer [simp]: "t' \<noteq> t \<Longrightarrow> bl_timers (stop_timer t b) ! t' = bl_timers b ! t'"
  by (simp add: stop_timer_def split: go_timer.splits)

lemma inv_listed:
  "bl_inv b \<Longrightarrow> map_of (bl_authInfoList b) ak = Some a \<Longrightarrow> listed_ok ak a b"
  by (simp add: bl_inv_def)

text \<open>What a failed signature does to the table, by the status of its key.\<close>

lemma process_cases:
  assumes "bl_inv b"
  shows "ak_status ak b \<in> {Free, Blocked} \<and>
           processAkForBlockListing ak b = startValidatingAk ak b \<or>
         (\<exists>a. map_of (bl_authInfoList b) ak = Some a \<and> ak_status ak b = Failing 1 \<and>
           processAkForBlockListing ak b = count_failure a b) \<or>
         (\<exists>a. map_of (bl_authInfoList b) ak = Some a \<and> ak_status ak b = Failing 2 \<and>
           processAkForBlockListing ak b = block_session ak a b)"
proof (cases "map_of (bl_authInfoList b) ak")
  case None
  then show ?thesis
    by (simp add: ak_status_def processAkForBlockListing_def isAkInValidationList_def)
next
  case (Some a)
  then have "listed_ok ak a b" using inv_listed [OF assms] by blast
  with Some show ?thesis
    by (auto simp: listed_ok_def ak_status_def processAkForBlockListing_def isAkInValidationList_def
      ValidationCounter_def count_failure_def block_session_def stopValidatingAk_def
      startBlockListingAk_def Let_def)
qed

lemma inv_count_failure:
  assumes "bl_inv b" "map_of (bl_authInfoList b) ak = Some a"
  shows "bl_inv (count_failure a b)"
  using assms unfolding bl_inv_defs count_failure_def
  by (auto simp: nth_list_update)

lemma bl_invI:
  assumes "\<And>ak a. map_of (bl_authInfoList b) ak = Some a \<Longrightarrow> listed_ok ak a b"
    and "\<And>c. c \<in> set (bl_clearers b) \<Longrightarrow> clearer_ok b c" and "timers_own b"
  shows "bl_inv b"
  using assms by (simp add: bl_inv_def)

lemma inv_clearer: "bl_inv b \<Longrightarrow> c \<in> set (bl_clearers b) \<Longrightarrow> clearer_ok b c"
  by (simp add: bl_inv_def)

lemma inv_timers: "bl_inv b \<Longrightarrow> timers_own b"
  by (simp add: bl_inv_def)

lemma inv_one_key:
  "bl_inv b \<Longrightarrow> map_of (bl_authInfoList b) ak = Some a \<Longrightarrow> map_of (bl_authInfoList b) ak' = Some a \<Longrightarrow> ak' = ak"
  using inv_listed [of b ak a] inv_listed [of b ak' a] by (simp add: listed_ok_def)

lemma listed_other_timer:
  assumes "bl_inv b" "map_of (bl_authInfoList b) ak = Some a" "map_of (bl_authInfoList b) ak' = Some a'" "a' \<noteq> a"
  shows "ses_ClearTimer (bl_sessions b ! a') \<noteq> ses_ClearTimer (bl_sessions b ! a)"
  using inv_listed [OF assms(1,2)] inv_listed [OF assms(1,3)] inv_timers [OF assms(1)] assms(4)
  by (simp add: listed_ok_def timers_own_def)

lemma timers_own_replace:
  assumes "timers_own b" "\<And>c. c \<in> set (bl_clearers b) \<Longrightarrow> clearer_ok b c" "a < length (bl_sessions b)"
    and "bl_sessions b' = (bl_sessions b)[a := s]" "ses_ClearTimer s = length (bl_timers b)"
    and "length (bl_timers b') = Suc (length (bl_timers b))"
    and "bl_clearers b' = bl_clearers b @ [c]" "cl_state c = Starting"
  shows "timers_own b'"
proof -
  have lt: "ses_ClearTimer (bl_sessions b ! x) < length (bl_timers b)" if "x < length (bl_sessions b)" for x
    using assms(1) that by (simp add: timers_own_def)
  have w: "cl_state d \<noteq> Waiting (length (bl_timers b))" if "d \<in> set (bl_clearers b)" for d
    using assms(2) [OF that] by (auto simp: clearer_ok_def)
  show ?thesis
    unfolding timers_own_def assms(4,6,7)
  proof (intro allI impI conjI ballI)
    fix x assume x: "x < length ((bl_sessions b)[a := s])"
    show "ses_ClearTimer ((bl_sessions b)[a := s] ! x) < Suc (length (bl_timers b))"
      using lt [of x] x assms(3) by (simp add: nth_list_update assms(5))
    show "ses_ClearTimer ((bl_sessions b)[a := s] ! x) \<noteq> ses_ClearTimer ((bl_sessions b)[a := s] ! y)"
      if "y < length ((bl_sessions b)[a := s])" "x \<noteq> y" for y
      using lt [of x] lt [of y] x that assms(1,3) by (auto simp: nth_list_update assms(5) timers_own_def)
    show "cl_state d \<noteq> Waiting (ses_ClearTimer ((bl_sessions b)[a := s] ! x))"
      if "d \<in> set (bl_clearers b @ [c])" "cl_session d \<noteq> x" for d
      using that x w [of d] assms(1,3,8) by (auto simp: nth_list_update assms(5) timers_own_def)
  qed
qed

lemma ses_ClearTimer_update:
  "ses_ClearTimer r = ses_ClearTimer (xs ! a) \<Longrightarrow> ses_ClearTimer (xs[a := r] ! x) = ses_ClearTimer (xs ! x)"
  by (cases "a < length xs") (auto simp: nth_list_update list_update_beyond)

lemma inv_block_session:
  assumes "bl_inv b" "map_of (bl_authInfoList b) ak = Some a"
  shows "bl_inv (block_session ak a b)" (is "bl_inv ?b'")
proof (rule bl_invI)
  have l: "listed_ok ak a b" using inv_listed [OF assms] .
  show "listed_ok ak' a' ?b'" if "map_of (bl_authInfoList ?b') ak' = Some a'" for ak' a'
  proof -
    have m: "map_of (bl_authInfoList b) ak' = Some a'"
      using that by (simp add: block_session_def Let_def)
    show ?thesis
    proof (cases "a' = a")
      case True
      then show ?thesis using l inv_one_key [OF assms] m
        by (simp add: listed_ok_def ends_session_def block_session_def Let_def nth_append)
    next
      case False
      then show ?thesis using inv_listed [OF assms(1) m] listed_other_timer [OF assms m]
        by (auto simp: listed_ok_def ends_session_def block_session_def Let_def nth_append)
    qed
  qed
  show "clearer_ok ?b' c" if "c \<in> set (bl_clearers ?b')" for c
    using that l inv_clearer [OF assms(1)]
    by (auto simp: clearer_ok_def block_session_def Let_def nth_list_update listed_ok_def
      intro: less_SucI)
  show "timers_own ?b'"
    by (rule timers_own_replace [OF inv_timers [OF assms(1)] inv_clearer [OF assms(1)], where a = a
        and s = "(bl_sessions b ! a)\<lparr>ses_ValidateCounter := 0, ses_State := UnderBlockList,
                   ses_ClearTimer := length (bl_timers b)\<rparr>"
        and c = "\<lparr>cl_ak = ak, cl_session = a, cl_state = Starting\<rparr>"])
      (use l in \<open>simp_all add: block_session_def Let_def listed_ok_def\<close>)
qed

lemma inv_process:
  assumes "bl_inv b" shows "bl_inv (processAkForBlockListing ak b)"
  using process_cases [OF assms, of ak] inv_start_validating [OF assms] inv_count_failure [OF assms]
    inv_block_session [OF assms]
  by auto

lemma set_list_update_keep: "x \<in> set xs \<Longrightarrow> x \<noteq> xs ! i \<Longrightarrow> x \<in> set (xs[i := y])"
  by (metis in_set_conv_nth length_list_update nth_list_update_neq)

lemma set_list_update_cases: "x \<in> set (xs[i := y]) \<Longrightarrow> x = y \<or> x \<in> set xs"
  using set_update_subset_insert by fastforce

lemma nth_update_Silent: "xs[t := Fired] ! t' = Silent \<Longrightarrow> xs ! t' = Silent"
  by (cases "t < length xs"; cases "t = t'") (auto simp: list_update_beyond)

lemma inv_clear:
  assumes "bl_inv b" shows "bl_inv (clearAkFromBlockListing ak b)" (is "bl_inv ?b'")
proof (cases "map_of (bl_authInfoList b) ak")
  case None
  then show ?thesis using assms by (simp add: clearAkFromBlockListing_def isAkInValidationList_def)
next
  case (Some a)
  show ?thesis
  proof (cases "isAkInValidationList ak b")
    case False
    then show ?thesis using assms by (simp add: clearAkFromBlockListing_def)
  next
    case v: True
    note defs = clearAkFromBlockListing_def v stopValidatingAk_def Some Let_def
    show ?thesis
    proof (rule bl_invI)
      show "listed_ok ak' a' ?b'" if "map_of (bl_authInfoList ?b') ak' = Some a'" for ak' a'
      proof -
        have m: "map_of (bl_authInfoList b) ak' = Some a'" "ak' \<noteq> ak"
          using that by (auto simp: defs split: if_splits)
        then have "a' \<noteq> a" using inv_one_key [OF assms Some, of ak'] by auto
        then show ?thesis using inv_listed [OF assms m(1)] listed_other_timer [OF assms Some m(1)]
          by (simp add: listed_ok_def ends_session_def defs)
      qed
      show "clearer_ok ?b' c" if "c \<in> set (bl_clearers ?b')" for c
        using that inv_clearer [OF assms, of c] inv_listed [OF assms Some]
        by (simp add: clearer_ok_def defs nth_list_update listed_ok_def)
      show "timers_own ?b'"
        using inv_timers [OF assms] by (simp add: timers_own_def defs ses_ClearTimer_update)
    qed
  qed
qed

lemma ends_session_update:
  assumes "ends_session ak a b" "bl_sessions b' = bl_sessions b" "bl_timers b' = bl_timers b"
    and "bl_clearers b' = (bl_clearers b)[i := (bl_clearers b ! i)\<lparr>cl_state := s\<rparr>]"
    and "i < length (bl_clearers b)"
    and "cl_session (bl_clearers b ! i) = a \<Longrightarrow> s = Waiting (ses_ClearTimer (bl_sessions b ! a))"
  shows "ends_session ak a b'"
proof -
  obtain c where c: "c \<in> set (bl_clearers b)" "cl_ak c = ak" "cl_session c = a"
      "cl_state c = Starting \<or> cl_state c = Waiting (ses_ClearTimer (bl_sessions b ! a))"
    using assms(1) by (auto simp: ends_session_def Let_def)
  define d where "d = (if c = bl_clearers b ! i then c\<lparr>cl_state := s\<rparr> else c)"
  have "d \<in> set (bl_clearers b')"
    using c(1) assms(4,5) by (auto simp: d_def set_update_memI set_list_update_keep)
  moreover have "cl_ak d = ak \<and> cl_session d = a \<and>
      (cl_state d = Starting \<or> cl_state d = Waiting (ses_ClearTimer (bl_sessions b ! a)))"
    using c assms(6) by (auto simp: d_def)
  ultimately show ?thesis
    using assms(1-3) by (auto simp: ends_session_def Let_def)
qed

lemma inv_clearer_starts:
  assumes "bl_inv b" "i < length (bl_clearers b)"
  shows "bl_inv (clearer_starts i b)"
proof -
  have c: "clearer_ok b (bl_clearers b ! i)" "timers_own b"
    using assms by (auto simp: bl_inv_def)
  have "listed_ok ak a (clearer_starts i b)" if "map_of (bl_authInfoList b) ak = Some a" for ak a
    using inv_listed [OF assms(1) that] assms(2)
    by (auto simp: listed_ok_def clearer_starts_def Let_def elim!: ends_session_update)
  moreover have "clearer_ok (clearer_starts i b) d" if "d \<in> set (bl_clearers (clearer_starts i b))" for d
  proof -
    have "d = (bl_clearers b ! i)\<lparr>cl_state := Waiting (ses_ClearTimer
        (bl_sessions b ! cl_session (bl_clearers b ! i)))\<rparr> \<or> d \<in> set (bl_clearers b)"
      using that by (auto simp: clearer_starts_def Let_def dest: set_list_update_cases)
    then show ?thesis using c inv_clearer [OF assms(1)]
      by (auto simp: clearer_starts_def Let_def clearer_ok_def timers_own_def)
  qed
  moreover have "timers_own (clearer_starts i b)"
    using c assms(2) unfolding timers_own_def clearer_starts_def clearer_ok_def Let_def
    by (auto dest!: set_list_update_cases)
  ultimately show ?thesis
    by (simp add: bl_inv_def clearer_starts_def Let_def)
qed

lemma inv_timer_fires:
  assumes "bl_inv b" shows "bl_inv (timer_fires t b)"
  using assms unfolding bl_inv_defs timer_fires_def
  by (auto dest!: nth_update_Silent)

lemma inv_clearer_wakes:
  assumes "bl_inv b" "i < length (bl_clearers b)" "cl_state (bl_clearers b ! i) = Waiting t"
  shows "bl_inv (clearer_wakes i t b)"
proof -
  let ?c = "bl_clearers b ! i"
  have c: "clearer_ok b ?c" "timers_own b" "?c \<in> set (bl_clearers b)"
    using assms by (auto simp: bl_inv_def)
  have listed: "listed_ok ak a (clearer_wakes i t b)"
    if "map_of (bl_authInfoList b) ak = Some a" "ak \<noteq> cl_ak ?c" for ak a
  proof -
    have l: "listed_ok ak a b" using inv_listed [OF assms(1) that(1)] .
    with c that(2) have ne: "cl_session ?c \<noteq> a" by (auto simp: listed_ok_def clearer_ok_def)
    have "ses_ClearTimer (bl_sessions b ! a) \<noteq> t"
      using c(2,3) assms(3) ne l by (auto simp: timers_own_def listed_ok_def)
    moreover have "ends_session ak a (b\<lparr>bl_clearers := (bl_clearers b)[i := ?c\<lparr>cl_state := Ended\<rparr>]\<rparr>)"
      using l ne assms(2) by (auto simp: listed_ok_def elim!: ends_session_update)
    ultimately show ?thesis
      using l unfolding listed_ok_def clearer_wakes_def ends_session_def Let_def by simp
  qed
  moreover have "clearer_ok (clearer_wakes i t b) d" if "d \<in> set (bl_clearers (clearer_wakes i t b))" for d
  proof -
    have "d = ?c\<lparr>cl_state := Ended\<rparr> \<or> d \<in> set (bl_clearers b)"
      using that by (auto simp: clearer_wakes_def Let_def dest: set_list_update_cases)
    then show ?thesis using c inv_clearer [OF assms(1)]
      by (auto simp: clearer_wakes_def Let_def clearer_ok_def)
  qed
  moreover have "timers_own (clearer_wakes i t b)"
    using c unfolding timers_own_def clearer_wakes_def Let_def
    by (auto dest!: set_list_update_cases)
  ultimately show ?thesis
    by (auto simp: bl_inv_def clearer_wakes_def Let_def split: if_splits)
qed

lemma inv_exec:
  assumes "bl_inv b" "bl_exec e b = Some b'" shows "bl_inv b'"
  using assms inv_process inv_clear inv_clearer_starts inv_timer_fires inv_clearer_wakes
  by (cases e) (auto split: if_splits go_timer.splits clearer_state.splits)

lemma reach_inv: "bl_reach b \<Longrightarrow> bl_inv b"
  by (induction rule: bl_reach.induct) (auto intro: inv_init inv_exec)

section \<open>Refinement\<close>

lemma listed_status:
  "listed_ok ak a b \<Longrightarrow> ses_State (bl_sessions b ! a) = UnderBlockList \<or>
     ses_ValidateCounter (bl_sessions b ! a) \<in> {1, 2}"
  by (auto simp: listed_ok_def)

lemma status_start: "ak_status ak (startValidatingAk ak' b) =
    (if ak' = ak then Failing 1 else ak_status ak b)" if "bl_inv b"
  using inv_listed [OF that, of ak]
  by (auto simp: ak_status_def startValidatingAk_def Let_def nth_append listed_ok_def split: option.splits)

lemma status_update:
  assumes "bl_inv b" "map_of (bl_authInfoList b) ak' = Some a"
    and "bl_authInfoList b' = bl_authInfoList b" "bl_sessions b' = (bl_sessions b)[a := s]"
  shows "ak_status ak b' =
    (if ak' = ak then if ses_State s = UnderBlockList then Blocked else Failing (ses_ValidateCounter s)
     else ak_status ak b)"
proof (cases "map_of (bl_authInfoList b) ak")
  case None
  with assms show ?thesis by (auto simp: ak_status_def)
next
  case (Some a')
  have "a < length (bl_sessions b)"
    using inv_listed [OF assms(1,2)] by (simp add: listed_ok_def)
  moreover have "a' = a \<longleftrightarrow> ak' = ak"
    using inv_one_key [OF assms(1,2), of ak] Some assms(2) by auto
  ultimately show ?thesis
    using Some assms(3,4) by (cases "ak' = ak") (simp_all add: ak_status_def)
qed

lemma status_process:
  assumes "bl_inv b"
  shows "ak_status ak (processAkForBlockListing ak' b) =
    (if ak' = ak then spec_fail (ak_status ak b) else ak_status ak b)"
  using process_cases [OF assms, of ak']
proof (elim disjE exE conjE)
  assume "ak_status ak' b \<in> {Free, Blocked}" "processAkForBlockListing ak' b = startValidatingAk ak' b"
  then show ?thesis using status_start [OF assms] by auto
next
  fix a assume a: "map_of (bl_authInfoList b) ak' = Some a" "ak_status ak' b = Failing 1"
    "processAkForBlockListing ak' b = count_failure a b"
  then have "ses_State (bl_sessions b ! a) \<noteq> UnderBlockList"
    by (auto simp: ak_status_def)
  with a show ?thesis
    using status_update [OF assms a(1), of "count_failure a b" _ ak] by (auto simp: count_failure_def)
next
  fix a assume a: "map_of (bl_authInfoList b) ak' = Some a" "ak_status ak' b = Failing 2"
    "processAkForBlockListing ak' b = block_session ak' a b"
  then show ?thesis
    using status_update [OF assms a(1), of "block_session ak' a b" _ ak]
    by (auto simp: block_session_def Let_def)
qed

lemma status_cong:
  "bl_authInfoList b' = bl_authInfoList b \<Longrightarrow> bl_sessions b' = bl_sessions b \<Longrightarrow> ak_status ak b' = ak_status ak b"
  by (simp add: ak_status_def split: option.splits)

lemma status_del:
  assumes "bl_authInfoList b' = al_del ak' (bl_authInfoList b)" "bl_sessions b' = bl_sessions b"
  shows "ak_status ak b' = (if ak' = ak then Free else ak_status ak b)"
  using assms by (simp add: ak_status_def split: option.splits)

lemma status_wakes:
  "ak_status ak (clearer_wakes i t b) = (if cl_ak (bl_clearers b ! i) = ak then Free else ak_status ak b)"
  by (rule status_del) (simp_all add: clearer_wakes_def Let_def)

lemma status_quiet [simp]:
  "ak_status ak (clearer_starts i b) = ak_status ak b"
  "ak_status ak (timer_fires t b) = ak_status ak b"
  by (rule status_cong; simp add: clearer_starts_def timer_fires_def Let_def)+

lemma status_clear:
  assumes "bl_inv b"
  shows "ak_status ak (clearAkFromBlockListing ak' b) =
    (if ak' = ak then spec_success (ak_status ak b) else ak_status ak b)"
proof (cases "isAkInValidationList ak' b")
  case False
  then show ?thesis using inv_listed [OF assms, of ak']
    by (auto simp: clearAkFromBlockListing_def isAkInValidationList_def ak_status_def listed_ok_def
      split: option.splits)
next
  case True
  then obtain a where a: "map_of (bl_authInfoList b) ak' = Some a"
      "ses_State (bl_sessions b ! a) = ValidationInProgress"
    by (auto simp: isAkInValidationList_def split: option.splits)
  have "ak_status ak (stopValidatingAk ak' b) = ak_status ak b" if "ak' \<noteq> ak"
    using status_update [OF assms a(1), of "stopValidatingAk ak' b" _ ak] that a
    by (simp add: stopValidatingAk_def Let_def)
  moreover have "ak_status ak (clearAkFromBlockListing ak' b) =
      (if ak' = ak then Free else ak_status ak (stopValidatingAk ak' b))"
    by (rule status_del) (simp_all add: clearAkFromBlockListing_def True Let_def)
  moreover have "spec_success (ak_status ak' b) = Free"
    using a by (simp add: ak_status_def)
  ultimately show ?thesis by auto
qed

lemma status_step:
  assumes "bl_inv b" "bl_exec e b = Some b'"
  shows "ak_status ak b' = spec_step ak b e (ak_status ak b)"
  using assms
  by (cases e) (auto simp: status_process status_clear status_wakes
      split: if_splits go_timer.splits clearer_state.splits)

lemma isAkInBlockList_status:
  "bl_inv b \<Longrightarrow> isAkInBlockList ak b \<longleftrightarrow> ak_status ak b = Blocked"
  by (auto simp: isAkInBlockList_def ak_status_def split: option.splits)

lemma isAkInValidationList_status:
  "bl_inv b \<Longrightarrow> isAkInValidationList ak b \<longleftrightarrow> ak_status ak b \<in> {Failing 1, Failing 2}"
  by (auto simp: isAkInValidationList_def ak_status_def listed_ok_def split: option.splits dest!: inv_listed)

text \<open>(C10) In every reachable state the table refines one small machine per key: free, one or
  two counted failures, or blocked; a goroutine that takes a tick frees its key, and an event
  of another key changes nothing.\<close>

theorem blocklist_refines:
  assumes "bl_reach b" "bl_exec e b = Some b'"
  shows "ak_status ak b' = spec_step ak b e (ak_status ak b) \<and>
    ak_status ak b' \<in> {Free, Failing 1, Failing 2, Blocked} \<and>
    (isAkInBlockList ak b' \<longleftrightarrow> ak_status ak b' = Blocked) \<and>
    (isAkInValidationList ak b' \<longleftrightarrow> ak_status ak b' \<in> {Failing 1, Failing 2})"
proof -
  have b: "bl_inv b" "bl_inv b'"
    using assms reach_inv bl_reach.reach_step by blast+
  have "ak_status ak b' \<in> {Free, Failing 1, Failing 2, Blocked}"
    using inv_listed [OF b(2), of ak] by (auto simp: ak_status_def listed_ok_def split: option.splits)
  then show ?thesis
    using status_step [OF b(1) assms(2)] isAkInBlockList_status [OF b(2)]
      isAkInValidationList_status [OF b(2)] by blast
qed

lemma reach_run: "bl_reach b \<Longrightarrow> bl_run es b = Some b' \<Longrightarrow> bl_reach b'"
  by (induction es arbitrary: b) (auto intro: bl_reach.reach_step split: option.splits)

definition two_failures :: blocklist where
  "two_failures = the (bl_run [InvalidSignature ''AK'', ClearerStarts 0, InvalidSignature ''AK''] no_sessions)"

lemma two_failures_run:
  "bl_run [InvalidSignature ''AK'', ClearerStarts 0, InvalidSignature ''AK''] no_sessions = Some two_failures"
  unfolding two_failures_def by code_simp

theorem blocklist_refines_witness:
  "ak_status ''AK'' (processAkForBlockListing ''AK'' two_failures) = Blocked"
proof -
  have "ak_status ''AK'' two_failures = Failing 2"
    by (simp add: two_failures_def) code_simp
  then show ?thesis
    using blocklist_refines [OF reach_run [OF bl_reach.reach_init two_failures_run],
      of "InvalidSignature ''AK''", OF bl_exec.simps(1), of "''AK''"] by simp
qed


section \<open>Runs\<close>

lemma status_left_alone:
  "bl_inv b \<Longrightarrow> bl_run es b = Some b' \<Longrightarrow> left_alone ak es b \<Longrightarrow>
     ak_status ak b' = (spec_fail ^^ failures ak es) (ak_status ak b)"
proof (induction es arbitrary: b)
  case (Cons e es)
  from Cons.prems obtain b1 where b1: "bl_exec e b = Some b1" "bl_run es b1 = Some b'"
    by (auto split: option.splits)
  have "ak_status ak b1 = spec_step ak b e (ak_status ak b)"
    using status_step [OF Cons.prems(1) b1(1)] .
  also have "\<dots> = (if e = InvalidSignature ak then spec_fail (ak_status ak b) else ak_status ak b)"
    using Cons.prems(3) by (cases e) auto
  finally show ?case
    using Cons.IH [OF inv_exec [OF Cons.prems(1) b1(1)] b1(2)] Cons.prems(3) b1(1)
    by (auto simp: failures_def funpow_swap1)
qed (simp add: failures_def)

text \<open>From a free key, and with neither a valid signature nor an expired timer of that key
  in between, at most three failed signatures block the key exactly when there were three.\<close>

theorem blocked_iff_three_failures:
  assumes "bl_reach b" "ak_status ak b = Free" "bl_run es b = Some b'" "left_alone ak es b"
    and "failures ak es \<le> 3"
  shows "isAkInBlockList ak b' \<longleftrightarrow> failures ak es = 3"
proof -
  have "failures ak es \<in> {0, 1, 2, 3}" using assms(5) by auto
  then have "ak_status ak b' = Blocked \<longleftrightarrow> failures ak es = 3"
    using status_left_alone [OF reach_inv [OF assms(1)] assms(3,4)] assms(2)
    by (auto simp: eval_nat_numeral)
  then show ?thesis
    using isAkInBlockList_status [OF reach_inv [OF reach_run [OF assms(1,3)]]] by simp
qed

definition mixed_run :: "bl_event list" where
  "mixed_run = [InvalidSignature ''AK'', InvalidSignature ''OTHER'', ClearerStarts 1, ClearerStarts 0,
     InvalidSignature ''AK'', TimerFires 1, ClearerWakes 1, ValidSignature ''OTHER'', InvalidSignature ''AK'']"

theorem blocked_iff_three_failures_witness:
  "isAkInBlockList ''AK'' (the (bl_run mixed_run no_sessions))"
proof -
  have run: "bl_run mixed_run no_sessions = Some (the (bl_run mixed_run no_sessions))"
    by code_simp
  have "ak_status ''AK'' no_sessions = Free" "left_alone ''AK'' mixed_run no_sessions"
      "failures ''AK'' mixed_run = 3"
    by code_simp+
  then show ?thesis
    using blocked_iff_three_failures [OF bl_reach.reach_init _ run] by simp
qed

lemma run_append:
  "bl_run (es @ fs) b = (case bl_run es b of Some b' \<Rightarrow> bl_run fs b' | None \<Rightarrow> None)"
  by (induction es arbitrary: b) (auto split: option.splits)

lemma waiting_clearer_frees:
  assumes "bl_inv b" "i < length (bl_clearers b)" "cl_state (bl_clearers b ! i) = Waiting t"
    and "cl_ak (bl_clearers b ! i) = ak" "t < length (bl_timers b)" "bl_timers b ! t \<noteq> Silent"
  shows "\<exists>es b'. length es \<le> 2 \<and> (\<forall>e\<in>set es. clock_event e) \<and> bl_run es b = Some b' \<and>
    ak_status ak b' = Free"
proof (cases "bl_timers b ! t")
  case (Running n)
  then have "bl_run [TimerFires t, ClearerWakes i] b = Some (clearer_wakes i t (timer_fires t b))"
    using assms by (simp add: timer_fires_def)
  moreover have "ak_status ak (clearer_wakes i t (timer_fires t b)) = Free"
    using assms(4) by (simp add: status_wakes) (simp add: timer_fires_def)
  ultimately show ?thesis
    by (intro exI [of _ "[TimerFires t, ClearerWakes i]"]) (simp add: clock_event_def)
next
  case Fired
  then have "bl_run [ClearerWakes i] b = Some (clearer_wakes i t b)"
    using assms by simp
  then show ?thesis
    using assms(4) by (intro exI [of _ "[ClearerWakes i]"]) (simp add: clock_event_def status_wakes)
qed (use assms in simp)

text \<open>(C37) No key stays blocked or counted for ever: from every reachable state, at most three
  steps of the scheduler and the clock (no request) free the key.\<close>

theorem no_permanent_lockout:
  assumes "bl_reach b"
  shows "\<exists>es b'. length es \<le> 3 \<and> list_all clock_event es \<and> bl_run es b = Some b' \<and>
    ak_status ak b' = Free"
proof (cases "map_of (bl_authInfoList b) ak")
  case None
  then show ?thesis by (intro exI [of _ "[]"]) (simp add: ak_status_def)
next
  case (Some a)
  let ?t = "ses_ClearTimer (bl_sessions b ! a)"
  have inv: "bl_inv b" using reach_inv [OF assms] .
  have t: "?t < length (bl_timers b)" "bl_timers b ! ?t \<noteq> Silent" and
    "\<exists>c\<in>set (bl_clearers b). cl_ak c = ak \<and> cl_session c = a \<and> (cl_state c = Starting \<or> cl_state c = Waiting ?t)"
    using inv_listed [OF inv Some] by (auto simp: listed_ok_def ends_session_def Let_def)
  then obtain i where i: "i < length (bl_clearers b)" "cl_ak (bl_clearers b ! i) = ak"
      "cl_session (bl_clearers b ! i) = a"
      "cl_state (bl_clearers b ! i) = Starting \<or> cl_state (bl_clearers b ! i) = Waiting ?t"
    by (auto simp: in_set_conv_nth)
  show ?thesis
  proof (cases "cl_state (bl_clearers b ! i) = Waiting ?t")
    case True
    then obtain es b' where "length es \<le> 2" "\<forall>e\<in>set es. clock_event e" "bl_run es b = Some b'"
        "ak_status ak b' = Free"
      using waiting_clearer_frees [OF inv i(1) True i(2) t] by blast
    then show ?thesis
      by (intro exI [of _ es] exI [of _ b']) (simp add: list_all_iff)
  next
    case False
    let ?b = "clearer_starts i b"
    have s: "bl_exec (ClearerStarts i) b = Some ?b" using False i by simp
    have "i < length (bl_clearers ?b)" "cl_state (bl_clearers ?b ! i) = Waiting ?t"
        "cl_ak (bl_clearers ?b ! i) = ak" "?t < length (bl_timers ?b)" "bl_timers ?b ! ?t \<noteq> Silent"
      using i t by (simp_all add: clearer_starts_def Let_def)
    then obtain es b' where "length es \<le> 2" "\<forall>e\<in>set es. clock_event e" "bl_run es ?b = Some b'"
        "ak_status ak b' = Free"
      using waiting_clearer_frees [OF inv_exec [OF inv s]] by blast
    then show ?thesis using s
      by (intro exI [of _ "ClearerStarts i # es"] exI [of _ b']) (simp add: clock_event_def list_all_iff)
  qed
qed

theorem no_permanent_lockout_witness:
  "\<exists>es b'. length es \<le> 3 \<and> list_all clock_event es \<and>
     bl_run es (the (bl_run mixed_run no_sessions)) = Some b' \<and> ak_status ''AK'' b' = Free"
proof -
  have run: "bl_run mixed_run no_sessions = Some (the (bl_run mixed_run no_sessions))"
    by code_simp
  show ?thesis
    by (rule no_permanent_lockout [OF reach_run [OF bl_reach.reach_init run]])
qed

definition stale_run :: "bl_event list" where
  "stale_run = [InvalidSignature ''AK'', ClearerStarts 0, InvalidSignature ''AK'', TimerFires 0,
     InvalidSignature ''AK'']"

text \<open>Two ways a block ends before its 900 seconds.  A failed signature that was checked
  before the block but is counted after it replaces the blocked session by a fresh one with
  one failure.  And a tick of the validation timer that was in the channel when the third
  failure stopped the timer is still taken by the goroutine of the validation, which deletes
  the blocked session while its own timer runs.\<close>

theorem block_lifted_early:
  assumes "bl_reach b" "isAkInBlockList ak b"
  shows "ak_status ak (processAkForBlockListing ak b) = Failing 1 \<and>
    (\<exists>b1 b2. bl_run stale_run no_sessions = Some b1 \<and> isAkInBlockList ''AK'' b1 \<and>
       bl_run [ClearerWakes 0] b1 = Some b2 \<and> ak_status ''AK'' b2 = Free \<and>
       bl_timers b2 = [Silent, Running BlockListClearTimer])"
proof
  have "bl_inv b" using reach_inv [OF assms(1)] .
  then show "ak_status ak (processAkForBlockListing ak b) = Failing 1"
    using assms(2) by (simp add: status_process isAkInBlockList_status)
  let ?b1 = "the (bl_run stale_run no_sessions)"
  have "bl_run stale_run no_sessions = Some ?b1" "isAkInBlockList ''AK'' ?b1"
      "bl_run [ClearerWakes 0] ?b1 = Some (the (bl_run [ClearerWakes 0] ?b1))"
      "ak_status ''AK'' (the (bl_run [ClearerWakes 0] ?b1)) = Free"
      "bl_timers (the (bl_run [ClearerWakes 0] ?b1)) = [Silent, Running BlockListClearTimer]"
    by code_simp+
  then show "\<exists>b1 b2. bl_run stale_run no_sessions = Some b1 \<and> isAkInBlockList ''AK'' b1 \<and>
       bl_run [ClearerWakes 0] b1 = Some b2 \<and> ak_status ''AK'' b2 = Free \<and>
       bl_timers b2 = [Silent, Running BlockListClearTimer]" by blast
qed

theorem block_lifted_early_witness:
  "ak_status ''AK'' (processAkForBlockListing ''AK'' (the (bl_run stale_run no_sessions))) = Failing 1"
proof -
  have run: "bl_run stale_run no_sessions = Some (the (bl_run stale_run no_sessions))"
      "isAkInBlockList ''AK'' (the (bl_run stale_run no_sessions))"
    by code_simp+
  show ?thesis
    using block_lifted_early [OF reach_run [OF bl_reach.reach_init run(1)] run(2)] by blast
qed

end
