(* ===== verification/Auth_Sign.thy ===== *)
theory Auth_Sign
  imports Mep_Prelude "HOL-Library.Char_ord" "HOL-Library.List_Lexorder"
begin

text \<open>
  The request signature of mepauth (\<open>mepauth/util/sign.go\<close>).  A request is what
  \<open>net/http\<close> hands to the code: method, decoded path, the parsed query and the
  header as maps from a name to its values, and the body.  A map is a list of entries, and
  every loop over one runs in an order of its own choice: each function takes the order its
  loop uses.  \<open>sort.Strings\<close> compares bytes, which is the lexicographic order of
  the library on \<^typ>\<open>string\<close>.  SHA-256 and HMAC are parameters.
\<close>

section \<open>Library functions\<close>

text \<open>\<open>url.QueryEscape\<close>.\<close>

definition hex_upper :: "nat \<Rightarrow> char" where
  "hex_upper n = (if n < 10 then char_of (48 + n) else char_of (55 + n))"

definition escape_char :: "char \<Rightarrow> string" where
  "escape_char c = (let n = of_char c in
     if 48 \<le> n \<and> n \<le> 57 \<or> 65 \<le> n \<and> n \<le> 90 \<or> 97 \<le> n \<and> n \<le> 122 \<or> c \<in> set ''-_.~'' then [c]
     else if c = CHR '' '' then ''+''
     else [CHR 0x25, hex_upper (n div 16), hex_upper (n mod 16)])"

definition QueryEscape :: "string \<Rightarrow> string" where
  "QueryEscape s = concat (map escape_char s)"

text \<open>\<open>textproto.CanonicalMIMEHeaderKey\<close>: a name of token characters gets a
  capital at its start and after each hyphen, another name is kept.\<close>

definition token_char :: "char \<Rightarrow> bool" where
  "token_char c = (let n = (of_char c :: nat) in
     48 \<le> n \<and> n \<le> 57 \<or> 65 \<le> n \<and> n \<le> 90 \<or> 97 \<le> n \<and> n \<le> 122 \<or>
     c \<in> set (''!#$%&*+-.^_`|~'' @ [CHR 0x27]))"

definition char_upper :: "char \<Rightarrow> char" where
  "char_upper c = (if 97 \<le> (of_char c :: nat) \<and> (of_char c :: nat) \<le> 122
                   then char_of (of_char c - (32 :: nat)) else c)"

fun capitalise :: "bool \<Rightarrow> string \<Rightarrow> string" where
  "capitalise up [] = []"
| "capitalise up (c # s) = (if up then char_upper c else char_lower c) # capitalise (c = CHR ''-'') s"

definition CanonicalHeaderKey :: "string \<Rightarrow> string" where
  "CanonicalHeaderKey s = (if list_all token_char s then capitalise True s else s)"

type_synonym values_map = "(string \<times> string list) list"

text \<open>\<open>Header.Get\<close> and \<open>Header.Set\<close>.\<close>

definition header_get :: "values_map \<Rightarrow> string \<Rightarrow> string" where
  "header_get h key =
     (case map_of h (CanonicalHeaderKey key) of Some (v # _) \<Rightarrow> v | _ \<Rightarrow> [])"

definition header_set :: "string \<Rightarrow> string \<Rightarrow> values_map \<Rightarrow> values_map" where
  "header_set key v h = al_put (CanonicalHeaderKey key) [v] h"

section \<open>Requests\<close>

record http_request =
  rq_Method :: string
  rq_Path :: string
  rq_Query :: values_map
  rq_Header :: values_map
  rq_Body :: "string go_result option"

record digests =
  dg_sha256 :: "string \<Rightarrow> string"
  dg_hmac :: "string \<Rightarrow> string \<Rightarrow> string"

text \<open>The orders of the loops over the query, over the header values and over the header
  names.\<close>

record loop_orders =
  lo_query :: "values_map \<Rightarrow> values_map"
  lo_headers :: "values_map \<Rightarrow> values_map"
  lo_names :: "values_map \<Rightarrow> values_map"

definition separator :: string where "separator = ''/''"
definition lineSeparator :: string where "lineSeparator = newline"
definition algorithm :: string where "algorithm = ''SDK-HMAC-SHA256''"
definition DateHeader :: string where "DateHeader = ''x-sdk-date''"
definition HostHeader :: string where "HostHeader = ''Host''"

section \<open>The signature\<close>

definition getCanonicalUri :: "http_request \<Rightarrow> string" where
  "getCanonicalUri req =
     (let paths = split_on (CHR ''/'') (rq_Path req);
          uris = map QueryEscape (filter (\<lambda>path. \<not> (path = '''' \<or> path = ''.'' \<or> path = ''..'')) paths);
          canonicalUri = separator @ join separator uris
      in if has_suffix canonicalUri separator then canonicalUri else canonicalUri @ separator)"

definition getCanonicalQueryString :: "loop_orders \<Rightarrow> http_request \<Rightarrow> string" where
  "getCanonicalQueryString ord req =
     (let params = concat (map (\<lambda>(key, values). map (\<lambda>value. QueryEscape key @ ''='' @ QueryEscape value) values)
                       (lo_query ord (rq_Query req)))
      in join ''&'' (sort params))"

text \<open>The values of each field are sorted in place: the request afterwards is a
  result.\<close>

definition sort_values :: "values_map \<Rightarrow> values_map" where
  "sort_values h = map (\<lambda>(key, values). (key, sort values)) h"

definition getCanonicalHeaders :: "loop_orders \<Rightarrow> http_request \<Rightarrow> string \<times> http_request" where
  "getCanonicalHeaders ord req =
     (let headers = map (\<lambda>(key, values). to_lower key @ '':'' @ join '','' (map trim_space (sort values)))
                      (lo_headers ord (rq_Header req))
      in (join lineSeparator (sort headers) @ lineSeparator,
          req\<lparr>rq_Header := sort_values (rq_Header req)\<rparr>))"

definition getSignedHeaders :: "loop_orders \<Rightarrow> http_request \<Rightarrow> string" where
  "getSignedHeaders ord req =
     (let headers = map (\<lambda>(key, values). to_lower key) (lo_names ord (rq_Header req))
      in join '';'' (sort headers))"

definition getRequestBody :: "http_request \<Rightarrow> string go_result" where
  "getRequestBody req = (case rq_Body req of None \<Rightarrow> Inr [] | Some body \<Rightarrow> body)"

definition hexEncodeSHA256Hash :: "digests \<Rightarrow> string \<Rightarrow> string" where
  "hexEncodeSHA256Hash dg bytes = hex_encode (dg_sha256 dg bytes)"

definition getRequestBodyHash :: "digests \<Rightarrow> http_request \<Rightarrow> string go_result" where
  "getRequestBodyHash dg req =
     (case getRequestBody req of Inl e \<Rightarrow> Inl e | Inr reqBody \<Rightarrow> Inr (hexEncodeSHA256Hash dg reqBody))"

definition getCanonicalRequest ::
  "digests \<Rightarrow> loop_orders \<Rightarrow> http_request \<Rightarrow> string go_result \<times> http_request" where
  "getCanonicalRequest dg ord req =
     (let method = rq_Method req;
          uri = getCanonicalUri req;
          query = getCanonicalQueryString ord req;
          (headersReq, req) = getCanonicalHeaders ord req;
          headersSign = getSignedHeaders ord req
      in (case getRequestBodyHash dg req of
            Inl e \<Rightarrow> (Inl e, req)
          | Inr hexEncodeBody \<Rightarrow>
              (Inr (join lineSeparator [method, uri, query, headersReq, headersSign, hexEncodeBody]), req)))"

definition getStringToSign :: "digests \<Rightarrow> string \<Rightarrow> string \<Rightarrow> string" where
  "getStringToSign dg canonicalRequest dateTime =
     (let hexEncodeReq = hexEncodeSHA256Hash dg canonicalRequest
      in join lineSeparator [algorithm, dateTime, hexEncodeReq])"

definition calculateSignature :: "digests \<Rightarrow> string \<Rightarrow> string \<Rightarrow> string" where
  "calculateSignature dg secretKey stringToSign = hex_encode (dg_hmac dg secretKey stringToSign)"

definition GetSignature ::
  "digests \<Rightarrow> loop_orders \<Rightarrow> string \<Rightarrow> http_request option \<Rightarrow> string go_result" where
  "GetSignature dg ord secretKey req =
     (case req of
        None \<Rightarrow> Inl (Err ''request is nil'')
      | Some req \<Rightarrow>
          (case getCanonicalRequest dg ord req of
             (Inl e, _) \<Rightarrow> Inl e
           | (Inr canonicalRequest, req) \<Rightarrow>
               Inr (calculateSignature dg secretKey
                      (getStringToSign dg canonicalRequest (header_get (rq_Header req) DateHeader)))))"

section \<open>What a signature depends on\<close>

definition orders_ok :: "loop_orders \<Rightarrow> bool" where
  "orders_ok ord \<longleftrightarrow> reordering (lo_query ord) \<and> reordering (lo_headers ord) \<and> reordering (lo_names ord)"

text \<open>The content of a request, without any order among fields, values or parameters.\<close>

definition query_items :: "values_map \<Rightarrow> (string \<times> string) multiset" where
  "query_items q = (\<Sum>(key, values)\<in>#mset q. image_mset (\<lambda>v. (key, v)) (mset values))"

definition header_items :: "values_map \<Rightarrow> (string \<times> string multiset) multiset" where
  "header_items h = image_mset (\<lambda>(key, values). (key, mset values)) (mset h)"

definition same_content :: "http_request \<Rightarrow> http_request \<Rightarrow> bool" where
  "same_content r r' \<longleftrightarrow>
     rq_Method r = rq_Method r' \<and> rq_Path r = rq_Path r' \<and> getRequestBody r = getRequestBody r' \<and>
     query_items (rq_Query r) = query_items (rq_Query r') \<and>
     header_items (rq_Header r) = header_items (rq_Header r')"

lemma sort_cong_mset: "mset xs = mset ys \<Longrightarrow> sort xs = sort ys"
  by (metis mset_sort properties_for_sort sorted_sort)

lemma mset_sort_values:
  "mset (sort_values h) = image_mset (\<lambda>(key, m). (key, sorted_list_of_multiset m)) (header_items h)"
  by (simp add: sort_values_def header_items_def multiset.map_comp comp_def case_prod_unfold)

lemma sort_values_keys [simp]: "map fst (sort_values h) = map fst h"
  by (simp add: sort_values_def case_prod_unfold)

lemma map_of_mset_cong:
  assumes "mset xs = mset ys" "distinct (map fst xs)"
  shows "map_of xs = map_of ys"
proof -
  have "distinct (map fst ys)" using assms by (metis mset_eq_imp_distinct_iff mset_map)
  then show ?thesis using assms by (metis map_of_inject_set mset_eq_setD)
qed

lemma mset_params:
  "mset (concat (map (\<lambda>(key, values). map (\<lambda>v. f key v) values) q)) = image_mset (\<lambda>(k, v). f k v) (query_items q)"
  by (induction q) (auto simp: query_items_def multiset.map_comp comp_def)

lemma query_items_reorder: "reordering p \<Longrightarrow> query_items (p q) = query_items q"
  by (simp add: query_items_def reordering_mset)

lemma canonical_query_content:
  assumes "reordering (lo_query ord)"
  shows "getCanonicalQueryString ord req =
    join ''&'' (sorted_list_of_multiset
      (image_mset (\<lambda>(k, v). QueryEscape k @ ''='' @ QueryEscape v) (query_items (rq_Query req))))"
  by (simp add: getCanonicalQueryString_def Let_def mset_params query_items_reorder assms
      flip: sorted_list_of_multiset_mset)

lemma canonical_headers_content:
  assumes "reordering (lo_headers ord)"
  shows "fst (getCanonicalHeaders ord req) =
    join lineSeparator (sorted_list_of_multiset (image_mset
      (\<lambda>(key, m). to_lower key @ '':'' @ join '','' (map trim_space (sorted_list_of_multiset m)))
      (header_items (rq_Header req)))) @ lineSeparator"
  by (simp add: getCanonicalHeaders_def Let_def header_items_def reordering_mset assms
      multiset.map_comp comp_def case_prod_unfold flip: sorted_list_of_multiset_mset)

lemma signed_headers_content:
  assumes "reordering (lo_names ord)"
  shows "getSignedHeaders ord req =
    join '';'' (sorted_list_of_multiset (image_mset (\<lambda>(key, m). to_lower key) (header_items (rq_Header req))))"
  by (simp add: getSignedHeaders_def Let_def header_items_def reordering_mset assms
      multiset.map_comp comp_def case_prod_unfold flip: sorted_list_of_multiset_mset)

lemma header_items_sort_values [simp]: "header_items (sort_values h) = header_items h"
  by (simp add: header_items_def sort_values_def multiset.map_comp comp_def case_prod_unfold)

lemma getCanonicalRequest_alt:
  "getCanonicalRequest dg ord r =
     (case getRequestBodyHash dg r of Inl e \<Rightarrow> Inl e
      | Inr h \<Rightarrow> Inr (join lineSeparator [rq_Method r, getCanonicalUri r, getCanonicalQueryString ord r,
          fst (getCanonicalHeaders ord r),
          getSignedHeaders ord (r\<lparr>rq_Header := sort_values (rq_Header r)\<rparr>), h]),
      r\<lparr>rq_Header := sort_values (rq_Header r)\<rparr>)"
proof -
  have "getRequestBodyHash dg (r\<lparr>rq_Header := h\<rparr>) = getRequestBodyHash dg r" for h
    by (simp add: getRequestBodyHash_def getRequestBody_def)
  then show ?thesis
    by (simp add: getCanonicalRequest_def getCanonicalHeaders_def Let_def split: sum.splits)
qed

lemma canonical_request_content:
  assumes "orders_ok ord" "orders_ok ord'" "same_content r r'" "distinct (map fst (rq_Header r))"
  shows "fst (getCanonicalRequest dg ord r) = fst (getCanonicalRequest dg ord' r')"
    and "header_get (rq_Header (snd (getCanonicalRequest dg ord r))) key =
         header_get (rq_Header (snd (getCanonicalRequest dg ord' r'))) key"
proof -
  have c: "rq_Method r = rq_Method r'" "getCanonicalUri r = getCanonicalUri r'"
      "getCanonicalQueryString ord r = getCanonicalQueryString ord' r'"
      "fst (getCanonicalHeaders ord r) = fst (getCanonicalHeaders ord' r')"
      "getSignedHeaders ord (r\<lparr>rq_Header := sort_values (rq_Header r)\<rparr>) =
       getSignedHeaders ord' (r'\<lparr>rq_Header := sort_values (rq_Header r')\<rparr>)"
      "getRequestBodyHash dg r = getRequestBodyHash dg r'"
    using assms(1-3)
    by (simp_all add: canonical_query_content canonical_headers_content signed_headers_content
      orders_ok_def same_content_def getCanonicalUri_def getRequestBodyHash_def)
  then show "fst (getCanonicalRequest dg ord r) = fst (getCanonicalRequest dg ord' r')"
    by (simp add: getCanonicalRequest_alt split: sum.splits)
  have "mset (sort_values (rq_Header r)) = mset (sort_values (rq_Header r'))"
    using assms(3) by (simp add: mset_sort_values same_content_def)
  then have "map_of (sort_values (rq_Header r)) = map_of (sort_values (rq_Header r'))"
    by (rule map_of_mset_cong) (simp add: assms(4))
  then show "header_get (rq_Header (snd (getCanonicalRequest dg ord r))) key =
         header_get (rq_Header (snd (getCanonicalRequest dg ord' r'))) key"
    by (simp add: header_get_def getCanonicalRequest_alt)
qed

lemma GetSignature_alt:
  "GetSignature dg ord k (Some r) =
     (case fst (getCanonicalRequest dg ord r) of Inl e \<Rightarrow> Inl e
      | Inr cr \<Rightarrow> Inr (calculateSignature dg k (getStringToSign dg cr
          (header_get (rq_Header (snd (getCanonicalRequest dg ord r))) DateHeader))))"
  by (simp add: GetSignature_def split: prod.splits sum.splits)

lemma signature_content:
  assumes "orders_ok ord" "orders_ok ord'" "same_content r r'" "distinct (map fst (rq_Header r))"
  shows "GetSignature dg ord k (Some r) = GetSignature dg ord' k (Some r')"
  unfolding GetSignature_alt canonical_request_content [OF assms] ..

text \<open>(C19) A signature depends on the content of the request only: requests with the same
  method, path, body, query parameters and header fields in any order, with the values of a
  field in any order, and iterated in any order, have the same signature under every key.\<close>

theorem signature_order_independent:
  assumes "orders_ok ord" "orders_ok ord'" "same_content r r'" "distinct (map fst (rq_Header r))"
  shows "GetSignature dg ord secretKey (Some r) = GetSignature dg ord' secretKey (Some r')"
  by (rule signature_content [OF assms])

definition in_order :: loop_orders where
  "in_order = \<lparr>lo_query = (\<lambda>m. m), lo_headers = (\<lambda>m. m), lo_names = (\<lambda>m. m)\<rparr>"

definition backwards :: loop_orders where
  "backwards = \<lparr>lo_query = rev, lo_headers = rev, lo_names = rev\<rparr>"

definition sample_request :: http_request where
  "sample_request = \<lparr>rq_Method = ''POST'', rq_Path = ''/mep/./token'',
     rq_Query = [(''b'', [''2'', ''1'']), (''a c'', [''x&y''])],
     rq_Header = [(''Host'', [''mep'']), (''X-Sdk-Date'', [''20200930T111314Z'']), (''Accept'', ['' b '', ''a''])],
     rq_Body = None\<rparr>"

definition sample_shuffled :: http_request where
  "sample_shuffled = sample_request\<lparr>
     rq_Query := [(''a c'', [''x&y'']), (''b'', [''1'', ''2''])],
     rq_Header := [(''Accept'', [''a'', '' b '']), (''X-Sdk-Date'', [''20200930T111314Z'']), (''Host'', [''mep''])],
     rq_Body := Some (Inr [])\<rparr>"

definition plain_digests :: digests where
  "plain_digests = \<lparr>dg_sha256 = (\<lambda>s. take 8 s), dg_hmac = (\<lambda>k s. k @ s)\<rparr>"

theorem signature_order_independent_witness:
  "GetSignature plain_digests in_order ''secret'' (Some sample_request) =
   GetSignature plain_digests backwards ''secret'' (Some sample_shuffled)"
proof -
  have "orders_ok in_order" "orders_ok backwards"
    by (simp_all add: orders_ok_def in_order_def backwards_def)
  moreover have "same_content sample_request sample_shuffled"
    by (simp add: same_content_def sample_request_def sample_shuffled_def query_items_def
      header_items_def getRequestBody_def add_mset_commute)
  moreover have "distinct (map fst (rq_Header sample_request))"
    by (simp add: sample_request_def)
  ultimately show ?thesis by (rule signature_order_independent)
qed

end
