(* ===== verification/Auth_Service.thy ===== *)
theory Auth_Service
  imports Auth_Blocklist Auth_Keys Auth_Sign
begin

text \<open>
  The interface of mepauth: configuration of access keys
  (\<open>mepauth/controllers/conf.go\<close>) and issue of tokens
  (\<open>controllers/token.go\<close>), with the records of \<open>models/authinfo.go\<close>, the
  responses of \<open>controllers/base.go\<close> and the checks of
  \<open>util/validation.go\<close>.  The state is the block list, the database and the key
  files.  The database, the validator package, the parsing of URLs and PEM blocks and the
  signing of tokens are parameters.  A handler ends with a response or with a panic.
\<close>

section \<open>Records\<close>

record AuthInfoRecord =
  ai_AppInsId :: string
  ai_Ak :: string
  ai_Sk :: string
  ai_Nonce :: string
  ai_AppName :: string
  ai_RequiredServices :: string

record TokenInfo =
  ti_AccessToken :: string
  ti_TokenType :: string
  ti_ExpiresIn :: nat

record Credentials =
  cr_AccessKeyId :: string
  cr_SecretKey :: string

record AppInfo =
  ap_AppName :: string
  ap_RequiredServices :: "string list option"

record AppInstanceInfo =
  in_Credentials :: Credentials
  in_AppInfo :: AppInfo

record jwtClaims =
  jc_ExpiresAt :: nat
  jc_Issuer :: string
  jc_Subject :: string
  jc_ClientIp :: string

record pem_block =
  pb_encrypted :: bool
  pb_bytes :: string

section \<open>Parameters and state\<close>

record 'd auth_db =
  db_InsertOrUpdate :: "AuthInfoRecord \<Rightarrow> 'd \<Rightarrow> go_error option \<times> 'd"
  db_ReadByAk :: "string \<Rightarrow> 'd \<Rightarrow> AuthInfoRecord go_result"
  db_ReadById :: "string \<Rightarrow> 'd \<Rightarrow> AuthInfoRecord go_result"
  db_Delete :: "string \<Rightarrow> 'd \<Rightarrow> go_error option \<times> 'd"

record auth_env =
  ev_digests :: digests
  ev_orders :: loop_orders
  ev_keys :: key_env
  ev_ipv4 :: "string \<Rightarrow> bool"
  ev_ipv6 :: "string \<Rightarrow> bool"
  ev_uuid :: "string \<Rightarrow> bool"
  ev_parse_url :: "string \<Rightarrow> (string \<times> values_map) option"
  ev_marshal :: "string list option \<Rightarrow> string"
  ev_config :: "string \<Rightarrow> string"
  ev_pem_decode :: "string \<Rightarrow> pem_block option"
  ev_pem_decrypt :: "pem_block \<Rightarrow> string \<Rightarrow> string option"
  ev_pem_encode :: "string \<Rightarrow> string"
  ev_parse_rsa :: "string \<Rightarrow> string option"
  ev_sign_jwt :: "string \<Rightarrow> jwtClaims \<Rightarrow> string go_result"
  ev_now :: nat

record 'd auth_state =
  as_bl :: blocklist
  as_db :: 'd
  as_keys :: key_world

datatype auth_body =
    BodyMsg string
  | BodyToken TokenInfo
  | BodyRecord AuthInfoRecord
  | BodyApp AppInstanceInfo

datatype auth_out = Reply nat auth_body | HandlerPanic string

definition PgOkMsg :: string where "PgOkMsg = ''LastInsertId is not supported by this driver''"
definition AppIDFailMsg :: string where "AppIDFailMsg = ''Application Instance ID validation failed''"
definition AkFailMsg :: string where "AkFailMsg = ''validate ak failed''"
definition SkFailMsg :: string where "SkFailMsg = ''validate sk failed''"
definition ClientIpaddressInvalid :: string where "ClientIpaddressInvalid = ''clientIp address is invalid''"
definition ExpiresVal :: nat where "ExpiresVal = 3600"
definition xRealIp :: string where "xRealIp = ''X-Real-Ip''"
definition authorization :: string where "authorization = ''authorization''"
definition internalError :: string where "internalError = ''Internal server error.''"
definition access_msg :: string where "access_msg = ''Invalid access or signature.''"

section \<open>Validation\<close>

definition validateSrcAddress :: "auth_env \<Rightarrow> string \<Rightarrow> bool" where
  "validateSrcAddress env ip \<longleftrightarrow> ip \<noteq> [] \<and> (ev_ipv4 env ip \<or> ev_ipv6 env ip)"

definition ValidateUUID :: "auth_env \<Rightarrow> string \<Rightarrow> go_error option" where
  "ValidateUUID env i =
     (if length i \<noteq> 0 then (if ev_uuid env i then None else Some (Err AppIDFailMsg))
      else Some (Err ''UUID validate failed''))"

text \<open>The class \<open>[\w+/=]\<close>.\<close>

definition key_char :: "char \<Rightarrow> bool" where
  "key_char c \<longleftrightarrow> char_between 48 57 c \<or> char_between 65 90 c \<or> char_between 97 122 c \<or> c \<in> set ''_+/=''"

definition ValidateAk :: "string \<Rightarrow> go_error option" where
  "ValidateAk ak = (if length ak = 20 \<and> list_all key_char ak then None else Some (Err AkFailMsg))"

definition ValidateSk :: "string \<Rightarrow> go_error option" where
  "ValidateSk sk = (if length sk = 64 \<and> list_all key_char sk then None else Some (Err SkFailMsg))"

text \<open>\<open>AuthHeaderRegex\<close>: fixed words around groups of 20 key characters and of 28
  and 64 characters that are neither a comma nor a space.\<close>

definition strip_prefix :: "string \<Rightarrow> string \<Rightarrow> string option" where
  "strip_prefix p s = (if has_prefix s p then Some (drop (length p) s) else None)"

definition match_group :: "nat \<Rightarrow> (char \<Rightarrow> bool) \<Rightarrow> string \<Rightarrow> (string \<times> string) option" where
  "match_group n cls s =
     (if n \<le> length s \<and> list_all cls (take n s) then Some (take n s, drop n s) else None)"

definition header_char :: "char \<Rightarrow> bool" where
  "header_char c \<longleftrightarrow> c \<noteq> CHR '','' \<and> c \<noteq> CHR '' ''"

definition AuthHeaderRegex :: "string \<Rightarrow> (string \<times> string \<times> string) option" where
  "AuthHeaderRegex h =
     Option.bind (strip_prefix ''SDK-HMAC-SHA256 Access='' h) (\<lambda>h.
     Option.bind (match_group 20 key_char h) (\<lambda>(ak, h).
     Option.bind (strip_prefix '', SignedHeaders='' h) (\<lambda>h.
     Option.bind (match_group 28 header_char h) (\<lambda>(signHeader, h).
     Option.bind (strip_prefix '', Signature='' h) (\<lambda>h.
     Option.bind (match_group 64 header_char h) (\<lambda>(sig, h).
     if h = [] then Some (ak, signHeader, sig) else None))))))"

definition parseAuthHeader :: "string \<Rightarrow> string \<times> string \<times> string" where
  "parseAuthHeader header =
     (case AuthHeaderRegex header of None \<Rightarrow> ([], [], []) | Some r \<Rightarrow> r)"

text \<open>\<open>time.Parse\<close> with the layout \<open>20060102T150405Z\<close>: the date must
  exist, and a fraction may follow the seconds.  Its digits, read as a number, must stay below
  one billion (as in Go 1.14, with which the image is built).\<close>

definition days_in :: "nat \<Rightarrow> nat \<Rightarrow> nat" where
  "days_in month year =
     (if month = 2 then if year mod 4 = 0 \<and> (year mod 100 \<noteq> 0 \<or> year mod 400 = 0) then 29 else 28
      else if month \<in> {4, 6, 9, 11} then 30 else 31)"

definition strip_fraction :: "string \<Rightarrow> string" where
  "strip_fraction s =
     (case s of
        c # d # r \<Rightarrow> if c = CHR ''.'' \<and> is_digit d \<and> dec_val (takeWhile is_digit (d # r)) < 10 ^ 9
                      then dropWhile is_digit (d # r) else s
      | _ \<Rightarrow> s)"

definition time_parse_ok :: "string \<Rightarrow> bool" where
  "time_parse_ok s \<longleftrightarrow>
     length s \<ge> 16 \<and> list_all is_digit (take 8 s) \<and> s ! 8 = CHR ''T'' \<and>
     list_all is_digit (take 6 (drop 9 s)) \<and> strip_fraction (drop 15 s) = ''Z'' \<and>
     (let year = dec_val (take 4 s);
          month = dec_val (take 2 (drop 4 s));
          day = dec_val (take 2 (drop 6 s))
      in 1 \<le> month \<and> month \<le> 12 \<and> 1 \<le> day \<and> day \<le> days_in month year \<and>
         dec_val (take 2 (drop 9 s)) < 24 \<and> dec_val (take 2 (drop 11 s)) < 60 \<and>
         dec_val (take 2 (drop 13 s)) < 60)"

definition isDateTimeFormatValid :: "values_map \<Rightarrow> bool" where
  "isDateTimeFormatValid header =
     (let stringXSdkTime = header_get header DateHeader
      in stringXSdkTime \<noteq> [] \<and> time_parse_ok stringXSdkTime)"

section \<open>Saving a key\<close>

text \<open>\<open>make([]byte, n, cap)\<close> panics when the length exceeds the capacity.\<close>

definition makeslice_panic :: go_error where
  "makeslice_panic = Panic ''runtime error: makeslice: cap out of range''"

definition getCipherAndNonce :: "auth_env \<Rightarrow> string \<Rightarrow> key_world \<Rightarrow> (string \<times> string) go_result \<times> key_world" where
  "getCipherAndNonce env sk w =
     (case rand_read (ev_keys env) NonceSize w of
        (None, w) \<Rightarrow> (Inl (Err ''rand''), w)
      | (Some nonce, w) \<Rightarrow>
          (case GetWorkKey (ev_keys env) w of
             Inl e \<Rightarrow> (Inl e, w)
           | Inr workKey \<Rightarrow>
               (case EncryptByAES256GCM (ev_keys env) sk workKey nonce of
                  Inl e \<Rightarrow> (Inl e, w)
                | Inr cipherSk \<Rightarrow>
                    if 2 * length cipherSk > 200 then (Inl makeslice_panic, w)
                    else if 2 * length nonce > 30 then (Inl makeslice_panic, w)
                    else (Inr (hex_encode cipherSk, hex_encode nonce), w))))"

definition saveAkAndSk ::
  "'d auth_db \<Rightarrow> auth_env \<Rightarrow> string \<Rightarrow> string \<Rightarrow> string \<Rightarrow> string \<Rightarrow> string \<Rightarrow> 'd auth_state \<Rightarrow>
   go_error option \<times> 'd auth_state" where
  "saveAkAndSk db env appInsID ak sk appName requiredServices st =
     (case getCipherAndNonce env sk (as_keys st) of
        (Inl e, w) \<Rightarrow> (Some e, st\<lparr>as_keys := w\<rparr>)
      | (Inr (cipherSkBytes, nonceBytes), w) \<Rightarrow>
          let authInfoRecord = \<lparr>ai_AppInsId = appInsID, ai_Ak = ak, ai_Sk = cipherSkBytes,
                ai_Nonce = nonceBytes, ai_AppName = appName, ai_RequiredServices = requiredServices\<rparr>;
              (err, d) = db_InsertOrUpdate db authInfoRecord (as_db st);
              st = st\<lparr>as_keys := w, as_db := d\<rparr>
          in (case err of
                Some e \<Rightarrow> if err_msg e \<noteq> PgOkMsg then (Some e, st) else (None, st)
              | None \<Rightarrow> (None, st)))"

definition ConfigureAkAndSk ::
  "'d auth_db \<Rightarrow> auth_env \<Rightarrow> string \<Rightarrow> string \<Rightarrow> string \<Rightarrow> string \<Rightarrow> string \<Rightarrow> 'd auth_state \<Rightarrow>
   go_error option \<times> 'd auth_state" where
  "ConfigureAkAndSk db env appInsID ak sk appName requiredServices st =
     (case ValidateUUID env appInsID of
        Some e \<Rightarrow> (Some e, st)
      | None \<Rightarrow>
          (case ValidateAk ak of
             Some e \<Rightarrow> (Some e, st)
           | None \<Rightarrow>
               (case ValidateSk sk of
                  Some e \<Rightarrow> (Some e, st)
                | None \<Rightarrow> saveAkAndSk db env appInsID ak sk appName requiredServices st)))"

section \<open>Configuration handlers\<close>

text \<open>The decoded body is an error, \<open>null\<close>, or a value.\<close>

definition ConfController_Put ::
  "'d auth_db \<Rightarrow> auth_env \<Rightarrow> values_map \<Rightarrow> string \<Rightarrow> AppInstanceInfo option go_result \<Rightarrow> 'd auth_state \<Rightarrow>
   auth_out \<times> 'd auth_state" where
  "ConfController_Put db env header appInsId body st =
     (let clientIp = header_get header xRealIp
      in if \<not> validateSrcAddress env clientIp then (Reply 400 (BodyMsg ClientIpaddressInvalid), st)
         else
           (case body of
              Inl e \<Rightarrow> (Reply 400 (BodyMsg (err_msg e)), st)
            | Inr None \<Rightarrow> (HandlerPanic ''invalid memory address or nil pointer dereference'', st)
            | Inr (Some appInstanceInfo) \<Rightarrow>
                let ak = cr_AccessKeyId (in_Credentials appInstanceInfo);
                    sk = cr_SecretKey (in_Credentials appInstanceInfo);
                    appName = ap_AppName (in_AppInfo appInstanceInfo);
                    strReqServices = ev_marshal env (ap_RequiredServices (in_AppInfo appInstanceInfo));
                    (err, st) = ConfigureAkAndSk db env appInsId ak sk appName strReqServices st
                in (case err of
                      None \<Rightarrow> (Reply 200 (BodyApp appInstanceInfo), st)
                    | Some (Err m) \<Rightarrow>
                        if m = AppIDFailMsg
                        then (Reply 400 (BodyMsg ''Invalid input for application instance ID''), st)
                        else if m = AkFailMsg then (Reply 200 (BodyApp appInstanceInfo), st)
                        else if m = SkFailMsg then (Reply 400 (BodyMsg ''Invalid input for ak or sk''), st)
                        else (Reply 500 (BodyMsg ''Error while saving configuration''), st)
                    | Some e \<Rightarrow> (HandlerPanic (err_msg e), st))))"

definition ConfController_Delete ::
  "'d auth_db \<Rightarrow> auth_env \<Rightarrow> values_map \<Rightarrow> string \<Rightarrow> 'd auth_state \<Rightarrow> auth_out \<times> 'd auth_state" where
  "ConfController_Delete db env header appInsId st =
     (let clientIp = header_get header xRealIp
      in if \<not> validateSrcAddress env clientIp then (Reply 400 (BodyMsg ClientIpaddressInvalid), st)
         else if ValidateUUID env appInsId \<noteq> None then (Reply 400 (BodyMsg AppIDFailMsg), st)
         else
           (case db_Delete db appInsId (as_db st) of
              (Some e, d) \<Rightarrow> (Reply 400 (BodyMsg (err_msg e)), st\<lparr>as_db := d\<rparr>)
            | (None, d) \<Rightarrow> (Reply 200 (BodyMsg ''Delete success.''), st\<lparr>as_db := d\<rparr>)))"

definition empty_record :: AuthInfoRecord where
  "empty_record = \<lparr>ai_AppInsId = [], ai_Ak = [], ai_Sk = [], ai_Nonce = [], ai_AppName = [],
     ai_RequiredServices = []\<rparr>"

definition ConfController_Get ::
  "'d auth_db \<Rightarrow> auth_env \<Rightarrow> values_map \<Rightarrow> string \<Rightarrow> 'd auth_state \<Rightarrow> auth_out" where
  "ConfController_Get db env header appInsId st =
     (let clientIp = header_get header xRealIp
      in if \<not> validateSrcAddress env clientIp then Reply 400 (BodyMsg ClientIpaddressInvalid)
         else if ValidateUUID env appInsId \<noteq> None then Reply 400 (BodyMsg AppIDFailMsg)
         else
           let answer = (\<lambda>r. Reply 200 (BodyRecord
                 (if length (ai_RequiredServices r) = 0 then r\<lparr>ai_RequiredServices := ''[]''\<rparr> else r)))
           in (case db_ReadById db appInsId (as_db st) of
                 Inl e \<Rightarrow> if err_msg e \<noteq> PgOkMsg then Reply 400 (BodyMsg (err_msg e))
                          else answer (empty_record\<lparr>ai_AppInsId := appInsId\<rparr>)
               | Inr r \<Rightarrow> answer r))"

section \<open>Token handler\<close>

record token_request =
  tr_Header :: values_map
  tr_Host :: string
  tr_URL :: string

text \<open>Instance id, secret key (absent for nil) and whether the key exists.\<close>

definition getAppInsIdSk ::
  "'d auth_db \<Rightarrow> auth_env \<Rightarrow> string \<Rightarrow> 'd auth_state \<Rightarrow> (string \<times> string option \<times> bool) go_result" where
  "getAppInsIdSk db env ak st =
     (let decode = (\<lambda>r.
        if length (ai_Sk r) div 2 > 200 then Inl makeslice_panic
        else (case hex_decode (ai_Sk r) of
                None \<Rightarrow> Inr ([], None, True)
              | Some cipherSkBytes \<Rightarrow>
                  if length (ai_Nonce r) div 2 > 30 then Inl makeslice_panic
                  else (case hex_decode (ai_Nonce r) of
                          None \<Rightarrow> Inr ([], None, True)
                        | Some nonceBytes \<Rightarrow>
                            (case GetWorkKey (ev_keys env) (as_keys st) of
                               Inl (Err _) \<Rightarrow> Inr ([], None, True)
                             | Inl e \<Rightarrow> Inl e
                             | Inr workKey \<Rightarrow>
                                 (case DecryptByAES256GCM (ev_keys env) cipherSkBytes workKey nonceBytes of
                                    Inl (Err _) \<Rightarrow> Inr ([], None, True)
                                  | Inl e \<Rightarrow> Inl e
                                  | Inr sk \<Rightarrow> Inr (ai_AppInsId r, Some sk, True))))))
      in (case db_ReadByAk db ak (as_db st) of
            Inl e \<Rightarrow> if err_msg e \<noteq> PgOkMsg then Inr ([], None, False)
                     else decode (empty_record\<lparr>ai_Ak := ak\<rparr>)
          | Inr r \<Rightarrow> decode r))"

text \<open>The request that is signed on the server side.\<close>

definition signed_header :: "token_request \<Rightarrow> string \<Rightarrow> values_map" where
  "signed_header r signHeader =
     header_set HostHeader (tr_Host r)
       (fold (\<lambda>h hdr. header_set h (header_get (tr_Header r) h) hdr) (split_on (CHR '';'') signHeader) [])"

definition isAkSignatureValid ::
  "auth_env \<Rightarrow> token_request \<Rightarrow> string \<Rightarrow> string \<Rightarrow> string \<Rightarrow> bool go_result" where
  "isAkSignatureValid env r sk signHeader sig =
     (let reqUrl = ''https://'' @ tr_Host r @ tr_URL r
      in (case ev_parse_url env reqUrl of
            None \<Rightarrow> Inl (Err ''create new request fail'')
          | Some (path, query) \<Rightarrow>
              let reqToBeSigned = \<lparr>rq_Method = ''POST'', rq_Path = path, rq_Query = query,
                    rq_Header = signed_header r signHeader, rq_Body = Some (Inr [])\<rparr>
              in (case GetSignature (ev_digests env) (ev_orders env) sk (Some reqToBeSigned) of
                    Inl e \<Rightarrow> Inl e
                  | Inr signature \<Rightarrow> Inr (sig = signature))))"

definition GetPrivateKey :: "auth_env \<Rightarrow> key_world \<Rightarrow> string go_result" where
  "GetPrivateKey env w =
     (let encryptKeyFile = ev_config env ''jwt_encrypted_private_key''
      in if length encryptKeyFile = 0 then Inl (Err ''cannot fetch jwt private key from env'')
         else
           (case read_file encryptKeyFile w of
              None \<Rightarrow> Inl (Err ''unable to read key file'')
            | Some keyContent \<Rightarrow>
                (case ev_pem_decode env keyContent of
                   None \<Rightarrow> Inl (Err ''failed to decode encrypt jwt private key file'')
                 | Some encryptKeyBlock \<Rightarrow>
                     let parse = (\<lambda>content. case ev_parse_rsa env content of
                           None \<Rightarrow> Inl (Err ''failed to parse private key'') | Some key \<Rightarrow> Inr key)
                     in if pb_encrypted encryptKeyBlock then
                          (case getJwtPrivateKeyPwd (ev_keys env) w of
                             Inl (Err _) \<Rightarrow> Inl (Err ''failed to get jwt private key password'')
                           | Inl e \<Rightarrow> Inl e
                           | Inr plainPw \<Rightarrow>
                               (case ev_pem_decrypt env encryptKeyBlock plainPw of
                                  None \<Rightarrow> Inl (Err ''failed to decrypt jwt private key file'')
                                | Some keyData \<Rightarrow> parse (ev_pem_encode env keyData)))
                        else parse keyContent)))"

text \<open>The token pointer and the error.\<close>

definition generateJwtToken ::
  "auth_env \<Rightarrow> key_world \<Rightarrow> string \<Rightarrow> string \<Rightarrow> (string option \<times> go_error option) go_result" where
  "generateJwtToken env w appInsId clientIp =
     (case GetPrivateKey env w of
        Inl (Err _) \<Rightarrow> Inr (None, Some (Err ''failed to get private key''))
      | Inl e \<Rightarrow> Inl e
      | Inr privateKey \<Rightarrow>
          let mepAuthKey = ev_config env ''mepauth_key''
          in if length mepAuthKey = 0 then Inr (None, Some (Err ''mep auth key configuration is not set''))
             else
               let claims = \<lparr>jc_ExpiresAt = ev_now env + 3600, jc_Issuer = mepAuthKey,
                     jc_Subject = appInsId, jc_ClientIp = clientIp\<rparr>
               in (case ev_sign_jwt env privateKey claims of
                     Inl e \<Rightarrow> Inr (None, Some e)
                   | Inr token \<Rightarrow> if token = [] then Inr (None, None) else Inr (Some token, None)))"

definition getTokenInfo :: "auth_env \<Rightarrow> key_world \<Rightarrow> token_request \<Rightarrow> string \<Rightarrow> auth_out + TokenInfo" where
  "getTokenInfo env w r appInsId =
     (let ip = header_get (tr_Header r) xRealIp;
          clientIp = (if ip = [] then ''UNKNOWN_IP'' else ip)
      in (case generateJwtToken env w appInsId clientIp of
            Inl e \<Rightarrow> Inl (HandlerPanic (err_msg e))
          | Inr (_, Some e) \<Rightarrow> Inl (Reply 500 (BodyMsg internalError))
          | Inr (None, None) \<Rightarrow> Inl (HandlerPanic ''invalid memory address or nil pointer dereference'')
          | Inr (Some token, None) \<Rightarrow>
              Inr \<lparr>ti_AccessToken = token, ti_TokenType = ''Bearer'', ti_ExpiresIn = ExpiresVal\<rparr>))"

definition checkAkExistAndWriteErrorRes :: "bool \<Rightarrow> auth_out" where
  "checkAkExistAndWriteErrorRes akExist =
     (if \<not> akExist then Reply 401 (BodyMsg access_msg) else Reply 500 (BodyMsg internalError))"

text \<open>The end of the handler, from the signature on.\<close>

definition post_signed ::
  "auth_env \<Rightarrow> token_request \<Rightarrow> string \<Rightarrow> string \<Rightarrow> string \<Rightarrow> string \<Rightarrow> string \<Rightarrow> 'd auth_state \<Rightarrow>
   auth_out \<times> 'd auth_state" where
  "post_signed env r ak appInsId sk signHeader sig st =
     (case isAkSignatureValid env r sk signHeader sig of
        Inl e \<Rightarrow> (Reply 500 (BodyMsg internalError), st)
      | Inr signIsValid \<Rightarrow>
          if \<not> signIsValid
          then (Reply 401 (BodyMsg access_msg), st\<lparr>as_bl := processAkForBlockListing ak (as_bl st)\<rparr>)
          else
            let st = st\<lparr>as_bl := clearAkFromBlockListing ak (as_bl st)\<rparr>
            in (case getTokenInfo env (as_keys st) r appInsId of
                  Inl out \<Rightarrow> (out, st)
                | Inr tokenInfo \<Rightarrow> (Reply 200 (BodyToken tokenInfo), st)))"

definition TokenController_Post ::
  "'d auth_db \<Rightarrow> auth_env \<Rightarrow> token_request \<Rightarrow> 'd auth_state \<Rightarrow> auth_out \<times> 'd auth_state" where
  "TokenController_Post db env r st =
     (let clientIp = header_get (tr_Header r) xRealIp
      in if \<not> validateSrcAddress env clientIp then (Reply 400 (BodyMsg ClientIpaddressInvalid), st)
         else
           (case parseAuthHeader (header_get (tr_Header r) authorization) of
              (ak, signHeader, sig) \<Rightarrow>
                if ak = [] \<or> signHeader = [] \<or> sig = []
                then (Reply 400 (BodyMsg ''Bad auth header format''), st)
                else if \<not> isDateTimeFormatValid (tr_Header r)
                then (Reply 400 (BodyMsg ''Bad x-sdk-time format''), st)
                else if isAkInBlockList ak (as_bl st) then (Reply 403 (BodyMsg ''Access is locked.''), st)
                else
                  (case getAppInsIdSk db env ak st of
                     Inl e \<Rightarrow> (HandlerPanic (err_msg e), st)
                   | Inr (appInsId, sk, akExist) \<Rightarrow>
                       (case sk of
                          None \<Rightarrow> (checkAkExistAndWriteErrorRes akExist, st)
                        | Some sk \<Rightarrow>
                            if appInsId = [] \<or> length sk = 0
                            then (checkAkExistAndWriteErrorRes akExist, st)
                            else post_signed env r ak appInsId sk signHeader sig st))))"

section \<open>Requests in a row\<close>

fun post_all ::
  "'d auth_db \<Rightarrow> auth_env \<Rightarrow> token_request list \<Rightarrow> 'd auth_state \<Rightarrow> auth_out list \<times> 'd auth_state" where
  "post_all db env [] st = ([], st)"
| "post_all db env (r # rs) st =
     (case TokenController_Post db env r st of
        (out, st) \<Rightarrow> (case post_all db env rs st of (outs, st) \<Rightarrow> (out # outs, st)))"

text \<open>A request that passes the checks of its form, for a key and with a signature.\<close>

definition auth_request :: "auth_env \<Rightarrow> token_request \<Rightarrow> string \<Rightarrow> string \<Rightarrow> string \<Rightarrow> bool" where
  "auth_request env r ak signHeader sig \<longleftrightarrow>
     validateSrcAddress env (header_get (tr_Header r) xRealIp) \<and>
     AuthHeaderRegex (header_get (tr_Header r) authorization) = Some (ak, signHeader, sig) \<and>
     isDateTimeFormatValid (tr_Header r)"

lemma match_group_length: "match_group n cls s = Some (g, t) \<Longrightarrow> length g = n"
  by (auto simp: match_group_def split: if_splits)

lemma AuthHeaderRegex_lengths:
  assumes "AuthHeaderRegex h = Some (ak, sh, sig)"
  shows "length ak = 20" "length sh = 28" "length sig = 64"
  using assms unfolding AuthHeaderRegex_def
  by (auto simp: bind_eq_Some_conv dest!: match_group_length split: if_splits)

lemma parseAuthHeader_nonempty:
  assumes "parseAuthHeader h = (ak, sh, sig)"
  shows "ak \<noteq> [] \<and> sh \<noteq> [] \<and> sig \<noteq> [] \<longleftrightarrow> AuthHeaderRegex h = Some (ak, sh, sig)"
proof -
  have "length ak = 20 \<and> length sh = 28 \<and> length sig = 64" if "AuthHeaderRegex h = Some (ak, sh, sig)"
    using AuthHeaderRegex_lengths [OF that] by simp
  then show ?thesis using assms by (auto simp: parseAuthHeader_def split: option.splits)
qed

text \<open>After the checks of its form, a request is decided by the block list, the stored key
  and the signature.\<close>

lemma post_auth_request:
  assumes "auth_request env r ak sh sig"
  shows "TokenController_Post db env r st =
    (if isAkInBlockList ak (as_bl st) then (Reply 403 (BodyMsg ''Access is locked.''), st)
     else (case getAppInsIdSk db env ak st of
             Inl e \<Rightarrow> (HandlerPanic (err_msg e), st)
           | Inr (appInsId, None, akExist) \<Rightarrow> (checkAkExistAndWriteErrorRes akExist, st)
           | Inr (appInsId, Some sk, akExist) \<Rightarrow>
               if appInsId = [] \<or> sk = [] then (checkAkExistAndWriteErrorRes akExist, st)
               else post_signed env r ak appInsId sk sh sig st))"
proof -
  have p: "parseAuthHeader (header_get (tr_Header r) authorization) = (ak, sh, sig)"
    using assms by (simp add: auth_request_def parseAuthHeader_def)
  then have "ak \<noteq> [] \<and> sh \<noteq> [] \<and> sig \<noteq> []"
    using parseAuthHeader_nonempty [OF p] assms by (simp add: auth_request_def)
  then show ?thesis
    using assms p by (simp add: TokenController_Post_def auth_request_def split: sum.splits option.splits)
qed

lemma post_rejected_form:
  assumes "\<nexists>ak sh sig. auth_request env r ak sh sig"
  shows "\<exists>m. TokenController_Post db env r st = (Reply 400 (BodyMsg m), st)"
proof -
  obtain ak sh sig where p: "parseAuthHeader (header_get (tr_Header r) authorization) = (ak, sh, sig)"
    by (metis prod_cases3)
  show ?thesis
    using assms p parseAuthHeader_nonempty [OF p]
    by (auto simp: TokenController_Post_def auth_request_def Let_def)
qed

lemma getAppInsIdSk_cong:
  "as_db st' = as_db st \<Longrightarrow> as_keys st' = as_keys st \<Longrightarrow> getAppInsIdSk db env ak st' = getAppInsIdSk db env ak st"
  unfolding getAppInsIdSk_def by (simp only:)

lemma getTokenInfo_cases:
  assumes "getTokenInfo env w r appInsId = Inr t"
  shows "ti_TokenType t = ''Bearer'' \<and> ti_ExpiresIn t = ExpiresVal \<and>
    (\<exists>key. GetPrivateKey env w = Inr key \<and> ev_sign_jwt env key
       \<lparr>jc_ExpiresAt = ev_now env + 3600, jc_Issuer = ev_config env ''mepauth_key'', jc_Subject = appInsId,
        jc_ClientIp = (let ip = header_get (tr_Header r) xRealIp in if ip = [] then ''UNKNOWN_IP'' else ip)\<rparr> =
       Inr (ti_AccessToken t))"
  using assms unfolding getTokenInfo_def generateJwtToken_def Let_def
  by (auto split: sum.splits option.splits go_error.splits if_splits prod.splits)

lemma getAppInsIdSk_exists:
  assumes "getAppInsIdSk db env ak st = Inr (appInsId, Some sk, b)" "appInsId \<noteq> []"
  shows "\<exists>rec. db_ReadByAk db ak (as_db st) = Inr rec \<and> ai_AppInsId rec = appInsId"
  using assms unfolding getAppInsIdSk_def Let_def
  by (auto simp: empty_record_def split: sum.splits option.splits go_error.splits if_splits)

lemma isAkSignatureValid_True:
  assumes "isAkSignatureValid env r sk sh sig = Inr True"
  shows "\<exists>path query. ev_parse_url env (''https://'' @ tr_Host r @ tr_URL r) = Some (path, query) \<and>
    GetSignature (ev_digests env) (ev_orders env) sk
      (Some \<lparr>rq_Method = ''POST'', rq_Path = path, rq_Query = query, rq_Header = signed_header r sh,
             rq_Body = Some (Inr [])\<rparr>) = Inr sig"
  using assms by (auto simp: isAkSignatureValid_def Let_def split: option.splits sum.splits)

text \<open>(C4) A token is answered only to a well-formed request whose key is not blocked and is
  stored for an application, and whose signature is the one the stored secret gives to the
  request; the token is signed for that application, and the failures of the key are
  forgotten.\<close>

theorem token_needs_signature:
  assumes "TokenController_Post db env r st = (Reply 200 (BodyToken t), st')"
  shows "\<exists>ak sh sig rec sk path query key.
    auth_request env r ak sh sig \<and> \<not> isAkInBlockList ak (as_bl st) \<and>
    db_ReadByAk db ak (as_db st) = Inr rec \<and>
    getAppInsIdSk db env ak st = Inr (ai_AppInsId rec, Some sk, True) \<and>
    ev_parse_url env (''https://'' @ tr_Host r @ tr_URL r) = Some (path, query) \<and>
    GetSignature (ev_digests env) (ev_orders env) sk
      (Some \<lparr>rq_Method = ''POST'', rq_Path = path, rq_Query = query, rq_Header = signed_header r sh,
             rq_Body = Some (Inr [])\<rparr>) = Inr sig \<and>
    ev_sign_jwt env key
      \<lparr>jc_ExpiresAt = ev_now env + 3600, jc_Issuer = ev_config env ''mepauth_key'',
       jc_Subject = ai_AppInsId rec, jc_ClientIp = header_get (tr_Header r) xRealIp\<rparr> = Inr (ti_AccessToken t) \<and>
    ti_ExpiresIn t = 3600 \<and> st' = st\<lparr>as_bl := clearAkFromBlockListing ak (as_bl st)\<rparr>"
    (is "\<exists>ak sh sig rec sk path query key. ?P ak sh sig rec sk path query key")
proof -
  obtain ak sh sig where a: "auth_request env r ak sh sig"
    using post_rejected_form [of env r db st] assms by fastforce
  note post = assms [unfolded post_auth_request [OF a]]
  obtain appInsId sk b where g: "getAppInsIdSk db env ak st = Inr (appInsId, Some sk, b)" "appInsId \<noteq> []"
      "\<not> isAkInBlockList ak (as_bl st)"
      "post_signed env r ak appInsId sk sh sig st = (Reply 200 (BodyToken t), st')"
    using post by (auto simp: checkAkExistAndWriteErrorRes_def split: if_splits sum.splits option.splits prod.splits)
  have b: "b = True"
    using g(1) unfolding getAppInsIdSk_def Let_def
    by (auto split: sum.splits option.splits go_error.splits if_splits)
  obtain rec where rec: "db_ReadByAk db ak (as_db st) = Inr rec" "ai_AppInsId rec = appInsId"
    using getAppInsIdSk_exists [OF g(1,2)] by blast
  have v: "isAkSignatureValid env r sk sh sig = Inr True"
      "getTokenInfo env (as_keys st) r appInsId = Inr t"
      "st' = st\<lparr>as_bl := clearAkFromBlockListing ak (as_bl st)\<rparr>"
    using g(4) by (auto simp: post_signed_def Let_def getTokenInfo_def split: sum.splits if_splits option.splits prod.splits)
  have ip: "header_get (tr_Header r) xRealIp \<noteq> []"
    using a by (simp add: auth_request_def validateSrcAddress_def)
  obtain path query key where "?P ak sh sig rec sk path query key"
    using a g(1,3) b rec isAkSignatureValid_True [OF v(1)] getTokenInfo_cases [OF v(2)] v(3) ip
    by (auto simp: ExpiresVal_def Let_def)
  then show ?thesis by blast
qed

lemma post_wrong_signature:
  assumes "auth_request env r ak sh sig" "\<not> isAkInBlockList ak (as_bl st)"
    and "getAppInsIdSk db env ak st = Inr (appInsId, Some sk, True)" "appInsId \<noteq> []" "sk \<noteq> []"
    and "isAkSignatureValid env r sk sh sig = Inr False"
  shows "TokenController_Post db env r st =
    (Reply 401 (BodyMsg access_msg), st\<lparr>as_bl := processAkForBlockListing ak (as_bl st)\<rparr>)"
  using assms by (simp add: post_auth_request post_signed_def)

lemma reach_process: "bl_reach b \<Longrightarrow> bl_reach (processAkForBlockListing ak b)"
  by (rule bl_reach.reach_step [where e = "InvalidSignature ak"]) simp_all

lemma status_after_failure:
  "bl_reach b \<Longrightarrow> ak_status ak (processAkForBlockListing ak b) = spec_fail (ak_status ak b)"
  using status_process [OF reach_inv] by simp

text \<open>(C11) Three requests with a wrong signature for a known key are answered 401, and a fourth
  request for that key is answered 403 whatever its signature; the database and the key files
  are untouched, and other keys keep their status.\<close>

theorem three_strikes:
  assumes "bl_reach (as_bl st)" "ak_status ak (as_bl st) = Free"
    and "getAppInsIdSk db env ak st = Inr (appInsId, Some sk, True)" "appInsId \<noteq> []" "sk \<noteq> []"
    and "auth_request env r1 ak sh1 sig1" "isAkSignatureValid env r1 sk sh1 sig1 = Inr False"
    and "auth_request env r2 ak sh2 sig2" "isAkSignatureValid env r2 sk sh2 sig2 = Inr False"
    and "auth_request env r3 ak sh3 sig3" "isAkSignatureValid env r3 sk sh3 sig3 = Inr False"
    and "auth_request env r4 ak sh4 sig4"
  shows "\<exists>b. post_all db env [r1, r2, r3, r4] st =
      (replicate 3 (Reply 401 (BodyMsg access_msg)) @ [Reply 403 (BodyMsg ''Access is locked.'')],
       st\<lparr>as_bl := b\<rparr>) \<and> ak_status ak b = Blocked \<and>
    (\<forall>ak'. ak' = ak \<or> ak_status ak' b = ak_status ak' (as_bl st))"
proof -
  let ?p = "processAkForBlockListing ak" and ?b = "as_bl st"
  have reach: "bl_reach (?p ?b)" "bl_reach (?p (?p ?b))" "bl_reach (?p (?p (?p ?b)))"
    using assms(1) by (simp_all add: reach_process)
  have s: "ak_status ak (?p ?b) = Failing 1" "ak_status ak (?p (?p ?b)) = Failing 2"
      "ak_status ak (?p (?p (?p ?b))) = Blocked"
    using assms(1,2) reach by (simp_all add: status_after_failure)
  have l: "\<not> isAkInBlockList ak ?b" "\<not> isAkInBlockList ak (?p ?b)" "\<not> isAkInBlockList ak (?p (?p ?b))"
      "isAkInBlockList ak (?p (?p (?p ?b)))"
    using assms(1,2) reach s by (simp_all add: isAkInBlockList_status reach_inv)
  have g: "getAppInsIdSk db env ak (st\<lparr>as_bl := b\<rparr>) = Inr (appInsId, Some sk, True)" for b
    using assms(3) getAppInsIdSk_cong [of "st\<lparr>as_bl := b\<rparr>" st] by simp
  have "post_all db env [r1, r2, r3, r4] st =
      (replicate 3 (Reply 401 (BodyMsg access_msg)) @ [Reply 403 (BodyMsg ''Access is locked.'')],
       st\<lparr>as_bl := ?p (?p (?p ?b))\<rparr>)"
    using post_wrong_signature [OF assms(6) l(1) assms(3-5,7)]
      post_wrong_signature [OF assms(8) _ g assms(4,5,9), of "?p ?b"]
      post_wrong_signature [OF assms(10) _ g assms(4,5,11), of "?p (?p ?b)"]
      post_auth_request [OF assms(12), of db] l
    by (simp add: numeral_3_eq_3)
  moreover have "ak' = ak \<or> ak_status ak' (?p (?p (?p ?b))) = ak_status ak' ?b" for ak'
    using assms(1) reach by (simp add: status_process reach_inv)
  ultimately show ?thesis using s(3) by blast
qed

section \<open>The database\<close>

text \<open>What the handlers rely on of the object-relational mapper and PostgreSQL: the table
  is keyed by the instance id, a write answers nothing or the message of a driver without
  insert ids, and a read by access key finds the row when the key is unique.\<close>

locale auth_store =
  fixes db :: "'d auth_db" and rows :: "'d \<Rightarrow> string \<Rightarrow> AuthInfoRecord option"
  assumes insert_rows: "rows (snd (db_InsertOrUpdate db r d)) = (rows d)(ai_AppInsId r \<mapsto> r)"
    and insert_report: "fst (db_InsertOrUpdate db r d) \<in> {None, Some (Err PgOkMsg)}"
    and read_ak: "rows d i = Some r \<Longrightarrow> ai_Ak r = ak \<Longrightarrow>
      (\<And>j q. rows d j = Some q \<Longrightarrow> ai_Ak q = ak \<Longrightarrow> j = i) \<Longrightarrow> db_ReadByAk db ak d = Inr r"
    and read_id: "db_ReadById db i d =
      (case rows d i of None \<Rightarrow> Inl (Err ''<QuerySeter> no row found'') | Some r \<Rightarrow> Inr r)"
    and delete_rows: "rows (snd (db_Delete db i d)) = (rows d)(i := None)"
    and delete_report: "fst (db_Delete db i d) = None"
begin

lemma saved_record:
  assumes "getCipherAndNonce env sk (as_keys st) = (Inr (c, n), w)"
  shows "\<exists>d. saveAkAndSk db env appInsID ak sk appName reqs st = (None, st\<lparr>as_keys := w, as_db := d\<rparr>) \<and>
    rows d = (rows (as_db st))(appInsID \<mapsto> \<lparr>ai_AppInsId = appInsID, ai_Ak = ak, ai_Sk = c,
                ai_Nonce = n, ai_AppName = appName, ai_RequiredServices = reqs\<rparr>)"
proof -
  let ?r = "\<lparr>ai_AppInsId = appInsID, ai_Ak = ak, ai_Sk = c, ai_Nonce = n, ai_AppName = appName,
     ai_RequiredServices = reqs\<rparr>"
  show ?thesis
    using insert_report [of ?r "as_db st"] insert_rows [of ?r "as_db st"] assms
    by (cases "db_InsertOrUpdate db ?r (as_db st)")
      (auto simp: saveAkAndSk_def Let_def split: option.splits)
qed

end

text \<open>A table of rows under their id; the driver answers its message after every write.\<close>

definition row_table :: "(string \<times> AuthInfoRecord) list auth_db" where
  "row_table = \<lparr>db_InsertOrUpdate = (\<lambda>r d. (Some (Err PgOkMsg), al_put (ai_AppInsId r) r d)),
     db_ReadByAk = (\<lambda>ak d. case find (\<lambda>(i, r). map_of d i = Some r \<and> ai_Ak r = ak) d of
        None \<Rightarrow> Inl (Err ''<QuerySeter> no row found'') | Some (i, r) \<Rightarrow> Inr r),
     db_ReadById = (\<lambda>i d. case map_of d i of
        None \<Rightarrow> Inl (Err ''<QuerySeter> no row found'') | Some r \<Rightarrow> Inr r),
     db_Delete = (\<lambda>i d. (None, al_del i d))\<rparr>"

lemma find_unique_row:
  assumes "map_of d i = Some r" "ai_Ak r = ak" "\<And>j q. map_of d j = Some q \<Longrightarrow> ai_Ak q = ak \<Longrightarrow> j = i"
  shows "find (\<lambda>(i, r). map_of d i = Some r \<and> ai_Ak r = ak) d = Some (i, r)" (is "find ?P d = _")
proof (cases "find ?P d")
  case None
  then have "\<not> ?P (i, r)" using map_of_SomeD [OF assms(1)] unfolding find_None_iff by blast
  then show ?thesis using assms(1,2) by simp
next
  case (Some e)
  then have "?P e" unfolding find_Some_iff by (elim exE conjE) simp
  then obtain j q where e: "e = (j, q)" "map_of d j = Some q" "ai_Ak q = ak" by (cases e) auto
  then show ?thesis using Some assms(1) assms(3) [OF e(2,3)] by simp
qed

interpretation table: auth_store row_table map_of
proof (unfold_locales, goal_cases)
  case (3 d i r ak)
  have "find (\<lambda>(i, r). map_of d i = Some r \<and> ai_Ak r = ak) d = Some (i, r)"
    by (rule find_unique_row [OF 3])
  then show ?case unfolding row_table_def by simp
qed (auto simp: row_table_def split: option.splits)

section \<open>From configuration to token\<close>

lemma ValidateSk_length: "ValidateSk sk = None \<Longrightarrow> length sk = 64"
  by (simp add: ValidateSk_def split: if_splits)

lemma cipher_of_secret:
  assumes "key_host (ev_keys env)"
    and "GetWorkKey (ev_keys env) w = Inr k" "length k = keySize" "length sk = 64"
  shows "\<exists>n. getCipherAndNonce env sk w =
      (Inr (hex_encode (ke_seal (ev_keys env) k n sk), hex_encode n), w\<lparr>kw_reads := Suc (kw_reads w)\<rparr>) \<and>
    length n = NonceSize"
proof -
  obtain n where n: "rand_read (ev_keys env) NonceSize w = (Some n, w\<lparr>kw_reads := Suc (kw_reads w)\<rparr>)"
      "length n = NonceSize"
    using key_host.rand_read_ok [OF assms(1)] by blast
  have "GetWorkKey (ev_keys env) (w\<lparr>kw_reads := Suc (kw_reads w)\<rparr>) = Inr k"
    using key_host.GetWorkKey_cong [OF assms(1), of "w\<lparr>kw_reads := Suc (kw_reads w)\<rparr>" w] assms(2)
    by (simp add: read_file_def)
  moreover have "aead (ev_keys env)" using assms(1) by (simp add: key_host_def)
  ultimately show ?thesis
    using n assms(3,4)
    by (intro exI [of _ n]) (simp add: getCipherAndNonce_def aead.encrypt_total aead.seal_length NonceSize_def)
qed

text \<open>The stored form of a secret is decrypted to the secret.\<close>

lemma secret_of_cipher:
  assumes "key_host (ev_keys env)"
    and "GetWorkKey (ev_keys env) (as_keys st) = Inr k" "length k = keySize" "length n = NonceSize"
    and "length sk = 64" "db_ReadByAk db ak (as_db st) = Inr rec"
    and "ai_Sk rec = hex_encode (ke_seal (ev_keys env) k n sk)" "ai_Nonce rec = hex_encode n"
  shows "getAppInsIdSk db env ak st = Inr (ai_AppInsId rec, Some sk, True)"
proof -
  have "aead (ev_keys env)" using assms(1) by (simp add: key_host_def)
  then have "DecryptByAES256GCM (ev_keys env) (ke_seal (ev_keys env) k n sk) k n = Inr sk"
    by (rule aead.decrypt_encrypt) (simp add: aead.encrypt_total [OF \<open>aead (ev_keys env)\<close>] assms)
  then show ?thesis
    using assms \<open>aead (ev_keys env)\<close> by (simp add: getAppInsIdSk_def NonceSize_def aead.seal_length)
qed

text \<open>An accepted configuration stores the key, and only that.\<close>

lemma put_stores_key:
  assumes store: "auth_store db rows" and host: "key_host (ev_keys env)"
    and keys: "GetWorkKey (ev_keys env) (as_keys st) = Inr k" "length k = keySize"
    and fresh: "\<forall>i q. rows (as_db st) i = Some q \<longrightarrow> ai_Ak q = ak \<longrightarrow> i = appInsId"
    and valid: "ValidateUUID env appInsId = None" "ValidateAk ak = None" "ValidateSk sk = None"
    and source: "validateSrcAddress env (header_get header xRealIp)"
    and body: "in_Credentials info = \<lparr>cr_AccessKeyId = ak, cr_SecretKey = sk\<rparr>"
  shows "\<exists>st1. ConfController_Put db env header appInsId (Inr (Some info)) st = (Reply 200 (BodyApp info), st1) \<and>
    getAppInsIdSk db env ak st1 = Inr (appInsId, Some sk, True) \<and> as_bl st1 = as_bl st \<and>
    kw_files (as_keys st1) = kw_files (as_keys st)"
proof -
  let ?w = "(as_keys st)\<lparr>kw_reads := Suc (kw_reads (as_keys st))\<rparr>"
  have sk: "length sk = 64" using ValidateSk_length [OF valid(3)] .
  obtain n where n: "getCipherAndNonce env sk (as_keys st) =
      (Inr (hex_encode (ke_seal (ev_keys env) k n sk), hex_encode n), ?w)" "length n = NonceSize"
    using cipher_of_secret [OF host keys sk] by blast
  define reqs where "reqs = ev_marshal env (ap_RequiredServices (in_AppInfo info))"
  define rec where "rec = \<lparr>ai_AppInsId = appInsId, ai_Ak = ak, ai_Sk = hex_encode (ke_seal (ev_keys env) k n sk),
    ai_Nonce = hex_encode n, ai_AppName = ap_AppName (in_AppInfo info), ai_RequiredServices = reqs\<rparr>"
  obtain d where d: "saveAkAndSk db env appInsId ak sk (ap_AppName (in_AppInfo info)) reqs st =
      (None, st\<lparr>as_keys := ?w, as_db := d\<rparr>)" "rows d = (rows (as_db st))(appInsId \<mapsto> rec)"
    using auth_store.saved_record [OF store n(1)] unfolding rec_def by blast
  define st1 where "st1 = st\<lparr>as_keys := ?w, as_db := d\<rparr>"
  have put: "ConfController_Put db env header appInsId (Inr (Some info)) st = (Reply 200 (BodyApp info), st1)"
    using source body valid d(1) by (simp add: ConfController_Put_def ConfigureAkAndSk_def reqs_def st1_def)
  have read: "db_ReadByAk db ak (as_db st1) = Inr rec"
    by (rule auth_store.read_ak [OF store, of _ appInsId])
      (use d(2) fresh in \<open>auto simp: st1_def rec_def split: if_splits\<close>)
  have work: "GetWorkKey (ev_keys env) (as_keys st1) = Inr k"
    using key_host.GetWorkKey_cong [OF host, of ?w "as_keys st"] keys(1) by (simp add: st1_def read_file_def)
  have "getAppInsIdSk db env ak st1 = Inr (appInsId, Some sk, True)"
    using secret_of_cipher [OF host work keys(2) n(2) sk read] by (simp add: rec_def)
  with put show ?thesis by (auto simp: st1_def)
qed

text \<open>A stored key and a signature the client computed over the same content give a token.\<close>

lemma signed_request_served:
  assumes stored: "getAppInsIdSk db env ak st = Inr (appInsId, Some sk, True)" "appInsId \<noteq> []" "sk \<noteq> []"
    and request: "auth_request env r ak sh sig" "\<not> isAkInBlockList ak (as_bl st)"
    and url: "ev_parse_url env (''https://'' @ tr_Host r @ tr_URL r) = Some (path, query)"
    and client: "same_content rc \<lparr>rq_Method = ''POST'', rq_Path = path, rq_Query = query,
        rq_Header = signed_header r sh, rq_Body = Some (Inr [])\<rparr>"
      "distinct (map fst (rq_Header rc))"
      "orders_ok ord" "orders_ok (ev_orders env)"
      "GetSignature (ev_digests env) ord sk (Some rc) = Inr sig"
    and issue: "generateJwtToken env (as_keys st) appInsId (header_get (tr_Header r) xRealIp) = Inr (Some tok, None)"
  shows "TokenController_Post db env r st =
      (Reply 200 (BodyToken \<lparr>ti_AccessToken = tok, ti_TokenType = ''Bearer'', ti_ExpiresIn = 3600\<rparr>),
       st\<lparr>as_bl := clearAkFromBlockListing ak (as_bl st)\<rparr>)"
proof -
  have sig: "isAkSignatureValid env r sk sh sig = Inr True"
    using signature_content [OF client(3,4,1,2), of "ev_digests env" sk, symmetric] client(5) url
    by (simp add: isAkSignatureValid_def)
  have ip: "header_get (tr_Header r) xRealIp \<noteq> []"
    using request(1) by (simp add: auth_request_def validateSrcAddress_def)
  show ?thesis
    using post_auth_request [OF request(1), of db st] request(2) stored sig ip issue
    by (auto simp: post_signed_def getTokenInfo_def ExpiresVal_def)
qed

text \<open>(C2) A configured key serves: with working key files and a fresh access key, a valid
  configuration is answered 200, and afterwards a client that signs a request of the same
  content with its own secret, in whatever order, gets a token for its application.\<close>

theorem configured_key_gets_token:
  assumes store: "auth_store db rows" and host: "key_host (ev_keys env)"
    and keys: "GetWorkKey (ev_keys env) (as_keys st) = Inr k" "length k = keySize"
    and fresh: "\<forall>i q. rows (as_db st) i = Some q \<longrightarrow> ai_Ak q = ak \<longrightarrow> i = appInsId"
    and valid: "ValidateUUID env appInsId = None" "ValidateAk ak = None" "ValidateSk sk = None"
    and source: "validateSrcAddress env (header_get header xRealIp)"
    and body: "in_Credentials info = \<lparr>cr_AccessKeyId = ak, cr_SecretKey = sk\<rparr>"
    and request: "auth_request env r ak sh sig" "\<not> isAkInBlockList ak (as_bl st)"
    and url: "ev_parse_url env (''https://'' @ tr_Host r @ tr_URL r) = Some (path, query)"
    and client: "same_content rc \<lparr>rq_Method = ''POST'', rq_Path = path, rq_Query = query,
        rq_Header = signed_header r sh, rq_Body = Some (Inr [])\<rparr>"
      "distinct (map fst (rq_Header rc))"
      "orders_ok ord" "orders_ok (ev_orders env)"
      "GetSignature (ev_digests env) ord sk (Some rc) = Inr sig"
    and issue: "\<And>w. kw_files w = kw_files (as_keys st) \<Longrightarrow>
        generateJwtToken env w appInsId (header_get (tr_Header r) xRealIp) = Inr (Some tok, None)"
  shows "\<exists>st1 st2. ConfController_Put db env header appInsId (Inr (Some info)) st = (Reply 200 (BodyApp info), st1) \<and>
    TokenController_Post db env r st1 =
      (Reply 200 (BodyToken \<lparr>ti_AccessToken = tok, ti_TokenType = ''Bearer'', ti_ExpiresIn = 3600\<rparr>), st2)"
proof -
  obtain st1 where st1: "ConfController_Put db env header appInsId (Inr (Some info)) st = (Reply 200 (BodyApp info), st1)"
      "getAppInsIdSk db env ak st1 = Inr (appInsId, Some sk, True)" "as_bl st1 = as_bl st"
      "kw_files (as_keys st1) = kw_files (as_keys st)"
    using put_stores_key [OF store host keys fresh valid source body] by blast
  have "appInsId \<noteq> []" "sk \<noteq> []"
    using valid(1) ValidateSk_length [OF valid(3)] by (auto simp: ValidateUUID_def)
  moreover have "\<not> isAkInBlockList ak (as_bl st1)" using request(2) st1(3) by simp
  ultimately show ?thesis
    using st1(1) signed_request_served [OF st1(2) _ _ request(1) _ url client issue [OF st1(4)]] by blast
qed

text \<open>The answers of a configuration request to bad input.  A bad application id and a bad
  secret are answered 400, but a bad access key is answered 200 with the request echoed,
  and nothing is stored; an empty id is answered 500.\<close>

theorem put_bad_input:
  assumes "validateSrcAddress env (header_get header xRealIp)"
  shows "ConfController_Put db env header [] (Inr (Some info)) st =
      (Reply 500 (BodyMsg ''Error while saving configuration''), st) \<and>
    (appInsId \<noteq> [] \<longrightarrow>
      (\<not> ev_uuid env appInsId \<longrightarrow> ConfController_Put db env header appInsId (Inr (Some info)) st =
        (Reply 400 (BodyMsg ''Invalid input for application instance ID''), st)) \<and>
      (ev_uuid env appInsId \<longrightarrow>
        (ValidateAk (cr_AccessKeyId (in_Credentials info)) \<noteq> None \<longrightarrow>
          ConfController_Put db env header appInsId (Inr (Some info)) st = (Reply 200 (BodyApp info), st)) \<and>
        (ValidateAk (cr_AccessKeyId (in_Credentials info)) = None \<longrightarrow>
         ValidateSk (cr_SecretKey (in_Credentials info)) \<noteq> None \<longrightarrow>
          ConfController_Put db env header appInsId (Inr (Some info)) st =
            (Reply 400 (BodyMsg ''Invalid input for ak or sk''), st))))"
  using assms
  by (auto simp: ConfController_Put_def ConfigureAkAndSk_def ValidateUUID_def ValidateAk_def ValidateSk_def
      AppIDFailMsg_def AkFailMsg_def SkFailMsg_def Let_def split: if_splits)

section \<open>A concrete service\<close>

definition sample_ak :: string where "sample_ak = replicate 20 (CHR ''A'')"
definition sample_sk :: string where "sample_sk = replicate 64 (CHR ''k'')"
definition sample_id :: string where "sample_id = ''5abe4782-2c70-4e47-9a4e-0ee3a1a0fd1f''"
definition sample_signed :: string where "sample_signed = ''content-type;host;x-sdk-date''"
definition sample_sig :: string where "sample_sig = concat (replicate 32 ''6b'')"

definition sample_auth :: auth_env where
  "sample_auth = \<lparr>ev_digests = \<lparr>dg_sha256 = (\<lambda>s. []), dg_hmac = (\<lambda>k s. take 32 k)\<rparr>, ev_orders = backwards,
     ev_keys = plain_host, ev_ipv4 = (\<lambda>s. s = ''10.0.0.1''), ev_ipv6 = (\<lambda>s. False), ev_uuid = (\<lambda>s. s = sample_id),
     ev_parse_url = (\<lambda>s. Some (''/mep/token'', [])), ev_marshal = (\<lambda>s. ''null''),
     ev_config = (\<lambda>k. ''jwt.pem''), ev_pem_decode = (\<lambda>s. Some \<lparr>pb_encrypted = False, pb_bytes = s\<rparr>),
     ev_pem_decrypt = (\<lambda>b p. None), ev_pem_encode = (\<lambda>s. s), ev_parse_rsa = Some,
     ev_sign_jwt = (\<lambda>k c. Inr (''token for '' @ jc_Subject c)), ev_now = 0\<rparr>"

definition sample_post :: "string \<Rightarrow> token_request" where
  "sample_post sig = \<lparr>tr_Header = [(''X-Real-Ip'', [''10.0.0.1'']), (''X-Sdk-Date'', [''20200930T111314Z'']),
       (''Content-Type'', [''application/json'']),
       (''Authorization'', [''SDK-HMAC-SHA256 Access='' @ sample_ak @ '', SignedHeaders='' @ sample_signed @
          '', Signature='' @ sig])],
     tr_Host = ''mep'', tr_URL = ''/mep/token''\<rparr>"

definition sample_client :: http_request where
  "sample_client = \<lparr>rq_Method = ''POST'', rq_Path = ''/mep/token'', rq_Query = [],
     rq_Header = [(''Host'', [''mep'']), (''X-Sdk-Date'', [''20200930T111314Z'']),
        (''Content-Type'', [''application/json''])], rq_Body = None\<rparr>"

definition sample_state :: "(string \<times> AuthInfoRecord) list auth_state" where
  "sample_state = \<lparr>as_bl = no_sessions, as_db = [],
     as_keys = first_world\<lparr>kw_files := kw_files first_world @ [(''jwt.pem'', ''key'')]\<rparr>\<rparr>"

definition sample_info :: AppInstanceInfo where
  "sample_info = \<lparr>in_Credentials = \<lparr>cr_AccessKeyId = sample_ak, cr_SecretKey = sample_sk\<rparr>,
     in_AppInfo = \<lparr>ap_AppName = ''app'', ap_RequiredServices = None\<rparr>\<rparr>"

lemma sample_work_key: "GetWorkKey plain_host (as_keys sample_state) = Inr (replicate 32 (CHR 0x02))"
proof -
  have "GetWorkKey plain_host (as_keys sample_state) = GetWorkKey plain_host first_world"
    by (rule plain.GetWorkKey_cong) (auto simp: sample_state_def first_world_def key_files_def read_file_def)
  also have "\<dots> = decryptKey plain_host (replicate keySize (CHR 0x01)) encryptedWorkKeyFilePath
      workKeyNonceFilePath first_world"
    using plain_root [of first_world "CHR 0x00" "CHR 0x01"] by (simp add: GetWorkKey_def first_world_def)
  also have "\<dots> = Inr (replicate 32 (CHR 0x02))"
    by (rule plain.decryptKey_ok [where n = "replicate 12 (CHR 0x03)"])
      (use key_paths_distinct in \<open>auto simp: NonceSize_def first_world_def key_files_def read_file_def
         plain_host_def key_tag_def keySize_def\<close>)
  finally show ?thesis .
qed

lemma sample_auth_request:
  "auth_request sample_auth (sample_post sample_sig) sample_ak sample_signed sample_sig"
  "auth_request sample_auth (sample_post (replicate 64 (CHR ''0''))) sample_ak sample_signed (replicate 64 (CHR ''0''))"
  by code_simp+

lemma sample_same_content:
  "same_content sample_client \<lparr>rq_Method = ''POST'', rq_Path = ''/mep/token'', rq_Query = [],
     rq_Header = signed_header (sample_post sample_sig) sample_signed, rq_Body = Some (Inr [])\<rparr>"
proof -
  have "signed_header (sample_post sample_sig) sample_signed =
      [(''Content-Type'', [''application/json'']), (''Host'', [''mep'']), (''X-Sdk-Date'', [''20200930T111314Z''])]"
    by code_simp
  then show ?thesis
    by (simp add: same_content_def sample_client_def query_items_def header_items_def getRequestBody_def
      add_mset_commute)
qed

lemma sample_token:
  assumes "kw_files w = kw_files (as_keys sample_state)"
  shows "generateJwtToken sample_auth w sample_id ip = Inr (Some (''token for '' @ sample_id), None)"
proof -
  have "''jwt.pem'' \<notin> {componentFilePath, saltFilePath, encryptedWorkKeyFilePath, workKeyNonceFilePath}"
    by (simp add: key_paths)
  then have "read_file ''jwt.pem'' w = Some ''key''"
    using assms by (auto simp: read_file_def sample_state_def first_world_def key_files_def)
  then show ?thesis
    by (simp add: generateJwtToken_def GetPrivateKey_def sample_auth_def)
qed

lemma sample_checks:
  "ValidateUUID sample_auth sample_id = None" "ValidateAk sample_ak = None" "ValidateSk sample_sk = None"
  "validateSrcAddress sample_auth (header_get [(''X-Real-Ip'', [''10.0.0.1''])] xRealIp)"
  "\<not> isAkInBlockList sample_ak (as_bl sample_state)"
  "distinct (map fst (rq_Header sample_client))"
  "GetSignature (ev_digests sample_auth) in_order sample_sk (Some sample_client) = Inr sample_sig"
  by code_simp+

lemma sample_orders: "orders_ok in_order" "orders_ok (ev_orders sample_auth)"
  by (simp_all add: orders_ok_def in_order_def sample_auth_def backwards_def)

lemma sample_url: "ev_parse_url sample_auth s = Some (''/mep/token'', [])"
  by (simp add: sample_auth_def)

lemma sample_keys: "ev_keys sample_auth = plain_host"
  by (simp add: sample_auth_def)

theorem configured_key_gets_token_witness:
  "\<exists>st1 st2. ConfController_Put row_table sample_auth [(''X-Real-Ip'', [''10.0.0.1''])] sample_id
      (Inr (Some sample_info)) sample_state = (Reply 200 (BodyApp sample_info), st1) \<and>
    TokenController_Post row_table sample_auth (sample_post sample_sig) st1 =
      (Reply 200 (BodyToken \<lparr>ti_AccessToken = ''token for '' @ sample_id, ti_TokenType = ''Bearer'',
         ti_ExpiresIn = 3600\<rparr>), st2)"
  by (rule configured_key_gets_token [where rows = map_of and k = "replicate 32 (CHR 0x02)"
        and ak = sample_ak and sk = sample_sk and sh = sample_signed and sig = sample_sig and rc = sample_client
        and path = "''/mep/token''" and query = "[]" and ord = in_order])
    (simp_all add: sample_keys table.auth_store_axioms plain.key_host_axioms sample_work_key keySize_def
      sample_checks sample_auth_request sample_same_content sample_orders sample_token sample_url,
     simp_all add: sample_state_def sample_info_def)

lemma sample_put:
  obtains st1 where "getAppInsIdSk row_table sample_auth sample_ak st1 = Inr (sample_id, Some sample_sk, True)"
    "as_bl st1 = no_sessions" "kw_files (as_keys st1) = kw_files (as_keys sample_state)"
proof -
  have "in_Credentials sample_info = \<lparr>cr_AccessKeyId = sample_ak, cr_SecretKey = sample_sk\<rparr>"
      "\<forall>i q. map_of (as_db sample_state) i = Some q \<longrightarrow> ai_Ak q = sample_ak \<longrightarrow> i = sample_id"
    by (simp_all add: sample_info_def sample_state_def)
  then show thesis
    using put_stores_key [OF table.auth_store_axioms, of sample_auth sample_state "replicate 32 (CHR 0x02)"
        sample_ak sample_id sample_sk "[(''X-Real-Ip'', [''10.0.0.1''])]" sample_info] that
    by (auto simp: sample_keys plain.key_host_axioms sample_work_key keySize_def sample_checks)
      (auto simp: sample_state_def)
qed

theorem token_needs_signature_witness:
  "\<exists>d ak sh sig rec. auth_request sample_auth (sample_post sample_sig) ak sh sig \<and>
     db_ReadByAk row_table ak d = Inr rec"
proof -
  obtain st1 where st1: "getAppInsIdSk row_table sample_auth sample_ak st1 = Inr (sample_id, Some sample_sk, True)"
    "as_bl st1 = no_sessions" "kw_files (as_keys st1) = kw_files (as_keys sample_state)"
    by (rule sample_put)
  have "sample_id \<noteq> []" "sample_sk \<noteq> []" "\<not> isAkInBlockList sample_ak (as_bl st1)"
    using sample_checks(5) by (simp_all add: sample_id_def sample_sk_def st1(2) sample_state_def)
  then have "TokenController_Post row_table sample_auth (sample_post sample_sig) st1 =
      (Reply 200 (BodyToken \<lparr>ti_AccessToken = ''token for '' @ sample_id, ti_TokenType = ''Bearer'',
         ti_ExpiresIn = 3600\<rparr>), st1\<lparr>as_bl := clearAkFromBlockListing sample_ak (as_bl st1)\<rparr>)"
    using signed_request_served [OF st1(1) _ _ sample_auth_request(1) _ sample_url
      sample_same_content sample_checks(6) sample_orders sample_checks(7) sample_token [OF st1(3)]] by blast
  from token_needs_signature [OF this] show ?thesis
    by (elim exE conjE) (rule exI [of _ "as_db st1"], blast)
qed

theorem three_strikes_witness:
  "\<exists>st b. post_all row_table sample_auth [sample_post (replicate 64 (CHR ''0'')),
        sample_post (replicate 64 (CHR ''0'')), sample_post (replicate 64 (CHR ''0'')), sample_post sample_sig] st =
      (replicate 3 (Reply 401 (BodyMsg access_msg)) @ [Reply 403 (BodyMsg ''Access is locked.'')],
       st\<lparr>as_bl := b\<rparr>) \<and>
    ak_status sample_ak b = Blocked"
proof -
  obtain st1 where st1: "getAppInsIdSk row_table sample_auth sample_ak st1 = Inr (sample_id, Some sample_sk, True)"
    "as_bl st1 = no_sessions"
    by (rule sample_put)
  have w: "isAkSignatureValid sample_auth (sample_post (replicate 64 (CHR ''0''))) sample_sk sample_signed
      (replicate 64 (CHR ''0'')) = Inr False"
    by code_simp
  have "ak_status sample_ak no_sessions = Free" by code_simp
  then have "bl_reach (as_bl st1)" "ak_status sample_ak (as_bl st1) = Free" "sample_id \<noteq> []" "sample_sk \<noteq> []"
    using bl_reach.reach_init by (simp_all add: st1(2) sample_id_def sample_sk_def)
  from three_strikes [OF this(1,2) st1(1) this(3,4) sample_auth_request(2) w sample_auth_request(2) w
      sample_auth_request(2) w sample_auth_request(1)]
  show ?thesis by (elim exE conjE) (intro exI conjI)
qed

theorem put_bad_input_witness:
  "ConfController_Put row_table sample_auth [(''X-Real-Ip'', [''10.0.0.1''])] sample_id
     (Inr (Some (sample_info\<lparr>in_Credentials := \<lparr>cr_AccessKeyId = ''bad'', cr_SecretKey = sample_sk\<rparr>\<rparr>))) sample_state =
   (Reply 200 (BodyApp (sample_info\<lparr>in_Credentials := \<lparr>cr_AccessKeyId = ''bad'', cr_SecretKey = sample_sk\<rparr>\<rparr>)),
    sample_state)"
proof -
  have "ev_uuid sample_auth sample_id" "sample_id \<noteq> []" "ValidateAk ''bad'' \<noteq> None"
    by (simp_all add: sample_auth_def sample_id_def ValidateAk_def)
  then show ?thesis
    using put_bad_input [OF sample_checks(4), of row_table "sample_info\<lparr>in_Credentials :=
      \<lparr>cr_AccessKeyId = ''bad'', cr_SecretKey = sample_sk\<rparr>\<rparr>" sample_state sample_id] by simp
qed

end
