(* ===== verification/Auth_Setup.thy ===== *)
theory Auth_Setup
  imports Auth_Service Svc_Discover "HOL-Library.Sublist"
begin

text \<open>
  The start-up of mepauth (\<open>mepauth/main.go\<close>, \<open>apigw.go\<close>, \<open>adapter\<close>,
  and what they use of \<open>util\<close>): the properties file, the database, the requests that set up
  the gateway, the keys, and the first configured application.  The configuration, the files, the
  database library and the HTTP client are arguments.
\<close>

section \<open>Platform\<close>

text \<open>A request to the gateway, with whether it carries the TLS configuration.\<close>

record gw_request =
  gq_method :: string
  gq_url :: string
  gq_body :: string
  gq_tls :: bool

record 'w setup_env =
  su_config :: "string \<Rightarrow> string"
  su_getenv :: "string \<Rightarrow> string"
  su_read :: "string \<Rightarrow> string go_result"
  su_pem_type :: "string \<Rightarrow> string option"
  su_cert_pool :: "string \<Rightarrow> bool"
  su_json :: "string \<Rightarrow> string"
  su_driver :: "go_error option"
  su_database :: "string \<Rightarrow> go_error option"
  su_syncdb :: "go_error option"
  su_ormer :: "go_error option"
  su_send :: "gw_request \<Rightarrow> 'w \<Rightarrow> nat go_result \<times> 'w"

section \<open>Validation\<close>

text \<open>The pattern admits the decimal numbers from 1 to 65535 without leading zeros.\<close>

definition portRegex :: "string \<Rightarrow> bool" where
  "portRegex s \<longleftrightarrow> s \<noteq> [] \<and> length s \<le> 5 \<and> list_all is_digit s \<and> hd s \<noteq> CHR ''0'' \<and> dec_val s \<le> 65535"

definition serverNameRegex :: "string \<Rightarrow> bool" where
  "serverNameRegex s \<longleftrightarrow> list_all domain_label (split_on (CHR ''.'') s)"

definition validateServerName :: "string \<Rightarrow> bool \<times> go_error option" where
  "validateServerName serverName =
     (if length serverName > maxHostNameLen then (False, Some (Err ''server or host name length validation failed''))
      else (serverNameRegex serverName, None))"

definition validateApiGwParams :: "string \<Rightarrow> string \<Rightarrow> bool \<times> go_error option" where
  "validateApiGwParams apiGwHost apiGwPort =
     (case validateServerName apiGwHost of
        (apiGwHostIsValid, err) \<Rightarrow>
          if err \<noteq> None \<or> \<not> apiGwHostIsValid then (apiGwHostIsValid, err)
          else if \<not> portRegex apiGwPort then (False, None)
          else (True, None))"

text \<open>\<open>net.ParseCIDR\<close>, as far as it succeeds.\<close>

definition cidr_ok :: "string \<Rightarrow> bool" where
  "cidr_ok s =
     (if CHR ''/'' \<notin> set s then False
      else (let addr = takeWhile (\<lambda>c. c \<noteq> CHR ''/'') s; mask = drop (Suc (length addr)) s;
                bits = (if parse_ipv4 addr \<noteq> None then 32 else 128)
            in (parse_ipv4 addr \<noteq> None \<or> parse_ipv6 addr \<noteq> None)
               \<and> (case dtoi mask of None \<Rightarrow> False | Some (n, i) \<Rightarrow> i = length mask \<and> n \<le> bits)))"

definition ValidateIpAndCidr :: "string list \<Rightarrow> bool" where
  "ValidateIpAndCidr trustedNetworkList = list_all (\<lambda>ipcidr. ParseIP ipcidr \<noteq> None \<or> cidr_ok ipcidr) trustedNetworkList"

text \<open>An invalid host or port is no error: the address is then empty.\<close>

definition GetAPIGwURL :: "'w setup_env \<Rightarrow> string go_result" where
  "GetAPIGwURL E =
     (case validateApiGwParams (su_config E ''apigw_host'') (su_config E ''apigw_port'') of
        (valid, Some e) \<Rightarrow> Inl e
      | (False, None) \<Rightarrow> Inr []
      | (True, None) \<Rightarrow> Inr (su_config E ''HttpProtocol'' @ ''://'' @ su_config E ''apigw_host'' @ '':'' @ su_config E ''apigw_port''))"

definition GetPublicKey :: "'w setup_env \<Rightarrow> string go_result" where
  "GetPublicKey E =
     (let jwtPublicKey = su_config E ''jwt_public_key'' in
      if length jwtPublicKey = 0 then Inl (Err ''jwt public key configuration is not set'')
      else (case su_read E jwtPublicKey of
              Inl e \<Rightarrow> Inl (Err ''unable to read public key file'')
            | Inr publicKey \<Rightarrow>
                if su_pem_type E publicKey \<noteq> Some ''PUBLIC KEY'' then Inl (Err ''failed to decode public key file'')
                else Inr publicKey))"

text \<open>The names of the admitted suites stand for their numbers.\<close>

definition cipherSuites :: "string list" where
  "cipherSuites = [''TLS_ECDHE_RSA_WITH_AES_128_GCM_SHA256'', ''TLS_ECDHE_RSA_WITH_AES_256_GCM_SHA384'']"

definition getCipherSuites :: "string \<Rightarrow> string list option" where
  "getCipherSuites sslCiphers =
     (let names = filter (\<lambda>n. n \<noteq> []) (map trim_space (split_on (CHR '','') sslCiphers)) in
      if list_all (\<lambda>n. n \<in> set cipherSuites) names \<and> names \<noteq> [] then Some names else None)"

text \<open>The server name and the suites of the configuration; an invalid name gives no configuration
  and no error.\<close>

definition TLSConfig :: "'w setup_env \<Rightarrow> string \<Rightarrow> (string \<times> string list) option go_result" where
  "TLSConfig E crtName =
     (if length (su_config E crtName) = 0 then Inl (Err ''certificate name configuration is not set'')
      else (case su_read E (su_config E crtName) of
              Inl e \<Rightarrow> Inl e
            | Inr crt \<Rightarrow>
                if \<not> su_cert_pool E crt then Inl (Err ''failed to decode certificate file'')
                else (case validateServerName (su_config E ''server_name'') of
                        (valid, Some e) \<Rightarrow> Inl e
                      | (False, None) \<Rightarrow> Inr None
                      | (True, None) \<Rightarrow>
                          if length (su_config E ''ssl_ciphers'') = 0 then Inl (Err ''ssl cipher configuration is not set'')
                          else (case getCipherSuites (su_config E ''ssl_ciphers'') of
                                  None \<Rightarrow> Inl (Err ''unable to get cipher suite'')
                                | Some suites \<Rightarrow> Inr (Some (su_config E ''server_name'', suites))))))"

section \<open>Requests to the gateway\<close>

definition MepserverName :: string where "MepserverName = ''mepserver''"
definition MepauthName :: string where "MepauthName = ''mepauth''"
definition MepServerServiceMgmt :: string where "MepServerServiceMgmt = ''/mep/mec_service_mgmt''"
definition MepServerAppSupport :: string where "MepServerAppSupport = ''/mep/mec_app_support''"
definition AuthTokenPath :: string where "AuthTokenPath = ''/mep/token''"
definition AppManagePath :: string where "AppManagePath = ''/mep/appMng/v1''"
definition MepAppJwtName :: string where "MepAppJwtName = ''mepauth.jwt''"
definition auth_PluginPath :: string where "auth_PluginPath = ''/plugins''"
definition auth_servicesPath :: string where "auth_servicesPath = ''/services''"

definition MepserverRateConf :: string where
  "MepserverRateConf = ''{ \"minute\": 1000, \"policy\": \"local\", \"hide_client_headers\": true }''"
definition MepserverPreFunctionConf :: string where
  "MepserverPreFunctionConf = ''{ \"functions\": [\"ngx.var.upstream_x_forwarded_for=UNKNOWN\"] }''"
definition MepauthRateConf :: string where
  "MepauthRateConf = ''{ \"minute\": 100, \"policy\": \"local\", \"hide_client_headers\": true }''"
definition ResponseTransformerConf :: string where
  "ResponseTransformerConf = ''{ \"name\": \"response-transformer\", \"config\": { \"remove\": { \"headers\": [\"server\"] } } }''"

definition named_body :: "string \<Rightarrow> string" where
  "named_body n = ''{ \"name\": \"'' @ n @ ''\" }''"

definition configFormat :: "string \<Rightarrow> string \<Rightarrow> string" where
  "configFormat n c = ''{ \"name\": \"'' @ n @ ''\", \"config\": '' @ c @ '' }''"

definition ssl_enabled :: "'w setup_env \<Rightarrow> bool" where
  "ssl_enabled E \<longleftrightarrow> equal_fold (su_getenv E ''SSL_ENABLED'') ''true''"

text \<open>A conflict counts as done: the entry exists already.\<close>

definition accepted :: "nat go_result \<Rightarrow> bool" where
  "accepted r \<longleftrightarrow> (case r of Inl e \<Rightarrow> False | Inr code \<Rightarrow> 200 \<le> code \<and> code \<le> 299 \<or> code = 409)"

definition send_request :: "'w setup_env \<Rightarrow> gw_request \<Rightarrow> 'w \<Rightarrow> go_error option \<times> 'w" where
  "send_request E q w =
     (case su_send E q w of
        (Inl e, w) \<Rightarrow> (Some e, w)
      | (Inr code, w) \<Rightarrow>
          (if \<not> (code \<ge> 200 \<and> code \<le> 299) \<and> code \<noteq> 409
           then Some (Err (''request sending returned failure response, status is '' @ itoa code)) else None, w))"

definition post_request :: "'w setup_env \<Rightarrow> string \<Rightarrow> string \<Rightarrow> gw_request" where
  "post_request E url body = \<lparr>gq_method = ''POST'', gq_url = url, gq_body = body, gq_tls = ssl_enabled E\<rparr>"

definition put_request :: "string \<Rightarrow> string \<Rightarrow> gw_request" where
  "put_request url body = \<lparr>gq_method = ''PUT'', gq_url = url, gq_body = body, gq_tls = True\<rparr>"

definition SendPostRequest :: "'w setup_env \<Rightarrow> string \<Rightarrow> string \<Rightarrow> 'w \<Rightarrow> go_error option \<times> 'w" where
  "SendPostRequest E url body w = send_request E (post_request E url body) w"

definition SendPutRequest :: "'w setup_env \<Rightarrow> string \<Rightarrow> string \<Rightarrow> 'w \<Rightarrow> go_error option \<times> 'w" where
  "SendPutRequest E url body w = send_request E (put_request url body) w"

text \<open>The early returns: the next step runs when there was no error.\<close>

definition seq_err :: "go_error option \<times> 'w \<Rightarrow> ('w \<Rightarrow> go_error option \<times> 'w) \<Rightarrow> go_error option \<times> 'w" where
  "seq_err r f = (case r of (Some e, w) \<Rightarrow> (Some e, w) | (None, w) \<Rightarrow> f w)"

definition fail_if :: "bool \<Rightarrow> string \<Rightarrow> 'w \<Rightarrow> go_error option \<times> 'w" where
  "fail_if b m w = (if b then Some (Err m) else None, w)"

definition gw_service_body :: "string \<Rightarrow> string \<Rightarrow> string" where
  "gw_service_body targetURL serviceName = ''{ \"url\": \"'' @ targetURL @ ''\", \"name\": \"'' @ serviceName @ ''\" }''"

definition gw_route_body :: "string \<Rightarrow> string list \<Rightarrow> bool \<Rightarrow> string" where
  "gw_route_body serviceName servicePaths needStripPath =
     ''{ \"paths\": [\"'' @ join ''\", \"'' servicePaths @ ''\"], \"name\": \"'' @ serviceName @ ''\"''
       @ (if serviceName = MepauthName then '' ,\"preserve_host\": true'' else [])
       @ (if needStripPath then [] else '' ,\"strip_path\": false'') @ ''}''"

definition AddServiceRoute :: "'w setup_env \<Rightarrow> string \<Rightarrow> string list \<Rightarrow> string \<Rightarrow> bool \<Rightarrow> 'w \<Rightarrow> go_error option \<times> 'w" where
  "AddServiceRoute E serviceName servicePaths targetURL needStripPath w =
     (case GetAPIGwURL E of
        Inl e \<Rightarrow> (Some e, w)
      | Inr apiGwURL \<Rightarrow>
          seq_err (SendPutRequest E (apiGwURL @ auth_servicesPath @ ''/'' @ serviceName) (gw_service_body targetURL serviceName) w)
            (SendPostRequest E (apiGwURL @ auth_servicesPath @ ''/'' @ serviceName @ ''/routes'')
               (gw_route_body serviceName servicePaths needStripPath)))"

definition consumer_body :: string where
  "consumer_body = ''{ \"username\": \"'' @ MepAppJwtName @ ''\" }''"

definition gw_jwt_body :: "string \<Rightarrow> string \<Rightarrow> string" where
  "gw_jwt_body mepAuthKey publicKey =
     ''{ \"algorithm\": \"RS512\", \"key\": \"'' @ mepAuthKey @ ''\", \"rsa_public_key\": \"'' @ publicKey @ ''\" }''"

definition SetApiGwConsumer :: "'w setup_env \<Rightarrow> string \<Rightarrow> 'w \<Rightarrow> go_error option \<times> 'w" where
  "SetApiGwConsumer E apiGwUrl w =
     seq_err (SendPostRequest E (apiGwUrl @ ''/consumers'') consumer_body w) (\<lambda>w.
       seq_err (fail_if (length (su_config E ''mepauth_key'') = 0) ''MEP auth key configuration is not set'' w) (\<lambda>w.
         case GetPublicKey E of
           Inl e \<Rightarrow> (Some e, w)
         | Inr jwtPublicKey \<Rightarrow>
             SendPostRequest E (apiGwUrl @ ''/consumers'' @ ''/'' @ MepAppJwtName @ ''/jwt'')
               (gw_jwt_body (su_config E ''mepauth_key'') jwtPublicKey) w))"

definition jwt_config :: string where
  "jwt_config = ''{ \"name\": \"jwt\", \"config\": { \"claims_to_verify\": [\"exp\"] } }''"

definition SetupApiGwMepServer :: "'w setup_env \<Rightarrow> string \<Rightarrow> 'w \<Rightarrow> go_error option \<times> 'w" where
  "SetupApiGwMepServer E apiGwUrl w =
     (let plugins = apiGwUrl @ auth_servicesPath @ ''/'' @ MepserverName @ auth_PluginPath in
      seq_err (fail_if (length (su_config E ''mepserver_host'') = 0) ''MEP server host configuration is not set'' w) (\<lambda>w.
      seq_err (fail_if (length (su_config E ''mepserver_port'') = 0) ''MEP server port configuration is not set'' w) (\<lambda>w.
      seq_err (AddServiceRoute E MepserverName [MepServerServiceMgmt, MepServerAppSupport]
        (su_config E ''HttpProtocol'' @ ''://'' @ su_config E ''mepserver_host'' @ '':'' @ su_config E ''mepserver_port'') False w) (\<lambda>w.
      seq_err (SendPostRequest E plugins jwt_config w) (\<lambda>w.
      seq_err (SendPostRequest E plugins (named_body ''appid-header'') w) (\<lambda>w.
      seq_err (SendPostRequest E plugins (configFormat ''pre-function'' MepserverPreFunctionConf) w) (\<lambda>w.
      seq_err (SendPostRequest E plugins (configFormat ''rate-limiting'' MepserverRateConf) w) (\<lambda>w.
        SendPostRequest E plugins ResponseTransformerConf w))))))))"

definition getTrustedIpList :: "string list \<Rightarrow> string" where
  "getTrustedIpList trustedNetworksList =
     (let ipcidrList = concat (map (\<lambda>ipcidr. ''\"'' @ ipcidr @ ''\",'') trustedNetworksList);
          ipcidrList = (if ipcidrList \<noteq> [] \<and> last ipcidrList = CHR '','' then butlast ipcidrList else ipcidrList)
      in ''{ \"whitelist\": ['' @ ipcidrList @ ''] }'')"

definition https_enabled :: "'w setup_env \<Rightarrow> bool" where
  "https_enabled E \<longleftrightarrow> equal_fold (su_config E ''EnableHTTPS'') ''true''"

text \<open>The trusted networks are absent or a text; a list that does not validate is ignored.\<close>

definition SetupApiGwMepAuth :: "'w setup_env \<Rightarrow> string \<Rightarrow> string option \<Rightarrow> 'w \<Rightarrow> go_error option \<times> 'w" where
  "SetupApiGwMepAuth E apiGwURL trustedNetworks w =
     (let httpsPort = (if https_enabled E then su_config E ''HttpsPort'' else su_config E ''HttpPort'');
          plugins = apiGwURL @ auth_servicesPath @ ''/'' @ MepauthName @ auth_PluginPath in
      seq_err (fail_if (length httpsPort = 0) ''HTTPS port configuration is not set'' w) (\<lambda>w.
      seq_err (fail_if (length (su_config E ''HTTPSAddr'') = 0) ''MEP auth host configuration is not set'' w) (\<lambda>w.
      seq_err (AddServiceRoute E MepauthName [AuthTokenPath, AppManagePath]
        (su_config E ''HttpProtocol'' @ ''://'' @ su_config E ''HTTPSAddr'' @ '':'' @ httpsPort) False w) (\<lambda>w.
      seq_err (SendPostRequest E plugins (configFormat ''rate-limiting'' MepauthRateConf) w) (\<lambda>w.
      seq_err (SendPostRequest E plugins ResponseTransformerConf w) (\<lambda>w.
        case trustedNetworks of
          None \<Rightarrow> (None, w)
        | Some networks \<Rightarrow>
            if length networks > 0 then
              (let trustedNetworksList = split_on (CHR '';'') networks in
               if ValidateIpAndCidr trustedNetworksList
               then SendPostRequest E plugins (configFormat ''ip-restriction'' (getTrustedIpList trustedNetworksList)) w
               else (None, w))
            else (None, w)))))))"

definition getHttpLogPluginData :: "'w setup_env \<Rightarrow> string" where
  "getHttpLogPluginData E =
     ''{\"name\":\"http-log\",\"config\":{\"http_endpoint\":'' @ su_json E (su_config E ''HttpProtocol'' @ ''://mep-mm5:80/mep/service_govern/v1/kong_log'')
       @ '',\"method\":\"POST\",\"timeout\":1000,\"keepalive\":1000}}''"

definition SetupHttpLogPlugin :: "'w setup_env \<Rightarrow> string \<Rightarrow> 'w \<Rightarrow> go_error option \<times> 'w" where
  "SetupHttpLogPlugin E apiGwUrl w = SendPostRequest E (apiGwUrl @ auth_PluginPath) (getHttpLogPluginData E) w"

definition InitAPIGateway :: "'w setup_env \<Rightarrow> string option \<Rightarrow> 'w \<Rightarrow> go_error option \<times> 'w" where
  "InitAPIGateway E trustedNetworks w =
     (case GetAPIGwURL E of
        Inl e \<Rightarrow> (Some e, w)
      | Inr apiGwUrl \<Rightarrow>
          seq_err (SetApiGwConsumer E apiGwUrl w) (\<lambda>w.
          seq_err (SetupApiGwMepServer E apiGwUrl w) (\<lambda>w.
          seq_err (SetupApiGwMepAuth E apiGwUrl trustedNetworks w) (\<lambda>w.
            SetupHttpLogPlugin E apiGwUrl w))))"

section \<open>The database\<close>

definition data_source :: "'w setup_env \<Rightarrow> string" where
  "data_source E = ''user='' @ su_config E ''db_user'' @ '' password='' @ su_config E ''db_passwd''
     @ '' dbname='' @ su_config E ''db_name'' @ '' host='' @ su_config E ''db_host''
     @ '' port='' @ su_config E ''db_port'' @ '' sslmode='' @ su_config E ''db_sslmode''"

text \<open>The constructor of the mapper may fail or panic; a panic is turned into an error.\<close>

definition InitOrmer :: "'w setup_env \<Rightarrow> go_error option" where
  "InitOrmer E = (case su_ormer E of Some (Panic m) \<Rightarrow> Some (Err (''recover panic as '' @ m)) | r \<Rightarrow> r)"

definition InitDatabase :: "'w setup_env \<Rightarrow> go_error option" where
  "InitDatabase E =
     (case ValidateDbParams (su_config E ''db_passwd'') of
        (dbParamsAreValid, validateDbParamsErr) \<Rightarrow>
          if validateDbParamsErr \<noteq> None \<or> \<not> dbParamsAreValid then Some (Err ''failed to validate db parameters'')
          else (case su_driver E of
                  Some e \<Rightarrow> Some e
                | None \<Rightarrow>
                    (case su_database E (data_source E) of
                       Some e \<Rightarrow> Some e
                     | None \<Rightarrow> (case su_syncdb E of Some e \<Rightarrow> Some e | None \<Rightarrow> InitOrmer E))))"

definition getDbAdapter :: "'w setup_env \<Rightarrow> go_error option" where
  "getDbAdapter E =
     (if su_config E ''dbAdapter'' = ''pgDb''
      then (if InitDatabase E \<noteq> None then Some (Err ''failed to register database'') else None)
      else Some (Err ''no database is found''))"

section \<open>The main program\<close>

text \<open>How the program ends: by \<open>os.Exit\<close>, by a return of \<open>main\<close>, by a panic, or in the
  serving loop, with the TLS configuration of the server.\<close>

datatype start_end =
    Exited nat
  | Returned
  | Crashed string
  | Serving "(string \<times> string list) option"

definition ended_by :: "go_error \<Rightarrow> start_end" where
  "ended_by e = (case e of Err m \<Rightarrow> Returned | Panic m \<Rightarrow> Crashed m | Fatal m \<Rightarrow> Exited 1)"

definition configFilePath :: string where "configFilePath = ''/usr/mep/mprop/mepauth.properties''"

text \<open>The scanner is the one of mepserver; a text whose lines fit its buffer has no reading error.
  The code keeps slices of the scanner's buffer as values; the model keeps their contents as they were
  read, as if no later line overwrote them.\<close>

definition auth_scanConfig :: "string \<Rightarrow> props" where
  "auth_scanConfig text = scanConfig text"

definition readPropertiesFile :: "'w setup_env \<Rightarrow> string \<Rightarrow> props go_result" where
  "readPropertiesFile E filename =
     (if length filename = 0 then Inr []
      else (case su_read E filename of Inl e \<Rightarrow> Inl e | Inr text \<Rightarrow> Inr (auth_scanConfig text)))"

definition ValidateInputArgs :: "props \<Rightarrow> bool" where
  "ValidateInputArgs appConfig =
     list_all (\<lambda>s. case map_of appConfig s of None \<Rightarrow> False | Some input \<Rightarrow> length (trim_space input) \<noteq> 0)
       [''KEY_COMPONENT'', ''JWT_PRIVATE_KEY'', ''APP_INST_ID'', ''ACCESS_KEY'', ''SECRET_KEY'']"

definition ValidateKeyComponentUserInput :: "string \<Rightarrow> go_error option" where
  "ValidateKeyComponentUserInput keyComponentUserStr =
     (if length keyComponentUserStr < componentSize
      then Some (Err ''key component user string length is not valid'') else None)"

definition property :: "props \<Rightarrow> string \<Rightarrow> string" where
  "property appConfig k = (case map_of appConfig k of None \<Rightarrow> [] | Some v \<Rightarrow> v)"

text \<open>The key operations read the global \<open>KeyComponentFromUserStr\<close>.\<close>

definition with_component :: "auth_env \<Rightarrow> string \<Rightarrow> auth_env" where
  "with_component env c = env\<lparr>ev_keys := (ev_keys env)\<lparr>ke_user := Some c\<rparr>\<rparr>"

text \<open>No error stands for \<open>true\<close>, an error for \<open>false\<close>.\<close>

definition doInitialization ::
  "'w setup_env \<Rightarrow> auth_env \<Rightarrow> string option \<Rightarrow> key_world \<Rightarrow> 'w \<Rightarrow> go_error option \<times> key_world \<times> 'w" where
  "doInitialization E env trustedNetworks keys w =
     (case InitRootKeyAndWorkKey (ev_keys env) keys of
        (Some e, keys) \<Rightarrow> (Some e, keys, w)
      | (None, keys) \<Rightarrow>
          (case (if ssl_enabled E then TLSConfig E ''apigw_cacert'' else Inr None) of
             Inl e \<Rightarrow> (Some e, keys, w)
           | Inr config \<Rightarrow> (case InitAPIGateway E trustedNetworks w of (err, w) \<Rightarrow> (err, keys, w))))"

text \<open>From the saved password on: the first application, the server's TLS configuration and the
  block list.\<close>

definition start_serving ::
  "'w setup_env \<Rightarrow> 'd auth_db \<Rightarrow> auth_env \<Rightarrow> props \<Rightarrow> 'd auth_state \<Rightarrow> start_end \<times> 'd auth_state" where
  "start_serving E db env appConfig st =
     (case EncryptAndSaveJwtPwd (ev_keys env) (property appConfig ''JWT_PRIVATE_KEY'') (as_keys st) of
        (Some e, buf, keys) \<Rightarrow> (ended_by e, st\<lparr>as_keys := keys\<rparr>)
      | (None, buf, keys) \<Rightarrow>
          (case ConfigureAkAndSk db env (property appConfig ''APP_INST_ID'') (property appConfig ''ACCESS_KEY'')
                  (property appConfig ''SECRET_KEY'') ''initApp'' (property appConfig ''REQUIRED_SERVICES'')
                  (st\<lparr>as_keys := keys\<rparr>) of
             (Some e, st) \<Rightarrow> (ended_by e, st)
           | (None, st) \<Rightarrow>
               (case (if https_enabled E then TLSConfig E ''HTTPSCertFile'' else Inr None) of
                  Inl e \<Rightarrow> (ended_by e, st)
                | Inr tlsConf \<Rightarrow> (Serving tlsConf, st\<lparr>as_bl := InitAuthInfoList (as_bl st)\<rparr>))))"

definition mepauth_main ::
  "'w setup_env \<Rightarrow> 'd auth_db \<Rightarrow> auth_env \<Rightarrow> 'd auth_state \<Rightarrow> 'w \<Rightarrow> start_end \<times> 'd auth_state \<times> 'w" where
  "mepauth_main E db env st w =
     (if getDbAdapter E \<noteq> None then (Exited 1, st, w)
      else (case readPropertiesFile E configFilePath of
              Inl e \<Rightarrow> (Returned, st, w)
            | Inr appConfig \<Rightarrow>
                if \<not> ValidateInputArgs appConfig then (Returned, st, w)
                else if ValidateKeyComponentUserInput (property appConfig ''KEY_COMPONENT'') \<noteq> None then (Returned, st, w)
                else (let env = with_component env (property appConfig ''KEY_COMPONENT'') in
                      case doInitialization E env (map_of appConfig ''TRUSTED_LIST'') (as_keys st) w of
                        (err, keys, w) \<Rightarrow>
                          (case err of
                             Some (Panic m) \<Rightarrow> (Crashed m, st\<lparr>as_keys := keys\<rparr>, w)
                           | Some (Fatal m) \<Rightarrow> (Exited 1, st\<lparr>as_keys := keys\<rparr>, w)
                           | _ \<Rightarrow>
                               if err \<noteq> None \<and> https_enabled E then (Returned, st\<lparr>as_keys := keys\<rparr>, w)
                               else (case start_serving E db env appConfig (st\<lparr>as_keys := keys\<rparr>) of
                                       (r, st) \<Rightarrow> (r, st, w))))))"

end
