(* ===== verification/Auth_Start.thy ===== *)
theory Auth_Start
  imports Auth_Setup
begin

text \<open>
  The start-up of mepauth against its specification: the table of requests that sets up the
  gateway, when the gateway restricts the networks, and what holds once the program serves.
\<close>

section \<open>The plan of the gateway\<close>

text \<open>A step is a request, or something the configuration has to provide.\<close>

datatype setup_step = Request gw_request | Needs bool

fun plan_requests :: "setup_step list \<Rightarrow> gw_request list" where
  "plan_requests [] = []"
| "plan_requests (Request q # s) = q # plan_requests s"
| "plan_requests (Needs b # s) = (if b then plan_requests s else [])"

definition plan_ok :: "setup_step list \<Rightarrow> bool" where
  "plan_ok s \<longleftrightarrow> Needs False \<notin> set s"

lemma plan_ok_simps [simp]:
  "plan_ok []" "plan_ok (Request q # s) \<longleftrightarrow> plan_ok s" "plan_ok (Needs b # s) \<longleftrightarrow> b \<and> plan_ok s"
  "plan_ok (s @ t) \<longleftrightarrow> plan_ok s \<and> plan_ok t"
  by (auto simp: plan_ok_def)

lemma plan_requests_append [simp]:
  "plan_requests (s @ t) = (if plan_ok s then plan_requests s @ plan_requests t else plan_requests s)"
  by (induction s rule: plan_requests.induct) auto

text \<open>What a run may do: it sends the requests of the plan and every one is accepted, with an error
  only for what the configuration lacks; or it stops with an error at the first request that is
  not accepted.\<close>

definition performs ::
  "'w setup_env \<Rightarrow> ('w \<Rightarrow> (gw_request \<times> nat go_result) list) \<Rightarrow> ('w \<Rightarrow> go_error option \<times> 'w) \<Rightarrow>
   setup_step list \<Rightarrow> bool" where
  "performs E sent f s \<longleftrightarrow> (\<forall>w.
     (\<exists>new. sent (snd (f w)) = sent w @ new \<and> map fst new = plan_requests s \<and>
        list_all (\<lambda>(q, r). accepted r) new \<and> (fst (f w) = None \<longleftrightarrow> plan_ok s)) \<or>
     (\<exists>done q r rest. sent (snd (f w)) = sent w @ done @ [(q, r)] \<and> plan_requests s = map fst done @ q # rest \<and>
        list_all (\<lambda>(q, r). accepted r) done \<and> \<not> accepted r \<and> (\<exists>v. fst (su_send E q v) = r) \<and> fst (f w) \<noteq> None))"

lemma performs_completed:
  assumes "performs E sent f s" "f w = (None, w')"
  obtains new where "sent w' = sent w @ new" "map fst new = plan_requests s"
    "list_all (\<lambda>(q, r). accepted r) new" "plan_ok s"
  using assms unfolding performs_def by (metis fst_conv snd_conv)

lemma performs_accepting:
  assumes "performs E sent f s" "\<And>q v. accepted (fst (su_send E q v))" "plan_ok s"
  shows "fst (f w) = None"
  using assms unfolding performs_def by blast

lemma performs_done: "performs E sent (\<lambda>w. (None, w)) []"
  by (simp add: performs_def)

lemma performs_fail: "performs E sent (\<lambda>w. (Some e, w)) [Needs False]"
  by (simp add: performs_def)

lemma performs_skip: "performs E sent f s \<Longrightarrow> performs E sent f (Needs True # s)"
  by (simp add: performs_def)

lemma performs_seq:
  assumes f: "performs E sent f s" and g: "plan_ok s \<Longrightarrow> performs E sent g t"
  shows "performs E sent (\<lambda>w. seq_err (f w) g) (s @ t)"
  unfolding performs_def
proof
  fix w
  obtain e w1 where fw: "f w = (e, w1)" by fastforce
  let ?h = "seq_err (f w) g"
  from f fw consider
      (all) new where "sent w1 = sent w @ new" "map fst new = plan_requests s"
        "list_all (\<lambda>(q, r). accepted r) new" "e = None \<longleftrightarrow> plan_ok s"
    | (refused) don q r rest where "sent w1 = sent w @ don @ [(q, r)]" "plan_requests s = map fst don @ q # rest"
        "list_all (\<lambda>(q, r). accepted r) don" "\<not> accepted r" "\<exists>v. fst (su_send E q v) = r" "e \<noteq> None"
    unfolding performs_def by (metis fst_conv snd_conv)
  then show "(\<exists>new. sent (snd ?h) = sent w @ new \<and> map fst new = plan_requests (s @ t) \<and>
      list_all (\<lambda>(q, r). accepted r) new \<and> (fst ?h = None \<longleftrightarrow> plan_ok (s @ t))) \<or>
    (\<exists>don q r rest. sent (snd ?h) = sent w @ don @ [(q, r)] \<and> plan_requests (s @ t) = map fst don @ q # rest \<and>
      list_all (\<lambda>(q, r). accepted r) don \<and> \<not> accepted r \<and> (\<exists>v. fst (su_send E q v) = r) \<and> fst ?h \<noteq> None)"
  proof cases
    case (refused don q r rest)
    then have "?h = (e, w1)" using fw by (auto simp: seq_err_def)
    moreover have "\<exists>rest'. plan_requests (s @ t) = map fst don @ q # rest'" using refused(2) by auto
    ultimately show ?thesis using refused by auto
  next
    case (all new)
    show ?thesis
    proof (cases "plan_ok s")
      case False
      then have "?h = (e, w1)" using fw all(4) by (auto simp: seq_err_def)
      then show ?thesis using all False by auto
    next
      case True
      then have h: "?h = g w1" using fw all(4) by (simp add: seq_err_def)
      from g [OF True] consider
          (all') more where "sent (snd (g w1)) = sent w1 @ more" "map fst more = plan_requests t"
            "list_all (\<lambda>(q, r). accepted r) more" "fst (g w1) = None \<longleftrightarrow> plan_ok t"
        | (refused') don q r rest where "sent (snd (g w1)) = sent w1 @ don @ [(q, r)]"
            "plan_requests t = map fst don @ q # rest"
            "list_all (\<lambda>(q, r). accepted r) don" "\<not> accepted r" "\<exists>v. fst (su_send E q v) = r" "fst (g w1) \<noteq> None"
        unfolding performs_def by blast
      then show ?thesis
      proof cases
        case (all' more)
        then show ?thesis using all True h by (intro disjI1 exI [of _ "new @ more"]) simp
      next
        case (refused' don q r rest)
        then show ?thesis using all True h
          by (intro disjI2 exI [of _ "new @ don"] exI [of _ q] exI [of _ r] exI [of _ rest]) simp
      qed
    qed
  qed
qed

lemma performs_check:
  assumes "performs E sent g t"
  shows "performs E sent (\<lambda>w. seq_err (fail_if (length x = 0) m w) g) (Needs (x \<noteq> []) # t)"
  by (cases "x = []") (use assms in \<open>simp_all add: performs_def fail_if_def seq_err_def\<close>)

section \<open>The table of requests\<close>

text \<open>A service is put under its name and its route posted; plugins are posted to a service.\<close>

definition service_steps :: "'w setup_env \<Rightarrow> string \<Rightarrow> string \<Rightarrow> string list \<Rightarrow> string \<Rightarrow> setup_step list" where
  "service_steps E url name paths target =
     [Request (put_request (url @ ''/services/'' @ name) (gw_service_body target name)),
      Request (post_request E (url @ ''/services/'' @ name @ ''/routes'') (gw_route_body name paths False))]"

definition plugin_steps :: "'w setup_env \<Rightarrow> string \<Rightarrow> string \<Rightarrow> string list \<Rightarrow> setup_step list" where
  "plugin_steps E url name bodies =
     map (\<lambda>b. Request (post_request E (url @ ''/services/'' @ name @ ''/plugins'') b)) bodies"

definition consumer_steps :: "'w setup_env \<Rightarrow> string \<Rightarrow> setup_step list" where
  "consumer_steps E url =
     Request (post_request E (url @ ''/consumers'') consumer_body) #
     Needs (su_config E ''mepauth_key'' \<noteq> []) #
     (case GetPublicKey E of
        Inl e \<Rightarrow> [Needs False]
      | Inr publicKey \<Rightarrow>
          [Request (post_request E (url @ ''/consumers/mepauth.jwt/jwt'')
             (gw_jwt_body (su_config E ''mepauth_key'') publicKey))])"

definition mepserver_steps :: "'w setup_env \<Rightarrow> string \<Rightarrow> setup_step list" where
  "mepserver_steps E url =
     Needs (su_config E ''mepserver_host'' \<noteq> []) # Needs (su_config E ''mepserver_port'' \<noteq> []) #
     service_steps E url ''mepserver'' [''/mep/mec_service_mgmt'', ''/mep/mec_app_support'']
       (su_config E ''HttpProtocol'' @ ''://'' @ su_config E ''mepserver_host'' @ '':'' @ su_config E ''mepserver_port'') @
     plugin_steps E url ''mepserver''
       [jwt_config, named_body ''appid-header'', configFormat ''pre-function'' MepserverPreFunctionConf,
        configFormat ''rate-limiting'' MepserverRateConf, ResponseTransformerConf]"

definition mepauth_port :: "'w setup_env \<Rightarrow> string" where
  "mepauth_port E = su_config E (if https_enabled E then ''HttpsPort'' else ''HttpPort'')"

text \<open>The networks that the gateway is told to trust: those of a valid list.\<close>

definition trusted :: "string option \<Rightarrow> string list option" where
  "trusted networks =
     (case networks of
        None \<Rightarrow> None
      | Some t \<Rightarrow>
          if t \<noteq> [] \<and> ValidateIpAndCidr (split_on (CHR '';'') t) then Some (split_on (CHR '';'') t) else None)"

definition mepauth_steps :: "'w setup_env \<Rightarrow> string \<Rightarrow> string option \<Rightarrow> setup_step list" where
  "mepauth_steps E url networks =
     Needs (mepauth_port E \<noteq> []) # Needs (su_config E ''HTTPSAddr'' \<noteq> []) #
     service_steps E url ''mepauth'' [''/mep/token'', ''/mep/appMng/v1'']
       (su_config E ''HttpProtocol'' @ ''://'' @ su_config E ''HTTPSAddr'' @ '':'' @ mepauth_port E) @
     plugin_steps E url ''mepauth''
       ([configFormat ''rate-limiting'' MepauthRateConf, ResponseTransformerConf] @
        (case trusted networks of
           None \<Rightarrow> []
         | Some l \<Rightarrow> [configFormat ''ip-restriction'' (getTrustedIpList l)]))"

definition setup_steps :: "'w setup_env \<Rightarrow> string option \<Rightarrow> setup_step list" where
  "setup_steps E networks =
     (case GetAPIGwURL E of
        Inl e \<Rightarrow> [Needs False]
      | Inr url \<Rightarrow>
          consumer_steps E url @ mepserver_steps E url @ mepauth_steps E url networks @
          [Request (post_request E (url @ ''/plugins'') (getHttpLogPluginData E))])"

section \<open>A gateway client that records its requests\<close>

locale gateway_log =
  fixes E :: "'w setup_env" and sent :: "'w \<Rightarrow> (gw_request \<times> nat go_result) list"
  assumes send_sent: "su_send E q w = (r, w') \<Longrightarrow> sent w' = sent w @ [(q, r)]"
begin

lemma performs_send: "performs E sent (send_request E q) [Request q]"
  unfolding performs_def
proof
  fix w
  obtain r w' where r: "su_send E q w = (r, w')" by fastforce
  have s: "sent w' = sent w @ [(q, r)]" by (rule send_sent [OF r])
  show "(\<exists>new. sent (snd (send_request E q w)) = sent w @ new \<and> map fst new = plan_requests [Request q] \<and>
      list_all (\<lambda>(q, r). accepted r) new \<and> (fst (send_request E q w) = None \<longleftrightarrow> plan_ok [Request q])) \<or>
    (\<exists>don p r rest. sent (snd (send_request E q w)) = sent w @ don @ [(p, r)] \<and>
      plan_requests [Request q] = map fst don @ p # rest \<and>
      list_all (\<lambda>(q, r). accepted r) don \<and> \<not> accepted r \<and> (\<exists>v. fst (su_send E p v) = r) \<and> fst (send_request E q w) \<noteq> None)"
  proof (cases "accepted r")
    case True
    then show ?thesis using r s
      by (intro disjI1 exI [of _ "[(q, r)]"]) (auto simp: send_request_def accepted_def split: sum.splits)
  next
    case False
    then show ?thesis using r s
      by (intro disjI2 exI [of _ "[]"] exI [of _ q] exI [of _ r] exI [of _ "[]"] conjI exI [of _ w])
        (auto simp: send_request_def accepted_def split: sum.splits)
  qed
qed

lemma performs_post: "performs E sent (SendPostRequest E url body) [Request (post_request E url body)]"
  unfolding SendPostRequest_def by (rule performs_send)

lemma performs_put: "performs E sent (SendPutRequest E url body) [Request (put_request url body)]"
  unfolding SendPutRequest_def by (rule performs_send)

text \<open>One rule per form of a step, for plans written as lists.\<close>

lemma performs_post_then:
  assumes "q = post_request E url body" "performs E sent g t"
  shows "performs E sent (\<lambda>w. seq_err (SendPostRequest E url body w) g) (Request q # t)"
  using performs_seq [OF performs_post, where t = t and g = g] assms by simp

lemma performs_put_then:
  assumes "q = put_request url body" "performs E sent g t"
  shows "performs E sent (\<lambda>w. seq_err (SendPutRequest E url body w) g) (Request q # t)"
  using performs_seq [OF performs_put, where t = t and g = g] assms by simp

lemma performs_post_last:
  "q = post_request E url body \<Longrightarrow> performs E sent (SendPostRequest E url body) [Request q]"
  by (simp add: performs_post)

lemmas performs_rules = performs_post_then performs_put_then performs_post_last performs_check

lemma performs_service:
  assumes "GetAPIGwURL E = Inr url"
  shows "performs E sent (AddServiceRoute E name paths target False) (service_steps E url name paths target)"
proof -
  have "performs E sent (\<lambda>w. AddServiceRoute E name paths target False w) (service_steps E url name paths target)"
    unfolding AddServiceRoute_def assms service_steps_def sum.case
    by (intro performs_rules) (simp_all add: auth_servicesPath_def)
  then show ?thesis .
qed

lemma performs_consumer: "performs E sent (SetApiGwConsumer E url) (consumer_steps E url)"
proof -
  have "performs E sent (\<lambda>w. case GetPublicKey E of Inl e \<Rightarrow> (Some e, w)
       | Inr k \<Rightarrow> SendPostRequest E (url @ ''/consumers'' @ ''/'' @ MepAppJwtName @ ''/jwt'')
           (gw_jwt_body (su_config E ''mepauth_key'') k) w)
      (case GetPublicKey E of Inl e \<Rightarrow> [Needs False]
       | Inr k \<Rightarrow> [Request (post_request E (url @ ''/consumers/mepauth.jwt/jwt'')
           (gw_jwt_body (su_config E ''mepauth_key'') k))])"
    by (auto simp: performs_fail MepAppJwtName_def intro!: performs_post_last split: sum.splits)
  then have "performs E sent (\<lambda>w. SetApiGwConsumer E url w) (consumer_steps E url)"
    unfolding SetApiGwConsumer_def consumer_steps_def
    by (intro performs_rules) simp_all
  then show ?thesis .
qed

lemma performs_mepserver:
  assumes "GetAPIGwURL E = Inr url"
  shows "performs E sent (SetupApiGwMepServer E url) (mepserver_steps E url)"
proof -
  have "performs E sent (\<lambda>w. SetupApiGwMepServer E url w) (mepserver_steps E url)"
    unfolding SetupApiGwMepServer_def mepserver_steps_def Let_def plugin_steps_def list.map
      MepserverName_def MepServerServiceMgmt_def MepServerAppSupport_def
    by (intro performs_rules performs_seq performs_service [OF assms])
      (simp_all add: auth_servicesPath_def auth_PluginPath_def)
  then show ?thesis .
qed

lemma performs_mepauth:
  assumes "GetAPIGwURL E = Inr url"
  shows "performs E sent (SetupApiGwMepAuth E url networks) (mepauth_steps E url networks)"
proof -
  let ?plugins = "url @ auth_servicesPath @ ''/'' @ MepauthName @ auth_PluginPath"
  let ?last = "\<lambda>w. case networks of None \<Rightarrow> (None, w)
    | Some t \<Rightarrow> if length t > 0 then
        (if ValidateIpAndCidr (split_on (CHR '';'') t)
         then SendPostRequest E ?plugins
           (configFormat ''ip-restriction'' (getTrustedIpList (split_on (CHR '';'') t))) w
         else (None, w))
      else (None, w)"
  have last: "performs E sent ?last (plugin_steps E url ''mepauth''
      (case trusted networks of None \<Rightarrow> [] | Some l \<Rightarrow> [configFormat ''ip-restriction'' (getTrustedIpList l)]))"
    by (auto simp: trusted_def Let_def performs_done plugin_steps_def auth_servicesPath_def auth_PluginPath_def
        MepauthName_def intro!: performs_post_last cong: if_cong split: option.splits)
  have "performs E sent (\<lambda>w. SetupApiGwMepAuth E url networks w) (mepauth_steps E url networks)"
    unfolding SetupApiGwMepAuth_def mepauth_steps_def Let_def mepauth_port_def
      if_distrib [of "su_config E", symmetric] plugin_steps_def map_append list.map
      append_Cons [of "Request _"] append_Nil MepauthName_def AuthTokenPath_def AppManagePath_def
    by (intro performs_rules performs_seq performs_service [OF assms] last [unfolded plugin_steps_def MepauthName_def])
      (simp_all add: auth_servicesPath_def auth_PluginPath_def)
  then show ?thesis .
qed

lemma setup_performs: "performs E sent (InitAPIGateway E networks) (setup_steps E networks)"
proof (cases "GetAPIGwURL E")
  case (Inl e)
  then have "performs E sent (\<lambda>w. InitAPIGateway E networks w) (setup_steps E networks)"
    by (simp add: InitAPIGateway_def setup_steps_def performs_fail)
  then show ?thesis .
next
  case (Inr url)
  have "performs E sent (\<lambda>w. InitAPIGateway E networks w) (setup_steps E networks)"
    unfolding InitAPIGateway_def setup_steps_def Inr sum.case SetupHttpLogPlugin_def
    by (intro performs_seq performs_consumer performs_mepserver [OF Inr] performs_mepauth [OF Inr] performs_post_last)
      (simp add: auth_PluginPath_def)
  then show ?thesis .
qed

end

text \<open>A gateway that answers by a function of the request and keeps what it was sent.\<close>

definition answering :: "(gw_request \<Rightarrow> nat go_result) \<Rightarrow> (gw_request \<times> nat go_result) list setup_env \<Rightarrow>
    (gw_request \<times> nat go_result) list setup_env" where
  "answering ans E = E\<lparr>su_send := (\<lambda>q w. (ans q, w @ [(q, ans q)]))\<rparr>"

interpretation answering: gateway_log "answering ans E" "\<lambda>w. w"
  by unfold_locales (auto simp: answering_def)

section \<open>The set-up of the gateway\<close>

text \<open>(C18) The set-up of the gateway implements the table of requests: it sends them in order, stops with
  an error at the first one that is not accepted, and otherwise succeeds exactly when the configuration has
  everything the table needs.\<close>

theorem gateway_set_up:
  assumes "gateway_log E sent"
  shows "performs E sent (InitAPIGateway E networks) (setup_steps E networks)"
  by (rule gateway_log.setup_performs [OF assms])

text \<open>A complete configuration.\<close>

definition mepauth_config :: "(string \<times> string) list" where
  "mepauth_config =
     [(''apigw_host'', ''kong''), (''apigw_port'', ''8444''), (''HttpProtocol'', ''https''),
      (''mepauth_key'', ''mepauth''), (''jwt_public_key'', ''jwt.pub''), (''mepserver_host'', ''mep''),
      (''mepserver_port'', ''8088''), (''EnableHTTPS'', ''true''), (''HttpsPort'', ''10443''), (''HTTPSAddr'', ''mepauth''),
      (''dbAdapter'', ''pgDb''), (''db_passwd'', ''Passw0rd''), (''HTTPSCertFile'', ''server.crt''),
      (''server_name'', ''edge.org''), (''ssl_ciphers'', ''TLS_ECDHE_RSA_WITH_AES_128_GCM_SHA256'')]"

definition properties_text :: "(string \<times> string) list \<Rightarrow> string" where
  "properties_text ps = join [CHR 0x0A] (map (\<lambda>(k, v). k @ CHR ''='' # v) ps)"

definition sample_pairs :: "(string \<times> string) list" where
  "sample_pairs =
     [(''KEY_COMPONENT'', replicate 256 (CHR ''c'')), (''JWT_PRIVATE_KEY'', ''Passw0rd''), (''APP_INST_ID'', sample_id),
      (''ACCESS_KEY'', sample_ak), (''SECRET_KEY'', sample_sk), (''TRUSTED_LIST'', ''10.0.0.1;10.1.0.0/16'')]"

definition sample_properties :: string where
  "sample_properties = properties_text sample_pairs"

definition sample_setup :: "(gw_request \<times> nat go_result) list setup_env" where
  "sample_setup = answering (\<lambda>q. Inr 201)
     \<lparr>su_config = (\<lambda>k. property mepauth_config k), su_getenv = (\<lambda>k. []),
      su_read = (\<lambda>f. Inr (if f = configFilePath then sample_properties else f)),
      su_pem_type = (\<lambda>s. Some ''PUBLIC KEY''), su_cert_pool = (\<lambda>s. True), su_json = (\<lambda>s. ''\"'' @ s @ ''\"''),
      su_driver = None, su_database = (\<lambda>s. None), su_syncdb = None, su_ormer = None,
      su_send = (\<lambda>q w. (Inr 200, w))\<rparr>"

interpretation sample: gateway_log sample_setup "\<lambda>w. w"
  unfolding sample_setup_def by (rule answering.gateway_log_axioms)

theorem gateway_set_up_witness:
  "performs sample_setup (\<lambda>w. w) (InitAPIGateway sample_setup (Some ''10.0.0.1'')) (setup_steps sample_setup (Some ''10.0.0.1''))"
  by (rule gateway_set_up [OF sample.gateway_log_axioms])

section \<open>Trusted networks\<close>

lemma plan_requests_set: "plan_ok s \<Longrightarrow> set (plan_requests s) = {q. Request q \<in> set s}"
  by (induction s rule: plan_requests.induct) auto

definition restricts :: "gw_request \<Rightarrow> bool" where
  "restricts q \<longleftrightarrow> prefix ''{ \"name\": \"ip-restriction\"'' (gq_body q)"

lemma restricts_simps [simp]:
  "restricts (post_request E url b) \<longleftrightarrow> prefix ''{ \"name\": \"ip-restriction\"'' b"
  "restricts (put_request url b) \<longleftrightarrow> prefix ''{ \"name\": \"ip-restriction\"'' b"
  by (simp_all add: restricts_def post_request_def put_request_def)

lemmas request_bodies = consumer_body_def gw_jwt_body_def gw_service_body_def gw_route_body_def jwt_config_def
  named_body_def configFormat_def ResponseTransformerConf_def getHttpLogPluginData_def

lemma restricting_request:
  assumes "Request q \<in> set (setup_steps E networks)" "restricts q"
  shows "trusted networks \<noteq> None"
proof
  assume "trusted networks = None"
  with assms show False
    by (auto simp: setup_steps_def consumer_steps_def mepserver_steps_def mepauth_steps_def service_steps_def
        plugin_steps_def request_bodies split: sum.splits)
qed

lemma restriction_requested:
  assumes "GetAPIGwURL E = Inr url" "trusted networks = Some l"
  shows "Request (post_request E (url @ ''/services/mepauth/plugins'')
    (configFormat ''ip-restriction'' (getTrustedIpList l))) \<in> set (setup_steps E networks)"
  using assms by (simp add: setup_steps_def mepauth_steps_def plugin_steps_def)

text \<open>(C17) When the set-up succeeds, the gateway was told to restrict the networks exactly when a list of
  networks was given that is not empty and whose every entry is an address or a network; it then accepted the
  whitelist of that list. With an invalid list the set-up succeeds without any restriction.\<close>

theorem networks_restricted:
  assumes "gateway_log E sent" and "InitAPIGateway E networks w = (None, w')"
  shows "\<exists>url new. GetAPIGwURL E = Inr url \<and> sent w' = sent w @ new \<and>
    ((\<exists>(q, r) \<in> set new. restricts q) \<longleftrightarrow>
       (\<exists>t. networks = Some t \<and> t \<noteq> [] \<and> ValidateIpAndCidr (split_on (CHR '';'') t))) \<and>
    (\<forall>l. trusted networks = Some l \<longrightarrow> (\<exists>r. accepted r \<and>
       (post_request E (url @ ''/services/mepauth/plugins'')
          (configFormat ''ip-restriction'' (getTrustedIpList l)), r) \<in> set new))"
proof -
  obtain new where new: "sent w' = sent w @ new" "map fst new = plan_requests (setup_steps E networks)"
      "list_all (\<lambda>(q, r). accepted r) new" "plan_ok (setup_steps E networks)"
    using performs_completed [OF gateway_log.setup_performs [OF assms(1)] assms(2)] .
  obtain url where url: "GetAPIGwURL E = Inr url"
    using assms(2) by (cases "GetAPIGwURL E") (simp_all add: InitAPIGateway_def)
  have requests: "fst ` set new = {q. Request q \<in> set (setup_steps E networks)}"
    using plan_requests_set [OF new(4)] new(2) by (metis list.set_map)
  let ?q = "\<lambda>l. post_request E (url @ ''/services/mepauth/plugins'')
    (configFormat ''ip-restriction'' (getTrustedIpList l))"
  have asked: "\<exists>r. accepted r \<and> (?q l, r) \<in> set new" if "trusted networks = Some l" for l
  proof -
    have "?q l \<in> fst ` set new" using restriction_requested [OF url that] requests by blast
    then obtain r where "(?q l, r) \<in> set new" by force
    with new(3) show ?thesis unfolding list_all_iff by blast
  qed
  have valid: "trusted networks \<noteq> None \<longleftrightarrow>
      (\<exists>t. networks = Some t \<and> t \<noteq> [] \<and> ValidateIpAndCidr (split_on (CHR '';'') t))"
    by (auto simp: trusted_def split: option.splits)
  have told: "(\<exists>(q, r) \<in> set new. restricts q) \<longleftrightarrow> trusted networks \<noteq> None"
  proof
    assume "\<exists>(q, r) \<in> set new. restricts q"
    then obtain q r where "(q, r) \<in> set new" "restricts q" by blast
    then have "Request q \<in> set (setup_steps E networks)" using requests by force
    then show "trusted networks \<noteq> None" by (rule restricting_request) fact
  next
    assume "trusted networks \<noteq> None"
    then obtain l where "trusted networks = Some l" by blast
    from asked [OF this] obtain r where "(?q l, r) \<in> set new" by blast
    moreover have "restricts (?q l)" by (simp add: configFormat_def)
    ultimately show "\<exists>(q, r) \<in> set new. restricts q" by blast
  qed
  show ?thesis
    by (intro exI [of _ url] exI [of _ new] conjI url new(1) trans [OF told valid] allI impI asked)
qed

lemma sample_values:
  "su_config sample_setup k = property mepauth_config k"
  "su_getenv sample_setup k = []"
  "su_read sample_setup f = Inr (if f = configFilePath then sample_properties else f)"
  "su_pem_type sample_setup c = Some ''PUBLIC KEY''" "su_cert_pool sample_setup c"
  "su_driver sample_setup = None" "su_database sample_setup c = None" "su_syncdb sample_setup = None"
  "su_ormer sample_setup = None"
  by (simp_all add: sample_setup_def answering_def)

lemma sample_gateway_url: "GetAPIGwURL sample_setup = Inr ''https://kong:8444''"
proof -
  have "validateApiGwParams ''kong'' ''8444'' = (True, None)" by code_simp
  then show ?thesis by (simp add: GetAPIGwURL_def sample_values property_def mepauth_config_def)
qed

lemma sample_https: "https_enabled sample_setup"
proof -
  have "equal_fold ''true'' ''true''" by code_simp
  then show ?thesis by (simp add: https_enabled_def sample_values property_def mepauth_config_def)
qed

lemma sample_plan: "plan_ok (setup_steps sample_setup networks)"
proof -
  have "GetPublicKey sample_setup = Inr ''jwt.pub''"
    by (simp add: GetPublicKey_def sample_values property_def mepauth_config_def configFilePath_def)
  then show ?thesis
    by (simp add: setup_steps_def consumer_steps_def mepserver_steps_def mepauth_steps_def service_steps_def
        plugin_steps_def mepauth_port_def sample_https sample_gateway_url sample_values property_def mepauth_config_def
        split: option.splits)
qed

lemma sample_set_up: "fst (InitAPIGateway sample_setup networks w) = None"
  by (rule performs_accepting [OF sample.setup_performs _ sample_plan])
    (simp add: sample_setup_def answering_def accepted_def)

theorem networks_restricted_witness:
  "\<exists>w'. InitAPIGateway sample_setup (Some ''10.0.0.1;10.1.0.0/16'') [] = (None, w') \<and> (\<exists>(q, r) \<in> set w'. restricts q)"
proof -
  have valid: "ValidateIpAndCidr (split_on (CHR '';'') ''10.0.0.1;10.1.0.0/16'')" by code_simp
  obtain w' where w': "InitAPIGateway sample_setup (Some ''10.0.0.1;10.1.0.0/16'') [] = (None, w')"
    using sample_set_up by (metis prod.collapse)
  show ?thesis
    using networks_restricted [OF sample.gateway_log_axioms w'] w' valid by auto
qed

section \<open>Once the program serves\<close>

lemma work_key_cong:
  assumes "\<And>p. p \<in> {componentFilePath, saltFilePath, encryptedWorkKeyFilePath, workKeyNonceFilePath} \<Longrightarrow>
    read_file p w' = read_file p w"
  shows "GetWorkKey env w' = GetWorkKey env w"
  using assms by (simp add: GetWorkKey_def genRootKey_cong [of _ w' w] decryptKey_cong [of _ w' w] split: sum.splits)

lemma work_key_files: "kw_files w' = kw_files w \<Longrightarrow> GetWorkKey env w' = GetWorkKey env w"
  by (rule work_key_cong) (simp add: read_file_def)

lemma cipher_made:
  assumes "getCipherAndNonce env sk w = (Inr (c, n), w')"
  shows "\<exists>k nonce. GetWorkKey (ev_keys env) w' = Inr k \<and>
    EncryptByAES256GCM (ev_keys env) sk k nonce = Inr (ke_seal (ev_keys env) k nonce sk) \<and>
    c = hex_encode (ke_seal (ev_keys env) k nonce sk) \<and> n = hex_encode nonce \<and>
    length (ke_seal (ev_keys env) k nonce sk) \<le> 100 \<and> length nonce \<le> 15 \<and> kw_files w' = kw_files w"
  using assms work_key_files [of w' w "ev_keys env"]
  by (auto simp: getCipherAndNonce_def EncryptByAES256GCM_def rand_read_def
      split: prod.splits option.splits sum.splits if_splits)

text \<open>A key that was configured with success is read back with its secret, whatever the keys.\<close>

lemma configured_secret:
  assumes store: "auth_store db rows" and cipher: "aead (ev_keys env)"
    and conf: "ConfigureAkAndSk db env appInsID ak sk name reqs st = (None, st1)"
    and fresh: "\<And>i q. rows (as_db st) i = Some q \<Longrightarrow> ai_Ak q = ak \<Longrightarrow> i = appInsID"
  shows "getAppInsIdSk db env ak st1 = Inr (appInsID, Some sk, True)" "kw_files (as_keys st1) = kw_files (as_keys st)"
    "as_bl st1 = as_bl st"
proof -
  from conf have save: "saveAkAndSk db env appInsID ak sk name reqs st = (None, st1)"
    by (simp add: ConfigureAkAndSk_def split: option.splits)
  then obtain c n w' where c: "getCipherAndNonce env sk (as_keys st) = (Inr (c, n), w')"
    by (auto simp: saveAkAndSk_def split: prod.splits sum.splits)
  define rec where "rec = \<lparr>ai_AppInsId = appInsID, ai_Ak = ak, ai_Sk = c, ai_Nonce = n, ai_AppName = name,
    ai_RequiredServices = reqs\<rparr>"
  obtain d where st1: "st1 = st\<lparr>as_keys := w', as_db := d\<rparr>" and d: "rows d = (rows (as_db st))(appInsID \<mapsto> rec)"
    using auth_store.saved_record [OF store c, of appInsID ak name reqs] save unfolding rec_def by auto
  obtain k nonce where k: "GetWorkKey (ev_keys env) w' = Inr k"
      "EncryptByAES256GCM (ev_keys env) sk k nonce = Inr (ke_seal (ev_keys env) k nonce sk)"
      "c = hex_encode (ke_seal (ev_keys env) k nonce sk)" "n = hex_encode nonce"
      "length (ke_seal (ev_keys env) k nonce sk) \<le> 100" "length nonce \<le> 15" "kw_files w' = kw_files (as_keys st)"
    using cipher_made [OF c] by blast
  have read: "db_ReadByAk db ak (as_db st1) = Inr rec"
    by (rule auth_store.read_ak [OF store, of _ appInsID])
      (use d fresh in \<open>auto simp: st1 rec_def split: if_splits\<close>)
  have "DecryptByAES256GCM (ev_keys env) (ke_seal (ev_keys env) k nonce sk) k nonce = Inr sk"
    by (rule aead.decrypt_encrypt [OF cipher k(2)])
  then show "getAppInsIdSk db env ak st1 = Inr (appInsID, Some sk, True)"
    using read k by (simp add: getAppInsIdSk_def rec_def st1)
  show "kw_files (as_keys st1) = kw_files (as_keys st)" "as_bl st1 = as_bl st" using k(7) by (simp_all add: st1)
qed

lemma password_files: "kw_files w' = kw_files w \<Longrightarrow> getJwtPrivateKeyPwd env w' = getJwtPrivateKeyPwd env w"
  by (simp add: getJwtPrivateKeyPwd_def work_key_files [of w' w] decryptKey_cong [of _ w' w] read_file_def
      split: sum.splits)

lemma saved_password:
  assumes cipher: "aead env" and saved: "EncryptAndSaveJwtPwd env pwd w = (None, buf, w')"
  shows "getJwtPrivateKeyPwd env w' = Inr pwd"
proof -
  have valid: "validateJwtPassword pwd = (True, None)"
    using saved by (auto simp: EncryptAndSaveJwtPwd_def validateJwtPassword_def Let_def split: if_splits)
  obtain n w1 where r: "rand_read env NonceSize w = (Some n, w1)"
    using saved valid by (cases "rand_read env NonceSize w"; cases "fst (rand_read env NonceSize w)")
      (auto simp: EncryptAndSaveJwtPwd_def)
  obtain k where k: "GetWorkKey env w1 = Inr k"
    using saved valid r by (cases "GetWorkKey env w1") (auto simp: EncryptAndSaveJwtPwd_def split: go_error.splits)
  have e: "EncryptByAES256GCM env pwd k n = Inr (ke_seal env k n pwd)"
    using saved valid r k by (auto simp: EncryptAndSaveJwtPwd_def EncryptByAES256GCM_def split: if_splits)
  obtain ok1 w2 where w2: "write_file env encryptedJwtPrivateKeyPwdFilePath (ke_seal env k n pwd) w1 = (ok1, w2)"
    by fastforce
  obtain ok2 w3 where w3: "write_file env jwtPrivateKeyPwdNonceFilePath n w2 = (ok2, w3)" by fastforce
  have ok: "ok1" "ok2" "w3 = w'"
    using saved valid r k e w2 w3 by (auto simp: EncryptAndSaveJwtPwd_def split: if_splits)
  have n: "GetWorkKey env w1 = Inr k" "EncryptByAES256GCM env pwd k n = Inr (ke_seal env k n pwd)" by fact+
  have files: "read_file q w' = (if q = jwtPrivateKeyPwdNonceFilePath then Some n
      else if q = encryptedJwtPrivateKeyPwdFilePath then Some (ke_seal env k n pwd) else read_file q w1)" for q
    using write_file_cases(1) [OF w3, of q] write_file_cases(1) [OF w2, of q] ok by simp
  have "GetWorkKey env w' = GetWorkKey env w1"
    by (rule work_key_cong) (use files key_paths_distinct in auto)
  then have "GetWorkKey env w' = Inr k" using n(1) by simp
  moreover have "DecryptByAES256GCM env (ke_seal env k n pwd) k n = Inr pwd"
    by (rule aead.decrypt_encrypt [OF cipher n(2)])
  ultimately show ?thesis
    using files key_paths_distinct by (simp add: getJwtPrivateKeyPwd_def decryptKey_def)
qed

lemma component_cipher: "aead (ev_keys env) \<Longrightarrow> aead (ev_keys (with_component env c))"
  unfolding aead_def by (simp add: with_component_def)

lemma serving_start:
  assumes "start_serving E db env cfg st = (Serving tls, st')"
  obtains buf keys st1 where
    "EncryptAndSaveJwtPwd (ev_keys env) (property cfg ''JWT_PRIVATE_KEY'') (as_keys st) = (None, buf, keys)"
    "ConfigureAkAndSk db env (property cfg ''APP_INST_ID'') (property cfg ''ACCESS_KEY'')
       (property cfg ''SECRET_KEY'') ''initApp'' (property cfg ''REQUIRED_SERVICES'')
       (st\<lparr>as_keys := keys\<rparr>) = (None, st1)"
    "st' = st1\<lparr>as_bl := InitAuthInfoList (as_bl st1)\<rparr>"
    "https_enabled E \<Longrightarrow> TLSConfig E ''HTTPSCertFile'' = Inr tls"
  using assms
  by (auto simp: start_serving_def ended_by_def split: prod.splits option.splits sum.splits go_error.splits if_splits)

lemma serving_main:
  assumes "mepauth_main E db env st w = (Serving tls, st', w')" "su_read E configFilePath = Inr text"
  defines "cfg \<equiv> auth_scanConfig text"
  defines "env' \<equiv> with_component env (property cfg ''KEY_COMPONENT'')"
  obtains err keys where
    "doInitialization E env' (map_of cfg ''TRUSTED_LIST'') (as_keys st) w = (err, keys, w')"
    "https_enabled E \<Longrightarrow> err = None" "start_serving E db env' cfg (st\<lparr>as_keys := keys\<rparr>) = (Serving tls, st')"
    "getDbAdapter E = None" "ValidateInputArgs cfg"
proof -
  have "readPropertiesFile E configFilePath = Inr cfg"
    using assms(2) by (simp add: readPropertiesFile_def cfg_def configFilePath_def)
  then show thesis
    using assms(1) that
    by (auto simp: mepauth_main_def env'_def [symmetric] Let_def split: prod.splits option.splits go_error.splits if_splits)
qed

lemma initialised:
  assumes "doInitialization E env networks keys w = (None, keys', w')"
  shows "InitAPIGateway E networks w = (None, w')"
  using assms by (auto simp: doInitialization_def split: prod.splits option.splits sum.splits if_splits)

text \<open>(C5) When mepauth reaches its serving loop, the first application of the properties file is
  configured: a request under its access key is checked against the configured secret, under its instance id;
  the password of the token key is read back from its encrypted file; no key is blocked. With HTTPS, the gateway
  has accepted every request of its set-up. The database held no row of another instance with the same access key
  when the program started.\<close>

theorem serving_is_configured:
  assumes main: "mepauth_main E db env st w = (Serving tls, st', w')"
    and props: "su_read E configFilePath = Inr text" and cfg: "cfg = auth_scanConfig text"
    and store: "auth_store db rows" and cipher: "aead (ev_keys env)" and log: "gateway_log E sent"
    and fresh: "\<And>i q. rows (as_db st) i = Some q \<Longrightarrow> ai_Ak q = property cfg ''ACCESS_KEY'' \<Longrightarrow>
      i = property cfg ''APP_INST_ID''"
  shows "getAppInsIdSk db (with_component env (property cfg ''KEY_COMPONENT'')) (property cfg ''ACCESS_KEY'') st' =
      Inr (property cfg ''APP_INST_ID'', Some (property cfg ''SECRET_KEY''), True) \<and>
    getJwtPrivateKeyPwd (ev_keys (with_component env (property cfg ''KEY_COMPONENT''))) (as_keys st') =
      Inr (property cfg ''JWT_PRIVATE_KEY'') \<and>
    bl_authInfoList (as_bl st') = [] \<and>
    (https_enabled E \<longrightarrow> (\<exists>new. sent w' = sent w @ new \<and>
       map fst new = plan_requests (setup_steps E (map_of cfg ''TRUSTED_LIST'')) \<and>
       list_all (\<lambda>(q, r). accepted r) new))"
proof -
  define env' where "env' = with_component env (property cfg ''KEY_COMPONENT'')"
  obtain err keys where init: "doInitialization E env' (map_of cfg ''TRUSTED_LIST'') (as_keys st) w = (err, keys, w')"
      "https_enabled E \<Longrightarrow> err = None"
    and start: "start_serving E db env' cfg (st\<lparr>as_keys := keys\<rparr>) = (Serving tls, st')"
    using serving_main [OF main props] unfolding cfg env'_def by metis
  have cipher': "aead (ev_keys env')" unfolding env'_def by (rule component_cipher [OF cipher])
  obtain buf keys' st1 where
      pwd: "EncryptAndSaveJwtPwd (ev_keys env') (property cfg ''JWT_PRIVATE_KEY'') keys = (None, buf, keys')"
    and conf: "ConfigureAkAndSk db env' (property cfg ''APP_INST_ID'') (property cfg ''ACCESS_KEY'')
       (property cfg ''SECRET_KEY'') ''initApp'' (property cfg ''REQUIRED_SERVICES'')
       (st\<lparr>as_keys := keys, as_keys := keys'\<rparr>) = (None, st1)"
    and st': "st' = st1\<lparr>as_bl := InitAuthInfoList (as_bl st1)\<rparr>"
    by (rule serving_start [OF start]) simp
  note secret = configured_secret [OF store cipher' conf, simplified, OF fresh]
  have "getAppInsIdSk db env' (property cfg ''ACCESS_KEY'') st' =
      Inr (property cfg ''APP_INST_ID'', Some (property cfg ''SECRET_KEY''), True)"
    using secret(1) getAppInsIdSk_cong [of st' st1] by (simp add: st')
  moreover have "getJwtPrivateKeyPwd (ev_keys env') (as_keys st') = Inr (property cfg ''JWT_PRIVATE_KEY'')"
    using saved_password [OF cipher' pwd] password_files [OF secret(2)] by (simp add: st')
  moreover have "bl_authInfoList (as_bl st') = []" by (simp add: st' InitAuthInfoList_def)
  moreover have "\<exists>new. sent w' = sent w @ new \<and>
      map fst new = plan_requests (setup_steps E (map_of cfg ''TRUSTED_LIST'')) \<and> list_all (\<lambda>(q, r). accepted r) new"
    if "https_enabled E"
    using init initialised that performs_completed [OF gateway_log.setup_performs [OF log]] by metis
  ultimately show ?thesis unfolding env'_def by blast
qed

section \<open>A start of the program\<close>

lemma trim_solid: "\<forall>c \<in> set s. \<not> is_space c \<Longrightarrow> trim_space s = s"
  unfolding trim_space_def by (metis dropWhile_eq_self_iff hd_in_set rev_rev_ident set_rev)

text \<open>A properties file without blanks is read back as it was written.\<close>

lemma properties_read:
  assumes "ps \<noteq> []" "distinct (map fst ps)"
    and "\<And>k v. (k, v) \<in> set ps \<Longrightarrow> \<forall>c \<in> set k \<union> set v. \<not> is_space c \<and> c \<noteq> CHR ''=''"
  shows "map_of (auth_scanConfig (properties_text ps)) = map_of ps"
proof -
  have lf: "is_space (CHR 0x0A)" by code_simp
  have line: "scan_line (k @ CHR ''='' # v) c = al_put k v c" if "(k, v) \<in> set ps" for k v c
  proof -
    from assms(3) [OF that] have "CHR ''='' \<notin> set k" "CHR ''='' \<notin> set v" "trim_space k = k" "trim_space v = v"
      by (auto intro: trim_solid)
    then show ?thesis by (simp add: scan_line_def split_on_append_sep split_on_free)
  qed
  have "split_on (CHR 0x0A) (properties_text ps) = map (\<lambda>(k, v). k @ CHR ''='' # v) ps"
    unfolding properties_text_def
    by (rule split_on_join) (use assms(1,3) lf in \<open>fastforce+\<close>)
  then have "auth_scanConfig (properties_text ps) = fold (\<lambda>(k, v). al_put k v) ps []"
    unfolding auth_scanConfig_def scanConfig_def
    by (simp add: fold_map comp_def) (rule fold_cong, use line in auto)
  moreover have "map_of (fold (\<lambda>(k, v). al_put k v) ps c) = map_of c ++ map_of ps" if "distinct (map fst ps)" for c
    using that
  proof (induction ps arbitrary: c)
    case (Cons p ps)
    then show ?case
      by (cases p) (auto simp: fun_eq_iff map_add_def map_of_eq_None_iff [symmetric] split: option.splits)
  qed simp
  ultimately show ?thesis using assms(2) by simp
qed

lemma sample_read: "map_of (auth_scanConfig sample_properties) = map_of sample_pairs"
  unfolding sample_properties_def
proof (rule properties_read)
  have solid: "list_all (\<lambda>(k, v). \<forall>c \<in> set k \<union> set v. \<not> is_space c \<and> c \<noteq> CHR ''='') sample_pairs"
    by (simp add: sample_pairs_def sample_id_def sample_ak_def sample_sk_def is_space_def)
  fix k v assume "(k, v) \<in> set sample_pairs"
  then show "\<forall>c \<in> set k \<union> set v. \<not> is_space c \<and> c \<noteq> CHR ''=''"
    using solid unfolding list_all_iff by fast
qed (simp_all add: sample_pairs_def)

definition sample_fresh :: "(string \<times> AuthInfoRecord) list auth_state" where
  "sample_fresh = \<lparr>as_bl = no_sessions, as_db = [], as_keys = no_files\<rparr>"

lemma sample_prop:
  "property (auth_scanConfig sample_properties) k = property sample_pairs k"
  by (simp add: property_def sample_read)

lemma sample_tls: "TLSConfig sample_setup ''HTTPSCertFile'' = Inr (Some (''edge.org'', [''TLS_ECDHE_RSA_WITH_AES_128_GCM_SHA256'']))"
proof -
  have "validateServerName ''edge.org'' = (True, None)"
      "getCipherSuites ''TLS_ECDHE_RSA_WITH_AES_128_GCM_SHA256'' = Some [''TLS_ECDHE_RSA_WITH_AES_128_GCM_SHA256'']"
    by code_simp+
  then show ?thesis
    by (simp add: TLSConfig_def sample_values property_def mepauth_config_def configFilePath_def)
qed

lemma sample_adapter: "getDbAdapter sample_setup = None"
proof -
  have "ValidateDbParams ''Passw0rd'' = (True, None)" by code_simp
  then show ?thesis
    by (simp add: getDbAdapter_def InitDatabase_def InitOrmer_def sample_values property_def mepauth_config_def)
qed

lemma sample_inputs:
  "ValidateInputArgs (auth_scanConfig sample_properties)"
  "ValidateKeyComponentUserInput (property (auth_scanConfig sample_properties) ''KEY_COMPONENT'') = None"
proof -
  have "\<forall>c \<in> set v. \<not> is_space c" "v \<noteq> []" if "(k, v) \<in> set sample_pairs" for k v
    using that by (auto simp: sample_pairs_def sample_id_def sample_ak_def sample_sk_def is_space_def)
  then have "list_all (\<lambda>(k, v). trim_space v \<noteq> []) sample_pairs"
    unfolding list_all_iff using trim_solid by fastforce
  then show "ValidateInputArgs (auth_scanConfig sample_properties)"
    unfolding ValidateInputArgs_def sample_read by (simp add: sample_pairs_def)
  show "ValidateKeyComponentUserInput (property (auth_scanConfig sample_properties) ''KEY_COMPONENT'') = None"
    by (simp add: ValidateKeyComponentUserInput_def componentSize_def property_def sample_read sample_pairs_def)
qed

text \<open>The host with the component of the properties file.\<close>

definition sample_component :: auth_env where
  "sample_component = with_component sample_auth (property sample_pairs ''KEY_COMPONENT'')"

interpretation start: key_host "ev_keys sample_component"
  by unfold_locales
    (auto simp: sample_component_def with_component_def sample_keys plain_host_def key_tag_def property_def
      sample_pairs_def)

lemma sample_serving:
  assumes "GetWorkKey (ev_keys sample_component) keys = Inr k" "length k = keySize"
  shows "\<exists>tls st'. start_serving sample_setup row_table sample_component (auth_scanConfig sample_properties)
    (sample_fresh\<lparr>as_keys := keys\<rparr>) = (Serving tls, st')"
proof -
  have pwd: "validateJwtPassword ''Passw0rd'' = (True, None)" by code_simp
  obtain keys' where keys': "EncryptAndSaveJwtPwd (ev_keys sample_component) ''Passw0rd'' keys =
      (None, ClearByteArray ''Passw0rd'', keys')" "GetWorkKey (ev_keys sample_component) keys' = Inr k"
    using start.save_password [OF pwd assms] by metis
  have "ValidateUUID (with_component env c) i = ValidateUUID env i" for env c i
    by (simp add: ValidateUUID_def with_component_def)
  then have checks: "ValidateUUID sample_component sample_id = None" "ValidateAk sample_ak = None"
      "ValidateSk sample_sk = None"
    using sample_checks(1-3) by (simp_all add: sample_component_def)
  let ?st = "sample_fresh\<lparr>as_keys := keys'\<rparr>"
  have "length sample_sk = 64" by (simp add: sample_sk_def)
  then obtain n where n: "getCipherAndNonce sample_component sample_sk (as_keys ?st) =
      (Inr (hex_encode (ke_seal (ev_keys sample_component) k n sample_sk), hex_encode n),
       keys'\<lparr>kw_reads := Suc (kw_reads keys')\<rparr>)"
    using cipher_of_secret [OF start.key_host_axioms keys'(2) assms(2), of sample_sk] by auto
  obtain d where "saveAkAndSk row_table sample_component sample_id sample_ak sample_sk ''initApp'' [] ?st =
      (None, ?st\<lparr>as_keys := keys'\<lparr>kw_reads := Suc (kw_reads keys')\<rparr>, as_db := d\<rparr>)"
    using table.saved_record [OF n] by blast
  then show ?thesis
    using keys'(1) checks
    by (simp add: start_serving_def property_def sample_read sample_pairs_def ConfigureAkAndSk_def sample_https
        sample_tls sample_fresh_def)
qed

lemma sample_start:
  "\<exists>tls st' w'. mepauth_main sample_setup row_table sample_auth sample_fresh [] = (Serving tls, st', w')"
proof -
  have "\<not> isFileOrDirExist componentFilePath no_files" "\<not> isFileOrDirExist encryptedWorkKeyFilePath no_files"
    by (simp_all add: isFileOrDirExist_def read_file_def no_files_def)
  then obtain k keys where keys: "InitRootKeyAndWorkKey (ev_keys sample_component) no_files = (None, keys)"
      "GetWorkKey (ev_keys sample_component) keys = Inr k" "length k = keySize"
    using start.init_fresh by metis
  obtain w' where gateway: "InitAPIGateway sample_setup (map_of sample_pairs ''TRUSTED_LIST'') [] = (None, w')"
    using sample_set_up by (metis prod.collapse)
  have "\<not> equal_fold [] ''true''" by code_simp
  then have "\<not> ssl_enabled sample_setup" by (simp add: ssl_enabled_def sample_values)
  then have init: "doInitialization sample_setup sample_component (map_of sample_pairs ''TRUSTED_LIST'') no_files [] =
      (None, keys, w')"
    using keys(1) gateway by (simp add: doInitialization_def)
  have "readPropertiesFile sample_setup configFilePath = Inr (auth_scanConfig sample_properties)"
    by (simp add: readPropertiesFile_def sample_values configFilePath_def)
  then show ?thesis
    using sample_adapter sample_inputs init sample_serving [OF keys(2,3)]
    by (auto simp: mepauth_main_def Let_def sample_prop sample_component_def [symmetric] sample_read sample_fresh_def)
qed

theorem serving_is_configured_witness:
  "\<exists>tls st' w'. mepauth_main sample_setup row_table sample_auth sample_fresh [] = (Serving tls, st', w') \<and>
    getAppInsIdSk row_table sample_component sample_ak st' = Inr (sample_id, Some sample_sk, True) \<and>
    getJwtPrivateKeyPwd (ev_keys sample_component) (as_keys st') = Inr ''Passw0rd'' \<and>
    map fst w' = plan_requests (setup_steps sample_setup (Some ''10.0.0.1;10.1.0.0/16''))"
proof -
  obtain tls st' w' where main: "mepauth_main sample_setup row_table sample_auth sample_fresh [] = (Serving tls, st', w')"
    using sample_start by blast
  have props: "su_read sample_setup configFilePath = Inr sample_properties" by (simp add: sample_values)
  have cipher: "aead (ev_keys sample_auth)" unfolding sample_keys by (rule plain.aead_axioms)
  have vals: "property sample_pairs ''ACCESS_KEY'' = sample_ak" "property sample_pairs ''APP_INST_ID'' = sample_id"
      "property sample_pairs ''SECRET_KEY'' = sample_sk" "property sample_pairs ''JWT_PRIVATE_KEY'' = ''Passw0rd''"
      "map_of sample_pairs ''TRUSTED_LIST'' = Some ''10.0.0.1;10.1.0.0/16''"
    by (simp_all add: property_def sample_pairs_def)
  have "map_of (as_db sample_fresh) i = Some q \<Longrightarrow> i = sample_id" for i q by (simp add: sample_fresh_def)
  then have "getAppInsIdSk row_table sample_component sample_ak st' = Inr (sample_id, Some sample_sk, True) \<and>
    getJwtPrivateKeyPwd (ev_keys sample_component) (as_keys st') = Inr ''Passw0rd'' \<and>
    bl_authInfoList (as_bl st') = [] \<and>
    (https_enabled sample_setup \<longrightarrow> (\<exists>new. w' = [] @ new \<and>
       map fst new = plan_requests (setup_steps sample_setup (Some ''10.0.0.1;10.1.0.0/16'')) \<and>
       list_all (\<lambda>(q, r). accepted r) new))"
    using serving_is_configured [OF main props refl table.auth_store_axioms cipher sample.gateway_log_axioms]
    unfolding sample_prop sample_read vals sample_component_def by blast
  with main sample_https show ?thesis by auto
qed

end
