(* ===== verification/Spec2Isabelle.thy ===== *)
theory Spec2Isabelle
  imports Data_Bus Mep_Config Mep_Start Mep_Queries Health Dns_Server Svc_Typing Kong_Log Auth_Start
begin

text \<open>
  EdgeGallery MEP, a multi-access edge platform: a DNS server with a management interface
  (\<open>src/dns-server\<close>), the platform server that provisions applications and
  their DNS and traffic rules (\<open>src/mepserver\<close>), and the authentication service
  (\<open>src/mepauth\<close>); beside them the two health-check programs.

  \<^bold>\<open>How the parts interact.\<close>  An application is configured over the mm5
  interface of the server: a plan (a list of steps run by the workspace) checks the request,
  stages a task in the registry and starts a worker; the worker applies the rules of the task
  one by one to the data plane and, through the DNS agent, to the DNS server, keeps a status
  record, and at the end stores the configuration or undoes the applied rules.  The DNS server
  stores records in a bolt database and answers queries from it, or forwards them.  Requests
  reach the server through a gateway that checks tokens, which mepauth issues to clients that
  sign their request with a configured secret.

  \<^bold>\<open>Theories.\<close>
  \<^item> \<open>Mep_Prelude\<close>: Go results and errors, strings, decimal numbers, map iteration
    orders, association lists.  \<open>Go_Net\<close>: \<open>net.ParseIP\<close> and what is used of
    the package \<open>net\<close>.
  \<^item> \<open>Dns_Store\<close> (\<open>dns-server/datastore/boltdb.go\<close>), \<open>Dns_Mgmt\<close>
    (\<open>dns-server/mgmt/controller.go\<close>), \<open>Dns_Server\<close> (\<open>dns.go\<close> and the
    configuration of \<open>main.go\<close>): the bolt transaction operations are the locale
    \<open>bolt_store\<close>, with an in-memory bolt as its instance; the record invariant, the
    table the handlers implement, and what a query sees after a request.
  \<^item> \<open>Workspace\<close> (\<open>mepserver/common/arch/workspace\<close>,
    \<open>common/httprsp_builder.go\<close>): plans of serial and parallel task groups, error and
    final groups; termination and the meaning of Try and Finally.
  \<^item> \<open>Backend\<close> (\<open>common/extif/backend\<close>): registry records read, written and
    deleted with a prefix reading of keys.  \<open>Appd\<close> (\<open>common/appd\<close>): the
    configuration model, the difference between two configurations, staging.
    \<open>Dataplane\<close> (\<open>common/extif/dataplane\<close>, \<open>extif/dns\<close>): the
    agent interfaces and the REST agent in front of \<open>Dns_Mgmt\<close>.
  \<^item> \<open>Appd_Sync\<close> (\<open>mm5/task\<close>): the worker.  \<open>Sync_Correct\<close>: what it
    keeps whatever fails, the wait for a termination included (locale \<open>sync_waits\<close>).  \<open>Sync_Complete\<close>: what it achieves when the services answer.
    \<open>Appd_Plans\<close> (\<open>mm5/plans/appd_*\<close>, \<open>mm5/controller.go\<close>): the
    plans and the composition of a request with its worker.
  \<^item> \<open>Mp1_Rules\<close> (\<open>mp1/plans/dns_*\<close>, \<open>mp1/plans/traffic_*\<close>,
    \<open>mp1/controller.go\<close>): query and update of single rules by the application.
  \<^item> \<open>Svc_Model\<close> (\<open>common/models/serviceinfo.go\<close>,
    \<open>common/util/apigwutil.go\<close>): service documents, the instances of the service centre
    they become, and the entries of the API gateway.  \<open>Svc_Plans\<close>
    (\<open>mp1/plans/svc_*\<close>), \<open>Svc_Discover\<close>
    (\<open>mp1/plan_svc_discover.go\<close>): registration, update, query, removal and discovery.
    \<open>Svc_Correct\<close>: what is relied upon of the service centre (locales \<open>center\<close>,
    \<open>center_up\<close>), with an in-memory centre.  \<open>Svc_Gateway\<close>: the same for the
    gateway (locale \<open>kong\<close>).  \<open>Svc_Properties\<close>: round trip, limit, discovery,
    ownership.  \<open>Heartbeat\<close> (\<open>heartbeat.go\<close>, \<open>mp1/plans/heartbeat_*\<close>):
    the liveness of services and the process that suspends overdue ones.
  \<^item> \<open>Subscriptions\<close> (\<open>mp1/plans/app_subscribe*\<close>),
    \<open>Notifications\<close> (\<open>mp1/event\<close>): the subscriptions of applications and the
    messages about services.  \<open>Sub_Correct\<close>: the contracts of single-key transactions
    (locale \<open>etcd_keys\<close>) and of the event handler's platform (\<open>events\<close>), and when an
    event is passed on.
    \<open>Sub_Properties\<close>: life cycle, limit, exact notification.  \<open>Termination\<close>
    (\<open>mm5/plans/app_instance_termination.go\<close>, \<open>mp1/plans/app_confirm_*\<close>,
    \<open>app_callback.go\<close>): the removal of an application's services (locale
    \<open>teardown\<close>) and the confirmation its worker waits for.  \<open>Svc_Typing\<close>:
    the requests, heartbeats, ticks and terminations as a step relation that keeps the stored
    documents typed.
  \<^item> \<open>Capability\<close> (\<open>mm5/plans/capability_*\<close>,
    \<open>subscription_info_get.go\<close>, \<open>services_get.go\<close>): the views over services and
    subscriptions, on a platform that keeps both contracts (locale \<open>views\<close>).
    \<open>Kong_Log\<close> (\<open>kong_http_log.go\<close>): the log of the gateway, with the contract of
    the search service (locale \<open>elastic\<close>) and an in-memory one.
  \<^item> \<open>Auth_Blocklist\<close>, \<open>Auth_Keys\<close>, \<open>Auth_Sign\<close>,
    \<open>Auth_Service\<close> (\<open>mepauth/controllers\<close>, \<open>mepauth/util\<close>): the
    block list with its timers and goroutines as a state machine, keys in encrypted files, the
    signature of a request, and the handlers for keys and tokens.  \<open>Auth_Setup\<close>,
    \<open>Auth_Start\<close> (\<open>mepauth/main.go\<close>, \<open>apigw.go\<close>,
    \<open>adapter\<close>): the main program and the set-up of the gateway, with a table of
    requests as its specification (locale \<open>gateway_log\<close>).
  \<^item> \<open>Health\<close> (\<open>src/healthcheck\<close>, \<open>src/healthcheck-m\<close>): the
    findings of an edge and the vote of the centre, as a client of the edges (locale
    \<open>self_voting\<close>, with the modelled edges as its instance).
  \<^item> \<open>Mep_Start\<close> (\<open>mepserver/main.go\<close>, the keys of
    \<open>common/util/meputil.go\<close>, \<open>validation.go\<close>, \<open>common/tls\<close>): the start-up of the
    server and its key files, with the key host of \<open>Auth_Keys\<close>.  \<open>Mep_Queries\<close>
    (\<open>extif/ntp\<close>, \<open>mp1/plans/timing_*\<close>, \<open>transport_all_get.go\<close>,
    \<open>hook\<close>, \<open>common/util\<close>): time, transports (locale \<open>transport_store\<close>),
    requests to other services and the patterns of the validator.
  \<^item> \<open>Data_Bus\<close> (\<open>common/arch/bus\<close>, \<open>mp1/mepspace.go\<close>,
    \<open>mm5/mepspace.go\<close>): the transfers between a workspace and the steps of a plan by
    reflection, over a store of objects, with two functions of the fields as their meaning.
    \<open>Mep_Config\<close> (\<open>common/config\<close>, \<open>Init\<close> of the two controllers): the
    configuration and the agents the interfaces work with.
  \<^item> This theory: a rule the worker applied is resolved by the DNS server.

  \<^bold>\<open>State and errors.\<close>  Handlers and steps are functions from the state to an
  answer and the new state; an \<open>error\<close>, a panic and an exit are values.  Code outside
  the repository (bolt, the registry client, HTTP clients, validators, ciphers, the database) is
  an argument of the definitions, and what is relied upon is a locale whose instances are
  concrete functions.  Each loop over a Go map takes its iteration order as an argument and the
  theorems hold for every order.

  \<^bold>\<open>Loops and bounds.\<close>  Recursions are structural or have a measure.  The search
  for the zones of a question is the one loop that follows a library function; it has fuel of
  the length of the name, and is shown to end for every next-label function that moves forward.
  The search of the data bus may follow a cycle of pointers: it has the depth of the stack, and a
  depth of one is enough for the tags of the steps.
  Counters, time-outs and lengths are natural numbers or integers with the bounds of the code
  written out; the lemmas show where a machine width is never reached.

  \<^bold>\<open>Not modelled.\<close>  The routing tables of the interfaces; JSON encoding,
  certificates and logging; the sharing of memory with a library (the cached instances of the
  service centre, the buffer of a scanner): the model works on copies.  Steps of the model are atomic: data races on a Go map are
  noted as findings, not modelled.  Text is ASCII where a character class or a case conversion
  is involved.
\<close>

section \<open>A configured rule is resolvable\<close>

lemma applied_rule_stored:
  assumes "dns_service client base B db_of" and "se_dnsAgent E = RestDNSAgent client (Some base)"
    and "addDNSOnLocalDns E ruleId (Some n) x t w = (None, t', w')" and "dr_State (dns_at t' n) = ActiveState"
  shows "\<exists>m. handleAddResourceRecords B ''.'' (Some \<lparr>rr_Name = agent_host (dr_DomainName (dns_at t' n)),
      rr_Type = rr_type_of (dns_at t' n), rr_Class = ''IN'', rr_TTL = dr_TTL (dns_at t' n), rr_RData = [dr_IPAddress (dns_at t' n)]\<rparr>) (db_of w)
    = (Inr (StatusOK, m), db_of w')"
proof -
  let ?r = "dns_at (activate_dns n t) n"
  have t': "t' = activate_dns n t"
    using assms(3) by (auto simp: addDNSOnLocalDns_def lift_op_def Let_def split: if_splits)
  have "AddResourceRecord client (Some base) (dr_DomainName ?r) (rr_type_of ?r) ''IN'' [dr_IPAddress ?r] (dr_TTL ?r) w = (None, w')"
    using assms(2-4) unfolding t'
    by (simp add: addDNSOnLocalDns_def lift_op_def RestDNSAgent_def prod_eq_iff Let_def)
  from dns_service.agent_add_ok [OF assms(1) this] show ?thesis by (simp add: t')
qed

text \<open>(C3) A rule that the worker configured is resolvable.  When the worker has applied an
  active DNS rule through the REST agent without an error, the DNS server behind the
  agent answers a query for the rule's domain name, in any letter case, with the rule's
  address and time to live, and with nothing else.\<close>

theorem applied_rule_resolves:
  assumes "dns_service client base B db_of" and "bolt_store B" and "next_label_ok nl" and "reordering iter"
    and "store_ok B (db_of w)" and "bolt_begin B False (db_of w) = None" and "bolt_begin B False (db_of w') = None"
    and "se_dnsAgent E = RestDNSAgent client (Some base)"
    and "addDNSOnLocalDns E ruleId (Some n) x t w = (None, t', w')" and "dr_State (dns_at t' n) = ActiveState"
    and "to_lower (q_Name q) = to_lower (agent_host (dr_DomainName (dns_at t' n)))"
    and "q_Qtype q = (if dr_IPAddressType (dns_at t' n) = IPv6Type then TypeAAAA else TypeA)" and "q_Qclass q = ClassINET"
    and "question_zones nl (to_lower (q_Name q)) = Some zs" and "''.'' \<in> set zs"
  shows "GetResourceRecord B nl iter q (db_of w') = Some (Inr [answerRR q (dr_TTL (dns_at t' n)) (dr_IPAddress (dns_at t' n))])"
proof -
  from applied_rule_stored [OF assms(1,8,9,10)] obtain m where
    h: "handleAddResourceRecords B ''.'' (Some \<lparr>rr_Name = agent_host (dr_DomainName (dns_at t' n)),
      rr_Type = rr_type_of (dns_at t' n), rr_Class = ''IN'', rr_TTL = dr_TTL (dns_at t' n), rr_RData = [dr_IPAddress (dns_at t' n)]\<rparr>) (db_of w)
    = (Inr (StatusOK, m), db_of w')" by blast
  show ?thesis
    using bolt_store.add_then_lookup [OF assms(2-7) h, of q zs] assms(11-15)
    by (simp add: rr_type_of_def rrTypeMap_def rrClassMap_def default_zone_def)
qed

definition rule_env :: "dns_world sync_env" where
  "rule_env = local_env False ''all'' ''http://localhost:8080/mep/dns_server_mgmt/v1/''"

theorem applied_rule_resolves_witness:
  "\<exists>t' w'. addDNSOnLocalDns rule_env ''d1'' (Some (True, 0)) None (sample_task sample_config) (sync_world sample_config []) = (None, t', w')
    \<and> GetResourceRecord (mem_bolt_ops False) plain_next_label rev www_question (dw_dns w')
      = Some (Inr [answerRR www_question 30 ''10.0.0.7''])"
proof -
  let ?run = "addDNSOnLocalDns rule_env ''d1'' (Some (True, 0)) None (sample_task sample_config) (sync_world sample_config [])"
  have r: "fst ?run = None" "fst (snd ?run) = sample_task sample_config" by code_simp+
  then obtain w' where w': "?run = (None, sample_task sample_config, w')" by (metis prod.collapse)
  have q: "dr_State (dns_at (sample_task sample_config) (True, 0)) = ActiveState"
    "to_lower (q_Name www_question) = to_lower (agent_host (dr_DomainName (dns_at (sample_task sample_config) (True, 0))))"
    "q_Qtype www_question = (if dr_IPAddressType (dns_at (sample_task sample_config) (True, 0)) = IPv6Type then TypeAAAA else TypeA)"
    "q_Qclass www_question = ClassINET"
    "question_zones plain_next_label (to_lower (q_Name www_question)) = Some [''www.example.com.'', ''example.com.'', ''com.'', ''.'']"
    "''.'' \<in> set [''www.example.com.'', ''example.com.'', ''com.'', ''.'']"
    by code_simp+
  have ok: "store_ok (mem_bolt_ops False) (dw_dns (sync_world sample_config []))" by (simp add: sync_world_def)
  have d: "dns_at (sample_task sample_config) (True, 0) = dns_rule ''d1'' ''www.example.com''" by code_simp
  have a: "se_dnsAgent rule_env = RestDNSAgent (local_client ''http://localhost:8080/mep/dns_server_mgmt/v1/'')
      (Some ''http://localhost:8080/mep/dns_server_mgmt/v1/'')" by (simp add: rule_env_def local_env_def)
  show ?thesis
    using applied_rule_resolves [where db_of = dw_dns, OF local_dns.dns_service_axioms mem_bolt.bolt_store_axioms plain_next_label_ok reordering_rev
        ok mem_bolt_begin mem_bolt_begin a w' q] w'
    by (simp add: d dns_rule_def)
qed

end
